(* ===== verification/Prelude.thy ===== *)
theory Prelude
  imports Main "HOL-Library.State_Monad" "HOL-Library.Multiset"
begin

section \<open>Prelude: the parts of Go and its standard library the operator uses\<close>

text \<open>
  Shared vocabulary of the development.
  \<^item> Errors: Go's \<^verbatim>\<open>error\<close> values as \<open>goerror\<close>. A format string and its arguments are kept
    apart, so that no message formatting is modelled; wrapping keeps the wrapped error, because
    \<^verbatim>\<open>apierrors.IsNotFound\<close>, \<^verbatim>\<open>apierrors.IsConflict\<close> and \<^verbatim>\<open>errors.As\<close> look through it.
  \<^item> Strings: byte strings (\<open>string\<close>); \<open>ToLower\<close> changes ASCII letters.
  \<^item> Time: \<open>time\<close> counts nanoseconds since Go's zero \<^verbatim>\<open>time.Time\<close> and \<open>duration\<close> is a signed
    64-bit number of nanoseconds. \<open>time_Sub\<close> saturates as \<^verbatim>\<open>Time.Sub\<close> does; the subtraction of
    two durations wraps (\<open>wrap64\<close>).

  Stateful code is written in the monad of \<^theory_text>\<open>HOL-Library.State_Monad\<close>; the logic for its runs is in
  \<^verbatim>\<open>Effects\<close>.
\<close>

subsection \<open>Errors\<close>

datatype api_reason = NotFound | Conflict | OtherReason

datatype goerror =
    APIStatus api_reason string
  | NoMatch string
  | CtxErr string
  | Newf string "fmtarg list"
  | Wrapf goerror string "fmtarg list"
  | CombineErrors goerror goerror
and fmtarg = AStr string | AInt int | AErrs "goerror list"

type_synonym 'a result = "goerror + 'a"

abbreviation New :: "string \<Rightarrow> goerror" where
  "New m \<equiv> Newf m []"

abbreviation Wrap :: "goerror \<Rightarrow> string \<Rightarrow> goerror" where
  "Wrap e m \<equiv> Wrapf e m []"

text \<open>The innermost error of a chain of wraps; the first one of a combination.\<close>

fun root_error :: "goerror \<Rightarrow> goerror" where
  "root_error (Wrapf e _ _) = root_error e"
| "root_error (CombineErrors e _) = root_error e"
| "root_error e = e"

definition IsNotFound :: "goerror \<Rightarrow> bool" where
  "IsNotFound e = (case root_error e of APIStatus r _ \<Rightarrow> r = NotFound | _ \<Rightarrow> False)"

definition IsConflict :: "goerror \<Rightarrow> bool" where
  "IsConflict e = (case root_error e of APIStatus r _ \<Rightarrow> r = Conflict | _ \<Rightarrow> False)"

text \<open>\<^verbatim>\<open>errors.As\<close> at \<^verbatim>\<open>*meta.NoKindMatchError\<close> or \<^verbatim>\<open>*meta.NoResourceMatchError\<close>.\<close>

definition IsNoMatch :: "goerror \<Rightarrow> bool" where
  "IsNoMatch e = (case root_error e of NoMatch _ \<Rightarrow> True | _ \<Rightarrow> False)"

lemma error_class_Wrapf [simp]:
  "IsNotFound (Wrapf e m as) = IsNotFound e"
  "IsConflict (Wrapf e m as) = IsConflict e"
  "IsNoMatch (Wrapf e m as) = IsNoMatch e"
  by (simp_all add: IsNotFound_def IsConflict_def IsNoMatch_def)

subsection \<open>Strings\<close>

definition HasPrefix :: "string \<Rightarrow> string \<Rightarrow> bool" where
  "HasPrefix s p = (take (length p) s = p)"

definition HasSuffix :: "string \<Rightarrow> string \<Rightarrow> bool" where
  "HasSuffix s p = (length p \<le> length s \<and> drop (length s - length p) s = p)"

fun Contains :: "string \<Rightarrow> string \<Rightarrow> bool" where
  "Contains [] sub = (sub = [])"
| "Contains (c # cs) sub = (HasPrefix (c # cs) sub \<or> Contains cs sub)"

lemma HasPrefix_iff: "HasPrefix s p \<longleftrightarrow> (\<exists>r. s = p @ r)"
  by (auto simp: HasPrefix_def) (metis append_take_drop_id)

lemma HasSuffix_iff: "HasSuffix s p \<longleftrightarrow> (\<exists>r. s = r @ p)"
  by (auto simp: HasSuffix_def) (metis append_take_drop_id)

lemma Contains_iff: "Contains s sub \<longleftrightarrow> (\<exists>u v. s = u @ sub @ v)"
proof (induction s)
  case Nil
  then show ?case by auto
next
  case (Cons c cs)
  have "(\<exists>u v. c # cs = u @ sub @ v) \<longleftrightarrow> (\<exists>v. c # cs = sub @ v) \<or> (\<exists>u v. cs = u @ sub @ v)"
    by (auto simp: Cons_eq_append_conv)
  with Cons.IH show ?case by (simp add: HasPrefix_iff)
qed

text \<open>\<^verbatim>\<open>strings.Split\<close> at a separator of one character.\<close>

fun split_on :: "char \<Rightarrow> string \<Rightarrow> string list" where
  "split_on d [] = [[]]"
| "split_on d (c # cs) =
     (if c = d then [] # split_on d cs
      else (case split_on d cs of [] \<Rightarrow> [[c]] | w # ws \<Rightarrow> (c # w) # ws))"

lemma split_on_not_Nil [simp]: "split_on d s \<noteq> []"
  by (cases s) (auto split: list.split)

lemma split_on_notin: "d \<notin> set s \<Longrightarrow> split_on d s = [s]"
  by (induction s) auto

lemma split_on_append: "d \<notin> set u \<Longrightarrow> split_on d (u @ d # v) = u # split_on d v"
  by (induction u) auto

definition lower_char :: "char \<Rightarrow> char" where
  "lower_char c =
     (if 65 \<le> (of_char c :: nat) \<and> (of_char c :: nat) \<le> 90
      then char_of ((of_char c :: nat) + 32) else c)"

definition ToLower :: "string \<Rightarrow> string" where
  "ToLower s = map lower_char s"

definition is_digit :: "char \<Rightarrow> bool" where
  "is_digit c = (48 \<le> (of_char c :: nat) \<and> (of_char c :: nat) \<le> 57)"

definition digit_value :: "char \<Rightarrow> int" where
  "digit_value c = int (of_char c) - 48"

text \<open>\<^verbatim>\<open>unicode.IsSpace\<close> on ASCII.\<close>

definition is_space :: "char \<Rightarrow> bool" where
  "is_space c = ((of_char c :: nat) \<in> {9, 10, 11, 12, 13, 32})"

definition TrimSpace :: "string \<Rightarrow> string" where
  "TrimSpace s = rev (dropWhile is_space (rev (dropWhile is_space s)))"

text \<open>Decimal notation of a number, as \<^verbatim>\<open>%d\<close> and \<^verbatim>\<open>strconv.Itoa\<close> print it.\<close>

fun nat_dec :: "nat \<Rightarrow> string" where
  "nat_dec n = (if n < 10 then [char_of (48 + n)]
                else nat_dec (n div 10) @ [char_of (48 + n mod 10)])"

declare nat_dec.simps [simp del]

lemma nat_dec_not_Nil [simp]: "nat_dec n \<noteq> []"
  by (simp add: nat_dec.simps [of n])

lemma nat_dec_digits: "list_all is_digit (nat_dec n)"
proof (induction n rule: nat_dec.induct)
  case (1 n)
  moreover have "is_digit (char_of (48 + m))" if "m < 10" for m :: nat
    using that by (simp add: is_digit_def)
  ultimately show ?case by (subst nat_dec.simps) simp
qed

definition itoa :: "int \<Rightarrow> string" where
  "itoa i = (if i < 0 then ''-'' @ nat_dec (nat (- i)) else nat_dec (nat i))"

subsection \<open>Machine integers and time\<close>

definition wrap64 :: "int \<Rightarrow> int" where
  "wrap64 x = (x + 2 ^ 63) mod 2 ^ 64 - 2 ^ 63"

definition wrap32 :: "int \<Rightarrow> int" where
  "wrap32 x = (x + 2 ^ 31) mod 2 ^ 32 - 2 ^ 31"

lemma wrap64_id: "- (2 ^ 63) \<le> x \<Longrightarrow> x < 2 ^ 63 \<Longrightarrow> wrap64 x = x"
  by (simp add: wrap64_def)

lemma wrap32_id: "- (2 ^ 31) \<le> x \<Longrightarrow> x < 2 ^ 31 \<Longrightarrow> wrap32 x = x"
  by (simp add: wrap32_def)

type_synonym time = int
type_synonym duration = int

abbreviation Second :: duration where "Second \<equiv> 1000000000"
abbreviation Minute :: duration where "Minute \<equiv> 60 * Second"
abbreviation Hour :: duration where "Hour \<equiv> 3600 * Second"

definition zero_time :: time where "zero_time = 0"

text \<open>Seconds from Go's zero time to the Unix epoch.\<close>

definition unix_to_internal :: int where "unix_to_internal = 62135596800"

definition time_Unix :: "int \<Rightarrow> time" where
  "time_Unix sec = wrap64 (sec + unix_to_internal) * Second"

definition Unix :: "time \<Rightarrow> int" where
  "Unix t = t div Second - unix_to_internal"

definition max_duration :: duration where "max_duration = 2 ^ 63 - 1"
definition min_duration :: duration where "min_duration = - (2 ^ 63)"

definition time_Sub :: "time \<Rightarrow> time \<Rightarrow> duration" where
  "time_Sub t u = max min_duration (min max_duration (t - u))"

lemma time_Sub_exact:
  "min_duration \<le> t - u \<Longrightarrow> t - u \<le> max_duration \<Longrightarrow> time_Sub t u = t - u"
  by (simp add: time_Sub_def)

lemma time_Sub_ge_iff:
  assumes "min_duration < d" and "d \<le> max_duration"
  shows "d \<le> time_Sub t u \<longleftrightarrow> d \<le> t - u"
  using assms by (auto simp: time_Sub_def)

subsection \<open>Parsing an integer with \<^verbatim>\<open>fmt.Sscanf(s, "%d", &ts)\<close>\<close>

text \<open>
  Leading space is skipped (a newline is an error), an optional sign is read, then the longest run
  of digits, which must be non-empty and fit in 64 bits. What follows the number is not looked at.
\<close>

fun skip_space :: "string \<Rightarrow> string option" where
  "skip_space [] = Some []"
| "skip_space (c # cs) =
     (if c = CHR 0x0D \<and> take 1 cs = [CHR 0x0A] then skip_space cs
      else if c = CHR 0x0A then None
      else if is_space c then skip_space cs
      else Some (c # cs))"

fun digits_value :: "int \<Rightarrow> string \<Rightarrow> int" where
  "digits_value acc [] = acc"
| "digits_value acc (c # cs) = digits_value (10 * acc + digit_value c) cs"

definition Sscanf_d :: "string \<Rightarrow> int option" where
  "Sscanf_d s =
     (case skip_space s of
        None \<Rightarrow> None
      | Some r \<Rightarrow>
          (let neg = (take 1 r = ''-'');
               body = (if take 1 r = ''-'' \<or> take 1 r = ''+'' then drop 1 r else r);
               ds = takeWhile is_digit body;
               v = (if neg then - digits_value 0 ds else digits_value 0 ds)
           in if ds = [] \<or> v < - (2 ^ 63) \<or> 2 ^ 63 \<le> v then None else Some v))"

end
