(* ===== verification/ApiTypes.thy ===== *)
theory ApiTypes
  imports Prelude
begin

section \<open>The custom resources: Plugin and PaperMCServer\<close>

text \<open>
  The structs of \<^verbatim>\<open>api/v1beta1/plugin_types.go\<close> and \<^verbatim>\<open>api/v1beta1/papermcserver_types.go\<close>, one
  record per struct with the source's field order. A field \<open>xx_F\<close> is the Go field \<open>F\<close> of the
  struct the prefix abbreviates. A pointer is an \<open>option\<close>; a map is a partial function, in which a
  nil and an empty Go map are the same; \<^verbatim>\<open>int32\<close> and \<^verbatim>\<open>int\<close> fields are \<open>int\<close>, and the places
  where the code narrows a value to them use \<open>wrap32\<close>. Of the Kubernetes types (object
  metadata, conditions, label selectors, pod templates) the fields the operator reads are kept.
\<close>

subsection \<open>Kubernetes types the structs embed\<close>

record OwnerReference =
  or_UID :: string
  or_Name :: string
  or_Controller :: bool

record ObjectMeta =
  m_Name :: string
  m_Namespace :: string
  m_Labels :: "string \<rightharpoonup> string"
  m_Annotations :: "string \<rightharpoonup> string"
  m_Generation :: int
  m_ResourceVersion :: string
  m_DeletionTimestamp :: "time option"
  m_Finalizers :: "string list"
  m_UID :: string
  m_OwnerReferences :: "OwnerReference list"

datatype ConditionStatus = ConditionTrue | ConditionFalse | ConditionUnknown

record Condition =
  c_Type :: string
  c_Status :: ConditionStatus
  c_ObservedGeneration :: int
  c_LastTransitionTime :: time
  c_Reason :: string
  c_Message :: string

record LabelSelector =
  ls_MatchLabels :: "(string \<times> string) list"
  ls_MatchExpressions :: "(string \<times> string \<times> string list) list"

text \<open>A variable has a literal value or refers to a key of a secret.\<close>

record EnvVar =
  ev_Name :: string
  ev_Value :: string
  ev_SecretKeyRef :: "(string \<times> string) option"

record VolumeMount =
  vm_Name :: string
  vm_MountPath :: string
  vm_ReadOnly :: bool

record SecurityContext =
  sx_AllowPrivilegeEscalation :: "bool option"
  sx_ReadOnlyRootFilesystem :: "bool option"
  sx_Drop :: "string list"

record Container =
  ct_Name :: string
  ct_Image :: string
  ct_Command :: "string list"
  ct_Env :: "EnvVar list"
  ct_VolumeMounts :: "VolumeMount list"
  ct_SecurityContext :: "SecurityContext option"

text \<open>A volume from a ConfigMap (name and file mode), from a secret, or from any other source.\<close>

datatype VolumeSource = VS_ConfigMap string "int option" | VS_Secret string | VS_Other string

record Volume =
  vol_Name :: string
  vol_Source :: VolumeSource

record PodSpec =
  pod_Containers :: "Container list"
  pod_InitContainers :: "Container list"
  pod_Volumes :: "Volume list"
  pod_TerminationGracePeriodSeconds :: "int option"

record PodTemplateSpec =
  pt_Labels :: "string \<rightharpoonup> string"
  pt_Annotations :: "string \<rightharpoonup> string"
  pt_Spec :: PodSpec

subsection \<open>Plugin\<close>

record PluginSource =
  src_Type :: string
  src_Project :: string
  src_URL :: string
  src_Checksum :: string

record CompatibilityOverride =
  co_Enabled :: bool
  co_MinecraftVersions :: "string list"

record ConfigMapKeyRef =
  ck_Name :: string
  ck_Key :: string

record PluginConfigFile =
  pcf_ConfigMapRef :: ConfigMapKeyRef
  pcf_Path :: string
  pcf_Overwrite :: string

record PluginEndpoint =
  ep_Name :: string
  ep_Port :: int
  ep_Protocol :: string

record PluginSpec =
  ps_Source :: PluginSource
  ps_UpdateStrategy :: string
  ps_Version :: string
  ps_Build :: "int option"
  ps_UpdateDelay :: "duration option"
  ps_InstanceSelector :: LabelSelector
  ps_Endpoints :: "PluginEndpoint list"
  ps_PluginDirName :: string
  ps_Configs :: "PluginConfigFile list"
  ps_CompatibilityOverride :: "CompatibilityOverride option"

record PluginVersionInfo =
  pvi_Version :: string
  pvi_MinecraftVersions :: "string list"
  pvi_DownloadURL :: string
  pvi_Hash :: string
  pvi_CachedAt :: time
  pvi_ReleasedAt :: time

record MatchedInstance =
  mi_Name :: string
  mi_Namespace :: string
  mi_Version :: string
  mi_Compatible :: bool

record DeletionProgressEntry =
  dp_ServerName :: string
  dp_Namespace :: string
  dp_JARDeleted :: bool
  dp_DeletedAt :: "time option"
  dp_DeletionRequestedAt :: "time option"

record PluginStatus =
  pst_AvailableVersions :: "PluginVersionInfo list"
  pst_MatchedInstances :: "MatchedInstance list"
  pst_RepositoryStatus :: string
  pst_LastFetched :: "time option"
  pst_DeletionProgress :: "DeletionProgressEntry list"
  pst_Conditions :: "Condition list"

record Plugin =
  pl_Meta :: ObjectMeta
  pl_Spec :: PluginSpec
  pl_Status :: PluginStatus

subsection \<open>PaperMCServer: the spec\<close>

record MaintenanceWindow =
  mw_Cron :: string
  mw_Enabled :: bool

record UpdateSchedule =
  us_CheckCron :: string
  us_MaintenanceWindow :: MaintenanceWindow

record GracefulShutdown =
  gs_Timeout :: duration

record SecretKeyRef =
  sk_Name :: string
  sk_Key :: string

record RCONConfig =
  rc_Enabled :: bool
  rc_PasswordSecret :: SecretKeyRef
  rc_Port :: int

record PluginHTTPRoute =
  hr_PluginName :: string
  hr_EndpointName :: string
  hr_Hostname :: string
  hr_PathPrefix :: string

record GatewayParentRef =
  gp_Name :: string
  gp_Namespace :: string
  gp_SectionName :: string

record RouteConfig =
  rt_Enabled :: bool

record GatewayConfig =
  gw_Enabled :: bool
  gw_ParentRefs :: "GatewayParentRef list"
  gw_TCPRoute :: "RouteConfig option"
  gw_UDPRoute :: "RouteConfig option"
  gw_HTTPRoutes :: "PluginHTTPRoute list"

record NetworkPolicySource =
  nps_CIDR :: string
  nps_PodSelector :: "LabelSelector option"
  nps_NamespaceSelector :: "LabelSelector option"

record NetworkPolicyDestination =
  npd_CIDR :: string
  npd_Port :: "int option"
  npd_Protocol :: "string option"

record ServerNetworkPolicy =
  snp_Enabled :: bool
  snp_AllowFrom :: "NetworkPolicySource list"
  snp_RestrictEgress :: "bool option"
  snp_AllowEgressTo :: "NetworkPolicyDestination list"

record NetworkConfig =
  nc_NetworkPolicy :: "ServerNetworkPolicy option"

record ServiceConfig =
  sc_Type :: string
  sc_Annotations :: "string \<rightharpoonup> string"
  sc_LoadBalancerIP :: string

record BackupRetention =
  br_MaxCount :: int

record BackupSpec =
  bk_Enabled :: bool
  bk_Schedule :: string
  bk_BeforeUpdate :: "bool option"
  bk_VolumeSnapshotClassName :: string
  bk_Retention :: BackupRetention

record ServerPluginConfig =
  spc_PluginName :: string
  spc_Configs :: "PluginConfigFile list"

record ServerConfigFile =
  scf_ConfigMapRef :: ConfigMapKeyRef
  scf_Path :: string
  scf_Overwrite :: string

record PaperMCServerSpec =
  ss_UpdateStrategy :: string
  ss_Version :: string
  ss_Build :: "int option"
  ss_UpdateDelay :: "duration option"
  ss_UpdateSchedule :: UpdateSchedule
  ss_GracefulShutdown :: GracefulShutdown
  ss_RCON :: RCONConfig
  ss_Service :: ServiceConfig
  ss_Gateway :: "GatewayConfig option"
  ss_Backup :: "BackupSpec option"
  ss_Network :: "NetworkConfig option"
  ss_PluginConfigs :: "ServerPluginConfig list"
  ss_ServerConfigs :: "ServerConfigFile list"
  ss_PodTemplate :: PodTemplateSpec

subsection \<open>PaperMCServer: the status\<close>

record PluginRef =
  pr_Name :: string
  pr_Namespace :: string

record ServerPluginStatus =
  sp_PluginRef :: PluginRef
  sp_ResolvedVersion :: string
  sp_CurrentVersion :: string
  sp_DesiredVersion :: string
  sp_Compatible :: bool
  sp_Source :: string
  sp_PendingDeletion :: bool
  sp_InstalledJARName :: string

record PluginVersionPair =
  pvp_PluginRef :: PluginRef
  pvp_Version :: string

record AvailableUpdate =
  au_Version :: string
  au_Build :: int
  au_ReleasedAt :: time
  au_Plugins :: "PluginVersionPair list"
  au_FoundAt :: time

record UpdateHistory =
  uh_AppliedAt :: time
  uh_PreviousVersion :: string
  uh_Successful :: bool

record BlockedByInfo =
  bb_Plugin :: string
  bb_Version :: string
  bb_SupportedVersions :: "string list"

record UpdateBlockedStatus =
  ub_Blocked :: bool
  ub_Reason :: string
  ub_BlockedBy :: "BlockedByInfo option"

record BackupRecord =
  bkr_SnapshotName :: string
  bkr_StartedAt :: time
  bkr_CompletedAt :: "time option"
  bkr_Successful :: bool
  bkr_Trigger :: string

record BackupStatus =
  bks_LastBackup :: "BackupRecord option"
  bks_BackupCount :: int

record PaperMCServerStatus =
  st_CurrentVersion :: string
  st_CurrentBuild :: int
  st_DesiredVersion :: string
  st_DesiredBuild :: int
  st_Plugins :: "ServerPluginStatus list"
  st_AvailableUpdate :: "AvailableUpdate option"
  st_LastUpdate :: "UpdateHistory option"
  st_UpdateBlocked :: "UpdateBlockedStatus option"
  st_Backup :: "BackupStatus option"
  st_Conditions :: "Condition list"

record PaperMCServer =
  sv_Meta :: ObjectMeta
  sv_Spec :: PaperMCServerSpec
  sv_Status :: PaperMCServerStatus

abbreviation sv_Name :: "PaperMCServer \<Rightarrow> string" where
  "sv_Name s \<equiv> m_Name (sv_Meta s)"

abbreviation sv_Namespace :: "PaperMCServer \<Rightarrow> string" where
  "sv_Namespace s \<equiv> m_Namespace (sv_Meta s)"

abbreviation sv_Labels :: "PaperMCServer \<Rightarrow> (string \<rightharpoonup> string)" where
  "sv_Labels s \<equiv> m_Labels (sv_Meta s)"

abbreviation sv_Annotations :: "PaperMCServer \<Rightarrow> (string \<rightharpoonup> string)" where
  "sv_Annotations s \<equiv> m_Annotations (sv_Meta s)"

abbreviation pl_Name :: "Plugin \<Rightarrow> string" where
  "pl_Name p \<equiv> m_Name (pl_Meta p)"

abbreviation pl_Namespace :: "Plugin \<Rightarrow> string" where
  "pl_Namespace p \<equiv> m_Namespace (pl_Meta p)"

subsection \<open>The Go zero values, from which the witnesses build their objects\<close>

definition zero_meta :: ObjectMeta where
  "zero_meta = \<lparr>m_Name = [], m_Namespace = [], m_Labels = Map.empty, m_Annotations = Map.empty,
     m_Generation = 0, m_ResourceVersion = [], m_DeletionTimestamp = None, m_Finalizers = [],
     m_UID = [], m_OwnerReferences = []\<rparr>"

definition zero_pod_spec :: PodSpec where
  "zero_pod_spec = \<lparr>pod_Containers = [], pod_InitContainers = [], pod_Volumes = [],
     pod_TerminationGracePeriodSeconds = None\<rparr>"

definition zero_selector :: LabelSelector where
  "zero_selector = \<lparr>ls_MatchLabels = [], ls_MatchExpressions = []\<rparr>"

definition zero_plugin_spec :: PluginSpec where
  "zero_plugin_spec =
     \<lparr>ps_Source = \<lparr>src_Type = [], src_Project = [], src_URL = [], src_Checksum = []\<rparr>,
      ps_UpdateStrategy = [], ps_Version = [], ps_Build = None, ps_UpdateDelay = None,
      ps_InstanceSelector = zero_selector, ps_Endpoints = [], ps_PluginDirName = [],
      ps_Configs = [], ps_CompatibilityOverride = None\<rparr>"

definition zero_plugin :: Plugin where
  "zero_plugin =
     \<lparr>pl_Meta = zero_meta, pl_Spec = zero_plugin_spec,
      pl_Status = \<lparr>pst_AvailableVersions = [], pst_MatchedInstances = [],
        pst_RepositoryStatus = [], pst_LastFetched = None, pst_DeletionProgress = [],
        pst_Conditions = []\<rparr>\<rparr>"

definition zero_server_spec :: PaperMCServerSpec where
  "zero_server_spec =
     \<lparr>ss_UpdateStrategy = [], ss_Version = [], ss_Build = None, ss_UpdateDelay = None,
      ss_UpdateSchedule = \<lparr>us_CheckCron = [],
        us_MaintenanceWindow = \<lparr>mw_Cron = [], mw_Enabled = False\<rparr>\<rparr>,
      ss_GracefulShutdown = \<lparr>gs_Timeout = 0\<rparr>,
      ss_RCON = \<lparr>rc_Enabled = False, rc_PasswordSecret = \<lparr>sk_Name = [], sk_Key = []\<rparr>,
        rc_Port = 0\<rparr>,
      ss_Service = \<lparr>sc_Type = [], sc_Annotations = Map.empty, sc_LoadBalancerIP = []\<rparr>,
      ss_Gateway = None, ss_Backup = None, ss_Network = None, ss_PluginConfigs = [],
      ss_ServerConfigs = [],
      ss_PodTemplate = \<lparr>pt_Labels = Map.empty, pt_Annotations = Map.empty,
        pt_Spec = zero_pod_spec\<rparr>\<rparr>"

definition zero_server_status :: PaperMCServerStatus where
  "zero_server_status =
     \<lparr>st_CurrentVersion = [], st_CurrentBuild = 0, st_DesiredVersion = [], st_DesiredBuild = 0,
      st_Plugins = [], st_AvailableUpdate = None, st_LastUpdate = None, st_UpdateBlocked = None,
      st_Backup = None, st_Conditions = []\<rparr>"

definition zero_server :: PaperMCServer where
  "zero_server =
     \<lparr>sv_Meta = zero_meta, sv_Spec = zero_server_spec, sv_Status = zero_server_status\<rparr>"

lemmas zero_defs = zero_meta_def zero_pod_spec_def zero_selector_def zero_plugin_spec_def zero_plugin_def
  zero_server_spec_def zero_server_status_def zero_server_def

end
