(* ===== verification/Regexp.thy ===== *)
theory Regexp
  imports Prelude
begin

section \<open>Regular expressions\<close>

text \<open>
  The patterns the admission webhooks compile with \<^verbatim>\<open>regexp.MustCompile\<close> are anchored
  (\<^verbatim>\<open>^...$\<close>), so \<^verbatim>\<open>MatchString\<close> decides membership of the whole string in the language of the
  pattern. \<open>rx\<close> is the syntax of the patterns, \<open>lang\<close> their language, \<open>MatchString\<close> an
  executable matcher by derivatives, and \<open>MatchString_iff\<close> its correctness.
\<close>

datatype rx =
    Zero
  | One
  | Cls "(char \<times> char) list"
  | Cat rx rx
  | Alt rx rx
  | Star rx

text \<open>\<open>Cls\<close> is a character class as a list of ranges, \<open>Lit\<close> a literal character, \<open>Opt\<close> is \<^verbatim>\<open>?\<close>,
  \<open>Plus\<close> is \<^verbatim>\<open>+\<close> and \<open>Rep n\<close> is \<^verbatim>\<open>{n}\<close>.\<close>

abbreviation Lit :: "char \<Rightarrow> rx" where "Lit c \<equiv> Cls [(c, c)]"
abbreviation Opt :: "rx \<Rightarrow> rx" where "Opt r \<equiv> Alt One r"
abbreviation Plus :: "rx \<Rightarrow> rx" where "Plus r \<equiv> Cat r (Star r)"

primrec Rep :: "nat \<Rightarrow> rx \<Rightarrow> rx" where
  "Rep 0 r = One"
| "Rep (Suc n) r = Cat r (Rep n r)"

definition in_cls :: "(char \<times> char) list \<Rightarrow> char \<Rightarrow> bool" where
  "in_cls rs c = list_ex (\<lambda>(lo, hi). (of_char lo :: nat) \<le> of_char c \<and> (of_char c :: nat) \<le> of_char hi) rs"

inductive_set star :: "string set \<Rightarrow> string set" for A :: "string set" where
  Nil: "[] \<in> star A"
| Step: "u \<in> A \<Longrightarrow> v \<in> star A \<Longrightarrow> u @ v \<in> star A"

primrec lang :: "rx \<Rightarrow> string set" where
  "lang Zero = {}"
| "lang One = {[]}"
| "lang (Cls rs) = {[c] | c. in_cls rs c}"
| "lang (Cat r s) = {u @ v | u v. u \<in> lang r \<and> v \<in> lang s}"
| "lang (Alt r s) = lang r \<union> lang s"
| "lang (Star r) = star (lang r)"

primrec nullable :: "rx \<Rightarrow> bool" where
  "nullable Zero = False"
| "nullable One = True"
| "nullable (Cls rs) = False"
| "nullable (Cat r s) = (nullable r \<and> nullable s)"
| "nullable (Alt r s) = (nullable r \<or> nullable s)"
| "nullable (Star r) = True"

text \<open>Sequence and choice that drop dead branches, so that derivatives stay small.\<close>

fun cat' :: "rx \<Rightarrow> rx \<Rightarrow> rx" where
  "cat' Zero s = Zero"
| "cat' One s = s"
| "cat' r s = (if s = Zero then Zero else Cat r s)"

definition alt' :: "rx \<Rightarrow> rx \<Rightarrow> rx" where
  "alt' r s = (if r = Zero then s else if s = Zero \<or> r = s then r else Alt r s)"

primrec deriv :: "char \<Rightarrow> rx \<Rightarrow> rx" where
  "deriv c Zero = Zero"
| "deriv c One = Zero"
| "deriv c (Cls rs) = (if in_cls rs c then One else Zero)"
| "deriv c (Cat r s) = (if nullable r then alt' (cat' (deriv c r) s) (deriv c s) else cat' (deriv c r) s)"
| "deriv c (Alt r s) = alt' (deriv c r) (deriv c s)"
| "deriv c (Star r) = cat' (deriv c r) (Star r)"

primrec MatchString :: "rx \<Rightarrow> string \<Rightarrow> bool" where
  "MatchString r [] = nullable r"
| "MatchString r (c # cs) = MatchString (deriv c r) cs"

lemma nullable_iff: "nullable r \<longleftrightarrow> [] \<in> lang r"
  by (induction r) (auto intro: star.Nil)

lemma lang_cat' [simp]: "lang (cat' r s) = lang (Cat r s)"
  by (cases "(r, s)" rule: cat'.cases) auto

lemma lang_alt' [simp]: "lang (alt' r s) = lang (Alt r s)"
  by (auto simp: alt'_def)

lemma star_ConsD: "w \<in> star A \<Longrightarrow> w = c # cs \<Longrightarrow> \<exists>u v. c # u \<in> A \<and> v \<in> star A \<and> cs = u @ v"
proof (induction arbitrary: cs rule: star.induct)
  case (Step u v)
  then show ?case by (cases u) auto
qed simp

lemma star_Cons_iff: "c # cs \<in> star A \<longleftrightarrow> (\<exists>u v. c # u \<in> A \<and> v \<in> star A \<and> cs = u @ v)"
  using star_ConsD star.Step [of "c # _" A] by fastforce

lemma Cons_in_cat_iff:
  "c # cs \<in> lang (Cat r s) \<longleftrightarrow>
     (\<exists>u v. cs = u @ v \<and> c # u \<in> lang r \<and> v \<in> lang s) \<or> ([] \<in> lang r \<and> c # cs \<in> lang s)"
  by (auto simp: Cons_eq_append_conv)

lemma lang_deriv: "cs \<in> lang (deriv c r) \<longleftrightarrow> c # cs \<in> lang r"
proof (induction r arbitrary: cs)
  case (Cat r s)
  then show ?case by (simp only: Cons_in_cat_iff) (auto simp: nullable_iff)
next
  case (Star r)
  then show ?case by (auto simp: star_Cons_iff)
qed auto

lemma MatchString_iff: "MatchString r s \<longleftrightarrow> s \<in> lang r"
  by (induction s arbitrary: r) (simp_all add: nullable_iff lang_deriv)

subsection \<open>Classes under repetition\<close>

lemma star_Cls: "s \<in> star {[c] | c. P c} \<longleftrightarrow> list_all P s"
proof
  show "s \<in> star {[c] | c. P c} \<Longrightarrow> list_all P s"
    by (induction rule: star.induct) auto
  show "list_all P s \<Longrightarrow> s \<in> star {[c] | c. P c}"
  proof (induction s)
    case (Cons c cs)
    then show ?case using star.Step [of "[c]" "{[c] | c. P c}" cs] by auto
  qed (rule star.Nil)
qed

lemma lang_Star_Cls: "s \<in> lang (Star (Cls rs)) \<longleftrightarrow> list_all (in_cls rs) s"
  by (simp only: lang.simps star_Cls)

lemma lang_Cat_Cls:
  "s \<in> lang (Cat (Cls rs) r) \<longleftrightarrow> (\<exists>c cs. s = c # cs \<and> in_cls rs c \<and> cs \<in> lang r)"
  by (auto simp: append_eq_Cons_conv) (metis append_Cons append_Nil)

lemma lang_Plus_Cls: "s \<in> lang (Plus (Cls rs)) \<longleftrightarrow> s \<noteq> [] \<and> list_all (in_cls rs) s"
  by (cases s) (simp_all add: lang_Cat_Cls star_Cls del: lang.simps(4))

lemma lang_Rep_Cls: "s \<in> lang (Rep n (Cls rs)) \<longleftrightarrow> length s = n \<and> list_all (in_cls rs) s"
proof (induction n arbitrary: s)
  case (Suc n)
  then show ?case by (cases s) (auto simp add: lang_Cat_Cls simp del: lang.simps)
qed auto

subsection \<open>Words separated by a character\<close>

lemma star_separated:
  assumes "\<And>w. w \<in> L \<Longrightarrow> d \<notin> set w"
  shows "v \<in> star {d # w | w. w \<in> L} \<Longrightarrow> u \<in> L \<Longrightarrow> list_all (\<lambda>w. w \<in> L) (split_on d (u @ v))"
proof (induction arbitrary: u rule: star.induct)
  case (Step x v)
  then obtain w where "w \<in> L" "x = d # w" by auto
  with Step assms show ?case by (simp add: split_on_append)
qed (simp add: assms split_on_notin)

lemma separated_star:
  "list_all (\<lambda>w. w \<in> L) (split_on d s)
   \<Longrightarrow> \<exists>u v. s = u @ v \<and> u \<in> L \<and> v \<in> star {d # w | w. w \<in> L}"
proof (induction "length s" arbitrary: s rule: less_induct)
  case less
  show ?case
  proof (cases "d \<in> set s")
    case False
    then show ?thesis using less.prems by (auto simp: split_on_notin intro: star.Nil)
  next
    case True
    then obtain u t where s: "s = u @ d # t" "d \<notin> set u" by (meson split_list_first)
    with less.prems have "u \<in> L" "list_all (\<lambda>w. w \<in> L) (split_on d t)"
      by (simp_all add: split_on_append)
    with less.hyps [of t] s obtain w v
      where "t = w @ v" "w \<in> L" "v \<in> star {d # w | w. w \<in> L}" by auto
    moreover from this have "(d # w) @ v \<in> star {d # w | w. w \<in> L}"
      by (intro star.Step) auto
    ultimately show ?thesis using \<open>u \<in> L\<close> s by (intro exI [of _ u] exI [of _ "d # t"]) simp
  qed
qed

lemma lang_Lit_Cat: "lang (Cat (Lit d) r) = {d # w | w. w \<in> lang r}"
  unfolding set_eq_iff lang_Cat_Cls by (auto simp: in_cls_def)

lemma lang_separated:
  assumes "\<And>w. w \<in> lang r \<Longrightarrow> d \<notin> set w"
  shows "s \<in> lang (Cat r (Star (Cat (Lit d) r))) \<longleftrightarrow> list_all (\<lambda>w. w \<in> lang r) (split_on d s)"
proof -
  have "s \<in> lang (Cat r (Star (Cat (Lit d) r))) \<longleftrightarrow>
      (\<exists>u v. s = u @ v \<and> u \<in> lang r \<and> v \<in> star {d # w | w. w \<in> lang r})"
    by (simp add: lang_Lit_Cat [simplified])
  with star_separated [OF assms, where L = "lang r"] separated_star [of "lang r" d s]
  show ?thesis by blast
qed

lemmas match_class_rules = MatchString_iff lang_Star_Cls lang_Plus_Cls lang_Rep_Cls

end
