(* ===== verification/GoNet.thy ===== *)
theory GoNet
  imports Prelude
begin

section \<open>The parts of \<^verbatim>\<open>net\<close>, \<^verbatim>\<open>net/netip\<close>, \<^verbatim>\<open>net/url\<close> and \<^verbatim>\<open>math/big\<close> the operator calls\<close>

text \<open>
  \<^verbatim>\<open>netip.ParseAddr\<close>, \<^verbatim>\<open>net.ParseIP\<close>, the classification methods of \<^verbatim>\<open>net.IP\<close>,
  \<^verbatim>\<open>net.SplitHostPort\<close>, \<^verbatim>\<open>big.Int.SetString\<close> and \<^verbatim>\<open>url.Parse\<close>, on byte strings. Of a \<^verbatim>\<open>url.URL\<close>
  the scheme, the host and the path are kept. An address is its list of 16 bytes, an IPv4 address
  in its IPv4-mapped form, as \<^verbatim>\<open>net.ParseIP\<close> and \<^verbatim>\<open>net.IPv4\<close> return it.
\<close>

subsection \<open>Strings\<close>

definition cut :: "char \<Rightarrow> string \<Rightarrow> string \<times> string" where
  "cut d s = (takeWhile (\<lambda>c. c \<noteq> d) s, drop 1 (dropWhile (\<lambda>c. c \<noteq> d) s))"

text \<open>The parts before and after the last occurrence of a character that occurs.\<close>

definition before_last :: "char \<Rightarrow> string \<Rightarrow> string" where
  "before_last d s = rev (drop 1 (dropWhile (\<lambda>c. c \<noteq> d) (rev s)))"

definition after_last :: "char \<Rightarrow> string \<Rightarrow> string" where
  "after_last d s = rev (takeWhile (\<lambda>c. c \<noteq> d) (rev s))"

definition code :: "char \<Rightarrow> nat" where "code c = of_char c"

definition is_lower :: "char \<Rightarrow> bool" where "is_lower c = (97 \<le> code c \<and> code c \<le> 122)"
definition is_upper :: "char \<Rightarrow> bool" where "is_upper c = (65 \<le> code c \<and> code c \<le> 90)"

definition is_alnum :: "char \<Rightarrow> bool" where
  "is_alnum c = (is_digit c \<or> is_lower c \<or> is_upper c)"

definition hex_value :: "char \<Rightarrow> nat option" where
  "hex_value c =
     (if is_digit c then Some (code c - 48)
      else if 97 \<le> code c \<and> code c \<le> 102 then Some (code c - 87)
      else if 65 \<le> code c \<and> code c \<le> 70 then Some (code c - 55)
      else None)"

fun base_value :: "nat \<Rightarrow> nat \<Rightarrow> string \<Rightarrow> nat option" where
  "base_value b acc [] = Some acc"
| "base_value b acc (c # cs) =
     (case hex_value c of
        None \<Rightarrow> None
      | Some d \<Rightarrow> if d < b then base_value b (b * acc + d) cs else None)"

text \<open>\<^verbatim>\<open>(*big.Int).SetString(s, base)\<close> for a base from 2 to 16: an optional sign and at least one
  digit, and nothing after the digits.\<close>

definition big_SetString :: "string \<Rightarrow> nat \<Rightarrow> int option" where
  "big_SetString s b =
     (let neg = (take 1 s = ''-'');
          ds = (if take 1 s = ''-'' \<or> take 1 s = ''+'' then drop 1 s else s)
      in if ds = [] then None
         else (case base_value b 0 ds of
                 None \<Rightarrow> None
               | Some v \<Rightarrow> Some (if neg then - int v else int v)))"

subsection \<open>Addresses\<close>

definition octet :: "string \<Rightarrow> nat option" where
  "octet s =
     (if s = [] \<or> \<not> list_all is_digit s \<or> (1 < length s \<and> hd s = CHR ''0'') then None
      else (case base_value 10 0 s of
              Some v \<Rightarrow> if v \<le> 255 then Some v else None
            | None \<Rightarrow> None))"

text \<open>The four octets of a dotted-decimal address (\<^verbatim>\<open>parseIPv4Fields\<close>).\<close>

definition parseIPv4Fields :: "string \<Rightarrow> nat list option" where
  "parseIPv4Fields s =
     (case map octet (split_on CHR ''.'' s) of
        [Some a, Some b, Some c, Some d] \<Rightarrow> Some [a, b, c, d]
      | _ \<Rightarrow> None)"

definition v4_mapped :: "nat list \<Rightarrow> nat list" where
  "v4_mapped q = replicate 10 0 @ [255, 255] @ q"

text \<open>
  The loop of \<^verbatim>\<open>parseIPv6\<close>: at most \<open>g\<close> more groups fit, \<open>bs\<close> are the bytes read so far and
  \<open>e\<close> is the position of an ellipsis. It returns the bytes and the position of the ellipsis when
  the whole string was used.
\<close>

fun ipv6_loop :: "nat \<Rightarrow> nat list \<Rightarrow> nat option \<Rightarrow> string \<Rightarrow> (nat list \<times> nat option) option" where
  "ipv6_loop g bs e s =
     (if g = 0 then (if s = [] then Some (bs, e) else None) else
      let ds = takeWhile (\<lambda>c. hex_value c \<noteq> None) s;
          r = dropWhile (\<lambda>c. hex_value c \<noteq> None) s
      in if ds = [] \<or> 4 < length ds then None
         else if take 1 r = ''.'' then
           (if (e = None \<and> length bs \<noteq> 12) \<or> 12 < length bs then None
            else (case parseIPv4Fields s of None \<Rightarrow> None | Some q \<Rightarrow> Some (bs @ q, e)))
         else
           (let v = the (base_value 16 0 ds); bs' = bs @ [v div 256, v mod 256]
            in if r = [] then Some (bs', e)
               else if hd r \<noteq> CHR '':'' \<or> length r = 1 then None
               else if hd (tl r) = CHR '':'' then
                 (if e \<noteq> None then None
                  else if tl (tl r) = [] then Some (bs', Some (length bs'))
                  else ipv6_loop (g - 1) bs' (Some (length bs')) (tl (tl r)))
               else ipv6_loop (g - 1) bs' e (tl r)))"

declare ipv6_loop.simps [simp del]

definition expand_ellipsis :: "nat list \<times> nat option \<Rightarrow> nat list option" where
  "expand_ellipsis p =
     (let bs = fst p
      in case snd p of
           None \<Rightarrow> if length bs < 16 then None else Some bs
         | Some e \<Rightarrow> if length bs < 16 then Some (take e bs @ replicate (16 - length bs) 0 @ drop e bs)
                     else None)"

text \<open>\<^verbatim>\<open>netip.ParseAddr\<close>: whether the address is IPv4, its bytes and its zone.\<close>

definition parseIPv6 :: "string \<Rightarrow> (bool \<times> nat list \<times> string) option" where
  "parseIPv6 s0 =
     (let s = fst (cut CHR ''%'' s0); zone = snd (cut CHR ''%'' s0)
      in if CHR ''%'' \<in> set s0 \<and> zone = [] then None
         else if s = ''::'' then Some (False, replicate 16 0, zone)
         else (case (if HasPrefix s ''::'' then ipv6_loop 8 [] (Some 0) (drop 2 s)
                     else ipv6_loop 8 [] None s) of
                 None \<Rightarrow> None
               | Some p \<Rightarrow> (case expand_ellipsis p of
                              None \<Rightarrow> None
                            | Some bs \<Rightarrow> Some (False, bs, zone))))"

definition ParseAddr :: "string \<Rightarrow> (bool \<times> nat list \<times> string) option" where
  "ParseAddr s =
     (case dropWhile (\<lambda>c. c \<notin> set ''.:%'') s of
        [] \<Rightarrow> None
      | c # _ \<Rightarrow>
          if c = CHR ''.'' then
            (case parseIPv4Fields s of None \<Rightarrow> None | Some q \<Rightarrow> Some (True, v4_mapped q, []))
          else if c = CHR '':'' then parseIPv6 s
          else None)"

type_synonym IP = "nat list"

definition net_ParseIP :: "string \<Rightarrow> IP option" where
  "net_ParseIP s =
     (case ParseAddr s of
        None \<Rightarrow> None
      | Some (_, bs, zone) \<Rightarrow> if zone \<noteq> [] then None else Some bs)"

definition net_IPv4 :: "nat \<Rightarrow> nat \<Rightarrow> nat \<Rightarrow> nat \<Rightarrow> IP" where
  "net_IPv4 a b c d = v4_mapped [a, b, c, d]"

definition To4 :: "IP \<Rightarrow> nat list option" where
  "To4 ip = (if length ip = 16 \<and> take 12 ip = replicate 10 0 @ [255, 255] then Some (drop 12 ip)
             else None)"

definition IsLoopback :: "IP \<Rightarrow> bool" where
  "IsLoopback ip =
     (case To4 ip of Some q \<Rightarrow> q ! 0 = 127 | None \<Rightarrow> ip = replicate 15 0 @ [1])"

definition IsPrivate :: "IP \<Rightarrow> bool" where
  "IsPrivate ip =
     (case To4 ip of
        Some q \<Rightarrow> q ! 0 = 10 \<or> (q ! 0 = 172 \<and> q ! 1 div 16 = 1) \<or> (q ! 0 = 192 \<and> q ! 1 = 168)
      | None \<Rightarrow> length ip = 16 \<and> ip ! 0 div 2 = 126)"

definition IsLinkLocalUnicast :: "IP \<Rightarrow> bool" where
  "IsLinkLocalUnicast ip =
     (case To4 ip of
        Some q \<Rightarrow> q ! 0 = 169 \<and> q ! 1 = 254
      | None \<Rightarrow> length ip = 16 \<and> ip ! 0 = 254 \<and> ip ! 1 div 64 = 2)"

definition IsLinkLocalMulticast :: "IP \<Rightarrow> bool" where
  "IsLinkLocalMulticast ip =
     (case To4 ip of
        Some q \<Rightarrow> q ! 0 = 224 \<and> q ! 1 = 0 \<and> q ! 2 = 0
      | None \<Rightarrow> length ip = 16 \<and> ip ! 0 = 255 \<and> ip ! 1 mod 16 = 2)"

definition IsUnspecified :: "IP \<Rightarrow> bool" where
  "IsUnspecified ip = (ip = v4_mapped [0, 0, 0, 0] \<or> ip = replicate 16 0)"

lemmas ip_class_defs = IsLoopback_def IsPrivate_def IsLinkLocalUnicast_def
  IsLinkLocalMulticast_def IsUnspecified_def

lemma To4_v4_mapped [simp]: "length q = 4 \<Longrightarrow> To4 (v4_mapped q) = Some q"
  by (simp add: To4_def v4_mapped_def numeral_eq_Suc)

text \<open>\<^verbatim>\<open>net.SplitHostPort\<close>, the host and the port; the kinds of its errors are not kept.\<close>

definition SplitHostPort :: "string \<Rightarrow> (string \<times> string) option" where
  "SplitHostPort hp =
     (if CHR '':'' \<notin> set hp then None
      else if hd hp = CHR ''['' then
        (let h = takeWhile (\<lambda>c. c \<noteq> CHR '']'') hp; rest = drop (length h + 1) hp
         in if CHR '']'' \<notin> set hp \<or> rest = [] \<or> hd rest \<noteq> CHR '':'' \<or> CHR '':'' \<in> set (tl rest)
               \<or> CHR ''['' \<in> set (tl hp) \<or> CHR '']'' \<in> set rest
            then None else Some (tl h, tl rest))
      else
        (let h = before_last CHR '':'' hp
         in if CHR '':'' \<in> set h \<or> CHR ''['' \<in> set hp \<or> CHR '']'' \<in> set hp then None
            else Some (h, after_last CHR '':'' hp)))"

subsection \<open>\<^verbatim>\<open>url.Parse\<close>\<close>

record URL =
  u_Scheme :: string
  u_Host :: string
  u_Path :: string

datatype encoding = encodePath | encodeHost | encodeZone | encodeUserPassword | encodeFragment

text \<open>\<^verbatim>\<open>shouldEscape\<close> in the modes of a host and of a zone.\<close>

definition host_should_escape :: "nat \<Rightarrow> bool" where
  "host_should_escape n =
     (\<not> ((48 \<le> n \<and> n \<le> 57) \<or> (97 \<le> n \<and> n \<le> 122) \<or> (65 \<le> n \<and> n \<le> 90)
         \<or> n \<in> set (map code ''!$&()*+,;=:[]<>-_.~'') \<or> n = 39 \<or> n = 34))"

fun unescape :: "encoding \<Rightarrow> string \<Rightarrow> string option" where
  "unescape m [] = Some []"
| "unescape m (c # cs) =
     (if c = CHR ''%'' then
        (case cs of
           a # b # r \<Rightarrow>
             (case (hex_value a, hex_value b) of
                (Some x, Some y) \<Rightarrow>
                  if (m = encodeHost \<and> x < 8 \<and> \<not> (a = CHR ''2'' \<and> b = CHR ''5''))
                     \<or> (m = encodeZone \<and> \<not> (a = CHR ''2'' \<and> b = CHR ''5'') \<and> 16 * x + y \<noteq> 32
                        \<and> host_should_escape (16 * x + y))
                  then None
                  else map_option ((#) (char_of (16 * x + y))) (unescape m r)
              | _ \<Rightarrow> None)
         | _ \<Rightarrow> None)
      else if (m = encodeHost \<or> m = encodeZone) \<and> code c < 128 \<and> host_should_escape (code c) then None
      else map_option ((#) c) (unescape m cs))"

definition validOptionalPort :: "string \<Rightarrow> bool" where
  "validOptionalPort p = (p = [] \<or> (hd p = CHR '':'' \<and> list_all is_digit (tl p)))"

definition validUserinfo :: "string \<Rightarrow> bool" where
  "validUserinfo s =
     list_all (\<lambda>c. is_alnum c \<or> c \<in> set ''-._:~!$&()*+,;=%@'' \<or> code c = 39) s"

text \<open>The zone of a bracketed host starts at its first \<^verbatim>\<open>%25\<close>.\<close>

fun zone_split :: "string \<Rightarrow> string \<times> string" where
  "zone_split [] = ([], [])"
| "zone_split (c # cs) =
     (if HasPrefix (c # cs) ''%25'' then ([], c # cs)
      else (c # fst (zone_split cs), snd (zone_split cs)))"

definition parseHost :: "string \<Rightarrow> string option" where
  "parseHost host =
     (if CHR ''['' \<in> set host then
        (if CHR '']'' \<notin> set host then None
         else
           (let colonPort = after_last CHR '']'' host;
                hostname = after_last CHR ''['' (before_last CHR '']'' host);
                z = zone_split hostname
            in if \<not> validOptionalPort colonPort then None
               else (case (unescape encodeHost (fst z), unescape encodeZone (snd z),
                           unescape encodeHost colonPort) of
                       (Some h, Some zn, Some cp) \<Rightarrow>
                         (case ParseAddr (h @ zn) of
                            Some (is4, _) \<Rightarrow> if is4 then None else Some (''['' @ h @ zn @ '']'' @ cp)
                          | None \<Rightarrow> None)
                     | _ \<Rightarrow> None)))
      else if CHR '':'' \<in> set host \<and> \<not> validOptionalPort (dropWhile (\<lambda>c. c \<noteq> CHR '':'') host) then None
      else unescape encodeHost host)"

definition parseAuthority :: "string \<Rightarrow> string option" where
  "parseAuthority a =
     (if CHR ''@'' \<notin> set a then parseHost a
      else
        (let userinfo = before_last CHR ''@'' a
         in case parseHost (after_last CHR ''@'' a) of
              None \<Rightarrow> None
            | Some h \<Rightarrow>
                if validUserinfo userinfo
                   \<and> unescape encodeUserPassword (fst (cut CHR '':'' userinfo)) \<noteq> None
                   \<and> unescape encodeUserPassword (snd (cut CHR '':'' userinfo)) \<noteq> None
                then Some h else None))"

text \<open>\<^verbatim>\<open>getScheme\<close>: the scheme and the rest, or no result when the scheme is missing.\<close>

definition getScheme :: "string \<Rightarrow> (string \<times> string) option" where
  "getScheme s =
     (let w = takeWhile (\<lambda>c. is_alnum c \<or> c \<in> set ''+-.'') s; r = drop (length w) s
      in if take 1 r = '':'' \<and> w = [] then None
         else if take 1 r = '':'' \<and> (is_lower (hd w) \<or> is_upper (hd w)) then Some (w, tl r)
         else Some ([], s))"

definition parse_url :: "string \<Rightarrow> URL option" where
  "parse_url raw =
     (if list_ex (\<lambda>c. code c < 32 \<or> code c = 127) raw then None
      else if raw = ''*'' then Some \<lparr>u_Scheme = [], u_Host = [], u_Path = ''*''\<rparr>
      else (case getScheme raw of
        None \<Rightarrow> None
      | Some (sch, rest0) \<Rightarrow>
          (let scheme = ToLower sch; rest = fst (cut CHR ''?'' rest0)
           in if \<not> HasPrefix rest ''/'' \<and> scheme \<noteq> [] then
                Some \<lparr>u_Scheme = scheme, u_Host = [], u_Path = []\<rparr>
              else if \<not> HasPrefix rest ''/'' \<and> CHR '':'' \<in> set (fst (cut CHR ''/'' rest)) then None
              else
                (let auth = HasPrefix rest ''//'' \<and> (scheme \<noteq> [] \<or> \<not> HasPrefix rest ''///'');
                     authority = takeWhile (\<lambda>c. c \<noteq> CHR ''/'') (drop 2 rest);
                     path = (if auth then drop (2 + length authority) rest else rest)
                 in case (if auth then parseAuthority authority else Some []) of
                      None \<Rightarrow> None
                    | Some h \<Rightarrow>
                        (case unescape encodePath path of
                           None \<Rightarrow> None
                         | Some p \<Rightarrow> Some \<lparr>u_Scheme = scheme, u_Host = h, u_Path = p\<rparr>)))))"

definition url_Parse :: "string \<Rightarrow> URL result" where
  "url_Parse raw =
     (let u = fst (cut CHR ''#'' raw); frag = snd (cut CHR ''#'' raw)
      in case parse_url u of
           None \<Rightarrow> Inl (Newf ''parse %s'' [AStr u])
         | Some r \<Rightarrow> if unescape encodeFragment frag = None then Inl (Newf ''parse %s'' [AStr raw])
                     else Inr r)"

text \<open>\<^verbatim>\<open>(*URL).Hostname\<close>: the host without a port and without the brackets of an IPv6 literal.\<close>

definition Hostname :: "URL \<Rightarrow> string" where
  "Hostname u =
     (let h = u_Host u; i = before_last CHR '':'' h; p = CHR '':'' # after_last CHR '':'' h;
          h' = (if CHR '':'' \<in> set h \<and> validOptionalPort p then i else h)
      in if HasPrefix h' ''['' \<and> HasSuffix h' '']'' then tl (butlast h') else h')"

lemmas net_eval = url_Parse_def parse_url_def cut_def getScheme_def is_alnum_def is_lower_def
  is_upper_def is_digit_def hex_value_def code_def ToLower_def lower_char_def HasPrefix_def
  HasSuffix_def parseAuthority_def before_last_def after_last_def parseHost_def
  validOptionalPort_def validUserinfo_def host_should_escape_def net_ParseIP_def ParseAddr_def
  parseIPv4Fields_def octet_def parseIPv6_def expand_ellipsis_def v4_mapped_def SplitHostPort_def
  ipv6_loop.simps char_of_def bit_Suc_0_iff Let_def

lemma url_Parse_example:
  "url_Parse ''https://User@Example.com:8443/a%20b.jar?x=1#f'' =
     Inr \<lparr>u_Scheme = ''https'', u_Host = ''Example.com:8443'', u_Path = ''/a b.jar''\<rparr>"
  by (simp add: net_eval)

lemma url_Parse_v6_example:
  "url_Parse ''HTTPS://[fd00::1]:443/p'' =
     Inr \<lparr>u_Scheme = ''https'', u_Host = ''[fd00::1]:443'', u_Path = ''/p''\<rparr>"
  by (simp add: net_eval)

lemma ParseIP_examples:
  "net_ParseIP ''10.1.2.3'' = Some (v4_mapped [10, 1, 2, 3])"
  "net_ParseIP ''::ffff:127.0.0.1'' = Some (v4_mapped [127, 0, 0, 1])"
  "net_ParseIP ''127.1'' = None" "net_ParseIP ''010.0.0.1'' = None"
  by (simp_all add: net_eval)

end
