(* ===== verification/Webhooks.thy ===== *)
theory Webhooks
  imports ApiTypes Regexp GoNet
begin

section \<open>Admission webhooks\<close>

text \<open>
  The validators of \<^verbatim>\<open>api/v1beta1/plugin_webhook.go\<close> and
  \<^verbatim>\<open>api/v1beta1/papermcserver_webhook.go\<close>. A validator collects field errors; \<open>None\<close> as the
  error of a request admits the object. The cron parser (\<^verbatim>\<open>robfig/cron\<close>) is the argument
  \<open>cronParse\<close>. The two main theorems characterise the admitted objects exactly: the field errors
  are empty if and only if the object satisfies a declarative well-formedness predicate.
\<close>

subsection \<open>Field errors\<close>

datatype path_elem = Child string | Index nat

type_synonym path = "path_elem list"

abbreviation child :: "path \<Rightarrow> string \<Rightarrow> path" where "child p n \<equiv> p @ [Child n]"
abbreviation index :: "path \<Rightarrow> nat \<Rightarrow> path" where "index p i \<equiv> p @ [Index i]"

datatype field_value = VStr string | VInt int

text \<open>The detail of a field error is a format string and its arguments.\<close>

datatype field_error =
    Required path string
  | Invalid path field_value string "fmtarg list"
  | NotSupported path string "string list"
  | Duplicate path string "fmtarg list"
  | Forbidden path string

text \<open>\<open>invalidIfNotEmpty\<close>: the list that \<^verbatim>\<open>ToAggregate\<close> turns into one error.\<close>

definition invalidIfNotEmpty :: "field_error list \<Rightarrow> field_error list option" where
  "invalidIfNotEmpty errs = (if errs = [] then None else Some errs)"

definition strategyLatest :: string where "strategyLatest = ''latest''"
definition strategyAuto :: string where "strategyAuto = ''auto''"
definition strategyPin :: string where "strategyPin = ''pin''"
definition strategyBuildPin :: string where "strategyBuildPin = ''build-pin''"
definition sourceTypeHangar :: string where "sourceTypeHangar = ''hangar''"
definition sourceTypeURL :: string where "sourceTypeURL = ''url''"
definition protocolTCP :: string where "protocolTCP = ''TCP''"
definition protocolUDP :: string where "protocolUDP = ''UDP''"
definition protocolHTTP :: string where "protocolHTTP = ''HTTP''"

lemmas webhook_consts = strategyLatest_def strategyAuto_def strategyPin_def strategyBuildPin_def
  sourceTypeHangar_def sourceTypeURL_def protocolTCP_def protocolUDP_def protocolHTTP_def

subsection \<open>Safe names, paths and references\<close>

definition safeShellPattern :: rx where
  "safeShellPattern =
     Plus (Cls [(CHR ''a'', CHR ''z''), (CHR ''A'', CHR ''Z''), (CHR ''0'', CHR ''9''),
                (CHR ''.'', CHR ''.''), (CHR ''_'', CHR ''_''), (CHR ''/'', CHR ''/''),
                (CHR ''-'', CHR ''-'')])"

definition containsShellUnsafeChars :: "string \<Rightarrow> bool" where
  "containsShellUnsafeChars s = (\<not> MatchString safeShellPattern s)"

definition validateSafeName :: "string \<Rightarrow> path \<Rightarrow> field_error list" where
  "validateSafeName name fldPath =
     (if Contains name ''/'' \<or> Contains name ''..''
      then [Invalid fldPath (VStr name) (''must not contain '/' or '..'' @ [CHR 0x27]) []] else []) @
     (if containsShellUnsafeChars name
      then [Invalid fldPath (VStr name)
              (''must not contain shell-unsafe characters ('\"', \"'\", '`', '$', '' @
               [CHR 0x27, CHR 0x5C, CHR 0x27] @ '', newline, carriage return)'') []] else [])"

definition validateConfigFile :: "ConfigMapKeyRef \<Rightarrow> string \<Rightarrow> path \<Rightarrow> field_error list" where
  "validateConfigFile ref p fldPath =
     (if p = [] then [Required (child fldPath ''path'') ''path is required'']
      else
        (if HasPrefix p ''/''
         then [Invalid (child fldPath ''path'') (VStr p)
                 (''must be a relative path, not starting with '/'' @ [CHR 0x27]) []] else []) @
        (if Contains p ''..''
         then [Invalid (child fldPath ''path'') (VStr p) ''must not contain '..' (path traversal)'' []]
         else []) @
        (if containsShellUnsafeChars p
         then [Invalid (child fldPath ''path'') (VStr p)
                 ''must not contain shell-unsafe characters (quotes, backticks, $, backslash, newlines)'' []]
         else [])) @
     (if ck_Name ref = []
      then [Required (child (child fldPath ''configMapRef'') ''name'') ''ConfigMap name is required'']
      else validateSafeName (ck_Name ref) (child (child fldPath ''configMapRef'') ''name'')) @
     (if ck_Key ref = []
      then [Required (child (child fldPath ''configMapRef'') ''key'') ''ConfigMap key is required'']
      else if containsShellUnsafeChars (ck_Key ref)
      then [Invalid (child (child fldPath ''configMapRef'') ''key'') (VStr (ck_Key ref))
              ''must not contain shell-unsafe characters'' []]
      else [])"

text \<open>
  The loop over config files that \<^verbatim>\<open>validatePluginConfigs\<close>, \<^verbatim>\<open>validateServerPluginConfigs\<close> and
  \<^verbatim>\<open>validateServerConfigFiles\<close> share: every entry is validated, and a path seen before in the same
  list is a duplicate.
\<close>

fun config_files_loop ::
  "path \<Rightarrow> nat \<Rightarrow> string set \<Rightarrow> (ConfigMapKeyRef \<times> string) list \<Rightarrow> field_error list" where
  "config_files_loop base i seen [] = []"
| "config_files_loop base i seen ((ref, p) # cfgs) =
     validateConfigFile ref p (index base i) @
     (if p \<noteq> [] \<and> p \<in> seen then [Duplicate (child (index base i) ''path'') p []] else []) @
     config_files_loop base (Suc i) (if p \<noteq> [] then insert p seen else seen) cfgs"

subsection \<open>Plugin\<close>

definition sha256Pattern :: rx where
  "sha256Pattern = Rep 64 (Cls [(CHR ''0'', CHR ''9''), (CHR ''a'', CHR ''f'')])"

definition validateURLSource :: "Plugin \<Rightarrow> path \<Rightarrow> string list \<times> field_error list" where
  "validateURLSource p specPath =
     (let urlPath = child (child specPath ''source'') ''url''; u = src_URL (ps_Source (pl_Spec p))
      in if u = [] then ([], [Required urlPath (''url is required for source type 'url'' @ [CHR 0x27])])
         else case url_Parse u of
           Inl err \<Rightarrow> ([], [Invalid urlPath (VStr u) ''invalid URL: %v'' [AErrs [err]]])
         | Inr parsed \<Rightarrow>
             ((if \<not> HasSuffix (ToLower (u_Path parsed)) ''.jar''
               then [''spec.source.url path does not end in .jar; ensure the URL points to a valid plugin JAR'']
               else []),
              (if u_Scheme parsed \<noteq> ''https''
               then [Invalid urlPath (VStr u) ''only https URLs are allowed'' []] else []) @
              (if u_Host parsed = []
               then [Invalid urlPath (VStr u) ''URL must include a host'' []] else [])))"

definition validatePluginStrategy :: "Plugin \<Rightarrow> path \<Rightarrow> field_error list" where
  "validatePluginStrategy p specPath =
     (let st = ps_UpdateStrategy (pl_Spec p)
      in if st = strategyLatest \<or> st = strategyAuto then []
         else if st = strategyPin then
           (if ps_Version (pl_Spec p) = []
            then [Required (child specPath ''version'') ''version is required for 'pin' strategy'']
            else [])
         else if st = strategyBuildPin then
           (if ps_Version (pl_Spec p) = []
            then [Required (child specPath ''version'') ''version is required for 'build-pin' strategy'']
            else []) @
           (if ps_Build (pl_Spec p) = None
            then [Required (child specPath ''build'') ''build is required for 'build-pin' strategy'']
            else [])
         else [NotSupported (child specPath ''updateStrategy'') st
                 [strategyLatest, strategyAuto, strategyPin, strategyBuildPin]])"

definition effective_protocol :: "PluginEndpoint \<Rightarrow> string" where
  "effective_protocol ep = (if ep_Protocol ep = [] then protocolTCP else ep_Protocol ep)"

fun endpoints_loop ::
  "path \<Rightarrow> nat \<Rightarrow> string set \<Rightarrow> (int \<times> string) set \<Rightarrow> PluginEndpoint list \<Rightarrow> field_error list" where
  "endpoints_loop epsPath i seenNames seenPortProto [] = []"
| "endpoints_loop epsPath i seenNames seenPortProto (ep # eps) =
     (let epPath = index epsPath i; proto = effective_protocol ep; key = (ep_Port ep, proto)
      in (if ep_Name ep = [] then [Required (child epPath ''name'') ''endpoint name is required'']
          else if ep_Name ep \<in> seenNames then [Duplicate (child epPath ''name'') (ep_Name ep) []]
          else []) @
         (if ep_Port ep < 1 \<or> ep_Port ep > 65535
          then [Invalid (child epPath ''port'') (VInt (ep_Port ep)) ''port must be between 1 and 65535'' []]
          else []) @
         (if proto = protocolTCP \<or> proto = protocolUDP \<or> proto = protocolHTTP then []
          else [NotSupported (child epPath ''protocol'') (ep_Protocol ep)
                  [protocolTCP, protocolUDP, protocolHTTP]]) @
         (if key \<in> seenPortProto
          then [Duplicate (child epPath ''port'') ''%d/%s'' [AInt (ep_Port ep), AStr proto]] else []) @
         endpoints_loop epsPath (Suc i)
           (if ep_Name ep = [] then seenNames else insert (ep_Name ep) seenNames)
           (insert key seenPortProto) eps)"

definition validateEndpoints :: "Plugin \<Rightarrow> path \<Rightarrow> field_error list" where
  "validateEndpoints p specPath =
     endpoints_loop (child specPath ''endpoints'') 0 {} {} (ps_Endpoints (pl_Spec p))"

definition validatePluginConfigs :: "Plugin \<Rightarrow> path \<Rightarrow> field_error list" where
  "validatePluginConfigs p specPath =
     (if ps_Configs (pl_Spec p) = [] then []
      else
        (if ps_PluginDirName (pl_Spec p) = []
         then [Required (child specPath ''pluginDirName'')
                 ''pluginDirName is required when configs are specified'']
         else validateSafeName (ps_PluginDirName (pl_Spec p)) (child specPath ''pluginDirName'')) @
        config_files_loop (child specPath ''configs'') 0 {}
          (map (\<lambda>c. (pcf_ConfigMapRef c, pcf_Path c)) (ps_Configs (pl_Spec p))))"

definition PluginValidator_validate :: "Plugin \<Rightarrow> string list \<times> field_error list option" where
  "PluginValidator_validate p =
     (let specPath = [Child ''spec'']; src = ps_Source (pl_Spec p);
          projPath = child (child specPath ''source'') ''project'';
          projectErrs = (if src_Project src \<noteq> [] then validateSafeName (src_Project src) projPath
                         else []);
          (warnings, sourceErrs) =
            (if src_Type src = sourceTypeHangar then
               ([], if src_Project src = []
                    then [Required projPath (''project is required for source type 'hangar'' @ [CHR 0x27])] else [])
             else if src_Type src = sourceTypeURL then
               (case validateURLSource p specPath of (urlWarnings, urlErrs) \<Rightarrow>
                  (urlWarnings @
                   (if src_Checksum src = []
                    then [''spec.source.checksum is not set; downloads will not be integrity-verified'']
                    else []),
                   urlErrs @
                   (if src_Checksum src \<noteq> []
                       \<and> \<not> MatchString sha256Pattern (ToLower (src_Checksum src))
                    then [Invalid (child (child specPath ''source'') ''checksum'')
                            (VStr (src_Checksum src))
                            ''checksum must be a valid SHA256 hex string (64 hex characters)'' []]
                    else [])))
             else ([], [NotSupported (child (child specPath ''source'') ''type'') (src_Type src)
                          [sourceTypeHangar, sourceTypeURL]]))
      in (warnings,
          invalidIfNotEmpty
            (projectErrs @ sourceErrs @ validatePluginStrategy p specPath @
             validateEndpoints p specPath @ validatePluginConfigs p specPath)))"

definition PluginValidator_ValidateCreate :: "Plugin \<Rightarrow> string list \<times> field_error list option" where
  "PluginValidator_ValidateCreate obj = PluginValidator_validate obj"

definition PluginValidator_ValidateUpdate ::
  "Plugin \<Rightarrow> Plugin \<Rightarrow> string list \<times> field_error list option" where
  "PluginValidator_ValidateUpdate old newObj = PluginValidator_validate newObj"

definition PluginValidator_ValidateDelete :: "Plugin \<Rightarrow> string list \<times> field_error list option" where
  "PluginValidator_ValidateDelete obj = ([], None)"

subsection \<open>PaperMCServer\<close>

definition host_label :: rx where
  "host_label =
     Cat (Cls [(CHR ''a'', CHR ''z''), (CHR ''0'', CHR ''9'')])
       (Opt (Cat (Star (Cls [(CHR ''a'', CHR ''z''), (CHR ''0'', CHR ''9''), (CHR ''-'', CHR ''-'')]))
                 (Cls [(CHR ''a'', CHR ''z''), (CHR ''0'', CHR ''9'')])))"

definition hostnamePattern :: rx where
  "hostnamePattern = Cat host_label (Star (Cat (Lit CHR ''.'') host_label))"

definition validateServerStrategy :: "PaperMCServer \<Rightarrow> path \<Rightarrow> field_error list" where
  "validateServerStrategy s specPath =
     (let st = ss_UpdateStrategy (sv_Spec s)
      in if st = strategyLatest \<or> st = strategyAuto then []
         else if st = strategyPin then
           (if ss_Version (sv_Spec s) = []
            then [Required (child specPath ''version'') ''version is required for 'pin' strategy'']
            else [])
         else if st = strategyBuildPin then
           (if ss_Version (sv_Spec s) = []
            then [Required (child specPath ''version'') ''version is required for 'build-pin' strategy'']
            else []) @
           (if ss_Build (sv_Spec s) = None
            then [Required (child specPath ''build'') ''build is required for 'build-pin' strategy'']
            else [])
         else [NotSupported (child specPath ''updateStrategy'') st
                 [strategyLatest, strategyAuto, strategyPin, strategyBuildPin]])"

definition validateCronExpressions ::
  "(string \<Rightarrow> 'sched result) \<Rightarrow> PaperMCServer \<Rightarrow> path \<Rightarrow> field_error list" where
  "validateCronExpressions cronParse s specPath =
     (let schedulePath = child specPath ''updateSchedule''; us = ss_UpdateSchedule (sv_Spec s);
          mw = us_MaintenanceWindow us
      in (case cronParse (us_CheckCron us) of
            Inl err \<Rightarrow> [Invalid (child schedulePath ''checkCron'') (VStr (us_CheckCron us))
                          ''invalid cron expression: %v'' [AErrs [err]]]
          | Inr _ \<Rightarrow> []) @
         (if mw_Enabled mw then
            (case cronParse (mw_Cron mw) of
               Inl err \<Rightarrow> [Invalid (child (child schedulePath ''maintenanceWindow'') ''cron'')
                             (VStr (mw_Cron mw)) ''invalid cron expression: %v'' [AErrs [err]]]
             | Inr _ \<Rightarrow> [])
          else []))"

definition validateRCON :: "PaperMCServer \<Rightarrow> path \<Rightarrow> field_error list" where
  "validateRCON s specPath =
     (let rcon = ss_RCON (sv_Spec s); rconPath = child (child specPath ''rcon'') ''passwordSecret''
      in if \<not> rc_Enabled rcon then []
         else
           (if sk_Name (rc_PasswordSecret rcon) = []
            then [Required (child rconPath ''name'') ''secret name is required when RCON is enabled'']
            else []) @
           (if sk_Key (rc_PasswordSecret rcon) = []
            then [Required (child rconPath ''key'') ''secret key is required when RCON is enabled'']
            else []))"

definition validateBackup ::
  "(string \<Rightarrow> 'sched result) \<Rightarrow> PaperMCServer \<Rightarrow> path \<Rightarrow> field_error list" where
  "validateBackup cronParse s specPath =
     (case ss_Backup (sv_Spec s) of
        None \<Rightarrow> []
      | Some b \<Rightarrow>
          if \<not> bk_Enabled b then []
          else if bk_Schedule b \<noteq> [] then
            (case cronParse (bk_Schedule b) of
               Inl err \<Rightarrow> [Invalid (child (child specPath ''backup'') ''schedule'')
                             (VStr (bk_Schedule b)) ''invalid cron expression: %v'' [AErrs [err]]]
             | Inr _ \<Rightarrow> [])
          else [])"

text \<open>The keys under which \<^verbatim>\<open>validateHTTPRoutes\<close> remembers a route.\<close>

definition plugin_endpoint_key :: "PluginHTTPRoute \<Rightarrow> string" where
  "plugin_endpoint_key r = hr_PluginName r @ ''/'' @ hr_EndpointName r"

definition host_path_key :: "PluginHTTPRoute \<Rightarrow> string" where
  "host_path_key r = hr_Hostname r @ ''|'' @ hr_PathPrefix r"

fun http_routes_loop ::
  "path \<Rightarrow> nat \<Rightarrow> string set \<Rightarrow> string set \<Rightarrow> PluginHTTPRoute list \<Rightarrow> field_error list" where
  "http_routes_loop routesPath i seenPluginEndpoint seenHostPath [] = []"
| "http_routes_loop routesPath i seenPluginEndpoint seenHostPath (route # routes) =
     (let routePath = index routesPath i;
          named = hr_PluginName route \<noteq> [] \<and> hr_EndpointName route \<noteq> [];
          key = plugin_endpoint_key route; hostPathKey = host_path_key route
      in (if hr_PluginName route = []
          then [Required (child routePath ''pluginName'') ''pluginName is required''] else []) @
         (if hr_EndpointName route = []
          then [Required (child routePath ''endpointName'') ''endpointName is required''] else []) @
         (if hr_Hostname route = []
          then [Required (child routePath ''hostname'') ''hostname is required'']
          else if \<not> MatchString hostnamePattern (ToLower (hr_Hostname route))
          then [Invalid (child routePath ''hostname'') (VStr (hr_Hostname route))
                  ''must be a valid RFC 1123 hostname'' []]
          else []) @
         (if hr_PathPrefix route \<noteq> [] \<and> \<not> HasPrefix (hr_PathPrefix route) ''/''
          then [Invalid (child routePath ''pathPrefix'') (VStr (hr_PathPrefix route))
                  (''pathPrefix must start with '/'' @ [CHR 0x27]) []]
          else []) @
         (if named \<and> key \<in> seenPluginEndpoint
          then [Duplicate routePath ''%s/%s'' [AStr (hr_PluginName route), AStr (hr_EndpointName route)]]
          else []) @
         (if hr_Hostname route \<noteq> [] \<and> hostPathKey \<in> seenHostPath
          then [Duplicate routePath ''hostname=%s pathPrefix=%s''
                  [AStr (hr_Hostname route), AStr (hr_PathPrefix route)]]
          else []) @
         http_routes_loop routesPath (Suc i)
           (if named then insert key seenPluginEndpoint else seenPluginEndpoint)
           (if hr_Hostname route \<noteq> [] then insert hostPathKey seenHostPath else seenHostPath)
           routes)"

definition validateHTTPRoutes :: "PluginHTTPRoute list \<Rightarrow> path \<Rightarrow> field_error list" where
  "validateHTTPRoutes routes gwPath = http_routes_loop (child gwPath ''httpRoutes'') 0 {} {} routes"

definition validateGateway :: "PaperMCServer \<Rightarrow> path \<Rightarrow> field_error list" where
  "validateGateway s specPath =
     (case ss_Gateway (sv_Spec s) of
        None \<Rightarrow> []
      | Some gw \<Rightarrow>
          (let gwPath = child specPath ''gateway'';
               errs = (if \<not> gw_Enabled gw \<and> gw_HTTPRoutes gw \<noteq> []
                       then [Forbidden (child gwPath ''httpRoutes'') ''httpRoutes require gateway.enabled=true'']
                       else [])
           in if \<not> gw_Enabled gw then errs
              else errs @
                (if gw_ParentRefs gw = []
                 then [Required (child gwPath ''parentRefs'')
                         ''at least one parentRef is required when gateway is enabled'']
                 else []) @
                validateHTTPRoutes (gw_HTTPRoutes gw) gwPath))"

fun plugin_configs_loop ::
  "path \<Rightarrow> nat \<Rightarrow> string set \<Rightarrow> ServerPluginConfig list \<Rightarrow> field_error list" where
  "plugin_configs_loop base i seenPluginNames [] = []"
| "plugin_configs_loop base i seenPluginNames (pc # pcs) =
     (let pcPath = index base i; name = spc_PluginName pc
      in (if name = [] then [Required (child pcPath ''pluginName'') ''pluginName is required'']
          else validateSafeName name (child pcPath ''pluginName'') @
               (if name \<in> seenPluginNames then [Duplicate (child pcPath ''pluginName'') name []]
                else [])) @
         config_files_loop (child pcPath ''configs'') 0 {}
           (map (\<lambda>c. (pcf_ConfigMapRef c, pcf_Path c)) (spc_Configs pc)) @
         plugin_configs_loop base (Suc i)
           (if name = [] then seenPluginNames else insert name seenPluginNames) pcs)"

definition validateServerPluginConfigs :: "PaperMCServer \<Rightarrow> path \<Rightarrow> field_error list" where
  "validateServerPluginConfigs s specPath =
     (if ss_PluginConfigs (sv_Spec s) = [] then []
      else plugin_configs_loop (child specPath ''pluginConfigs'') 0 {} (ss_PluginConfigs (sv_Spec s)))"

definition validateServerConfigFiles :: "PaperMCServer \<Rightarrow> path \<Rightarrow> field_error list" where
  "validateServerConfigFiles s specPath =
     (if ss_ServerConfigs (sv_Spec s) = [] then []
      else config_files_loop (child specPath ''serverConfigs'') 0 {}
             (map (\<lambda>c. (scf_ConfigMapRef c, scf_Path c)) (ss_ServerConfigs (sv_Spec s))))"

definition PaperMCServerValidator_validate ::
  "(string \<Rightarrow> 'sched result) \<Rightarrow> PaperMCServer \<Rightarrow> string list \<times> field_error list option" where
  "PaperMCServerValidator_validate cronParse s =
     (let specPath = [Child ''spec'']
      in ([], invalidIfNotEmpty
                (validateServerStrategy s specPath @ validateCronExpressions cronParse s specPath @
                 validateRCON s specPath @ validateBackup cronParse s specPath @
                 validateGateway s specPath @ validateServerPluginConfigs s specPath @
                 validateServerConfigFiles s specPath)))"

definition PaperMCServerValidator_ValidateCreate ::
  "(string \<Rightarrow> 'sched result) \<Rightarrow> PaperMCServer \<Rightarrow> string list \<times> field_error list option" where
  "PaperMCServerValidator_ValidateCreate cronParse obj = PaperMCServerValidator_validate cronParse obj"

definition PaperMCServerValidator_ValidateUpdate ::
  "(string \<Rightarrow> 'sched result) \<Rightarrow> PaperMCServer \<Rightarrow> PaperMCServer
   \<Rightarrow> string list \<times> field_error list option" where
  "PaperMCServerValidator_ValidateUpdate cronParse old newObj =
     PaperMCServerValidator_validate cronParse newObj"

definition PaperMCServerValidator_ValidateDelete ::
  "PaperMCServer \<Rightarrow> string list \<times> field_error list option" where
  "PaperMCServerValidator_ValidateDelete obj = ([], None)"

subsection \<open>Well-formed objects\<close>

text \<open>
  The specification of the validators. A safe name or path consists of the characters that need no
  quoting in the injection scripts and cannot leave its directory.
\<close>

definition safe_char :: "char \<Rightarrow> bool" where
  "safe_char c = (is_alnum c \<or> c \<in> {CHR ''.'', CHR ''_'', CHR ''/'', CHR ''-''})"

definition dotdot_free :: "string \<Rightarrow> bool" where
  "dotdot_free s \<longleftrightarrow> (\<nexists>u v. s = u @ ''..'' @ v)"

definition safe_name :: "string \<Rightarrow> bool" where
  "safe_name n \<longleftrightarrow> n \<noteq> [] \<and> list_all (\<lambda>c. safe_char c \<and> c \<noteq> CHR ''/'') n \<and> dotdot_free n"

definition safe_path :: "string \<Rightarrow> bool" where
  "safe_path p \<longleftrightarrow> p \<noteq> [] \<and> hd p \<noteq> CHR ''/'' \<and> list_all safe_char p \<and> dotdot_free p"

definition config_ok :: "ConfigMapKeyRef \<times> string \<Rightarrow> bool" where
  "config_ok c \<longleftrightarrow> safe_path (snd c) \<and> safe_name (ck_Name (fst c))
     \<and> ck_Key (fst c) \<noteq> [] \<and> list_all safe_char (ck_Key (fst c))"

definition configs_ok :: "(ConfigMapKeyRef \<times> string) list \<Rightarrow> bool" where
  "configs_ok cs \<longleftrightarrow> list_all config_ok cs \<and> distinct (map snd cs)"

definition strategy_ok :: "string \<Rightarrow> string \<Rightarrow> int option \<Rightarrow> bool" where
  "strategy_ok st v b \<longleftrightarrow> st \<in> {''latest'', ''auto''} \<or> (st = ''pin'' \<and> v \<noteq> [])
     \<or> (st = ''build-pin'' \<and> v \<noteq> [] \<and> b \<noteq> None)"

definition endpoint_ok :: "PluginEndpoint \<Rightarrow> bool" where
  "endpoint_ok ep \<longleftrightarrow> ep_Name ep \<noteq> [] \<and> ep_Port ep \<in> {1..65535}
     \<and> effective_protocol ep \<in> {''TCP'', ''UDP'', ''HTTP''}"

definition hex64 :: "string \<Rightarrow> bool" where
  "hex64 s \<longleftrightarrow> length s = 64 \<and> list_all (\<lambda>c. is_digit c \<or> (97 \<le> code c \<and> code c \<le> 102)) s"

definition source_ok :: "PluginSource \<Rightarrow> bool" where
  "source_ok src \<longleftrightarrow>
     (src_Project src \<noteq> [] \<longrightarrow> safe_name (src_Project src)) \<and>
     ((src_Type src = ''hangar'' \<and> src_Project src \<noteq> []) \<or>
      (src_Type src = ''url'' \<and> src_URL src \<noteq> [] \<and>
       (\<exists>u. url_Parse (src_URL src) = Inr u \<and> u_Scheme u = ''https'' \<and> u_Host u \<noteq> []) \<and>
       (src_Checksum src \<noteq> [] \<longrightarrow> hex64 (ToLower (src_Checksum src)))))"

definition plugin_ok :: "Plugin \<Rightarrow> bool" where
  "plugin_ok p \<longleftrightarrow>
     source_ok (ps_Source (pl_Spec p)) \<and>
     strategy_ok (ps_UpdateStrategy (pl_Spec p)) (ps_Version (pl_Spec p)) (ps_Build (pl_Spec p)) \<and>
     list_all endpoint_ok (ps_Endpoints (pl_Spec p)) \<and>
     distinct (map ep_Name (ps_Endpoints (pl_Spec p))) \<and>
     distinct (map (\<lambda>ep. (ep_Port ep, effective_protocol ep)) (ps_Endpoints (pl_Spec p))) \<and>
     (ps_Configs (pl_Spec p) \<noteq> [] \<longrightarrow> safe_name (ps_PluginDirName (pl_Spec p))) \<and>
     configs_ok (map (\<lambda>c. (pcf_ConfigMapRef c, pcf_Path c)) (ps_Configs (pl_Spec p)))"

text \<open>A label of an RFC 1123 host name.\<close>

definition ldh :: "char \<Rightarrow> bool" where "ldh c = (is_digit c \<or> is_lower c \<or> c = CHR ''-'')"

definition label_ok :: "string \<Rightarrow> bool" where
  "label_ok w \<longleftrightarrow> w \<noteq> [] \<and> list_all ldh w \<and> hd w \<noteq> CHR ''-'' \<and> last w \<noteq> CHR ''-''"

definition hostname_ok :: "string \<Rightarrow> bool" where
  "hostname_ok h \<longleftrightarrow> list_all label_ok (split_on CHR ''.'' h)"

definition route_ok :: "PluginHTTPRoute \<Rightarrow> bool" where
  "route_ok r \<longleftrightarrow> hr_PluginName r \<noteq> [] \<and> hr_EndpointName r \<noteq> [] \<and> hr_Hostname r \<noteq> []
     \<and> hostname_ok (ToLower (hr_Hostname r))
     \<and> (hr_PathPrefix r = [] \<or> hd (hr_PathPrefix r) = CHR ''/'')"

definition gateway_ok :: "GatewayConfig \<Rightarrow> bool" where
  "gateway_ok gw \<longleftrightarrow>
     (if gw_Enabled gw then gw_ParentRefs gw \<noteq> [] \<and> list_all route_ok (gw_HTTPRoutes gw)
        \<and> distinct (map plugin_endpoint_key (gw_HTTPRoutes gw))
        \<and> distinct (map host_path_key (gw_HTTPRoutes gw))
      else gw_HTTPRoutes gw = [])"

definition plugin_config_ok :: "ServerPluginConfig \<Rightarrow> bool" where
  "plugin_config_ok pc \<longleftrightarrow> safe_name (spc_PluginName pc)
     \<and> configs_ok (map (\<lambda>c. (pcf_ConfigMapRef c, pcf_Path c)) (spc_Configs pc))"

definition server_ok :: "(string \<Rightarrow> 'sched result) \<Rightarrow> PaperMCServer \<Rightarrow> bool" where
  "server_ok cronParse s \<longleftrightarrow>
     (let sp = sv_Spec s; us = ss_UpdateSchedule sp; rcon = ss_RCON sp; cron_ok = (\<lambda>c. \<not> isl (cronParse c))
      in strategy_ok (ss_UpdateStrategy sp) (ss_Version sp) (ss_Build sp) \<and>
         cron_ok (us_CheckCron us) \<and>
         (mw_Enabled (us_MaintenanceWindow us) \<longrightarrow> cron_ok (mw_Cron (us_MaintenanceWindow us))) \<and>
         (rc_Enabled rcon \<longrightarrow> sk_Name (rc_PasswordSecret rcon) \<noteq> [] \<and> sk_Key (rc_PasswordSecret rcon) \<noteq> []) \<and>
         (\<forall>b. ss_Backup sp = Some b \<and> bk_Enabled b \<and> bk_Schedule b \<noteq> [] \<longrightarrow> cron_ok (bk_Schedule b)) \<and>
         (\<forall>gw. ss_Gateway sp = Some gw \<longrightarrow> gateway_ok gw) \<and>
         list_all plugin_config_ok (ss_PluginConfigs sp) \<and>
         distinct (map spc_PluginName (ss_PluginConfigs sp)) \<and>
         configs_ok (map (\<lambda>c. (scf_ConfigMapRef c, scf_Path c)) (ss_ServerConfigs sp)))"

text \<open>The keys the loops over endpoints and routes remember, tagged by the table they go to.\<close>

definition endpoint_keys :: "PluginEndpoint \<Rightarrow> (string + int \<times> string) list" where
  "endpoint_keys ep = (if ep_Name ep = [] then [] else [Inl (ep_Name ep)]) @
     [Inr (ep_Port ep, effective_protocol ep)]"

definition route_keys :: "PluginHTTPRoute \<Rightarrow> (string + string) list" where
  "route_keys r =
     (if hr_PluginName r = [] \<or> hr_EndpointName r = [] then [] else [Inl (plugin_endpoint_key r)]) @
     (if hr_Hostname r = [] then [] else [Inr (host_path_key r)])"

subsection \<open>Loops that report duplicates\<close>

text \<open>
  The contract of a validation loop: it reports nothing for an entry exactly when the entry is
  acceptable on its own and none of its keys was seen before, and it remembers the keys. Such a
  loop accepts a list exactly when every entry is acceptable and all keys are distinct.
\<close>

locale duplicate_check =
  fixes loop :: "nat \<Rightarrow> 'k set \<Rightarrow> 'a list \<Rightarrow> field_error list"
    and item_ok :: "'a \<Rightarrow> bool"
    and keys :: "'a \<Rightarrow> 'k list"
  assumes loop_Nil: "loop i seen [] = []"
    and loop_Cons: "loop i seen (x # xs) = [] \<longleftrightarrow>
          item_ok x \<and> set (keys x) \<inter> seen = {} \<and> loop (Suc i) (seen \<union> set (keys x)) xs = []"
    and keys_distinct: "distinct (keys x)"
begin

lemma accepts_iff:
  "loop i seen xs = [] \<longleftrightarrow>
     list_all item_ok xs \<and> distinct (concat (map keys xs)) \<and> set (concat (map keys xs)) \<inter> seen = {}"
proof (induction xs arbitrary: i seen)
  case (Cons x xs)
  then show ?case by (auto simp: loop_Cons keys_distinct)
qed (simp add: loop_Nil)

lemma accepts_all_iff:
  "loop 0 {} xs = [] \<longleftrightarrow> list_all item_ok xs \<and> distinct (concat (map keys xs))"
  by (simp add: accepts_iff)

end

subsection \<open>What the patterns accept\<close>

lemma in_cls_Nil [simp]: "in_cls [] c = False"
  and in_cls_Cons [simp]:
    "in_cls ((lo, hi) # rs) c \<longleftrightarrow> (code lo \<le> code c \<and> code c \<le> code hi) \<or> in_cls rs c"
  by (simp_all add: in_cls_def code_def)

lemma code_eq_iff [simp]: "code c = code d \<longleftrightarrow> c = d"
  by (simp add: code_def)

lemma between_code [simp]: "code d \<le> code c \<and> code c \<le> code d \<longleftrightarrow> c = d"
  by (metis code_eq_iff le_antisym le_refl)

lemma code_literals:
  "code CHR ''a'' = 97" "code CHR ''z'' = 122" "code CHR ''A'' = 65" "code CHR ''Z'' = 90"
  "code CHR ''0'' = 48" "code CHR ''9'' = 57" "code CHR ''f'' = 102"
  by (simp_all add: code_def)

lemmas char_class_defs = is_alnum_def is_lower_def is_upper_def is_digit_def code_def [symmetric]
  code_literals

lemma safe_pattern_iff: "MatchString safeShellPattern s \<longleftrightarrow> s \<noteq> [] \<and> list_all safe_char s"
proof -
  have "list_all (in_cls [(CHR ''a'', CHR ''z''), (CHR ''A'', CHR ''Z''), (CHR ''0'', CHR ''9''),
      (CHR ''.'', CHR ''.''), (CHR ''_'', CHR ''_''), (CHR ''/'', CHR ''/''), (CHR ''-'', CHR ''-'')]) s
      \<longleftrightarrow> list_all safe_char s"
    by (rule list.pred_cong) (auto simp: safe_char_def char_class_defs)
  then show ?thesis unfolding safeShellPattern_def match_class_rules by simp
qed

lemma sha256_pattern_iff: "MatchString sha256Pattern s \<longleftrightarrow> hex64 s"
proof -
  have "list_all (in_cls [(CHR ''0'', CHR ''9''), (CHR ''a'', CHR ''f'')]) s \<longleftrightarrow>
      list_all (\<lambda>c. is_digit c \<or> (97 \<le> code c \<and> code c \<le> 102)) s"
    by (rule list.pred_cong) (auto simp: char_class_defs)
  then show ?thesis unfolding sha256Pattern_def match_class_rules hex64_def by simp
qed

lemma lang_snoc_Cls:
  "s \<in> lang (Cat r (Cls rs)) \<longleftrightarrow> (\<exists>u c. s = u @ [c] \<and> u \<in> lang r \<and> in_cls rs c)"
  by auto

lemma host_label_iff: "w \<in> lang host_label \<longleftrightarrow> label_ok w"
proof -
  have an: "in_cls [(CHR ''a'', CHR ''z''), (CHR ''0'', CHR ''9'')] c \<longleftrightarrow> ldh c \<and> c \<noteq> CHR ''-''" for c
    by (auto simp: ldh_def char_class_defs) (auto simp: code_def)
  have mid: "list_all (in_cls [(CHR ''a'', CHR ''z''), (CHR ''0'', CHR ''9''), (CHR ''-'', CHR ''-'')]) u
      \<longleftrightarrow> list_all ldh u" for u
    by (rule list.pred_cong) (auto simp: ldh_def char_class_defs)
  have alt: "x \<in> lang (Opt r) \<longleftrightarrow> x = [] \<or> x \<in> lang r" for x r by auto
  have "w \<in> lang host_label \<longleftrightarrow>
      (\<exists>c cs. w = c # cs \<and> ldh c \<and> c \<noteq> CHR ''-'' \<and>
        (cs = [] \<or> (\<exists>u d. cs = u @ [d] \<and> list_all ldh u \<and> ldh d \<and> d \<noteq> CHR ''-'')))"
    unfolding host_label_def lang_Cat_Cls alt lang_snoc_Cls lang_Star_Cls an mid by blast
  also have "\<dots> \<longleftrightarrow> label_ok w"
  proof (cases w)
    case (Cons c cs)
    then show ?thesis by (cases cs rule: rev_cases) (auto simp: label_ok_def)
  qed (simp add: label_ok_def)
  finally show ?thesis .
qed

lemma hostname_pattern_iff: "MatchString hostnamePattern h \<longleftrightarrow> hostname_ok h"
proof -
  have "CHR ''.'' \<notin> set w" if "w \<in> lang host_label" for w
    using that by (auto simp: host_label_iff label_ok_def list_all_iff ldh_def is_digit_def is_lower_def code_def)
  from lang_separated [of host_label, OF this] show ?thesis
    by (simp only: MatchString_iff hostnamePattern_def hostname_ok_def host_label_iff)
qed

subsection \<open>What the validators accept\<close>

lemma Contains_slash: "Contains s ''/'' \<longleftrightarrow> CHR ''/'' \<in> set s"
  by (auto simp: Contains_iff in_set_conv_decomp)

lemma Contains_dotdot: "Contains s ''..'' \<longleftrightarrow> \<not> dotdot_free s"
  by (simp add: Contains_iff dotdot_free_def)

lemma HasPrefix_slash: "HasPrefix s ''/'' \<longleftrightarrow> s \<noteq> [] \<and> hd s = CHR ''/''"
  by (cases s) (auto simp: HasPrefix_def)

lemma unsafe_iff: "containsShellUnsafeChars s \<longleftrightarrow> s = [] \<or> \<not> list_all safe_char s"
  by (auto simp: containsShellUnsafeChars_def safe_pattern_iff)

lemma safe_name_iff: "validateSafeName n p = [] \<longleftrightarrow> safe_name n"
  by (auto simp: validateSafeName_def unsafe_iff safe_name_def Contains_slash Contains_dotdot
      list_all_iff)

lemma config_file_iff: "validateConfigFile ref q p = [] \<longleftrightarrow> config_ok (ref, q)"
  by (auto simp: validateConfigFile_def config_ok_def safe_name_iff safe_path_def unsafe_iff
      HasPrefix_slash Contains_dotdot) (simp_all add: safe_name_def)

interpretation configs: duplicate_check "config_files_loop base" config_ok
  "\<lambda>c. if snd c = [] then [] else [snd c]" for base
proof
  fix i seen x and xs :: "(ConfigMapKeyRef \<times> string) list"
  show "config_files_loop base i seen [] = []" by simp
  show "config_files_loop base i seen (x # xs) = [] \<longleftrightarrow>
      config_ok x \<and> set (if snd x = [] then [] else [snd x]) \<inter> seen = {} \<and>
      config_files_loop base (Suc i) (seen \<union> set (if snd x = [] then [] else [snd x])) xs = []"
    by (cases x) (auto simp: config_file_iff)
  show "distinct (if snd x = [] then [] else [snd x])" by simp
qed

lemma config_files_iff: "config_files_loop base 0 {} cs = [] \<longleftrightarrow> configs_ok cs"
proof -
  have "concat (map (\<lambda>c. if snd c = [] then [] else [snd c]) cs) = map snd cs" if "list_all config_ok cs"
    using that by (induction cs) (auto simp: config_ok_def safe_path_def)
  then show ?thesis by (auto simp: configs.accepts_all_iff configs_ok_def)
qed

lemma distinct_tagged:
  assumes "\<And>x. x \<in> set xs \<Longrightarrow> ks x = [Inl (f x), Inr (g x)]"
  shows "distinct (concat (map ks xs)) \<longleftrightarrow> distinct (map f xs) \<and> distinct (map g xs)"
proof -
  have "distinct (concat (map (\<lambda>x. [Inl (f x), Inr (g x)]) xs)) \<longleftrightarrow>
      distinct (map f xs) \<and> distinct (map g xs)"
    by (induction xs) auto
  moreover have "map ks xs = map (\<lambda>x. [Inl (f x), Inr (g x)]) xs"
    using assms by (rule map_cong [OF refl])
  ultimately show ?thesis by (simp only:)
qed

interpretation endpoints: duplicate_check
  "\<lambda>i seen. endpoints_loop base i {n. Inl n \<in> seen} {k. Inr k \<in> seen}" endpoint_ok endpoint_keys for base
proof
  fix i seen x and xs :: "PluginEndpoint list"
  have "{n. Inl n \<in> seen \<union> set (endpoint_keys x)} =
      (if ep_Name x = [] then {n. Inl n \<in> seen} else insert (ep_Name x) {n. Inl n \<in> seen})"
    "{k. Inr k \<in> seen \<union> set (endpoint_keys x)} = insert (ep_Port x, effective_protocol x) {k. Inr k \<in> seen}"
    by (auto simp: endpoint_keys_def)
  then show "endpoints_loop base i {n. Inl n \<in> seen} {k. Inr k \<in> seen} (x # xs) = [] \<longleftrightarrow>
      endpoint_ok x \<and> set (endpoint_keys x) \<inter> seen = {} \<and>
      endpoints_loop base (Suc i) {n. Inl n \<in> seen \<union> set (endpoint_keys x)}
        {k. Inr k \<in> seen \<union> set (endpoint_keys x)} xs = []"
    by (auto simp: Let_def endpoint_ok_def endpoint_keys_def webhook_consts)
  show "distinct (endpoint_keys x)" by (simp add: endpoint_keys_def)
qed simp

lemma endpoints_iff:
  "endpoints_loop base 0 {} {} eps = [] \<longleftrightarrow>
     list_all endpoint_ok eps \<and> distinct (map ep_Name eps) \<and>
     distinct (map (\<lambda>ep. (ep_Port ep, effective_protocol ep)) eps)"
proof -
  have "distinct (concat (map endpoint_keys eps)) \<longleftrightarrow> distinct (map ep_Name eps) \<and>
      distinct (map (\<lambda>ep. (ep_Port ep, effective_protocol ep)) eps)" if "list_all endpoint_ok eps"
    by (rule distinct_tagged) (use that in \<open>auto simp: list_all_iff endpoint_ok_def endpoint_keys_def\<close>)
  with endpoints.accepts_all_iff [of base eps] show ?thesis by auto
qed

interpretation routes: duplicate_check
  "\<lambda>i seen. http_routes_loop base i {n. Inl n \<in> seen} {k. Inr k \<in> seen}" route_ok route_keys for base
proof
  fix i seen x and xs :: "PluginHTTPRoute list"
  have "{n. Inl n \<in> seen \<union> set (route_keys x)} =
      (if hr_PluginName x \<noteq> [] \<and> hr_EndpointName x \<noteq> [] then insert (plugin_endpoint_key x) {n. Inl n \<in> seen}
       else {n. Inl n \<in> seen})"
    "{k. Inr k \<in> seen \<union> set (route_keys x)} =
      (if hr_Hostname x \<noteq> [] then insert (host_path_key x) {k. Inr k \<in> seen} else {k. Inr k \<in> seen})"
    by (auto simp: route_keys_def)
  then show "http_routes_loop base i {n. Inl n \<in> seen} {k. Inr k \<in> seen} (x # xs) = [] \<longleftrightarrow>
      route_ok x \<and> set (route_keys x) \<inter> seen = {} \<and>
      http_routes_loop base (Suc i) {n. Inl n \<in> seen \<union> set (route_keys x)}
        {k. Inr k \<in> seen \<union> set (route_keys x)} xs = []"
    by (auto simp: Let_def route_ok_def route_keys_def hostname_pattern_iff HasPrefix_slash)
  show "distinct (route_keys x)" by (simp add: route_keys_def)
qed simp

lemma http_routes_iff:
  "http_routes_loop base 0 {} {} rs = [] \<longleftrightarrow>
     list_all route_ok rs \<and> distinct (map plugin_endpoint_key rs) \<and> distinct (map host_path_key rs)"
proof -
  have "distinct (concat (map route_keys rs)) \<longleftrightarrow>
      distinct (map plugin_endpoint_key rs) \<and> distinct (map host_path_key rs)" if "list_all route_ok rs"
    by (rule distinct_tagged) (use that in \<open>auto simp: list_all_iff route_ok_def route_keys_def\<close>)
  with routes.accepts_all_iff [of base rs] show ?thesis by auto
qed

interpretation plugin_configs: duplicate_check "plugin_configs_loop base" plugin_config_ok
  "\<lambda>pc. if spc_PluginName pc = [] then [] else [spc_PluginName pc]" for base
proof
  fix i seen x and xs :: "ServerPluginConfig list"
  show "plugin_configs_loop base i seen [] = []" by simp
  show "plugin_configs_loop base i seen (x # xs) = [] \<longleftrightarrow>
      plugin_config_ok x \<and> set (if spc_PluginName x = [] then [] else [spc_PluginName x]) \<inter> seen = {} \<and>
      plugin_configs_loop base (Suc i)
        (seen \<union> set (if spc_PluginName x = [] then [] else [spc_PluginName x])) xs = []"
    by (auto simp: Let_def plugin_config_ok_def safe_name_iff config_files_iff)
      (simp_all add: safe_name_def)
  show "distinct (if spc_PluginName x = [] then [] else [spc_PluginName x])" by simp
qed

lemma plugin_configs_iff:
  "plugin_configs_loop base 0 {} pcs = [] \<longleftrightarrow>
     list_all plugin_config_ok pcs \<and> distinct (map spc_PluginName pcs)"
proof -
  have "concat (map (\<lambda>pc. if spc_PluginName pc = [] then [] else [spc_PluginName pc]) pcs) =
      map spc_PluginName pcs" if "list_all plugin_config_ok pcs"
    using that by (induction pcs) (auto simp: plugin_config_ok_def safe_name_def)
  then show ?thesis by (auto simp: plugin_configs.accepts_all_iff)
qed

lemma strategy_iffs:
  "validatePluginStrategy p sp = [] \<longleftrightarrow>
     strategy_ok (ps_UpdateStrategy (pl_Spec p)) (ps_Version (pl_Spec p)) (ps_Build (pl_Spec p))"
  "validateServerStrategy s sp = [] \<longleftrightarrow>
     strategy_ok (ss_UpdateStrategy (sv_Spec s)) (ss_Version (sv_Spec s)) (ss_Build (sv_Spec s))"
  by (auto simp: validatePluginStrategy_def validateServerStrategy_def strategy_ok_def
      webhook_consts Let_def)

lemma url_source_iff:
  "snd (validateURLSource p sp) = [] \<longleftrightarrow>
     src_URL (ps_Source (pl_Spec p)) \<noteq> [] \<and>
     (\<exists>u. url_Parse (src_URL (ps_Source (pl_Spec p))) = Inr u \<and> u_Scheme u = ''https'' \<and> u_Host u \<noteq> [])"
  by (auto simp: validateURLSource_def Let_def split: sum.split)

lemma plugin_configs_field_iff:
  "validatePluginConfigs p sp = [] \<longleftrightarrow>
     (ps_Configs (pl_Spec p) \<noteq> [] \<longrightarrow> safe_name (ps_PluginDirName (pl_Spec p))) \<and>
     configs_ok (map (\<lambda>c. (pcf_ConfigMapRef c, pcf_Path c)) (ps_Configs (pl_Spec p)))"
  by (auto simp: validatePluginConfigs_def config_files_iff safe_name_iff safe_name_def configs_ok_def)

lemma gateway_iff:
  "validateGateway s sp = [] \<longleftrightarrow> (\<forall>gw. ss_Gateway (sv_Spec s) = Some gw \<longrightarrow> gateway_ok gw)"
  by (auto simp: validateGateway_def gateway_ok_def validateHTTPRoutes_def http_routes_iff Let_def
      split: option.split)

lemma server_fields_iffs:
  "validateCronExpressions cronParse s sp = [] \<longleftrightarrow>
     \<not> isl (cronParse (us_CheckCron (ss_UpdateSchedule (sv_Spec s)))) \<and>
     (mw_Enabled (us_MaintenanceWindow (ss_UpdateSchedule (sv_Spec s))) \<longrightarrow>
      \<not> isl (cronParse (mw_Cron (us_MaintenanceWindow (ss_UpdateSchedule (sv_Spec s))))))"
  "validateRCON s sp = [] \<longleftrightarrow>
     (rc_Enabled (ss_RCON (sv_Spec s)) \<longrightarrow> sk_Name (rc_PasswordSecret (ss_RCON (sv_Spec s))) \<noteq> []
        \<and> sk_Key (rc_PasswordSecret (ss_RCON (sv_Spec s))) \<noteq> [])"
  "validateBackup cronParse s sp = [] \<longleftrightarrow>
     (\<forall>b. ss_Backup (sv_Spec s) = Some b \<and> bk_Enabled b \<and> bk_Schedule b \<noteq> []
        \<longrightarrow> \<not> isl (cronParse (bk_Schedule b)))"
  "validateServerPluginConfigs s sp = [] \<longleftrightarrow>
     list_all plugin_config_ok (ss_PluginConfigs (sv_Spec s)) \<and>
     distinct (map spc_PluginName (ss_PluginConfigs (sv_Spec s)))"
  "validateServerConfigFiles s sp = [] \<longleftrightarrow>
     configs_ok (map (\<lambda>c. (scf_ConfigMapRef c, scf_Path c)) (ss_ServerConfigs (sv_Spec s)))"
  by (auto simp: validateCronExpressions_def validateRCON_def validateBackup_def
      validateServerPluginConfigs_def validateServerConfigFiles_def plugin_configs_iff
      config_files_iff configs_ok_def Let_def split: sum.split option.split)

lemma invalidIfNotEmpty_None [simp]: "invalidIfNotEmpty errs = None \<longleftrightarrow> errs = []"
  by (simp add: invalidIfNotEmpty_def)

lemma project_iff:
  "(if proj \<noteq> [] then validateSafeName proj pp else []) = [] \<longleftrightarrow> (proj \<noteq> [] \<longrightarrow> safe_name proj)"
  by (simp add: safe_name_iff)

lemma plugin_validate_iff:
  "snd (PluginValidator_validate p) = None \<longleftrightarrow> plugin_ok p"
proof -
  obtain ws es where u: "validateURLSource p [Child ''spec''] = (ws, es)" by fastforce
  with url_source_iff [of p "[Child ''spec'']"] have "es = [] \<longleftrightarrow>
      src_URL (ps_Source (pl_Spec p)) \<noteq> [] \<and>
      (\<exists>u. url_Parse (src_URL (ps_Source (pl_Spec p))) = Inr u \<and> u_Scheme u = ''https'' \<and> u_Host u \<noteq> [])"
    by simp
  with u show ?thesis
    unfolding PluginValidator_validate_def plugin_ok_def source_ok_def
    by (auto simp: Let_def strategy_iffs validateEndpoints_def endpoints_iff plugin_configs_field_iff
        sha256_pattern_iff webhook_consts safe_name_iff)
qed

lemma server_validate_iff:
  "snd (PaperMCServerValidator_validate cronParse s) = None \<longleftrightarrow> server_ok cronParse s"
  by (simp add: PaperMCServerValidator_validate_def server_ok_def strategy_iffs server_fields_iffs
      gateway_iff Let_def)

text \<open>
  C20. The Plugin webhook admits an object exactly when it is well-formed: its source is complete
  (a project for Hangar; an https URL with a host, and a SHA-256 checksum if one is given, for a
  URL), its names and config paths are safe to interpolate in a shell script and cannot leave
  their directory, its strategy has the fields it needs, its endpoints have names, valid ports
  and protocols with no duplicate name and no duplicate port and protocol, and its config paths
  are distinct.
\<close>

theorem PluginValidator_admits_iff:
  "snd (PluginValidator_validate p) = None \<longleftrightarrow> plugin_ok p"
  by (rule plugin_validate_iff)

text \<open>
  C21. The PaperMCServer webhook admits an object exactly when it is well-formed: strategy fields,
  parseable cron expressions for the check, for an enabled maintenance window and for an enabled
  backup schedule, a password secret for enabled RCON, a gateway whose routes are complete, have
  RFC 1123 host names and no duplicate keys, and safe, distinct plugin and server config files.
\<close>

theorem PaperMCServerValidator_admits_iff:
  "snd (PaperMCServerValidator_validate cronParse s) = None \<longleftrightarrow> server_ok cronParse s"
  by (rule server_validate_iff)

end
