(* ===== verification/Sha256.thy ===== *)
theory Sha256
  imports Prelude "HOL-Library.Word"
begin

section \<open>SHA-256 and shortened names\<close>

text \<open>
  \<^verbatim>\<open>crypto/sha256\<close> as FIPS 180-4 defines it, on bytes and 32-bit words, with \<^verbatim>\<open>hex.EncodeToString\<close>;
  the controllers use it for the suffix of a shortened name (\<^verbatim>\<open>truncateK8sName\<close> of
  \<^verbatim>\<open>gateway_routes.go\<close>, \<^verbatim>\<open>configMapVolumeName\<close> of \<^verbatim>\<open>config_injector.go\<close>) and for the checksum of a
  downloaded JAR (\<^verbatim>\<open>plugin_controller.go\<close>). The lemmas bound the length of a shortened name.
\<close>

unbundle bit_operations_syntax

type_synonym w32 = "32 word"

definition rotr :: "nat \<Rightarrow> w32 \<Rightarrow> w32" where
  "rotr n w = drop_bit n w OR push_bit (32 - n) w"

definition big_sigma0 :: "w32 \<Rightarrow> w32" where "big_sigma0 w = rotr 2 w XOR rotr 13 w XOR rotr 22 w"
definition big_sigma1 :: "w32 \<Rightarrow> w32" where "big_sigma1 w = rotr 6 w XOR rotr 11 w XOR rotr 25 w"
definition sigma0 :: "w32 \<Rightarrow> w32" where "sigma0 w = rotr 7 w XOR rotr 18 w XOR drop_bit 3 w"
definition sigma1 :: "w32 \<Rightarrow> w32" where "sigma1 w = rotr 17 w XOR rotr 19 w XOR drop_bit 10 w"
definition choice_of :: "w32 \<Rightarrow> w32 \<Rightarrow> w32 \<Rightarrow> w32" where
  "choice_of e f g = (e AND f) XOR (NOT e AND g)"
definition majority :: "w32 \<Rightarrow> w32 \<Rightarrow> w32 \<Rightarrow> w32" where
  "majority a b c = (a AND b) XOR (a AND c) XOR (b AND c)"

definition round_constants :: "w32 list" where
  "round_constants =
     [0x428a2f98, 0x71374491, 0xb5c0fbcf, 0xe9b5dba5, 0x3956c25b, 0x59f111f1, 0x923f82a4, 0xab1c5ed5,
      0xd807aa98, 0x12835b01, 0x243185be, 0x550c7dc3, 0x72be5d74, 0x80deb1fe, 0x9bdc06a7, 0xc19bf174,
      0xe49b69c1, 0xefbe4786, 0x0fc19dc6, 0x240ca1cc, 0x2de92c6f, 0x4a7484aa, 0x5cb0a9dc, 0x76f988da,
      0x983e5152, 0xa831c66d, 0xb00327c8, 0xbf597fc7, 0xc6e00bf3, 0xd5a79147, 0x06ca6351, 0x14292967,
      0x27b70a85, 0x2e1b2138, 0x4d2c6dfc, 0x53380d13, 0x650a7354, 0x766a0abb, 0x81c2c92e, 0x92722c85,
      0xa2bfe8a1, 0xa81a664b, 0xc24b8b70, 0xc76c51a3, 0xd192e819, 0xd6990624, 0xf40e3585, 0x106aa070,
      0x19a4c116, 0x1e376c08, 0x2748774c, 0x34b0bcb5, 0x391c0cb3, 0x4ed8aa4a, 0x5b9cca4f, 0x682e6ff3,
      0x748f82ee, 0x78a5636f, 0x84c87814, 0x8cc70208, 0x90befffa, 0xa4506ceb, 0xbef9a3f7, 0xc67178f2]"

definition initial_hash :: "w32 list" where
  "initial_hash =
     [0x6a09e667, 0xbb67ae85, 0x3c6ef372, 0xa54ff53a, 0x510e527f, 0x9b05688c, 0x1f83d9ab, 0x5be0cd19]"

text \<open>The message in bytes, padded to a multiple of 64: a bit, zeros, and the length in bits.\<close>

fun be_bytes :: "nat \<Rightarrow> nat \<Rightarrow> nat list" where
  "be_bytes 0 n = []"
| "be_bytes (Suc k) n = be_bytes k (n div 256) @ [n mod 256]"

definition pad :: "nat list \<Rightarrow> nat list" where
  "pad bs = bs @ 128 # replicate ((119 - length bs mod 64) mod 64) 0 @ be_bytes 8 (8 * length bs)"

fun words_of :: "nat list \<Rightarrow> w32 list" where
  "words_of (a # b # c # d # bs) = word_of_nat (((a * 256 + b) * 256 + c) * 256 + d) # words_of bs"
| "words_of _ = []"

text \<open>The message schedule, built from the end: the words so far, the latest first.\<close>

fun schedule :: "nat \<Rightarrow> w32 list \<Rightarrow> w32 list" where
  "schedule 0 ws = ws"
| "schedule (Suc k) ws = schedule k ((sigma1 (ws ! 1) + ws ! 6 + sigma0 (ws ! 14) + ws ! 15) # ws)"

fun compress_round :: "w32 list \<Rightarrow> w32 \<times> w32 \<Rightarrow> w32 list" where
  "compress_round [a, b, c, d, e, f, g, h] (k, w) =
     (let t1 = h + big_sigma1 e + choice_of e f g + k + w; t2 = big_sigma0 a + majority a b c
      in [t1 + t2, a, b, c, d + t1, e, f, g])"
| "compress_round s kw = s"

definition compress :: "w32 list \<Rightarrow> w32 list \<Rightarrow> w32 list" where
  "compress hash block =
     map2 (+) hash (foldl compress_round hash (zip round_constants (rev (schedule 48 (rev block)))))"

fun hash_blocks :: "nat \<Rightarrow> w32 list \<Rightarrow> w32 list \<Rightarrow> w32 list" where
  "hash_blocks 0 hash ws = hash"
| "hash_blocks (Suc n) hash ws = hash_blocks n (compress hash (take 16 ws)) (drop 16 ws)"

definition Sum256 :: "nat list \<Rightarrow> nat list" where
  "Sum256 bs =
     (let ws = words_of (pad bs)
      in concat (map (\<lambda>w. be_bytes 4 (unat w)) (hash_blocks (length ws div 16) initial_hash ws)))"

definition hex_digit :: "nat \<Rightarrow> char" where
  "hex_digit n = (if n < 10 then char_of (48 + n) else char_of (87 + n))"

definition EncodeToString :: "nat list \<Rightarrow> string" where
  "EncodeToString bs = concat (map (\<lambda>b. [hex_digit (b div 16), hex_digit (b mod 16)]) bs)"

definition string_bytes :: "string \<Rightarrow> nat list" where
  "string_bytes s = map of_char s"

lemma length_EncodeToString [simp]: "length (EncodeToString bs) = 2 * length bs"
  by (induction bs) (simp_all add: EncodeToString_def)

subsection \<open>The size of a digest\<close>

lemma length_be_bytes [simp]: "length (be_bytes k n) = k"
  by (induction k n rule: be_bytes.induct) simp_all

lemma length_compress_round: "length s = 8 \<Longrightarrow> length (compress_round s kw) = 8"
  by (cases "(s, kw)" rule: compress_round.cases) (simp_all add: Let_def)

lemma length_compress_rounds: "length s = 8 \<Longrightarrow> length (foldl compress_round s kws) = 8"
  by (induction kws arbitrary: s) (simp_all add: length_compress_round)

lemma length_hash_blocks: "length h = 8 \<Longrightarrow> length (hash_blocks n h ws) = 8"
  by (induction n h ws rule: hash_blocks.induct) (simp_all add: compress_def length_compress_rounds)

lemma length_concat_be4: "length (concat (map (\<lambda>w. be_bytes 4 (unat w)) ws)) = 4 * length ws"
  by (induction ws) simp_all

lemma length_Sum256 [simp]: "length (Sum256 bs) = 32"
  unfolding Sum256_def Let_def length_concat_be4
  by (subst length_hash_blocks) (simp_all add: initial_hash_def)

subsection \<open>Shortened names\<close>

text \<open>The name itself when it fits, else its beginning with a dash and the first four bytes of its digest.\<close>

definition shorten :: "nat \<Rightarrow> string \<Rightarrow> string" where
  "shorten limit name =
     (if length name \<le> limit then name
      else take (limit - 9) name @ ''-'' @ EncodeToString (take 4 (Sum256 (string_bytes name))))"

lemma shorten_length: "9 \<le> limit \<Longrightarrow> length (shorten limit name) \<le> limit"
  by (auto simp: shorten_def min_def)

lemma shorten_id: "length name \<le> limit \<Longrightarrow> shorten limit name = name"
  by (simp add: shorten_def)

end
