(* ===== verification/K8sTypes.thy ===== *)
theory K8sTypes
  imports ApiTypes
begin

section \<open>Kubernetes objects the controllers manage\<close>

text \<open>
  The objects of the Kubernetes and Gateway API that the reconcilers create and update, with the
  fields the operator sets or compares. \<open>kobj\<close> collects them for the trace of a run.
\<close>

record PersistentVolumeClaim =
  pvc_Name :: string
  pvc_AccessModes :: "string list"
  pvc_Storage :: string

record StatefulSet =
  sts_Meta :: ObjectMeta
  sts_Replicas :: "int option"
  sts_ServiceName :: string
  sts_Selector :: "(string \<times> string) list"
  sts_Template :: PodTemplateSpec
  sts_VolumeClaimTemplates :: "PersistentVolumeClaim list"
  sts_StatusReplicas :: int
  sts_ReadyReplicas :: int
  sts_CurrentRevision :: string
  sts_UpdateRevision :: string

abbreviation sts_Containers :: "StatefulSet \<Rightarrow> Container list" where
  "sts_Containers sts \<equiv> pod_Containers (pt_Spec (sts_Template sts))"

definition set_containers :: "Container list \<Rightarrow> StatefulSet \<Rightarrow> StatefulSet" where
  "set_containers cs sts =
     sts\<lparr>sts_Template := (sts_Template sts)\<lparr>pt_Spec := (pt_Spec (sts_Template sts))\<lparr>pod_Containers := cs\<rparr>\<rparr>\<rparr>"

lemma sts_Containers_set [simp]: "sts_Containers (set_containers cs sts) = cs"
  by (simp add: set_containers_def)

record ConfigMap =
  cm_Meta :: ObjectMeta
  cm_Data :: "string \<rightharpoonup> string"
  cm_BinaryData :: "string \<rightharpoonup> string"

record ServicePort =
  svp_Name :: string
  svp_Port :: int
  svp_TargetPort :: int
  svp_Protocol :: string

record ServiceSpec =
  svs_Type :: string
  svs_Ports :: "ServicePort list"
  svs_Selector :: "(string \<times> string) list"
  svs_LoadBalancerIP :: string
  svs_ClusterIP :: string
  svs_ClusterIPs :: "string list"

record Service =
  svc_Meta :: ObjectMeta
  svc_Spec :: ServiceSpec

record NetworkPolicyPort =
  npp_Protocol :: "string option"
  npp_Port :: "int option"

record NetworkPolicyPeer =
  peer_PodSelector :: "LabelSelector option"
  peer_NamespaceSelector :: "LabelSelector option"
  peer_IPBlock :: "string option"

text \<open>A rule of a policy, of its ingress or of its egress: ports and peers.\<close>

record NetworkPolicyRule =
  rule_Ports :: "NetworkPolicyPort list"
  rule_Peers :: "NetworkPolicyPeer list"

record NetworkPolicySpec =
  npsp_PodSelector :: LabelSelector
  npsp_PolicyTypes :: "string list"
  npsp_Ingress :: "NetworkPolicyRule list"
  npsp_Egress :: "NetworkPolicyRule list"

record NetworkPolicy =
  np_Meta :: ObjectMeta
  np_Spec :: NetworkPolicySpec

record ParentReference =
  pref_Name :: string
  pref_Namespace :: "string option"
  pref_SectionName :: "string option"

record BackendRef =
  be_Group :: "string option"
  be_Kind :: "string option"
  be_Name :: string
  be_Port :: "int option"

text \<open>A TCPRoute or a UDPRoute: parents, and the backends of each rule.\<close>

record L4Route =
  l4_Meta :: ObjectMeta
  l4_ParentRefs :: "ParentReference list"
  l4_Rules :: "BackendRef list list"

record HTTPRouteRule =
  hrr_PathPrefix :: "string option"
  hrr_BackendRefs :: "BackendRef list"

record HTTPRouteSpec =
  hrs_ParentRefs :: "ParentReference list"
  hrs_Hostnames :: "string list"
  hrs_Rules :: "HTTPRouteRule list"

record HTTPRoute =
  hrt_Meta :: ObjectMeta
  hrt_Spec :: HTTPRouteSpec

text \<open>The kinds of objects the server controller manages, and an object of one of them.\<close>

datatype kind = K_ConfigMap | K_StatefulSet | K_Service | K_NetworkPolicy | K_TCPRoute | K_UDPRoute | K_HTTPRoute

datatype kobj =
    O_ConfigMap ConfigMap
  | O_StatefulSet StatefulSet
  | O_Service Service
  | O_NetworkPolicy NetworkPolicy
  | O_TCPRoute L4Route
  | O_UDPRoute L4Route
  | O_HTTPRoute HTTPRoute

end
