(* ===== verification/Effects.thy ===== *)
theory Effects
  imports K8sTypes
begin

section \<open>The world the controllers act on\<close>

text \<open>
  The controllers call code that is not part of the repository: the Kubernetes API server, the
  RCON connection of \<^verbatim>\<open>gorcon/rcon\<close>, the cron library \<^verbatim>\<open>robfig/cron\<close>, the clock and the scheduler.
  \<open>ext\<close> is the record of these operations, each a function on an arbitrary world \<open>'w\<close>; every
  controller definition takes one as its argument \<open>x\<close>. A call of an operation is recorded with its
  arguments, and with its result where a property depends on it, in the trace of the run.
  \<open>sys\<close> is the state of the operator: the world, the trace and the fields the reconcilers
  keep between calls. Logging is not modelled; the calls of the metrics recorder are in the trace,
  without their durations.
\<close>

subsection \<open>Kubernetes objects the controllers read\<close>

record Pod =
  pod_Name :: string
  pod_Namespace :: string
  pod_IP :: string
  pod_ReadyConditions :: "(string \<times> ConditionStatus) list"

record VolumeSnapshot =
  vs_Name :: string
  vs_GenerateName :: string
  vs_Namespace :: string
  vs_CreationTimestamp :: time
  vs_Labels :: "(string \<times> string) list"
  vs_Owner :: string
  vs_PVC :: string
  vs_Class :: "string option"

text \<open>The context of the caller, and one derived from \<^verbatim>\<open>context.Background()\<close> by a fresh timeout.\<close>

datatype go_context = CallerCtx | FreshTimeout duration

text \<open>The update and the backup reconciler have a cron scheduler each.\<close>

datatype cron_id = UpdateCron | BackupCron

record cronEntryInfo =
  ce_ID :: int
  ce_Spec :: string

subsection \<open>Events\<close>

datatype event =
    E_Now time
  | E_GetServer string string "PaperMCServer result"
  | E_UpdateServer PaperMCServer bool
  | E_PatchServer PaperMCServer PaperMCServer bool
  | E_StatusUpdate PaperMCServer bool
  | E_GetPVC string string bool
  | E_GetPod string string
  | E_DeletePod string string bool
  | E_GetSecret string string
  | E_GetSts string string
  | E_UpdateSts StatefulSet bool
  | E_ListPlugins string "Plugin list result"
  | E_GetPlugin string string "Plugin result"
  | E_PluginStatusUpdate Plugin bool
  | E_Exec string string string "string list" "string result"
  | E_Dial string bool
  | E_Rcon nat string bool
  | E_RconClose nat
  | E_Sleep duration bool
  | E_Tick bool
  | E_CreateSnapshot VolumeSnapshot bool
  | E_ListSnapshots string string "VolumeSnapshot list result"
  | E_DeleteSnapshot VolumeSnapshot bool
  | E_CronAdd cron_id string "int result"
  | E_CronRemove cron_id int
  | E_Lock nat
  | E_Unlock nat
  | E_RecordReconcile string bool
  | E_RecordUpdate bool
  | E_Get kind string string bool
  | E_Create kobj bool
  | E_Update kobj bool
  | E_Delete kobj bool
  | E_ListRoutes string bool
  | E_ListServers string "PaperMCServer list result"
  | E_UpdatePlugin Plugin bool
  | E_ListTags "string list result"
  | E_ImageExists string "bool result"
  | E_Paper string string bool
  | E_SolverRun string bool
  | E_PluginAPI string bool
  | E_Download string "string result"
  | E_CreateServer PaperMCServer bool
  | E_DeleteServer PaperMCServer bool
  | E_CreatePlugin Plugin bool
  | E_DeletePlugin Plugin bool
  | E_ListConfigMaps string bool

subsection \<open>Operations of the world\<close>

record ('w, 'sched) ext =
  x_now :: "'w \<Rightarrow> time \<times> 'w"
  x_ctxErr :: "go_context \<Rightarrow> 'w \<Rightarrow> goerror option \<times> 'w"
  x_sleep :: "duration \<Rightarrow> 'w \<Rightarrow> goerror option \<times> 'w"
  x_tick :: "'w \<Rightarrow> bool \<times> 'w"
  x_getServer :: "string \<Rightarrow> string \<Rightarrow> 'w \<Rightarrow> PaperMCServer result \<times> 'w"
  x_updateServer :: "PaperMCServer \<Rightarrow> 'w \<Rightarrow> PaperMCServer result \<times> 'w"
  x_patchServer :: "PaperMCServer \<Rightarrow> PaperMCServer \<Rightarrow> 'w \<Rightarrow> PaperMCServer result \<times> 'w"
  x_statusUpdate :: "PaperMCServer \<Rightarrow> 'w \<Rightarrow> PaperMCServer result \<times> 'w"
  x_getPVC :: "string \<Rightarrow> string \<Rightarrow> 'w \<Rightarrow> unit result \<times> 'w"
  x_getPod :: "string \<Rightarrow> string \<Rightarrow> 'w \<Rightarrow> Pod result \<times> 'w"
  x_deletePod :: "Pod \<Rightarrow> 'w \<Rightarrow> unit result \<times> 'w"
  x_getSecret :: "string \<Rightarrow> string \<Rightarrow> 'w \<Rightarrow> (string \<rightharpoonup> string) result \<times> 'w"
  x_getSts :: "string \<Rightarrow> string \<Rightarrow> 'w \<Rightarrow> StatefulSet result \<times> 'w"
  x_updateSts :: "StatefulSet \<Rightarrow> 'w \<Rightarrow> unit result \<times> 'w"
  x_listPlugins :: "string \<Rightarrow> 'w \<Rightarrow> Plugin list result \<times> 'w"
  x_getPlugin :: "string \<Rightarrow> string \<Rightarrow> 'w \<Rightarrow> Plugin result \<times> 'w"
  x_pluginStatusUpdate :: "Plugin \<Rightarrow> 'w \<Rightarrow> Plugin result \<times> 'w"
  x_exec :: "string \<Rightarrow> string \<Rightarrow> string \<Rightarrow> string list \<Rightarrow> 'w \<Rightarrow> string result \<times> 'w"
  x_dial :: "string \<Rightarrow> string \<Rightarrow> 'w \<Rightarrow> nat result \<times> 'w"
  x_execute :: "nat \<Rightarrow> string \<Rightarrow> 'w \<Rightarrow> string result \<times> 'w"
  x_close :: "nat \<Rightarrow> 'w \<Rightarrow> unit result \<times> 'w"
  x_createSnapshot :: "VolumeSnapshot \<Rightarrow> 'w \<Rightarrow> VolumeSnapshot result \<times> 'w"
  x_listSnapshots :: "string \<Rightarrow> (string \<times> string) list \<Rightarrow> 'w \<Rightarrow> VolumeSnapshot list result \<times> 'w"
  x_deleteSnapshot :: "VolumeSnapshot \<Rightarrow> 'w \<Rightarrow> unit result \<times> 'w"
  x_cronAdd :: "cron_id \<Rightarrow> string \<Rightarrow> 'w \<Rightarrow> int result \<times> 'w"
  x_cronRemove :: "cron_id \<Rightarrow> int \<Rightarrow> 'w \<Rightarrow> unit \<times> 'w"
  k_SetStatusCondition :: "time \<Rightarrow> Condition list \<Rightarrow> Condition \<Rightarrow> Condition list"
  k_FindStatusCondition :: "Condition list \<Rightarrow> string \<Rightarrow> Condition option"
  k_Error :: "goerror \<Rightarrow> string"
  k_cronParse :: "string \<Rightarrow> 'sched result"
  k_cronNext :: "'sched \<Rightarrow> time \<Rightarrow> time"
  k_sortSnapshots :: "VolumeSnapshot list \<Rightarrow> VolumeSnapshot list"
  k_hasMetrics :: bool
  k_hasBackupReconciler :: bool
  k_backupHasCron :: bool

subsection \<open>State of the operator\<close>

record 'w sys =
  world :: 'w
  trace :: "event list"
  u_cronEntries :: "string \<rightharpoonup> cronEntryInfo"
  b_cronEntries :: "string \<rightharpoonup> cronEntryInfo"
  b_cronTriggerTimes :: "string \<rightharpoonup> time"
  b_backupMu :: "string \<rightharpoonup> nat"
  b_nextMu :: nat

type_synonym ('w, 'a) op = "('w sys, 'a) state"

text \<open>A call of an operation of the world; \<open>mk\<close> builds the event from the result.\<close>

definition call :: "('a \<Rightarrow> event) \<Rightarrow> ('w \<Rightarrow> 'a \<times> 'w) \<Rightarrow> ('w, 'a) op" where
  "call mk f = State (\<lambda>s. case f (world s) of (a, w') \<Rightarrow> (a, s\<lparr>world := w', trace := trace s @ [mk a]\<rparr>))"

text \<open>A call that leaves no event: whether a context is done.\<close>

definition silent :: "('w \<Rightarrow> 'a \<times> 'w) \<Rightarrow> ('w, 'a) op" where
  "silent f = State (\<lambda>s. case f (world s) of (a, w') \<Rightarrow> (a, s\<lparr>world := w'\<rparr>))"

definition emit :: "event \<Rightarrow> ('w, unit) op" where
  "emit e = State (\<lambda>s. ((), s\<lparr>trace := trace s @ [e]\<rparr>))"

definition gets :: "('w sys \<Rightarrow> 'a) \<Rightarrow> ('w, 'a) op" where
  "gets f = State (\<lambda>s. (f s, s))"

text \<open>A change of the reconcilers' own fields, which leaves the world and the trace alone.\<close>

definition modify_u_cron :: "((string \<rightharpoonup> cronEntryInfo) \<Rightarrow> (string \<rightharpoonup> cronEntryInfo)) \<Rightarrow> ('w, unit) op" where
  "modify_u_cron f = State (\<lambda>s. ((), s\<lparr>u_cronEntries := f (u_cronEntries s)\<rparr>))"

definition modify_b_cron :: "((string \<rightharpoonup> cronEntryInfo) \<Rightarrow> (string \<rightharpoonup> cronEntryInfo)) \<Rightarrow> ('w, unit) op" where
  "modify_b_cron f = State (\<lambda>s. ((), s\<lparr>b_cronEntries := f (b_cronEntries s)\<rparr>))"

definition modify_triggers :: "((string \<rightharpoonup> time) \<Rightarrow> (string \<rightharpoonup> time)) \<Rightarrow> ('w, unit) op" where
  "modify_triggers f = State (\<lambda>s. ((), s\<lparr>b_cronTriggerTimes := f (b_cronTriggerTimes s)\<rparr>))"

definition modify_backupMu :: "((string \<rightharpoonup> nat) \<Rightarrow> (string \<rightharpoonup> nat)) \<Rightarrow> ('w, unit) op" where
  "modify_backupMu f = State (\<lambda>s. ((), s\<lparr>b_backupMu := f (b_backupMu s)\<rparr>))"

definition fresh_mutex :: "('w, nat) op" where
  "fresh_mutex = State (\<lambda>s. (b_nextMu s, s\<lparr>b_nextMu := Suc (b_nextMu s)\<rparr>))"

definition pass :: "('w, unit) op" where "pass = State_Monad.return ()"

definition is_ok :: "'a result \<Rightarrow> bool" where
  "is_ok r = (case r of Inr _ \<Rightarrow> True | Inl _ \<Rightarrow> False)"

lemma is_ok_simps [simp]: "is_ok (Inr a) = True" "is_ok (Inl e) = False"
  by (simp_all add: is_ok_def)

subsection \<open>The calls\<close>

definition now_op :: "('w, 'sched) ext \<Rightarrow> ('w, time) op" where
  "now_op x = call E_Now (x_now x)"

definition ctx_err :: "('w, 'sched) ext \<Rightarrow> go_context \<Rightarrow> ('w, goerror option) op" where
  "ctx_err x c = silent (x_ctxErr x c)"

definition sleep :: "('w, 'sched) ext \<Rightarrow> duration \<Rightarrow> ('w, goerror option) op" where
  "sleep x d = call (\<lambda>r. E_Sleep d (r = None)) (x_sleep x d)"

definition tick :: "('w, 'sched) ext \<Rightarrow> ('w, bool) op" where
  "tick x = call E_Tick (x_tick x)"

definition get_server :: "('w, 'sched) ext \<Rightarrow> string \<Rightarrow> string \<Rightarrow> ('w, PaperMCServer result) op" where
  "get_server x ns n = call (E_GetServer ns n) (x_getServer x ns n)"

definition update_server :: "('w, 'sched) ext \<Rightarrow> PaperMCServer \<Rightarrow> ('w, PaperMCServer result) op" where
  "update_server x s = call (\<lambda>r. E_UpdateServer s (is_ok r)) (x_updateServer x s)"

definition patch_server ::
  "('w, 'sched) ext \<Rightarrow> PaperMCServer \<Rightarrow> PaperMCServer \<Rightarrow> ('w, PaperMCServer result) op" where
  "patch_server x from s = call (\<lambda>r. E_PatchServer from s (is_ok r)) (x_patchServer x from s)"

definition status_update :: "('w, 'sched) ext \<Rightarrow> PaperMCServer \<Rightarrow> ('w, PaperMCServer result) op" where
  "status_update x s = call (\<lambda>r. E_StatusUpdate s (is_ok r)) (x_statusUpdate x s)"

definition get_pvc :: "('w, 'sched) ext \<Rightarrow> string \<Rightarrow> string \<Rightarrow> ('w, unit result) op" where
  "get_pvc x ns n = call (\<lambda>r. E_GetPVC ns n (is_ok r)) (x_getPVC x ns n)"

definition get_pod :: "('w, 'sched) ext \<Rightarrow> string \<Rightarrow> string \<Rightarrow> ('w, Pod result) op" where
  "get_pod x ns n = call (\<lambda>_. E_GetPod ns n) (x_getPod x ns n)"

definition delete_pod :: "('w, 'sched) ext \<Rightarrow> Pod \<Rightarrow> string \<Rightarrow> string \<Rightarrow> ('w, unit result) op" where
  "delete_pod x pod ns n = call (\<lambda>r. E_DeletePod ns n (is_ok r)) (x_deletePod x pod)"

definition get_secret :: "('w, 'sched) ext \<Rightarrow> string \<Rightarrow> string \<Rightarrow> ('w, (string \<rightharpoonup> string) result) op" where
  "get_secret x ns n = call (\<lambda>_. E_GetSecret ns n) (x_getSecret x ns n)"

definition get_sts :: "('w, 'sched) ext \<Rightarrow> string \<Rightarrow> string \<Rightarrow> ('w, StatefulSet result) op" where
  "get_sts x ns n = call (\<lambda>_. E_GetSts ns n) (x_getSts x ns n)"

definition update_sts :: "('w, 'sched) ext \<Rightarrow> StatefulSet \<Rightarrow> ('w, unit result) op" where
  "update_sts x sts = call (\<lambda>r. E_UpdateSts sts (is_ok r)) (x_updateSts x sts)"

definition list_plugins :: "('w, 'sched) ext \<Rightarrow> string \<Rightarrow> ('w, Plugin list result) op" where
  "list_plugins x ns = call (E_ListPlugins ns) (x_listPlugins x ns)"

definition get_plugin :: "('w, 'sched) ext \<Rightarrow> string \<Rightarrow> string \<Rightarrow> ('w, Plugin result) op" where
  "get_plugin x ns n = call (E_GetPlugin ns n) (x_getPlugin x ns n)"

definition plugin_status_update :: "('w, 'sched) ext \<Rightarrow> Plugin \<Rightarrow> ('w, Plugin result) op" where
  "plugin_status_update x p = call (\<lambda>r. E_PluginStatusUpdate p (is_ok r)) (x_pluginStatusUpdate x p)"

definition exec_in_pod ::
  "('w, 'sched) ext \<Rightarrow> string \<Rightarrow> string \<Rightarrow> string \<Rightarrow> string list \<Rightarrow> ('w, string result) op" where
  "exec_in_pod x ns pod container cmd =
     call (E_Exec ns pod container cmd) (x_exec x ns pod container cmd)"

definition rcon_dial :: "('w, 'sched) ext \<Rightarrow> string \<Rightarrow> string \<Rightarrow> ('w, nat result) op" where
  "rcon_dial x addr pw = call (\<lambda>r. E_Dial addr (is_ok r)) (x_dial x addr pw)"

definition rcon_execute :: "('w, 'sched) ext \<Rightarrow> nat \<Rightarrow> string \<Rightarrow> ('w, string result) op" where
  "rcon_execute x h cmd = call (\<lambda>r. E_Rcon h cmd (is_ok r)) (x_execute x h cmd)"

definition rcon_close :: "('w, 'sched) ext \<Rightarrow> nat \<Rightarrow> ('w, unit result) op" where
  "rcon_close x h = call (\<lambda>_. E_RconClose h) (x_close x h)"

definition create_snapshot :: "('w, 'sched) ext \<Rightarrow> VolumeSnapshot \<Rightarrow> ('w, VolumeSnapshot result) op" where
  "create_snapshot x v = call (\<lambda>r. E_CreateSnapshot v (is_ok r)) (x_createSnapshot x v)"

definition list_snapshots ::
  "('w, 'sched) ext \<Rightarrow> string \<Rightarrow> string \<Rightarrow> (string \<times> string) list \<Rightarrow> ('w, VolumeSnapshot list result) op" where
  "list_snapshots x ns name sel = call (E_ListSnapshots ns name) (x_listSnapshots x ns sel)"

definition delete_snapshot :: "('w, 'sched) ext \<Rightarrow> VolumeSnapshot \<Rightarrow> ('w, unit result) op" where
  "delete_snapshot x v = call (\<lambda>r. E_DeleteSnapshot v (is_ok r)) (x_deleteSnapshot x v)"

definition cron_add :: "('w, 'sched) ext \<Rightarrow> cron_id \<Rightarrow> string \<Rightarrow> ('w, int result) op" where
  "cron_add x c spec = call (E_CronAdd c spec) (x_cronAdd x c spec)"

definition cron_remove :: "('w, 'sched) ext \<Rightarrow> cron_id \<Rightarrow> int \<Rightarrow> ('w, unit) op" where
  "cron_remove x c i = call (\<lambda>_. E_CronRemove c i) (x_cronRemove x c i)"

lemmas call_ops = now_op_def sleep_def tick_def get_server_def update_server_def patch_server_def
  status_update_def get_pvc_def get_pod_def delete_pod_def get_secret_def get_sts_def update_sts_def
  list_plugins_def get_plugin_def plugin_status_update_def exec_in_pod_def rcon_dial_def
  rcon_execute_def rcon_close_def create_snapshot_def list_snapshots_def delete_snapshot_def
  cron_add_def cron_remove_def

lemmas silent_ops = ctx_err_def

subsection \<open>Reasoning about traces\<close>

text \<open>
  \<open>tr m t Q\<close>: run from a state whose trace ends with \<open>t\<close>, the computation \<open>m\<close> ends with a
  value \<open>a\<close> and with \<open>t\<close> replaced by some \<open>t'\<close> such that \<open>Q a t'\<close>. \<open>emits m R\<close> is the case of an
  empty \<open>t\<close>: \<open>R\<close> relates the value of \<open>m\<close> to the events it adds. Both hold for every world and every
  behaviour of the operations of the world. The rules execute a computation symbolically.
\<close>

definition tr :: "('w, 'a) op \<Rightarrow> event list \<Rightarrow> ('a \<Rightarrow> event list \<Rightarrow> bool) \<Rightarrow> bool" where
  "tr m t Q \<longleftrightarrow> (\<forall>pre s. trace s = pre @ t \<longrightarrow>
     (case run_state m s of (a, s') \<Rightarrow> \<exists>t'. trace s' = pre @ t' \<and> Q a t'))"

abbreviation emits :: "('w, 'a) op \<Rightarrow> ('a \<Rightarrow> event list \<Rightarrow> bool) \<Rightarrow> bool" where
  "emits m R \<equiv> tr m [] R"

named_theorems tr_rules \<open>symbolic execution of traces\<close>

lemma emitsD: "emits m R \<Longrightarrow> run_state m s = (a, s') \<Longrightarrow> \<exists>u. trace s' = trace s @ u \<and> R a u"
  unfolding tr_def by (drule spec [of _ "trace s"], drule spec [of _ s]) simp

lemma emitsI:
  "(\<And>s a s'. run_state m s = (a, s') \<Longrightarrow> \<exists>u. trace s' = trace s @ u \<and> R a u) \<Longrightarrow> emits m R"
  by (auto simp: tr_def split: prod.splits)

lemma tr_weaken: "tr m t R \<Longrightarrow> (\<And>a u. R a u \<Longrightarrow> Q a u) \<Longrightarrow> tr m t Q"
  by (fastforce simp: tr_def split: prod.splits)

lemma tr_return [tr_rules]: "Q a t \<Longrightarrow> tr (State_Monad.return a) t Q"
  by (simp add: tr_def)

lemma tr_pass [tr_rules]: "Q () t \<Longrightarrow> tr pass t Q"
  by (simp add: pass_def tr_return)

lemma tr_bind: "tr m t R \<Longrightarrow> (\<And>a u. R a u \<Longrightarrow> tr (k a) u Q) \<Longrightarrow> tr (State_Monad.bind m k) t Q"
  by (fastforce simp: tr_def split: prod.splits)

lemma tr_call [tr_rules]:
  "(\<And>w a. fst (f w) = a \<Longrightarrow> Q a (t @ [mk a])) \<Longrightarrow> tr (call mk f) t Q"
  by (auto simp: tr_def call_def split: prod.splits) (metis fst_conv)

lemma tr_silent [tr_rules]: "(\<And>w a. fst (f w) = a \<Longrightarrow> Q a t) \<Longrightarrow> tr (silent f) t Q"
  by (auto simp: tr_def silent_def split: prod.splits) (metis fst_conv)

lemma tr_emit [tr_rules]: "Q () (t @ [e]) \<Longrightarrow> tr (emit e) t Q"
  by (simp add: tr_def emit_def)

lemma tr_gets [tr_rules]: "(\<And>a. Q a t) \<Longrightarrow> tr (gets f) t Q"
  by (simp add: tr_def gets_def)

lemma tr_modify [tr_rules]:
  "Q () t \<Longrightarrow> tr (modify_u_cron g) t Q"
  "Q () t \<Longrightarrow> tr (modify_b_cron g) t Q"
  "Q () t \<Longrightarrow> tr (modify_triggers h) t Q"
  "Q () t \<Longrightarrow> tr (modify_backupMu i) t Q"
  by (simp_all add: tr_def modify_u_cron_def modify_b_cron_def modify_triggers_def modify_backupMu_def)

lemma tr_fresh_mutex [tr_rules]: "(\<And>n. Q n t) \<Longrightarrow> tr fresh_mutex t Q"
  by (simp add: tr_def fresh_mutex_def)

lemma tr_if [tr_rules]: "(b \<Longrightarrow> tr m t Q) \<Longrightarrow> (\<not> b \<Longrightarrow> tr n t Q) \<Longrightarrow> tr (if b then m else n) t Q"
  by simp

lemma tr_sum_case [tr_rules]:
  "(\<And>e. r = Inl e \<Longrightarrow> tr (f e) t Q) \<Longrightarrow> (\<And>a. r = Inr a \<Longrightarrow> tr (g a) t Q)
   \<Longrightarrow> tr (case r of Inl e \<Rightarrow> f e | Inr a \<Rightarrow> g a) t Q"
  by (cases r) auto

lemma tr_option_case [tr_rules]:
  "(r = None \<Longrightarrow> tr m t Q) \<Longrightarrow> (\<And>a. r = Some a \<Longrightarrow> tr (g a) t Q)
   \<Longrightarrow> tr (case r of None \<Rightarrow> m | Some a \<Rightarrow> g a) t Q"
  by (cases r) auto

lemma tr_prod_case [tr_rules]:
  "(\<And>a b. p = (a, b) \<Longrightarrow> tr (f a b) t Q) \<Longrightarrow> tr (case p of (a, b) \<Rightarrow> f a b) t Q"
  by (cases p) auto

lemma tr_let [tr_rules]: "(\<And>y. y = v \<Longrightarrow> tr (f y) t Q) \<Longrightarrow> tr (let y = v in f y) t Q"
  by simp

text \<open>A computation whose events are known, framed by the events before it.\<close>

lemma tr_emits: "emits m R \<Longrightarrow> (\<And>a u. R a u \<Longrightarrow> Q a (t @ u)) \<Longrightarrow> tr m t Q"
  unfolding tr_def by (fastforce split: prod.splits)

lemma tr_bind_emits:
  "emits m R \<Longrightarrow> (\<And>a u. R a u \<Longrightarrow> tr (k a) (t @ u) Q) \<Longrightarrow> tr (State_Monad.bind m k) t Q"
  by (rule tr_bind) (erule tr_emits, assumption, simp)

lemma tr_bind_assoc [tr_rules]:
  "tr (State_Monad.bind m (\<lambda>a. State_Monad.bind (f a) g)) t Q
   \<Longrightarrow> tr (State_Monad.bind (State_Monad.bind m f) g) t Q"
  by (simp add: tr_def run_state_bind split: prod.splits)

lemma tr_bind_return [tr_rules]: "tr (k a) t Q \<Longrightarrow> tr (State_Monad.bind (State_Monad.return a) k) t Q"
  by (simp add: tr_def)

text \<open>A call, or another primitive, and what follows it.\<close>

lemma tr_bind_call [tr_rules]:
  "(\<And>w a. fst (f w) = a \<Longrightarrow> tr (k a) (t @ [mk a]) Q) \<Longrightarrow> tr (State_Monad.bind (call mk f) k) t Q"
  by (rule tr_bind [where R = "\<lambda>a u. u = t @ [mk a] \<and> (\<exists>w. fst (f w) = a)"]) (auto intro: tr_rules)

lemma tr_bind_silent [tr_rules]:
  "(\<And>w a. fst (f w) = a \<Longrightarrow> tr (k a) t Q) \<Longrightarrow> tr (State_Monad.bind (silent f) k) t Q"
  by (rule tr_bind [where R = "\<lambda>a u. u = t \<and> (\<exists>w. fst (f w) = a)"]) (auto intro: tr_rules)

lemma tr_bind_emit [tr_rules]: "tr (k ()) (t @ [e]) Q \<Longrightarrow> tr (State_Monad.bind (emit e) k) t Q"
  by (rule tr_bind [where R = "\<lambda>a u. u = t @ [e]"]) (auto intro: tr_rules)

lemma tr_bind_gets [tr_rules]: "(\<And>a. tr (k a) t Q) \<Longrightarrow> tr (State_Monad.bind (gets f) k) t Q"
  by (rule tr_bind [where R = "\<lambda>a u. u = t"]) (auto intro: tr_rules)

lemma tr_bind_fresh_mutex [tr_rules]: "(\<And>a. tr (k a) t Q) \<Longrightarrow> tr (State_Monad.bind fresh_mutex k) t Q"
  by (rule tr_bind [where R = "\<lambda>a u. u = t"]) (auto intro: tr_rules)

lemma tr_bind_unit [tr_rules]:
  "tr (k ()) t Q \<Longrightarrow> tr (State_Monad.bind pass k) t Q"
  "tr (k ()) t Q \<Longrightarrow> tr (State_Monad.bind (modify_u_cron g) k) t Q"
  "tr (k ()) t Q \<Longrightarrow> tr (State_Monad.bind (modify_b_cron g) k) t Q"
  "tr (k ()) t Q \<Longrightarrow> tr (State_Monad.bind (modify_triggers h) k) t Q"
  "tr (k ()) t Q \<Longrightarrow> tr (State_Monad.bind (modify_backupMu i) k) t Q"
  by (rule tr_bind [where R = "\<lambda>a u. u = t"]; auto intro: tr_rules)+

lemma tr_bind_if [tr_rules]:
  "(b \<Longrightarrow> tr (State_Monad.bind m k) t Q) \<Longrightarrow> (\<not> b \<Longrightarrow> tr (State_Monad.bind n k) t Q)
   \<Longrightarrow> tr (State_Monad.bind (if b then m else n) k) t Q"
  by simp

lemma tr_bind_sum_case [tr_rules]:
  "(\<And>e. r = Inl e \<Longrightarrow> tr (State_Monad.bind (f e) k) t Q) \<Longrightarrow>
   (\<And>a. r = Inr a \<Longrightarrow> tr (State_Monad.bind (g a) k) t Q)
   \<Longrightarrow> tr (State_Monad.bind (case r of Inl e \<Rightarrow> f e | Inr a \<Rightarrow> g a) k) t Q"
  by (cases r) auto

lemma tr_bind_option_case [tr_rules]:
  "(r = None \<Longrightarrow> tr (State_Monad.bind m k) t Q) \<Longrightarrow>
   (\<And>a. r = Some a \<Longrightarrow> tr (State_Monad.bind (g a) k) t Q)
   \<Longrightarrow> tr (State_Monad.bind (case r of None \<Rightarrow> m | Some a \<Rightarrow> g a) k) t Q"
  by (cases r) auto

lemma tr_bind_prod_case [tr_rules]:
  "(\<And>a b. p = (a, b) \<Longrightarrow> tr (State_Monad.bind (f a b) k) t Q)
   \<Longrightarrow> tr (State_Monad.bind (case p of (a, b) \<Rightarrow> f a b) k) t Q"
  by (cases p) auto

lemma tr_bind_let [tr_rules]:
  "(\<And>y. y = v \<Longrightarrow> tr (State_Monad.bind (f y) k) t Q) \<Longrightarrow> tr (State_Monad.bind (let y = v in f y) k) t Q"
  by simp

lemma tr_bool_case [tr_rules]:
  "(b \<Longrightarrow> tr m t Q) \<Longrightarrow> (\<not> b \<Longrightarrow> tr n t Q) \<Longrightarrow> tr (case b of True \<Rightarrow> m | False \<Rightarrow> n) t Q"
  "(b \<Longrightarrow> tr (State_Monad.bind m k) t Q) \<Longrightarrow> (\<not> b \<Longrightarrow> tr (State_Monad.bind n k) t Q)
   \<Longrightarrow> tr (State_Monad.bind (case b of True \<Rightarrow> m | False \<Rightarrow> n) k) t Q"
  by (cases b; simp)+

lemma tr_list_case [tr_rules]:
  "(xs = [] \<Longrightarrow> tr m t Q) \<Longrightarrow> (\<And>y ys. xs = y # ys \<Longrightarrow> tr (g y ys) t Q)
   \<Longrightarrow> tr (case xs of [] \<Rightarrow> m | y # ys \<Rightarrow> g y ys) t Q"
  "(xs = [] \<Longrightarrow> tr (State_Monad.bind m k) t Q) \<Longrightarrow> (\<And>y ys. xs = y # ys \<Longrightarrow> tr (State_Monad.bind (g y ys) k) t Q)
   \<Longrightarrow> tr (State_Monad.bind (case xs of [] \<Rightarrow> m | y # ys \<Rightarrow> g y ys) k) t Q"
  by (cases xs; simp)+

lemma tr_conj: "tr m t Q \<Longrightarrow> tr m t R \<Longrightarrow> tr m t (\<lambda>a u. Q a u \<and> R a u)"
  by (fastforce simp: tr_def split: prod.splits)

subsection \<open>Computations that make only certain calls\<close>

definition only :: "(event \<Rightarrow> bool) \<Rightarrow> ('w, 'a) op \<Rightarrow> bool" where
  "only P m \<longleftrightarrow> emits m (\<lambda>_ u. list_all P u)"

named_theorems only_rules \<open>rules for only\<close>

lemma onlyI: "emits m (\<lambda>_ u. list_all P u) \<Longrightarrow> only P m"
  and onlyD: "only P m \<Longrightarrow> emits m (\<lambda>_ u. list_all P u)"
  by (simp_all add: only_def)

lemma only_bind [only_rules]: "only P m \<Longrightarrow> (\<And>a. only P (k a)) \<Longrightarrow> only P (State_Monad.bind m k)"
proof -
  assume m: "only P m" and k: "\<And>a. only P (k a)"
  have "tr (k a) ([] @ u) (\<lambda>_ u. list_all P u)" if "list_all P u" for a u
    by (rule tr_emits [OF onlyD [OF k]]) (use that in simp)
  with m show ?thesis unfolding only_def by (rule tr_bind_emits)
qed

lemma only_prim [only_rules]:
  "only P (State_Monad.return a)" "only P pass" "only P (silent g)" "only P (gets h)"
  "only P (modify_u_cron i)" "only P (modify_b_cron i)" "only P (modify_triggers j)"
  "only P (modify_backupMu k)" "only P fresh_mutex"
  unfolding only_def by (auto intro: tr_rules)

lemma only_call [only_rules]: "(\<And>a. P (mk a)) \<Longrightarrow> only P (call mk f)"
  and only_emit [only_rules]: "P e \<Longrightarrow> only P (emit e)"
  unfolding only_def by (auto intro: tr_rules)

lemma only_cases [only_rules]:
  "only P m \<Longrightarrow> only P n \<Longrightarrow> only P (if b then m else n)"
  "(\<And>e. only P (g e)) \<Longrightarrow> (\<And>a. only P (h a)) \<Longrightarrow> only P (case r of Inl e \<Rightarrow> g e | Inr a \<Rightarrow> h a)"
  "only P m' \<Longrightarrow> (\<And>a. only P (h' a)) \<Longrightarrow> only P (case o' of None \<Rightarrow> m' | Some a \<Rightarrow> h' a)"
  "(\<And>a b. only P (g' a b)) \<Longrightarrow> only P (case p of (a, b) \<Rightarrow> g' a b)"
  "(\<And>y. only P (l y)) \<Longrightarrow> only P (let y = v in l y)"
  "only P m1 \<Longrightarrow> only P n1 \<Longrightarrow> only P (case c of True \<Rightarrow> m1 | False \<Rightarrow> n1)"
  "only P m2 \<Longrightarrow> (\<And>y ys. only P (g2 y ys)) \<Longrightarrow> only P (case xs of [] \<Rightarrow> m2 | y # ys \<Rightarrow> g2 y ys)"
  by (auto split: sum.split option.split prod.split bool.split list.split)

subsection \<open>Parts of the state a computation keeps\<close>

definition keeps :: "('w sys \<Rightarrow> 'b) \<Rightarrow> ('w, 'a) op \<Rightarrow> bool" where
  "keeps f m \<longleftrightarrow> (\<forall>s. f (snd (run_state m s)) = f s)"

named_theorems keeps_rules \<open>rules for keeps\<close>

lemma keepsD: "keeps f m \<Longrightarrow> run_state m s = (a, s') \<Longrightarrow> f s' = f s"
  by (metis keeps_def snd_conv)

lemma keeps_return [keeps_rules]: "keeps f (State_Monad.return a)"
  and keeps_pass [keeps_rules]: "keeps f pass"
  and keeps_gets [keeps_rules]: "keeps f (gets g)"
  by (simp_all add: keeps_def pass_def gets_def)

lemma keeps_bind [keeps_rules]: "keeps f m \<Longrightarrow> (\<And>a. keeps f (k a)) \<Longrightarrow> keeps f (State_Monad.bind m k)"
  by (simp add: keeps_def split: prod.splits) (metis snd_conv)

lemma keeps_call [keeps_rules]:
  "(\<And>s w e. f (s\<lparr>world := w, trace := e\<rparr>) = f s) \<Longrightarrow> keeps f (call mk g)"
  by (simp add: keeps_def call_def split: prod.splits)

lemma keeps_silent [keeps_rules]: "(\<And>s w. f (s\<lparr>world := w\<rparr>) = f s) \<Longrightarrow> keeps f (silent g)"
  by (simp add: keeps_def silent_def split: prod.splits)

lemma keeps_emit [keeps_rules]: "(\<And>s e. f (s\<lparr>trace := e\<rparr>) = f s) \<Longrightarrow> keeps f (emit ev)"
  by (simp add: keeps_def emit_def)

lemma keeps_modify [keeps_rules]:
  "(\<And>s m. f (s\<lparr>u_cronEntries := m\<rparr>) = f s) \<Longrightarrow> keeps f (modify_u_cron g)"
  "(\<And>s m. f (s\<lparr>b_cronEntries := m\<rparr>) = f s) \<Longrightarrow> keeps f (modify_b_cron g)"
  "(\<And>s m. f (s\<lparr>b_cronTriggerTimes := m\<rparr>) = f s) \<Longrightarrow> keeps f (modify_triggers h)"
  "(\<And>s m. f (s\<lparr>b_backupMu := m\<rparr>) = f s) \<Longrightarrow> keeps f (modify_backupMu i)"
  "(\<And>s m. f (s\<lparr>b_nextMu := m\<rparr>) = f s) \<Longrightarrow> keeps f fresh_mutex"
  by (simp_all add: keeps_def modify_u_cron_def modify_b_cron_def modify_triggers_def
      modify_backupMu_def fresh_mutex_def)

lemma keeps_cases [keeps_rules]:
  "keeps f m \<Longrightarrow> keeps f n \<Longrightarrow> keeps f (if b then m else n)"
  "(\<And>e. keeps f (g e)) \<Longrightarrow> (\<And>a. keeps f (h a)) \<Longrightarrow> keeps f (case r of Inl e \<Rightarrow> g e | Inr a \<Rightarrow> h a)"
  "keeps f m' \<Longrightarrow> (\<And>a. keeps f (h' a)) \<Longrightarrow> keeps f (case o' of None \<Rightarrow> m' | Some a \<Rightarrow> h' a)"
  "(\<And>a b. keeps f (g' a b)) \<Longrightarrow> keeps f (case p of (a, b) \<Rightarrow> g' a b)"
  "(\<And>y. keeps f (l y)) \<Longrightarrow> keeps f (let y = v in l y)"
  "keeps f m1 \<Longrightarrow> keeps f n1 \<Longrightarrow> keeps f (case c of True \<Rightarrow> m1 | False \<Rightarrow> n1)"
  "keeps f m2 \<Longrightarrow> (\<And>y ys. keeps f (g2 y ys)) \<Longrightarrow> keeps f (case xs of [] \<Rightarrow> m2 | y # ys \<Rightarrow> g2 y ys)"
  by (auto split: sum.split option.split prod.split bool.split list.split)

subsection \<open>A world for the witnesses\<close>

text \<open>A world in which every call succeeds, one server is stored and the clock stands still.\<close>

definition demo_time :: time where "demo_time = 63836596800 * Second"

definition demo_SetStatusCondition :: "time \<Rightarrow> Condition list \<Rightarrow> Condition \<Rightarrow> Condition list" where
  "demo_SetStatusCondition t cs c = filter (\<lambda>d. c_Type d \<noteq> c_Type c) cs @ [c]"

definition demo_FindStatusCondition :: "Condition list \<Rightarrow> string \<Rightarrow> Condition option" where
  "demo_FindStatusCondition cs ty = find (\<lambda>c. c_Type c = ty) cs"

definition demo_pod :: Pod where
  "demo_pod = \<lparr>pod_Name = ''mc-0'', pod_Namespace = ''games'', pod_IP = ''10.0.0.7'',
     pod_ReadyConditions = [(''Ready'', ConditionTrue)]\<rparr>"

definition demo_container :: Container where
  "demo_container = \<lparr>ct_Name = ''papermc'', ct_Image = ''docker.io/lexfrei/papermc:1.21.1-91'', ct_Command = [],
     ct_Env = [], ct_VolumeMounts = [], ct_SecurityContext = None\<rparr>"

definition demo_sts :: StatefulSet where
  "demo_sts = \<lparr>sts_Meta = zero_meta\<lparr>m_Name := ''mc'', m_Namespace := ''games''\<rparr>, sts_Replicas = Some 1,
     sts_ServiceName = ''mc'', sts_Selector = [],
     sts_Template = \<lparr>pt_Labels = Map.empty, pt_Annotations = Map.empty,
       pt_Spec = zero_pod_spec\<lparr>pod_Containers := [demo_container]\<rparr>\<rparr>,
     sts_VolumeClaimTemplates = [], sts_StatusReplicas = 1, sts_ReadyReplicas = 1,
     sts_CurrentRevision = ''r1'', sts_UpdateRevision = ''r1''\<rparr>"

definition still_ext :: "PaperMCServer \<Rightarrow> ('w, unit) ext" where
  "still_ext server =
     \<lparr>x_now = (\<lambda>w. (demo_time, w)), x_ctxErr = (\<lambda>_ w. (None, w)), x_sleep = (\<lambda>_ w. (None, w)),
      x_tick = (\<lambda>w. (True, w)), x_getServer = (\<lambda>_ _ w. (Inr server, w)),
      x_updateServer = (\<lambda>s w. (Inr s, w)), x_patchServer = (\<lambda>_ s w. (Inr s, w)),
      x_statusUpdate = (\<lambda>s w. (Inr s, w)), x_getPVC = (\<lambda>_ _ w. (Inr (), w)),
      x_getPod = (\<lambda>_ _ w. (Inr demo_pod, w)), x_deletePod = (\<lambda>_ w. (Inr (), w)),
      x_getSecret = (\<lambda>_ _ w. (Inr [''password'' \<mapsto> ''secret''], w)),
      x_getSts = (\<lambda>_ _ w. (Inr demo_sts, w)), x_updateSts = (\<lambda>_ w. (Inr (), w)),
      x_listPlugins = (\<lambda>_ w. (Inr [], w)), x_getPlugin = (\<lambda>_ _ w. (Inr zero_plugin, w)),
      x_pluginStatusUpdate = (\<lambda>p w. (Inr p, w)), x_exec = (\<lambda>_ _ _ _ w. (Inr [], w)),
      x_dial = (\<lambda>_ _ w. (Inr 1, w)), x_execute = (\<lambda>_ _ w. (Inr [], w)), x_close = (\<lambda>_ w. (Inr (), w)),
      x_createSnapshot = (\<lambda>v w. (Inr (v\<lparr>vs_Name := vs_GenerateName v @ ''x''\<rparr>), w)),
      x_listSnapshots = (\<lambda>_ _ w. (Inr [], w)), x_deleteSnapshot = (\<lambda>_ w. (Inr (), w)),
      x_cronAdd = (\<lambda>_ _ w. (Inr 1, w)), x_cronRemove = (\<lambda>_ _ w. ((), w)),
      k_SetStatusCondition = demo_SetStatusCondition, k_FindStatusCondition = demo_FindStatusCondition,
      k_Error = (\<lambda>_. ''error''), k_cronParse = (\<lambda>_. Inr ()),
      k_cronNext = (\<lambda>_ t. (t div Minute + 1) * Minute),
      k_sortSnapshots = sort_key vs_CreationTimestamp,
      k_hasMetrics = True, k_hasBackupReconciler = True, k_backupHasCron = True\<rparr>"

definition demo_ext :: "PaperMCServer \<Rightarrow> (unit, unit) ext" where
  "demo_ext server = still_ext server"

definition demo_sys :: "unit sys" where
  "demo_sys = \<lparr>world = (), trace = [], u_cronEntries = Map.empty, b_cronEntries = Map.empty,
     b_cronTriggerTimes = Map.empty, b_backupMu = Map.empty, b_nextMu = 0\<rparr>"

lemma demo_ext_simps [simp]:
  "x_now (demo_ext server) = (\<lambda>w. (demo_time, w))"
  "x_ctxErr (demo_ext server) = (\<lambda>_ w. (None, w))"
  "x_sleep (demo_ext server) = (\<lambda>_ w. (None, w))"
  "x_tick (demo_ext server) = (\<lambda>w. (True, w))"
  "x_getServer (demo_ext server) = (\<lambda>_ _ w. (Inr server, w))"
  "x_updateServer (demo_ext server) = (\<lambda>s w. (Inr s, w))"
  "x_patchServer (demo_ext server) = (\<lambda>_ s w. (Inr s, w))"
  "x_statusUpdate (demo_ext server) = (\<lambda>s w. (Inr s, w))"
  "x_getPVC (demo_ext server) = (\<lambda>_ _ w. (Inr (), w))"
  "x_getPod (demo_ext server) = (\<lambda>_ _ w. (Inr demo_pod, w))"
  "x_deletePod (demo_ext server) = (\<lambda>_ w. (Inr (), w))"
  "x_getSecret (demo_ext server) = (\<lambda>_ _ w. (Inr [''password'' \<mapsto> ''secret''], w))"
  "x_getSts (demo_ext server) = (\<lambda>_ _ w. (Inr demo_sts, w))"
  "x_updateSts (demo_ext server) = (\<lambda>_ w. (Inr (), w))"
  "x_listPlugins (demo_ext server) = (\<lambda>_ w. (Inr [], w))"
  "x_getPlugin (demo_ext server) = (\<lambda>_ _ w. (Inr zero_plugin, w))"
  "x_pluginStatusUpdate (demo_ext server) = (\<lambda>p w. (Inr p, w))"
  "x_exec (demo_ext server) = (\<lambda>_ _ _ _ w. (Inr [], w))"
  "x_dial (demo_ext server) = (\<lambda>_ _ w. (Inr 1, w))"
  "x_execute (demo_ext server) = (\<lambda>_ _ w. (Inr [], w))"
  "x_close (demo_ext server) = (\<lambda>_ w. (Inr (), w))"
  "x_createSnapshot (demo_ext server) = (\<lambda>v w. (Inr (v\<lparr>vs_Name := vs_GenerateName v @ ''x''\<rparr>), w))"
  "x_listSnapshots (demo_ext server) = (\<lambda>_ _ w. (Inr [], w))"
  "x_deleteSnapshot (demo_ext server) = (\<lambda>_ w. (Inr (), w))"
  "x_cronAdd (demo_ext server) = (\<lambda>_ _ w. (Inr 1, w))"
  "x_cronRemove (demo_ext server) = (\<lambda>_ _ w. ((), w))"
  "k_SetStatusCondition (demo_ext server) = demo_SetStatusCondition"
  "k_FindStatusCondition (demo_ext server) = demo_FindStatusCondition"
  "k_Error (demo_ext server) = (\<lambda>_. ''error'')"
  "k_cronParse (demo_ext server) = (\<lambda>_. Inr ())"
  "k_cronNext (demo_ext server) = (\<lambda>_ t. (t div Minute + 1) * Minute)"
  "k_sortSnapshots (demo_ext server) = sort_key vs_CreationTimestamp"
  "k_hasMetrics (demo_ext server) = True"
  "k_hasBackupReconciler (demo_ext server) = True"
  "k_backupHasCron (demo_ext server) = True"
  by (simp_all add: demo_ext_def still_ext_def)

lemma emits_demo: "emits m R \<Longrightarrow> R (fst (run_state m demo_sys)) (trace (snd (run_state m demo_sys)))"
  by (cases "run_state m demo_sys") (auto dest!: emitsD simp: demo_sys_def)

end
