(* ===== verification/Rcon.thy ===== *)
theory Rcon
  imports Effects "HOL-Library.Sublist"
begin

section \<open>RCON client and snapshot hooks\<close>

text \<open>
  \<^verbatim>\<open>pkg/rcon/client.go\<close> (\<open>RCONClient\<close>) and \<^verbatim>\<open>pkg/backup/hooks.go\<close>. The connection of
  \<^verbatim>\<open>gorcon/rcon\<close> is a handle of the world; methods that change the client return the new one. The
  hooks are written against the interface \<^verbatim>\<open>RCONCommander\<close>: their argument \<open>send\<close> is its only
  method, and the locale \<open>commander\<close> is its contract, which \<open>SendCommand\<close> of a connected
  \<open>RCONClient\<close> fulfils.
\<close>

subsection \<open>RCONClient\<close>

record RCONClient =
  rcl_conn :: "nat option"
  rcl_host :: string
  rcl_port :: int
  rcl_password :: string

definition NewRCONClient :: "string \<Rightarrow> int \<Rightarrow> string \<Rightarrow> RCONClient result" where
  "NewRCONClient host port password =
     (if host = [] then Inl (New ''host cannot be empty'')
      else if port \<le> 0 \<or> 65535 < port then Inl (Newf ''invalid port: %d'' [AInt port])
      else if password = [] then Inl (New ''password cannot be empty'')
      else Inr \<lparr>rcl_conn = None, rcl_host = host, rcl_port = port, rcl_password = password\<rparr>)"

definition Connect :: "('w, 'sched) ext \<Rightarrow> RCONClient \<Rightarrow> ('w, unit result \<times> RCONClient) op" where
  "Connect x c = do {
     ce \<leftarrow> ctx_err x CallerCtx;
     case ce of
       Some err \<Rightarrow> State_Monad.return (Inl err, c)
     | None \<Rightarrow>
         let address = rcl_host c @ '':'' @ itoa (rcl_port c) in
         do {
           conn \<leftarrow> rcon_dial x address (rcl_password c);
           case conn of
             Inl err \<Rightarrow>
               State_Monad.return (Inl (Wrapf err ''failed to connect to RCON at %s'' [AStr address]), c)
           | Inr h \<Rightarrow> State_Monad.return (Inr (), c\<lparr>rcl_conn := Some h\<rparr>)
         }
   }"

definition SendCommand ::
  "('w, 'sched) ext \<Rightarrow> RCONClient \<Rightarrow> go_context \<Rightarrow> string \<Rightarrow> ('w, string result) op" where
  "SendCommand x c ctx command = do {
     ce \<leftarrow> ctx_err x ctx;
     case ce of
       Some err \<Rightarrow> State_Monad.return (Inl err)
     | None \<Rightarrow>
         (case rcl_conn c of
            None \<Rightarrow> State_Monad.return (Inl (New ''not connected to RCON server''))
          | Some h \<Rightarrow> do {
              response \<leftarrow> rcon_execute x h command;
              case response of
                Inl err \<Rightarrow>
                  State_Monad.return (Inl (Wrapf err ''failed to execute command: %s'' [AStr command]))
              | Inr r \<Rightarrow> State_Monad.return (Inr r)
            })
   }"

text \<open>The loop over the warnings, on the warnings that are left.\<close>

fun warn_loop ::
  "('w, 'sched) ext \<Rightarrow> RCONClient \<Rightarrow> duration \<Rightarrow> string list \<Rightarrow> ('w, unit result) op" where
  "warn_loop x c warningInterval [] = State_Monad.return (Inr ())"
| "warn_loop x c warningInterval (warning # rest) = do {
     ce \<leftarrow> ctx_err x CallerCtx;
     case ce of
       Some err \<Rightarrow> State_Monad.return (Inl (Wrap err ''shutdown cancelled''))
     | None \<Rightarrow> do {
         r \<leftarrow> SendCommand x c CallerCtx (''say '' @ warning);
         case r of
           Inl err \<Rightarrow> State_Monad.return (Inl (Wrap err ''failed to send warning''))
         | Inr _ \<Rightarrow>
             if rest = [] then warn_loop x c warningInterval rest
             else do {
               se \<leftarrow> sleep x warningInterval;
               case se of
                 Some err \<Rightarrow> State_Monad.return (Inl (Wrap err ''shutdown cancelled''))
               | None \<Rightarrow> warn_loop x c warningInterval rest
             }
       }
   }"

definition GracefulShutdown ::
  "('w, 'sched) ext \<Rightarrow> RCONClient \<Rightarrow> string list \<Rightarrow> duration \<Rightarrow> ('w, unit result) op" where
  "GracefulShutdown x c warnings warningInterval =
     (if rcl_conn c = None then State_Monad.return (Inl (New ''not connected to RCON server''))
      else do {
        w \<leftarrow> warn_loop x c warningInterval warnings;
        case w of
          Inl err \<Rightarrow> State_Monad.return (Inl err)
        | Inr _ \<Rightarrow> do {
            r \<leftarrow> SendCommand x c CallerCtx ''save-all'';
            case r of
              Inl err \<Rightarrow> State_Monad.return (Inl (Wrap err ''failed to save world''))
            | Inr _ \<Rightarrow> do {
                se \<leftarrow> sleep x (2 * Second);
                case se of
                  Some err \<Rightarrow> State_Monad.return (Inl (Wrap err ''shutdown cancelled during save wait''))
                | None \<Rightarrow> do {
                    r' \<leftarrow> SendCommand x c CallerCtx ''stop'';
                    case r' of
                      Inl err \<Rightarrow> State_Monad.return (Inl (Wrap err ''failed to stop server''))
                    | Inr _ \<Rightarrow> State_Monad.return (Inr ())
                  }
              }
          }
      })"

definition Close :: "('w, 'sched) ext \<Rightarrow> RCONClient \<Rightarrow> ('w, unit result \<times> RCONClient) op" where
  "Close x c =
     (case rcl_conn c of
        None \<Rightarrow> State_Monad.return (Inr (), c)
      | Some h \<Rightarrow> do {
          r \<leftarrow> rcon_close x h;
          case r of
            Inl err \<Rightarrow>
              State_Monad.return (Inl (Wrap err ''failed to close RCON connection''), c\<lparr>rcl_conn := None\<rparr>)
          | Inr _ \<Rightarrow> State_Monad.return (Inr (), c\<lparr>rcl_conn := None\<rparr>)
        })"

definition IsConnected :: "RCONClient \<Rightarrow> bool" where
  "IsConnected c = (rcl_conn c \<noteq> None)"

subsection \<open>Snapshot hooks\<close>

definition SaveFlushDelay :: duration where "SaveFlushDelay = 2 * Second"
definition saveOnTimeout :: duration where "saveOnTimeout = 10 * Second"

definition PreSnapshotHook ::
  "('w, 'sched) ext \<Rightarrow> (go_context \<Rightarrow> string \<Rightarrow> ('w, string result) op) \<Rightarrow> ('w, unit result) op" where
  "PreSnapshotHook x send = do {
     ce \<leftarrow> ctx_err x CallerCtx;
     case ce of
       Some err \<Rightarrow> State_Monad.return (Inl err)
     | None \<Rightarrow> do {
         r \<leftarrow> send CallerCtx ''save-all'';
         case r of
           Inl err \<Rightarrow> State_Monad.return (Inl (Wrap err ''failed to execute save-all''))
         | Inr _ \<Rightarrow> do {
             se \<leftarrow> sleep x SaveFlushDelay;
             case se of
               Some err \<Rightarrow> State_Monad.return (Inl err)
             | None \<Rightarrow> do {
                 r' \<leftarrow> send CallerCtx ''save-off'';
                 case r' of
                   Inl err \<Rightarrow> State_Monad.return (Inl (Wrap err ''failed to execute save-off''))
                 | Inr _ \<Rightarrow> State_Monad.return (Inr ())
               }
           }
       }
   }"

definition PostSnapshotHook ::
  "(go_context \<Rightarrow> string \<Rightarrow> ('w, string result) op) \<Rightarrow> ('w, unit result) op" where
  "PostSnapshotHook send = do {
     r \<leftarrow> send (FreshTimeout saveOnTimeout) ''save-on'';
     case r of
       Inl err \<Rightarrow> State_Monad.return (Inl (Wrap err ''failed to execute save-on''))
     | Inr _ \<Rightarrow> State_Monad.return (Inr ())
   }"

subsection \<open>The commands of a trace\<close>

text \<open>The RCON commands handed to a connection, in order, each with its success.\<close>

fun rcon_cmds :: "event list \<Rightarrow> (string \<times> bool) list" where
  "rcon_cmds [] = []"
| "rcon_cmds (E_Rcon h cmd ok # t) = (cmd, ok) # rcon_cmds t"
| "rcon_cmds (_ # t) = rcon_cmds t"

lemma rcon_cmds_append [simp]: "rcon_cmds (t @ u) = rcon_cmds t @ rcon_cmds u"
  by (induction t rule: rcon_cmds.induct) simp_all

text \<open>
  The commands of a run that follows a script: a run that succeeds sends the whole script; one that
  fails sends a part of it in order, in which only the last command may have failed.
\<close>

definition follows :: "string list \<Rightarrow> bool \<Rightarrow> (string \<times> bool) list \<Rightarrow> bool" where
  "follows script ok cs \<longleftrightarrow>
     (if ok then cs = map (\<lambda>c. (c, True)) script
      else prefix (map fst cs) script \<and> list_all snd (butlast cs))"

lemma follows_Nil_fail [simp]: "follows script False []"
  by (simp add: follows_def)

lemma follows_done [simp]: "follows [] True []"
  by (simp add: follows_def)

lemma follows_append:
  "follows s1 True c1 \<Longrightarrow> follows s2 ok c2 \<Longrightarrow> follows (s1 @ s2) ok (c1 @ c2)"
  by (cases ok)
    (auto simp: follows_def butlast_append comp_def list_all_iff split: if_splits dest: in_set_butlastD)

lemma follows_stop: "follows s1 ok c1 \<Longrightarrow> follows (s1 @ s2) False c1"
  by (cases ok) (auto simp: follows_def comp_def list_all_iff dest: in_set_butlastD)

lemma follows_step: "follows [c] True c1 \<Longrightarrow> follows s ok c2 \<Longrightarrow> follows (c # s) ok (c1 @ c2)"
  using follows_append [of "[c]" c1 s ok c2] by simp

lemma follows_break: "follows [c] ok c1 \<Longrightarrow> follows (c # s) False c1"
  using follows_stop [of "[c]" ok c1 s] by simp

fun rcon_ev :: "event \<Rightarrow> bool" where
  "rcon_ev (E_Rcon _ _ _) = True"
| "rcon_ev (E_Sleep _ _) = True"
| "rcon_ev _ = False"

text \<open>A context made with a positive timeout is not done at once.\<close>

definition fresh_alive :: "('w, 'sched) ext \<Rightarrow> bool" where
  "fresh_alive x \<longleftrightarrow> (\<forall>d w. 0 < d \<longrightarrow> fst (x_ctxErr x (FreshTimeout d) w) = None)"

subsection \<open>The contract of RCONCommander\<close>

locale commander =
  fixes send :: "go_context \<Rightarrow> string \<Rightarrow> ('w, string result) op"
    and alive :: bool
  assumes send_emits:
      "emits (send ctx cmd) (\<lambda>r u. follows [cmd] (is_ok r) (rcon_cmds u) \<and> list_all rcon_ev u)"
    and send_fresh:
      "alive \<Longrightarrow> 0 < d \<Longrightarrow> emits (send (FreshTimeout d) cmd) (\<lambda>r u. rcon_cmds u = [(cmd, is_ok r)])"
begin

lemma pre_hook_emits:
  "emits (PreSnapshotHook x send)
     (\<lambda>r u. follows [''save-all'', ''save-off''] (is_ok r) (rcon_cmds u) \<and> list_all rcon_ev u)"
  unfolding PreSnapshotHook_def call_ops silent_ops
  by (intro tr_rules tr_bind_emits [OF send_emits];
      auto simp: follows_def prefix_def Cons_eq_append_conv)

lemma post_hook_emits:
  "emits (PostSnapshotHook send)
     (\<lambda>r u. follows [''save-on''] (is_ok r) (rcon_cmds u) \<and> list_all rcon_ev u)"
  unfolding PostSnapshotHook_def
  by (intro tr_rules tr_bind_emits [OF send_emits]; auto)

lemma post_hook_sends:
  "alive \<Longrightarrow> emits (PostSnapshotHook send) (\<lambda>r u. rcon_cmds u = [(''save-on'', is_ok r)])"
  unfolding PostSnapshotHook_def
  by (intro tr_rules tr_bind_emits [OF send_fresh]; auto simp: saveOnTimeout_def)

end

lemma SendCommand_emits:
  "emits (SendCommand x c ctx cmd) (\<lambda>r u. follows [cmd] (is_ok r) (rcon_cmds u) \<and> list_all rcon_ev u)"
  unfolding SendCommand_def call_ops silent_ops
  by (intro tr_rules; auto simp: follows_def)

lemma SendCommand_fresh:
  assumes "fresh_alive x" "rcl_conn c \<noteq> None" "0 < d"
  shows "emits (SendCommand x c (FreshTimeout d) cmd) (\<lambda>r u. rcon_cmds u = [(cmd, is_ok r)])"
  unfolding SendCommand_def call_ops silent_ops
  by (intro tr_rules; use assms in \<open>auto simp: fresh_alive_def\<close>)

interpretation rcon_client: commander "SendCommand x c" "fresh_alive x \<and> rcl_conn c \<noteq> None" for x c
  by unfold_locales (use SendCommand_emits SendCommand_fresh in blast)+

subsection \<open>Graceful shutdown\<close>

lemma warn_loop_emits:
  "emits (warn_loop x c d ws)
     (\<lambda>r u. follows (map ((@) ''say '') ws) (is_ok r) (rcon_cmds u) \<and> list_all rcon_ev u)"
proof (induction ws)
  case Nil
  show ?case by (auto intro!: tr_rules simp: follows_def)
next
  case (Cons w ws)
  show ?case
    unfolding warn_loop.simps call_ops silent_ops
    by (intro tr_rules tr_bind_emits [OF SendCommand_emits] tr_emits [OF Cons.IH];
        auto intro: follows_step follows_break)
qed

definition shutdown_script :: "string list \<Rightarrow> string list" where
  "shutdown_script ws = map ((@) ''say '') ws @ [''save-all'', ''stop'']"

lemma follows_script_parts:
  "follows (map ((@) ''say '') ws) False c1 \<Longrightarrow> follows (shutdown_script ws) False c1"
  "follows (map ((@) ''say '') ws) True c1 \<Longrightarrow> follows [''save-all'', ''stop''] ok c2
   \<Longrightarrow> follows (shutdown_script ws) ok (c1 @ c2)"
  unfolding shutdown_script_def by (rule follows_stop follows_append; assumption)+

lemma GracefulShutdown_emits:
  "emits (GracefulShutdown x c ws d)
     (\<lambda>r u. follows (shutdown_script ws) (is_ok r) (rcon_cmds u) \<and> list_all rcon_ev u)"
  unfolding GracefulShutdown_def call_ops silent_ops
  by (intro tr_rules tr_bind_emits [OF warn_loop_emits] tr_bind_emits [OF SendCommand_emits];
      auto intro: follows_script_parts follows_step follows_break)

text \<open>
  C37. A graceful shutdown sends the warnings, then \<^verbatim>\<open>save-all\<close>, then \<^verbatim>\<open>stop\<close>. When it succeeds, all of
  them were sent and succeeded; when it fails, it sent an initial part of them and every command
  before the last one it sent had succeeded. So the server is never stopped unless the warnings and
  the save succeeded.
\<close>

theorem GracefulShutdown_script:
  "emits (GracefulShutdown x c ws d) (\<lambda>r u. follows (shutdown_script ws) (is_ok r) (rcon_cmds u))"
  by (rule tr_weaken [OF GracefulShutdown_emits]) blast

end
