(* ===== verification/CronTable.thy ===== *)
theory CronTable imports Effects begin

text \<open>
  The table of cron entries that a reconciler keeps beside its cron scheduler
  (\<^verbatim>\<open>cronEntries\<close> of \<^verbatim>\<open>src/internal/controller/update_controller.go\<close> and
  \<^verbatim>\<open>backup_controller.go\<close>). The abstract table is a step relation on maps from server keys to
  entries, labelled with the calls of the scheduler; the locale \<open>cron_table\<close> is the contract of the
  operations that maintain a table, and both reconcilers are instances of it.
\<close>

subsection \<open>The scheduler\<close>

text \<open>The calls of one scheduler in a trace, the identifiers it gave out, and its registered jobs.\<close>

fun cron_call :: "cron_id \<Rightarrow> event \<Rightarrow> bool" where
  "cron_call c (E_CronAdd d _ _) = (d = c)"
| "cron_call c (E_CronRemove d _) = (d = c)"
| "cron_call c _ = False"

fun issued :: "event list \<Rightarrow> int list" where
  "issued [] = []"
| "issued (E_CronAdd _ _ (Inr i) # u) = i # issued u"
| "issued (_ # u) = issued u"

fun job_step :: "int set \<Rightarrow> event \<Rightarrow> int set" where
  "job_step J (E_CronAdd _ _ (Inr i)) = insert i J"
| "job_step J (E_CronRemove _ i) = J - {i}"
| "job_step J _ = J"

definition jobs :: "event list \<Rightarrow> int set" where
  "jobs u = foldl job_step {} u"

abbreviation calls_of :: "cron_id \<Rightarrow> event list \<Rightarrow> event list" where
  "calls_of c u \<equiv> filter (cron_call c) u"

lemma issued_append [simp]: "issued (u @ v) = issued u @ issued v"
  by (induction u rule: issued.induct) auto

lemma jobs_append: "jobs (u @ v) = foldl job_step (jobs u) v"
  by (simp add: jobs_def)

lemma jobs_issued: "jobs u \<subseteq> set (issued u)"
proof (induction u rule: rev_induct)
  case (snoc e u)
  then show ?case by (cases "(jobs u, e)" rule: job_step.cases) (auto simp: jobs_append)
qed (simp add: jobs_def)

subsection \<open>Steps of a table\<close>

type_synonym cron_entries = "string \<rightharpoonup> cronEntryInfo"

inductive table_run :: "cron_id \<Rightarrow> cron_entries \<Rightarrow> event list \<Rightarrow> cron_entries \<Rightarrow> bool" for c where
  stay: "table_run c t [] t"
| drop: "table_run c t u t' \<Longrightarrow> t' k = Some e \<Longrightarrow>
    table_run c t (u @ [E_CronRemove c (ce_ID e)]) (t'(k := None))"
| add: "table_run c t u t' \<Longrightarrow> t' k = None \<Longrightarrow>
    table_run c t (u @ [E_CronAdd c sp (Inr i)]) (t'(k \<mapsto> \<lparr>ce_ID = i, ce_Spec = sp\<rparr>))"
| fail: "table_run c t u t' \<Longrightarrow> table_run c t (u @ [E_CronAdd c sp (Inl err)]) t'"

lemma table_run_append: "table_run c t' v t'' \<Longrightarrow> table_run c t u t' \<Longrightarrow> table_run c t (u @ v) t''"
proof (induction rule: table_run.induct)
  case (drop t v t' k e)
  from table_run.drop [OF drop.IH [OF drop.prems] drop.hyps(2)] show ?case by (simp only: append_assoc)
next
  case (add t v t' k sp i)
  from table_run.add [OF add.IH [OF add.prems] add.hyps(2)] show ?case by (simp only: append_assoc)
next
  case (fail t v t' sp err)
  from table_run.fail [OF fail.IH [OF fail.prems]] show ?case by simp
qed simp

text \<open>Every entry of the table is a registered job, every registered job is an entry of the table,
  and no two keys share a job.\<close>

definition table_ok :: "cron_entries \<Rightarrow> event list \<Rightarrow> bool" where
  "table_ok t u \<longleftrightarrow> jobs u = ce_ID ` ran t \<and> inj_on (\<lambda>k. ce_ID (the (t k))) (dom t)"

lemma table_ok_start: "table_ok Map.empty []"
  by (simp add: table_ok_def jobs_def)

lemma table_ok_ids:
  "table_ok t u \<Longrightarrow> t k = Some e \<Longrightarrow> t k' = Some e' \<Longrightarrow> ce_ID e = ce_ID e' \<Longrightarrow> k = k'"
  unfolding table_ok_def inj_on_def by (metis domI option.sel)

lemma table_ok_drop:
  assumes ok: "table_ok t u" and k: "t k = Some e"
  shows "table_ok (t(k := None)) (u @ [E_CronRemove c (ce_ID e)])"
proof -
  have "ce_ID ` ran (t(k := None)) = ce_ID ` ran t - {ce_ID e}"
  proof (intro equalityI subsetI)
    fix i assume "i \<in> ce_ID ` ran (t(k := None))"
    then obtain k' e' where "k' \<noteq> k" "t k' = Some e'" "i = ce_ID e'" by (auto simp: ran_def split: if_splits)
    with table_ok_ids [OF ok k, of k' e'] show "i \<in> ce_ID ` ran t - {ce_ID e}" by (auto simp: ran_def)
  next
    fix i assume "i \<in> ce_ID ` ran t - {ce_ID e}"
    then obtain k' e' where "t k' = Some e'" "i = ce_ID e'" "k' \<noteq> k" using k by (auto simp: ran_def) (metis option.inject)
    then show "i \<in> ce_ID ` ran (t(k := None))" by (auto simp: ran_def)
  qed
  moreover from ok have "inj_on (\<lambda>k'. ce_ID (the ((t(k := None)) k'))) (dom t - {k})"
    by (auto simp: table_ok_def inj_on_def)
  ultimately show ?thesis using ok by (simp add: table_ok_def jobs_append)
qed

lemma table_ok_add:
  assumes ok: "table_ok t u" and k: "t k = None" and fresh: "i \<notin> set (issued u)"
  shows "table_ok (t(k \<mapsto> \<lparr>ce_ID = i, ce_Spec = sp\<rparr>)) (u @ [E_CronAdd c sp (Inr i)])"
proof -
  from fresh ok jobs_issued have new: "i \<notin> ce_ID ` ran t" by (auto simp: table_ok_def)
  then have "\<forall>k'\<in>dom t. ce_ID (the (t k')) \<noteq> i" by (force simp: ran_def)
  with ok k have "inj_on (\<lambda>k'. ce_ID (the ((t(k \<mapsto> \<lparr>ce_ID = i, ce_Spec = sp\<rparr>)) k'))) (insert k (dom t))"
    by (auto simp: table_ok_def inj_on_def)
  with ok k show ?thesis by (simp add: table_ok_def jobs_append)
qed

lemma table_run_ok:
  "table_run c t v t' \<Longrightarrow> table_ok t u \<Longrightarrow> distinct (issued (u @ v)) \<Longrightarrow> table_ok t' (u @ v)"
proof (induction rule: table_run.induct)
  case (drop t v t' k e)
  then show ?case using table_ok_drop [of t' "u @ v" k e c] by (simp del: fun_upd_apply)
next
  case (add t v t' k sp i)
  then show ?case using table_ok_add [of t' "u @ v" k i sp c] by (auto simp del: fun_upd_apply)
next
  case (fail t v t' sp err)
  then show ?case by (simp add: table_ok_def jobs_append flip: append_assoc)
qed simp

subsection \<open>Computations that keep a table and its scheduler in step\<close>

definition in_step :: "cron_id \<Rightarrow> ('w sys \<Rightarrow> cron_entries) \<Rightarrow> ('w, 'a) op \<Rightarrow> bool" where
  "in_step c tbl m \<longleftrightarrow> (\<forall>s. \<exists>u. trace (snd (run_state m s)) = trace s @ u \<and>
     table_run c (tbl s) (calls_of c u) (tbl (snd (run_state m s))))"

named_theorems in_step_rules \<open>rules for in_step\<close>

lemma in_stepE:
  assumes "in_step c tbl m" "run_state m s = (a, s')"
  obtains u where "trace s' = trace s @ u" "table_run c (tbl s) (calls_of c u) (tbl s')"
  using assms unfolding in_step_def by (metis snd_conv)

lemma in_step_quiet:
  assumes "only (\<lambda>e. \<not> cron_call c e) m" and "keeps tbl m"
  shows "in_step c tbl m"
  unfolding in_step_def
proof
  fix s
  obtain a s' where r: "run_state m s = (a, s')" by (cases "run_state m s")
  from emitsD [OF onlyD [OF assms(1)] r] obtain u where
    u: "trace s' = trace s @ u" "list_all (\<lambda>e. \<not> cron_call c e) u" by blast
  then have "calls_of c u = []" by (simp add: filter_empty_conv list_all_iff)
  with u r keepsD [OF assms(2) r]
  show "\<exists>u. trace (snd (run_state m s)) = trace s @ u \<and>
      table_run c (tbl s) (calls_of c u) (tbl (snd (run_state m s)))"
    by (auto simp: table_run.stay)
qed

lemma in_step_bind [in_step_rules]:
  assumes "in_step c tbl m" and "\<And>a. in_step c tbl (k a)"
  shows "in_step c tbl (State_Monad.bind m k)"
  unfolding in_step_def
proof
  fix s
  obtain a s' where r: "run_state m s = (a, s')" by (cases "run_state m s")
  obtain b s'' where r': "run_state (k a) s' = (b, s'')" by (cases "run_state (k a) s'")
  from in_stepE [OF assms(1) r] obtain u where
    u: "trace s' = trace s @ u" "table_run c (tbl s) (calls_of c u) (tbl s')" .
  from in_stepE [OF assms(2) r'] obtain v where
    v: "trace s'' = trace s' @ v" "table_run c (tbl s') (calls_of c v) (tbl s'')" .
  from table_run_append [OF v(2) u(2)] u(1) v(1) r r'
  show "\<exists>u. trace (snd (run_state (State_Monad.bind m k) s)) = trace s @ u \<and>
      table_run c (tbl s) (calls_of c u) (tbl (snd (run_state (State_Monad.bind m k) s)))"
    by (intro exI [of _ "u @ v"]) simp
qed

lemma in_step_cases [in_step_rules]:
  "in_step c tbl m \<Longrightarrow> in_step c tbl n \<Longrightarrow> in_step c tbl (if b then m else n)"
  "(\<And>e. in_step c tbl (g e)) \<Longrightarrow> (\<And>a. in_step c tbl (h a))
   \<Longrightarrow> in_step c tbl (case r of Inl e \<Rightarrow> g e | Inr a \<Rightarrow> h a)"
  "in_step c tbl m' \<Longrightarrow> (\<And>a. in_step c tbl (h' a))
   \<Longrightarrow> in_step c tbl (case o' of None \<Rightarrow> m' | Some a \<Rightarrow> h' a)"
  "(\<And>a b. in_step c tbl (g' a b)) \<Longrightarrow> in_step c tbl (case p of (a, b) \<Rightarrow> g' a b)"
  "(\<And>y. in_step c tbl (l y)) \<Longrightarrow> in_step c tbl (let y = v in l y)"
  by (auto split: sum.split option.split prod.split)

lemma in_step_prim [in_step_rules]: "in_step c tbl (State_Monad.return a)" "in_step c tbl pass"
  by (rule in_step_quiet; intro only_rules keeps_rules)+

lemma in_step_extend:
  assumes "trace s = trace s0 @ u" "table_run c (tbl s0) (calls_of c u) (tbl s)"
    and "in_step c tbl m" "run_state m s = (a, s')"
  shows "\<exists>v. trace s' = trace s0 @ v \<and> table_run c (tbl s0) (calls_of c v) (tbl s')"
proof -
  from in_stepE [OF assms(3,4)] obtain v where
    v: "trace s' = trace s @ v" "table_run c (tbl s) (calls_of c v) (tbl s')" .
  from table_run_append [OF v(2) assms(2)] assms(1) v(1) show ?thesis by (intro exI [of _ "u @ v"]) simp
qed

text \<open>A field of the state that only the operations on the table change.\<close>

definition table_field :: "('w sys \<Rightarrow> cron_entries) \<Rightarrow> bool" where
  "table_field tbl \<longleftrightarrow> tbl = u_cronEntries \<or> tbl = b_cronEntries"

lemma table_fields [simp]: "table_field u_cronEntries" "table_field b_cronEntries"
  by (simp_all add: table_field_def)

lemma in_step_call [in_step_rules]:
  "table_field tbl \<Longrightarrow> (\<And>a. \<not> cron_call c (mk a)) \<Longrightarrow> in_step c tbl (call mk f)"
  "table_field tbl \<Longrightarrow> \<not> cron_call c e \<Longrightarrow> in_step c tbl (emit e)"
  by (rule in_step_quiet; auto simp: table_field_def intro!: only_rules keeps_rules)+

lemma in_step_local [in_step_rules]:
  "table_field tbl \<Longrightarrow> in_step c tbl (silent g)"
  "in_step c tbl (gets h)"
  "table_field tbl \<Longrightarrow> in_step c tbl (modify_triggers j)"
  "table_field tbl \<Longrightarrow> in_step c tbl (modify_backupMu k)"
  "table_field tbl \<Longrightarrow> in_step c tbl fresh_mutex"
  by (rule in_step_quiet; auto simp: table_field_def intro!: only_rules keeps_rules)+

text \<open>The four moves of a table, read off one run.\<close>

lemma table_run_one:
  "table_run c t [] t"
  "t k = Some e \<Longrightarrow> table_run c t [E_CronRemove c (ce_ID e)] (t(k := None))"
  "t k = None \<Longrightarrow> table_run c t [E_CronAdd c sp (Inr i)] (t(k \<mapsto> \<lparr>ce_ID = i, ce_Spec = sp\<rparr>))"
  "table_run c t [E_CronAdd c sp (Inl err)] t"
  using table_run.intros(2,3,4) [OF table_run.stay] table_run.stay by fastforce+

lemma table_run_replace:
  assumes "t k = Some e"
  shows "table_run c t [E_CronRemove c (ce_ID e), E_CronAdd c sp (Inr i)] (t(k \<mapsto> \<lparr>ce_ID = i, ce_Spec = sp\<rparr>))"
    and "table_run c t [E_CronRemove c (ce_ID e), E_CronAdd c sp (Inl err)] (t(k := None))"
proof -
  from assms have rm: "table_run c t [E_CronRemove c (ce_ID e)] (t(k := None))" by (rule table_run_one)
  have "table_run c (t(k := None)) [E_CronAdd c sp (Inr i)] (t(k := None, k \<mapsto> \<lparr>ce_ID = i, ce_Spec = sp\<rparr>))"
    by (rule table_run_one) simp
  from table_run_append [OF this rm]
  show "table_run c t [E_CronRemove c (ce_ID e), E_CronAdd c sp (Inr i)] (t(k \<mapsto> \<lparr>ce_ID = i, ce_Spec = sp\<rparr>))"
    by (simp del: fun_upd_apply)
  from table_run_append [OF table_run_one(4) [of c "t(k := None)" sp err] rm]
  show "table_run c t [E_CronRemove c (ce_ID e), E_CronAdd c sp (Inl err)] (t(k := None))"
    by (simp del: fun_upd_apply)
qed

lemmas table_moves = table_run_one table_run_replace

lemmas run_defs = call_def gets_def emit_def silent_def pass_def modify_b_cron_def modify_u_cron_def

subsection \<open>The contract of the operations on a table\<close>

text \<open>
  \<open>remove\<close> forgets a server, \<open>manage\<close> brings the entry of a server up to date with the schedule it
  wants; \<open>active\<close> is the condition under which the reconciler has a scheduler at all.
\<close>

locale cron_table =
  fixes c :: cron_id and tbl :: "'w sys \<Rightarrow> cron_entries" and active :: bool
    and remove :: "string \<Rightarrow> ('w, unit) op" and manage :: "PaperMCServer \<Rightarrow> ('w, 'a) op"
    and key :: "PaperMCServer \<Rightarrow> string" and wanted :: "PaperMCServer \<Rightarrow> string option"
  assumes remove_in_step: "active \<Longrightarrow> in_step c tbl (remove k)"
    and manage_in_step: "active \<Longrightarrow> in_step c tbl (manage server)"
    and remove_forgets: "tbl (snd (run_state (remove k) s)) = (tbl s)(k := None)"
    and manage_installs: "run_state (manage server) s = (a, s') \<Longrightarrow>
      (\<forall>k. k \<noteq> key server \<longrightarrow> tbl s' k = tbl s k) \<and>
      (case tbl s' (key server) of None \<Rightarrow> True | Some e \<Rightarrow> wanted server = Some (ce_Spec e))"
begin

text \<open>Managing a server twice leaves one job at most, with the schedule wanted last.\<close>

lemma manage_replaces:
  assumes "active" and "table_ok (tbl s) (calls_of c (trace s))"
    and "run_state (manage server) s = (a, s')" and "distinct (issued (calls_of c (trace s')))"
  shows "table_ok (tbl s') (calls_of c (trace s'))"
proof -
  from in_stepE [OF manage_in_step [OF assms(1)] assms(3)] obtain u where
    "trace s' = trace s @ u" "table_run c (tbl s) (calls_of c u) (tbl s')" .
  with table_run_ok [of c "tbl s" "calls_of c u" "tbl s'" "calls_of c (trace s)"] assms(2,4) show ?thesis by simp
qed

lemma removed_no_job:
  assumes "active" and ok: "table_ok (tbl s) (calls_of c (trace s))" and e: "tbl s k = Some e"
    and run: "run_state (remove k) s = (a, s')" and "distinct (issued (calls_of c (trace s')))"
  shows "ce_ID e \<notin> jobs (calls_of c (trace s'))"
proof -
  from in_stepE [OF remove_in_step [OF assms(1)] run] obtain u where
    u: "trace s' = trace s @ u" "table_run c (tbl s) (calls_of c u) (tbl s')" .
  with table_run_ok [OF u(2) ok] assms(5) have "table_ok (tbl s') (calls_of c (trace s'))" by simp
  moreover from remove_forgets [of k s] run have "tbl s' = (tbl s)(k := None)" by simp
  ultimately show ?thesis using table_ok_ids [OF ok e] by (auto simp: table_ok_def ran_def split: if_splits)
qed

end

end
