(* ===== verification/BackupController.thy ===== *)
theory BackupController
  imports Rcon CronTable
begin

section \<open>Backups\<close>

text \<open>
  \<^verbatim>\<open>pkg/backup/snapshotter.go\<close> and \<^verbatim>\<open>internal/controller/backup_controller.go\<close>. A method with a
  pointer receiver to the server returns the changed server with its result. \<^verbatim>\<open>sort.Slice\<close> is
  the operation \<open>k_sortSnapshots\<close>: what it promises is \<open>sorts_by_age\<close>. Deferred calls are made at
  each return, the last one first; panics are not modelled.
\<close>

subsection \<open>VolumeSnapshotSnapshotter\<close>

definition LabelServerName :: string where "LabelServerName = ''mc.k8s.lex.la/server-name''"
definition LabelTrigger :: string where "LabelTrigger = ''mc.k8s.lex.la/backup-trigger''"
definition LabelManagedBy :: string where "LabelManagedBy = ''app.kubernetes.io/managed-by''"

record SnapshotRequest =
  sr_Namespace :: string
  sr_PVCName :: string
  sr_ServerName :: string
  sr_VolumeSnapshotClassName :: string
  sr_Trigger :: string
  sr_Timestamp :: time
  sr_Owner :: string

definition snapshot_object :: "SnapshotRequest \<Rightarrow> time \<Rightarrow> VolumeSnapshot" where
  "snapshot_object req now =
     \<lparr>vs_Name = [],
      vs_GenerateName = sr_ServerName req @ ''-backup-'' @ itoa (Unix now) @ ''-'',
      vs_Namespace = sr_Namespace req, vs_CreationTimestamp = now,
      vs_Labels = [(LabelServerName, sr_ServerName req), (LabelTrigger, sr_Trigger req),
                   (LabelManagedBy, ''minecraft-operator'')],
      vs_Owner = sr_Owner req, vs_PVC = sr_PVCName req,
      vs_Class = (if sr_VolumeSnapshotClassName req \<noteq> [] then Some (sr_VolumeSnapshotClassName req)
                  else None)\<rparr>"

definition CreateSnapshot :: "('w, 'sched) ext \<Rightarrow> SnapshotRequest \<Rightarrow> ('w, string result) op" where
  "CreateSnapshot x req = do {
     now \<leftarrow> (if sr_Timestamp req = zero_time then now_op x else State_Monad.return (sr_Timestamp req));
     r \<leftarrow> create_snapshot x (snapshot_object req now);
     case r of
       Inl err \<Rightarrow> State_Monad.return (Inl (Wrap err ''failed to create VolumeSnapshot''))
     | Inr snapshot \<Rightarrow> State_Monad.return (Inr (vs_Name snapshot))
   }"

definition ListSnapshots ::
  "('w, 'sched) ext \<Rightarrow> string \<Rightarrow> string \<Rightarrow> ('w, VolumeSnapshot list result) op" where
  "ListSnapshots x namespace serverName = do {
     r \<leftarrow> list_snapshots x namespace serverName
            [(LabelServerName, serverName), (LabelManagedBy, ''minecraft-operator'')];
     case r of
       Inl err \<Rightarrow> State_Monad.return (Inl (Wrap err ''failed to list VolumeSnapshots''))
     | Inr items \<Rightarrow> State_Monad.return (Inr items)
   }"

text \<open>The deletion loop, on the snapshots still to delete and the number deleted so far.\<close>

fun delete_loop :: "('w, 'sched) ext \<Rightarrow> int \<Rightarrow> VolumeSnapshot list \<Rightarrow> ('w, int \<times> goerror option) op" where
  "delete_loop x deleted [] = State_Monad.return (deleted, None)"
| "delete_loop x deleted (snap # snaps) = do {
     r \<leftarrow> delete_snapshot x snap;
     case r of
       Inl err \<Rightarrow>
         State_Monad.return (deleted, Some (Wrapf err ''failed to delete snapshot %s'' [AStr (vs_Name snap)]))
     | Inr _ \<Rightarrow> delete_loop x (deleted + 1) snaps
   }"

definition DeleteOldSnapshots ::
  "('w, 'sched) ext \<Rightarrow> string \<Rightarrow> string \<Rightarrow> int \<Rightarrow> ('w, int \<times> goerror option) op" where
  "DeleteOldSnapshots x namespace serverName maxCount = do {
     r \<leftarrow> ListSnapshots x namespace serverName;
     case r of
       Inl err \<Rightarrow> State_Monad.return (0, Some err)
     | Inr snapshots \<Rightarrow>
         if int (length snapshots) \<le> maxCount then State_Monad.return (0, None)
         else let sorted = k_sortSnapshots x snapshots;
                  toDelete = int (length sorted) - maxCount
              in delete_loop x 0 (take (nat toDelete) sorted)
   }"

subsection \<open>Constants and keys\<close>

definition conditionTypeBackupCronValid :: string where "conditionTypeBackupCronValid = ''BackupCronValid''"
definition conditionTypeBackupReady :: string where "conditionTypeBackupReady = ''BackupReady''"
definition reasonBackupCronInvalid :: string where "reasonBackupCronInvalid = ''InvalidBackupCronExpression''"
definition reasonBackupCronValid :: string where "reasonBackupCronValid = ''BackupCronScheduleConfigured''"
definition reasonSnapshotAPIUnavailable :: string where
  "reasonSnapshotAPIUnavailable = ''VolumeSnapshotAPIUnavailable''"
definition snapshotAPIRetryInterval :: duration where "snapshotAPIRetryInterval = 5 * Minute"
definition backupNowMaxAge :: duration where "backupNowMaxAge = 5 * Minute"
definition defaultMaxBackupCount :: int where "defaultMaxBackupCount = 10"
definition AnnotationBackupNow :: string where "AnnotationBackupNow = ''mc.k8s.lex.la/backup-now''"

text \<open>\<^verbatim>\<open>types.NamespacedName.String()\<close>; a request is the namespace and the name.\<close>

definition nn_key :: "string \<Rightarrow> string \<Rightarrow> string" where
  "nn_key ns n = ns @ ''/'' @ n"

definition server_key :: "PaperMCServer \<Rightarrow> string" where
  "server_key s = nn_key (sv_Namespace s) (sv_Name s)"

definition set_status :: "PaperMCServer \<Rightarrow> PaperMCServer \<Rightarrow> PaperMCServer" where
  "set_status server latest =
     server\<lparr>sv_Status := sv_Status latest,
            sv_Meta := (sv_Meta server)\<lparr>m_ResourceVersion := m_ResourceVersion (sv_Meta latest)\<rparr>\<rparr>"

definition set_conditions :: "PaperMCServer \<Rightarrow> Condition list \<Rightarrow> PaperMCServer" where
  "set_conditions s cs = s\<lparr>sv_Status := (sv_Status s)\<lparr>st_Conditions := cs\<rparr>\<rparr>"

text \<open>\<^verbatim>\<open>meta.SetStatusCondition\<close> on a server; it reads the clock for the transition time.\<close>

definition set_condition :: "('w, 'sched) ext \<Rightarrow> PaperMCServer \<Rightarrow> Condition \<Rightarrow> ('w, PaperMCServer) op" where
  "set_condition x s c = do {
     now \<leftarrow> now_op x;
     State_Monad.return (set_conditions s (k_SetStatusCondition x now (st_Conditions (sv_Status s)) c))
   }"

definition mk_condition :: "string \<Rightarrow> ConditionStatus \<Rightarrow> int \<Rightarrow> time \<Rightarrow> string \<Rightarrow> string \<Rightarrow> Condition" where
  "mk_condition ty st gen t reason msg =
     \<lparr>c_Type = ty, c_Status = st, c_ObservedGeneration = gen, c_LastTransitionTime = t,
      c_Reason = reason, c_Message = msg\<rparr>"

subsection \<open>Cron bookkeeping\<close>

definition removeBackupCronJob :: "('w, 'sched) ext \<Rightarrow> string \<Rightarrow> ('w, unit) op" where
  "removeBackupCronJob x serverKey = do {
     entries \<leftarrow> gets b_cronEntries;
     case entries serverKey of
       None \<Rightarrow> pass
     | Some entry \<Rightarrow> do {
         (if k_backupHasCron x then cron_remove x BackupCron (ce_ID entry) else pass);
         modify_b_cron (\<lambda>m. m(serverKey := None))
       }
   }"

definition consumeCronTrigger :: "string \<Rightarrow> ('w, unit) op" where
  "consumeCronTrigger serverKey = modify_triggers (\<lambda>m. m(serverKey := None))"

definition shouldRunScheduledBackup :: "string \<Rightarrow> PaperMCServer \<Rightarrow> ('w, bool) op" where
  "shouldRunScheduledBackup serverKey server = do {
     triggers \<leftarrow> gets b_cronTriggerTimes;
     State_Monad.return
       (case triggers serverKey of
          None \<Rightarrow> False
        | Some triggerTime \<Rightarrow>
            (case st_Backup (sv_Status server) of
               None \<Rightarrow> True
             | Some b \<Rightarrow>
                 (case bks_LastBackup b of
                    None \<Rightarrow> True
                  | Some lastBackup \<Rightarrow>
                      \<not> (bkr_Successful lastBackup \<and> \<not> bkr_StartedAt lastBackup < triggerTime))))
   }"

definition setBackupCronCondition ::
  "('w, 'sched) ext \<Rightarrow> PaperMCServer \<Rightarrow> ConditionStatus \<Rightarrow> string \<Rightarrow> string \<Rightarrow> ('w, PaperMCServer) op" where
  "setBackupCronCondition x server status reason message =
     set_condition x server
       (mk_condition conditionTypeBackupCronValid status (m_Generation (sv_Meta server)) zero_time
          reason message)"

definition backup_schedule :: "PaperMCServer \<Rightarrow> string" where
  "backup_schedule s = (case ss_Backup (sv_Spec s) of None \<Rightarrow> [] | Some b \<Rightarrow> bk_Schedule b)"

definition manageBackupCronSchedule ::
  "('w, 'sched) ext \<Rightarrow> PaperMCServer \<Rightarrow> ('w, bool \<times> PaperMCServer) op" where
  "manageBackupCronSchedule x server = do {
     entries \<leftarrow> gets b_cronEntries;
     let serverKey = server_key server; cronSpec = backup_schedule server in
     if (case entries serverKey of Some existing \<Rightarrow> ce_Spec existing = cronSpec | None \<Rightarrow> False)
     then State_Monad.return (True, server)
     else do {
       (case entries serverKey of Some _ \<Rightarrow> removeBackupCronJob x serverKey | None \<Rightarrow> pass);
       r \<leftarrow> cron_add x BackupCron cronSpec;
       case r of
         Inl err \<Rightarrow> do {
           server' \<leftarrow> setBackupCronCondition x server ConditionFalse reasonBackupCronInvalid (k_Error x err);
           State_Monad.return (False, server')
         }
       | Inr entryID \<Rightarrow> do {
           server' \<leftarrow> setBackupCronCondition x server ConditionTrue reasonBackupCronValid
                       (''Backup cron schedule configured: '' @ cronSpec);
           modify_b_cron (\<lambda>m. m(serverKey \<mapsto> \<lparr>ce_ID = entryID, ce_Spec = cronSpec\<rparr>));
           State_Monad.return (True, server')
         }
     }
   }"

text \<open>The callback that \<open>manageBackupCronSchedule\<close> hands to the cron scheduler.\<close>

definition backup_cron_callback :: "('w, 'sched) ext \<Rightarrow> string \<Rightarrow> ('w, unit) op" where
  "backup_cron_callback x serverKey = do {
     now \<leftarrow> now_op x;
     modify_triggers (\<lambda>m. m(serverKey \<mapsto> now))
   }"

subsection \<open>The backup-now annotation\<close>

definition backup_now_valid :: "time \<Rightarrow> string \<Rightarrow> bool" where
  "backup_now_valid now tsStr =
     (case Sscanf_d tsStr of
        None \<Rightarrow> False
      | Some ts \<Rightarrow>
          let age = time_Sub now (time_Unix ts)
          in \<not> (age > backupNowMaxAge \<or> age < - backupNowMaxAge))"

definition shouldBackupNow :: "('w, 'sched) ext \<Rightarrow> PaperMCServer \<Rightarrow> ('w, bool) op" where
  "shouldBackupNow x server =
     (case sv_Annotations server AnnotationBackupNow of
        None \<Rightarrow> State_Monad.return False
      | Some tsStr \<Rightarrow>
          if Sscanf_d tsStr = None then State_Monad.return False
          else do {
            now \<leftarrow> now_op x;
            State_Monad.return (backup_now_valid now tsStr)
          })"

definition set_annotations :: "PaperMCServer \<Rightarrow> (string \<rightharpoonup> string) \<Rightarrow> PaperMCServer" where
  "set_annotations s a = s\<lparr>sv_Meta := (sv_Meta s)\<lparr>m_Annotations := a\<rparr>\<rparr>"

definition removeBackupNowAnnotation ::
  "('w, 'sched) ext \<Rightarrow> PaperMCServer \<Rightarrow> ('w, unit result \<times> PaperMCServer) op" where
  "removeBackupNowAnnotation x server = do {
     r \<leftarrow> get_server x (sv_Namespace server) (sv_Name server);
     case r of
       Inl err \<Rightarrow> State_Monad.return (Inl (Wrap err ''failed to get server for annotation removal''), server)
     | Inr currentServer \<Rightarrow> do {
         p \<leftarrow> patch_server x currentServer
               (set_annotations currentServer ((sv_Annotations currentServer)(AnnotationBackupNow := None)));
         case p of
           Inl err \<Rightarrow> State_Monad.return (Inl (Wrap err ''failed to remove backup-now annotation''), server)
         | Inr patched \<Rightarrow>
             State_Monad.return
               (Inr (), server\<lparr>sv_Meta := (sv_Meta server)\<lparr>m_Annotations := sv_Annotations patched,
                          m_ResourceVersion := m_ResourceVersion (sv_Meta patched)\<rparr>\<rparr>)
       }
   }"

subsection \<open>Status\<close>

definition zero_backup_status :: BackupStatus where
  "zero_backup_status = \<lparr>bks_LastBackup = None, bks_BackupCount = 0\<rparr>"

definition backup_status_of :: "PaperMCServer \<Rightarrow> BackupRecord \<Rightarrow> int \<Rightarrow> PaperMCServer" where
  "backup_status_of latest record backupCount =
     (let b = (case st_Backup (sv_Status latest) of None \<Rightarrow> zero_backup_status | Some b \<Rightarrow> b);
          b' = b\<lparr>bks_LastBackup := Some record\<rparr>;
          b'' = (if backupCount \<ge> 0 then b'\<lparr>bks_BackupCount := backupCount\<rparr> else b')
      in latest\<lparr>sv_Status := (sv_Status latest)\<lparr>st_Backup := Some b''\<rparr>\<rparr>)"

definition persistBackupStatus ::
  "('w, 'sched) ext \<Rightarrow> PaperMCServer \<Rightarrow> BackupRecord \<Rightarrow> int \<Rightarrow> ('w, PaperMCServer) op" where
  "persistBackupStatus x server record backupCount = do {
     r \<leftarrow> get_server x (sv_Namespace server) (sv_Name server);
     case r of
       Inl _ \<Rightarrow> State_Monad.return server
     | Inr latest \<Rightarrow> do {
         u \<leftarrow> status_update x (backup_status_of latest record backupCount);
         State_Monad.return
           (case u of
              Inl _ \<Rightarrow> set_status server (backup_status_of latest record backupCount)
            | Inr stored \<Rightarrow> set_status server stored)
       }
   }"

definition persistCronCondition ::
  "('w, 'sched) ext \<Rightarrow> string \<Rightarrow> string \<Rightarrow> PaperMCServer \<Rightarrow> ('w, unit result \<times> PaperMCServer) op" where
  "persistCronCondition x ns n server = do {
     r \<leftarrow> get_server x ns n;
     case r of
       Inl err \<Rightarrow> State_Monad.return (Inl (Wrap err ''failed to re-fetch server for cron condition''), server)
     | Inr latest \<Rightarrow> do {
         latest' \<leftarrow> (case k_FindStatusCondition x (st_Conditions (sv_Status server)) conditionTypeBackupCronValid of
                      Some cond \<Rightarrow> set_condition x latest cond
                    | None \<Rightarrow> State_Monad.return latest);
         u \<leftarrow> status_update x latest';
         case u of
           Inl err \<Rightarrow> State_Monad.return (Inl (Wrap err ''failed to update cron condition''), server)
         | Inr stored \<Rightarrow> State_Monad.return (Inr (), set_status server stored)
       }
   }"

subsection \<open>Preconditions of a backup\<close>

text \<open>\<^verbatim>\<open>errors.As\<close> finds a NoMatch error through the wrap of \<open>ListSnapshots\<close>.\<close>

definition isSnapshotCRDMissing :: "('w, 'sched) ext \<Rightarrow> string \<Rightarrow> string \<Rightarrow> ('w, bool) op" where
  "isSnapshotCRDMissing x namespace serverName = do {
     r \<leftarrow> ListSnapshots x namespace serverName;
     State_Monad.return (case r of Inr _ \<Rightarrow> False | Inl err \<Rightarrow> IsNoMatch err)
   }"

definition isSnapshotAPIUnavailable ::
  "('w, 'sched) ext \<Rightarrow> PaperMCServer \<Rightarrow> ('w, bool \<times> PaperMCServer) op" where
  "isSnapshotAPIUnavailable x server = do {
     r \<leftarrow> ListSnapshots x (sv_Namespace server) (sv_Name server);
     case r of
       Inr _ \<Rightarrow> State_Monad.return (False, server)
     | Inl err \<Rightarrow>
         if \<not> IsNoMatch err then State_Monad.return (False, server)
         else do {
           g \<leftarrow> get_server x (sv_Namespace server) (sv_Name server);
           case g of
             Inl _ \<Rightarrow> State_Monad.return (True, server)
           | Inr latest \<Rightarrow> do {
               latest' \<leftarrow> set_condition x latest
                 (mk_condition conditionTypeBackupReady ConditionFalse (m_Generation (sv_Meta latest))
                    zero_time reasonSnapshotAPIUnavailable
                    ''VolumeSnapshot CRD (snapshot.storage.k8s.io) is not installed. Install the CSI snapshot controller and CRDs to enable backups.'');
               u \<leftarrow> status_update x latest';
               State_Monad.return
                 (True, set_status server (case u of Inl _ \<Rightarrow> latest' | Inr stored \<Rightarrow> stored))
             }
         }
   }"

text \<open>\<^verbatim>\<open>LoadOrStore\<close>: the mutex stored under the key, or a new one.\<close>

definition getServerBackupMu :: "PaperMCServer \<Rightarrow> ('w, nat) op" where
  "getServerBackupMu server = do {
     mus \<leftarrow> gets b_backupMu;
     let key = server_key server in
     case mus key of
       Some mu \<Rightarrow> State_Monad.return mu
     | None \<Rightarrow> do {
         mu \<leftarrow> fresh_mutex;
         modify_backupMu (\<lambda>m. m(key \<mapsto> mu));
         State_Monad.return mu
       }
   }"

record rconConnInfo =
  ri_host :: string
  ri_password :: string
  ri_port :: int

definition getRCONConnInfo :: "('w, 'sched) ext \<Rightarrow> PaperMCServer \<Rightarrow> ('w, rconConnInfo result) op" where
  "getRCONConnInfo x server = do {
     p \<leftarrow> get_pod x (sv_Namespace server) (sv_Name server @ ''-0'');
     case p of
       Inl err \<Rightarrow> State_Monad.return (Inl (Wrap err ''failed to get pod for RCON connection''))
     | Inr pod \<Rightarrow>
         if pod_IP pod = [] then State_Monad.return (Inl (New ''pod IP not available''))
         else
           let rcon = ss_RCON (sv_Spec server); ref = rc_PasswordSecret rcon in
           do {
             r \<leftarrow> get_secret x (sv_Namespace server) (sk_Name ref);
             case r of
               Inl err \<Rightarrow> State_Monad.return (Inl (Wrap err ''failed to get RCON password secret''))
             | Inr data \<Rightarrow>
                 (case data (sk_Key ref) of
                    None \<Rightarrow>
                      State_Monad.return
                        (Inl (Newf ''key %s not found in secret %s'' [AStr (sk_Key ref), AStr (sk_Name ref)]))
                  | Some password \<Rightarrow>
                      State_Monad.return
                        (Inr \<lparr>ri_host = pod_IP pod, ri_password = password,
                              ri_port = (if rc_Port rcon = 0 then 25575 else rc_Port rcon)\<rparr>))
           }
   }"

definition createBackupRCONClient :: "('w, 'sched) ext \<Rightarrow> PaperMCServer \<Rightarrow> ('w, RCONClient result) op" where
  "createBackupRCONClient x server = do {
     i \<leftarrow> getRCONConnInfo x server;
     State_Monad.return
       (case i of
          Inl err \<Rightarrow> Inl err
        | Inr info \<Rightarrow>
            (case NewRCONClient (ri_host info) (ri_port info) (ri_password info) of
               Inl err \<Rightarrow> Inl (Wrap err ''failed to create RCON client'')
             | Inr c \<Rightarrow> Inr c))
   }"

subsection \<open>performBackup\<close>

definition failed_record :: "time \<Rightarrow> string \<Rightarrow> BackupRecord" where
  "failed_record startedAt trigger =
     \<lparr>bkr_SnapshotName = [], bkr_StartedAt = startedAt, bkr_CompletedAt = None, bkr_Successful = False,
      bkr_Trigger = trigger\<rparr>"

definition max_backups :: "PaperMCServer \<Rightarrow> int" where
  "max_backups server =
     (case ss_Backup (sv_Spec server) of
        None \<Rightarrow> defaultMaxBackupCount
      | Some b \<Rightarrow> if br_MaxCount (bk_Retention b) > 0 then br_MaxCount (bk_Retention b)
                  else defaultMaxBackupCount)"

definition snapshot_class :: "PaperMCServer \<Rightarrow> string" where
  "snapshot_class server =
     (case ss_Backup (sv_Spec server) of None \<Rightarrow> [] | Some b \<Rightarrow> bk_VolumeSnapshotClassName b)"

definition pvc_name :: "PaperMCServer \<Rightarrow> string" where
  "pvc_name server = ''data-'' @ sv_Name server @ ''-0''"

text \<open>From the creation of the snapshot to the status of a successful backup.\<close>

definition take_snapshot ::
  "('w, 'sched) ext \<Rightarrow> PaperMCServer \<Rightarrow> string \<Rightarrow> time \<Rightarrow> ('w, unit result \<times> PaperMCServer) op" where
  "take_snapshot x server trigger startedAt = do {
     r \<leftarrow> CreateSnapshot x
            \<lparr>sr_Namespace = sv_Namespace server, sr_PVCName = pvc_name server, sr_ServerName = sv_Name server,
             sr_VolumeSnapshotClassName = snapshot_class server, sr_Trigger = trigger,
             sr_Timestamp = startedAt, sr_Owner = sv_Name server\<rparr>;
     case r of
       Inl err \<Rightarrow> do {
         server' \<leftarrow> persistBackupStatus x server (failed_record startedAt trigger) (-1);
         State_Monad.return (Inl (Wrap err ''failed to create VolumeSnapshot''), server')
       }
     | Inr snapshotName \<Rightarrow> do {
         DeleteOldSnapshots x (sv_Namespace server) (sv_Name server) (max_backups server);
         snapshots \<leftarrow> ListSnapshots x (sv_Namespace server) (sv_Name server);
         completedAt \<leftarrow> now_op x;
         server' \<leftarrow> persistBackupStatus x server
           \<lparr>bkr_SnapshotName = snapshotName, bkr_StartedAt = startedAt, bkr_CompletedAt = Some completedAt,
            bkr_Successful = True, bkr_Trigger = trigger\<rparr>
           (case snapshots of Inl _ \<Rightarrow> -1 | Inr vs \<Rightarrow> wrap32 (int (length vs)));
         State_Monad.return (Inr (), server')
       }
   }"

text \<open>The body between the lock and the unlock, with the deferred calls of the RCON client.\<close>

definition backup_with_rcon ::
  "('w, 'sched) ext \<Rightarrow> PaperMCServer \<Rightarrow> string \<Rightarrow> time \<Rightarrow> RCONClient \<Rightarrow> ('w, unit result \<times> PaperMCServer) op" where
  "backup_with_rcon x server trigger startedAt client0 = do {
     (conn, client) \<leftarrow> Connect x client0;
     result \<leftarrow> (case conn of
        Inl err \<Rightarrow> do {
          server' \<leftarrow> persistBackupStatus x server (failed_record startedAt trigger) (-1);
          State_Monad.return (Inl (Wrap err ''failed to connect to RCON for backup''), server')
        }
      | Inr _ \<Rightarrow> do {
          pre \<leftarrow> PreSnapshotHook x (SendCommand x client);
          case pre of
            Inl err \<Rightarrow> do {
              PostSnapshotHook (SendCommand x client);
              server' \<leftarrow> persistBackupStatus x server (failed_record startedAt trigger) (-1);
              State_Monad.return (Inl (Wrap err ''pre-snapshot hook failed''), server')
            }
          | Inr _ \<Rightarrow> do {
              result \<leftarrow> take_snapshot x server trigger startedAt;
              PostSnapshotHook (SendCommand x client);
              State_Monad.return result
            }
        });
     Close x client;
     State_Monad.return result
   }"

definition performBackup ::
  "('w, 'sched) ext \<Rightarrow> PaperMCServer \<Rightarrow> string \<Rightarrow> ('w, unit result \<times> PaperMCServer) op" where
  "performBackup x server trigger = do {
     mu \<leftarrow> getServerBackupMu server;
     emit (E_Lock mu);
     now \<leftarrow> now_op x;
     pvc \<leftarrow> get_pvc x (sv_Namespace server) (pvc_name server);
     result \<leftarrow> (case pvc of
        Inl pvcErr \<Rightarrow> do {
          server' \<leftarrow> persistBackupStatus x server (failed_record now trigger) (-1);
          State_Monad.return
            (if IsNotFound pvcErr
             then Inl (Newf ''PVC %s not found in namespace %s; ensure the StatefulSet has created its volume''
                         [AStr (pvc_name server), AStr (sv_Namespace server)])
             else Inl (Wrap pvcErr ''failed to check PVC existence before backup''), server')
        }
      | Inr _ \<Rightarrow>
          if rc_Enabled (ss_RCON (sv_Spec server)) then do {
            c \<leftarrow> createBackupRCONClient x server;
            case c of
              Inl err \<Rightarrow> do {
                server' \<leftarrow> persistBackupStatus x server (failed_record now trigger) (-1);
                State_Monad.return (Inl (Wrap err ''failed to create RCON client for backup''), server')
              }
            | Inr client \<Rightarrow> backup_with_rcon x server trigger now client
          }
          else take_snapshot x server trigger now);
     emit (E_Unlock mu);
     State_Monad.return result
   }"

definition PerformBackup ::
  "('w, 'sched) ext \<Rightarrow> PaperMCServer \<Rightarrow> string \<Rightarrow> ('w, unit result \<times> PaperMCServer) op" where
  "PerformBackup x server trigger = performBackup x server trigger"

subsection \<open>Reconcile\<close>

text \<open>A result of a reconciler: the delay of a requeue (0 for none) and an error.\<close>

type_synonym reconcile_result = "duration \<times> goerror option"

definition forget_server :: "('w, 'sched) ext \<Rightarrow> string \<Rightarrow> ('w, unit) op" where
  "forget_server x key = do {
     removeBackupCronJob x key;
     consumeCronTrigger key;
     modify_backupMu (\<lambda>m. m(key := None))
   }"

text \<open>The schedule: an error to return, or whether to go on, and the server.\<close>

definition reconcile_schedule ::
  "('w, 'sched) ext \<Rightarrow> string \<Rightarrow> string \<Rightarrow> PaperMCServer \<Rightarrow> ('w, bool result \<times> PaperMCServer) op" where
  "reconcile_schedule x ns n server =
     (if backup_schedule server \<noteq> [] then do {
        (cronValid, server1) \<leftarrow> manageBackupCronSchedule x server;
        (p, server2) \<leftarrow> persistCronCondition x ns n server1;
        State_Monad.return
          (case p of
             Inl err \<Rightarrow> (Inl (Wrap err ''failed to persist cron condition''), server2)
           | Inr _ \<Rightarrow> (Inr cronValid, server2))
      }
      else do {
        removeBackupCronJob x (nn_key ns n);
        consumeCronTrigger (nn_key ns n);
        State_Monad.return (Inr True, server)
      })"

definition clear_stale_ready ::
  "('w, 'sched) ext \<Rightarrow> string \<Rightarrow> string \<Rightarrow> PaperMCServer \<Rightarrow> ('w, PaperMCServer) op" where
  "clear_stale_ready x ns n server =
     (if (case k_FindStatusCondition x (st_Conditions (sv_Status server)) conditionTypeBackupReady of
            Some cond \<Rightarrow> c_Status cond = ConditionFalse | None \<Rightarrow> False)
      then do {
        g \<leftarrow> get_server x ns n;
        case g of
          Inl _ \<Rightarrow> State_Monad.return server
        | Inr latest \<Rightarrow> do {
            latest' \<leftarrow> set_condition x latest
              (mk_condition conditionTypeBackupReady ConditionTrue (m_Generation (sv_Meta latest))
                 zero_time ''VolumeSnapshotAPIAvailable'' ''VolumeSnapshot API is available in the cluster.'');
            u \<leftarrow> status_update x latest';
            State_Monad.return (set_status server (case u of Inl _ \<Rightarrow> latest' | Inr stored \<Rightarrow> stored))
          }
      }
      else State_Monad.return server)"

text \<open>The manual trigger: an error to return, or the server after it.\<close>

definition reconcile_manual ::
  "('w, 'sched) ext \<Rightarrow> string \<Rightarrow> PaperMCServer \<Rightarrow> ('w, unit result \<times> PaperMCServer) op" where
  "reconcile_manual x key server = do {
     backupNow \<leftarrow> shouldBackupNow x server;
     if \<not> backupNow then
       (if sv_Annotations server AnnotationBackupNow \<noteq> None then do {
          (r, server1) \<leftarrow> removeBackupNowAnnotation x server;
          State_Monad.return
            (case r of
               Inl err \<Rightarrow> (Inl (Wrap err ''failed to remove stale backup-now annotation''), server1)
             | Inr _ \<Rightarrow> (Inr (), server1))
        }
        else State_Monad.return (Inr (), server))
     else do {
       (r, server1) \<leftarrow> removeBackupNowAnnotation x server;
       case r of
         Inl err \<Rightarrow> State_Monad.return (Inl (Wrap err ''failed to remove backup-now annotation''), server1)
       | Inr _ \<Rightarrow> do {
           (b, server2) \<leftarrow> performBackup x server1 ''manual'';
           (case b of Inl _ \<Rightarrow> pass | Inr _ \<Rightarrow> consumeCronTrigger key);
           State_Monad.return (Inr (), server2)
         }
     }
   }"

definition reconcile_scheduled ::
  "('w, 'sched) ext \<Rightarrow> string \<Rightarrow> PaperMCServer \<Rightarrow> ('w, unit result) op" where
  "reconcile_scheduled x key server = do {
     due \<leftarrow> shouldRunScheduledBackup key server;
     if due then do {
       (b, server1) \<leftarrow> performBackup x server ''scheduled'';
       case b of
         Inl err \<Rightarrow> State_Monad.return (Inl err)
       | Inr _ \<Rightarrow> do { consumeCronTrigger key; State_Monad.return (Inr ()) }
     }
     else State_Monad.return (Inr ())
   }"

definition reconcile_enabled ::
  "('w, 'sched) ext \<Rightarrow> string \<Rightarrow> string \<Rightarrow> PaperMCServer \<Rightarrow> ('w, reconcile_result) op" where
  "reconcile_enabled x ns n server = do {
     (c, server1) \<leftarrow> reconcile_schedule x ns n server;
     case c of
       Inl err \<Rightarrow> State_Monad.return (0, Some err)
     | Inr cronValid \<Rightarrow>
         if \<not> cronValid then State_Monad.return (0, None)
         else do {
           (unavailable, server2) \<leftarrow> isSnapshotAPIUnavailable x server1;
           if unavailable then State_Monad.return (snapshotAPIRetryInterval, None)
           else do {
             server3 \<leftarrow> clear_stale_ready x ns n server2;
             (m, server4) \<leftarrow> reconcile_manual x (nn_key ns n) server3;
             case m of
               Inl err \<Rightarrow> State_Monad.return (0, Some err)
             | Inr _ \<Rightarrow> do {
                 sch \<leftarrow> reconcile_scheduled x (nn_key ns n) server4;
                 State_Monad.return
                   (case sch of
                      Inl err \<Rightarrow> (0, Some err)
                    | Inr _ \<Rightarrow> (if backup_schedule server4 \<noteq> [] then Minute else 0, None))
               }
           }
         }
   }"

definition backup_enabled :: "PaperMCServer \<Rightarrow> bool" where
  "backup_enabled server = (case ss_Backup (sv_Spec server) of None \<Rightarrow> False | Some b \<Rightarrow> bk_Enabled b)"

definition record_reconcile ::
  "('w, 'sched) ext \<Rightarrow> string \<Rightarrow> reconcile_result \<Rightarrow> ('w, reconcile_result) op" where
  "record_reconcile x name res = do {
     (if k_hasMetrics x then emit (E_RecordReconcile name (snd res = None)) else pass);
     State_Monad.return res
   }"

definition BackupReconciler_Reconcile ::
  "('w, 'sched) ext \<Rightarrow> string \<Rightarrow> string \<Rightarrow> ('w, reconcile_result) op" where
  "BackupReconciler_Reconcile x ns n = do {
     g \<leftarrow> get_server x ns n;
     case g of
       Inl err \<Rightarrow>
         if IsNotFound err then do {
           forget_server x (nn_key ns n);
           State_Monad.return (0, None)
         }
         else record_reconcile x ''backup'' (0, Some (Wrap err ''failed to get server''))
     | Inr server \<Rightarrow>
         if \<not> backup_enabled server then do {
           forget_server x (nn_key ns n);
           record_reconcile x ''backup'' (0, None)
         }
         else do {
           res \<leftarrow> reconcile_enabled x ns n server;
           record_reconcile x ''backup'' res
         }
   }"

subsection \<open>What a backup leaves in the trace\<close>

datatype backup_step = Cmd string bool | Snap bool

text \<open>The RCON commands and the snapshot creations of a trace, in order, each with its success.\<close>

fun backup_steps :: "event list \<Rightarrow> backup_step list" where
  "backup_steps [] = []"
| "backup_steps (E_Rcon h cmd ok # t) = Cmd cmd ok # backup_steps t"
| "backup_steps (E_CreateSnapshot v ok # t) = Snap ok # backup_steps t"
| "backup_steps (_ # t) = backup_steps t"

text \<open>The servers a trace wrote with a status update.\<close>

fun status_writes :: "event list \<Rightarrow> PaperMCServer list" where
  "status_writes [] = []"
| "status_writes (E_StatusUpdate s ok # t) = s # status_writes t"
| "status_writes (_ # t) = status_writes t"

text \<open>The mutex operations of a trace.\<close>

fun lock_events :: "event list \<Rightarrow> (bool \<times> nat) list" where
  "lock_events [] = []"
| "lock_events (E_Lock m # t) = (True, m) # lock_events t"
| "lock_events (E_Unlock m # t) = (False, m) # lock_events t"
| "lock_events (_ # t) = lock_events t"

definition last_record :: "PaperMCServer \<Rightarrow> BackupRecord option" where
  "last_record s = (case st_Backup (sv_Status s) of None \<Rightarrow> None | Some b \<Rightarrow> bks_LastBackup b)"

text \<open>
  The commands and the snapshot of a backup. With RCON, a successful backup flushes the world, turns
  auto-save off, takes the snapshot and turns auto-save on again; a backup that fails does nothing,
  or turns auto-save on after the snapshot failed or after the part of the preparation that was done.
\<close>

definition backup_shape :: "bool \<Rightarrow> bool \<Rightarrow> backup_step list \<Rightarrow> bool" where
  "backup_shape rcon ok t \<longleftrightarrow>
     (if rcon then
        (if ok then \<exists>b. t = [Cmd ''save-all'' True, Cmd ''save-off'' True, Snap True, Cmd ''save-on'' b]
         else t = []
           \<or> (\<exists>b. t = [Cmd ''save-all'' True, Cmd ''save-off'' True, Snap False, Cmd ''save-on'' b])
           \<or> (\<exists>cs b. follows [''save-all'', ''save-off''] False cs
                 \<and> t = map (\<lambda>(c, ok). Cmd c ok) cs @ [Cmd ''save-on'' b]))
      else if ok then t = [Snap True] else t = [] \<or> t = [Snap False])"

lemma backup_steps_append [simp]: "backup_steps (t @ u) = backup_steps t @ backup_steps u"
  by (induction t rule: backup_steps.induct) simp_all

lemma status_writes_append [simp]: "status_writes (t @ u) = status_writes t @ status_writes u"
  by (induction t rule: status_writes.induct) simp_all

lemma lock_events_append [simp]: "lock_events (t @ u) = lock_events t @ lock_events u"
  by (induction t rule: lock_events.induct) simp_all

lemma rcon_only:
  "list_all rcon_ev u \<Longrightarrow> backup_steps u = map (\<lambda>(c, ok). Cmd c ok) (rcon_cmds u)"
  "list_all rcon_ev u \<Longrightarrow> status_writes u = []"
  "list_all rcon_ev u \<Longrightarrow> lock_events u = []"
  by (induction u rule: rcon_cmds.induct) simp_all

lemma last_record_backup_status [simp]: "last_record (backup_status_of latest rec n) = Some rec"
  by (simp add: last_record_def backup_status_of_def Let_def)

text \<open>What each part adds to the trace: its steps, no lock, and records that satisfy \<open>P\<close>.\<close>

definition part :: "backup_step list \<Rightarrow> (BackupRecord \<Rightarrow> bool) \<Rightarrow> event list \<Rightarrow> bool" where
  "part ss P u \<longleftrightarrow> backup_steps u = ss \<and> lock_events u = []
     \<and> list_all (\<lambda>s. \<exists>rec. last_record s = Some rec \<and> P rec) (status_writes u)"

lemma part_append: "part ss P u \<Longrightarrow> part ss' P u' \<Longrightarrow> part (ss @ ss') P (u @ u')"
  by (simp add: part_def)

lemma persistBackupStatus_emits:
  "P rec \<Longrightarrow> emits (persistBackupStatus x server rec n) (\<lambda>_ u. part [] P u)"
  unfolding persistBackupStatus_def call_ops by (intro tr_rules; simp add: part_def)

lemma ListSnapshots_emits: "emits (ListSnapshots x ns n) (\<lambda>_ u. part [] P u)"
  unfolding ListSnapshots_def call_ops by (intro tr_rules; simp add: part_def)

lemma delete_loop_emits: "emits (delete_loop x d vs) (\<lambda>_ u. part [] P u)"
proof (induction vs arbitrary: d)
  case (Cons v vs)
  show ?case unfolding delete_loop.simps call_ops
    by (intro tr_rules tr_emits [OF Cons.IH]; simp add: part_def)
qed (auto intro: tr_rules simp: part_def)

lemma DeleteOldSnapshots_emits: "emits (DeleteOldSnapshots x ns n k) (\<lambda>_ u. part [] P u)"
  unfolding DeleteOldSnapshots_def
  by (intro tr_rules tr_bind_emits [OF ListSnapshots_emits] tr_emits [OF delete_loop_emits];
      fastforce dest: part_append)

lemma CreateSnapshot_emits: "emits (CreateSnapshot x req) (\<lambda>r u. part [Snap (is_ok r)] P u)"
  unfolding CreateSnapshot_def call_ops by (intro tr_rules; simp add: part_def)

definition record_of :: "string \<Rightarrow> bool \<Rightarrow> BackupRecord \<Rightarrow> bool" where
  "record_of trigger ok rec \<longleftrightarrow>
     bkr_Trigger rec = trigger \<and> bkr_Successful rec = ok \<and> (bkr_CompletedAt rec \<noteq> None) = ok"

lemma failed_record_of [simp]: "record_of trigger False (failed_record t trigger)"
  by (simp add: record_of_def failed_record_def)

lemma take_snapshot_emits:
  "emits (take_snapshot x server trigger t)
     (\<lambda>(r, _) u. part [Snap (is_ok r)] (record_of trigger (is_ok r)) u)"
  unfolding take_snapshot_def call_ops
  by (intro tr_rules
        tr_bind_emits [OF CreateSnapshot_emits [where P = "\<lambda>rec. record_of trigger True rec \<and> record_of trigger False rec"]]
        tr_bind_emits [OF persistBackupStatus_emits [where P = "record_of trigger False"]]
        tr_bind_emits [OF DeleteOldSnapshots_emits [where P = "record_of trigger True"]]
        tr_bind_emits [OF ListSnapshots_emits [where P = "record_of trigger True"]]
        tr_bind_emits [OF persistBackupStatus_emits [where P = "record_of trigger True"]];
      simp add: part_def list_all_iff record_of_def failed_record_def) blast+

lemma createBackupRCONClient_emits:
  "emits (createBackupRCONClient x server)
     (\<lambda>r u. part [] P u \<and> (\<forall>c. r = Inr c \<longrightarrow> rcl_conn c = None))"
  unfolding createBackupRCONClient_def getRCONConnInfo_def call_ops
  by (intro tr_rules; auto simp: part_def NewRCONClient_def split: sum.splits if_splits)

lemma Connect_emits:
  "emits (Connect x c) (\<lambda>(r, c') u. part [] P u \<and> (is_ok r \<longrightarrow> rcl_conn c' \<noteq> None))"
  unfolding Connect_def call_ops silent_ops by (intro tr_rules; simp add: part_def)

lemma Close_emits: "emits (Close x c) (\<lambda>_ u. part [] P u)"
  unfolding Close_def call_ops by (intro tr_rules; simp add: part_def)

lemma follows_True_iff: "follows script True cs \<longleftrightarrow> cs = map (\<lambda>c. (c, True)) script"
  by (simp add: follows_def)

lemma pre_hook_part:
  "emits (PreSnapshotHook x (SendCommand x c))
     (\<lambda>r u. \<exists>cs. follows [''save-all'', ''save-off''] (is_ok r) cs \<and> part (map (\<lambda>(c, ok). Cmd c ok) cs) P u)"
  by (rule tr_weaken [OF rcon_client.pre_hook_emits]) (auto simp: part_def rcon_only)

lemma post_hook_part:
  assumes "fresh_alive x" "rcl_conn c \<noteq> None"
  shows "emits (PostSnapshotHook (SendCommand x c)) (\<lambda>_ u. \<exists>b. part [Cmd ''save-on'' b] P u)"
proof -
  from assms have alive: "fresh_alive x \<and> rcl_conn c \<noteq> None" by simp
  show ?thesis
    by (rule tr_weaken [OF tr_conj [OF rcon_client.post_hook_emits rcon_client.post_hook_sends [OF alive]]])
      (auto simp: part_def rcon_only)
qed

lemma backup_with_rcon_emits:
  assumes "fresh_alive x"
  shows "emits (backup_with_rcon x server trigger t c)
    (\<lambda>(r, _) u. \<exists>ss. backup_shape True (is_ok r) ss \<and> part ss (record_of trigger (is_ok r)) u)"
  unfolding backup_with_rcon_def
  by (intro tr_rules
        tr_bind_emits [OF Connect_emits [where P = "\<lambda>_. False"]]
        tr_bind_emits [OF pre_hook_part [where P = "\<lambda>_. False"]]
        tr_bind_emits [OF persistBackupStatus_emits [where P = "record_of trigger False"]]
        tr_bind_emits [OF post_hook_part [OF assms, where P = "\<lambda>_. False"]]
        tr_bind_emits [OF take_snapshot_emits] tr_bind_emits [OF Close_emits [where P = "\<lambda>_. False"]])
    (auto simp: part_def list_all_iff backup_shape_def follows_True_iff)

lemma getServerBackupMu_emits: "emits (getServerBackupMu server) (\<lambda>_ u. u = [])"
  unfolding getServerBackupMu_def by (intro tr_rules; simp)

definition backup_run :: "bool \<Rightarrow> string \<Rightarrow> bool \<Rightarrow> event list \<Rightarrow> bool" where
  "backup_run rcon trigger ok u \<longleftrightarrow>
     (\<exists>mu v. u = E_Lock mu # v @ [E_Unlock mu] \<and> lock_events v = [])
     \<and> backup_shape rcon ok (backup_steps u)
     \<and> list_all (\<lambda>s. \<exists>rec. last_record s = Some rec \<and> record_of trigger ok rec) (status_writes u)"

lemma backup_shape_simps [simp]: "backup_shape rcon False []" "backup_shape False ok [Snap ok]"
  by (simp_all add: backup_shape_def)

lemma performBackup_emits:
  assumes "fresh_alive x"
  shows "emits (performBackup x server trigger)
    (\<lambda>(r, _) u. backup_run (rc_Enabled (ss_RCON (sv_Spec server))) trigger (is_ok r) u)"
  unfolding performBackup_def call_ops
  by (intro tr_rules tr_bind_emits [OF getServerBackupMu_emits]
        tr_bind_emits [OF persistBackupStatus_emits [where P = "record_of trigger False"]]
        tr_bind_emits [OF createBackupRCONClient_emits [where P = "\<lambda>_. False"]]
        tr_bind_emits [OF backup_with_rcon_emits [OF assms]] tr_bind_emits [OF take_snapshot_emits])
    (auto simp: backup_run_def part_def list_all_iff)

subsection \<open>Retention\<close>

text \<open>The snapshots a trace tried to delete, with the success of each.\<close>

fun deletions :: "event list \<Rightarrow> (VolumeSnapshot \<times> bool) list" where
  "deletions [] = []"
| "deletions (E_DeleteSnapshot v ok # t) = (v, ok) # deletions t"
| "deletions (_ # t) = deletions t"

text \<open>What \<^verbatim>\<open>sort.Slice\<close> by creation time promises.\<close>

definition sorts_by_age :: "('w, 'sched) ext \<Rightarrow> bool" where
  "sorts_by_age x \<longleftrightarrow> (\<forall>vs. mset (k_sortSnapshots x vs) = mset vs
     \<and> sorted (map vs_CreationTimestamp (k_sortSnapshots x vs)))"

text \<open>The deletions of a loop over \<open>vs\<close>: all of them, or a part that ends with the first failure.\<close>

definition deleted_so_far :: "VolumeSnapshot list \<Rightarrow> int \<Rightarrow> bool \<Rightarrow> (VolumeSnapshot \<times> bool) list \<Rightarrow> bool" where
  "deleted_so_far vs d ok ds \<longleftrightarrow>
     (if ok then ds = map (\<lambda>v. (v, True)) vs \<and> d = int (length vs)
      else \<exists>pre v. prefix (pre @ [v]) vs \<and> ds = map (\<lambda>v. (v, True)) pre @ [(v, False)] \<and> d = int (length pre))"

lemma deletions_append [simp]: "deletions (t @ u) = deletions t @ deletions u"
  by (induction t rule: deletions.induct) simp_all

lemma deleted_so_far_Cons:
  "deleted_so_far vs d ok ds \<Longrightarrow> deleted_so_far (v # vs) (d + 1) ok ((v, True) # ds)"
proof (cases ok)
  case False
  assume "deleted_so_far vs d ok ds"
  with False obtain pre w where "prefix (pre @ [w]) vs" "ds = map (\<lambda>v. (v, True)) pre @ [(w, False)]"
      "d = int (length pre)"
    by (auto simp: deleted_so_far_def)
  with False show ?thesis unfolding deleted_so_far_def by (auto intro!: exI [of _ "v # pre"] exI [of _ w])
qed (simp add: deleted_so_far_def)

lemma deleted_so_far_Nil: "deleted_so_far vs d True [] \<longleftrightarrow> vs = [] \<and> d = 0"
  by (auto simp: deleted_so_far_def)

lemma delete_loop_deletes:
  "emits (delete_loop x d vs) (\<lambda>(n, e) u. deleted_so_far vs (n - d) (e = None) (deletions u)
     \<and> (\<forall>ns nm r. E_ListSnapshots ns nm r \<notin> set u))"
proof (induction vs arbitrary: d)
  case Nil
  show ?case by (auto intro!: tr_rules simp: deleted_so_far_def)
next
  case (Cons v vs)
  show ?case unfolding delete_loop.simps call_ops
  proof (intro tr_rules tr_emits [OF Cons.IH], goal_cases)
    case (1 w r err)
    then show ?case by (auto simp: deleted_so_far_def intro!: exI [of _ "[]"])
  next
    case (2 w r a p u)
    then show ?case
      using deleted_so_far_Cons [of vs "fst p - (d + 1)" "snd p = None" "deletions u" v]
      by (auto simp: algebra_simps)
  qed
qed

text \<open>The split of a list of snapshots into its oldest members and the ones to keep.\<close>

definition oldest_split :: "VolumeSnapshot list \<Rightarrow> nat \<Rightarrow> VolumeSnapshot list \<Rightarrow> bool" where
  "oldest_split vs k old \<longleftrightarrow> length old = length vs - k \<and> mset old \<subseteq># mset vs
     \<and> (\<forall>a\<in>set old. \<forall>b\<in>#mset vs - mset old. vs_CreationTimestamp a \<le> vs_CreationTimestamp b)"

lemma oldest_split_sorted:
  assumes "mset ss = mset vs" "sorted (map vs_CreationTimestamp ss)"
  shows "oldest_split vs k (take (length vs - k) ss)"
proof -
  let ?n = "length vs - k"
  have len: "length ss = length vs" using assms(1) by (metis size_mset)
  have "mset vs = mset (take ?n ss) + mset (drop ?n ss)"
    using assms(1) by (metis append_take_drop_id mset_append)
  moreover have "sorted (map vs_CreationTimestamp (take ?n ss) @ map vs_CreationTimestamp (drop ?n ss))"
    using assms(2) by (metis append_take_drop_id map_append)
  ultimately show ?thesis
    using len by (auto simp: oldest_split_def sorted_append)
qed

subsection \<open>Triggers\<close>

text \<open>A scheduled backup is due: the cron fired, and no successful backup has started since.\<close>

definition trigger_due :: "(string \<rightharpoonup> time) \<Rightarrow> string \<Rightarrow> PaperMCServer \<Rightarrow> bool" where
  "trigger_due triggers key server \<longleftrightarrow>
     (\<exists>t. triggers key = Some t \<and>
        \<not> (\<exists>rec. last_record server = Some rec \<and> bkr_Successful rec \<and> t \<le> bkr_StartedAt rec))"

lemma shouldRunScheduledBackup_run:
  "run_state (shouldRunScheduledBackup key server) s = (trigger_due (b_cronTriggerTimes s) key server, s)"
  by (auto simp: shouldRunScheduledBackup_def gets_def trigger_due_def last_record_def not_less
      split: option.splits)

lemmas backup_op_defs = performBackup_def backup_with_rcon_def take_snapshot_def Close_def Connect_def
  PreSnapshotHook_def PostSnapshotHook_def SendCommand_def persistBackupStatus_def CreateSnapshot_def
  ListSnapshots_def DeleteOldSnapshots_def createBackupRCONClient_def getRCONConnInfo_def
  getServerBackupMu_def

lemma keeps_delete_loop [keeps_rules]:
  "(\<And>s w e. f (s\<lparr>world := w, trace := e\<rparr>) = f s) \<Longrightarrow> keeps f (delete_loop x d vs)"
  by (induction vs arbitrary: d) (auto intro!: keeps_rules simp: delete_snapshot_def)

lemma performBackup_keeps_triggers: "keeps b_cronTriggerTimes (performBackup x server trigger)"
  unfolding backup_op_defs call_ops silent_ops by (intro keeps_rules; simp)

lemma performBackup_keeps_cron: "keeps b_cronEntries (performBackup x server trigger)"
  unfolding backup_op_defs call_ops silent_ops by (intro keeps_rules; simp)

lemma Sscanf_d_range: "Sscanf_d s = Some v \<Longrightarrow> - (2 ^ 63) \<le> v \<and> v < 2 ^ 63"
  by (auto simp: Sscanf_d_def Let_def split: option.splits if_splits)

subsection \<open>The table of cron entries\<close>

definition backup_wanted_schedule :: "PaperMCServer \<Rightarrow> string option" where
  "backup_wanted_schedule server = Some (backup_schedule server)"

interpretation backup_cron: cron_table BackupCron b_cronEntries "k_backupHasCron x" "removeBackupCronJob x"
  "manageBackupCronSchedule x" server_key backup_wanted_schedule for x :: "('w, 'sched) ext"
proof unfold_locales
  fix k :: string and server :: PaperMCServer and s s' :: "'w sys" and a
  assume cron: "k_backupHasCron x"
  show "in_step BackupCron b_cronEntries (removeBackupCronJob x k)"
    unfolding in_step_def removeBackupCronJob_def call_ops
    using cron by (auto simp: run_defs table_moves simp del: fun_upd_apply split: prod.splits option.splits)
  show "in_step BackupCron b_cronEntries (manageBackupCronSchedule x server)"
    unfolding in_step_def manageBackupCronSchedule_def removeBackupCronJob_def setBackupCronCondition_def set_condition_def call_ops
    using cron by (auto simp: run_defs Let_def table_moves simp del: fun_upd_apply split: prod.splits option.splits sum.splits)
next
  show "b_cronEntries (snd (run_state (removeBackupCronJob x k) s)) = (b_cronEntries s)(k := None)"
    for k and s :: "'w sys"
    unfolding removeBackupCronJob_def call_ops
    by (auto simp: run_defs split: prod.splits option.splits)
next
  fix server and s s' :: "'w sys" and a
  assume "run_state (manageBackupCronSchedule x server) s = (a, s')"
  then show "(\<forall>k. k \<noteq> server_key server \<longrightarrow> b_cronEntries s' k = b_cronEntries s k) \<and>
      (case b_cronEntries s' (server_key server) of None \<Rightarrow> True
       | Some e \<Rightarrow> backup_wanted_schedule server = Some (ce_Spec e))"
    unfolding manageBackupCronSchedule_def removeBackupCronJob_def setBackupCronCondition_def set_condition_def call_ops
    by (auto simp: run_defs Let_def backup_wanted_schedule_def split: prod.splits option.splits sum.splits if_splits)
qed

lemma in_step_delete_loop [in_step_rules]:
  "table_field tbl \<Longrightarrow> in_step c tbl (delete_loop x d vs)"
  by (induction vs arbitrary: d) (auto intro!: in_step_rules simp: delete_snapshot_def)

lemma in_step_performBackup [in_step_rules]:
  "table_field tbl \<Longrightarrow> in_step c tbl (performBackup x server trigger)"
  unfolding backup_op_defs call_ops silent_ops by (intro in_step_rules; simp)

lemma in_step_backup_phases [in_step_rules]:
  assumes "table_field tbl"
  shows "in_step c tbl (persistCronCondition x ns n server)"
    "in_step c tbl (isSnapshotAPIUnavailable x server)" "in_step c tbl (clear_stale_ready x ns n server)"
    "in_step c tbl (reconcile_manual x key server)" "in_step c tbl (reconcile_scheduled x key server)"
    "in_step c tbl (consumeCronTrigger key)" "in_step c tbl (record_reconcile x nm res)"
  unfolding persistCronCondition_def isSnapshotAPIUnavailable_def clear_stale_ready_def reconcile_manual_def
    reconcile_scheduled_def consumeCronTrigger_def record_reconcile_def shouldBackupNow_def
    removeBackupNowAnnotation_def shouldRunScheduledBackup_def set_condition_def ListSnapshots_def call_ops
  by (intro in_step_rules; simp add: assms)+

lemma in_step_BackupReconciler:
  assumes "in_step c tbl (removeBackupCronJob x (nn_key ns n))" and "\<And>server. in_step c tbl (manageBackupCronSchedule x server)"
    and "table_field tbl"
  shows "in_step c tbl (BackupReconciler_Reconcile x ns n)"
  unfolding BackupReconciler_Reconcile_def reconcile_enabled_def reconcile_schedule_def forget_server_def get_server_def
  by (intro in_step_rules assms; simp add: assms)

lemma backup_leaves_update_table:
  "in_step UpdateCron u_cronEntries (removeBackupCronJob x key)"
  "in_step UpdateCron u_cronEntries (manageBackupCronSchedule x server)"
  unfolding removeBackupCronJob_def manageBackupCronSchedule_def setBackupCronCondition_def set_condition_def call_ops
  by (rule in_step_quiet; intro only_rules keeps_rules; simp)+

subsection \<open>Properties\<close>

text \<open>
  C4. A backup of a server with RCON: if it succeeds, the server was told to flush the world, then to
  turn auto-save off, then the snapshot was created, then auto-save was turned on again, and nothing
  else was sent. If it fails, either nothing was sent and no snapshot was tried, or the snapshot
  failed after both commands succeeded, or the preparation broke off after its first failed command;
  in these two cases auto-save is turned on again at the end. Without RCON only the snapshot is
  created. The whole run holds one mutex, and every status it writes records its trigger and
  whether it succeeded.
\<close>

theorem performBackup_protocol:
  assumes "fresh_alive x"
  shows "emits (performBackup x server trigger)
    (\<lambda>(r, _) u. backup_shape (rc_Enabled (ss_RCON (sv_Spec server))) (is_ok r) (backup_steps u)
       \<and> (\<exists>mu v. u = E_Lock mu # v @ [E_Unlock mu] \<and> lock_events v = [])
       \<and> list_all (\<lambda>s. \<exists>rec. last_record s = Some rec \<and> record_of trigger (is_ok r) rec) (status_writes u))"
  by (rule tr_weaken [OF performBackup_emits [OF assms]]) (auto simp: backup_run_def)

theorem performBackup_protocol_witness:
  "fresh_alive (demo_ext zero_server) \<and>
   emits (performBackup (demo_ext zero_server) zero_server ''manual'')
    (\<lambda>(r, _) u. backup_shape False (is_ok r) (backup_steps u))"
proof -
  have alive: "fresh_alive (demo_ext zero_server)" by (simp add: fresh_alive_def demo_ext_def still_ext_def)
  have "\<not> rc_Enabled (ss_RCON (sv_Spec zero_server))" by (simp add: zero_defs)
  with alive performBackup_protocol [OF alive, of zero_server "''manual''"] show ?thesis
    by (auto elim!: tr_weaken)
qed

text \<open>
  C35. When \<open>DeleteOldSnapshots\<close> finds more snapshots than it may keep, it deletes the oldest ones, so
  many that the permitted number remains, and every one it keeps is at least as new as every one
  it deletes; it stops at the first deletion that fails and reports how many succeeded.
\<close>

theorem DeleteOldSnapshots_retention:
  assumes "sorts_by_age x" and "0 \<le> maxCount"
  shows "emits (DeleteOldSnapshots x ns n maxCount)
    (\<lambda>(d, e) u. \<forall>vs. E_ListSnapshots ns n (Inr vs) \<in> set u \<longrightarrow>
       (\<exists>old. oldest_split vs (nat maxCount) old \<and> deleted_so_far old d (e = None) (deletions u)))"
proof -
  have keep_all: "oldest_split vs (nat maxCount) []" if "int (length vs) \<le> maxCount" for vs
    using that by (auto simp: oldest_split_def)
  have delete: "oldest_split vs (nat maxCount) (take (nat (int (length (k_sortSnapshots x vs)) - maxCount)) (k_sortSnapshots x vs))"
    if "\<not> int (length vs) \<le> maxCount" for vs
  proof -
    have s: "mset (k_sortSnapshots x vs) = mset vs" "sorted (map vs_CreationTimestamp (k_sortSnapshots x vs))"
      using assms(1) by (simp_all add: sorts_by_age_def)
    moreover from s(1) have "length (k_sortSnapshots x vs) = length vs" by (metis size_mset)
    moreover from this have "nat (int (length (k_sortSnapshots x vs)) - maxCount) = length vs - nat maxCount"
      using assms(2) by simp
    ultimately show ?thesis using oldest_split_sorted by simp
  qed
  show ?thesis
    unfolding DeleteOldSnapshots_def ListSnapshots_def call_ops
    by (intro tr_rules tr_emits [OF delete_loop_deletes])
      (fastforce simp: deleted_so_far_Nil intro: keep_all delete)+
qed

theorem DeleteOldSnapshots_retention_witness:
  "sorts_by_age (demo_ext zero_server) \<and>
   emits (DeleteOldSnapshots (demo_ext zero_server) ''games'' ''mc'' 10)
    (\<lambda>(d, e) u. \<forall>vs. E_ListSnapshots ''games'' ''mc'' (Inr vs) \<in> set u \<longrightarrow>
       (\<exists>old. oldest_split vs 10 old \<and> deleted_so_far old d (e = None) (deletions u)))"
proof -
  have sorts: "sorts_by_age (demo_ext zero_server)" by (simp add: sorts_by_age_def demo_ext_def still_ext_def)
  with DeleteOldSnapshots_retention [OF sorts, of 10 "''games''" "''mc''"] show ?thesis by simp
qed


text \<open>
  A backup-now annotation is honoured exactly when it is a number whose time is at most five
  minutes before or after the current time.
\<close>

theorem backup_now_window:
  assumes "Sscanf_d tsStr = Some ts" and "ts + unix_to_internal < 2 ^ 63"
  shows "backup_now_valid now tsStr \<longleftrightarrow>
    \<bar>now - (ts + unix_to_internal) * Second\<bar> \<le> 5 * Minute"
proof -
  have "- (2 ^ 63) \<le> ts" using Sscanf_d_range [OF assms(1)] by simp
  with assms(2) have unix: "time_Unix ts = (ts + unix_to_internal) * Second"
    by (simp add: time_Unix_def wrap64_id unix_to_internal_def)
  have "backup_now_valid now tsStr \<longleftrightarrow>
      \<not> (time_Sub now (time_Unix ts) > 5 * Minute \<or> time_Sub now (time_Unix ts) < - (5 * Minute))"
    using assms(1) by (simp add: backup_now_valid_def backupNowMaxAge_def Let_def)
  then show ?thesis unfolding unix by (auto simp: time_Sub_def max_duration_def min_duration_def)
qed

theorem backup_now_window_witness:
  "Sscanf_d ''1700000000'' = Some 1700000000 \<and>
   backup_now_valid ((1700000060 + unix_to_internal) * Second) ''1700000000''"
proof -
  have "Sscanf_d ''1700000000'' = Some 1700000000"
    by (simp add: Sscanf_d_def is_digit_def digit_value_def is_space_def Let_def)
  with backup_now_window [OF this, of "(1700000060 + unix_to_internal) * Second"] show ?thesis
    by (simp add: unix_to_internal_def)
qed

end
