(* ===== verification/PluginURL.thy ===== *)
theory PluginURL
  imports GoNet
begin

section \<open>Plugin downloads from a URL\<close>

text \<open>
  \<^verbatim>\<open>pkg/plugins/url.go\<close>: the guard against server-side request forgery (\<open>ValidateDownloadURL\<close>,
  \<open>isBlockedHost\<close> and the redirect check of \<open>SafeHTTPClient\<close>), the size-limited download and the
  extraction of the metadata of a JAR. The HTTP transport, the ZIP reader and the YAML decoder
  are arguments.
\<close>

definition MaxJARSize :: nat where "MaxJARSize = 100 * 1024 * 1024"
definition maxPluginYMLSize :: nat where "maxPluginYMLSize = 10 * 1024 * 1024"
definition MaxRedirects :: nat where "MaxRedirects = 10"

record JARMetadata =
  jm_Name :: string
  jm_Version :: string
  jm_APIVersion :: string

record pluginYML =
  py_Name :: string
  py_Version :: string
  py_APIVersion :: string

subsection \<open>Blocked hosts\<close>

definition TrimPrefix :: "string \<Rightarrow> string \<Rightarrow> string" where
  "TrimPrefix s p = (if HasPrefix s p then drop (length p) s else s)"

definition TrimSuffix :: "string \<Rightarrow> string \<Rightarrow> string" where
  "TrimSuffix s p = (if HasSuffix s p then take (length s - length p) s else s)"

fun nonstandard_loop :: "string list \<Rightarrow> bool" where
  "nonstandard_loop [] = False"
| "nonstandard_loop (part # parts) =
     (if part = [] then False
      else if HasPrefix part ''0x'' \<or> HasPrefix part ''0X'' then True
      else if 1 < length part \<and> hd part = CHR ''0'' \<and> list_all is_digit part then True
      else nonstandard_loop parts)"

definition looksLikeNonStandardIP :: "string \<Rightarrow> bool" where
  "looksLikeNonStandardIP hostname =
     (let parts = split_on CHR ''.'' hostname
      in if length parts \<noteq> 4 then False else nonstandard_loop parts)"

definition parseIntegerIP :: "string \<Rightarrow> IP option" where
  "parseIntegerIP hostname =
     (if hostname = [] then None
      else
        (let n = (if HasPrefix hostname ''0x'' \<or> HasPrefix hostname ''0X'' then
                    (let hexPart = drop 2 hostname
                     in if hexPart = [] then None else big_SetString hexPart 16)
                  else if \<not> list_all is_digit hostname then None
                  else big_SetString hostname 10)
         in case n of
              None \<Rightarrow> None
            | Some i \<Rightarrow>
                if i < 0 \<or> 2 ^ 32 - 1 < i then None
                else (let v = nat i
                      in Some (net_IPv4 (v div 2 ^ 24 mod 256) (v div 2 ^ 16 mod 256)
                                        (v div 2 ^ 8 mod 256) (v mod 256)))))"

definition restricted_ip :: "IP \<Rightarrow> bool" where
  "restricted_ip ip =
     (IsLoopback ip \<or> IsPrivate ip \<or> IsLinkLocalUnicast ip \<or> IsLinkLocalMulticast ip \<or> IsUnspecified ip)"

text \<open>The host name without the port and the brackets, and the check of the name.\<close>

definition strip_host :: "string \<Rightarrow> string" where
  "strip_host host =
     (let hostname = (case SplitHostPort host of Some (h, _) \<Rightarrow> h | None \<Rightarrow> host)
      in TrimSuffix (TrimPrefix hostname ''['') '']'')"

definition blocked_hostname :: "string \<Rightarrow> bool" where
  "blocked_hostname hostname =
     (case net_ParseIP hostname of
        Some ip \<Rightarrow> restricted_ip ip
      | None \<Rightarrow>
          (case parseIntegerIP hostname of
             Some ip \<Rightarrow> restricted_ip ip
           | None \<Rightarrow>
               let lower = ToLower hostname
               in if looksLikeNonStandardIP hostname then True
                  else if lower = ''localhost'' then True
                  else if HasSuffix lower ''.svc'' \<or> HasSuffix lower ''.cluster.local'' then True
                  else if lower = ''metadata.google.internal'' \<or> lower = ''instance-data.ec2.internal'' then True
                  else if HasSuffix lower ''.local'' \<or> HasSuffix lower ''.internal'' then True
                  else False))"

definition isBlockedHost :: "string \<Rightarrow> bool" where
  "isBlockedHost host = blocked_hostname (strip_host host)"

definition ValidateDownloadURL :: "string \<Rightarrow> unit result" where
  "ValidateDownloadURL rawURL =
     (if rawURL = [] then Inl (New ''URL is required for url source type'')
      else case url_Parse rawURL of
        Inl err \<Rightarrow> Inl (Wrap err ''failed to parse URL'')
      | Inr parsed \<Rightarrow>
          if u_Scheme parsed \<noteq> ''https''
          then Inl (Newf ''URL must use HTTPS, got %s'' [AStr (u_Scheme parsed)])
          else if u_Host parsed = [] then Inl (New ''URL must have a valid host'')
          else if isBlockedHost (u_Host parsed)
          then Inl (Newf ''URL host %s is blocked (private/internal address)'' [AStr (Hostname parsed)])
          else Inr ())"

text \<open>\<^verbatim>\<open>CheckRedirect\<close> of \<open>SafeHTTPClient\<close>, on the host of the next request and the number of
  requests made so far.\<close>

definition SafeHTTPClient_CheckRedirect :: "string \<Rightarrow> nat \<Rightarrow> unit result" where
  "SafeHTTPClient_CheckRedirect host via =
     (if MaxRedirects \<le> via then Inl (Newf ''stopped after %d redirects'' [AInt (int MaxRedirects)])
      else if isBlockedHost host then Inl (Newf ''redirect to blocked host: %s'' [AStr host])
      else Inr ())"

subsection \<open>Download and metadata\<close>

text \<open>
  A response body or a ZIP entry is the bytes it yields and the error it ends with, if it does not
  end with EOF. \<open>ReadAll_limited\<close> is \<^verbatim>\<open>io.ReadAll(io.LimitReader(r, n))\<close>.
\<close>

type_synonym reader = "string \<times> goerror option"

definition ReadAll_limited :: "reader \<Rightarrow> nat \<Rightarrow> string result" where
  "ReadAll_limited r n =
     (if n \<le> length (fst r) then Inr (take n (fst r))
      else case snd r of Some e \<Rightarrow> Inl e | None \<Rightarrow> Inr (fst r))"

record HTTPResponse =
  resp_StatusCode :: int
  resp_ContentLength :: int
  resp_Body :: reader

definition DownloadJAR :: "(URL \<Rightarrow> HTTPResponse result) \<Rightarrow> string \<Rightarrow> string result" where
  "DownloadJAR httpDo jarURL =
     (case url_Parse jarURL of
        Inl err \<Rightarrow> Inl (Wrap err ''failed to create HTTP request'')
      | Inr u \<Rightarrow>
          (case httpDo u of
             Inl err \<Rightarrow> Inl (Wrap err ''failed to download JAR'')
           | Inr resp \<Rightarrow>
               if resp_StatusCode resp \<noteq> 200
               then Inl (Newf ''HTTP %d downloading JAR from %s'' [AInt (resp_StatusCode resp), AStr jarURL])
               else if int MaxJARSize < resp_ContentLength resp
               then Inl (Newf ''JAR exceeds maximum size of %d bytes (Content-Length: %d)''
                           [AInt (int MaxJARSize), AInt (resp_ContentLength resp)])
               else case ReadAll_limited (resp_Body resp) (MaxJARSize + 1) of
                 Inl err \<Rightarrow> Inl (Wrap err ''failed to read JAR body'')
               | Inr body \<Rightarrow>
                   if MaxJARSize < length body
                   then Inl (Newf ''JAR exceeds maximum size of %d bytes'' [AInt (int MaxJARSize)])
                   else Inr body))"

type_synonym zip_file = "string \<times> reader result"

text \<open>The last file of a name wins, as in the loop over \<^verbatim>\<open>zipReader.File\<close>.\<close>

fun find_yml :: "zip_file option \<Rightarrow> zip_file option \<Rightarrow> zip_file list \<Rightarrow> zip_file option \<times> zip_file option" where
  "find_yml pluginFile paperPluginFile [] = (pluginFile, paperPluginFile)"
| "find_yml pluginFile paperPluginFile (f # fs) =
     (if fst f = ''plugin.yml'' then find_yml (Some f) paperPluginFile fs
      else if fst f = ''paper-plugin.yml'' then find_yml pluginFile (Some f) fs
      else find_yml pluginFile paperPluginFile fs)"

definition extractPluginYML ::
  "(string \<Rightarrow> pluginYML result) \<Rightarrow> zip_file list \<Rightarrow> JARMetadata result" where
  "extractPluginYML yaml_Unmarshal files =
     (case find_yml None None files of (pluginFile, paperPluginFile) \<Rightarrow>
        (case (if paperPluginFile = None then pluginFile else paperPluginFile) of
           None \<Rightarrow> Inl (New ''JAR contains neither plugin.yml nor paper-plugin.yml'')
         | Some (name, opened) \<Rightarrow>
             (case opened of
                Inl err \<Rightarrow> Inl (Wrapf err ''failed to open %s in JAR'' [AStr name])
              | Inr rc \<Rightarrow>
                  (case ReadAll_limited rc (maxPluginYMLSize + 1) of
                     Inl err \<Rightarrow> Inl (Wrapf err ''failed to read %s from JAR'' [AStr name])
                   | Inr data \<Rightarrow>
                       if maxPluginYMLSize < length data
                       then Inl (Newf ''%s exceeds maximum size of %d bytes''
                                   [AStr name, AInt (int maxPluginYMLSize)])
                       else (case yaml_Unmarshal data of
                               Inl err \<Rightarrow> Inl (Wrapf err ''failed to parse %s'' [AStr name])
                             | Inr yml \<Rightarrow> Inr \<lparr>jm_Name = py_Name yml, jm_Version = py_Version yml,
                                                jm_APIVersion = py_APIVersion yml\<rparr>)))))"

definition ParseJARMetadata ::
  "(string \<Rightarrow> zip_file list result) \<Rightarrow> (string \<Rightarrow> pluginYML result) \<Rightarrow> string \<Rightarrow> JARMetadata result" where
  "ParseJARMetadata zip_NewReader yaml_Unmarshal jarBytes =
     (case zip_NewReader jarBytes of
        Inl err \<Rightarrow> Inl (Wrap err ''failed to open JAR as ZIP archive'')
      | Inr files \<Rightarrow> extractPluginYML yaml_Unmarshal files)"

subsection \<open>The notations of an IPv4 address\<close>

text \<open>A host as it stands in a URL: an address, and perhaps a port.\<close>

definition with_port :: "string \<Rightarrow> nat option \<Rightarrow> string" where
  "with_port h p = (case p of None \<Rightarrow> h | Some n \<Rightarrow> h @ '':'' @ nat_dec n)"

text \<open>The specification: the restricted ranges on the four octets.\<close>

definition restricted_v4 :: "nat \<Rightarrow> nat \<Rightarrow> nat \<Rightarrow> nat \<Rightarrow> bool" where
  "restricted_v4 a b c d \<longleftrightarrow>
     a = 127 \<or> a = 10 \<or> (a = 172 \<and> 16 \<le> b \<and> b \<le> 31) \<or> (a = 192 \<and> b = 168)
     \<or> (a = 169 \<and> b = 254) \<or> (a = 224 \<and> b = 0 \<and> c = 0) \<or> (a = 0 \<and> b = 0 \<and> c = 0 \<and> d = 0)"

definition dotted_quad :: "nat \<Rightarrow> nat \<Rightarrow> nat \<Rightarrow> nat \<Rightarrow> string" where
  "dotted_quad a b c d = nat_dec a @ ''.'' @ nat_dec b @ ''.'' @ nat_dec c @ ''.'' @ nat_dec d"

lemma restricted_net_IPv4: "restricted_ip (net_IPv4 a b c d) \<longleftrightarrow> restricted_v4 a b c d"
proof -
  have "b div 16 = 1 \<longleftrightarrow> 16 \<le> b \<and> b \<le> 31" by auto
  moreover have "v4_mapped [a, b, c, d] = v4_mapped [0, 0, 0, 0] \<longleftrightarrow> a = 0 \<and> b = 0 \<and> c = 0 \<and> d = 0"
    "v4_mapped [a, b, c, d] \<noteq> replicate 16 0"
    by (simp_all add: v4_mapped_def numeral_eq_Suc)
  moreover have "IsUnspecified (v4_mapped [a, b, c, d]) \<longleftrightarrow> a = 0 \<and> b = 0 \<and> c = 0 \<and> d = 0"
    using calculation by (simp only: IsUnspecified_def) blast
  ultimately show ?thesis
    by (simp add: restricted_ip_def net_IPv4_def IsLoopback_def IsPrivate_def IsLinkLocalUnicast_def
        IsLinkLocalMulticast_def restricted_v4_def)
qed

lemma digit_code: "n < 10 \<Longrightarrow> code (char_of (48 + n)) = 48 + n"
  by (simp add: code_def)

lemma is_digit_code: "is_digit c \<longleftrightarrow> 48 \<le> code c \<and> code c \<le> 57"
  by (simp add: is_digit_def code_def)

lemma base_value_append:
  "base_value b acc (u @ v) =
     (case base_value b acc u of None \<Rightarrow> None | Some x \<Rightarrow> base_value b x v)"
  by (induction u arbitrary: acc) (auto split: option.split)

lemma base_value_digit: "n < 10 \<Longrightarrow> base_value 10 acc [char_of (48 + n)] = Some (10 * acc + n)"
  by (simp add: hex_value_def is_digit_code digit_code)

lemma base_value_nat_dec: "base_value 10 0 (nat_dec n) = Some n"
proof (induction n rule: nat_dec.induct)
  case (1 n)
  then show ?case
    by (subst nat_dec.simps) (simp add: base_value_append base_value_digit del: base_value.simps(2))
qed

lemma nat_dec_hd: "hd (nat_dec n) = CHR ''0'' \<Longrightarrow> n = 0"
proof (induction n rule: nat_dec.induct)
  case (1 n)
  show ?case
  proof (cases "n < 10")
    case True
    with "1.prems" have "code (char_of (48 + n)) = code CHR ''0''" by (simp add: nat_dec.simps [of n])
    with True show ?thesis by (simp only: digit_code) (simp add: code_def)
  next
    case False
    with 1 have "n div 10 = 0" by (simp add: nat_dec.simps [of n])
    with False show ?thesis by simp
  qed
qed

lemma digits_exclude:
  "list_all is_digit s \<Longrightarrow> \<not> is_digit c \<Longrightarrow> c \<notin> set s"
  by (auto simp: list_all_iff)

lemma not_digit_literals:
  "\<not> is_digit CHR ''.''" "\<not> is_digit CHR '':''" "\<not> is_digit CHR ''%''" "\<not> is_digit CHR ''[''"
  "\<not> is_digit CHR '']''" "\<not> is_digit CHR ''x''" "\<not> is_digit CHR ''X''" "\<not> is_digit CHR ''-''"
  "\<not> is_digit CHR ''+''"
  by (simp_all add: is_digit_def)

lemmas nat_dec_exclude = not_digit_literals [THEN digits_exclude [OF nat_dec_digits]]

lemma octet_nat_dec: "n \<le> 255 \<Longrightarrow> octet (nat_dec n) = Some n"
proof -
  assume "n \<le> 255"
  moreover have "\<not> (1 < length (nat_dec n) \<and> hd (nat_dec n) = CHR ''0'')"
    using nat_dec_hd [of n] by (auto simp: nat_dec.simps [of 0])
  ultimately show ?thesis
    using nat_dec_digits [of n] by (simp add: octet_def base_value_nat_dec)
qed

lemma parse_dotted_quad:
  assumes "a \<le> 255" "b \<le> 255" "c \<le> 255" "d \<le> 255"
  shows "parseIPv4Fields (dotted_quad a b c d) = Some [a, b, c, d]"
  using assms nat_dec_exclude(1)
  by (simp add: parseIPv4Fields_def dotted_quad_def split_on_append split_on_notin octet_nat_dec)

lemma no_bracket_trim:
  "CHR ''['' \<notin> set h \<Longrightarrow> CHR '']'' \<notin> set h \<Longrightarrow> TrimSuffix (TrimPrefix h ''['') '']'' = h"
proof -
  assume "CHR ''['' \<notin> set h" "CHR '']'' \<notin> set h"
  then have "\<not> HasPrefix h ''[''" "\<not> HasSuffix h '']''"
    by (auto simp: HasPrefix_iff HasSuffix_iff)
  then show ?thesis by (simp add: TrimPrefix_def TrimSuffix_def)
qed

lemma SplitHostPort_plain: "CHR '':'' \<notin> set h \<Longrightarrow> SplitHostPort h = None"
  by (simp add: SplitHostPort_def)

lemma SplitHostPort_port:
  assumes "\<forall>c\<in>set h. c \<notin> set '':[]''" "\<forall>c\<in>set p. c \<notin> set '':[]''" "h \<noteq> []"
  shows "SplitHostPort (h @ '':'' @ p) = Some (h, p)"
proof -
  have "takeWhile (\<lambda>c. c \<noteq> CHR '':'') (rev p @ CHR '':'' # rev h) = rev p"
    "dropWhile (\<lambda>c. c \<noteq> CHR '':'') (rev p @ CHR '':'' # rev h) = CHR '':'' # rev h"
    using assms(2) by (auto simp: takeWhile_append dropWhile_append)
  moreover have "hd h \<noteq> CHR ''[''" using assms by (cases h) auto
  ultimately show ?thesis
    using assms by (auto simp: SplitHostPort_def before_last_def after_last_def Let_def)
qed

lemma nat_dec_host_chars: "\<forall>c\<in>set (nat_dec n). c \<notin> set '':[]''"
proof -
  have "CHR '':'' \<notin> set (nat_dec n)" "CHR ''['' \<notin> set (nat_dec n)" "CHR '']'' \<notin> set (nat_dec n)"
    by (rule nat_dec_exclude)+
  then show ?thesis by auto
qed

lemma strip_host_with_port:
  assumes "\<forall>c\<in>set h. c \<notin> set '':[]''" "h \<noteq> []"
  shows "strip_host (with_port h p) = h"
proof -
  from assms(1) have h: "CHR '':'' \<notin> set h" "CHR ''['' \<notin> set h" "CHR '']'' \<notin> set h" by auto
  show ?thesis
  proof (cases p)
    case None
    then show ?thesis
      by (simp add: strip_host_def with_port_def SplitHostPort_plain [OF h(1)] no_bracket_trim [OF h(2,3)])
  next
    case (Some n)
    with SplitHostPort_port [OF assms(1) nat_dec_host_chars assms(2)] show ?thesis
      by (simp add: strip_host_def with_port_def no_bracket_trim [OF h(2,3)])
  qed
qed

lemma dotted_quad_host_chars: "\<forall>c\<in>set (dotted_quad x y z w). c \<notin> set '':[]''"
  using nat_dec_host_chars [of x] nat_dec_host_chars [of y] nat_dec_host_chars [of z]
    nat_dec_host_chars [of w]
  unfolding dotted_quad_def by (simp add: ball_Un)

lemma ParseIP_dotted_quad:
  assumes "a \<le> 255" "b \<le> 255" "c \<le> 255" "d \<le> 255"
  shows "net_ParseIP (dotted_quad a b c d) = Some (net_IPv4 a b c d)"
proof -
  have dots: "CHR ''.'' \<notin> set (nat_dec a)" "CHR '':'' \<notin> set (nat_dec a)" "CHR ''%'' \<notin> set (nat_dec a)"
    by (rule nat_dec_exclude)+
  have "dropWhile (\<lambda>c. c \<notin> set ''.:%'') (nat_dec a @ v) = dropWhile (\<lambda>c. c \<notin> set ''.:%'') v" for v
    using dots by (intro dropWhile_append2) auto
  then have "dropWhile (\<lambda>c. c \<notin> set ''.:%'') (dotted_quad a b c d) =
      CHR ''.'' # nat_dec b @ ''.'' @ nat_dec c @ ''.'' @ nat_dec d"
    unfolding dotted_quad_def by simp
  with parse_dotted_quad [OF assms] show ?thesis
    by (simp only: net_ParseIP_def ParseAddr_def net_IPv4_def list.case option.case prod.case if_True
        HOL.simp_thms if_False)
qed

lemma isBlockedHost_dotted_quad:
  assumes "a \<le> 255" "b \<le> 255" "c \<le> 255" "d \<le> 255"
  shows "isBlockedHost (with_port (dotted_quad a b c d) p) \<longleftrightarrow> restricted_v4 a b c d"
proof -
  have "dotted_quad a b c d \<noteq> []" by (simp add: dotted_quad_def)
  then have "strip_host (with_port (dotted_quad a b c d) p) = dotted_quad a b c d"
    by (rule strip_host_with_port [OF dotted_quad_host_chars])
  with ParseIP_dotted_quad [OF assms] show ?thesis
    by (simp add: isBlockedHost_def blocked_hostname_def restricted_net_IPv4)
qed

lemma take1_notin: "c \<notin> set s \<Longrightarrow> take 1 s \<noteq> [c]"
  by (cases s) auto

lemma parseIntegerIP_nat_dec:
  assumes "v < 2 ^ 32"
  shows "parseIntegerIP (nat_dec v) =
    Some (net_IPv4 (v div 2 ^ 24) (v div 2 ^ 16 mod 256) (v div 2 ^ 8 mod 256) (v mod 256))"
proof -
  have x: "CHR ''x'' \<notin> set (nat_dec v)" "CHR ''X'' \<notin> set (nat_dec v)"
    and sign: "CHR ''-'' \<notin> set (nat_dec v)" "CHR ''+'' \<notin> set (nat_dec v)"
    by (rule nat_dec_exclude)+
  from x have "\<not> HasPrefix (nat_dec v) ''0x''" "\<not> HasPrefix (nat_dec v) ''0X''"
    by (auto simp: HasPrefix_iff)
  moreover have "big_SetString (nat_dec v) 10 = Some (int v)"
    using take1_notin [OF sign(1)] take1_notin [OF sign(2)]
    by (simp add: big_SetString_def base_value_nat_dec Let_def)
  moreover have "v div 2 ^ 24 mod 256 = v div 2 ^ 24" "\<not> 2 ^ 32 - 1 < int v"
    using assms by simp_all
  ultimately show ?thesis
    using nat_dec_digits [of v] by (simp add: parseIntegerIP_def Let_def)
qed

lemma ParseIP_nat_dec: "net_ParseIP (nat_dec v) = None"
proof -
  have "CHR ''.'' \<notin> set (nat_dec v)" "CHR '':'' \<notin> set (nat_dec v)" "CHR ''%'' \<notin> set (nat_dec v)"
    by (rule nat_dec_exclude)+
  then have "dropWhile (\<lambda>c. c \<notin> set ''.:%'') (nat_dec v) = []"
    unfolding dropWhile_eq_Nil_conv by auto
  then show ?thesis by (simp only: net_ParseIP_def ParseAddr_def list.case option.case)
qed

lemma isBlockedHost_integer:
  assumes "v < 2 ^ 32"
  shows "isBlockedHost (with_port (nat_dec v) p) \<longleftrightarrow>
    restricted_v4 (v div 2 ^ 24) (v div 2 ^ 16 mod 256) (v div 2 ^ 8 mod 256) (v mod 256)"
  using strip_host_with_port [OF nat_dec_host_chars nat_dec_not_Nil] parseIntegerIP_nat_dec [OF assms]
  by (simp add: isBlockedHost_def blocked_hostname_def ParseIP_nat_dec restricted_net_IPv4)

subsection \<open>Specification of the guard\<close>

text \<open>
  The address blocks that are not public, in CIDR notation. An address is a list of bytes, and a
  block is a base address with the number of leading bits that an address shares with it.
\<close>

fun in_cidr :: "IP \<Rightarrow> nat \<Rightarrow> IP \<Rightarrow> bool" where
  "in_cidr (b # bs) n (x # xs) =
     (if n = 0 then True
      else if n < 8 then x div 2 ^ (8 - n) = b div 2 ^ (8 - n)
      else x = b \<and> in_cidr bs (n - 8) xs)"
| "in_cidr bs n xs = (n = 0)"

definition blocked_ranges :: "(IP \<times> nat) list" where
  "blocked_ranges =
     [(v4_mapped [127, 0, 0, 0], 96 + 8), (v4_mapped [10, 0, 0, 0], 96 + 8),
      (v4_mapped [172, 16, 0, 0], 96 + 12), (v4_mapped [192, 168, 0, 0], 96 + 16),
      (v4_mapped [169, 254, 0, 0], 96 + 16), (v4_mapped [224, 0, 0, 0], 96 + 24),
      (v4_mapped [0, 0, 0, 0], 128), (replicate 16 0, 128), (replicate 15 0 @ [1], 128),
      (252 # replicate 15 0, 7), (254 # 128 # replicate 14 0, 10), (255 # 2 # replicate 14 0, 16)]"

definition non_public :: "IP \<Rightarrow> bool" where
  "non_public ip = (\<exists>(base, n)\<in>set blocked_ranges. in_cidr base n ip)"

text \<open>A part of a dotted address that is written in octal or in hexadecimal.\<close>

definition octal_or_hex :: "string \<Rightarrow> bool" where
  "octal_or_hex p = ((\<exists>r. r \<noteq> [] \<and> list_all is_digit r \<and> p = CHR ''0'' # r) \<or>
                     (\<exists>r. p = ''0x'' @ r) \<or> (\<exists>r. p = ''0X'' @ r))"

text \<open>The names of the host itself, of the services of the cluster and of internal zones.\<close>

definition internal_name :: "string \<Rightarrow> bool" where
  "internal_name h =
     (ToLower h = ''localhost'' \<or> (\<exists>r z. z \<in> {''.svc'', ''.local'', ''.internal''} \<and> ToLower h = r @ z))"

lemma in_cidr_append:
  "in_cidr (p @ bs) (8 * length p + n) xs \<Longrightarrow> length xs = length p + length bs \<Longrightarrow>
    \<exists>ys. xs = p @ ys \<and> in_cidr bs n ys"
proof (induction p arbitrary: xs)
  case (Cons a p)
  then obtain x xs' where "xs = x # xs'" by (cases xs) auto
  with Cons show ?case by auto
qed simp

lemma in_cidr_v4:
  assumes "in_cidr (v4_mapped [a, b, c, d]) (96 + n) ip" "length ip = 16"
  shows "\<exists>w x y z. ip = net_IPv4 w x y z \<and> in_cidr [a, b, c, d] n [w, x, y, z]"
proof -
  let ?p = "replicate 10 0 @ [255, 255] :: nat list"
  from assms obtain ys where "ip = ?p @ ys" "in_cidr [a, b, c, d] n ys"
    using in_cidr_append [of ?p "[a, b, c, d]" n ip] by (auto simp: v4_mapped_def)
  moreover from this assms(2) have "length ys = Suc (Suc (Suc (Suc 0)))" by simp
  then obtain w x y z where "ys = [w, x, y, z]" by (auto simp only: length_Suc_conv length_0_conv)
  ultimately show ?thesis by (auto simp: net_IPv4_def v4_mapped_def)
qed

lemma in_cidr_128: "in_cidr bs 128 ip \<Longrightarrow> length bs = 16 \<Longrightarrow> length ip = 16 \<Longrightarrow> ip = bs"
  using in_cidr_append [of bs "[]" 0 ip] by auto

lemma blocked_v4_restricted:
  assumes "in_cidr (v4_mapped [a, b, c, d]) (96 + n) ip" "length ip = 16"
    and "\<And>w x y z. in_cidr [a, b, c, d] n [w, x, y, z] \<Longrightarrow> restricted_v4 w x y z"
  shows "restricted_ip ip"
  using in_cidr_v4 [OF assms(1,2)] assms(3) restricted_net_IPv4 by blast

lemma To4_hd: "ip ! 0 \<noteq> 0 \<Longrightarrow> To4 ip = None"
  by (cases ip) (auto simp: To4_def numeral_eq_Suc)

lemma blocked_v6_restricted:
  assumes "length ip = 16"
  shows "in_cidr (252 # u) 7 ip \<Longrightarrow> restricted_ip ip"
    and "in_cidr (254 # 128 # u) 10 ip \<Longrightarrow> restricted_ip ip"
    and "in_cidr (255 # 2 # u) 16 ip \<Longrightarrow> restricted_ip ip"
proof -
  from assms obtain x y ys where ip: "ip = x # y # ys" by (cases ip; cases "tl ip") auto
  show "restricted_ip ip" if "in_cidr (252 # u) 7 ip"
  proof -
    from that have "x div 2 = 126" by (simp add: ip)
    then show ?thesis using To4_hd [of ip] assms by (auto simp: restricted_ip_def IsPrivate_def ip)
  qed
  show "restricted_ip ip" if "in_cidr (254 # 128 # u) 10 ip"
  proof -
    from that have "x = 254" "y div 64 = 2" by (simp_all add: ip)
    then show ?thesis
      using To4_hd [of ip] assms by (auto simp: restricted_ip_def IsLinkLocalUnicast_def ip)
  qed
  show "restricted_ip ip" if "in_cidr (255 # 2 # u) 16 ip"
  proof -
    from that have "x = 255" "y = 2" by (auto simp: ip)
    then show ?thesis
      using To4_hd [of ip] assms by (auto simp: restricted_ip_def IsLinkLocalMulticast_def ip)
  qed
qed

lemma blocked_range_restricted:
  assumes len: "length ip = 16"
  shows "\<forall>(base, n)\<in>set blocked_ranges. in_cidr base n ip \<longrightarrow> restricted_ip ip"
proof -
  have m: "b div 16 = 1 \<Longrightarrow> 16 \<le> b \<and> b \<le> 31" for b :: nat by auto
  have u: "restricted_ip (replicate 16 0)" and l: "restricted_ip (replicate 15 0 @ [1])"
    by (simp_all add: restricted_ip_def IsUnspecified_def IsLoopback_def To4_def numeral_eq_Suc)
  note v4 = blocked_v4_restricted [OF _ len]
  have "in_cidr (v4_mapped [0, 0, 0, 0]) 128 ip \<longrightarrow> restricted_ip ip"
    using v4 [of 0 0 0 0 32] by (simp add: restricted_v4_def)
  moreover have "in_cidr (replicate 16 0) 128 ip \<longrightarrow> restricted_ip ip"
    using in_cidr_128 [OF _ length_replicate len] u by blast
  moreover have "in_cidr (replicate 15 0 @ [1]) 128 ip \<longrightarrow> restricted_ip ip"
    using in_cidr_128 [OF _ _ len, of "replicate 15 0 @ [1]"] l by auto
  moreover have "in_cidr (v4_mapped [127, 0, 0, 0]) (96 + 8) ip \<longrightarrow> restricted_ip ip"
      "in_cidr (v4_mapped [10, 0, 0, 0]) (96 + 8) ip \<longrightarrow> restricted_ip ip"
      "in_cidr (v4_mapped [192, 168, 0, 0]) (96 + 16) ip \<longrightarrow> restricted_ip ip"
      "in_cidr (v4_mapped [169, 254, 0, 0]) (96 + 16) ip \<longrightarrow> restricted_ip ip"
      "in_cidr (v4_mapped [224, 0, 0, 0]) (96 + 24) ip \<longrightarrow> restricted_ip ip"
    by (intro impI, erule v4, simp add: restricted_v4_def)+
  moreover have "in_cidr (v4_mapped [172, 16, 0, 0]) (96 + 12) ip \<longrightarrow> restricted_ip ip"
    by (intro impI, erule v4) (auto simp: restricted_v4_def dest: m)
  ultimately show ?thesis
    unfolding blocked_ranges_def
    by (simp only: list.set ball_simps prod.case simp_thms) (blast intro: blocked_v6_restricted [OF len])
qed

lemma non_public_restricted: "length ip = 16 \<Longrightarrow> non_public ip \<Longrightarrow> restricted_ip ip"
  using blocked_range_restricted unfolding non_public_def by blast

lemma parseIPv4Fields_length: "parseIPv4Fields s = Some q \<Longrightarrow> length q = 4"
  by (auto simp: parseIPv4Fields_def split: list.splits option.splits)

lemma ipv6_loop_length:
  "ipv6_loop g bs e s = Some (r, e') \<Longrightarrow> length bs + 2 * g = 16 \<Longrightarrow> length r \<le> 16"
proof (induction g arbitrary: bs e s)
  case 0
  then show ?case by (simp add: ipv6_loop.simps [of 0] split: if_splits)
next
  case (Suc g)
  have step: "ipv6_loop g bs' e2 s2 = Some (r, e') \<Longrightarrow> length bs' = length bs + 2 \<Longrightarrow> length r \<le> 16" for bs' e2 s2
    using Suc.IH [of bs' e2 s2] Suc.prems(2) by simp
  note eq = Suc.prems(1) [unfolded ipv6_loop.simps [of "Suc g"] Let_def]
  show ?case
    using eq Suc.prems(2)
    by (auto dest: step parseIPv4Fields_length split: if_split_asm option.split_asm)
qed

lemma ParseIP_length: "net_ParseIP s = Some ip \<Longrightarrow> length ip = 16"
  by (auto simp: net_ParseIP_def ParseAddr_def parseIPv6_def expand_ellipsis_def v4_mapped_def Let_def
      dest!: parseIPv4Fields_length ipv6_loop_length split: list.splits option.splits if_splits)

lemma strip_host_bracketed:
  assumes "CHR ''['' \<notin> set h" "CHR '']'' \<notin> set h"
  shows "strip_host (with_port (''['' @ h @ '']'') p) = h"
proof (cases p)
  case None
  have "SplitHostPort (''['' @ h @ '']'') = None"
    using assms by (simp add: SplitHostPort_def Let_def takeWhile_append)
  then show ?thesis
    using None by (simp add: strip_host_def with_port_def TrimPrefix_def TrimSuffix_def HasPrefix_iff HasSuffix_iff)
next
  case (Some n)
  have "takeWhile (\<lambda>c. c \<noteq> CHR '']'') (h @ CHR '']'' # r) = h" for r
    using assms by (simp add: takeWhile_append)
  moreover have "CHR '':'' \<notin> set (nat_dec n)" "CHR ''['' \<notin> set (nat_dec n)" "CHR '']'' \<notin> set (nat_dec n)"
    by (rule nat_dec_exclude)+
  ultimately have "SplitHostPort ((''['' @ h @ '']'') @ '':'' @ nat_dec n) = Some (h, nat_dec n)"
    using assms by (simp add: SplitHostPort_def Let_def)
  then show ?thesis
    using Some assms by (simp add: strip_host_def with_port_def no_bracket_trim)
qed

text \<open>What a name is not: no address, and no integer, in any notation.\<close>

lemma base_value_hex: "base_value b acc s = Some v \<Longrightarrow> c \<in> set s \<Longrightarrow> hex_value c \<noteq> None"
  by (induction s arbitrary: acc) (auto split: option.splits if_splits)

lemma set_split_on: "c \<in> set s \<Longrightarrow> c = d \<or> (\<exists>p\<in>set (split_on d s). c \<in> set p)"
  by (induction s) (auto split: list.splits)

lemma parseIPv4Fields_chars:
  assumes "parseIPv4Fields s = Some q" "c \<in> set s" "c \<noteq> CHR ''.''"
  shows "is_digit c"
proof -
  from assms(1) have "\<forall>p\<in>set (split_on CHR ''.'' s). octet p \<noteq> None"
    by (auto simp: parseIPv4Fields_def split: list.splits option.splits)
  moreover from assms(2,3) obtain p where "p \<in> set (split_on CHR ''.'' s)" "c \<in> set p"
    using set_split_on by blast
  ultimately show ?thesis by (auto simp: octet_def list_all_iff split: if_splits)
qed

lemma ParseIP_no_colon:
  assumes "CHR '':'' \<notin> set h" "parseIPv4Fields h = None"
  shows "net_ParseIP h = None"
proof -
  have "c \<in> set h \<and> c \<in> set ''.:%''" if "dropWhile (\<lambda>c. c \<notin> set ''.:%'') h = c # r" for c r
    using that by (metis dropWhile_eq_Cons_conv in_set_conv_decomp)
  with assms show ?thesis
    by (auto simp: net_ParseIP_def ParseAddr_def split: list.splits)
qed

lemma parseIntegerIP_dot:
  assumes "CHR ''.'' \<in> set h"
  shows "parseIntegerIP h = None"
proof -
  have dot: "hex_value CHR ''.'' = None" "\<not> is_digit CHR ''.''"
    by (simp_all add: hex_value_def is_digit_def code_def)
  have "big_SetString s 16 = None" if s: "CHR ''.'' \<in> set s" for s
  proof -
    have "CHR ''.'' \<in> set (if take 1 s = ''-'' \<or> take 1 s = ''+'' then drop 1 s else s)"
      using s by (cases s) auto
    then have "base_value 16 0 (if take 1 s = ''-'' \<or> take 1 s = ''+'' then drop 1 s else s) = None"
      using base_value_hex [of 16 0 _ _ "CHR ''.''"] dot(1) by (metis not_None_eq)
    then show ?thesis by (simp add: big_SetString_def Let_def)
  qed
  moreover have "CHR ''.'' \<in> set (drop 2 h)" if "HasPrefix h ''0x'' \<or> HasPrefix h ''0X''"
    using that assms by (auto simp: HasPrefix_iff)
  moreover have "\<not> list_all is_digit h" using assms dot(2) by (auto simp: list_all_iff)
  ultimately show ?thesis by (auto simp: parseIntegerIP_def Let_def)
qed

lemma parseIntegerIP_letter: "\<not> is_digit c \<Longrightarrow> parseIntegerIP (c # s) = None"
  using not_digit_literals by (auto simp: parseIntegerIP_def HasPrefix_iff is_digit_def)

lemma lower_char_digit: "is_digit c \<Longrightarrow> lower_char c = c"
  by (auto simp: is_digit_def lower_char_def)

lemma lower_char_dot: "lower_char c = CHR ''.'' \<Longrightarrow> c = CHR ''.''"
proof (rule ccontr)
  assume l: "lower_char c = CHR ''.''" and "c \<noteq> CHR ''.''"
  then have u: "65 \<le> code c" "code c \<le> 90" and eq: "char_of (code c + 32) = CHR ''.''"
    by (auto simp: lower_char_def code_def split: if_splits)
  from eq have "code (char_of (code c + 32)) = 46" by (simp add: code_def)
  moreover have "code (char_of (code c + 32)) = code c + 32" using u by (simp add: code_def)
  ultimately show False using u by simp
qed

lemma internal_name_letter:
  assumes "internal_name h"
  shows "\<exists>c\<in>set h. \<not> is_digit c \<and> c \<noteq> CHR ''.''"
proof -
  from assms have "CHR ''l'' \<in> set (ToLower h) \<or> CHR ''c'' \<in> set (ToLower h)"
    by (auto simp: internal_name_def)
  then obtain c where c: "c \<in> set h" "lower_char c = CHR ''l'' \<or> lower_char c = CHR ''c''"
    by (auto simp: ToLower_def image_iff)
  moreover have "\<not> is_digit c" using c(2) lower_char_digit [of c] by (auto simp: is_digit_def)
  moreover have "c \<noteq> CHR ''.''" using c(2) by (auto simp: lower_char_def)
  ultimately show ?thesis by blast
qed

lemma parseIntegerIP_internal:
  assumes "internal_name h"
  shows "parseIntegerIP h = None"
  using assms unfolding internal_name_def
proof (elim disjE exE conjE)
  assume "ToLower h = ''localhost''"
  then obtain c s where "h = c # s" "lower_char c = CHR ''l''"
    by (auto simp: ToLower_def map_eq_Cons_conv)
  moreover from this(2) have "\<not> is_digit c" using lower_char_digit [of c] by (auto simp: is_digit_def)
  ultimately show ?thesis by (simp add: parseIntegerIP_letter)
next
  fix r z assume "z \<in> {''.svc'', ''.local'', ''.internal''}" "ToLower h = r @ z"
  then have "CHR ''.'' \<in> set (ToLower h)" by auto
  then have "CHR ''.'' \<in> set h" by (auto simp: ToLower_def dest!: lower_char_dot [OF sym])
  then show ?thesis by (rule parseIntegerIP_dot)
qed

lemma blocked_internal_name:
  assumes "internal_name h" "CHR '':'' \<notin> set h"
  shows "blocked_hostname h"
proof -
  have "parseIPv4Fields h = None"
    using internal_name_letter [OF assms(1)] parseIPv4Fields_chars by (metis not_None_eq)
  with assms(2) have "net_ParseIP h = None" by (rule ParseIP_no_colon)
  with parseIntegerIP_internal [OF assms(1)] assms(1) show ?thesis
    by (auto simp: blocked_hostname_def internal_name_def Let_def HasSuffix_iff)
qed

text \<open>Four parts of which one is octal or hexadecimal.\<close>

definition four_parts :: "string \<Rightarrow> string \<Rightarrow> string \<Rightarrow> string \<Rightarrow> string" where
  "four_parts a b c d = a @ ''.'' @ b @ ''.'' @ c @ ''.'' @ d"

definition part_chars :: "string \<Rightarrow> bool" where
  "part_chars p = (p \<noteq> [] \<and> (\<forall>x\<in>set p. x \<notin> set ''.:[]''))"

lemma split_four_parts:
  assumes "part_chars a" "part_chars b" "part_chars c" "part_chars d"
  shows "split_on CHR ''.'' (four_parts a b c d) = [a, b, c, d]"
proof -
  have "CHR ''.'' \<notin> set p" if "part_chars p" for p using that by (auto simp: part_chars_def)
  with assms show ?thesis by (simp add: four_parts_def split_on_append split_on_notin)
qed

lemma octet_octal_or_hex: "octal_or_hex p \<Longrightarrow> octet p = None"
  by (auto simp: octal_or_hex_def octet_def is_digit_def)

lemma nonstandard_loop_octal_or_hex:
  "\<exists>p\<in>set ps. octal_or_hex p \<Longrightarrow> [] \<notin> set ps \<Longrightarrow> nonstandard_loop ps"
proof (induction ps)
  case (Cons p ps)
  have "HasPrefix p ''0x'' \<or> HasPrefix p ''0X'' \<or> (1 < length p \<and> hd p = CHR ''0'' \<and> list_all is_digit p)"
    if "octal_or_hex p"
    using that by (auto simp: octal_or_hex_def HasPrefix_iff is_digit_def)
  with Cons show ?case by auto
qed simp

lemma blocked_octal_or_hex:
  assumes "part_chars a" "part_chars b" "part_chars c" "part_chars d" "\<exists>p\<in>{a, b, c, d}. octal_or_hex p"
  shows "blocked_hostname (four_parts a b c d)"
proof -
  let ?h = "four_parts a b c d"
  note split = split_four_parts [OF assms(1-4)]
  have "\<exists>p\<in>{a, b, c, d}. octet p = None" using assms(5) octet_octal_or_hex by blast
  then have "parseIPv4Fields ?h = None"
    unfolding parseIPv4Fields_def split list.map
    by (cases "octet a"; cases "octet b"; cases "octet c"; cases "octet d") simp_all
  moreover have "CHR '':'' \<notin> set ?h"
  proof -
    have "CHR '':'' \<notin> set p" if "part_chars p" for p using that by (auto simp: part_chars_def)
    with assms(1-4) show ?thesis by (simp add: four_parts_def)
  qed
  ultimately have "net_ParseIP ?h = None" by (intro ParseIP_no_colon)
  moreover have "parseIntegerIP ?h = None" by (rule parseIntegerIP_dot) (simp add: four_parts_def)
  moreover have "nonstandard_loop [a, b, c, d]"
    using assms by (intro nonstandard_loop_octal_or_hex) (auto simp: part_chars_def)
  then have "looksLikeNonStandardIP ?h" by (simp add: looksLikeNonStandardIP_def split)
  ultimately show ?thesis by (simp add: blocked_hostname_def Let_def)
qed

lemma four_parts_chars:
  assumes "part_chars a" "part_chars b" "part_chars c" "part_chars d"
  shows "\<forall>x\<in>set (four_parts a b c d). x \<notin> set '':[]''" "four_parts a b c d \<noteq> []"
proof -
  have p: "\<forall>x\<in>set p. x \<notin> set '':[]''" "p \<noteq> []" if "part_chars p" for p
    using that by (auto simp: part_chars_def)
  have dot: "\<forall>x\<in>set ''.''. x \<notin> set '':[]''" by simp
  show "\<forall>x\<in>set (four_parts a b c d). x \<notin> set '':[]''"
    unfolding four_parts_def set_append ball_Un using p(1) assms dot by blast
  show "four_parts a b c d \<noteq> []" using p(2) [OF assms(1)] by (simp add: four_parts_def)
qed

lemma length_net_IPv4: "length (net_IPv4 a b c d) = 16"
  by (simp add: net_IPv4_def v4_mapped_def)

subsection \<open>Properties\<close>

text \<open>
  An IPv4 address written in dotted decimal and the same address written as one decimal integer,
  each with or without a port, are blocked alike, and exactly when the address is in a loopback,
  private, link-local or local multicast range or is unspecified.
\<close>

theorem isBlockedHost_ipv4:
  assumes "a \<le> 255" "b \<le> 255" "c \<le> 255" "d \<le> 255"
  shows "(isBlockedHost (with_port (dotted_quad a b c d) p) \<longleftrightarrow> restricted_v4 a b c d) \<and>
    (isBlockedHost (with_port (nat_dec (a * 2 ^ 24 + b * 2 ^ 16 + c * 2 ^ 8 + d)) p)
       \<longleftrightarrow> restricted_v4 a b c d)"
proof -
  let ?v = "a * 2 ^ 24 + b * 2 ^ 16 + c * 2 ^ 8 + d"
  have "?v < 2 ^ 32" "?v div 2 ^ 24 = a" and hi: "?v div 2 ^ 16 = a * 256 + b"
    "?v div 2 ^ 8 = (a * 2 ^ 8 + b) * 256 + c" "?v = (a * 2 ^ 16 + b * 2 ^ 8 + c) * 256 + d"
    using assms by simp_all
  moreover have m: "(x * 256 + y) mod 256 = y" if "y \<le> 255" for x y :: nat using that by simp
  have "?v div 2 ^ 16 mod 256 = b" unfolding hi(1) by (rule m [OF assms(2)])
  moreover have "?v div 2 ^ 8 mod 256 = c" unfolding hi(2) by (rule m [OF assms(3)])
  moreover have "?v mod 256 = d" unfolding hi(3) by (rule m [OF assms(4)])
  ultimately have "?v < 2 ^ 32" "?v div 2 ^ 24 = a" "?v div 2 ^ 16 mod 256 = b"
    "?v div 2 ^ 8 mod 256 = c" "?v mod 256 = d" by blast+
  with isBlockedHost_integer [of ?v p] have
    "isBlockedHost (with_port (nat_dec ?v) p) \<longleftrightarrow> restricted_v4 a b c d"
    by (simp only:)
  with isBlockedHost_dotted_quad [OF assms] show ?thesis by blast
qed

theorem isBlockedHost_ipv4_witness:
  "isBlockedHost ''127.0.0.1:8080'' \<and> isBlockedHost ''2130706433'' \<and> \<not> isBlockedHost ''8.8.8.8''"
  using isBlockedHost_ipv4 [of 127 0 0 1 "Some 8080"] isBlockedHost_ipv4 [of 127 0 0 1 None]
    isBlockedHost_ipv4 [of 8 8 8 8 None]
  by (simp add: with_port_def dotted_quad_def restricted_v4_def nat_dec.simps char_of_def bit_Suc_0_iff)

text \<open>
  C19. A URL that \<open>ValidateDownloadURL\<close> accepts is an https URL whose host, with or without a port,
  is no address of the blocks in \<open>blocked_ranges\<close> (the loopback, private, link-local, local multicast
  and unspecified ranges, as CIDR blocks on the bytes) in each of these notations: an IPv6 address in
  brackets, also one with an embedded IPv4 address; an IPv4 address in dotted decimal; and an IPv4
  address as one decimal integer. It is no dotted address with an octal or hexadecimal part, and it is
  neither \<open>localhost\<close> nor a name under \<open>.svc\<close>, \<open>.local\<close> or \<open>.internal\<close> in any capitalisation.
  Other spellings of such hosts are not covered, and some of them pass (\<open>blocked_host_gaps\<close>).
\<close>

theorem ValidateDownloadURL_sound:
  assumes "ValidateDownloadURL rawURL = Inr ()"
  shows "\<exists>u. url_Parse rawURL = Inr u \<and> u_Scheme u = ''https'' \<and> u_Host u \<noteq> [] \<and>
    (\<forall>h p ip. u_Host u = with_port (''['' @ h @ '']'') p \<and> CHR ''['' \<notin> set h \<and> CHR '']'' \<notin> set h \<and>
       net_ParseIP h = Some ip \<longrightarrow> \<not> non_public ip) \<and>
    (\<forall>a b c d p. a \<le> 255 \<and> b \<le> 255 \<and> c \<le> 255 \<and> d \<le> 255 \<and>
       (u_Host u = with_port (dotted_quad a b c d) p \<or>
        u_Host u = with_port (nat_dec (a * 2 ^ 24 + b * 2 ^ 16 + c * 2 ^ 8 + d)) p)
       \<longrightarrow> \<not> non_public (net_IPv4 a b c d)) \<and>
    (\<forall>a b c d p. u_Host u = with_port (four_parts a b c d) p \<and>
       part_chars a \<and> part_chars b \<and> part_chars c \<and> part_chars d
       \<longrightarrow> \<not> octal_or_hex a \<and> \<not> octal_or_hex b \<and> \<not> octal_or_hex c \<and> \<not> octal_or_hex d) \<and>
    (\<forall>h p. u_Host u = with_port h p \<and> (\<forall>x\<in>set h. x \<notin> set '':[]'') \<longrightarrow> \<not> internal_name h)"
proof -
  from assms obtain u where u: "url_Parse rawURL = Inr u" "u_Scheme u = ''https''" "u_Host u \<noteq> []"
    and ok: "\<not> isBlockedHost (u_Host u)"
    by (auto simp: ValidateDownloadURL_def split: sum.splits if_splits)
  have v6: "\<not> non_public ip"
    if "u_Host u = with_port (''['' @ h @ '']'') p" "CHR ''['' \<notin> set h" "CHR '']'' \<notin> set h" "net_ParseIP h = Some ip"
    for h p ip
  proof -
    from ok that(1) have "\<not> blocked_hostname h"
      by (simp only: isBlockedHost_def strip_host_bracketed [OF that(2,3)] not_False_eq_True)
    then have "\<not> restricted_ip ip" by (simp only: blocked_hostname_def that(4) option.case not_False_eq_True)
    with non_public_restricted [OF ParseIP_length [OF that(4)]] show ?thesis by blast
  qed
  have v4: "\<not> non_public (net_IPv4 a b c d)"
    if "a \<le> 255" "b \<le> 255" "c \<le> 255" "d \<le> 255" "u_Host u = with_port (dotted_quad a b c d) p \<or>
      u_Host u = with_port (nat_dec (a * 2 ^ 24 + b * 2 ^ 16 + c * 2 ^ 8 + d)) p" for a b c d p
  proof -
    from ok isBlockedHost_ipv4 [OF that(1-4), of p] that(5) have "\<not> restricted_v4 a b c d" by metis
    with non_public_restricted [OF length_net_IPv4] restricted_net_IPv4 show ?thesis by blast
  qed
  have odd: "\<not> octal_or_hex a \<and> \<not> octal_or_hex b \<and> \<not> octal_or_hex c \<and> \<not> octal_or_hex d"
    if h: "u_Host u = with_port (four_parts a b c d) p" and
      ps: "part_chars a" "part_chars b" "part_chars c" "part_chars d" for a b c d p
  proof -
    from ok h have "\<not> blocked_hostname (four_parts a b c d)"
      by (simp only: isBlockedHost_def strip_host_with_port [OF four_parts_chars [OF ps]] not_False_eq_True)
    with blocked_octal_or_hex [OF ps] show ?thesis by blast
  qed
  have name: "\<not> internal_name h"
    if h: "u_Host u = with_port h p" and cs: "\<forall>x\<in>set h. x \<notin> set '':[]''" for h p
  proof
    assume i: "internal_name h"
    then have "h \<noteq> []" using internal_name_letter by fastforce
    then have "strip_host (u_Host u) = h" unfolding h by (rule strip_host_with_port [OF cs])
    with ok have "\<not> blocked_hostname h" by (simp only: isBlockedHost_def not_False_eq_True)
    moreover from cs have "CHR '':'' \<notin> set h" by auto
    ultimately show False using blocked_internal_name [OF i] by blast
  qed
  show ?thesis using u v6 v4 odd name by blast
qed

theorem ValidateDownloadURL_sound_witness:
  "ValidateDownloadURL ''https://8.8.8.8/p.jar'' = Inr () \<and> \<not> non_public (net_IPv4 8 8 8 8)"
proof -
  have url: "url_Parse ''https://8.8.8.8/p.jar'' = Inr \<lparr>u_Scheme = ''https'', u_Host = ''8.8.8.8'', u_Path = ''/p.jar''\<rparr>"
    by (simp add: net_eval)
  have host: "with_port (dotted_quad 8 8 8 8) None = ''8.8.8.8''"
    by (simp add: with_port_def dotted_quad_def nat_dec.simps char_of_def bit_Suc_0_iff)
  then have "\<not> isBlockedHost ''8.8.8.8''"
    using isBlockedHost_dotted_quad [of 8 8 8 8 None] by (simp add: restricted_v4_def)
  then have ok: "ValidateDownloadURL ''https://8.8.8.8/p.jar'' = Inr ()"
    by (simp add: ValidateDownloadURL_def url)
  from ValidateDownloadURL_sound [OF this] obtain u where u: "url_Parse ''https://8.8.8.8/p.jar'' = Inr u"
    and v4: "\<forall>a b c d p. a \<le> 255 \<and> b \<le> 255 \<and> c \<le> 255 \<and> d \<le> 255 \<and>
       (u_Host u = with_port (dotted_quad a b c d) p \<or>
        u_Host u = with_port (nat_dec (a * 2 ^ 24 + b * 2 ^ 16 + c * 2 ^ 8 + d)) p)
       \<longrightarrow> \<not> non_public (net_IPv4 a b c d)"
    by (elim exE conjE) (rule that)
  from u url have "u_Host u = with_port (dotted_quad 8 8 8 8) None" by (auto simp: host)
  with v4 [THEN spec, THEN spec, THEN spec, THEN spec, THEN spec, of 8 8 8 8 None]
  have "\<not> non_public (net_IPv4 8 8 8 8)" by simp
  with ok show ?thesis by blast
qed

text \<open>
  A download that succeeds returns the complete body of a 200 response, and at most
  \<open>MaxJARSize\<close> bytes, whatever length the server announced.
\<close>

theorem DownloadJAR_complete_and_bounded:
  assumes "DownloadJAR httpDo jarURL = Inr body"
  shows "length body \<le> MaxJARSize \<and>
    (\<exists>u resp. url_Parse jarURL = Inr u \<and> httpDo u = Inr resp \<and> resp_StatusCode resp = 200
       \<and> resp_Body resp = (body, None))"
proof -
  from assms obtain u resp where r: "url_Parse jarURL = Inr u" "httpDo u = Inr resp"
      "resp_StatusCode resp = 200" "ReadAll_limited (resp_Body resp) (MaxJARSize + 1) = Inr body"
      "length body \<le> MaxJARSize"
    by (auto simp: DownloadJAR_def split: sum.splits if_splits)
  then have "resp_Body resp = (body, None)"
    by (cases "resp_Body resp") (auto simp: ReadAll_limited_def split: if_splits option.splits)
  with r show ?thesis by blast
qed

theorem DownloadJAR_complete_and_bounded_witness:
  "length ''PK'' \<le> MaxJARSize \<and>
   DownloadJAR (\<lambda>u. Inr \<lparr>resp_StatusCode = 200, resp_ContentLength = -1, resp_Body = (''PK'', None)\<rparr>)
     ''https://example.com/p.jar'' = Inr ''PK''"
proof -
  have "DownloadJAR (\<lambda>u. Inr \<lparr>resp_StatusCode = 200, resp_ContentLength = -1, resp_Body = (''PK'', None)\<rparr>)
      ''https://example.com/p.jar'' = Inr ''PK''"
    by (simp add: DownloadJAR_def ReadAll_limited_def MaxJARSize_def net_eval)
  with DownloadJAR_complete_and_bounded [OF this] show ?thesis by blast
qed

text \<open>
  The guard has gaps: a host name with the trailing dot of an absolute DNS name, the short forms of
  an IPv4 address and an IPv6 address with a zone, which resolvers accept for the loopback address
  and cluster services, are not blocked.
\<close>

theorem blocked_host_gaps:
  "\<not> isBlockedHost ''localhost.'' \<and> \<not> isBlockedHost ''api.default.svc.'' \<and> \<not> isBlockedHost ''127.1''
   \<and> \<not> isBlockedHost ''[::1%lo]'' \<and> isBlockedHost ''[::1]''
   \<and> isBlockedHost ''localhost'' \<and> isBlockedHost ''api.default.svc'' \<and> isBlockedHost ''127.0.0.1''"
proof -
  have "isBlockedHost ''127.0.0.1''"
    using isBlockedHost_dotted_quad [of 127 0 0 1 None]
    by (simp add: with_port_def dotted_quad_def restricted_v4_def nat_dec.simps char_of_def bit_Suc_0_iff)
  moreover have "restricted_ip (replicate 14 0 @ [0, Suc 0])"
    by (simp add: restricted_ip_def IsLoopback_def To4_def numeral_eq_Suc)
  ultimately show ?thesis
    by (simp add: isBlockedHost_def blocked_hostname_def strip_host_def TrimPrefix_def TrimSuffix_def
        parseIntegerIP_def looksLikeNonStandardIP_def net_eval)
qed

end
