(* ===== verification/UpdateController.thy ===== *)
theory UpdateController
  imports BackupController PluginURL
begin

section \<open>Updates\<close>

text \<open>
  \<^verbatim>\<open>internal/controller/update_controller.go\<close>. As in the backup controller, a method that changes
  the server through a pointer returns the changed server. \<open>findLastCronTrigger\<close> loops until the
  schedule passes the current time; a loop that never ends is the value \<open>None\<close>, and so is a
  reconciliation that never returns.
\<close>

definition conditionTypeUpdating :: string where "conditionTypeUpdating = ''Updating''"
definition conditionTypeCronScheduleValid :: string where
  "conditionTypeCronScheduleValid = ''CronScheduleValid''"
definition reasonUpdateInProgress :: string where "reasonUpdateInProgress = ''UpdateInProgress''"
definition reasonUpdateComplete :: string where "reasonUpdateComplete = ''UpdateComplete''"
definition reasonCronInvalid :: string where "reasonCronInvalid = ''InvalidCronExpression''"
definition reasonCronValid :: string where "reasonCronValid = ''CronScheduleConfigured''"
definition containerNamePaperMC :: string where "containerNamePaperMC = ''papermc''"
definition AnnotationApplyNow :: string where "AnnotationApplyNow = ''mc.k8s.lex.la/apply-now''"
definition gcPluginUpdateDir :: string where "gcPluginUpdateDir = ''/data/plugins/update''"
definition maintenanceWindowDuration :: duration where "maintenanceWindowDuration = Hour"
definition applyNowMaxAge :: duration where "applyNowMaxAge = 5 * Minute"

definition pod_name :: "PaperMCServer \<Rightarrow> string" where
  "pod_name server = sv_Name server @ ''-0''"

subsection \<open>When to update\<close>

fun hasPendingPluginUpdates_loop :: "ServerPluginStatus list \<Rightarrow> bool" where
  "hasPendingPluginUpdates_loop [] = False"
| "hasPendingPluginUpdates_loop (p # ps) =
     (if sp_DesiredVersion p \<noteq> [] \<and> sp_DesiredVersion p \<noteq> sp_CurrentVersion p then True
      else hasPendingPluginUpdates_loop ps)"

definition hasPendingPluginUpdates :: "PaperMCServer \<Rightarrow> bool" where
  "hasPendingPluginUpdates server = hasPendingPluginUpdates_loop (st_Plugins (sv_Status server))"

definition delay_check :: "time \<Rightarrow> duration \<Rightarrow> time \<Rightarrow> bool \<times> duration" where
  "delay_check now delay releasedAt =
     (let timeSinceRelease = time_Sub now releasedAt
      in if timeSinceRelease \<ge> delay then (True, 0) else (False, wrap64 (delay - timeSinceRelease)))"

definition shouldApplyUpdate :: "('w, 'sched) ext \<Rightarrow> PaperMCServer \<Rightarrow> ('w, bool \<times> duration) op" where
  "shouldApplyUpdate x server =
     (case st_AvailableUpdate (sv_Status server) of
        None \<Rightarrow> State_Monad.return (True, 0)
      | Some au \<Rightarrow>
          (case ss_UpdateDelay (sv_Spec server) of
             None \<Rightarrow> State_Monad.return (True, 0)
           | Some delay \<Rightarrow> do {
               now \<leftarrow> now_op x;
               State_Monad.return (delay_check now delay (au_ReleasedAt au))
             }))"

partial_function (option) last_trigger_loop :: "(time \<Rightarrow> time) \<Rightarrow> time \<Rightarrow> time \<Rightarrow> time \<Rightarrow> time option" where
  "last_trigger_loop nxt now candidate lastTrigger =
     (let next = nxt candidate
      in if next > now then Some lastTrigger else last_trigger_loop nxt now next next)"

definition lookback :: duration where "lookback = 7 * 24 * Hour"

definition findLastCronTrigger :: "(time \<Rightarrow> time) \<Rightarrow> time \<Rightarrow> time option" where
  "findLastCronTrigger nxt now = last_trigger_loop nxt now (now - lookback) zero_time"

definition in_window :: "(time \<Rightarrow> time) \<Rightarrow> time \<Rightarrow> bool option" where
  "in_window nxt now =
     (case findLastCronTrigger nxt now of
        None \<Rightarrow> None
      | Some lastTrigger \<Rightarrow>
          Some (if lastTrigger = zero_time then False
                else \<not> now < lastTrigger \<and> now < lastTrigger + maintenanceWindowDuration))"

definition isInMaintenanceWindow :: "('w, 'sched) ext \<Rightarrow> PaperMCServer \<Rightarrow> ('w, bool option) op" where
  "isInMaintenanceWindow x server =
     (let mw = us_MaintenanceWindow (ss_UpdateSchedule (sv_Spec server))
      in if \<not> mw_Enabled mw \<or> mw_Cron mw = [] then State_Monad.return (Some True)
         else (case k_cronParse x (mw_Cron mw) of
                 Inl _ \<Rightarrow> State_Monad.return (Some False)
               | Inr schedule \<Rightarrow> do {
                   now \<leftarrow> now_op x;
                   State_Monad.return (in_window (k_cronNext x schedule) now)
                 }))"

definition apply_now_valid :: "time \<Rightarrow> string \<Rightarrow> bool" where
  "apply_now_valid now tsStr =
     (case Sscanf_d tsStr of
        None \<Rightarrow> False
      | Some ts \<Rightarrow> \<not> time_Sub now (time_Unix ts) > applyNowMaxAge)"

definition shouldApplyNow :: "('w, 'sched) ext \<Rightarrow> PaperMCServer \<Rightarrow> ('w, bool) op" where
  "shouldApplyNow x server =
     (case sv_Annotations server AnnotationApplyNow of
        None \<Rightarrow> State_Monad.return False
      | Some tsStr \<Rightarrow>
          if Sscanf_d tsStr = None then State_Monad.return False
          else do {
            now \<leftarrow> now_op x;
            State_Monad.return (apply_now_valid now tsStr)
          })"

definition removeApplyNowAnnotation :: "('w, 'sched) ext \<Rightarrow> PaperMCServer \<Rightarrow> ('w, unit result) op" where
  "removeApplyNowAnnotation x server =
     (if sv_Annotations server AnnotationApplyNow = None then State_Monad.return (Inr ())
      else do {
        g \<leftarrow> get_server x (sv_Namespace server) (sv_Name server);
        case g of
          Inl err \<Rightarrow> State_Monad.return (Inl (Wrap err ''failed to get server for annotation removal''))
        | Inr currentServer \<Rightarrow> do {
            u \<leftarrow> update_server x
                  (set_annotations currentServer ((sv_Annotations currentServer)(AnnotationApplyNow := None)));
            State_Monad.return
              (case u of Inl err \<Rightarrow> Inl (Wrap err ''failed to remove apply-now annotation'') | Inr _ \<Rightarrow> Inr ())
          }
      })"

subsection \<open>Cron schedule\<close>

definition setUpdatingConditionWithType ::
  "('w, 'sched) ext \<Rightarrow> PaperMCServer \<Rightarrow> string \<Rightarrow> ConditionStatus \<Rightarrow> string \<Rightarrow> string \<Rightarrow> ('w, PaperMCServer) op" where
  "setUpdatingConditionWithType x server conditionType status reason message = do {
     now \<leftarrow> now_op x;
     State_Monad.return
       (set_conditions server
          (k_SetStatusCondition x now (st_Conditions (sv_Status server))
             (mk_condition conditionType status (m_Generation (sv_Meta server)) now reason message)))
   }"

definition setUpdatingCondition ::
  "('w, 'sched) ext \<Rightarrow> PaperMCServer \<Rightarrow> bool \<Rightarrow> string \<Rightarrow> ('w, PaperMCServer) op" where
  "setUpdatingCondition x server updating message = do {
     now \<leftarrow> now_op x;
     State_Monad.return
       (set_conditions server
          (k_SetStatusCondition x now (st_Conditions (sv_Status server))
             (mk_condition conditionTypeUpdating (if updating then ConditionTrue else ConditionFalse)
                (m_Generation (sv_Meta server)) now
                (if updating then reasonUpdateInProgress else reasonUpdateComplete) message)))
   }"

definition removeCronJob :: "('w, 'sched) ext \<Rightarrow> string \<Rightarrow> ('w, unit) op" where
  "removeCronJob x serverKey = do {
     entries \<leftarrow> gets u_cronEntries;
     case entries serverKey of
       None \<Rightarrow> pass
     | Some entry \<Rightarrow> do {
         cron_remove x UpdateCron (ce_ID entry);
         modify_u_cron (\<lambda>m. m(serverKey := None))
       }
   }"

definition manageCronSchedule :: "('w, 'sched) ext \<Rightarrow> PaperMCServer \<Rightarrow> ('w, PaperMCServer) op" where
  "manageCronSchedule x server =
     (let serverKey = server_key server;
          mw = us_MaintenanceWindow (ss_UpdateSchedule (sv_Spec server));
          cronSpec = mw_Cron mw
      in if \<not> mw_Enabled mw then do { removeCronJob x serverKey; State_Monad.return server }
         else do {
           entries \<leftarrow> gets u_cronEntries;
           if (case entries serverKey of Some existing \<Rightarrow> ce_Spec existing = cronSpec | None \<Rightarrow> False)
           then State_Monad.return server
           else do {
             (case entries serverKey of Some _ \<Rightarrow> removeCronJob x serverKey | None \<Rightarrow> pass);
             r \<leftarrow> cron_add x UpdateCron cronSpec;
             case r of
               Inl err \<Rightarrow>
                 setUpdatingConditionWithType x server conditionTypeCronScheduleValid ConditionFalse
                   reasonCronInvalid (k_Error x err)
             | Inr entryID \<Rightarrow> do {
                 server' \<leftarrow> setUpdatingConditionWithType x server conditionTypeCronScheduleValid
                    ConditionTrue reasonCronValid (''Cron schedule configured: '' @ cronSpec);
                 modify_u_cron (\<lambda>m. m(serverKey \<mapsto> \<lparr>ce_ID = entryID, ce_Spec = cronSpec\<rparr>));
                 State_Monad.return server'
               }
           }
         })"

subsection \<open>Plugin downloads\<close>

definition trim_hash :: "string \<Rightarrow> string" where
  "trim_hash output =
     (let h = ToLower (TrimSpace output)
      in if CHR '' '' \<in> set h \<and> hd h \<noteq> CHR '' '' then takeWhile (\<lambda>c. c \<noteq> CHR '' '') h else h)"

definition verifyPluginChecksum ::
  "('w, 'sched) ext \<Rightarrow> string \<Rightarrow> string \<Rightarrow> string \<Rightarrow> string \<Rightarrow> string \<Rightarrow> string \<Rightarrow> ('w, unit result) op" where
  "verifyPluginChecksum x namespace podName container pluginName outputPath expectedHash = do {
     output \<leftarrow> exec_in_pod x namespace podName container [''sha256sum'', outputPath];
     case output of
       Inl execErr \<Rightarrow>
         State_Monad.return
           (Inl (Wrapf execErr ''failed to verify checksum for plugin %s'' [AStr pluginName]))
     | Inr out \<Rightarrow>
         if trim_hash out \<noteq> ToLower expectedHash then do {
           exec_in_pod x namespace podName container [''rm'', ''--force'', outputPath];
           State_Monad.return
             (Inl (Newf ''checksum mismatch: expected %s, got %s'' [AStr expectedHash, AStr (trim_hash out)]))
         }
         else State_Monad.return (Inr ())
   }"

definition jar_path :: "string \<Rightarrow> string" where
  "jar_path pluginName = ''/data/plugins/update/'' @ pluginName @ ''.jar''"

definition curl_command :: "string \<Rightarrow> string \<Rightarrow> string list" where
  "curl_command outputPath downloadURL =
     [''curl'', ''--fail'', ''--silent'', ''--show-error'', ''--location'', ''--proto'', ''=https'',
      ''--max-redirs'', itoa (int MaxRedirects), ''--max-filesize'', itoa (int MaxJARSize),
      ''--connect-timeout'', ''30'', ''--max-time'', ''300'', ''--user-agent'', ''minecraft-operator'',
      ''--output'', outputPath, ''--'', downloadURL]"

definition downloadPluginToServer ::
  "('w, 'sched) ext \<Rightarrow> PaperMCServer \<Rightarrow> string \<Rightarrow> string \<Rightarrow> string \<Rightarrow> ('w, unit result) op" where
  "downloadPluginToServer x server pluginName downloadURL expectedHash = do {
     m \<leftarrow> exec_in_pod x (sv_Namespace server) (pod_name server) containerNamePaperMC
            [''mkdir'', ''-p'', gcPluginUpdateDir];
     case m of
       Inl mkdirErr \<Rightarrow>
         State_Monad.return (Inl (Wrap mkdirErr ''failed to create plugins/update directory''))
     | Inr _ \<Rightarrow> do {
         r \<leftarrow> exec_in_pod x (sv_Namespace server) (pod_name server) containerNamePaperMC
                (curl_command (jar_path pluginName) downloadURL);
         case r of
           Inl err \<Rightarrow>
             State_Monad.return (Inl (Wrapf err ''failed to download plugin %s'' [AStr pluginName]))
         | Inr _ \<Rightarrow>
             if expectedHash \<noteq> []
             then verifyPluginChecksum x (sv_Namespace server) (pod_name server) containerNamePaperMC
                    pluginName (jar_path pluginName) expectedHash
             else State_Monad.return (Inr ())
       }
   }"

text \<open>The name-to-plugin map; of two plugins of one name the later wins.\<close>

definition plugin_map :: "Plugin list \<Rightarrow> (string \<rightharpoonup> Plugin)" where
  "plugin_map items = fold (\<lambda>p m. m(pl_Name p \<mapsto> p)) items Map.empty"

fun find_download :: "PluginVersionInfo list \<Rightarrow> string \<Rightarrow> string \<times> string" where
  "find_download [] v = ([], [])"
| "find_download (i # is) v =
     (if pvi_Version i = v then (pvi_DownloadURL i, pvi_Hash i) else find_download is v)"

text \<open>One step of the loop: the plugin's new status, and an error to collect.\<close>

definition apply_plugin ::
  "('w, 'sched) ext \<Rightarrow> PaperMCServer \<Rightarrow> (string \<rightharpoonup> Plugin) \<Rightarrow> ServerPluginStatus
   \<Rightarrow> ('w, ServerPluginStatus \<times> goerror option) op" where
  "apply_plugin x server pluginMap pluginStatus =
     (let pluginName = pr_Name (sp_PluginRef pluginStatus)
      in case pluginMap pluginName of
           None \<Rightarrow> State_Monad.return (pluginStatus, None)
         | Some plugin \<Rightarrow>
             if sp_ResolvedVersion pluginStatus = [] then State_Monad.return (pluginStatus, None)
             else if sp_CurrentVersion pluginStatus = sp_ResolvedVersion pluginStatus
             then State_Monad.return (pluginStatus, None)
             else
               (case find_download (pst_AvailableVersions (pl_Status plugin)) (sp_ResolvedVersion pluginStatus) of
                  (downloadURL, hash) \<Rightarrow>
                    if downloadURL = [] then State_Monad.return (pluginStatus, None)
                    else
                      (case ValidateDownloadURL downloadURL of
                         Inl err \<Rightarrow>
                           State_Monad.return
                             (pluginStatus,
                              Some (Wrapf err ''plugin %s download URL validation failed'' [AStr pluginName]))
                       | Inr _ \<Rightarrow> do {
                           r \<leftarrow> downloadPluginToServer x server pluginName downloadURL hash;
                           State_Monad.return
                             (case r of
                                Inl err \<Rightarrow> (pluginStatus, Some (Wrapf err ''plugin %s'' [AStr pluginName]))
                              | Inr _ \<Rightarrow> (pluginStatus\<lparr>sp_InstalledJARName := pluginName @ ''.jar''\<rparr>, None))
                         })))"

fun apply_loop ::
  "('w, 'sched) ext \<Rightarrow> PaperMCServer \<Rightarrow> (string \<rightharpoonup> Plugin) \<Rightarrow> ServerPluginStatus list
   \<Rightarrow> ('w, ServerPluginStatus list \<times> goerror list) op" where
  "apply_loop x server pluginMap [] = State_Monad.return ([], [])"
| "apply_loop x server pluginMap (ps # rest) = do {
     (ps', e) \<leftarrow> apply_plugin x server pluginMap ps;
     (rest', es) \<leftarrow> apply_loop x server pluginMap rest;
     State_Monad.return (ps' # rest', case e of None \<Rightarrow> es | Some err \<Rightarrow> err # es)
   }"

definition set_plugins :: "PaperMCServer \<Rightarrow> ServerPluginStatus list \<Rightarrow> PaperMCServer" where
  "set_plugins s ps = s\<lparr>sv_Status := (sv_Status s)\<lparr>st_Plugins := ps\<rparr>\<rparr>"

definition applyPluginUpdates ::
  "('w, 'sched) ext \<Rightarrow> PaperMCServer \<Rightarrow> ('w, unit result \<times> PaperMCServer) op" where
  "applyPluginUpdates x server = do {
     l \<leftarrow> list_plugins x (sv_Namespace server);
     case l of
       Inl err \<Rightarrow> State_Monad.return (Inl (Wrap err ''failed to list plugins''), server)
     | Inr items \<Rightarrow> do {
         (ps, downloadErrors) \<leftarrow> apply_loop x server (plugin_map items) (st_Plugins (sv_Status server));
         State_Monad.return
           (if downloadErrors \<noteq> []
            then Inl (Newf ''failed to download %d plugins: %v''
                        [AInt (int (length downloadErrors)), AErrs downloadErrors])
            else Inr (), set_plugins server ps)
       }
   }"

subsection \<open>Plugin deletions\<close>

fun getPluginsToDelete_loop :: "ServerPluginStatus list \<Rightarrow> ServerPluginStatus list" where
  "getPluginsToDelete_loop [] = []"
| "getPluginsToDelete_loop (p # ps) =
     (if sp_PendingDeletion p then p # getPluginsToDelete_loop ps else getPluginsToDelete_loop ps)"

definition getPluginsToDelete :: "PaperMCServer \<Rightarrow> ServerPluginStatus list" where
  "getPluginsToDelete server = getPluginsToDelete_loop (st_Plugins (sv_Status server))"

text \<open>The first entry of the server is marked; \<open>None\<close> when there is no such entry.\<close>

fun mark_deleted ::
  "time \<Rightarrow> string \<Rightarrow> string \<Rightarrow> DeletionProgressEntry list \<Rightarrow> DeletionProgressEntry list option" where
  "mark_deleted now serverName serverNamespace [] = None"
| "mark_deleted now serverName serverNamespace (e # es) =
     (if dp_ServerName e = serverName \<and> dp_Namespace e = serverNamespace
      then Some (e\<lparr>dp_JARDeleted := True, dp_DeletedAt := Some now\<rparr> # es)
      else map_option ((#) e) (mark_deleted now serverName serverNamespace es))"

definition markJARAsDeleted ::
  "('w, 'sched) ext \<Rightarrow> string \<Rightarrow> string \<Rightarrow> string \<Rightarrow> string \<Rightarrow> ('w, unit result) op" where
  "markJARAsDeleted x pluginName pluginNamespace serverName serverNamespace = do {
     g \<leftarrow> get_plugin x pluginNamespace pluginName;
     case g of
       Inl err \<Rightarrow> State_Monad.return (Inl (Wrap err ''failed to get plugin''))
     | Inr plugin \<Rightarrow> do {
         now \<leftarrow> now_op x;
         case mark_deleted now serverName serverNamespace (pst_DeletionProgress (pl_Status plugin)) of
           None \<Rightarrow> State_Monad.return (Inr ())
         | Some progress \<Rightarrow> do {
             u \<leftarrow> plugin_status_update x
                   (plugin\<lparr>pl_Status := (pl_Status plugin)\<lparr>pst_DeletionProgress := progress\<rparr>\<rparr>);
             State_Monad.return
               (case u of Inl err \<Rightarrow> Inl (Wrap err ''failed to update plugin status'') | Inr _ \<Rightarrow> Inr ())
           }
       }
   }"

definition rm_command :: "string \<Rightarrow> string list" where
  "rm_command jar = [''rm'', ''--force'', ''/data/plugins/'' @ jar, ''/data/plugins/update/'' @ jar]"

definition deletePluginJAR ::
  "('w, 'sched) ext \<Rightarrow> PaperMCServer \<Rightarrow> ServerPluginStatus \<Rightarrow> ('w, unit result) op" where
  "deletePluginJAR x server plugin =
     (let ref = sp_PluginRef plugin;
          mark = markJARAsDeleted x (pr_Name ref) (pr_Namespace ref) (sv_Name server) (sv_Namespace server)
      in if sp_InstalledJARName plugin = [] then mark
         else do {
           r \<leftarrow> exec_in_pod x (sv_Namespace server) (pod_name server) containerNamePaperMC
                  (rm_command (sp_InstalledJARName plugin));
           case r of
             Inl err \<Rightarrow>
               State_Monad.return (Inl (Wrapf err ''failed to delete JAR for plugin %s'' [AStr (pr_Name ref)]))
           | Inr _ \<Rightarrow> do {
               m \<leftarrow> mark;
               State_Monad.return
                 (case m of
                    Inl err \<Rightarrow> Inl (Wrapf err ''failed to mark JAR as deleted for plugin %s'' [AStr (pr_Name ref)])
                  | Inr _ \<Rightarrow> Inr ())
             }
         })"

fun deletion_loop ::
  "('w, 'sched) ext \<Rightarrow> PaperMCServer \<Rightarrow> ServerPluginStatus list \<Rightarrow> ('w, goerror list) op" where
  "deletion_loop x server [] = State_Monad.return []"
| "deletion_loop x server (p # ps) = do {
     r \<leftarrow> deletePluginJAR x server p;
     errs \<leftarrow> deletion_loop x server ps;
     State_Monad.return (case r of Inl err \<Rightarrow> err # errs | Inr _ \<Rightarrow> errs)
   }"

definition deleteMarkedPlugins :: "('w, 'sched) ext \<Rightarrow> PaperMCServer \<Rightarrow> ('w, unit result) op" where
  "deleteMarkedPlugins x server =
     (let pluginsToDelete = getPluginsToDelete server
      in if pluginsToDelete = [] then State_Monad.return (Inr ())
         else do {
           errs \<leftarrow> deletion_loop x server pluginsToDelete;
           State_Monad.return
             (if errs \<noteq> []
              then Inl (CombineErrors (hd errs)
                          (Newf ''and %d more errors'' [AInt (int (length errs) - 1)]))
              else Inr ())
         })"

subsection \<open>Shutdown and restart\<close>

definition createRCONClient :: "('w, 'sched) ext \<Rightarrow> PaperMCServer \<Rightarrow> ('w, RCONClient result) op" where
  "createRCONClient x server = do {
     p \<leftarrow> get_pod x (sv_Namespace server) (pod_name server);
     case p of
       Inl err \<Rightarrow> State_Monad.return (Inl (Wrap err ''failed to get pod for RCON connection''))
     | Inr pod \<Rightarrow>
         if pod_IP pod = [] then State_Monad.return (Inl (New ''pod IP not available''))
         else
           let rcon = ss_RCON (sv_Spec server); ref = rc_PasswordSecret rcon in
           do {
             r \<leftarrow> get_secret x (sv_Namespace server) (sk_Name ref);
             State_Monad.return
               (case r of
                  Inl err \<Rightarrow> Inl (Wrap err ''failed to get RCON password secret'')
                | Inr data \<Rightarrow>
                    (case data (sk_Key ref) of
                       None \<Rightarrow> Inl (Newf ''key %s not found in secret %s'' [AStr (sk_Key ref), AStr (sk_Name ref)])
                     | Some password \<Rightarrow>
                         (case NewRCONClient (pod_IP pod)
                                 (if rc_Port rcon = 0 then 25575 else rc_Port rcon) password of
                            Inl err \<Rightarrow> Inl (Wrap err ''failed to create RCON client'')
                          | Inr c \<Rightarrow> Inr c)))
           }
   }"

definition shutdown_warnings :: "string list" where
  "shutdown_warnings =
     [''Server will restart for update in 5 minutes'', ''Server will restart for update in 2 minutes'',
      ''Server will restart for update in 1 minute'', ''Server will restart for update in 30 seconds'',
      ''Server restarting now for update'']"

text \<open>Go's division truncates toward zero.\<close>

definition quot :: "int \<Rightarrow> int \<Rightarrow> int" where
  "quot a b = (if a < 0 then - ((- a) div b) else a div b)"

definition executeGracefulShutdownWithClient ::
  "('w, 'sched) ext \<Rightarrow> PaperMCServer \<Rightarrow> RCONClient \<Rightarrow> ('w, unit result) op" where
  "executeGracefulShutdownWithClient x server rconClient = do {
     (c, client) \<leftarrow> Connect x rconClient;
     case c of
       Inl err \<Rightarrow> State_Monad.return (Inl (Wrap err ''failed to connect to RCON''))
     | Inr _ \<Rightarrow> do {
         r \<leftarrow> GracefulShutdown x client shutdown_warnings
                (quot (gs_Timeout (ss_GracefulShutdown (sv_Spec server))) (int (length shutdown_warnings)));
         Close x client;
         State_Monad.return
           (case r of Inl err \<Rightarrow> Inl (Wrap err ''graceful shutdown failed'') | Inr _ \<Rightarrow> Inr ())
       }
   }"

definition deletePod :: "('w, 'sched) ext \<Rightarrow> string \<Rightarrow> string \<Rightarrow> ('w, unit result) op" where
  "deletePod x podName namespace = do {
     p \<leftarrow> get_pod x namespace podName;
     case p of
       Inl err \<Rightarrow> State_Monad.return (Inl (Wrap err ''failed to get pod for deletion''))
     | Inr pod \<Rightarrow> do {
         d \<leftarrow> delete_pod x pod namespace podName;
         State_Monad.return (case d of Inl err \<Rightarrow> Inl (Wrap err ''failed to delete pod'') | Inr _ \<Rightarrow> Inr ())
       }
   }"

text \<open>
  The loop of \<^verbatim>\<open>waitForPodReady\<close>. A tick of the 5 second ticker is \<open>True\<close>; \<open>False\<close> is the end of
  the 10 minute timeout. At most 120 ticks come before it, so 121 rounds are never used up.
\<close>

fun wait_loop :: "nat \<Rightarrow> ('w, 'sched) ext \<Rightarrow> PaperMCServer \<Rightarrow> ('w, unit result) op" where
  "wait_loop 0 x server = State_Monad.return (Inl (New ''timeout waiting for pod to become ready''))"
| "wait_loop (Suc k) x server = do {
     t \<leftarrow> tick x;
     if \<not> t then State_Monad.return (Inl (New ''timeout waiting for pod to become ready''))
     else do {
       p \<leftarrow> get_pod x (sv_Namespace server) (pod_name server);
       case p of
         Inl _ \<Rightarrow> wait_loop k x server
       | Inr pod \<Rightarrow>
           if list_ex (\<lambda>(ty, st). ty = ''Ready'' \<and> st = ConditionTrue) (pod_ReadyConditions pod)
           then State_Monad.return (Inr ())
           else wait_loop k x server
     }
   }"

definition waitForPodReady :: "('w, 'sched) ext \<Rightarrow> PaperMCServer \<Rightarrow> ('w, unit result) op" where
  "waitForPodReady x server = wait_loop 121 x server"

fun set_image :: "string \<Rightarrow> Container list \<Rightarrow> Container list option" where
  "set_image newImage [] = None"
| "set_image newImage (c # cs) =
     (if ct_Name c = containerNamePaperMC then Some (c\<lparr>ct_Image := newImage\<rparr> # cs)
      else map_option ((#) c) (set_image newImage cs))"

definition updateStatefulSetImage :: "('w, 'sched) ext \<Rightarrow> PaperMCServer \<Rightarrow> string \<Rightarrow> ('w, unit result) op" where
  "updateStatefulSetImage x server newImage = do {
     g \<leftarrow> get_sts x (sv_Namespace server) (sv_Name server);
     case g of
       Inl err \<Rightarrow> State_Monad.return (Inl (Wrap err ''failed to get StatefulSet''))
     | Inr sts \<Rightarrow>
         (case set_image newImage (sts_Containers sts) of
            None \<Rightarrow> State_Monad.return (Inl (New ''papermc container not found in StatefulSet''))
          | Some cs \<Rightarrow> do {
              u \<leftarrow> update_sts x (set_containers cs sts);
              State_Monad.return
                (case u of Inl err \<Rightarrow> Inl (Wrap err ''failed to update StatefulSet'') | Inr _ \<Rightarrow> Inr ())
            })
   }"

subsection \<open>The two kinds of update\<close>

definition backup_wanted :: "('w, 'sched) ext \<Rightarrow> PaperMCServer \<Rightarrow> bool" where
  "backup_wanted x server =
     (k_hasBackupReconciler x \<and>
      (case ss_Backup (sv_Spec server) of
         None \<Rightarrow> False
       | Some b \<Rightarrow> bk_Enabled b \<and> bk_BeforeUpdate b \<noteq> Some False))"

definition backupBeforeUpdate ::
  "('w, 'sched) ext \<Rightarrow> PaperMCServer \<Rightarrow> ('w, unit result \<times> PaperMCServer) op" where
  "backupBeforeUpdate x server =
     (if \<not> backup_wanted x server then State_Monad.return (Inr (), server)
      else do {
        missing \<leftarrow> isSnapshotCRDMissing x (sv_Namespace server) (sv_Name server);
        if missing
        then State_Monad.return
               (Inl (New ''pre-update backup failed: VolumeSnapshot API unavailable in cluster''), server)
        else PerformBackup x server ''before-update''
      })"

text \<open>Steps 0 to 2, which both kinds of update share: backup, deletions, downloads.\<close>

definition prepare_update ::
  "('w, 'sched) ext \<Rightarrow> PaperMCServer \<Rightarrow> ('w, unit result \<times> PaperMCServer) op" where
  "prepare_update x server = do {
     (b, server1) \<leftarrow> backupBeforeUpdate x server;
     case b of
       Inl err \<Rightarrow> State_Monad.return (Inl (Wrap err ''pre-update backup failed, aborting update''), server1)
     | Inr _ \<Rightarrow> do {
         d \<leftarrow> deleteMarkedPlugins x server1;
         case d of
           Inl err \<Rightarrow> State_Monad.return (Inl (Wrap err ''failed to delete marked plugins''), server1)
         | Inr _ \<Rightarrow> do {
             (a, server2) \<leftarrow> applyPluginUpdates x server1;
             State_Monad.return
               (case a of
                  Inl err \<Rightarrow> (Inl (Wrap err ''failed to download plugins''), server2)
                | Inr _ \<Rightarrow> (Inr (), server2))
           }
       }
   }"

text \<open>The last steps: the pod is deleted and must become ready again.\<close>

definition restart_pod :: "('w, 'sched) ext \<Rightarrow> PaperMCServer \<Rightarrow> ('w, unit result) op" where
  "restart_pod x server = do {
     d \<leftarrow> deletePod x (pod_name server) (sv_Namespace server);
     case d of
       Inl err \<Rightarrow> State_Monad.return (Inl (Wrap err ''failed to delete pod for recreation''))
     | Inr _ \<Rightarrow> do {
         w \<leftarrow> waitForPodReady x server;
         State_Monad.return
           (case w of Inl err \<Rightarrow> Inl (Wrap err ''failed to wait for pod ready'') | Inr _ \<Rightarrow> Inr ())
       }
   }"

definition performPluginOnlyUpdate ::
  "('w, 'sched) ext \<Rightarrow> PaperMCServer \<Rightarrow> ('w, unit result \<times> PaperMCServer) op" where
  "performPluginOnlyUpdate x server = do {
     (p, server1) \<leftarrow> prepare_update x server;
     case p of
       Inl err \<Rightarrow> State_Monad.return (Inl err, server1)
     | Inr _ \<Rightarrow> do {
         (if rc_Enabled (ss_RCON (sv_Spec server1)) then do {
            c \<leftarrow> createRCONClient x server1;
            case c of
              Inl _ \<Rightarrow> pass
            | Inr rconClient \<Rightarrow> do { executeGracefulShutdownWithClient x server1 rconClient; pass }
          }
          else pass);
         r \<leftarrow> restart_pod x server1;
         State_Monad.return (r, server1)
       }
   }"

definition new_image :: "PaperMCServer \<Rightarrow> string" where
  "new_image server =
     ''docker.io/lexfrei/papermc:'' @ st_DesiredVersion (sv_Status server) @ ''-'' @
     itoa (st_DesiredBuild (sv_Status server))"

text \<open>Step 3 of a combined update: the graceful shutdown must succeed when RCON is enabled.\<close>

definition required_shutdown :: "('w, 'sched) ext \<Rightarrow> PaperMCServer \<Rightarrow> ('w, unit result) op" where
  "required_shutdown x server =
     (if rc_Enabled (ss_RCON (sv_Spec server)) then do {
        c \<leftarrow> createRCONClient x server;
        case c of
          Inl err \<Rightarrow> State_Monad.return (Inl (Wrap err ''failed to create RCON client''))
        | Inr rconClient \<Rightarrow> do {
            r \<leftarrow> executeGracefulShutdownWithClient x server rconClient;
            State_Monad.return
              (case r of Inl err \<Rightarrow> Inl (Wrap err ''failed to execute graceful shutdown'') | Inr _ \<Rightarrow> Inr ())
          }
      }
      else State_Monad.return (Inr ()))"

definition performCombinedUpdate ::
  "('w, 'sched) ext \<Rightarrow> PaperMCServer \<Rightarrow> ('w, unit result \<times> PaperMCServer) op" where
  "performCombinedUpdate x server = do {
     (p, server1) \<leftarrow> prepare_update x server;
     case p of
       Inl err \<Rightarrow> State_Monad.return (Inl err, server1)
     | Inr _ \<Rightarrow> do {
         s \<leftarrow> required_shutdown x server1;
         case s of
           Inl err \<Rightarrow> State_Monad.return (Inl err, server1)
         | Inr _ \<Rightarrow> do {
             i \<leftarrow> updateStatefulSetImage x server1 (new_image server1);
             case i of
               Inl err \<Rightarrow> State_Monad.return (Inl (Wrap err ''failed to update StatefulSet image''), server1)
             | Inr _ \<Rightarrow> do {
                 r \<leftarrow> restart_pod x server1;
                 State_Monad.return (r, server1)
               }
           }
       }
   }"

subsection \<open>Status\<close>

definition finish_plugin :: "ServerPluginStatus \<Rightarrow> ServerPluginStatus" where
  "finish_plugin p =
     (if sp_ResolvedVersion p \<noteq> [] then p\<lparr>sp_CurrentVersion := sp_ResolvedVersion p\<rparr> else p)"

definition status_after_update :: "time \<Rightarrow> bool \<Rightarrow> PaperMCServerStatus \<Rightarrow> PaperMCServerStatus" where
  "status_after_update now successful st =
     (let st1 = st\<lparr>st_LastUpdate := Some \<lparr>uh_AppliedAt = now, uh_PreviousVersion = st_CurrentVersion st,
                                          uh_Successful = successful\<rparr>\<rparr>
      in if successful
         then st1\<lparr>st_AvailableUpdate := None, st_CurrentVersion := st_DesiredVersion st,
                  st_CurrentBuild := st_DesiredBuild st, st_Plugins := map finish_plugin (st_Plugins st)\<rparr>
         else st1)"

definition updateServerStatus ::
  "('w, 'sched) ext \<Rightarrow> PaperMCServer \<Rightarrow> bool \<Rightarrow> ('w, PaperMCServer) op" where
  "updateServerStatus x server successful = do {
     now \<leftarrow> now_op x;
     State_Monad.return (server\<lparr>sv_Status := status_after_update now successful (sv_Status server)\<rparr>)
   }"

fun merge_plugin :: "ServerPluginStatus list \<Rightarrow> ServerPluginStatus \<Rightarrow> ServerPluginStatus" where
  "merge_plugin [] p = p"
| "merge_plugin (d # ds) p =
     (if sp_PluginRef p = sp_PluginRef d
      then p\<lparr>sp_CurrentVersion := sp_CurrentVersion d, sp_InstalledJARName := sp_InstalledJARName d,
             sp_PendingDeletion := sp_PendingDeletion d\<rparr>
      else merge_plugin ds p)"

definition reapply_status :: "PaperMCServerStatus \<Rightarrow> PaperMCServer \<Rightarrow> PaperMCServer" where
  "reapply_status desired fresh =
     fresh\<lparr>sv_Status := (sv_Status fresh)
       \<lparr>st_LastUpdate := st_LastUpdate desired, st_Conditions := st_Conditions desired,
        st_Plugins := map (merge_plugin (st_Plugins desired)) (st_Plugins (sv_Status fresh))\<rparr>\<rparr>"

fun retry_loop ::
  "nat \<Rightarrow> ('w, 'sched) ext \<Rightarrow> PaperMCServerStatus \<Rightarrow> PaperMCServer \<Rightarrow> ('w, unit result) op" where
  "retry_loop 0 x desired server = State_Monad.return (Inl (New ''status update failed after max retries''))"
| "retry_loop (Suc k) x desired server = do {
     u \<leftarrow> status_update x server;
     case u of
       Inr _ \<Rightarrow> State_Monad.return (Inr ())
     | Inl err \<Rightarrow>
         if \<not> IsConflict err then State_Monad.return (Inl err)
         else do {
           g \<leftarrow> get_server x (sv_Namespace server) (sv_Name server);
           case g of
             Inl readErr \<Rightarrow> State_Monad.return (Inl (Wrap readErr ''failed to re-read server for retry''))
           | Inr fresh \<Rightarrow> retry_loop k x desired (reapply_status desired fresh)
         }
   }"

definition updateStatusWithRetry :: "('w, 'sched) ext \<Rightarrow> PaperMCServer \<Rightarrow> ('w, unit result) op" where
  "updateStatusWithRetry x server = retry_loop 3 x (sv_Status server) server"

subsection \<open>Reconcile\<close>

datatype gate = Proceed | Stop reconcile_result | Hang

text \<open>The decision to update now: the apply-now annotation, or the delay and the window.\<close>

definition update_gate :: "('w, 'sched) ext \<Rightarrow> PaperMCServer \<Rightarrow> ('w, gate) op" where
  "update_gate x server = do {
     applyNow \<leftarrow> shouldApplyNow x server;
     if applyNow then do {
       r \<leftarrow> removeApplyNowAnnotation x server;
       State_Monad.return
         (case r of
            Inl err \<Rightarrow> Stop (0, Some (Wrap err ''failed to remove apply-now annotation''))
          | Inr _ \<Rightarrow> Proceed)
     }
     else do {
       (shouldApply, remainingDelay) \<leftarrow> shouldApplyUpdate x server;
       if \<not> shouldApply
       then State_Monad.return (Stop (if remainingDelay > 0 then remainingDelay else 0, None))
       else do {
         inWindow \<leftarrow> isInMaintenanceWindow x server;
         State_Monad.return
           (case inWindow of
              None \<Rightarrow> Hang
            | Some b \<Rightarrow> if b then Proceed else Stop (5 * Minute, None))
       }
     }
   }"

definition paper_changed :: "PaperMCServer \<Rightarrow> bool" where
  "paper_changed server =
     (st_DesiredVersion (sv_Status server) \<noteq> st_CurrentVersion (sv_Status server) \<or>
      st_DesiredBuild (sv_Status server) \<noteq> st_CurrentBuild (sv_Status server))"

text \<open>The update itself and the status it leaves.\<close>

definition run_update :: "('w, 'sched) ext \<Rightarrow> PaperMCServer \<Rightarrow> ('w, reconcile_result) op" where
  "run_update x server = do {
     server1 \<leftarrow> setUpdatingCondition x server True ''Update in progress'';
     (updateErr, server2) \<leftarrow>
       (if paper_changed server1 then performCombinedUpdate x server1
        else performPluginOnlyUpdate x server1);
     (if k_hasMetrics x then emit (E_RecordUpdate (is_ok updateErr)) else pass);
     server3 \<leftarrow> updateServerStatus x server2 (is_ok updateErr);
     server4 \<leftarrow> setUpdatingCondition x server3 False ''Update completed'';
     u \<leftarrow> updateStatusWithRetry x server4;
     State_Monad.return
       (case u of
          Inl err \<Rightarrow> (0, Some (Wrap err ''failed to update status''))
        | Inr _ \<Rightarrow> (case updateErr of Inl err \<Rightarrow> (0, Some err) | Inr _ \<Rightarrow> (0, None)))
   }"

definition cron_condition_false :: "('w, 'sched) ext \<Rightarrow> PaperMCServer \<Rightarrow> bool" where
  "cron_condition_false x server =
     (case k_FindStatusCondition x (st_Conditions (sv_Status server)) conditionTypeCronScheduleValid of
        Some cond \<Rightarrow> c_Status cond = ConditionFalse
      | None \<Rightarrow> False)"

definition reconcile_fetched :: "('w, 'sched) ext \<Rightarrow> PaperMCServer \<Rightarrow> ('w, reconcile_result option) op" where
  "reconcile_fetched x server0 = do {
     server \<leftarrow> manageCronSchedule x server0;
     if cron_condition_false x server then do {
       u \<leftarrow> status_update x server;
       State_Monad.return
         (Some (case u of Inl err \<Rightarrow> (0, Some (Wrap err ''failed to update status'')) | Inr _ \<Rightarrow> (0, None)))
     }
     else if st_AvailableUpdate (sv_Status server) = None \<and> \<not> hasPendingPluginUpdates server
     then State_Monad.return (Some (0, None))
     else do {
       g \<leftarrow> update_gate x server;
       case g of
         Hang \<Rightarrow> State_Monad.return None
       | Stop res \<Rightarrow> State_Monad.return (Some res)
       | Proceed \<Rightarrow> do { res \<leftarrow> run_update x server; State_Monad.return (Some res) }
     }
   }"

definition UpdateReconciler_Reconcile ::
  "('w, 'sched) ext \<Rightarrow> string \<Rightarrow> string \<Rightarrow> ('w, reconcile_result option) op" where
  "UpdateReconciler_Reconcile x ns n = do {
     g \<leftarrow> get_server x ns n;
     case g of
       Inl err \<Rightarrow>
         if IsNotFound err then do {
           removeCronJob x (nn_key ns n);
           State_Monad.return (Some (0, None))
         }
         else do {
           res \<leftarrow> record_reconcile x ''update'' (0, Some (Wrap err ''failed to get server''));
           State_Monad.return (Some res)
         }
     | Inr server \<Rightarrow> do {
         r \<leftarrow> reconcile_fetched x server;
         case r of
           None \<Rightarrow> State_Monad.return None
         | Some res \<Rightarrow> do { res' \<leftarrow> record_reconcile x ''update'' res; State_Monad.return (Some res') }
       }
   }"


subsection \<open>Destructive calls\<close>

text \<open>The calls that change the running server: commands in its pod, its deletion, its image.\<close>

fun destructive :: "event \<Rightarrow> bool" where
  "destructive (E_Exec _ _ _ _ _) = True"
| "destructive (E_DeletePod _ _ _) = True"
| "destructive (E_UpdateSts _ _) = True"
| "destructive _ = False"

definition harmless :: "event \<Rightarrow> bool" where "harmless e = (\<not> destructive e)"

lemma only_delete_loop: "(\<And>v b. P (E_DeleteSnapshot v b)) \<Longrightarrow> only P (delete_loop x d vs)"
  by (induction vs arbitrary: d) (auto intro!: only_rules simp: delete_snapshot_def)

lemma performBackup_harmless: "only harmless (performBackup x server trigger)"
  unfolding backup_op_defs call_ops silent_ops
  by (intro only_rules only_delete_loop; simp add: harmless_def)

fun snapshot_taken :: "event \<Rightarrow> bool" where
  "snapshot_taken (E_CreateSnapshot _ ok) = ok"
| "snapshot_taken _ = False"

lemma backup_success_snapshot: "backup_run rcon trigger True u \<Longrightarrow> list_ex snapshot_taken u"
proof -
  have "Snap True \<in> set (backup_steps t) \<Longrightarrow> list_ex snapshot_taken t" for t
    by (induction t rule: backup_steps.induct) auto
  moreover assume "backup_run rcon trigger True u"
  then have "Snap True \<in> set (backup_steps u)"
    by (auto simp: backup_run_def backup_shape_def split: if_splits)
  ultimately show ?thesis by blast
qed

text \<open>Every destructive call of a trace comes after a call that satisfies \<open>P\<close>.\<close>

definition guarded_by :: "(event \<Rightarrow> bool) \<Rightarrow> event list \<Rightarrow> bool" where
  "guarded_by P u \<longleftrightarrow> (\<forall>a e b. u = a @ e # b \<longrightarrow> destructive e \<longrightarrow> list_ex P a)"

lemma guarded_harmless: "list_all harmless u \<Longrightarrow> guarded_by P u"
  by (auto simp: guarded_by_def harmless_def)

lemma guarded_append: "list_all harmless u \<Longrightarrow> list_ex P u \<Longrightarrow> guarded_by P (u @ v)"
proof -
  assume u: "list_all harmless u" "list_ex P u"
  show ?thesis unfolding guarded_by_def
  proof (intro allI impI)
    fix a e b assume eq: "u @ v = a @ e # b" and "destructive e"
    with u(1) have "e \<notin> set u" by (auto simp: list_all_iff harmless_def)
    with eq obtain a' where "a = u @ a'" by (auto simp: append_eq_append_conv2 append_eq_Cons_conv)
    with u(2) show "list_ex P a" by simp
  qed
qed

lemma backupBeforeUpdate_emits:
  assumes "fresh_alive x"
  shows "emits (backupBeforeUpdate x server)
    (\<lambda>(r, _) u. list_all harmless u \<and> (backup_wanted x server \<longrightarrow> is_ok r \<longrightarrow> list_ex snapshot_taken u))"
proof -
  have perform: "emits (performBackup x server ''before-update'')
      (\<lambda>(r, _) u. list_all harmless u \<and> (is_ok r \<longrightarrow> list_ex snapshot_taken u))"
    by (rule tr_weaken [OF tr_conj [OF onlyD [OF performBackup_harmless] performBackup_emits [OF assms]]])
      (auto dest: backup_success_snapshot)
  show ?thesis
    unfolding backupBeforeUpdate_def isSnapshotCRDMissing_def ListSnapshots_def call_ops PerformBackup_def
    by (intro tr_rules tr_emits [OF perform]; auto simp: harmless_def)
qed

lemma set_conditions_simps [simp]:
  "sv_Spec (set_conditions s cs) = sv_Spec s" "sv_Meta (set_conditions s cs) = sv_Meta s"
  "st_AvailableUpdate (sv_Status (set_conditions s cs)) = st_AvailableUpdate (sv_Status s)"
  "st_Plugins (sv_Status (set_conditions s cs)) = st_Plugins (sv_Status s)"
  "st_Conditions (sv_Status (set_conditions s cs)) = cs"
  by (simp_all add: set_conditions_def)

lemma set_plugins_simps [simp]:
  "sv_Spec (set_plugins s ps) = sv_Spec s" "sv_Meta (set_plugins s ps) = sv_Meta s"
  by (simp_all add: set_plugins_def)

lemma set_status_simps [simp]:
  "sv_Spec (set_status s t) = sv_Spec s" "sv_Name (set_status s t) = sv_Name s"
  "sv_Namespace (set_status s t) = sv_Namespace s"
  by (simp_all add: set_status_def)

lemma guarded_extend: "guarded_by P u \<Longrightarrow> list_ex P u \<Longrightarrow> guarded_by P (u @ v)"
  unfolding guarded_by_def
proof (intro allI impI)
  fix a e b assume g: "\<forall>a e b. u = a @ e # b \<longrightarrow> destructive e \<longrightarrow> list_ex P a" "list_ex P u"
    and eq: "u @ v = a @ e # b" and "destructive e"
  from eq consider us where "u = a @ e # us" | us where "a = u @ us"
    by (auto simp: append_eq_append_conv2 append_eq_Cons_conv)
  then show "list_ex P a"
    using g \<open>destructive e\<close> by cases auto
qed

subsection \<open>The calls of each step\<close>

text \<open>The calls before the restart: everything but the pod, its readiness and the image.\<close>

fun prepare_ev :: "event \<Rightarrow> bool" where
  "prepare_ev (E_DeletePod _ _ _) = False"
| "prepare_ev (E_UpdateSts _ _) = False"
| "prepare_ev (E_Tick _) = False"
| "prepare_ev _ = True"

fun shutdown_ev :: "event \<Rightarrow> bool" where
  "shutdown_ev (E_GetPod _ _) = True"
| "shutdown_ev (E_GetSecret _ _) = True"
| "shutdown_ev (E_Dial _ _) = True"
| "shutdown_ev (E_Rcon _ _ _) = True"
| "shutdown_ev (E_Sleep _ _) = True"
| "shutdown_ev (E_RconClose _) = True"
| "shutdown_ev _ = False"

fun restart_ev :: "event \<Rightarrow> bool" where
  "restart_ev (E_GetPod _ _) = True"
| "restart_ev (E_DeletePod _ _ _) = True"
| "restart_ev (E_Tick _) = True"
| "restart_ev _ = False"

lemma only_deletion_loop:
  "(\<And>p. only P (deletePluginJAR x server p)) \<Longrightarrow> only P (deletion_loop x server ps)"
  by (induction ps) (auto intro!: only_rules)

lemma only_apply_loop:
  "(\<And>p. only P (apply_plugin x server m p)) \<Longrightarrow> only P (apply_loop x server m ps)"
  by (induction ps) (auto intro!: only_rules)

lemma only_wait_loop:
  "(\<And>b. P (E_Tick b)) \<Longrightarrow> P (E_GetPod (sv_Namespace server) (pod_name server)) \<Longrightarrow> only P (wait_loop k x server)"
  by (induction k) (auto intro!: only_rules simp: tick_def get_pod_def)

lemma only_warn_loop:
  "(\<And>h c b. P (E_Rcon h c b)) \<Longrightarrow> (\<And>d b. P (E_Sleep d b)) \<Longrightarrow> only P (warn_loop x c d ws)"
  by (induction ws) (auto intro!: only_rules simp: SendCommand_def ctx_err_def sleep_def rcon_execute_def)

lemmas download_defs = applyPluginUpdates_def apply_plugin_def downloadPluginToServer_def
  verifyPluginChecksum_def
lemmas shutdown_defs = executeGracefulShutdownWithClient_def createRCONClient_def Connect_def
  GracefulShutdown_def SendCommand_def Close_def
lemmas restart_defs = restart_pod_def deletePod_def waitForPodReady_def

lemma deletePluginJAR_prepare: "only prepare_ev (deletePluginJAR x server p)"
  unfolding deletePluginJAR_def markJARAsDeleted_def call_ops Let_def by (intro only_rules; simp)

lemma deletions_prepare: "only prepare_ev (deleteMarkedPlugins x server)"
  unfolding deleteMarkedPlugins_def by (intro only_rules only_deletion_loop deletePluginJAR_prepare)

lemma apply_plugin_prepare: "only prepare_ev (apply_plugin x server m p)"
  unfolding download_defs call_ops by (intro only_rules; simp)

lemma downloads_prepare: "only prepare_ev (applyPluginUpdates x server)"
  unfolding applyPluginUpdates_def call_ops
  by (intro only_rules only_apply_loop apply_plugin_prepare; simp)

lemma backup_prepare: "only prepare_ev (backupBeforeUpdate x server)"
  unfolding backupBeforeUpdate_def PerformBackup_def isSnapshotCRDMissing_def backup_op_defs call_ops silent_ops
  by (intro only_rules only_delete_loop; simp)

lemma restart_only: "only restart_ev (restart_pod x server)"
  unfolding restart_defs call_ops by (intro only_rules only_wait_loop; simp)

lemma shutdown_only:
  "only shutdown_ev (createRCONClient x server)"
  "only shutdown_ev (executeGracefulShutdownWithClient x server c)"
  unfolding shutdown_defs call_ops silent_ops by (intro only_rules only_warn_loop; simp)+

lemma persistBackupStatus_spec:
  "emits (persistBackupStatus x server rec n) (\<lambda>s u. sv_Spec s = sv_Spec server \<and> server_key s = server_key server)"
  unfolding persistBackupStatus_def call_ops
  by (intro tr_rules; auto simp: server_key_def split: sum.split)

lemma take_snapshot_spec:
  "emits (take_snapshot x server trigger t) (\<lambda>(_, s) u. sv_Spec s = sv_Spec server \<and> server_key s = server_key server)"
  unfolding take_snapshot_def call_ops
  by (intro tr_rules tr_bind_emits [OF CreateSnapshot_emits] tr_bind_emits [OF DeleteOldSnapshots_emits]
      tr_bind_emits [OF ListSnapshots_emits] tr_bind_emits [OF persistBackupStatus_spec]) simp_all

lemma backup_with_rcon_spec:
  "emits (backup_with_rcon x server trigger t c)
     (\<lambda>(_, s) u. sv_Spec s = sv_Spec server \<and> server_key s = server_key server)"
  unfolding backup_with_rcon_def
  by (intro tr_rules tr_bind_emits [OF Connect_emits] tr_bind_emits [OF pre_hook_part]
      tr_bind_emits [OF rcon_client.post_hook_emits] tr_bind_emits [OF take_snapshot_spec]
      tr_bind_emits [OF persistBackupStatus_spec] tr_bind_emits [OF Close_emits]) auto

lemma performBackup_spec:
  "emits (performBackup x server trigger)
     (\<lambda>(_, s) u. sv_Spec s = sv_Spec server \<and> server_key s = server_key server)"
  unfolding performBackup_def call_ops
  by (intro tr_rules tr_bind_emits [OF getServerBackupMu_emits] tr_bind_emits [OF persistBackupStatus_spec]
      tr_bind_emits [OF createBackupRCONClient_emits] tr_bind_emits [OF backup_with_rcon_spec]
      tr_bind_emits [OF take_snapshot_spec]) auto

lemma backupBeforeUpdate_spec:
  "emits (backupBeforeUpdate x server)
     (\<lambda>(_, s) u. sv_Spec s = sv_Spec server \<and> server_key s = server_key server)"
  unfolding backupBeforeUpdate_def isSnapshotCRDMissing_def ListSnapshots_def call_ops PerformBackup_def
  by (intro tr_rules tr_emits [OF performBackup_spec]) auto

lemma applyPluginUpdates_spec:
  "emits (applyPluginUpdates x server)
     (\<lambda>(_, s) u. list_all prepare_ev u \<and> sv_Spec s = sv_Spec server \<and> server_key s = server_key server)"
  unfolding applyPluginUpdates_def call_ops
  by (intro tr_rules tr_bind_emits [OF onlyD [OF only_apply_loop [OF apply_plugin_prepare]]])
    (auto simp: server_key_def)

definition prepared :: "('w, 'sched) ext \<Rightarrow> PaperMCServer \<Rightarrow> bool \<Rightarrow> event list \<Rightarrow> bool" where
  "prepared x server ok u \<longleftrightarrow> list_all prepare_ev u \<and>
     (backup_wanted x server \<longrightarrow> guarded_by snapshot_taken u \<and> (ok \<longrightarrow> list_ex snapshot_taken u))"

lemma prepare_emits:
  assumes "fresh_alive x"
  shows "emits (prepare_update x server) (\<lambda>(r, s) u. prepared x server (is_ok r) u
    \<and> sv_Spec s = sv_Spec server \<and> server_key s = server_key server)"
  unfolding prepare_update_def
  by (intro tr_rules tr_bind_emits [OF tr_conj [OF tr_conj [OF backupBeforeUpdate_emits [OF assms]
          onlyD [OF backup_prepare]] backupBeforeUpdate_spec]]
        tr_bind_emits [OF onlyD [OF deletions_prepare]] tr_bind_emits [OF applyPluginUpdates_spec])
    (auto simp: prepared_def intro: guarded_harmless guarded_append guarded_extend split: sum.splits)

definition papermc_image :: "StatefulSet \<Rightarrow> string option" where
  "papermc_image sts =
     map_option ct_Image (find (\<lambda>c. ct_Name c = containerNamePaperMC) (sts_Containers sts))"

fun image_ev :: "string \<Rightarrow> event \<Rightarrow> bool" where
  "image_ev img (E_GetSts _ _) = True"
| "image_ev img (E_UpdateSts sts _) = (papermc_image sts = Some img)"
| "image_ev img _ = False"

fun image_set :: "event \<Rightarrow> bool" where
  "image_set (E_UpdateSts _ ok) = ok"
| "image_set _ = False"

fun pod_deleted :: "event \<Rightarrow> bool" where
  "pod_deleted (E_DeletePod _ _ ok) = ok"
| "pod_deleted _ = False"

text \<open>
  The phases of a combined update. A phase that is not reached makes no call; \<open>ok\<close> says whether the
  phase succeeded.
\<close>

definition shutdown_phase :: "bool \<Rightarrow> bool \<Rightarrow> bool \<Rightarrow> event list \<Rightarrow> bool" where
  "shutdown_phase rcon reached ok u \<longleftrightarrow>
     (if \<not> reached then u = [] \<and> \<not> ok
      else if rcon then list_all shutdown_ev u \<and> follows (shutdown_script shutdown_warnings) ok (rcon_cmds u)
      else u = [] \<and> ok)"

definition image_phase :: "string \<Rightarrow> bool \<Rightarrow> bool \<Rightarrow> event list \<Rightarrow> bool" where
  "image_phase img reached ok u \<longleftrightarrow>
     (if \<not> reached then u = [] \<and> \<not> ok else list_all (image_ev img) u \<and> (ok \<longleftrightarrow> list_ex image_set u))"

definition restart_phase :: "bool \<Rightarrow> bool \<Rightarrow> event list \<Rightarrow> bool" where
  "restart_phase reached ok u \<longleftrightarrow>
     (if \<not> reached then u = [] \<and> \<not> ok else list_all restart_ev u \<and> (ok \<longrightarrow> list_ex pod_deleted u))"

lemma set_image_papermc:
  "set_image img cs = Some cs' \<Longrightarrow> papermc_image (set_containers cs' sts) = Some img"
  by (induction cs arbitrary: cs') (auto simp: papermc_image_def split: if_splits)

lemma image_emits:
  "emits (updateStatefulSetImage x server img) (\<lambda>r u. image_phase img True (is_ok r) u)"
  unfolding updateStatefulSetImage_def call_ops
  by (intro tr_rules; auto simp: image_phase_def set_image_papermc split: sum.split)

lemma deletePod_emits:
  "emits (deletePod x n ns) (\<lambda>r u. list_all restart_ev u \<and> (is_ok r \<longrightarrow> list_ex pod_deleted u))"
  unfolding deletePod_def call_ops by (intro tr_rules; auto split: sum.split)

lemma restart_emits: "emits (restart_pod x server) (\<lambda>r u. restart_phase True (is_ok r) u)"
proof -
  have "only restart_ev (waitForPodReady x server)"
    unfolding waitForPodReady_def by (rule only_wait_loop) simp_all
  from onlyD [OF this] show ?thesis
    unfolding restart_pod_def
    by (intro tr_rules tr_bind_emits [OF deletePod_emits] tr_bind_emits [where m = "waitForPodReady x server"])
      (auto simp: restart_phase_def split: sum.split)
qed

lemma rcon_session_cmds:
  "emits (Connect x c) (\<lambda>_ u. rcon_cmds u = [])" "emits (Close x c) (\<lambda>_ u. rcon_cmds u = [])"
  "emits (createRCONClient x server) (\<lambda>_ u. rcon_cmds u = [])"
  unfolding Connect_def Close_def createRCONClient_def call_ops silent_ops by (intro tr_rules; simp)+

lemma graceful_shutdown_emits:
  "emits (executeGracefulShutdownWithClient x server c)
     (\<lambda>r u. follows (shutdown_script shutdown_warnings) (is_ok r) (rcon_cmds u))"
  unfolding executeGracefulShutdownWithClient_def
  by (intro tr_rules tr_bind_emits [OF rcon_session_cmds(1)] tr_bind_emits [OF GracefulShutdown_emits]
      tr_bind_emits [OF rcon_session_cmds(2)]) (auto split: sum.split)

lemma required_shutdown_emits:
  "emits (required_shutdown x server)
     (\<lambda>r u. shutdown_phase (rc_Enabled (ss_RCON (sv_Spec server))) True (is_ok r) u)"
  unfolding required_shutdown_def
  by (intro tr_rules
        tr_bind_emits [OF tr_conj [OF rcon_session_cmds(3) onlyD [OF shutdown_only(1)]]]
        tr_bind_emits [OF tr_conj [OF graceful_shutdown_emits onlyD [OF shutdown_only(2)]]])
    (auto simp: shutdown_phase_def split: sum.split)

definition combined_phases ::
  "('w, 'sched) ext \<Rightarrow> PaperMCServer \<Rightarrow> string \<Rightarrow> bool \<Rightarrow> event list \<Rightarrow> bool" where
  "combined_phases x server img ok u \<longleftrightarrow>
     (\<exists>p sh im rs o1 o2 o3. u = p @ sh @ im @ rs
        \<and> prepared x server o1 p
        \<and> shutdown_phase (rc_Enabled (ss_RCON (sv_Spec server))) o1 o2 sh
        \<and> image_phase img o2 o3 im
        \<and> restart_phase o3 ok rs)"

lemma not_reached [simp]:
  "shutdown_phase rcon False ok u \<longleftrightarrow> u = [] \<and> \<not> ok"
  "image_phase img False ok u \<longleftrightarrow> u = [] \<and> \<not> ok"
  "restart_phase False ok u \<longleftrightarrow> u = [] \<and> \<not> ok"
  by (simp_all add: shutdown_phase_def image_phase_def restart_phase_def)

lemma combined_phasesI:
  "prepared x server o1 p \<Longrightarrow> shutdown_phase (rc_Enabled (ss_RCON (sv_Spec server))) o1 o2 sh
   \<Longrightarrow> image_phase img o2 o3 im \<Longrightarrow> restart_phase o3 ok rs \<Longrightarrow> combined_phases x server img ok (p @ sh @ im @ rs)"
  unfolding combined_phases_def by blast

lemma combined_phase_ends:
  "prepared x server False p \<Longrightarrow> combined_phases x server img False p"
  "prepared x server True p \<Longrightarrow> shutdown_phase (rc_Enabled (ss_RCON (sv_Spec server))) True False sh
   \<Longrightarrow> combined_phases x server img False (p @ sh)"
  "prepared x server True p \<Longrightarrow> shutdown_phase (rc_Enabled (ss_RCON (sv_Spec server))) True True sh
   \<Longrightarrow> image_phase img True False im \<Longrightarrow> combined_phases x server img False (p @ sh @ im)"
  "prepared x server True p \<Longrightarrow> shutdown_phase (rc_Enabled (ss_RCON (sv_Spec server))) True True sh
   \<Longrightarrow> image_phase img True True im \<Longrightarrow> restart_phase True ok rs
   \<Longrightarrow> combined_phases x server img ok (p @ sh @ im @ rs)"
  using combined_phasesI [of x server False p False "[]" img False "[]" False "[]"]
    combined_phasesI [of x server True p False sh img False "[]" False "[]"]
    combined_phasesI [of x server True p True sh img False im False "[]"]
    combined_phasesI [of x server True p True sh img True im ok rs]
  by auto

lemma combined_emits:
  assumes "fresh_alive x"
  shows "emits (performCombinedUpdate x server) (\<lambda>(r, s) u. combined_phases x server (new_image s) (is_ok r) u)"
  unfolding performCombinedUpdate_def
  by (intro tr_rules tr_bind_emits [OF prepare_emits [OF assms]] tr_bind_emits [OF required_shutdown_emits]
      tr_bind_emits [OF image_emits] tr_bind_emits [OF restart_emits])
    (auto intro: combined_phase_ends)

text \<open>The phases of a plugin-only update: the shutdown is best effort.\<close>

definition plugin_only_phases ::
  "('w, 'sched) ext \<Rightarrow> PaperMCServer \<Rightarrow> bool \<Rightarrow> event list \<Rightarrow> bool" where
  "plugin_only_phases x server ok u \<longleftrightarrow>
     (\<exists>p sh rs o1. u = p @ sh @ rs \<and> prepared x server o1 p
        \<and> (if o1 \<and> rc_Enabled (ss_RCON (sv_Spec server)) then list_all shutdown_ev sh else sh = [])
        \<and> restart_phase o1 ok rs)"

lemma plugin_only_ends:
  "prepared x server False p \<Longrightarrow> plugin_only_phases x server False p"
  "prepared x server True p \<Longrightarrow> list_all shutdown_ev sh \<Longrightarrow> rc_Enabled (ss_RCON (sv_Spec server))
   \<Longrightarrow> restart_phase True ok rs \<Longrightarrow> plugin_only_phases x server ok (p @ sh @ rs)"
  "prepared x server True p \<Longrightarrow> \<not> rc_Enabled (ss_RCON (sv_Spec server))
   \<Longrightarrow> restart_phase True ok rs \<Longrightarrow> plugin_only_phases x server ok (p @ rs)"
proof -
  show "prepared x server False p \<Longrightarrow> plugin_only_phases x server False p"
    unfolding plugin_only_phases_def
    by (intro exI [of _ p] exI [of _ "[]"] exI [of _ False]) simp
  show "prepared x server True p \<Longrightarrow> \<not> rc_Enabled (ss_RCON (sv_Spec server))
      \<Longrightarrow> restart_phase True ok rs \<Longrightarrow> plugin_only_phases x server ok (p @ rs)"
    unfolding plugin_only_phases_def
    by (intro exI [of _ p] exI [of _ "[]"] exI [of _ rs] exI [of _ True]) simp
qed (auto simp: plugin_only_phases_def)

lemma plugin_only_emits:
  assumes "fresh_alive x"
  shows "emits (performPluginOnlyUpdate x server) (\<lambda>(r, s) u. plugin_only_phases x server (is_ok r) u)"
  unfolding performPluginOnlyUpdate_def
  by (intro tr_rules tr_bind_emits [OF prepare_emits [OF assms]]
      tr_bind_emits [OF onlyD [OF shutdown_only(1)]] tr_bind_emits [OF onlyD [OF shutdown_only(2)]]
      tr_bind_emits [OF restart_emits])
    (auto intro: plugin_only_ends plugin_only_ends(2) [where sh = "_ @ _", simplified])

lemma guarded_prepend: "list_all harmless h \<Longrightarrow> guarded_by P u \<Longrightarrow> guarded_by P (h @ u)"
  unfolding guarded_by_def
proof (intro allI impI)
  fix a e b assume h: "list_all harmless h" and g: "\<forall>a e b. u = a @ e # b \<longrightarrow> destructive e \<longrightarrow> list_ex P a"
    and eq: "h @ u = a @ e # b" and d: "destructive e"
  from h d have "e \<notin> set h" by (auto simp: list_all_iff harmless_def)
  with eq obtain us where "a = h @ us" "u = us @ e # b"
    by (auto simp: append_eq_append_conv2 append_eq_Cons_conv)
  with g d show "list_ex P a" by auto
qed

lemma guarded_harmless_suffix: "guarded_by P u \<Longrightarrow> list_all harmless v \<Longrightarrow> guarded_by P (u @ v)"
  unfolding guarded_by_def
proof (intro allI impI)
  fix a e b assume g: "\<forall>a e b. u = a @ e # b \<longrightarrow> destructive e \<longrightarrow> list_ex P a" and v: "list_all harmless v"
    and eq: "u @ v = a @ e # b" and d: "destructive e"
  from v d have "e \<notin> set v" by (auto simp: list_all_iff harmless_def)
  with eq obtain us where "u = a @ e # us"
    by (auto simp: append_eq_append_conv2 append_eq_Cons_conv)
  with g d show "list_ex P a" by auto
qed

lemma guarded_around: "guarded_by P u \<Longrightarrow> harmless e \<Longrightarrow> harmless e' \<Longrightarrow> guarded_by P (e # u @ [e'])"
  using guarded_prepend [of "[e]" P "u @ [e']"] guarded_harmless_suffix [of P u "[e']"] by simp

lemma prepared_guarded:
  "prepared x server o1 p \<Longrightarrow> backup_wanted x server \<Longrightarrow> (\<not> o1 \<Longrightarrow> v = []) \<Longrightarrow> guarded_by snapshot_taken (p @ v)"
  by (cases o1) (auto simp: prepared_def intro: guarded_extend)

lemma phases_guarded:
  "combined_phases x server img ok u \<Longrightarrow> backup_wanted x server \<Longrightarrow> guarded_by snapshot_taken u"
  "plugin_only_phases x server ok u \<Longrightarrow> backup_wanted x server \<Longrightarrow> guarded_by snapshot_taken u"
  by (auto simp: combined_phases_def plugin_only_phases_def intro!: prepared_guarded split: if_splits)

lemma retry_harmless: "only harmless (retry_loop k x d server)"
  by (induction k arbitrary: server) (auto intro!: only_rules simp: status_update_def get_server_def harmless_def)

lemma run_update_guarded:
  assumes "fresh_alive x" "backup_wanted x server"
  shows "emits (run_update x server) (\<lambda>_ u. guarded_by snapshot_taken u)"
proof -
  have wanted: "backup_wanted x (set_conditions server cs)" for cs
    using assms(2) by (simp add: backup_wanted_def)
  show ?thesis
    unfolding run_update_def setUpdatingCondition_def updateServerStatus_def updateStatusWithRetry_def call_ops
    by (intro tr_rules tr_bind_emits [OF combined_emits [OF assms(1)]] tr_bind_emits [OF plugin_only_emits [OF assms(1)]]
        tr_bind_emits [OF onlyD [OF retry_harmless]])
      (auto simp: harmless_def wanted intro!: guarded_harmless_suffix
         guarded_prepend [where h = "[_]", simplified] dest!: phases_guarded)
qed

subsection \<open>The decision to update\<close>

definition apply_now_seen :: "PaperMCServer \<Rightarrow> event list \<Rightarrow> bool" where
  "apply_now_seen server u \<longleftrightarrow>
     (\<exists>ts now. sv_Annotations server AnnotationApplyNow = Some ts \<and> E_Now now \<in> set u \<and> apply_now_valid now ts)"

definition delay_passed :: "PaperMCServer \<Rightarrow> event list \<Rightarrow> bool" where
  "delay_passed server u \<longleftrightarrow>
     (\<forall>au d. st_AvailableUpdate (sv_Status server) = Some au \<longrightarrow> ss_UpdateDelay (sv_Spec server) = Some d
        \<longrightarrow> (\<exists>now. E_Now now \<in> set u \<and> d \<le> time_Sub now (au_ReleasedAt au)))"

definition window_open :: "('w, 'sched) ext \<Rightarrow> PaperMCServer \<Rightarrow> event list \<Rightarrow> bool" where
  "window_open x server u \<longleftrightarrow>
     (let mw = us_MaintenanceWindow (ss_UpdateSchedule (sv_Spec server))
      in \<not> mw_Enabled mw \<or> mw_Cron mw = [] \<or>
         (\<exists>sched now. k_cronParse x (mw_Cron mw) = Inr sched \<and> E_Now now \<in> set u
            \<and> in_window (k_cronNext x sched) now = Some True))"

definition update_pending :: "PaperMCServer \<Rightarrow> bool" where
  "update_pending server \<longleftrightarrow> st_AvailableUpdate (sv_Status server) \<noteq> None \<or>
     (\<exists>p\<in>set (st_Plugins (sv_Status server)). sp_DesiredVersion p \<noteq> [] \<and> sp_DesiredVersion p \<noteq> sp_CurrentVersion p)"

definition update_permitted :: "('w, 'sched) ext \<Rightarrow> PaperMCServer \<Rightarrow> event list \<Rightarrow> bool" where
  "update_permitted x server u \<longleftrightarrow>
     update_pending server \<and> (apply_now_seen server u \<or> (delay_passed server u \<and> window_open x server u))"

lemma hasPendingPluginUpdates_iff:
  "hasPendingPluginUpdates server \<longleftrightarrow>
     (\<exists>p\<in>set (st_Plugins (sv_Status server)). sp_DesiredVersion p \<noteq> [] \<and> sp_DesiredVersion p \<noteq> sp_CurrentVersion p)"
proof -
  have "hasPendingPluginUpdates_loop ps \<longleftrightarrow>
      (\<exists>p\<in>set ps. sp_DesiredVersion p \<noteq> [] \<and> sp_DesiredVersion p \<noteq> sp_CurrentVersion p)" for ps
    by (induction ps) auto
  then show ?thesis by (simp add: hasPendingPluginUpdates_def)
qed

lemma permitted_mono:
  "set u \<subseteq> set v \<Longrightarrow> apply_now_seen server u \<Longrightarrow> apply_now_seen server v"
  "set u \<subseteq> set v \<Longrightarrow> delay_passed server u \<Longrightarrow> delay_passed server v"
  "set u \<subseteq> set v \<Longrightarrow> window_open x server u \<Longrightarrow> window_open x server v"
  unfolding apply_now_seen_def delay_passed_def window_open_def Let_def by blast+

lemma shouldApplyNow_emits:
  "emits (shouldApplyNow x server) (\<lambda>b u. list_all harmless u \<and> (b \<longrightarrow> apply_now_seen server u))"
  unfolding shouldApplyNow_def call_ops by (intro tr_rules; auto simp: harmless_def apply_now_seen_def)

lemma removeApplyNow_harmless: "only harmless (removeApplyNowAnnotation x server)"
  unfolding removeApplyNowAnnotation_def call_ops by (intro only_rules; simp add: harmless_def)

lemma shouldApplyUpdate_emits:
  "emits (shouldApplyUpdate x server) (\<lambda>(b, _) u. list_all harmless u \<and> (b \<longrightarrow> delay_passed server u))"
  unfolding shouldApplyUpdate_def call_ops
  by (intro tr_rules; auto simp: harmless_def delay_passed_def delay_check_def Let_def split: if_splits)

lemma isInMaintenanceWindow_emits:
  "emits (isInMaintenanceWindow x server)
     (\<lambda>b u. list_all harmless u \<and> (b = Some True \<longrightarrow> window_open x server u))"
  unfolding isInMaintenanceWindow_def call_ops
  by (intro tr_rules; auto simp: harmless_def window_open_def Let_def)

lemma update_gate_emits:
  "emits (update_gate x server) (\<lambda>g u. list_all harmless u \<and>
     (g = Proceed \<longrightarrow> apply_now_seen server u \<or> (delay_passed server u \<and> window_open x server u)))"
  unfolding update_gate_def
  by (intro tr_rules tr_bind_emits [OF shouldApplyNow_emits] tr_bind_emits [OF onlyD [OF removeApplyNow_harmless]]
      tr_bind_emits [OF shouldApplyUpdate_emits] tr_bind_emits [OF isInMaintenanceWindow_emits])
    (auto split: sum.splits option.splits if_splits intro: permitted_mono [rotated])

lemma removeCronJob_harmless: "only harmless (removeCronJob x key)"
  unfolding removeCronJob_def call_ops by (intro only_rules; simp add: harmless_def)

lemma manageCron_emits:
  "emits (manageCronSchedule x server)
     (\<lambda>s u. list_all harmless u \<and> (\<exists>cs. s = set_conditions server cs))"
proof -
  have id: "server = set_conditions server (st_Conditions (sv_Status server))"
    by (simp add: set_conditions_def)
  show ?thesis
    unfolding manageCronSchedule_def setUpdatingConditionWithType_def call_ops
    by (intro tr_rules tr_bind_emits [OF onlyD [OF removeCronJob_harmless]])
      (use id in \<open>auto simp: harmless_def\<close>)
qed

lemma only_any: "only P m \<Longrightarrow> only (\<lambda>_. True) m"
  unfolding only_def by (erule tr_weaken) (simp add: list_all_iff)

lemmas any_rules = only_rules deletions_prepare [THEN only_any] downloads_prepare [THEN only_any]
  backup_prepare [THEN only_any] restart_only [THEN only_any] shutdown_only [THEN only_any]
  retry_harmless [THEN only_any]

lemma run_update_extends: "emits (run_update x server) (\<lambda>_ u. True)"
proof -
  have "only (\<lambda>_. True) (run_update x server)"
    unfolding run_update_def performCombinedUpdate_def performPluginOnlyUpdate_def prepare_update_def
      required_shutdown_def updateStatefulSetImage_def setUpdatingCondition_def updateServerStatus_def
      updateStatusWithRetry_def call_ops
    by (intro any_rules; simp)
  then show ?thesis by (rule tr_weaken [OF onlyD]) simp
qed

lemma permitted_conditions [simp]:
  "apply_now_seen (set_conditions server cs) u = apply_now_seen server u"
  "delay_passed (set_conditions server cs) u = delay_passed server u"
  "window_open x (set_conditions server cs) u = window_open x server u"
  "hasPendingPluginUpdates (set_conditions server cs) = hasPendingPluginUpdates server"
  "backup_wanted x (set_conditions server cs) = backup_wanted x server"
  by (simp_all add: apply_now_seen_def delay_passed_def window_open_def hasPendingPluginUpdates_def
      backup_wanted_def)

lemma harmless_list: "list_all harmless u \<Longrightarrow> \<not> list_ex destructive u"
  by (auto simp: list_all_iff list_ex_iff harmless_def)

lemma update_permittedI:
  "st_AvailableUpdate (sv_Status server) \<noteq> None \<or> hasPendingPluginUpdates server
   \<Longrightarrow> apply_now_seen server u \<or> (delay_passed server u \<and> window_open x server u)
   \<Longrightarrow> set u \<subseteq> set v \<Longrightarrow> update_permitted x server v"
  unfolding update_permitted_def update_pending_def hasPendingPluginUpdates_iff
  using permitted_mono(1,2) [of u v server] permitted_mono(3) [of u v x server] by blast

lemma reconcile_fetched_emits:
  "emits (reconcile_fetched x server)
     (\<lambda>_ u. list_ex destructive u \<longrightarrow> update_permitted x server u)"
  unfolding reconcile_fetched_def call_ops
proof (intro tr_rules tr_bind_emits [OF manageCron_emits], goal_cases)
  case (3 s u)
  from 3 obtain cs where s: "s = set_conditions server cs" and u: "list_all harmless u" by blast
  from 3 s have pend: "st_AvailableUpdate (sv_Status server) \<noteq> None \<or> hasPendingPluginUpdates server" by auto
  show ?case
    by (rule tr_bind_emits [OF update_gate_emits], split gate.split)
      (intro conjI impI allI tr_rules tr_bind_emits [OF run_update_extends];
       use s u pend in \<open>auto simp: harmless_list intro!: update_permittedI [OF pend]\<close>)
qed (auto simp: harmless_list harmless_def)

lemma reconcile_fetched_guarded:
  assumes "fresh_alive x" "backup_wanted x server"
  shows "emits (reconcile_fetched x server) (\<lambda>_ u. guarded_by snapshot_taken u)"
  unfolding reconcile_fetched_def call_ops
proof (intro tr_rules tr_bind_emits [OF manageCron_emits], goal_cases)
  case (3 s u)
  then obtain cs where s: "s = set_conditions server cs" and u: "list_all harmless u" by blast
  from assms(2) s have "backup_wanted x s" by simp
  note run = run_update_guarded [OF assms(1) this]
  show ?case
    by (intro tr_bind_emits [OF update_gate_emits], split gate.split)
      (intro conjI impI allI tr_rules tr_bind_emits [OF run];
       use u in \<open>auto intro: guarded_harmless guarded_prepend guarded_prepend [of "_ @ _", simplified]\<close>)
qed (auto simp: harmless_def intro!: guarded_harmless)

subsection \<open>Cron triggers\<close>

text \<open>What \<^verbatim>\<open>Schedule.Next\<close> promises for a schedule that fires at the times \<open>T\<close>: the first of them
  after the given time.\<close>

definition next_of :: "time set \<Rightarrow> (time \<Rightarrow> time) \<Rightarrow> bool" where
  "next_of T nxt \<longleftrightarrow> (\<forall>t. t < nxt t \<and> nxt t \<in> T \<and> (\<forall>t'\<in>T. t < t' \<longrightarrow> nxt t \<le> t'))"

lemma last_trigger_loop_correct:
  assumes "next_of T nxt" and "c \<le> now"
    and "l = zero_time \<and> c = now - lookback \<or> l = c \<and> c \<in> T"
  shows "\<exists>r. last_trigger_loop nxt now c l = Some r \<and>
    (if {t \<in> T. c < t \<and> t \<le> now} = {} then r = l else r \<in> T \<and> c < r \<and> r \<le> now \<and> (\<forall>t\<in>T. t \<le> now \<longrightarrow> t \<le> r))"
  using assms(2,3)
proof (induction "nat (now - c)" arbitrary: c l rule: less_induct)
  case less
  have nxt: "c < nxt c" "nxt c \<in> T" "\<And>t'. t' \<in> T \<Longrightarrow> c < t' \<Longrightarrow> nxt c \<le> t'"
    using assms(1) by (auto simp: next_of_def)
  show ?case
  proof (cases "now < nxt c")
    case True
    then have "{t \<in> T. c < t \<and> t \<le> now} = {}" using nxt(3) by force
    then show ?thesis using True by (subst last_trigger_loop.simps) simp
  next
    case False
    with less.hyps [of "nxt c" "nxt c"] nxt less.prems obtain r where
      r: "last_trigger_loop nxt now (nxt c) (nxt c) = Some r"
        "if {t \<in> T. nxt c < t \<and> t \<le> now} = {} then r = nxt c
         else r \<in> T \<and> nxt c < r \<and> r \<le> now \<and> (\<forall>t\<in>T. t \<le> now \<longrightarrow> t \<le> r)"
      by (auto simp: nat_less_eq_zless)
    have "last_trigger_loop nxt now c l = Some r" using False r(1) by (subst last_trigger_loop.simps) simp
    moreover have "nxt c \<in> {t \<in> T. c < t \<and> t \<le> now}" using nxt False by simp
    moreover have "r \<in> T \<and> c < r \<and> r \<le> now \<and> (\<forall>t\<in>T. t \<le> now \<longrightarrow> t \<le> r)"
      using r(2) nxt False by (auto split: if_splits) (meson linorder_not_le)
    ultimately show ?thesis by auto
  qed
qed

lemma in_window_correct:
  assumes "next_of T nxt" and "lookback < now"
  shows "in_window nxt now = Some (\<exists>t\<in>T. t \<le> now \<and> now < t + maintenanceWindowDuration)"
proof -
  let ?S = "{t \<in> T. now - lookback < t \<and> t \<le> now}"
  from last_trigger_loop_correct [OF assms(1), of "now - lookback" now zero_time]
  obtain r where r: "findLastCronTrigger nxt now = Some r"
    "if ?S = {} then r = zero_time else r \<in> T \<and> now - lookback < r \<and> r \<le> now \<and> (\<forall>t\<in>T. t \<le> now \<longrightarrow> t \<le> r)"
    by (auto simp: findLastCronTrigger_def lookback_def)
  show ?thesis
  proof (cases "?S = {}")
    case True
    with r have "r = zero_time" by simp
    moreover from True have "\<not> (\<exists>t\<in>T. t \<le> now \<and> now < t + maintenanceWindowDuration)"
      by (force simp: lookback_def maintenanceWindowDuration_def)
    ultimately show ?thesis using r(1) by (simp add: in_window_def)
  next
    case False
    with r have "r \<in> T" "now - lookback < r" "r \<le> now" and max: "\<forall>t\<in>T. t \<le> now \<longrightarrow> t \<le> r" by simp_all
    moreover from this assms(2) have "r \<noteq> zero_time" by (simp add: zero_time_def)
    ultimately show ?thesis using r(1) by (force simp: in_window_def)
  qed
qed

lemma last_trigger_loop_diverges:
  "(\<And>t. nxt t = zero_time) \<Longrightarrow> zero_time \<le> now \<Longrightarrow> last_trigger_loop nxt now c l = None"
proof -
  assume z: "\<And>t. nxt t = zero_time" and now: "zero_time \<le> now"
  have "\<not> ((\<forall>t. nxt t = zero_time) \<and> zero_time \<le> now)" if "last_trigger_loop nxt now c l = Some r" for r
    by (rule last_trigger_loop.raw_induct
          [of "\<lambda>nxt now c l r. \<not> ((\<forall>t. nxt t = zero_time) \<and> zero_time \<le> now)", OF _ that])
      (auto simp: Let_def split: if_splits)
  with z now show ?thesis by (cases "last_trigger_loop nxt now c l") auto
qed

subsection \<open>Commands in the pod\<close>

text \<open>The commands a trace ran in a pod.\<close>

fun execs :: "event list \<Rightarrow> (string list \<times> string result) list" where
  "execs [] = []"
| "execs (E_Exec ns pod c cmd r # t) = (cmd, r) # execs t"
| "execs (_ # t) = execs t"

lemma execs_append [simp]: "execs (t @ u) = execs t @ execs u"
  by (induction t rule: execs.induct) simp_all

definition sum_command :: "string \<Rightarrow> string list" where
  "sum_command path = [''sha256sum'', path]"

definition discard_command :: "string \<Rightarrow> string list" where
  "discard_command path = [''rm'', ''--force'', path]"

definition mkdir_command :: "string list" where
  "mkdir_command = [''mkdir'', ''-p'', gcPluginUpdateDir]"

text \<open>
  The commands of a download: the directory, the transfer, and when a hash is expected its
  check, which ends with the removal of the file on a mismatch.
\<close>

definition download_run :: "string \<Rightarrow> string \<Rightarrow> string \<Rightarrow> bool \<Rightarrow> (string list \<times> string result) list \<Rightarrow> bool" where
  "download_run path url hash ok cs \<longleftrightarrow>
     (if ok then
        (\<exists>m c. cs = [(mkdir_command, Inr m), (curl_command path url, Inr c)] \<and> hash = []) \<or>
        (\<exists>m c out. cs = [(mkdir_command, Inr m), (curl_command path url, Inr c), (sum_command path, Inr out)]
           \<and> hash \<noteq> [] \<and> trim_hash out = ToLower hash)
      else
        (\<exists>e. cs = [(mkdir_command, Inl e)]) \<or>
        (\<exists>m e. cs = [(mkdir_command, Inr m), (curl_command path url, Inl e)]) \<or>
        (\<exists>m c e. cs = [(mkdir_command, Inr m), (curl_command path url, Inr c), (sum_command path, Inl e)]) \<or>
        (\<exists>m c out d. cs = [(mkdir_command, Inr m), (curl_command path url, Inr c), (sum_command path, Inr out),
             (discard_command path, d)] \<and> trim_hash out \<noteq> ToLower hash))"

lemma download_emits:
  "emits (downloadPluginToServer x server p url hash)
     (\<lambda>r u. download_run (jar_path p) url hash (is_ok r) (execs u))"
  unfolding downloadPluginToServer_def verifyPluginChecksum_def call_ops
  by (intro tr_rules;
      simp add: download_run_def mkdir_command_def sum_command_def discard_command_def)

text \<open>What a plugin's entry in the loop may run, and when it counts as downloaded.\<close>

definition plugin_run ::
  "(string \<rightharpoonup> Plugin) \<Rightarrow> ServerPluginStatus \<Rightarrow> ServerPluginStatus \<Rightarrow> (string list \<times> string result) list \<Rightarrow> bool" where
  "plugin_run m p p' cs \<longleftrightarrow>
     (cs = [] \<and> p' = p) \<or>
     (\<exists>plugin url hash ok. m (pr_Name (sp_PluginRef p)) = Some plugin
        \<and> sp_ResolvedVersion p \<noteq> sp_CurrentVersion p
        \<and> find_download (pst_AvailableVersions (pl_Status plugin)) (sp_ResolvedVersion p) = (url, hash)
        \<and> ValidateDownloadURL url = Inr ()
        \<and> download_run (jar_path (pr_Name (sp_PluginRef p))) url hash ok cs
        \<and> p' = (if ok then p\<lparr>sp_InstalledJARName := pr_Name (sp_PluginRef p) @ ''.jar''\<rparr> else p))"

lemma plugin_run_skip: "plugin_run m p p []"
  by (simp add: plugin_run_def)

lemma plugin_run_fetch:
  assumes "m (pr_Name (sp_PluginRef p)) = Some plugin" "sp_CurrentVersion p \<noteq> sp_ResolvedVersion p"
    "find_download (pst_AvailableVersions (pl_Status plugin)) (sp_ResolvedVersion p) = (url, hash)"
    "ValidateDownloadURL url = Inr r"
  shows "download_run (jar_path (pr_Name (sp_PluginRef p))) url hash True cs
      \<Longrightarrow> plugin_run m p (p\<lparr>sp_InstalledJARName := pr_Name (sp_PluginRef p) @ ''.jar''\<rparr>) cs"
    and "download_run (jar_path (pr_Name (sp_PluginRef p))) url hash False cs \<Longrightarrow> plugin_run m p p cs"
  unfolding plugin_run_def using assms by (metis (full_types) unit.exhaust)+

lemma apply_plugin_emits:
  "emits (apply_plugin x server m p) (\<lambda>(p', e) u. plugin_run m p p' (execs u))"
  unfolding apply_plugin_def Let_def
  by (intro tr_rules tr_bind_emits [OF download_emits];
      simp add: plugin_run_skip split: sum.split; fastforce intro: plugin_run_fetch)

lemma apply_loop_emits:
  "emits (apply_loop x server m ps)
     (\<lambda>(ps', es) u. \<exists>css. execs u = concat css \<and> length css = length ps \<and> length ps' = length ps
        \<and> (\<forall>i<length ps. plugin_run m (ps ! i) (ps' ! i) (css ! i)))"
proof (induction ps)
  case Nil
  show ?case by (auto intro!: tr_rules)
next
  case (Cons p ps)
  show ?case
    unfolding apply_loop.simps
  proof (intro tr_rules tr_bind_emits [OF apply_plugin_emits] tr_bind_emits [OF Cons.IH], goal_cases)
    case (1 q u p' e q' v ps' es)
    then obtain css where css: "execs v = concat css" "length css = length ps" "length ps' = length ps"
      "\<forall>i<length ps. plugin_run m (ps ! i) (ps' ! i) (css ! i)" by auto
    from 1 have "plugin_run m p p' (execs u)" by simp
    with css show ?case
      by (auto intro!: exI [of _ "execs u # css"] simp: nth_Cons split: nat.split)
  qed
qed

text \<open>The removal of a marked plugin's JAR from a pod.\<close>

lemma markJARAsDeleted_execs: "emits (markJARAsDeleted x a b c d) (\<lambda>_ u. execs u = [])"
  unfolding markJARAsDeleted_def call_ops by (intro tr_rules; simp)

definition jar_removed :: "(string list \<times> string result) list \<Rightarrow> ServerPluginStatus \<Rightarrow> bool" where
  "jar_removed cs p \<longleftrightarrow> sp_InstalledJARName p = [] \<or> (\<exists>res. (rm_command (sp_InstalledJARName p), Inr res) \<in> set cs)"

lemma jar_removed_Nil: "jar_removed [] p \<longleftrightarrow> sp_InstalledJARName p = []"
  and jar_removed_uninstalled: "sp_InstalledJARName p = [] \<Longrightarrow> jar_removed cs p"
  by (simp_all add: jar_removed_def)

lemma jar_removed_append: "jar_removed cs p \<or> jar_removed ds p \<Longrightarrow> jar_removed (cs @ ds) p"
  by (auto simp: jar_removed_def)

lemma deletePluginJAR_emits:
  "emits (deletePluginJAR x server p)
     (\<lambda>r u. map fst (execs u) = (if sp_InstalledJARName p = [] then [] else [rm_command (sp_InstalledJARName p)])
        \<and> (is_ok r \<longrightarrow> jar_removed (execs u) p))"
  unfolding deletePluginJAR_def call_ops Let_def
  by (intro tr_rules tr_emits [OF markJARAsDeleted_execs] tr_bind_emits [OF markJARAsDeleted_execs];
      auto simp: jar_removed_def split: sum.splits)

lemma deletion_loop_emits:
  "emits (deletion_loop x server ps)
     (\<lambda>errs u. map fst (execs u) = map (\<lambda>p. rm_command (sp_InstalledJARName p)) (filter (\<lambda>p. sp_InstalledJARName p \<noteq> []) ps)
        \<and> (errs = [] \<longrightarrow> (\<forall>p\<in>set ps. jar_removed (execs u) p)))"
proof (induction ps)
  case Nil
  show ?case by (auto intro!: tr_rules)
next
  case (Cons p ps)
  show ?case
    unfolding deletion_loop.simps
    by (intro tr_rules tr_bind_emits [OF deletePluginJAR_emits] tr_bind_emits [OF Cons.IH])
      (auto simp: jar_removed_Nil intro: jar_removed_append jar_removed_uninstalled split: sum.splits if_splits)
qed

lemma getPluginsToDelete_filter: "getPluginsToDelete server = filter sp_PendingDeletion (st_Plugins (sv_Status server))"
proof -
  have "getPluginsToDelete_loop ps = filter sp_PendingDeletion ps" for ps by (induction ps) auto
  then show ?thesis by (simp add: getPluginsToDelete_def)
qed

subsection \<open>The order of the preparation\<close>

text \<open>
  The steps before the shutdown, as phases of their own. A phase that is not reached makes no call
  and does not succeed. The first phase is the backup, when one is wanted: it runs no command in
  the pod, and it succeeds only with a snapshot.
\<close>

definition backup_phase :: "('w, 'sched) ext \<Rightarrow> PaperMCServer \<Rightarrow> bool \<Rightarrow> event list \<Rightarrow> bool" where
  "backup_phase x server ok u \<longleftrightarrow>
     (if backup_wanted x server
      then list_all prepare_ev u \<and> execs u = [] \<and> (ok \<longrightarrow> list_ex snapshot_taken u)
      else u = [] \<and> ok)"

text \<open>The second removes the JARs of the plugins marked for deletion.\<close>

definition deletion_phase :: "ServerPluginStatus list \<Rightarrow> bool \<Rightarrow> bool \<Rightarrow> event list \<Rightarrow> bool" where
  "deletion_phase ps reached ok u \<longleftrightarrow>
     (if \<not> reached then u = [] \<and> \<not> ok
      else list_all prepare_ev u
        \<and> map fst (execs u) = map (\<lambda>p. rm_command (sp_InstalledJARName p))
            (filter (\<lambda>p. sp_PendingDeletion p \<and> sp_InstalledJARName p \<noteq> []) ps)
        \<and> (ok \<longrightarrow> list_all (jar_removed (execs u)) (filter sp_PendingDeletion ps)))"

text \<open>
  The third downloads. \<open>downloaded\<close> says what the commands of a plugin are when its step succeeded: a
  complete download of the version to install, or nothing when none is due, that is, when the plugin
  is gone, has no resolved version, is up to date or has no URL for the version.
\<close>

definition downloaded :: "(string \<rightharpoonup> Plugin) \<Rightarrow> ServerPluginStatus \<Rightarrow> (string list \<times> string result) list \<Rightarrow> bool" where
  "downloaded m p cs \<longleftrightarrow>
     (case m (pr_Name (sp_PluginRef p)) of
        None \<Rightarrow> cs = []
      | Some plugin \<Rightarrow>
          (case find_download (pst_AvailableVersions (pl_Status plugin)) (sp_ResolvedVersion p) of
             (url, hash) \<Rightarrow>
               if sp_ResolvedVersion p = [] \<or> sp_CurrentVersion p = sp_ResolvedVersion p \<or> url = [] then cs = []
               else ValidateDownloadURL url = Inr ()
                 \<and> download_run (jar_path (pr_Name (sp_PluginRef p))) url hash True cs))"

definition download_phase :: "string \<Rightarrow> ServerPluginStatus list \<Rightarrow> bool \<Rightarrow> bool \<Rightarrow> event list \<Rightarrow> bool" where
  "download_phase ns ps reached ok u \<longleftrightarrow>
     (if \<not> reached then u = [] \<and> \<not> ok
      else list_all prepare_ev u
        \<and> (ok \<longrightarrow> (\<exists>items css. E_ListPlugins ns (Inr items) \<in> set u \<and> execs u = concat css
             \<and> list_all2 (downloaded (plugin_map items)) ps css)))"

text \<open>The plugins of two states of a server, up to the names of the installed JARs.\<close>

definition same_plugins :: "ServerPluginStatus list \<Rightarrow> ServerPluginStatus list \<Rightarrow> bool" where
  "same_plugins ps qs \<longleftrightarrow>
     map (sp_InstalledJARName_update (\<lambda>_. [])) ps = map (sp_InstalledJARName_update (\<lambda>_. [])) qs"

lemma same_plugins_refl [simp]: "same_plugins ps ps"
  by (simp add: same_plugins_def)

lemma harmless_execs: "list_all harmless u \<Longrightarrow> execs u = []"
  by (induction u rule: execs.induct) (auto simp: harmless_def)

lemma backup_phase_emits:
  assumes "fresh_alive x"
  shows "emits (backupBeforeUpdate x server)
    (\<lambda>(r, s) u. backup_phase x server (is_ok r) u \<and> (backup_wanted x server \<or> s = server)
       \<and> sv_Spec s = sv_Spec server)"
proof (cases "backup_wanted x server")
  case True
  show ?thesis
    by (rule tr_weaken [OF tr_conj [OF tr_conj [OF backupBeforeUpdate_emits [OF assms] onlyD [OF backup_prepare]]
            backupBeforeUpdate_spec]])
      (auto simp: backup_phase_def True harmless_execs)
next
  case False
  then show ?thesis
    unfolding backupBeforeUpdate_def by (intro tr_rules) (simp_all add: backup_phase_def)
qed

lemma deletion_phase_emits:
  "emits (deleteMarkedPlugins x server)
     (\<lambda>r u. deletion_phase (st_Plugins (sv_Status server)) True (is_ok r) u)"
proof -
  have "emits (deleteMarkedPlugins x server)
     (\<lambda>r u. map fst (execs u) = map (\<lambda>p. rm_command (sp_InstalledJARName p))
          (filter (\<lambda>p. sp_PendingDeletion p \<and> sp_InstalledJARName p \<noteq> []) (st_Plugins (sv_Status server)))
        \<and> (is_ok r \<longrightarrow> list_all (jar_removed (execs u)) (filter sp_PendingDeletion (st_Plugins (sv_Status server)))))"
    unfolding deleteMarkedPlugins_def getPluginsToDelete_filter Let_def
    by (intro tr_rules tr_bind_emits [OF deletion_loop_emits])
      (auto simp: filter_empty_conv list_all_iff conj_commute split: if_splits)
  from tr_conj [OF this onlyD [OF deletions_prepare]] show ?thesis
    by (rule tr_weaken) (auto simp: deletion_phase_def)
qed

lemma apply_plugin_downloaded:
  "emits (apply_plugin x server m p)
     (\<lambda>(p', e) u. (e = None \<longrightarrow> downloaded m p (execs u))
        \<and> sp_InstalledJARName_update (\<lambda>_. []) p' = sp_InstalledJARName_update (\<lambda>_. []) p)"
  unfolding apply_plugin_def Let_def
  by (intro tr_rules tr_bind_emits [OF download_emits]) (auto simp: downloaded_def split: sum.splits)

lemma apply_loop_downloaded:
  "emits (apply_loop x server m ps)
     (\<lambda>(ps', es) u. (es = [] \<longrightarrow> (\<exists>css. execs u = concat css \<and> list_all2 (downloaded m) ps css))
        \<and> same_plugins ps ps')"
proof (induction ps)
  case Nil
  show ?case by (auto intro!: tr_rules)
next
  case (Cons p ps)
  show ?case
    unfolding apply_loop.simps
  proof (intro tr_rules tr_bind_emits [OF apply_plugin_downloaded] tr_bind_emits [OF Cons.IH], goal_cases)
    case (1 q u p' e q' v ps' es)
    moreover have "\<exists>css. execs (u @ v) = concat css \<and> list_all2 (downloaded m) (p # ps) css"
      if "downloaded m p (execs u)" "execs v = concat css" "list_all2 (downloaded m) ps css" for css
      using that by (intro exI [of _ "execs u # css"]) simp
    ultimately show ?case by (auto simp: same_plugins_def split: option.split)
  qed
qed

lemma download_phase_emits:
  "emits (applyPluginUpdates x server)
     (\<lambda>(r, s) u. download_phase (sv_Namespace server) (st_Plugins (sv_Status server)) True (is_ok r) u
        \<and> same_plugins (st_Plugins (sv_Status server)) (st_Plugins (sv_Status s))
        \<and> sv_Spec s = sv_Spec server \<and> sv_Namespace s = sv_Namespace server)"
proof -
  have "emits (applyPluginUpdates x server)
     (\<lambda>(r, s) u. (is_ok r \<longrightarrow> (\<exists>items css. E_ListPlugins (sv_Namespace server) (Inr items) \<in> set u \<and> execs u = concat css
             \<and> list_all2 (downloaded (plugin_map items)) (st_Plugins (sv_Status server)) css))
        \<and> same_plugins (st_Plugins (sv_Status server)) (st_Plugins (sv_Status s))
        \<and> sv_Namespace s = sv_Namespace server)"
    unfolding applyPluginUpdates_def call_ops
    by (intro tr_rules tr_bind_emits [OF apply_loop_downloaded]) (auto simp: set_plugins_def)
  from tr_conj [OF this applyPluginUpdates_spec] show ?thesis
    by (rule tr_weaken) (auto simp: download_phase_def)
qed

definition prepared_in_order ::
  "('w, 'sched) ext \<Rightarrow> PaperMCServer \<Rightarrow> string \<Rightarrow> ServerPluginStatus list \<Rightarrow> bool \<Rightarrow> event list \<Rightarrow> bool" where
  "prepared_in_order x server ns ps ok u \<longleftrightarrow>
     (\<exists>bk de dn o1 o2. u = bk @ de @ dn \<and> backup_phase x server o1 bk
        \<and> deletion_phase ps o1 o2 de \<and> download_phase ns ps o2 ok dn)"

lemma phases_not_reached [simp]:
  "deletion_phase ps False ok u \<longleftrightarrow> u = [] \<and> \<not> ok"
  "download_phase ns ps False ok u \<longleftrightarrow> u = [] \<and> \<not> ok"
  by (simp_all add: deletion_phase_def download_phase_def)

lemma success_reached:
  "deletion_phase ps reached True u \<Longrightarrow> reached" "download_phase ns ps reached True u \<Longrightarrow> reached"
  "shutdown_phase rcon reached True u \<Longrightarrow> reached" "image_phase img reached True u \<Longrightarrow> reached"
  "restart_phase reached True u \<Longrightarrow> reached"
  by (cases reached; simp)+

lemma prepared_in_orderI:
  "backup_phase x server o1 bk \<Longrightarrow> deletion_phase ps o1 o2 de
   \<Longrightarrow> download_phase ns ps o2 ok dn \<Longrightarrow> prepared_in_order x server ns ps ok (bk @ de @ dn)"
  unfolding prepared_in_order_def by blast

lemma prepared_in_order_ends:
  "backup_phase x server False bk \<Longrightarrow> prepared_in_order x server ns ps False bk"
  "backup_phase x server True bk \<Longrightarrow> deletion_phase ps True False de \<Longrightarrow> prepared_in_order x server ns ps False (bk @ de)"
  using prepared_in_orderI [of x server False bk ps False "[]" ns False "[]"]
    prepared_in_orderI [of x server True bk ps False de ns False "[]"]
  by auto

text \<open>The plugins a run works on: those of the server it returns, and without a backup, which writes
  the status of the server, those of the server it was given.\<close>

definition plugins_of_run ::
  "('w, 'sched) ext \<Rightarrow> PaperMCServer \<Rightarrow> PaperMCServer \<Rightarrow> ServerPluginStatus list \<Rightarrow> bool" where
  "plugins_of_run x server s ps \<longleftrightarrow>
     (backup_wanted x server \<or> ps = st_Plugins (sv_Status server)) \<and> same_plugins ps (st_Plugins (sv_Status s))"

lemma plugins_of_run_backup:
  "backup_wanted x server \<or> s = server \<Longrightarrow> same_plugins (st_Plugins (sv_Status s)) (st_Plugins (sv_Status s'))
   \<Longrightarrow> plugins_of_run x server s' (st_Plugins (sv_Status s))"
  by (auto simp: plugins_of_run_def)

definition prepare_run ::
  "('w, 'sched) ext \<Rightarrow> PaperMCServer \<Rightarrow> bool \<Rightarrow> PaperMCServer \<Rightarrow> event list \<Rightarrow> bool" where
  "prepare_run x server ok s u \<longleftrightarrow>
     (\<exists>ps. prepared_in_order x server (sv_Namespace s) ps ok u \<and> plugins_of_run x server s ps)"

lemma prepare_run_ends:
  "backup_phase x server False bk \<Longrightarrow> backup_wanted x server \<or> s = server \<Longrightarrow> prepare_run x server False s bk"
  "backup_phase x server True bk \<Longrightarrow> backup_wanted x server \<or> s = server
   \<Longrightarrow> deletion_phase (st_Plugins (sv_Status s)) True False de \<Longrightarrow> prepare_run x server False s (bk @ de)"
  "backup_phase x server True bk \<Longrightarrow> backup_wanted x server \<or> s = server
   \<Longrightarrow> deletion_phase (st_Plugins (sv_Status s)) True True de
   \<Longrightarrow> download_phase (sv_Namespace s) (st_Plugins (sv_Status s)) True ok dn
   \<Longrightarrow> same_plugins (st_Plugins (sv_Status s)) (st_Plugins (sv_Status s')) \<Longrightarrow> sv_Namespace s' = sv_Namespace s
   \<Longrightarrow> prepare_run x server ok s' (bk @ de @ dn)"
  unfolding prepare_run_def
  by (intro exI [of _ "st_Plugins (sv_Status s)"] conjI prepared_in_order_ends plugins_of_run_backup;
      simp add: prepared_in_orderI)+

lemma prepare_run_emits:
  assumes "fresh_alive x"
  shows "emits (prepare_update x server) (\<lambda>(r, s) u. prepare_run x server (is_ok r) s u \<and> sv_Spec s = sv_Spec server)"
  unfolding prepare_update_def
  by (intro tr_rules tr_bind_emits [OF backup_phase_emits [OF assms]] tr_bind_emits [OF deletion_phase_emits]
      tr_bind_emits [OF download_phase_emits])
    (auto intro: prepare_run_ends split: sum.splits)

text \<open>The whole update, each phase reached only when the one before it succeeded.\<close>

definition combined_run ::
  "('w, 'sched) ext \<Rightarrow> PaperMCServer \<Rightarrow> bool \<Rightarrow> PaperMCServer \<Rightarrow> event list \<Rightarrow> bool" where
  "combined_run x server ok s u \<longleftrightarrow>
     (\<exists>p sh im rs o3 o4 o5. u = p @ sh @ im @ rs
        \<and> prepare_run x server o3 s p
        \<and> shutdown_phase (rc_Enabled (ss_RCON (sv_Spec server))) o3 o4 sh
        \<and> image_phase (new_image s) o4 o5 im
        \<and> restart_phase o5 ok rs)"

lemma combined_runI:
  "prepare_run x server o3 s p \<Longrightarrow> shutdown_phase (rc_Enabled (ss_RCON (sv_Spec server))) o3 o4 sh
   \<Longrightarrow> image_phase (new_image s) o4 o5 im \<Longrightarrow> restart_phase o5 ok rs \<Longrightarrow> combined_run x server ok s (p @ sh @ im @ rs)"
  unfolding combined_run_def by blast

lemma combined_run_ends:
  "prepare_run x server False s p \<Longrightarrow> combined_run x server False s p"
  "prepare_run x server True s p \<Longrightarrow> shutdown_phase (rc_Enabled (ss_RCON (sv_Spec server))) True False sh
   \<Longrightarrow> combined_run x server False s (p @ sh)"
  "prepare_run x server True s p \<Longrightarrow> shutdown_phase (rc_Enabled (ss_RCON (sv_Spec server))) True True sh
   \<Longrightarrow> image_phase (new_image s) True False im \<Longrightarrow> combined_run x server False s (p @ sh @ im)"
  using combined_runI [of x server False s p False "[]" False "[]" False "[]"]
    combined_runI [of x server True s p False sh False "[]" False "[]"]
    combined_runI [of x server True s p True sh False im False "[]"]
  by auto

lemma combined_run_emits:
  assumes "fresh_alive x"
  shows "emits (performCombinedUpdate x server) (\<lambda>(r, s) u. combined_run x server (is_ok r) s u)"
  unfolding performCombinedUpdate_def
  by (intro tr_rules tr_bind_emits [OF prepare_run_emits [OF assms]] tr_bind_emits [OF required_shutdown_emits]
      tr_bind_emits [OF image_emits] tr_bind_emits [OF restart_emits])
    (auto intro: combined_run_ends combined_runI)

definition reapplied :: "PaperMCServerStatus \<Rightarrow> event list \<Rightarrow> PaperMCServer \<Rightarrow> bool" where
  "reapplied desired u s \<longleftrightarrow>
     (\<exists>ns n fresh. E_GetServer ns n (Inr fresh) \<in> set u \<and> s = reapply_status desired fresh)"

lemma reapplied_Cons:
  "reapplied desired (e # u) s \<longleftrightarrow>
     (\<exists>ns n fresh. e = E_GetServer ns n (Inr fresh) \<and> s = reapply_status desired fresh) \<or> reapplied desired u s"
  unfolding reapplied_def list.set by blast

lemma retry_loop_writes:
  "emits (retry_loop k x desired server)
     (\<lambda>_ u. (\<forall>s\<in>set (status_writes u). s = server \<or> reapplied desired u s) \<and>
        (\<forall>s\<in>set (tl (status_writes u)). reapplied desired u s))"
proof (induction k arbitrary: server)
  case 0
  show ?case by (auto intro!: tr_rules)
next
  case (Suc k)
  show ?case
    unfolding retry_loop.simps call_ops
    by (intro tr_rules tr_emits [OF Suc.IH]) (auto simp: reapplied_Cons)
qed

subsection \<open>The table of cron entries\<close>

definition update_wanted_schedule :: "PaperMCServer \<Rightarrow> string option" where
  "update_wanted_schedule server =
     (let mw = us_MaintenanceWindow (ss_UpdateSchedule (sv_Spec server))
      in if mw_Enabled mw then Some (mw_Cron mw) else None)"

interpretation update_cron: cron_table UpdateCron u_cronEntries True "removeCronJob x"
  "manageCronSchedule x" server_key update_wanted_schedule for x :: "('w, 'sched) ext"
proof unfold_locales
  fix k :: string and server :: PaperMCServer
  show "in_step UpdateCron u_cronEntries (removeCronJob x k)"
    unfolding in_step_def removeCronJob_def call_ops
    by (auto simp: run_defs table_moves simp del: fun_upd_apply split: prod.splits option.splits)
  show "in_step UpdateCron u_cronEntries (manageCronSchedule x server)"
    unfolding in_step_def manageCronSchedule_def removeCronJob_def setUpdatingConditionWithType_def call_ops
    by (auto simp: run_defs Let_def table_moves simp del: fun_upd_apply split: prod.splits option.splits sum.splits)
next
  show "u_cronEntries (snd (run_state (removeCronJob x k) s)) = (u_cronEntries s)(k := None)"
    for k and s :: "'w sys"
    unfolding removeCronJob_def call_ops
    by (auto simp: run_defs split: prod.splits option.splits)
next
  fix server and s s' :: "'w sys" and a
  assume "run_state (manageCronSchedule x server) s = (a, s')"
  then show "(\<forall>k. k \<noteq> server_key server \<longrightarrow> u_cronEntries s' k = u_cronEntries s k) \<and>
      (case u_cronEntries s' (server_key server) of None \<Rightarrow> True
       | Some e \<Rightarrow> update_wanted_schedule server = Some (ce_Spec e))"
    unfolding manageCronSchedule_def removeCronJob_def setUpdatingConditionWithType_def call_ops
    by (auto simp: run_defs Let_def update_wanted_schedule_def split: prod.splits option.splits sum.splits if_splits)
qed


lemma in_step_loops [in_step_rules]:
  assumes "table_field tbl"
  shows "in_step c tbl (warn_loop x cl wi ws)"
    "in_step c tbl (wait_loop n x server)" "in_step c tbl (retry_loop n x st server)"
    "in_step c tbl (apply_plugin x server m p)" "in_step c tbl (deletePluginJAR x server p)"
proof -
  show "in_step c tbl (warn_loop x cl wi ws)"
    by (induction ws) (use assms in \<open>auto intro!: in_step_rules simp: SendCommand_def ctx_err_def sleep_def rcon_execute_def\<close>)
  show "in_step c tbl (wait_loop n x server)"
    by (induction n) (use assms in \<open>auto intro!: in_step_rules simp: call_ops\<close>)
  show "in_step c tbl (retry_loop n x st server)"
    by (induction n arbitrary: server) (use assms in \<open>auto intro!: in_step_rules simp: call_ops\<close>)
  show "in_step c tbl (apply_plugin x server m p)"
    unfolding download_defs call_ops by (intro in_step_rules; simp add: assms)
  show "in_step c tbl (deletePluginJAR x server p)"
    unfolding deletePluginJAR_def markJARAsDeleted_def call_ops Let_def by (intro in_step_rules; simp add: assms)
qed

lemma in_step_apply_loop [in_step_rules]:
  "table_field tbl \<Longrightarrow> in_step c tbl (apply_loop x server m ps)"
  by (induction ps) (auto intro!: in_step_rules)

lemma in_step_deletion_loop [in_step_rules]:
  "table_field tbl \<Longrightarrow> in_step c tbl (deletion_loop x server ps)"
  by (induction ps) (auto intro!: in_step_rules)

lemma in_step_run_update [in_step_rules]:
  "table_field tbl \<Longrightarrow> in_step c tbl (run_update x server)"
  unfolding run_update_def performCombinedUpdate_def performPluginOnlyUpdate_def prepare_update_def
    required_shutdown_def updateStatefulSetImage_def setUpdatingCondition_def updateServerStatus_def
    updateStatusWithRetry_def backupBeforeUpdate_def PerformBackup_def isSnapshotCRDMissing_def ListSnapshots_def
    deleteMarkedPlugins_def applyPluginUpdates_def restart_defs shutdown_defs call_ops silent_ops
  by (intro in_step_rules; simp)

lemma in_step_update_gate [in_step_rules]:
  "table_field tbl \<Longrightarrow> in_step c tbl (update_gate x server)"
  unfolding update_gate_def shouldApplyNow_def removeApplyNowAnnotation_def shouldApplyUpdate_def
    isInMaintenanceWindow_def call_ops
  by (intro in_step_rules; simp)

lemma in_step_gate [in_step_rules]:
  "in_step c tbl m \<Longrightarrow> (\<And>r. in_step c tbl (f r)) \<Longrightarrow> in_step c tbl n
   \<Longrightarrow> in_step c tbl (case g of Proceed \<Rightarrow> m | Stop r \<Rightarrow> f r | Hang \<Rightarrow> n)"
  by (cases g) simp_all

lemma in_step_UpdateReconciler:
  assumes "in_step c tbl (removeCronJob x (nn_key ns n))" and "\<And>server. in_step c tbl (manageCronSchedule x server)"
    and "table_field tbl"
  shows "in_step c tbl (UpdateReconciler_Reconcile x ns n)"
  unfolding UpdateReconciler_Reconcile_def reconcile_fetched_def get_server_def status_update_def
  by (intro in_step_rules assms; simp add: assms)

lemma update_leaves_backup_table:
  "in_step BackupCron b_cronEntries (removeCronJob x key)"
  "in_step BackupCron b_cronEntries (manageCronSchedule x server)"
  unfolding removeCronJob_def manageCronSchedule_def setUpdatingConditionWithType_def call_ops
  by (rule in_step_quiet; intro only_rules keeps_rules; simp)+

subsection \<open>A run for the witnesses\<close>

text \<open>A server with a newer Paper version and a backup before updates.\<close>

definition pending_server :: PaperMCServer where
  "pending_server = zero_server\<lparr>
     sv_Meta := zero_meta\<lparr>m_Name := ''mc'', m_Namespace := ''games''\<rparr>,
     sv_Spec := zero_server_spec\<lparr>ss_Backup := Some \<lparr>bk_Enabled = True, bk_Schedule = [], bk_BeforeUpdate = None,
        bk_VolumeSnapshotClassName = [], bk_Retention = \<lparr>br_MaxCount = 10\<rparr>\<rparr>\<rparr>,
     sv_Status := zero_server_status\<lparr>st_CurrentVersion := ''1.21.1'', st_DesiredVersion := ''1.21.4'',
        st_AvailableUpdate := Some \<lparr>au_Version = ''1.21.4'', au_Build = 12,
          au_ReleasedAt = demo_time - Hour, au_Plugins = [], au_FoundAt = demo_time\<rparr>\<rparr>\<rparr>"

lemma demo_wait [simp]: "waitForPodReady (demo_ext server) s =
   do { tick (demo_ext server); get_pod (demo_ext server) (sv_Namespace s) (pod_name s); State_Monad.return (Inr ()) }"
proof -
  have n: "(121::nat) = Suc 120" by simp
  show ?thesis unfolding waitForPodReady_def n wait_loop.simps
    by (rule state.expand) (auto simp: call_ops call_def demo_pod_def split: prod.splits)
qed

lemma demo_retry [simp]: "updateStatusWithRetry (demo_ext server) s =
   do { status_update (demo_ext server) s; State_Monad.return (Inr ()) }"
proof -
  have n: "(3::nat) = Suc 2" by simp
  show ?thesis unfolding updateStatusWithRetry_def n retry_loop.simps
    by (rule state.expand) (auto simp: call_ops call_def split: prod.splits)
qed

lemmas demo_eval =
  conditionTypeUpdating_def conditionTypeCronScheduleValid_def reasonUpdateInProgress_def
  reasonUpdateComplete_def reasonCronInvalid_def reasonCronValid_def containerNamePaperMC_def
  AnnotationApplyNow_def gcPluginUpdateDir_def maintenanceWindowDuration_def applyNowMaxAge_def
  pod_name_def hasPendingPluginUpdates_def delay_check_def shouldApplyUpdate_def
  isInMaintenanceWindow_def apply_now_valid_def shouldApplyNow_def removeApplyNowAnnotation_def
  setUpdatingConditionWithType_def setUpdatingCondition_def removeCronJob_def manageCronSchedule_def
  trim_hash_def verifyPluginChecksum_def jar_path_def curl_command_def downloadPluginToServer_def
  plugin_map_def apply_plugin_def set_plugins_def applyPluginUpdates_def getPluginsToDelete_def
  markJARAsDeleted_def rm_command_def deletePluginJAR_def deleteMarkedPlugins_def
  createRCONClient_def shutdown_warnings_def quot_def executeGracefulShutdownWithClient_def
  deletePod_def updateStatefulSetImage_def backup_wanted_def backupBeforeUpdate_def
  prepare_update_def restart_pod_def performPluginOnlyUpdate_def new_image_def required_shutdown_def
  performCombinedUpdate_def finish_plugin_def status_after_update_def updateServerStatus_def
  reapply_status_def wrap32_def zero_time_def demo_time_def update_gate_def paper_changed_def
  run_update_def cron_condition_false_def reconcile_fetched_def UpdateReconciler_Reconcile_def
  call_ops silent_ops call_def silent_def emit_def gets_def modify_u_cron_def modify_b_cron_def
  modify_triggers_def modify_backupMu_def fresh_mutex_def pass_def is_ok_def pending_server_def
  zero_defs demo_sys_def backup_op_defs demo_pod_def demo_sts_def demo_container_def Let_def isSnapshotCRDMissing_def
  set_condition_def set_status_def isSnapshotAPIUnavailable_def failed_record_def max_backups_def
  snapshot_class_def pvc_name_def backup_status_of_def zero_backup_status_def record_reconcile_def
  nn_key_def PerformBackup_def snapshot_object_def server_key_def set_conditions_def
  mk_condition_def demo_SetStatusCondition_def demo_FindStatusCondition_def

definition demo_update :: "event list" where
  "demo_update =
     trace (snd (run_state (UpdateReconciler_Reconcile (demo_ext pending_server) ''games'' ''mc'') demo_sys))"

text \<open>A predicate on the trace, so that the run is evaluated once.\<close>

fun destructive_run :: "event \<Rightarrow> event list \<Rightarrow> bool" where
  "destructive_run e [] \<longleftrightarrow> False"
| "destructive_run e (f # fs) \<longleftrightarrow> f = e \<and> list_ex destructive (f # fs)"

lemma destructive_runD: "destructive_run e t \<Longrightarrow> list_ex destructive t \<and> t = e # tl t"
  by (cases t) simp_all

lemma demo_destructive_run: "destructive_run (E_GetServer ''games'' ''mc'' (Inr pending_server)) demo_update"
  unfolding demo_update_def by (simp add: demo_eval)

lemma demo_update_destructive: "list_ex destructive demo_update"
  using destructive_runD [OF demo_destructive_run] by (rule conjunct1)

lemma demo_update_server:
  "demo_update = E_GetServer ''games'' ''mc'' (Inr pending_server) # tl demo_update"
  using destructive_runD [OF demo_destructive_run] by (rule conjunct2)

lemma demo_fresh: "fresh_alive (demo_ext server)"
  by (simp add: fresh_alive_def)

lemma demo_backup_wanted: "backup_wanted (demo_ext pending_server) pending_server"
  by (simp add: backup_wanted_def pending_server_def)

definition demo_combined :: "(unit result \<times> PaperMCServer) \<times> unit sys" where
  "demo_combined = run_state (performCombinedUpdate (demo_ext pending_server) pending_server) demo_sys"

definition demo_plugin_only :: "(unit result \<times> PaperMCServer) \<times> unit sys" where
  "demo_plugin_only = run_state (performPluginOnlyUpdate (demo_ext pending_server) pending_server) demo_sys"

definition blocked_server :: PaperMCServer where
  "blocked_server = pending_server\<lparr>sv_Status := (sv_Status pending_server)\<lparr>st_Conditions :=
     [mk_condition conditionTypeCronScheduleValid ConditionFalse 1 demo_time reasonCronInvalid ''bad'']\<rparr>\<rparr>"

text \<open>A schedule that fires every \<open>m\<close> nanoseconds keeps the promise of \<^verbatim>\<open>Next\<close>.\<close>

lemma next_of_every:
  assumes "0 < (m :: int)"
  shows "next_of {t. m dvd t} (\<lambda>t. (t div m + 1) * m)"
proof -
  have gt: "t < (t div m + 1) * m" for t
    unfolding distrib_right mult_1 using assms pos_mod_bound [of m t] div_mult_mod_eq [of t m] by linarith
  have "(t div m + 1) * m \<le> t'" if "m dvd t'" "t < t'" for t t'
  proof -
    from that(1) obtain k where k: "t' = k * m" by (metis dvdE mult.commute)
    have "t div m * m \<le> t" using assms pos_mod_sign [of m t] div_mult_mod_eq [of t m] by linarith
    with that(2) k have "t div m * m < k * m" by simp
    with assms have "t div m + 1 \<le> k" by (simp add: mult_less_cancel_right)
    with assms k show ?thesis by (simp add: mult_right_mono)
  qed
  with gt show ?thesis by (simp add: next_of_def)
qed

subsection \<open>Properties\<close>

text \<open>
  C1. A reconciliation touches the running server (commands in its pod, its deletion, its image) only
  when the server it fetched has an available update or a plugin whose desired version is not
  its current one, and either it carries an apply-now annotation that is a number not older than
  five minutes at a clock reading of this run, or the update delay has passed and the maintenance
  window is open at clock readings of this run.
\<close>

theorem update_only_when_permitted:
  "emits (UpdateReconciler_Reconcile x ns n)
     (\<lambda>_ u. list_ex destructive u \<longrightarrow>
        (\<exists>server v. u = E_GetServer ns n (Inr server) # v \<and> update_permitted x server v))"
  unfolding UpdateReconciler_Reconcile_def record_reconcile_def get_server_def
  by (intro tr_rules tr_bind_emits [OF reconcile_fetched_emits]
      tr_bind_emits [OF onlyD [OF removeCronJob_harmless]])
    (auto simp: harmless_list update_permitted_def intro: permitted_mono [rotated])

theorem update_only_when_permitted_witness:
  "list_ex destructive demo_update \<and> update_permitted (demo_ext pending_server) pending_server (tl demo_update)"
proof -
  from emits_demo [OF update_only_when_permitted [of "demo_ext pending_server" "''games''" "''mc''"]]
    demo_update_destructive
  obtain server v where eq: "demo_update = E_GetServer ''games'' ''mc'' (Inr server) # v"
    and "update_permitted (demo_ext pending_server) server v"
    unfolding demo_update_def by blast
  moreover from eq have "server = pending_server \<and> v = tl demo_update"
    by (subst (asm) demo_update_server) simp
  ultimately show ?thesis using demo_update_destructive by simp
qed

text \<open>
  C3. When the server asks for a backup before updates, every call that touches the running server
  comes after a snapshot that was created successfully in the same reconciliation; so an
  update whose backup fails changes nothing.
\<close>

theorem update_after_backup:
  assumes "fresh_alive x"
  shows "emits (UpdateReconciler_Reconcile x ns n)
    (\<lambda>_ u. \<forall>server v. u = E_GetServer ns n (Inr server) # v \<longrightarrow> backup_wanted x server
       \<longrightarrow> guarded_by snapshot_taken u)"
proof -
  have fetched: "emits (reconcile_fetched x server) (\<lambda>_ u. backup_wanted x server \<longrightarrow> guarded_by snapshot_taken u)"
    for server
    using reconcile_fetched_guarded [OF assms, of server] tr_weaken [OF reconcile_fetched_emits [of x server]]
    by (cases "backup_wanted x server") (auto elim: tr_weaken)
  show ?thesis
    unfolding UpdateReconciler_Reconcile_def record_reconcile_def get_server_def
    by (intro tr_rules tr_bind_emits [OF fetched] tr_bind_emits [OF onlyD [OF removeCronJob_harmless]])
      (auto simp: harmless_def intro: guarded_prepend [where h = "[_]", simplified]
         guarded_around)
qed

theorem update_after_backup_witness:
  "list_ex destructive demo_update \<and> guarded_by snapshot_taken demo_update"
proof -
  from emits_demo [OF update_after_backup [OF demo_fresh, of pending_server "''games''" "''mc''"]]
    demo_update_server demo_backup_wanted
  have "guarded_by snapshot_taken demo_update" unfolding demo_update_def by blast
  with demo_update_destructive show ?thesis by blast
qed

text \<open>
  C7. A combined update runs in six phases, in this order, each reached only when the one before it
  succeeded: the backup, when one is wanted, which runs no command in the pod and succeeds only with
  a snapshot; the removal of the JARs of the plugins marked for deletion, which all succeeded before
  anything is downloaded; the downloads, after which every plugin with a version to install has been
  downloaded completely from a URL that passed \<open>ValidateDownloadURL\<close>; with RCON, the graceful shutdown,
  whose commands all succeeded; the new image, which is the image of the desired version and build,
  in the server container; and the deletion of the pod and the polls of its successor. The update
  succeeds only when all six did. The plugins are those of the server the update returns, up to the
  names of the installed JARs, and without a backup those of the server it was given.
\<close>

theorem combined_update_phases:
  assumes "fresh_alive x"
  shows "emits (performCombinedUpdate x server)
    (\<lambda>(r, s) u. \<exists>bk de dn sh im rs ps o1 o2 o3 o4 o5. u = bk @ de @ dn @ sh @ im @ rs
       \<and> plugins_of_run x server s ps
       \<and> backup_phase x server o1 bk
       \<and> deletion_phase ps o1 o2 de
       \<and> download_phase (sv_Namespace s) ps o2 o3 dn
       \<and> shutdown_phase (rc_Enabled (ss_RCON (sv_Spec server))) o3 o4 sh
       \<and> image_phase (new_image s) o4 o5 im
       \<and> restart_phase o5 (is_ok r) rs)"
proof (rule tr_weaken [OF combined_run_emits [OF assms]])
  fix rs' :: "unit result \<times> PaperMCServer" and u
  assume "(\<lambda>(r, s) u. combined_run x server (is_ok r) s u) rs' u"
  then show "(\<lambda>(r, s) u. \<exists>bk de dn sh im rs ps o1 o2 o3 o4 o5. u = bk @ de @ dn @ sh @ im @ rs
       \<and> plugins_of_run x server s ps
       \<and> backup_phase x server o1 bk
       \<and> deletion_phase ps o1 o2 de
       \<and> download_phase (sv_Namespace s) ps o2 o3 dn
       \<and> shutdown_phase (rc_Enabled (ss_RCON (sv_Spec server))) o3 o4 sh
       \<and> image_phase (new_image s) o4 o5 im
       \<and> restart_phase o5 (is_ok r) rs) rs' u"
    unfolding combined_run_def prepare_run_def prepared_in_order_def
    by (cases rs') (simp, elim exE conjE, intro exI conjI, simp_all)
qed

theorem combined_update_phases_witness:
  "is_ok (fst (fst demo_combined)) \<and>
   (\<exists>bk de dn im rs ps. trace (snd demo_combined) = bk @ de @ dn @ im @ rs
      \<and> list_ex snapshot_taken bk \<and> execs bk = []
      \<and> deletion_phase ps True True de \<and> download_phase ''games'' ps True True dn
      \<and> image_phase (new_image (snd (fst demo_combined))) True True im
      \<and> restart_phase True True rs)"
proof -
  have ok: "is_ok (fst (fst demo_combined))" "sv_Namespace (snd (fst demo_combined)) = ''games''"
    unfolding demo_combined_def by (simp_all add: demo_eval)
  have rcon: "\<not> rc_Enabled (ss_RCON (sv_Spec pending_server))" by (simp add: pending_server_def zero_defs)
  from emits_demo [OF combined_update_phases [OF demo_fresh, of pending_server pending_server]] ok rcon
  obtain bk de dn sh im rs ps o1 o2 o3 o4 o5 where "trace (snd demo_combined) = bk @ de @ dn @ sh @ im @ rs"
    "backup_phase (demo_ext pending_server) pending_server o1 bk" "deletion_phase ps o1 o2 de"
    "download_phase ''games'' ps o2 o3 dn" "shutdown_phase False o3 o4 sh"
    "image_phase (new_image (snd (fst demo_combined))) o4 o5 im" "restart_phase o5 True rs"
    unfolding demo_combined_def [symmetric] by (auto simp: split_beta)
  moreover from this have "o5" "o4" "o3" "o2" "o1" by (metis (full_types) success_reached)+
  moreover from calculation have "sh = []" by (simp add: shutdown_phase_def)
  ultimately have "trace (snd demo_combined) = bk @ de @ dn @ im @ rs \<and> list_ex snapshot_taken bk \<and> execs bk = []
      \<and> deletion_phase ps True True de \<and> download_phase ''games'' ps True True dn
      \<and> image_phase (new_image (snd (fst demo_combined))) True True im \<and> restart_phase True True rs"
    using demo_backup_wanted by (simp add: backup_phase_def)
  with ok(1) show ?thesis by blast
qed

text \<open>
  A plugin-only update restarts the pod whenever the backup, the deletions and the downloads
  succeeded, whether or not the graceful shutdown did.
\<close>

theorem plugin_only_update_phases:
  assumes "fresh_alive x"
  shows "emits (performPluginOnlyUpdate x server)
    (\<lambda>(r, s) u. \<exists>p sh rs o1. u = p @ sh @ rs \<and> prepared x server o1 p
       \<and> (if o1 \<and> rc_Enabled (ss_RCON (sv_Spec server)) then list_all shutdown_ev sh else sh = [])
       \<and> restart_phase o1 (is_ok r) rs)"
  using plugin_only_emits [OF assms] by (simp add: plugin_only_phases_def)

theorem plugin_only_update_phases_witness:
  "is_ok (fst (fst demo_plugin_only)) \<and>
   (\<exists>p rs. trace (snd demo_plugin_only) = p @ rs
      \<and> prepared (demo_ext pending_server) pending_server True p \<and> restart_phase True True rs)"
proof -
  have ok: "is_ok (fst (fst demo_plugin_only))" unfolding demo_plugin_only_def by (simp add: demo_eval)
  have rcon: "\<not> rc_Enabled (ss_RCON (sv_Spec pending_server))" by (simp add: pending_server_def zero_defs)
  from emits_demo [OF plugin_only_update_phases [OF demo_fresh, of pending_server pending_server]] ok rcon
  show ?thesis unfolding demo_plugin_only_def [symmetric]
    by (auto simp: split_beta restart_phase_def split: if_splits)
qed

text \<open>
  C25. For a schedule that keeps firing, the search for its last trigger ends, although it only looks
  back seven days, and the maintenance window is open exactly when the schedule fired at most one
  hour ago. For a schedule that never fires, for which \<^verbatim>\<open>Next\<close> returns the zero time, the search does
  not end and nothing is decided.
\<close>

theorem maintenance_window_exact:
  assumes "lookback < now"
  shows "(next_of T nxt \<longrightarrow>
      in_window nxt now = Some (\<exists>t\<in>T. t \<le> now \<and> now < t + maintenanceWindowDuration)) \<and>
    ((\<forall>t. nxt t = zero_time) \<longrightarrow> in_window nxt now = None)"
proof -
  have "zero_time \<le> now" using assms by (simp add: zero_time_def lookback_def)
  then have "in_window nxt now = None" if "\<forall>t. nxt t = zero_time"
    using that last_trigger_loop_diverges [of nxt now] by (simp add: in_window_def findLastCronTrigger_def)
  with in_window_correct [OF _ assms] show ?thesis by blast
qed

theorem maintenance_window_exact_witness:
  "in_window (\<lambda>t. (t div Minute + 1) * Minute) demo_time = Some True \<and>
   in_window (\<lambda>_. zero_time) demo_time = None"
proof -
  have now: "lookback < demo_time" by (simp add: demo_time_def lookback_def)
  have "next_of {t. Minute dvd t} (\<lambda>t. (t div Minute + 1) * Minute)" by (rule next_of_every) simp
  with maintenance_window_exact [OF now]
  have "in_window (\<lambda>t. (t div Minute + 1) * Minute) demo_time =
      Some (\<exists>t\<in>{t. Minute dvd t}. t \<le> demo_time \<and> demo_time < t + maintenanceWindowDuration)" by blast
  moreover have "\<exists>t\<in>{t. Minute dvd t}. t \<le> demo_time \<and> demo_time < t + maintenanceWindowDuration"
    by (auto simp: demo_time_def maintenanceWindowDuration_def intro!: exI [of _ demo_time])
  ultimately show ?thesis using maintenance_window_exact [OF now, of "{}" "\<lambda>_. zero_time"] by simp
qed

text \<open>
  For a schedule that never fires, whose \<^verbatim>\<open>Next\<close> returns the zero time, the search for the last
  trigger does not end.
\<close>

theorem maintenance_window_hangs:
  assumes "\<And>t. nxt t = zero_time" and "zero_time \<le> now"
  shows "findLastCronTrigger nxt now = None"
  unfolding findLastCronTrigger_def using assms by (rule last_trigger_loop_diverges)

theorem maintenance_window_hangs_witness:
  "findLastCronTrigger (\<lambda>_. zero_time) demo_time = None"
  by (rule maintenance_window_hangs) (simp_all add: zero_time_def demo_time_def)


text \<open>
  C36. Deletions. The only commands of \<open>deleteMarkedPlugins\<close> remove, in order, the JARs of the plugins
  marked for deletion that have one; when it succeeds, all of these removals succeeded.
\<close>

theorem marked_plugins_deleted:
  "emits (deleteMarkedPlugins x server)
     (\<lambda>r u. map fst (execs u) = map (\<lambda>p. rm_command (sp_InstalledJARName p))
          (filter (\<lambda>p. sp_PendingDeletion p \<and> sp_InstalledJARName p \<noteq> []) (st_Plugins (sv_Status server)))
        \<and> (if is_ok r then list_all (jar_removed (execs u)) (filter sp_PendingDeletion (st_Plugins (sv_Status server)))
           else True))"
  unfolding deleteMarkedPlugins_def getPluginsToDelete_filter Let_def
  by (intro tr_rules tr_bind_emits [OF deletion_loop_emits])
    (auto simp: filter_empty_conv list_all_iff conj_commute split: if_splits)

text \<open>
  When the first write of the final status meets a conflict, every later attempt writes the
  current version, the current build and the available update that the API server returned, not
  the ones the update established.
\<close>

theorem status_retry_loses_version:
  "emits (updateStatusWithRetry x server)
     (\<lambda>_ u. list_all (\<lambda>s. \<exists>ns n fresh. E_GetServer ns n (Inr fresh) \<in> set u
          \<and> st_CurrentVersion (sv_Status s) = st_CurrentVersion (sv_Status fresh)
          \<and> st_CurrentBuild (sv_Status s) = st_CurrentBuild (sv_Status fresh)
          \<and> st_AvailableUpdate (sv_Status s) = st_AvailableUpdate (sv_Status fresh))
        (tl (status_writes u)))"
  unfolding updateStatusWithRetry_def
  by (rule tr_weaken [OF retry_loop_writes]) (fastforce simp: list_all_iff reapplied_def reapply_status_def)

text \<open>
  A condition \<open>CronScheduleValid = False\<close> in the stored status outlives the maintenance window that
  caused it: once the window is disabled, every reconciliation ends after writing the status back,
  without touching the server and without a requeue, whatever update is pending.
\<close>

theorem stale_cron_condition_blocks:
  assumes "cron_condition_false x server" and "\<not> mw_Enabled (us_MaintenanceWindow (ss_UpdateSchedule (sv_Spec server)))"
  shows "emits (reconcile_fetched x server) (\<lambda>r u. list_all harmless u \<and> (\<exists>err. r = Some (0, err)))"
  unfolding reconcile_fetched_def manageCronSchedule_def Let_def status_update_def
  using assms by (simp, intro tr_rules tr_bind_emits [OF onlyD [OF removeCronJob_harmless]])
    (auto simp: harmless_def split: sum.split)

theorem stale_cron_condition_blocks_witness:
  "update_pending blocked_server \<and>
   emits (reconcile_fetched (demo_ext blocked_server) blocked_server)
     (\<lambda>r u. list_all harmless u \<and> (\<exists>err. r = Some (0, err)))"
proof -
  have "update_pending blocked_server" by (simp add: update_pending_def blocked_server_def pending_server_def)
  moreover have "cron_condition_false (demo_ext blocked_server) blocked_server"
    by (simp add: cron_condition_false_def blocked_server_def demo_FindStatusCondition_def mk_condition_def)
  moreover have "\<not> mw_Enabled (us_MaintenanceWindow (ss_UpdateSchedule (sv_Spec blocked_server)))"
    by (simp add: blocked_server_def pending_server_def zero_defs)
  ultimately show ?thesis using stale_cron_condition_blocks by blast
qed
end
