(* ===== verification/Version.thy ===== *)
theory Version
  imports Prelude
begin

section \<open>Version comparison and filtering (\<^verbatim>\<open>pkg/version\<close>)\<close>

text \<open>
  \<^verbatim>\<open>comparator.go\<close>, \<^verbatim>\<open>compare.go\<close> and \<^verbatim>\<open>match.go\<close>. The semantic-version library
  (\<^verbatim>\<open>Masterminds/semver\<close>) is a parameter: a record of its parser, its comparison and its
  \<^verbatim>\<open>GreaterThan\<close>. What the code relies on is \<open>semver_order\<close>: the comparison is a total preorder
  with values -1, 0, 1 and \<^verbatim>\<open>GreaterThan\<close> agrees with it, as the library documents.
\<close>

record 'v semver =
  NewVersion :: "string \<Rightarrow> 'v result"
  semver_Compare :: "'v \<Rightarrow> 'v \<Rightarrow> int"
  GreaterThan :: "'v \<Rightarrow> 'v \<Rightarrow> bool"

definition semver_order :: "'v semver \<Rightarrow> bool" where
  "semver_order SV \<longleftrightarrow>
     (\<forall>a b. semver_Compare SV a b \<in> {-1, 0, 1})
   \<and> (\<forall>a b. semver_Compare SV b a = - semver_Compare SV a b)
   \<and> (\<forall>a b c. semver_Compare SV a b \<le> 0 \<longrightarrow> semver_Compare SV b c \<le> 0 \<longrightarrow> semver_Compare SV a c \<le> 0)
   \<and> (\<forall>a b. GreaterThan SV a b \<longleftrightarrow> semver_Compare SV a b = 1)"

subsection \<open>comparator.go\<close>

record VersionInfo =
  vi_Version :: string
  vi_ReleaseDate :: time

definition ParseVersion :: "'v semver \<Rightarrow> string \<Rightarrow> 'v result" where
  "ParseVersion SV version =
     (case NewVersion SV version of
        Inl err \<Rightarrow> Inl (Wrapf err ''failed to parse version %q'' [AStr version])
      | Inr v \<Rightarrow> Inr v)"

definition CompareVersions :: "'v semver \<Rightarrow> string \<Rightarrow> string \<Rightarrow> int result" where
  "CompareVersions SV v1 v2 =
     (case ParseVersion SV v1 of
        Inl err \<Rightarrow> Inl (Wrap err ''failed to parse first version'')
      | Inr ver1 \<Rightarrow>
          (case ParseVersion SV v2 of
             Inl err \<Rightarrow> Inl (Wrap err ''failed to parse second version'')
           | Inr ver2 \<Rightarrow> Inr (semver_Compare SV ver1 ver2)))"

text \<open>The result of \<^verbatim>\<open>time.Now()\<close> is the argument \<open>now\<close>.\<close>

definition FilterByUpdateDelay :: "time \<Rightarrow> VersionInfo list \<Rightarrow> duration \<Rightarrow> VersionInfo list" where
  "FilterByUpdateDelay now versions delay =
     (if delay = 0 then versions
      else let cutoff = now - delay
           in filter (\<lambda>v. vi_ReleaseDate v < cutoff \<or> vi_ReleaseDate v = cutoff) versions)"

text \<open>The loop of \<^verbatim>\<open>FindMaxVersion\<close>: the best version so far, with the string it came from.\<close>

fun find_max_loop :: "'v semver \<Rightarrow> ('v \<times> string) option \<Rightarrow> string list \<Rightarrow> ('v \<times> string) option" where
  "find_max_loop SV best [] = best"
| "find_max_loop SV best (v # vs) =
     (case ParseVersion SV v of
        Inl _ \<Rightarrow> find_max_loop SV best vs
      | Inr ver \<Rightarrow>
          (case best of
             None \<Rightarrow> find_max_loop SV (Some (ver, v)) vs
           | Some (maxVer, maxStr) \<Rightarrow>
               if GreaterThan SV ver maxVer then find_max_loop SV (Some (ver, v)) vs
               else find_max_loop SV best vs))"

definition FindMaxVersion :: "'v semver \<Rightarrow> string list \<Rightarrow> string result" where
  "FindMaxVersion SV versions =
     (if versions = [] then Inr []
      else case find_max_loop SV None versions of
             None \<Rightarrow> Inl (New ''no valid versions found'')
           | Some (_, maxStr) \<Rightarrow> Inr maxStr)"

subsection \<open>compare.go\<close>

definition Latest :: string where "Latest = ''latest''"

definition Compare :: "'v semver \<Rightarrow> string \<Rightarrow> string \<Rightarrow> int result" where
  "Compare SV v1 v2 =
     (if v1 = Latest \<or> v2 = Latest then
        (if v1 = v2 then Inr 0 else if v1 = Latest then Inr 1 else Inr (-1))
      else case NewVersion SV v1 of
             Inl err \<Rightarrow> Inl (Wrapf err ''invalid version: %s'' [AStr v1])
           | Inr ver1 \<Rightarrow>
               (case NewVersion SV v2 of
                  Inl err \<Rightarrow> Inl (Wrapf err ''invalid version: %s'' [AStr v2])
                | Inr ver2 \<Rightarrow> Inr (semver_Compare SV ver1 ver2)))"

definition IsDowngrade :: "'v semver \<Rightarrow> string \<Rightarrow> string \<Rightarrow> bool result" where
  "IsDowngrade SV currentVersion candidateVersion =
     (case Compare SV candidateVersion currentVersion of
        Inl err \<Rightarrow> Inl err
      | Inr cmp \<Rightarrow> Inr (cmp < 0))"

subsection \<open>match.go\<close>

definition MatchesVersionPattern :: "string \<Rightarrow> string \<Rightarrow> bool" where
  "MatchesVersionPattern pattern target =
     (if 2 < length pattern \<and> drop (length pattern - 2) pattern = ''.x''
      then let prefix = take (length pattern - 1) pattern
           in length prefix \<le> length target \<and> take (length prefix) target = prefix
      else False)"

fun ContainsVersion :: "string list \<Rightarrow> string \<Rightarrow> bool" where
  "ContainsVersion [] target = False"
| "ContainsVersion (v # vs) target =
     (if v = target then True
      else if MatchesVersionPattern v target then True
      else ContainsVersion vs target)"

subsection \<open>The order of parsed version strings\<close>

text \<open>\<open>newer SV s t\<close>: both strings parse and the version of \<open>s\<close> is greater than that of \<open>t\<close>.\<close>

definition parseable :: "'v semver \<Rightarrow> string \<Rightarrow> bool" where
  "parseable SV s \<longleftrightarrow> (case NewVersion SV s of Inl _ \<Rightarrow> False | Inr _ \<Rightarrow> True)"

definition newer :: "'v semver \<Rightarrow> string \<Rightarrow> string \<Rightarrow> bool" where
  "newer SV s t =
     (case NewVersion SV s of
        Inl _ \<Rightarrow> False
      | Inr v \<Rightarrow> (case NewVersion SV t of Inl _ \<Rightarrow> False | Inr w \<Rightarrow> GreaterThan SV v w))"

lemma newer_parseable: "newer SV s t \<Longrightarrow> parseable SV s \<and> parseable SV t"
  by (auto simp: newer_def parseable_def split: sum.splits)

lemma semver_antisym: "semver_order SV \<Longrightarrow> semver_Compare SV b a = - semver_Compare SV a b"
  unfolding semver_order_def by blast

lemma semver_range: "semver_order SV \<Longrightarrow> semver_Compare SV a b \<in> {-1, 0, 1}"
  unfolding semver_order_def by blast

lemma semver_trans:
  "semver_order SV \<Longrightarrow> semver_Compare SV a b \<le> 0 \<Longrightarrow> semver_Compare SV b c \<le> 0
   \<Longrightarrow> semver_Compare SV a c \<le> 0"
  unfolding semver_order_def by blast

lemma semver_refl: "semver_order SV \<Longrightarrow> semver_Compare SV a a = 0"
  using semver_antisym [of SV a a] by simp

lemma GreaterThan_iff:
  assumes "semver_order SV"
  shows "GreaterThan SV a b \<longleftrightarrow> 0 < semver_Compare SV a b"
proof -
  have "GreaterThan SV a b \<longleftrightarrow> semver_Compare SV a b = 1"
    using assms unfolding semver_order_def by blast
  with semver_range [OF assms, of a b] show ?thesis by auto
qed

lemma not_GreaterThan_trans:
  assumes "semver_order SV" "\<not> GreaterThan SV a b" "\<not> GreaterThan SV b c"
  shows "\<not> GreaterThan SV a c"
  using assms semver_trans [OF assms(1), of a b c] by (simp add: GreaterThan_iff [OF assms(1)])

lemma newer_irrefl: "semver_order SV \<Longrightarrow> \<not> newer SV s s"
  by (auto simp: newer_def GreaterThan_iff semver_refl split: sum.splits)

lemma GreaterThan_asym: "semver_order SV \<Longrightarrow> GreaterThan SV a b \<Longrightarrow> \<not> GreaterThan SV b a"
  using semver_antisym [of SV b a] by (simp add: GreaterThan_iff)

lemma newer_asym: "semver_order SV \<Longrightarrow> newer SV s t \<Longrightarrow> \<not> newer SV t s"
  by (auto simp: newer_def split: sum.splits dest: GreaterThan_asym)

lemma newer_not_trans:
  "semver_order SV \<Longrightarrow> parseable SV t \<Longrightarrow> \<not> newer SV s t \<Longrightarrow> \<not> newer SV t u \<Longrightarrow> \<not> newer SV s u"
  by (auto simp: newer_def parseable_def split: sum.splits dest: not_GreaterThan_trans)

subsection \<open>A concrete version library for the witnesses\<close>

text \<open>Dotted numbers, compared from the left, with a missing number before any number.\<close>

fun split_dots :: "string \<Rightarrow> string \<Rightarrow> string list" where
  "split_dots acc [] = [rev acc]"
| "split_dots acc (c # cs) =
     (if c = CHR ''.'' then rev acc # split_dots [] cs else split_dots (c # acc) cs)"

fun lex_compare :: "int list \<Rightarrow> int list \<Rightarrow> int" where
  "lex_compare [] [] = 0"
| "lex_compare [] (_ # _) = -1"
| "lex_compare (_ # _) [] = 1"
| "lex_compare (x # xs) (y # ys) = (if x < y then -1 else if y < x then 1 else lex_compare xs ys)"

definition dotted :: "int list semver" where
  "dotted =
     \<lparr>NewVersion = (\<lambda>s.
        (let parts = split_dots [] s
         in if list_all (\<lambda>p. p \<noteq> [] \<and> list_all is_digit p) parts
            then Inr (map (digits_value 0) parts) else Inl (New ''Invalid Semantic Version''))),
      semver_Compare = lex_compare,
      GreaterThan = (\<lambda>a b. lex_compare a b = 1)\<rparr>"

lemma lex_compare_range: "lex_compare a b \<in> {-1, 0, 1}"
  by (induction a b rule: lex_compare.induct) auto

lemma lex_compare_antisym: "lex_compare b a = - lex_compare a b"
  by (induction a b rule: lex_compare.induct) auto

lemma lex_compare_trans: "lex_compare a b \<le> 0 \<Longrightarrow> lex_compare b c \<le> 0 \<Longrightarrow> lex_compare a c \<le> 0"
proof (induction a b arbitrary: c rule: lex_compare.induct)
  case (2 y ys)
  then show ?case by (cases c) auto
next
  case (4 x xs y ys)
  show ?case
  proof (cases c)
    case (Cons z zs)
    have IH: "x = y \<Longrightarrow> lex_compare xs ys \<le> 0 \<Longrightarrow> lex_compare ys zs \<le> 0 \<Longrightarrow> lex_compare xs zs \<le> 0"
      using "4.IH" [of zs] by blast
    show ?thesis using IH "4.prems" Cons by (auto split: if_split_asm)
  qed (use "4.prems" in simp)
qed auto

lemma dotted_order: "semver_order dotted"
  unfolding semver_order_def
proof (intro conjI allI impI)
  fix a b c
  show "semver_Compare dotted a b \<in> {-1, 0, 1}" using lex_compare_range by (simp add: dotted_def)
  show "semver_Compare dotted b a = - semver_Compare dotted a b"
    using lex_compare_antisym [of b a] by (simp add: dotted_def)
  show "semver_Compare dotted a b \<le> 0 \<Longrightarrow> semver_Compare dotted b c \<le> 0
        \<Longrightarrow> semver_Compare dotted a c \<le> 0"
    using lex_compare_trans by (simp add: dotted_def)
  show "GreaterThan dotted a b = (semver_Compare dotted a b = 1)" by (simp add: dotted_def)
qed

lemmas dotted_eval = dotted_def is_digit_def digit_value_def

subsection \<open>Properties\<close>

lemma MatchesVersionPattern_iff:
  "MatchesVersionPattern pattern target \<longleftrightarrow>
     (\<exists>p r. p \<noteq> [] \<and> pattern = p @ ''.x'' \<and> target = p @ ''.'' @ r)"
  (is "_ = ?R")
proof (cases "2 < length pattern \<and> drop (length pattern - 2) pattern = ''.x''")
  case True
  define p where "p = take (length pattern - 2) pattern"
  from True have pat: "pattern = p @ ''.x''" and "p \<noteq> []"
    unfolding p_def by (metis append_take_drop_id, auto)
  moreover from pat have "take (length pattern - 1) pattern = p @ ''.''" by simp
  ultimately show ?thesis
    using True by (auto simp: MatchesVersionPattern_def Let_def)
      (metis append.assoc append_Cons append_Nil append_take_drop_id)
next
  case False
  then show ?thesis by (auto simp: MatchesVersionPattern_def)
qed

lemma find_max_loop_inv:
  assumes "semver_order SV"
  shows "find_max_loop SV best vs = Some (m, s) \<Longrightarrow>
    ((best = Some (m, s) \<or> s \<in> set vs \<and> NewVersion SV s = Inr m)
     \<and> (\<forall>m0 s0. best = Some (m0, s0) \<longrightarrow> \<not> GreaterThan SV m0 m)
     \<and> (\<forall>t v. t \<in> set vs \<longrightarrow> NewVersion SV t = Inr v \<longrightarrow> \<not> GreaterThan SV v m))"
proof (induction vs arbitrary: best)
  case Nil
  then show ?case using assms by (simp add: GreaterThan_iff semver_refl)
next
  case (Cons v vs)
  note asym = GreaterThan_asym [OF assms] and tr = not_GreaterThan_trans [OF assms]
  show ?case
  proof (cases "NewVersion SV v")
    case (Inl e)
    with Cons.prems have "find_max_loop SV best vs = Some (m, s)" by (simp add: ParseVersion_def)
    from Cons.IH [OF this] Inl show ?thesis by auto
  next
    case (Inr w)
    show ?thesis
    proof (cases best)
      case None
      with Cons.prems Inr have "find_max_loop SV (Some (w, v)) vs = Some (m, s)"
        by (simp add: ParseVersion_def)
      from Cons.IH [OF this] Inr None show ?thesis by auto
    next
      case (Some b)
      obtain m0 s0 where b: "b = (m0, s0)" by (cases b)
      show ?thesis
      proof (cases "GreaterThan SV w m0")
        case True
        with Cons.prems Inr Some b have "find_max_loop SV (Some (w, v)) vs = Some (m, s)"
          by (simp add: ParseVersion_def)
        note IH = Cons.IH [OF this]
        have "\<not> GreaterThan SV w m" using IH by blast
        moreover have "\<not> GreaterThan SV m0 m" using tr [OF asym [OF True] calculation] .
        ultimately show ?thesis using IH Inr Some b by auto
      next
        case False
        with Cons.prems Inr Some b have "find_max_loop SV best vs = Some (m, s)"
          by (simp add: ParseVersion_def)
        note IH = Cons.IH [OF this]
        have "\<not> GreaterThan SV m0 m" using IH Some b by blast
        with tr [OF False this] show ?thesis using IH Inr Some b by auto
      qed
    qed
  qed
qed

lemma find_max_loop_None_iff:
  "find_max_loop SV best vs = None \<longleftrightarrow> best = None \<and> (\<forall>v \<in> set vs. \<not> parseable SV v)"
  by (induction SV best vs rule: find_max_loop.induct)
     (auto simp: ParseVersion_def parseable_def split: sum.splits option.splits)

text \<open>
  \<^verbatim>\<open>ContainsVersion\<close> accepts exactly the listed versions and, for a listed glob \<^verbatim>\<open>P.x\<close> with a
  non-empty \<^verbatim>\<open>P\<close>, the versions that start with \<^verbatim>\<open>P.\<close>.
\<close>

theorem ContainsVersion_iff:
  "ContainsVersion versions target \<longleftrightarrow>
     target \<in> set versions
   \<or> (\<exists>p r. p \<noteq> [] \<and> p @ ''.x'' \<in> set versions \<and> target = p @ ''.'' @ r)"
  by (induction versions) (auto simp: MatchesVersionPattern_iff)

text \<open>
  \<^verbatim>\<open>FindMaxVersion\<close> returns one of its arguments that parses and that no other argument
  exceeds; on a non-empty list it fails exactly when no argument parses.
\<close>

theorem FindMaxVersion_correct:
  assumes "semver_order SV" and "versions \<noteq> []"
  shows "case FindMaxVersion SV versions of
           Inr m \<Rightarrow> m \<in> set versions \<and> parseable SV m \<and> (\<nexists>v. v \<in> set versions \<and> newer SV v m)
         | Inl _ \<Rightarrow> (\<nexists>v. v \<in> set versions \<and> parseable SV v)"
proof (cases "find_max_loop SV None versions")
  case None
  moreover from None have "\<forall>v \<in> set versions. \<not> parseable SV v"
    by (simp add: find_max_loop_None_iff)
  ultimately show ?thesis using assms(2) by (auto simp: FindMaxVersion_def)
next
  case (Some b)
  obtain m s where b: "b = (m, s)" by (cases b)
  from find_max_loop_inv [OF assms(1) Some [unfolded b]] assms(2) Some b
  show ?thesis by (auto simp: FindMaxVersion_def newer_def parseable_def split: sum.splits)
qed

theorem FindMaxVersion_correct_witness:
  "FindMaxVersion dotted [''1.9'', ''x'', ''1.21''] = Inr ''1.21''
   \<and> (\<nexists>v. v \<in> set [''1.9'', ''x'', ''1.21''] \<and> newer dotted v ''1.21'')"
proof -
  have ev: "FindMaxVersion dotted [''1.9'', ''x'', ''1.21''] = Inr ''1.21''"
    by (simp add: FindMaxVersion_def ParseVersion_def dotted_eval Let_def)
  from FindMaxVersion_correct [OF dotted_order, of "[''1.9'', ''x'', ''1.21'']"] ev
  show ?thesis by simp
qed

text \<open>
  \<^verbatim>\<open>IsDowngrade\<close> is a strict order on what it accepts: no version is a downgrade from itself,
  no pair is a downgrade both ways, and nothing is a downgrade to \<^verbatim>\<open>latest\<close>.
\<close>

theorem IsDowngrade_strict:
  assumes "semver_order SV"
  shows "IsDowngrade SV v v \<noteq> Inr True
       \<and> \<not> (IsDowngrade SV v w = Inr True \<and> IsDowngrade SV w v = Inr True)
       \<and> IsDowngrade SV v Latest = Inr False"
proof -
  have "semver_Compare SV a b < 0 \<Longrightarrow> \<not> semver_Compare SV b a < 0" for a b
    using semver_antisym [OF assms, of b a] by simp
  with semver_refl [OF assms] show ?thesis
    by (auto simp: IsDowngrade_def Compare_def split: sum.splits if_splits)
qed

theorem IsDowngrade_strict_witness:
  "IsDowngrade dotted ''1.21'' ''1.9'' = Inr True \<and> IsDowngrade dotted ''1.9'' ''1.21'' \<noteq> Inr True"
proof -
  have "IsDowngrade dotted ''1.21'' ''1.9'' = Inr True"
    by (simp add: IsDowngrade_def Compare_def Latest_def dotted_eval Let_def)
  with IsDowngrade_strict [OF dotted_order, of "''1.21''" "''1.9''"] show ?thesis by blast
qed

end
