(* ===== verification/PluginClient.thy ===== *)
theory PluginClient
  imports Prelude
begin

section \<open>Plugin repository data and the caching client (\<^verbatim>\<open>pkg/plugins/client.go\<close>, \<^verbatim>\<open>cache.go\<close>)\<close>

text \<open>
  \<^verbatim>\<open>CachedPluginClient\<close> keeps the answers of an underlying \<^verbatim>\<open>PluginClient\<close> for a fixed time. The
  underlying client is a parameter: a record of its two methods over a state \<open>'w\<close>. Each method of
  the cache reads the clock twice, once for the lookup (\<open>now\<close>) and once when it stores an answer
  (\<open>now'\<close>). The read-write mutex makes each map access atomic; one call is one transition here.
\<close>

record PluginVersion =
  pv_Version :: string
  pv_ReleaseDate :: time
  pv_PaperVersions :: "string list"
  pv_MinecraftVersions :: "string list"
  pv_DownloadURL :: string
  pv_Hash :: string

record CompatibilityInfo =
  ci_MinecraftVersions :: "string list"
  ci_PaperVersions :: "string list"

record 'w pluginClient =
  pc_GetVersions :: "string \<Rightarrow> 'w \<Rightarrow> PluginVersion list result \<times> 'w"
  pc_GetCompatibility :: "string \<Rightarrow> string \<Rightarrow> 'w \<Rightarrow> CompatibilityInfo result \<times> 'w"

record cacheEntry =
  ce_versions :: "PluginVersion list"
  ce_compat :: CompatibilityInfo
  ce_expiresAt :: time
  ce_isVersions :: bool

record CachedPluginClient =
  cc_cache :: "string \<rightharpoonup> cacheEntry"
  cc_ttl :: duration

definition NewCachedPluginClient :: "duration \<Rightarrow> CachedPluginClient" where
  "NewCachedPluginClient ttl = \<lparr>cc_cache = Map.empty, cc_ttl = ttl\<rparr>"

definition versions_key :: "string \<Rightarrow> string" where
  "versions_key project = ''versions:'' @ project"

definition compat_prefix :: "string \<Rightarrow> string" where
  "compat_prefix project = ''compat:'' @ project @ '':''"

definition compat_key :: "string \<Rightarrow> string \<Rightarrow> string" where
  "compat_key project version = ''compat:'' @ project @ '':'' @ version"

definition empty_compat :: CompatibilityInfo where
  "empty_compat = \<lparr>ci_MinecraftVersions = [], ci_PaperVersions = []\<rparr>"

definition GetVersions ::
  "'w pluginClient \<Rightarrow> time \<Rightarrow> time \<Rightarrow> string \<Rightarrow> CachedPluginClient \<Rightarrow> 'w
   \<Rightarrow> PluginVersion list result \<times> CachedPluginClient \<times> 'w" where
  "GetVersions PC now now' project c w =
     (let cacheKey = versions_key project in
      let hit = (case cc_cache c cacheKey of
                   None \<Rightarrow> None
                 | Some e \<Rightarrow> if ce_isVersions e \<and> now < ce_expiresAt e then Some (ce_versions e) else None)
      in case hit of
           Some vs \<Rightarrow> (Inr vs, c, w)
         | None \<Rightarrow>
             (case pc_GetVersions PC project w of
                (Inl err, w') \<Rightarrow> (Inl (Wrap err ''failed to fetch versions''), c, w')
              | (Inr vs, w') \<Rightarrow>
                  (Inr vs,
                   c\<lparr>cc_cache := (cc_cache c)(cacheKey \<mapsto>
                       \<lparr>ce_versions = vs, ce_compat = empty_compat,
                        ce_expiresAt = now' + cc_ttl c, ce_isVersions = True\<rparr>)\<rparr>,
                   w')))"

definition GetCompatibility ::
  "'w pluginClient \<Rightarrow> time \<Rightarrow> time \<Rightarrow> string \<Rightarrow> string \<Rightarrow> CachedPluginClient \<Rightarrow> 'w
   \<Rightarrow> CompatibilityInfo result \<times> CachedPluginClient \<times> 'w" where
  "GetCompatibility PC now now' project version c w =
     (let cacheKey = compat_key project version in
      let hit = (case cc_cache c cacheKey of
                   None \<Rightarrow> None
                 | Some e \<Rightarrow> if \<not> ce_isVersions e \<and> now < ce_expiresAt e then Some (ce_compat e) else None)
      in case hit of
           Some ci \<Rightarrow> (Inr ci, c, w)
         | None \<Rightarrow>
             (case pc_GetCompatibility PC project version w of
                (Inl err, w') \<Rightarrow> (Inl (Wrap err ''failed to fetch compatibility''), c, w')
              | (Inr ci, w') \<Rightarrow>
                  (Inr ci,
                   c\<lparr>cc_cache := (cc_cache c)(cacheKey \<mapsto>
                       \<lparr>ce_versions = [], ce_compat = ci,
                        ce_expiresAt = now' + cc_ttl c, ce_isVersions = False\<rparr>)\<rparr>,
                   w')))"

definition ClearCache :: "CachedPluginClient \<Rightarrow> CachedPluginClient" where
  "ClearCache c = c\<lparr>cc_cache := Map.empty\<rparr>"

definition ClearProject :: "string \<Rightarrow> CachedPluginClient \<Rightarrow> CachedPluginClient" where
  "ClearProject project c =
     c\<lparr>cc_cache := (\<lambda>key.
         if key = versions_key project
            \<or> length (compat_prefix project) \<le> length key
              \<and> take (length (compat_prefix project)) key = compat_prefix project
         then None else cc_cache c key)\<rparr>"

subsection \<open>Properties\<close>

lemma versions_key_simps [simp]:
  "versions_key p = versions_key q \<longleftrightarrow> p = q"
  "versions_key p \<noteq> compat_key q v"
  "take (length (compat_prefix q)) (versions_key p) \<noteq> compat_prefix q"
  by (auto simp: versions_key_def compat_key_def compat_prefix_def)

lemma compat_key_prefix [simp]:
  "compat_key p v = compat_prefix p @ v"
  by (simp add: compat_key_def compat_prefix_def)

text \<open>
  Freshness of the cache: whatever \<^verbatim>\<open>GetVersions\<close> last fetched for a project is what it
  returns, without asking the repository, until exactly the time to live has passed since the answer
  was stored; from then on it asks the repository again and hands its answer through.
\<close>

theorem GetVersions_cache:
  assumes "pc_GetVersions PC project w = (Inr vs, w1)"
    and "\<forall>e. cc_cache c (versions_key project) = Some e \<longrightarrow> \<not> (ce_isVersions e \<and> t0 < ce_expiresAt e)"
    and "GetVersions PC t0 t1 project c w = (r, c1, w2)"
  shows "r = Inr vs \<and> w2 = w1
       \<and> (let g = GetVersions PC t t' project c1 w2
          in if t < t1 + cc_ttl c then g = (Inr vs, c1, w2)
             else (fst g, snd (snd g)) =
                    (case pc_GetVersions PC project w2 of
                       (Inl err, w3) \<Rightarrow> (Inl (Wrap err ''failed to fetch versions''), w3)
                     | (Inr vs', w3) \<Rightarrow> (Inr vs', w3)))"
proof -
  from assms(2) have "(case cc_cache c (versions_key project) of None \<Rightarrow> None
      | Some e \<Rightarrow> if ce_isVersions e \<and> t0 < ce_expiresAt e then Some (ce_versions e) else None) = None"
    by (auto split: option.splits)
  with assms(1,3) show ?thesis
    by (auto simp: GetVersions_def Let_def split: prod.splits sum.splits)
qed

definition one_shot_client :: "nat pluginClient" where
  "one_shot_client =
     \<lparr>pc_GetVersions = (\<lambda>p n. (Inr [\<lparr>pv_Version = p, pv_ReleaseDate = int n, pv_PaperVersions = [],
          pv_MinecraftVersions = [], pv_DownloadURL = [], pv_Hash = []\<rparr>], Suc n)),
      pc_GetCompatibility = (\<lambda>p v n. (Inr empty_compat, Suc n))\<rparr>"

theorem GetVersions_cache_witness:
  "\<exists>vs c1. GetVersions one_shot_client 100 100 ''ess'' (NewCachedPluginClient 50) 0 = (Inr vs, c1, 1)
     \<and> GetVersions one_shot_client 120 121 ''ess'' c1 1 = (Inr vs, c1, 1)
     \<and> fst (GetVersions one_shot_client 150 151 ''ess'' c1 1) \<noteq> Inr vs"
proof -
  obtain r c1 w2 where g: "GetVersions one_shot_client 100 100 ''ess'' (NewCachedPluginClient 50) 0 = (r, c1, w2)"
    by (metis prod_cases3)
  obtain vs where f: "pc_GetVersions one_shot_client ''ess'' 0 = (Inr vs, 1)"
    by (simp add: one_shot_client_def)
  have e: "\<forall>e. cc_cache (NewCachedPluginClient 50) (versions_key ''ess'') = Some e
             \<longrightarrow> \<not> (ce_isVersions e \<and> 100 < ce_expiresAt e)"
    and ttl: "cc_ttl (NewCachedPluginClient 50) = 50"
    by (simp_all add: NewCachedPluginClient_def)
  note th = GetVersions_cache [OF f e g, unfolded ttl]
  from th [of 120 121] have r: "r = Inr vs" "w2 = 1" by simp_all
  from th [of 120 121] r have "GetVersions one_shot_client 120 121 ''ess'' c1 1 = (Inr vs, c1, 1)"
    by (simp add: Let_def)
  moreover have "fst (GetVersions one_shot_client 150 151 ''ess'' c1 1) \<noteq> Inr vs"
    using th [of 150 151] f r by (auto simp: one_shot_client_def Let_def)
  ultimately show ?thesis using g r by auto
qed

text \<open>
  \<^verbatim>\<open>ClearProject\<close> forgets every cached answer of the project, versions and compatibility of any
  version, and keeps the cached versions of every other project.
\<close>

theorem ClearProject_effect:
  "cc_cache (ClearProject p c) (versions_key p) = None
   \<and> (\<forall>v. cc_cache (ClearProject p c) (compat_key p v) = None)
   \<and> (\<forall>q. q = p \<or> cc_cache (ClearProject p c) (versions_key q) = cc_cache c (versions_key q))"
  by (auto simp: ClearProject_def)

text \<open>
  The key of a compatibility entry joins project and version with a colon, so it tells two projects
  apart only while their names have no colon.
\<close>

lemma compat_key_inj:
  assumes "CHR '':'' \<notin> set p" "CHR '':'' \<notin> set q" "compat_key p v = compat_key q u"
  shows "p = q \<and> v = u"
proof -
  from assms(3) have eq: "p @ '':'' @ v = q @ '':'' @ u" by (simp add: compat_prefix_def)
  have "takeWhile (\<lambda>c. c \<noteq> CHR '':'') (p @ '':'' @ v) = p"
    and "takeWhile (\<lambda>c. c \<noteq> CHR '':'') (q @ '':'' @ u) = q"
    by (subst takeWhile_append2; use assms(1,2) in auto)+
  with eq have "p = q" by metis
  with eq show ?thesis by simp
qed

lemma compat_key_collision: "compat_key ''a:b'' ''c'' = compat_key ''a'' ''b:c''"
  by (simp add: compat_prefix_def)

end
