(* ===== verification/Solver.thy ===== *)
theory Solver
  imports ApiTypes Version PluginClient
begin

section \<open>The compatibility solver (\<^verbatim>\<open>pkg/solver\<close>)\<close>

text \<open>
  \<^verbatim>\<open>SimpleSolver\<close> of \<^verbatim>\<open>simple_solver.go\<close>: filter the versions by age, sort them in descending order
  with two nested loops of exchanges on a copy of the slice, and take the first version that is
  compatible with every server (for a plugin) or that every plugin supports (for Paper). The sort
  leaves a version that does not parse where it is. The clock is the argument \<open>now\<close> and the
  semantic-version library the argument \<open>SV\<close>.
\<close>

definition updateStrategyLatest :: string where "updateStrategyLatest = ''latest''"
definition updateStrategyAuto :: string where "updateStrategyAuto = ''auto''"
definition updateStrategyPin :: string where "updateStrategyPin = ''pin''"
definition updateStrategyBuildPin :: string where "updateStrategyBuildPin = ''build-pin''"

lemmas strategy_defs = updateStrategyLatest_def updateStrategyAuto_def updateStrategyPin_def
  updateStrategyBuildPin_def

subsection \<open>Filtering and sorting\<close>

definition filterByDelay :: "time \<Rightarrow> PluginVersion list \<Rightarrow> duration \<Rightarrow> PluginVersion list" where
  "filterByDelay now versions delay =
     (if delay = 0 then versions
      else let cutoff = now - delay
           in filter (\<lambda>v. pv_ReleaseDate v < cutoff \<or> pv_ReleaseDate v = cutoff) versions)"

text \<open>
  The two loops of \<^verbatim>\<open>sortVersionsDesc\<close> and \<^verbatim>\<open>sortPaperVersionsDesc\<close>, over the test \<open>gt\<close> "both parse
  and the second is greater than the first".
\<close>

definition swap :: "'a list \<Rightarrow> nat \<Rightarrow> nat \<Rightarrow> 'a list" where
  "swap xs i j = xs[i := xs ! j, j := xs ! i]"

function sort_inner :: "('a \<Rightarrow> 'a \<Rightarrow> bool) \<Rightarrow> nat \<Rightarrow> nat \<Rightarrow> 'a list \<Rightarrow> 'a list" where
  "sort_inner gt i j xs =
     (if j < length xs
      then sort_inner gt i (Suc j) (if gt (xs ! j) (xs ! i) then swap xs i j else xs)
      else xs)"
  by pat_completeness auto
termination
  by (relation "measure (\<lambda>(gt, i, j, xs). length xs - j)") (auto simp: swap_def)

declare sort_inner.simps [simp del]

lemma length_sort_inner [simp]: "length (sort_inner gt i j xs) = length xs"
proof (induction gt i j xs rule: sort_inner.induct)
  case (1 gt i j xs)
  then show ?case by (subst sort_inner.simps) (simp add: swap_def split: if_splits)
qed

function sort_outer :: "('a \<Rightarrow> 'a \<Rightarrow> bool) \<Rightarrow> nat \<Rightarrow> 'a list \<Rightarrow> 'a list" where
  "sort_outer gt i xs =
     (if i < length xs - 1 then sort_outer gt (Suc i) (sort_inner gt i (Suc i) xs) else xs)"
  by pat_completeness auto
termination
  by (relation "measure (\<lambda>(gt, i, xs). length xs - 1 - i)") auto

declare sort_outer.simps [simp del]

definition sortVersionsDesc :: "'v semver \<Rightarrow> PluginVersion list \<Rightarrow> PluginVersion list" where
  "sortVersionsDesc SV versions =
     sort_outer (\<lambda>a b. newer SV (pv_Version a) (pv_Version b)) 0 versions"

definition sortPaperVersionsDesc :: "'v semver \<Rightarrow> string list \<Rightarrow> string list" where
  "sortPaperVersionsDesc SV versions = sort_outer (newer SV) 0 versions"

subsection \<open>Plugin versions\<close>

definition isPluginCompatibleWithServer :: "PluginVersion \<Rightarrow> PaperMCServer \<Rightarrow> Plugin \<Rightarrow> bool" where
  "isPluginCompatibleWithServer pv server plugin =
     (let paperVersion = (if st_CurrentVersion (sv_Status server) = []
                          then ss_Version (sv_Spec server) else st_CurrentVersion (sv_Status server))
      in case ps_CompatibilityOverride (pl_Spec plugin) of
           Some ov \<Rightarrow>
             if co_Enabled ov then
               (if co_MinecraftVersions ov \<noteq> []
                then ContainsVersion (co_MinecraftVersions ov) paperVersion else True)
             else if pv_MinecraftVersions pv = [] \<and> pv_PaperVersions pv = [] then True
             else ContainsVersion (pv_MinecraftVersions pv) paperVersion
                  \<or> ContainsVersion (pv_PaperVersions pv) paperVersion
         | None \<Rightarrow>
             if pv_MinecraftVersions pv = [] \<and> pv_PaperVersions pv = [] then True
             else ContainsVersion (pv_MinecraftVersions pv) paperVersion
                  \<or> ContainsVersion (pv_PaperVersions pv) paperVersion)"

definition checkPinnedPluginVersion :: "Plugin \<Rightarrow> string" where
  "checkPinnedPluginVersion plugin =
     (let strategy = (if ps_UpdateStrategy (pl_Spec plugin) = [] then updateStrategyLatest
                      else ps_UpdateStrategy (pl_Spec plugin))
      in if strategy = updateStrategyPin \<or> strategy = updateStrategyBuildPin then
           (if ps_Version (pl_Spec plugin) \<noteq> [] then ps_Version (pl_Spec plugin) else [])
         else if strategy = ''pinned'' then
           (if ps_Version (pl_Spec plugin) \<noteq> [] then ps_Version (pl_Spec plugin) else [])
         else [])"

definition filterAndSortPluginVersions ::
  "'v semver \<Rightarrow> time \<Rightarrow> Plugin \<Rightarrow> PluginVersion list \<Rightarrow> PluginVersion list result" where
  "filterAndSortPluginVersions SV now plugin allVersions =
     (let delay = (case ps_UpdateDelay (pl_Spec plugin) of None \<Rightarrow> 0 | Some d \<Rightarrow> d);
          filteredVersions = filterByDelay now allVersions delay
      in if filteredVersions = [] then Inl (New ''no versions available after updateDelay filtering'')
         else Inr (sortVersionsDesc SV filteredVersions))"

fun findCompatiblePluginVersion ::
  "PluginVersion list \<Rightarrow> PaperMCServer list \<Rightarrow> Plugin \<Rightarrow> string result" where
  "findCompatiblePluginVersion [] servers plugin =
     Inl (New ''no plugin version compatible with all matched servers'')"
| "findCompatiblePluginVersion (pv # pvs) servers plugin =
     (if list_all (\<lambda>server. isPluginCompatibleWithServer pv server plugin) servers
      then Inr (pv_Version pv)
      else findCompatiblePluginVersion pvs servers plugin)"

definition FindBestPluginVersion ::
  "'v semver \<Rightarrow> time \<Rightarrow> Plugin \<Rightarrow> PaperMCServer list \<Rightarrow> PluginVersion list \<Rightarrow> string result" where
  "FindBestPluginVersion SV now plugin servers allVersions =
     (if allVersions = [] then Inl (New ''no versions available'')
      else if servers = [] then Inl (New ''no servers matched by selector'')
      else if checkPinnedPluginVersion plugin \<noteq> [] then Inr (checkPinnedPluginVersion plugin)
      else case filterAndSortPluginVersions SV now plugin allVersions of
             Inl err \<Rightarrow> Inl err
           | Inr sortedVersions \<Rightarrow> findCompatiblePluginVersion sortedVersions servers plugin)"

subsection \<open>Paper versions\<close>

fun isPaperVersionCompatibleWithAllPlugins :: "string \<Rightarrow> Plugin list \<Rightarrow> bool" where
  "isPaperVersionCompatibleWithAllPlugins paperVer [] = True"
| "isPaperVersionCompatibleWithAllPlugins paperVer (plugin # ps) =
     (if pst_AvailableVersions (pl_Status plugin) = []
      then isPaperVersionCompatibleWithAllPlugins paperVer ps
      else if \<not> list_ex (\<lambda>pvInfo. ContainsVersion (pvi_MinecraftVersions pvInfo) paperVer)
                 (pst_AvailableVersions (pl_Status plugin))
      then False
      else isPaperVersionCompatibleWithAllPlugins paperVer ps)"

definition filterAndSortPaperVersions :: "'v semver \<Rightarrow> string list \<Rightarrow> string list" where
  "filterAndSortPaperVersions SV paperVersions = sortPaperVersionsDesc SV paperVersions"

fun find_paper_loop :: "Plugin list \<Rightarrow> string list \<Rightarrow> string result" where
  "find_paper_loop matchedPlugins [] =
     Inl (New ''no Paper version compatible with all matched plugins'')"
| "find_paper_loop matchedPlugins (paperVer # vs) =
     (if isPaperVersionCompatibleWithAllPlugins paperVer matchedPlugins then Inr paperVer
      else find_paper_loop matchedPlugins vs)"

definition FindBestPaperVersion ::
  "'v semver \<Rightarrow> PaperMCServer \<Rightarrow> Plugin list \<Rightarrow> string list \<Rightarrow> string result" where
  "FindBestPaperVersion SV server matchedPlugins paperVersions =
     (if paperVersions = [] then Inl (New ''no Paper versions available'')
      else
        let strategy = (if ss_UpdateStrategy (sv_Spec server) = [] then updateStrategyLatest
                        else ss_UpdateStrategy (sv_Spec server))
        in if strategy = updateStrategyPin \<or> strategy = updateStrategyBuildPin then
             (if ss_Version (sv_Spec server) = []
              then Inl (Newf ''updateStrategy is '%s' but version is not set'' [AStr strategy])
              else Inr (ss_Version (sv_Spec server)))
           else if strategy = updateStrategyAuto \<or> strategy = updateStrategyLatest then
             find_paper_loop matchedPlugins (filterAndSortPaperVersions SV paperVersions)
           else Inl (Newf ''invalid updateStrategy: %s (expected 'latest', 'auto', 'pin', or 'build-pin')''
                       [AStr strategy]))"

subsection \<open>The exchange sort\<close>

text \<open>
  What the sort needs of its test: it is false unless both sides parse, it is asymmetric, and its
  negation is transitive through an element that parses.
\<close>

definition sort_order :: "('a \<Rightarrow> bool) \<Rightarrow> ('a \<Rightarrow> 'a \<Rightarrow> bool) \<Rightarrow> bool" where
  "sort_order ok gt \<longleftrightarrow>
     (\<forall>a b. gt a b \<longrightarrow> ok a \<and> ok b) \<and> (\<forall>a b. gt a b \<longrightarrow> \<not> gt b a)
   \<and> (\<forall>a b c. ok b \<longrightarrow> \<not> gt a b \<longrightarrow> \<not> gt b c \<longrightarrow> \<not> gt a c)"

lemma length_swap [simp]: "length (swap xs i j) = length xs"
  by (simp add: swap_def)

lemma nth_swap:
  "i < length xs \<Longrightarrow> j < length xs \<Longrightarrow> k < length xs
   \<Longrightarrow> swap xs i j ! k = (if k = j then xs ! i else if k = i then xs ! j else xs ! k)"
  by (simp add: swap_def nth_list_update)

lemma mset_swap_version: "i < length xs \<Longrightarrow> j < length xs \<Longrightarrow> mset (swap xs i j) = mset xs"
  by (cases "i = j") (simp_all add: swap_def mset_swap)

text \<open>
  What the loops keep from an index \<open>i\<close> on: the elements before \<open>i\<close>, the elements that do not
  parse, and the collection of the others.
\<close>

definition keeps :: "('a \<Rightarrow> bool) \<Rightarrow> nat \<Rightarrow> 'a list \<Rightarrow> 'a list \<Rightarrow> bool" where
  "keeps ok i xs ys \<longleftrightarrow>
     length ys = length xs \<and> mset ys = mset xs
   \<and> (\<forall>k < i. ys ! k = xs ! k)
   \<and> (\<forall>k < length xs. \<not> ok (xs ! k) \<longrightarrow> ys ! k = xs ! k)
   \<and> (\<forall>k < length xs. ok (ys ! k) = ok (xs ! k))
   \<and> (\<forall>k. i \<le> k \<and> k < length xs \<longrightarrow> (\<exists>l. i \<le> l \<and> l < length xs \<and> ys ! k = xs ! l))"

lemma keeps_refl: "keeps ok i xs xs"
  by (auto simp: keeps_def)

lemma keeps_source:
  "keeps ok i xs ys \<Longrightarrow> i \<le> k \<Longrightarrow> k < length xs \<Longrightarrow> \<exists>l. i \<le> l \<and> l < length xs \<and> ys ! k = xs ! l"
  by (simp add: keeps_def)

lemma keeps_trans:
  assumes "keeps ok i xs ys" "keeps ok i ys zs"
  shows "keeps ok i xs zs"
proof -
  from assms have len: "length ys = length xs" by (simp add: keeps_def)
  have "\<exists>l. i \<le> l \<and> l < length xs \<and> zs ! k = xs ! l" if "i \<le> k" "k < length xs" for k
  proof -
    from assms(2) that len obtain m where "i \<le> m" "m < length xs" "zs ! k = ys ! m"
      by (auto simp: keeps_def)
    with assms(1) show ?thesis by (auto simp: keeps_def)
  qed
  with assms len show ?thesis by (auto simp: keeps_def)
qed

lemma keeps_weaken:
  assumes "keeps ok (Suc i) xs ys" "i < length xs"
  shows "keeps ok i xs ys"
proof -
  have "\<exists>l. i \<le> l \<and> l < length xs \<and> ys ! k = xs ! l" if "i \<le> k" "k < length xs" for k
  proof (cases "k = i")
    case True
    with assms show ?thesis by (auto simp: keeps_def)
  next
    case False
    with that have "Suc i \<le> k" by simp
    with assms(1) that obtain l where "Suc i \<le> l" "l < length xs" "ys ! k = xs ! l"
      unfolding keeps_def by blast
    then show ?thesis by (auto intro: exI [of _ l])
  qed
  with assms show ?thesis by (auto simp: keeps_def)
qed

lemma keeps_swap:
  assumes "i < j" "j < length xs" "ok (xs ! i)" "ok (xs ! j)"
  shows "keeps ok i xs (swap xs i j)"
proof -
  have "\<exists>l. i \<le> l \<and> l < length xs \<and> swap xs i j ! k = xs ! l" if "i \<le> k" "k < length xs" for k
    using assms that
    by (intro exI [of _ "if k = j then i else if k = i then j else k"]) (auto simp: nth_swap)
  with assms show ?thesis by (auto simp: keeps_def nth_swap mset_swap_version)
qed

lemma sort_inner_post:
  assumes "sort_order ok gt" "i < j" "i < length xs"
    and "\<forall>k. i < k \<and> k < j \<and> k < length xs \<longrightarrow> \<not> gt (xs ! k) (xs ! i)"
  shows "keeps ok i xs (sort_inner gt i j xs)
       \<and> (\<forall>k. i < k \<and> k < length xs \<longrightarrow> \<not> gt (sort_inner gt i j xs ! k) (sort_inner gt i j xs ! i))"
  using assms
proof (induction gt i j xs rule: sort_inner.induct)
  case (1 gt i j xs)
  note so = "1.prems"(1)
  show ?case
  proof (cases "j < length xs")
    case False
    then have "sort_inner gt i j xs = xs" by (subst sort_inner.simps) simp
    with False "1.prems" show ?thesis by (simp add: keeps_refl)
  next
    case True
    define zs where "zs = (if gt (xs ! j) (xs ! i) then swap xs i j else xs)"
    have keep: "keeps ok i xs zs"
    proof (cases "gt (xs ! j) (xs ! i)")
      case swapped: True
      with so have "ok (xs ! i)" "ok (xs ! j)" unfolding sort_order_def by blast+
      with keeps_swap True "1.prems"(2) swapped show ?thesis by (simp add: zs_def)
    qed (simp add: zs_def keeps_refl)
    have len: "length zs = length xs" by (simp add: zs_def)
    have "\<not> gt (zs ! k) (zs ! i)" if "i < k" "k < Suc j" for k
    proof (cases "gt (xs ! j) (xs ! i)")
      case swapped: True
      with so have "ok (xs ! i)" "\<not> gt (xs ! i) (xs ! j)" unfolding sort_order_def by blast+
      moreover from that "1.prems"(4) True have "k = j \<or> \<not> gt (xs ! k) (xs ! i)" by auto
      ultimately have "k = j \<or> \<not> gt (xs ! k) (xs ! j)"
        using so unfolding sort_order_def by blast
      with \<open>\<not> gt (xs ! i) (xs ! j)\<close> show ?thesis
        using that True "1.prems"(2,3) swapped by (auto simp: zs_def nth_swap)
    next
      case False
      with that "1.prems"(4) True show ?thesis by (cases "k = j") (auto simp: zs_def)
    qed
    then have "keeps ok i zs (sort_inner gt i (Suc j) zs)
      \<and> (\<forall>k. i < k \<and> k < length zs \<longrightarrow> \<not> gt (sort_inner gt i (Suc j) zs ! k) (sort_inner gt i (Suc j) zs ! i))"
      using "1.IH" [OF True so] "1.prems" len unfolding zs_def by simp
    moreover have "sort_inner gt i j xs = sort_inner gt i (Suc j) zs"
      using True by (subst sort_inner.simps) (simp add: zs_def)
    ultimately show ?thesis using keep len keeps_trans [OF keep] by simp
  qed
qed

lemma sort_outer_post:
  assumes "sort_order ok gt"
    and "\<forall>a b. a < i \<and> a < b \<and> b < length xs \<longrightarrow> \<not> gt (xs ! b) (xs ! a)"
  shows "keeps ok i xs (sort_outer gt i xs)
       \<and> (\<forall>a b. a < b \<and> b < length xs \<longrightarrow> \<not> gt (sort_outer gt i xs ! b) (sort_outer gt i xs ! a))"
  using assms
proof (induction gt i xs rule: sort_outer.induct)
  case (1 gt i xs)
  note so = "1.prems"(1)
  show ?case
  proof (cases "i < length xs - 1")
    case False
    then have "sort_outer gt i xs = xs" by (subst sort_outer.simps) simp
    moreover have "a < i" if "a < b" "b < length xs" for a b using that False by linarith
    ultimately show ?thesis using "1.prems"(2) by (auto simp: keeps_refl)
  next
    case True
    define ys where "ys = sort_inner gt i (Suc i) xs"
    have "i < length xs" using True by simp
    have "\<forall>k. i < k \<and> k < Suc i \<and> k < length xs \<longrightarrow> \<not> gt (xs ! k) (xs ! i)" by auto
    note post = sort_inner_post [OF so lessI \<open>i < length xs\<close> this]
    then have keep: "keeps ok i xs ys"
      and maxi: "\<And>k. i < k \<Longrightarrow> k < length xs \<Longrightarrow> \<not> gt (ys ! k) (ys ! i)"
      by (auto simp: ys_def)
    have len: "length ys = length xs" by (simp add: ys_def)
    have "\<not> gt (ys ! b) (ys ! a)" if "a < Suc i" "a < b" "b < length ys" for a b
    proof (cases "a = i")
      case True
      with that maxi len show ?thesis by simp
    next
      case False
      with that have "a < i" by simp
      with keep have "ys ! a = xs ! a" by (simp add: keeps_def)
      moreover have "\<exists>l. a < l \<and> l < length xs \<and> ys ! b = xs ! l"
      proof (cases "b < i")
        case True
        with keep that len show ?thesis by (auto simp: keeps_def)
      next
        case False
        with keeps_source [OF keep, of b] that len obtain l
          where "i \<le> l" "l < length xs" "ys ! b = xs ! l" by auto
        with \<open>a < i\<close> show ?thesis by (intro exI [of _ l]) simp
      qed
      ultimately show ?thesis using "1.prems"(2) \<open>a < i\<close> by auto
    qed
    with "1.IH" [OF True so] have "keeps ok (Suc i) ys (sort_outer gt (Suc i) ys)
      \<and> (\<forall>a b. a < b \<and> b < length ys \<longrightarrow> \<not> gt (sort_outer gt (Suc i) ys ! b) (sort_outer gt (Suc i) ys ! a))"
      unfolding ys_def by blast
    moreover have "sort_outer gt i xs = sort_outer gt (Suc i) ys"
      using True by (subst sort_outer.simps) (simp add: ys_def)
    ultimately show ?thesis
      using len \<open>i < length xs\<close> keeps_trans [OF keep] keeps_weaken [of ok i ys] by simp
  qed
qed

lemma sort_order_newer: "semver_order SV \<Longrightarrow> sort_order (\<lambda>a. parseable SV (f a)) (\<lambda>a b. newer SV (f a) (f b))"
  unfolding sort_order_def by (meson newer_parseable newer_asym newer_not_trans)

lemma sort_outer_newer:
  fixes f :: "'a \<Rightarrow> string"
  assumes "semver_order SV"
  defines "gt \<equiv> (\<lambda>a b. newer SV (f a) (f b))"
  shows "mset (sort_outer gt 0 xs) = mset xs" "length (sort_outer gt 0 xs) = length xs"
    "sorted_wrt (\<lambda>a b. \<not> newer SV (f b) (f a)) (sort_outer gt 0 xs)"
    "k < length xs \<Longrightarrow> \<not> parseable SV (f (xs ! k)) \<Longrightarrow> sort_outer gt 0 xs ! k = xs ! k"
  using sort_outer_post [OF sort_order_newer [OF assms(1)], of 0 xs]
  by (auto simp: keeps_def gt_def sorted_wrt_iff_nth_less)

lemma set_sort_outer_newer:
  "semver_order SV \<Longrightarrow> set (sort_outer (\<lambda>a b. newer SV (f a) (f b)) 0 xs) = set xs"
  using sort_outer_newer(1) mset_eq_setD by metis

subsection \<open>The linear searches\<close>

lemma find_first_sorted:
  "sorted_wrt R xs \<Longrightarrow> find P xs = Some x \<Longrightarrow> y \<in> set xs \<Longrightarrow> P y \<Longrightarrow> y = x \<or> R x y"
  by (induction xs) (auto split: if_splits)

definition compatible_with_all :: "Plugin \<Rightarrow> PaperMCServer list \<Rightarrow> PluginVersion \<Rightarrow> bool" where
  "compatible_with_all plugin servers pv =
     list_all (\<lambda>server. isPluginCompatibleWithServer pv server plugin) servers"

lemma findCompatiblePluginVersion_find:
  "findCompatiblePluginVersion pvs servers plugin =
     (case find (compatible_with_all plugin servers) pvs of
        None \<Rightarrow> Inl (New ''no plugin version compatible with all matched servers'')
      | Some pv \<Rightarrow> Inr (pv_Version pv))"
  by (induction pvs) (auto simp: compatible_with_all_def)

lemma find_paper_loop_find:
  "find_paper_loop ps vs =
     (case find (\<lambda>v. isPaperVersionCompatibleWithAllPlugins v ps) vs of
        None \<Rightarrow> Inl (New ''no Paper version compatible with all matched plugins'')
      | Some v \<Rightarrow> Inr v)"
  by (induction vs) auto

lemma isPaperVersionCompatibleWithAllPlugins_iff:
  "isPaperVersionCompatibleWithAllPlugins v ps \<longleftrightarrow>
     (\<forall>p \<in> set ps. pst_AvailableVersions (pl_Status p) = []
        \<or> (\<exists>i \<in> set (pst_AvailableVersions (pl_Status p)). ContainsVersion (pvi_MinecraftVersions i) v))"
  by (induction ps) (auto simp: list_ex_iff)

text \<open>The versions the solver may choose from: old enough and compatible with every server.\<close>

definition candidates ::
  "time \<Rightarrow> Plugin \<Rightarrow> PaperMCServer list \<Rightarrow> PluginVersion list \<Rightarrow> PluginVersion set" where
  "candidates now plugin servers allVersions =
     {pv \<in> set allVersions.
        (case ps_UpdateDelay (pl_Spec plugin) of
           None \<Rightarrow> True | Some d \<Rightarrow> d = 0 \<or> pv_ReleaseDate pv \<le> now - d)
        \<and> compatible_with_all plugin servers pv}"

lemma candidates_filter:
  "candidates now plugin servers allVersions =
     {pv \<in> set (filterByDelay now allVersions
                (case ps_UpdateDelay (pl_Spec plugin) of None \<Rightarrow> 0 | Some d \<Rightarrow> d)).
        compatible_with_all plugin servers pv}"
  by (auto simp: candidates_def filterByDelay_def Let_def split: option.splits)

subsection \<open>Properties\<close>

text \<open>
  \<^verbatim>\<open>sortVersionsDesc\<close> returns a rearrangement of its argument in which no version is followed by a
  newer one and every version that does not parse keeps its place.
\<close>

theorem sortVersionsDesc_correct:
  assumes "semver_order SV"
  shows "mset (sortVersionsDesc SV versions) = mset versions
       \<and> sorted_wrt (\<lambda>a b. \<not> newer SV (pv_Version b) (pv_Version a)) (sortVersionsDesc SV versions)
       \<and> (\<forall>k < length versions. \<not> parseable SV (pv_Version (versions ! k))
            \<longrightarrow> sortVersionsDesc SV versions ! k = versions ! k)"
  using sort_outer_newer [OF assms, where f = pv_Version and xs = versions]
  by (simp add: sortVersionsDesc_def)

definition pv_at :: "string \<Rightarrow> time \<Rightarrow> string list \<Rightarrow> PluginVersion" where
  "pv_at v t mcs = \<lparr>pv_Version = v, pv_ReleaseDate = t, pv_PaperVersions = [],
     pv_MinecraftVersions = mcs, pv_DownloadURL = [], pv_Hash = []\<rparr>"

lemmas sort_eval = sort_outer.simps sort_inner.simps swap_def newer_def dotted_eval Let_def pv_at_def

theorem sortVersionsDesc_correct_witness:
  "map pv_Version (sortVersionsDesc dotted
     [pv_at ''1.9'' 0 [], pv_at ''beta'' 0 [], pv_at ''1.21'' 0 [], pv_at ''1.20'' 0 []])
   = [''1.21'', ''beta'', ''1.20'', ''1.9'']
   \<and> sorted_wrt (\<lambda>a b. \<not> newer dotted (pv_Version b) (pv_Version a)) (sortVersionsDesc dotted
     [pv_at ''1.9'' 0 [], pv_at ''beta'' 0 [], pv_at ''1.21'' 0 [], pv_at ''1.20'' 0 []])"
proof -
  have "map pv_Version (sortVersionsDesc dotted
     [pv_at ''1.9'' 0 [], pv_at ''beta'' 0 [], pv_at ''1.21'' 0 [], pv_at ''1.20'' 0 []])
   = [''1.21'', ''beta'', ''1.20'', ''1.9'']"
    by (simp add: sortVersionsDesc_def sort_eval)
  with sortVersionsDesc_correct [OF dotted_order] show ?thesis by blast
qed

text \<open>The version a plugin is pinned to.\<close>

definition pinned_version :: "Plugin \<Rightarrow> string option" where
  "pinned_version plugin =
     (if ps_UpdateStrategy (pl_Spec plugin) \<in> {''pin'', ''build-pin'', ''pinned''} \<and> ps_Version (pl_Spec plugin) \<noteq> []
      then Some (ps_Version (pl_Spec plugin)) else None)"

lemma checkPinned_iff:
  "checkPinnedPluginVersion plugin = (case pinned_version plugin of None \<Rightarrow> [] | Some v \<Rightarrow> v)"
  by (auto simp: checkPinnedPluginVersion_def pinned_version_def strategy_defs Let_def)

lemma pinned_version_nonempty: "pinned_version plugin \<noteq> Some []"
  by (simp add: pinned_version_def)

lemma plugin_search_optimal:
  assumes "semver_order SV" "allVersions \<noteq> []" "servers \<noteq> []" "checkPinnedPluginVersion plugin = []"
  shows "case FindBestPluginVersion SV now plugin servers allVersions of
           Inr v \<Rightarrow> v \<in> pv_Version ` candidates now plugin servers allVersions
                    \<and> (\<nexists>pv. pv \<in> candidates now plugin servers allVersions \<and> newer SV (pv_Version pv) v)
         | Inl _ \<Rightarrow> candidates now plugin servers allVersions = {}"
proof -
  define fs where "fs = filterByDelay now allVersions
    (case ps_UpdateDelay (pl_Spec plugin) of None \<Rightarrow> 0 | Some d \<Rightarrow> d)"
  define ok where "ok = compatible_with_all plugin servers"
  define xs where "xs = sortVersionsDesc SV fs"
  have set: "set xs = set fs"
    unfolding xs_def sortVersionsDesc_def by (rule set_sort_outer_newer [OF assms(1)])
  have cand: "candidates now plugin servers allVersions = {pv \<in> set xs. ok pv}"
    by (simp add: candidates_filter set fs_def ok_def)
  have sorted: "sorted_wrt (\<lambda>a b. \<not> newer SV (pv_Version b) (pv_Version a)) xs"
    unfolding xs_def sortVersionsDesc_def by (rule sort_outer_newer(3) [OF assms(1)])
  have run: "FindBestPluginVersion SV now plugin servers allVersions =
      (if fs = [] then Inl (New ''no versions available after updateDelay filtering'')
       else case find ok xs of
              None \<Rightarrow> Inl (New ''no plugin version compatible with all matched servers'')
            | Some pv \<Rightarrow> Inr (pv_Version pv))"
    using assms(2-4) by (simp add: FindBestPluginVersion_def filterAndSortPluginVersions_def Let_def
        findCompatiblePluginVersion_find fs_def [symmetric] xs_def ok_def)
  show ?thesis
  proof (cases "find ok xs")
    case None
    then have "candidates now plugin servers allVersions = {}"
      using cand by (auto simp: find_None_iff)
    with run None show ?thesis by simp
  next
    case (Some pv)
    then have pv: "pv \<in> set xs" "ok pv" by (auto simp: find_Some_iff)
    with set have "fs \<noteq> []" by auto
    moreover have "\<not> newer SV (pv_Version q) (pv_Version pv)" if "q \<in> set xs" "ok q" for q
      using find_first_sorted [OF sorted Some that] newer_irrefl [OF assms(1)] by auto
    ultimately show ?thesis using run Some cand pv by auto
  qed
qed

text \<open>
  C8. The plugin solver. Without a version or without a server it fails. A pinned plugin gets the version
  it is pinned to, which is not checked against age, servers or the offered versions. For any other
  plugin the solver is sound and optimal: the version it returns is old enough and compatible with
  every matched server and no other such version is newer, and it fails exactly when there is none.
\<close>

theorem FindBestPluginVersion_optimal:
  assumes "semver_order SV"
  shows "case FindBestPluginVersion SV now plugin servers allVersions of
           Inr v \<Rightarrow> allVersions \<noteq> [] \<and> servers \<noteq> [] \<and>
             (case pinned_version plugin of
                Some pin \<Rightarrow> v = pin
              | None \<Rightarrow> v \<in> pv_Version ` candidates now plugin servers allVersions
                    \<and> (\<nexists>pv. pv \<in> candidates now plugin servers allVersions \<and> newer SV (pv_Version pv) v))
         | Inl _ \<Rightarrow> allVersions = [] \<or> servers = [] \<or>
             (pinned_version plugin = None \<and> candidates now plugin servers allVersions = {})"
proof (cases "allVersions = [] \<or> servers = []")
  case False
  then show ?thesis
    using plugin_search_optimal [OF assms, of allVersions servers plugin now] pinned_version_nonempty [of plugin]
    by (cases "pinned_version plugin") (auto simp: checkPinned_iff FindBestPluginVersion_def split: sum.splits)
qed (auto simp: FindBestPluginVersion_def)

definition demo_server :: "string \<Rightarrow> PaperMCServer" where
  "demo_server v = zero_server\<lparr>sv_Status := zero_server_status\<lparr>st_CurrentVersion := v\<rparr>\<rparr>"

theorem FindBestPluginVersion_optimal_witness:
  "FindBestPluginVersion dotted 1000 zero_plugin [demo_server ''1.21.1'', demo_server ''1.21.4'']
     [pv_at ''2.9'' 5 [''1.21.x''], pv_at ''2.10'' 6 [''1.21.x''], pv_at ''3.0'' 7 [''1.21.4'']]
   = Inr ''2.10''
   \<and> (\<nexists>pv. pv \<in> candidates 1000 zero_plugin [demo_server ''1.21.1'', demo_server ''1.21.4'']
     [pv_at ''2.9'' 5 [''1.21.x''], pv_at ''2.10'' 6 [''1.21.x''], pv_at ''3.0'' 7 [''1.21.4'']]
     \<and> newer dotted (pv_Version pv) ''2.10'')"
proof -
  have ev: "FindBestPluginVersion dotted 1000 zero_plugin [demo_server ''1.21.1'', demo_server ''1.21.4'']
     [pv_at ''2.9'' 5 [''1.21.x''], pv_at ''2.10'' 6 [''1.21.x''], pv_at ''3.0'' 7 [''1.21.4'']]
     = Inr ''2.10''"
    by (simp add: FindBestPluginVersion_def checkPinnedPluginVersion_def strategy_defs zero_defs
        filterAndSortPluginVersions_def filterByDelay_def sortVersionsDesc_def sort_eval
        isPluginCompatibleWithServer_def demo_server_def MatchesVersionPattern_def)
  have np: "pinned_version zero_plugin = None" by (simp add: pinned_version_def zero_defs)
  from FindBestPluginVersion_optimal [OF dotted_order, where now = 1000 and plugin = zero_plugin
      and servers = "[demo_server ''1.21.1'', demo_server ''1.21.4'']"
      and allVersions = "[pv_at ''2.9'' 5 [''1.21.x''], pv_at ''2.10'' 6 [''1.21.x''], pv_at ''3.0'' 7 [''1.21.4'']]"] ev np
  show ?thesis by simp
qed

text \<open>
  A Paper version is supported when every plugin with cached versions has one that lists it. The
  documentation calls a plugin compatible when one of its versions is, also through an override and
  through a version without metadata; \<open>described\<close> are the plugins for which these do not matter.
\<close>

definition supported :: "Plugin list \<Rightarrow> string \<Rightarrow> bool" where
  "supported plugins v \<longleftrightarrow> (\<forall>p \<in> set plugins. pst_AvailableVersions (pl_Status p) = [] \<or>
     (\<exists>i \<in> set (pst_AvailableVersions (pl_Status p)). ContainsVersion (pvi_MinecraftVersions i) v))"

definition override_of :: "Plugin \<Rightarrow> string list option" where
  "override_of p = (case ps_CompatibilityOverride (pl_Spec p) of
     Some ov \<Rightarrow> if co_Enabled ov then Some (co_MinecraftVersions ov) else None | None \<Rightarrow> None)"

definition documented_compatible :: "string \<Rightarrow> Plugin \<Rightarrow> bool" where
  "documented_compatible v p \<longleftrightarrow>
     (case override_of p of
        Some mcs \<Rightarrow> mcs = [] \<or> ContainsVersion mcs v
      | None \<Rightarrow> \<exists>i \<in> set (pst_AvailableVersions (pl_Status p)).
             pvi_MinecraftVersions i = [] \<or> ContainsVersion (pvi_MinecraftVersions i) v)"

definition described :: "Plugin \<Rightarrow> bool" where
  "described p \<longleftrightarrow> override_of p = None \<and> pst_AvailableVersions (pl_Status p) \<noteq> [] \<and>
     (\<forall>i \<in> set (pst_AvailableVersions (pl_Status p)). pvi_MinecraftVersions i \<noteq> [])"

lemma supported_iff: "isPaperVersionCompatibleWithAllPlugins v plugins \<longleftrightarrow> supported plugins v"
  by (simp add: isPaperVersionCompatibleWithAllPlugins_iff supported_def)

lemma described_supported:
  "\<forall>p \<in> set plugins. described p \<Longrightarrow> supported plugins u \<longleftrightarrow> (\<forall>p \<in> set plugins. documented_compatible u p)"
  by (fastforce simp: supported_def documented_compatible_def described_def)

lemma paper_search_optimal:
  assumes "semver_order SV" "paperVersions \<noteq> []"
    and "ss_UpdateStrategy (sv_Spec server) \<in> {[], ''auto'', ''latest''}"
  shows "case FindBestPaperVersion SV server plugins paperVersions of
           Inr v \<Rightarrow> v \<in> set paperVersions \<and> supported plugins v
                    \<and> (\<nexists>u. u \<in> set paperVersions \<and> supported plugins u \<and> newer SV u v)
         | Inl _ \<Rightarrow> (\<nexists>u. u \<in> set paperVersions \<and> supported plugins u)"
proof -
  define ok where "ok = (\<lambda>v. supported plugins v)"
  define xs where "xs = filterAndSortPaperVersions SV paperVersions"
  have set: "set xs = set paperVersions"
    using set_sort_outer_newer [OF assms(1), of "\<lambda>x. x" paperVersions]
    by (simp add: xs_def filterAndSortPaperVersions_def sortPaperVersionsDesc_def)
  have sorted: "sorted_wrt (\<lambda>a b. \<not> newer SV b a) xs"
    using sort_outer_newer(3) [OF assms(1), of "\<lambda>x. x" paperVersions]
    by (simp add: xs_def filterAndSortPaperVersions_def sortPaperVersionsDesc_def)
  have run: "FindBestPaperVersion SV server plugins paperVersions =
      (case find ok xs of
         None \<Rightarrow> Inl (New ''no Paper version compatible with all matched plugins'')
       | Some v \<Rightarrow> Inr v)"
    using assms(2,3) by (auto simp: FindBestPaperVersion_def find_paper_loop_find ok_def xs_def
        supported_iff strategy_defs Let_def)
  show ?thesis
  proof (cases "find ok xs")
    case None
    then have "\<nexists>u. u \<in> set paperVersions \<and> supported plugins u"
      using set by (auto simp: find_None_iff ok_def)
    with run None show ?thesis by simp
  next
    case (Some v)
    then have "v \<in> set xs" "ok v" by (auto simp: find_Some_iff)
    moreover have "\<not> newer SV u v" if "u \<in> set xs" "ok u" for u
      using find_first_sorted [OF sorted Some that] newer_irrefl [OF assms(1)] by auto
    ultimately show ?thesis using run Some set by (auto simp: ok_def)
  qed
qed

text \<open>
  C9. The Paper solver is sound and optimal for the strategies \<^verbatim>\<open>auto\<close> and \<^verbatim>\<open>latest\<close> (the default):
  it returns an offered version that every plugin with cached versions supports, no newer offered
  version has that property, and it fails exactly when no offered version has it. When every plugin has
  cached versions, all with metadata, and no compatibility override is on, these are the versions that
  are compatible in the sense of the documentation. Neither the update delay nor an override has any
  effect, a version without metadata supports nothing and a plugin without cached versions restricts
  nothing: in these points the code differs from the documentation.
\<close>

theorem FindBestPaperVersion_optimal:
  assumes "semver_order SV"
    and "ss_UpdateStrategy (sv_Spec server) \<in> {[], ''auto'', ''latest''}"
  shows "(case FindBestPaperVersion SV server plugins paperVersions of
           Inr v \<Rightarrow> v \<in> set paperVersions \<and> supported plugins v
                    \<and> (\<nexists>u. u \<in> set paperVersions \<and> supported plugins u \<and> newer SV u v)
         | Inl _ \<Rightarrow> (\<nexists>u. u \<in> set paperVersions \<and> supported plugins u)) \<and>
    ((\<forall>p \<in> set plugins. described p) \<longrightarrow>
       (\<forall>u. supported plugins u \<longleftrightarrow> (\<forall>p \<in> set plugins. documented_compatible u p)))"
proof (cases "paperVersions = []")
  case False
  from paper_search_optimal [OF assms(1) this assms(2)] described_supported [of plugins] show ?thesis by blast
qed (use described_supported in \<open>simp add: FindBestPaperVersion_def\<close>)

definition demo_plugin :: "string list list \<Rightarrow> Plugin" where
  "demo_plugin mcs = zero_plugin\<lparr>pl_Status := (pl_Status zero_plugin)\<lparr>pst_AvailableVersions :=
     map (\<lambda>m. \<lparr>pvi_Version = ''1'', pvi_MinecraftVersions = m, pvi_DownloadURL = [], pvi_Hash = [],
       pvi_CachedAt = 0, pvi_ReleasedAt = 0\<rparr>) mcs\<rparr>\<rparr>"

theorem FindBestPaperVersion_optimal_witness:
  "FindBestPaperVersion dotted zero_server [demo_plugin [[''1.20.4''], [''1.21.x'']]]
     [''1.20.4'', ''1.21.4'', ''1.21.10'', ''1.22''] = Inr ''1.21.10''
   \<and> documented_compatible ''1.21.10'' (demo_plugin [[''1.20.4''], [''1.21.x'']])"
proof -
  have ev: "FindBestPaperVersion dotted zero_server [demo_plugin [[''1.20.4''], [''1.21.x'']]]
     [''1.20.4'', ''1.21.4'', ''1.21.10'', ''1.22''] = Inr ''1.21.10''"
    by (simp add: FindBestPaperVersion_def strategy_defs zero_defs filterAndSortPaperVersions_def
        sortPaperVersionsDesc_def sort_eval demo_plugin_def MatchesVersionPattern_def)
  have st: "ss_UpdateStrategy (sv_Spec zero_server) \<in> {[], ''auto'', ''latest''}" by (simp add: zero_defs)
  have "described (demo_plugin [[''1.20.4''], [''1.21.x'']])"
    by (simp add: described_def override_of_def demo_plugin_def zero_defs)
  with FindBestPaperVersion_optimal [OF dotted_order st, where plugins = "[demo_plugin [[''1.20.4''], [''1.21.x'']]]"
      and paperVersions = "[''1.20.4'', ''1.21.4'', ''1.21.10'', ''1.22'']"] ev
  show ?thesis by auto
qed

text \<open>
  The two halves of the solver disagree on a plugin without version metadata: as a plugin version
  it is compatible with every server, but one matched plugin whose cached versions all lack metadata
  makes the Paper solver fail for every list of offered versions, whatever its compatibility
  override says.
\<close>

theorem paper_solver_rejects_missing_metadata:
  assumes "pst_AvailableVersions (pl_Status plugin) \<noteq> []"
    and "\<forall>i \<in> set (pst_AvailableVersions (pl_Status plugin)). pvi_MinecraftVersions i = []"
    and "plugin \<in> set plugins"
    and "ss_UpdateStrategy (sv_Spec server) \<in> {[], updateStrategyAuto, updateStrategyLatest}"
  shows "(\<exists>e. FindBestPaperVersion SV server plugins paperVersions = Inl e)
       \<and> isPluginCompatibleWithServer (pv_at v t []) anyserver (plugin\<lparr>pl_Spec :=
            (pl_Spec plugin)\<lparr>ps_CompatibilityOverride := None\<rparr>\<rparr>)"
proof -
  have "\<not> isPaperVersionCompatibleWithAllPlugins u plugins" for u
    using assms(1-3) by (auto simp: isPaperVersionCompatibleWithAllPlugins_iff)
  then have "find (\<lambda>v. isPaperVersionCompatibleWithAllPlugins v plugins) vs = None" for vs
    by (simp add: find_None_iff)
  with assms(4) show ?thesis
    by (auto simp: FindBestPaperVersion_def find_paper_loop_find strategy_defs Let_def
        isPluginCompatibleWithServer_def pv_at_def)
qed

theorem paper_solver_rejects_missing_metadata_witness:
  "\<exists>e. FindBestPaperVersion dotted zero_server [demo_plugin [[]]] [''1.21.4''] = Inl e"
proof -
  have "\<exists>e. FindBestPaperVersion dotted zero_server [demo_plugin [[]]] [''1.21.4''] = Inl e
        \<and> isPluginCompatibleWithServer (pv_at [] 0 []) zero_server ((demo_plugin [[]])\<lparr>pl_Spec :=
            (pl_Spec (demo_plugin [[]]))\<lparr>ps_CompatibilityOverride := None\<rparr>\<rparr>)"
    using paper_solver_rejects_missing_metadata [of "demo_plugin [[]]" "[demo_plugin [[]]]" zero_server
        dotted "[''1.21.4'']" "[]" 0 zero_server]
    by (simp add: demo_plugin_def zero_defs)
  then show ?thesis by blast
qed

end
