(* ===== verification/Submatch.thy ===== *)
theory Submatch
  imports Regexp
begin

section \<open>Regular expressions with groups\<close>

text \<open>
  \<^verbatim>\<open>FindStringSubmatch\<close> of Go's \<^verbatim>\<open>regexp\<close>: the leftmost match and, among the matches that start
  there, the one a backtracking search finds first (repetition is greedy, an alternative prefers
  its left branch). \<open>ms r s\<close> lists the ways in which a prefix of \<open>s\<close> matches \<open>r\<close>, in this order of
  preference, each as the texts of the groups and the rest of the string. \<open>Any\<close> is the dot, which
  does not match a newline; \<open>End\<close> is \<^verbatim>\<open>$\<close> without flags.
\<close>

datatype grx =
    Chr "char \<Rightarrow> bool"
  | Seq grx grx
  | Many grx
  | Maybe grx
  | Grp grx
  | End

fun ms_word :: "string \<Rightarrow> grx" where
  "ms_word [] = Maybe (Chr (\<lambda>_. False))"
| "ms_word [c] = Chr ((=) c)"
| "ms_word (c # d # w) = Seq (Chr ((=) c)) (ms_word (d # w))"

abbreviation Any :: grx where "Any \<equiv> Chr (\<lambda>c. c \<noteq> CHR 0x0A)"
abbreviation Some_of :: "grx \<Rightarrow> grx" where "Some_of r \<equiv> Seq r (Many r)"

type_synonym capture = "string list \<times> string"

function ms :: "grx \<Rightarrow> string \<Rightarrow> capture list" where
  "ms (Chr p) s = (case s of [] \<Rightarrow> [] | c # cs \<Rightarrow> if p c then [([], cs)] else [])"
| "ms (Seq a b) s = concat (map (\<lambda>(g, r). map (\<lambda>(h, t). (g @ h, t)) (ms b r)) (ms a s))"
| "ms (Many a) s =
     concat (map (\<lambda>(g, r). if length r < length s then map (\<lambda>(h, t). (g @ h, t)) (ms (Many a) r) else [])
       (ms a s)) @ [([], s)]"
| "ms (Maybe a) s = ms a s @ [([], s)]"
| "ms (Grp a) s = map (\<lambda>(g, r). (take (length s - length r) s # g, r)) (ms a s)"
| "ms End s = (if s = [] then [([], [])] else [])"
  by pat_completeness auto

termination
  by (relation "measures [\<lambda>(r, s). size r, \<lambda>(r, s). length s]") auto

declare ms.simps(3) [simp del]

text \<open>A search from every position, as for a pattern without \<^verbatim>\<open>^\<close>; the groups of the first match.\<close>

fun FindStringSubmatch :: "grx \<Rightarrow> string \<Rightarrow> string list option" where
  "FindStringSubmatch r s =
     (case ms r s of
        (g, _) # _ \<Rightarrow> Some g
      | [] \<Rightarrow> (case s of [] \<Rightarrow> None | _ # cs \<Rightarrow> FindStringSubmatch r cs))"

declare FindStringSubmatch.simps [simp del]

text \<open>A pattern that begins with \<^verbatim>\<open>^\<close> is tried at the start only.\<close>

definition FindAnchored :: "grx \<Rightarrow> string \<Rightarrow> string list option" where
  "FindAnchored r s = (case ms r s of (g, _) # _ \<Rightarrow> Some g | [] \<Rightarrow> None)"

subsection \<open>Greedy repetition of a class\<close>

definition eats :: "(char \<Rightarrow> bool) \<Rightarrow> string \<Rightarrow> capture list" where
  "eats p s = map (\<lambda>k. ([], drop k s)) (rev [0..<Suc (length (takeWhile p s))])"

lemma eats_Nil [simp]: "eats p [] = [([], [])]"
  by (simp add: eats_def)

lemma eats_Cons: "eats p (c # s) = (if p c then eats p s else []) @ [([], c # s)]"
  unfolding eats_def
  by (auto simp: upt_conv_Cons map_Suc_upt [symmetric] rev_map [symmetric] simp del: upt_Suc map_Suc_upt)

lemma ms_Many_Chr: "ms (Many (Chr p)) s = eats p s"
proof (induction s)
  case (Cons c s)
  then show ?case by (simp add: ms.simps(3) eats_Cons case_prod_beta)
qed (simp add: ms.simps(3))

lemma ms_Some_Chr: "ms (Some_of (Chr p)) s = butlast (eats p s)"
proof (cases s)
  case (Cons c t)
  then show ?thesis by (simp add: ms_Many_Chr eats_Cons case_prod_beta)
qed simp

lemma ms_word_iff:
  "w \<noteq> [] \<Longrightarrow> ms (ms_word w) s = (if HasPrefix s w then [([], drop (length w) s)] else [])"
proof (induction w arbitrary: s rule: ms_word.induct)
  case (2 c)
  then show ?case by (cases s) (auto simp: HasPrefix_def)
next
  case (3 c d w)
  then show ?case by (cases s) (auto simp: HasPrefix_def)
qed simp

lemma ms_Grp_word:
  assumes "w \<noteq> []"
  shows "ms (Grp (ms_word w)) s = (if HasPrefix s w then [([w], drop (length w) s)] else [])"
proof (cases "HasPrefix s w")
  case True
  then obtain t where "s = w @ t" by (metis HasPrefix_def append_take_drop_id)
  with True ms_word_iff [OF assms, of s] show ?thesis by simp
qed (simp add: ms_word_iff assms)

lemma eats_all: "list_all p s \<Longrightarrow> s \<noteq> [] \<Longrightarrow> \<exists>m. butlast (eats p s) = ([], []) # m"
proof (induction s)
  case (Cons c s)
  then show ?case by (cases s) (auto simp: eats_Cons butlast_append)
qed simp

subsection \<open>Matching as a relation\<close>

text \<open>\<open>gm r u g\<close>: the whole of \<open>u\<close> matches \<open>r\<close> with the groups \<open>g\<close>. It has no rule for \<open>End\<close>, which
  looks at what follows; the patterns of the operator have it at their end only.\<close>

inductive gm :: "grx \<Rightarrow> string \<Rightarrow> string list \<Rightarrow> bool" where
  Chr: "p c \<Longrightarrow> gm (Chr p) [c] []"
| Seq: "gm a u g \<Longrightarrow> gm b v h \<Longrightarrow> gm (Seq a b) (u @ v) (g @ h)"
| Many_Nil: "gm (Many a) [] []"
| Many_Step: "gm a u g \<Longrightarrow> u \<noteq> [] \<Longrightarrow> gm (Many a) v h \<Longrightarrow> gm (Many a) (u @ v) (g @ h)"
| Maybe_Nil: "gm (Maybe a) [] []"
| Maybe: "gm a u g \<Longrightarrow> gm (Maybe a) u g"
| Grp: "gm a u g \<Longrightarrow> gm (Grp a) u (u # g)"

inductive_simps gm_Chr [simp]: "gm (Chr p) u g"
inductive_simps gm_Seq: "gm (Seq a b) u g"
inductive_simps gm_Grp: "gm (Grp a) u g"
inductive_simps gm_Maybe: "gm (Maybe a) u g"

primrec no_end :: "grx \<Rightarrow> bool" where
  "no_end (Chr p) = True"
| "no_end (Seq a b) = (no_end a \<and> no_end b)"
| "no_end (Many a) = no_end a"
| "no_end (Maybe a) = no_end a"
| "no_end (Grp a) = no_end a"
| "no_end End = False"

lemma set_ms_Seq:
  "(g, t) \<in> set (ms (Seq a b) s) \<longleftrightarrow>
     (\<exists>g1 r1 g2. (g1, r1) \<in> set (ms a s) \<and> (g2, t) \<in> set (ms b r1) \<and> g = g1 @ g2)"
  by force

lemma ms_SeqI:
  assumes "(g1, r1) \<in> set (ms a s)" and "(g2, t) \<in> set (ms b r1)"
  shows "(g1 @ g2, t) \<in> set (ms (Seq a b) s)"
  by (subst set_ms_Seq, intro exI conjI) (rule assms refl)+

lemma set_ms_Many:
  "(g, t) \<in> set (ms (Many a) s) \<longleftrightarrow> (g, t) = ([], s) \<or>
     (\<exists>g1 r1 g2. (g1, r1) \<in> set (ms a s) \<and> length r1 < length s \<and> (g2, t) \<in> set (ms (Many a) r1) \<and> g = g1 @ g2)"
proof -
  have "(g, t) \<in> set (ms (Many a) s) \<longleftrightarrow> (g, t) = ([], s) \<or>
      (\<exists>m\<in>set (ms a s). (g, t) \<in> set (case m of (g1, r1) \<Rightarrow>
         if length r1 < length s then map (\<lambda>(h, t). (g1 @ h, t)) (ms (Many a) r1) else []))"
    unfolding ms.simps(3) [of a s] by (simp add: disj_commute)
  also have "(\<exists>m\<in>set (ms a s). (g, t) \<in> set (case m of (g1, r1) \<Rightarrow>
         if length r1 < length s then map (\<lambda>(h, t). (g1 @ h, t)) (ms (Many a) r1) else [])) \<longleftrightarrow>
      (\<exists>g1 r1 g2. (g1, r1) \<in> set (ms a s) \<and> length r1 < length s \<and> (g2, t) \<in> set (ms (Many a) r1) \<and> g = g1 @ g2)"
    by (simp only: Bex_def split_paired_Ex split_conv) (force split: if_splits)
  finally show ?thesis .
qed

lemma ms_sound: "(g, t) \<in> set (ms r s) \<Longrightarrow> no_end r \<Longrightarrow> \<exists>u. s = u @ t \<and> gm r u g"
proof (induction r s arbitrary: g t rule: ms.induct)
  case (1 p s)
  then show ?case by (auto split: list.splits if_splits)
next
  case (2 a b s)
  then obtain g1 r1 g2 where *: "(g1, r1) \<in> set (ms a s)" "(g2, t) \<in> set (ms b r1)" "g = g1 @ g2"
    unfolding set_ms_Seq by blast
  from 2(1) [OF *(1)] 2(4) obtain u where u: "s = u @ r1" "gm a u g1" by auto
  from 2(2) [OF *(1) refl *(2)] 2(4) obtain v where "r1 = v @ t" "gm b v g2" by auto
  with u *(3) show ?case by (intro exI [of _ "u @ v"]) (simp add: gm.Seq)
next
  case (3 a s)
  show ?case
  proof (cases "(g, t) = ([], s)")
    case False
    with 3(3) obtain g1 r1 g2 where *: "(g1, r1) \<in> set (ms a s)" "length r1 < length s"
      "(g2, t) \<in> set (ms (Many a) r1)" "g = g1 @ g2" using set_ms_Many [of g t a s] by blast
    from 3(1) [OF *(1)] 3(4) obtain u where u: "s = u @ r1" "gm a u g1" by auto
    from 3(2) [OF *(1) refl *(2,3)] 3(4) obtain v where "r1 = v @ t" "gm (Many a) v g2" by auto
    with u *(2,4) show ?thesis by (intro exI [of _ "u @ v"]) (auto intro: gm.Many_Step)
  qed (auto intro: gm.Many_Nil)
next
  case (4 a s)
  then show ?case by (simp, metis append_Nil gm.Maybe gm.Maybe_Nil)
next
  case (5 a s)
  then show ?case by (fastforce simp: gm_Grp)
qed simp

lemma ms_complete: "gm r u g \<Longrightarrow> (g, t) \<in> set (ms r (u @ t))"
proof (induction arbitrary: t rule: gm.induct)
  case (Seq a u g b v h)
  from ms_SeqI [OF Seq.IH(1) [of "v @ t"] Seq.IH(2) [of t]] show ?case by (simp only: append_assoc)
next
  case (Many_Nil a)
  show ?case using set_ms_Many [of "[]" t a t] by simp
next
  case (Many_Step a u g v h)
  from Many_Step.hyps(2) have "length (v @ t) < length ((u @ v) @ t)" by simp
  with Many_Step.IH(1) [of "v @ t"] Many_Step.IH(2) [of t] show ?case
    using set_ms_Many [of "g @ h" t a "(u @ v) @ t"] unfolding append_assoc by blast
next
  case (Grp a u g)
  from Grp.IH [of t] show ?case by force
qed auto

lemma gm_Many_Chr: "gm (Many (Chr p)) u g \<longleftrightarrow> g = [] \<and> list_all p u"
proof
  show "gm (Many (Chr p)) u g \<Longrightarrow> g = [] \<and> list_all p u"
    by (induction "Many (Chr p)" u g rule: gm.induct) auto
  have "list_all p u \<Longrightarrow> gm (Many (Chr p)) u []"
    by (induction u) (auto intro: gm.Many_Nil gm.Many_Step [of _ "[_]" "[]" _ "[]", simplified])
  then show "g = [] \<and> list_all p u \<Longrightarrow> gm (Many (Chr p)) u g" by blast
qed

lemma gm_Seq_Chr: "gm (Seq (Chr p) b) u g \<longleftrightarrow> (\<exists>c v. u = c # v \<and> p c \<and> gm b v g)"
  by (auto simp: gm_Seq) (metis append_Cons append_Nil)

lemma gm_Some_Chr: "gm (Some_of (Chr p)) u g \<longleftrightarrow> g = [] \<and> u \<noteq> [] \<and> list_all p u"
  by (cases u) (auto simp: gm_Seq_Chr gm_Many_Chr)

text \<open>A pattern that ends in \<open>End\<close> and is tried at the start: a match of the whole string.\<close>

lemma ms_End: "ms (Seq a End) s = filter (\<lambda>(g, t). t = []) (ms a s)"
proof -
  have "concat (map (\<lambda>(g, r). map (\<lambda>(h, t). (g @ h, t)) (ms End r)) m) = filter (\<lambda>(g, t). t = []) m" for m
    by (induction m) auto
  then show ?thesis by simp
qed

lemma set_ms_whole:
  assumes "no_end a"
  shows "(g, t) \<in> set (ms (Seq a End) s) \<longleftrightarrow> t = [] \<and> gm a s g"
  using ms_sound [of g "[]" a s] ms_complete [of a s g "[]"] assms by (auto simp: ms_End)

lemma FindAnchored_whole:
  assumes "no_end a" and "\<And>g g'. gm a s g \<Longrightarrow> gm a s g' \<Longrightarrow> g = g'"
  shows "FindAnchored (Seq a End) s = Some g \<longleftrightarrow> gm a s g"
proof
  assume "FindAnchored (Seq a End) s = Some g"
  then have "\<exists>t. (g, t) \<in> set (ms (Seq a End) s)"
    by (auto simp: FindAnchored_def simp del: ms.simps split: list.splits)
  with set_ms_whole [OF assms(1)] show "gm a s g" by blast
next
  assume g: "gm a s g"
  then have "(g, []) \<in> set (ms (Seq a End) s)" using set_ms_whole [OF assms(1)] by blast
  then obtain g' t' m where m: "ms (Seq a End) s = (g', t') # m" by (cases "ms (Seq a End) s") auto
  then have "gm a s g'" using set_ms_whole [OF assms(1), of g' t' s] by simp
  with assms(2) [OF g] m show "FindAnchored (Seq a End) s = Some g" by (simp add: FindAnchored_def del: ms.simps)
qed

lemma gm_Seq_eq: "gm (Seq (Chr ((=) c)) r) u g \<longleftrightarrow> (\<exists>v. u = c # v \<and> gm r v g)"
  by (simp add: gm_Seq_Chr)

lemma gm_Grp_Seq: "gm (Seq (Grp a) b) s g \<longleftrightarrow> (\<exists>u g1 v g2. s = u @ v \<and> gm a u g1 \<and> gm b v g2 \<and> g = u # g1 @ g2)"
  by (auto simp: gm_Seq gm_Grp) (metis append_Cons)+

text \<open>Two groups with a character between them that neither can contain: at most one way to match.\<close>

lemma FindAnchored_pair:
  assumes "no_end a" "no_end b"
    and a: "\<And>u g. gm a u g \<longleftrightarrow> g = [] \<and> P u" and b: "\<And>u g. gm b u g \<longleftrightarrow> g = [] \<and> Q u"
    and "\<And>u. P u \<Longrightarrow> c \<notin> set u" "\<And>u. Q u \<Longrightarrow> c \<notin> set u"
  shows "FindAnchored (Seq (Seq (Grp a) (Seq (Chr ((=) c)) (Grp b))) End) s = Some g \<longleftrightarrow>
    (\<exists>u v. s = u @ c # v \<and> g = [u, v] \<and> P u \<and> Q v)"
proof -
  have gm: "gm (Seq (Grp a) (Seq (Chr ((=) c)) (Grp b))) s g \<longleftrightarrow> (\<exists>u v. s = u @ c # v \<and> g = [u, v] \<and> P u \<and> Q v)" for g
    unfolding gm_Grp_Seq gm_Seq_eq gm_Grp a b by auto
  have uniq: "g = g'" if "gm (Seq (Grp a) (Seq (Chr ((=) c)) (Grp b))) s g"
      "gm (Seq (Grp a) (Seq (Chr ((=) c)) (Grp b))) s g'" for g g'
    using that assms(5,6) unfolding gm by (metis append_Cons_eq_iff)
  have "no_end (Seq (Grp a) (Seq (Chr ((=) c)) (Grp b)))" using assms(1,2) by simp
  then have "FindAnchored (Seq (Seq (Grp a) (Seq (Chr ((=) c)) (Grp b))) End) s = Some g \<longleftrightarrow>
      gm (Seq (Grp a) (Seq (Chr ((=) c)) (Grp b))) s g"
    by (rule FindAnchored_whole) (rule uniq)
  then show ?thesis unfolding gm .
qed

text \<open>The first match of a sequence, when the ways to match its first part before a given one lead nowhere.\<close>

lemma ms_Seq_first:
  assumes "ms a s = pre @ (g, r) # post" "\<And>g r. (g, r) \<in> set pre \<Longrightarrow> ms b r = []" "ms b r = (h, t) # m"
  shows "\<exists>m'. ms (Seq a b) s = (g @ h, t) # m'"
proof -
  have "concat (map (\<lambda>(g, r). map (\<lambda>(h, t). (g @ h, t)) (ms b r)) pre) = []"
    using assms(2) by (auto simp: concat_eq_Nil_conv)
  with assms(1,3) show ?thesis unfolding ms.simps(2) by (simp del: concat_eq_Nil_conv)
qed

lemma FindStringSubmatch_here: "ms r s = (g, t) # m \<Longrightarrow> FindStringSubmatch r s = Some g"
  by (simp add: FindStringSubmatch.simps)

end
