(* ===== verification/ServerEffects.thy ===== *)
theory ServerEffects
  imports UpdateController Solver Submatch PluginURL
begin

section \<open>The world of the server and the plugin controller\<close>

text \<open>
  The operations outside the repository's logic that \<^verbatim>\<open>papermcserver_controller.go\<close>,
  \<^verbatim>\<open>gateway_routes.go\<close>, \<^verbatim>\<open>networkpolicy.go\<close>, \<^verbatim>\<open>plugin_controller.go\<close> and \<^verbatim>\<open>pkg/selector/matcher.go\<close>
  call, beside those of \<open>ext\<close> (field \<open>base\<close>): the typed Kubernetes client, one \<open>kapi\<close> per kind of
  object; the interfaces \<^verbatim>\<open>PaperAPI\<close> and \<^verbatim>\<open>RegistryAPI\<close>; the repository client. The pure functions of
  the Kubernetes libraries are the fields \<open>k_...\<close>: \<^verbatim>\<open>controllerutil.SetControllerReference\<close> on a list
  of owner references, the finalizer functions of \<^verbatim>\<open>controllerutil\<close> on the list of finalizers,
  \<^verbatim>\<open>meta.RemoveStatusCondition\<close> and \<^verbatim>\<open>metav1.LabelSelectorAsSelector\<close>, the ZIP and the
  YAML reader. \<open>k_range site keys\<close> is the order in which the \<^verbatim>\<open>range\<close> loop at \<open>site\<close> visits the keys of a Go
  map, which the language leaves open.
\<close>

record BuildInfo =
  bi_Version :: string
  bi_Build :: int
  bi_DownloadURL :: string
  bi_SHA256 :: string

record ('w, 'o) kapi =
  ka_get :: "string \<Rightarrow> string \<Rightarrow> 'w \<Rightarrow> 'o result \<times> 'w"
  ka_create :: "'o \<Rightarrow> 'w \<Rightarrow> 'o result \<times> 'w"
  ka_update :: "'o \<Rightarrow> 'w \<Rightarrow> 'o result \<times> 'w"
  ka_delete :: "'o \<Rightarrow> 'w \<Rightarrow> unit result \<times> 'w"

record ('w, 'sched) sext =
  base :: "('w, 'sched) ext"
  x_listTags :: "'w \<Rightarrow> string list result \<times> 'w"
  x_imageExists :: "string \<Rightarrow> 'w \<Rightarrow> bool result \<times> 'w"
  x_paperVersions :: "'w \<Rightarrow> string list result \<times> 'w"
  x_paperBuild :: "string \<Rightarrow> 'w \<Rightarrow> BuildInfo result \<times> 'w"
  x_builds :: "string \<Rightarrow> 'w \<Rightarrow> int list result \<times> 'w"
  x_configMaps :: "('w, ConfigMap) kapi"
  x_statefulSets :: "('w, StatefulSet) kapi"
  x_services :: "('w, Service) kapi"
  x_networkPolicies :: "('w, NetworkPolicy) kapi"
  x_tcpRoutes :: "('w, L4Route) kapi"
  x_udpRoutes :: "('w, L4Route) kapi"
  x_httpRoutes :: "('w, HTTPRoute) kapi"
  x_listHTTPRoutes :: "string \<Rightarrow> (string \<times> string) list \<Rightarrow> 'w \<Rightarrow> HTTPRoute list result \<times> 'w"
  x_listServers :: "string \<Rightarrow> 'w \<Rightarrow> PaperMCServer list result \<times> 'w"
  x_updatePlugin :: "Plugin \<Rightarrow> 'w \<Rightarrow> Plugin result \<times> 'w"
  x_getVersions :: "string \<Rightarrow> 'w \<Rightarrow> PluginVersion list result \<times> 'w"
  k_SetControllerReference :: "PaperMCServer \<Rightarrow> OwnerReference list \<Rightarrow> OwnerReference list result"
  k_RemoveStatusCondition :: "Condition list \<Rightarrow> string \<Rightarrow> Condition list"
  k_LabelSelectorAsSelector :: "LabelSelector \<Rightarrow> ((string \<rightharpoonup> string) \<Rightarrow> bool) result"
  k_ContainsFinalizer :: "string list \<Rightarrow> string \<Rightarrow> bool"
  k_AddFinalizer :: "string list \<Rightarrow> string \<Rightarrow> string list"
  k_RemoveFinalizer :: "string list \<Rightarrow> string \<Rightarrow> string list"
  k_OperatorNamespace :: string
  x_httpDo :: "URL \<Rightarrow> 'w \<Rightarrow> HTTPResponse result \<times> 'w"
  k_zip_NewReader :: "string \<Rightarrow> zip_file list result"
  k_yaml_Unmarshal :: "string \<Rightarrow> pluginYML result"
  k_range :: "string list \<Rightarrow> string list \<Rightarrow> string list"

subsection \<open>The calls\<close>

definition list_tags :: "('w, 'sched) sext \<Rightarrow> ('w, string list result) op" where
  "list_tags x = call E_ListTags (x_listTags x)"

definition image_exists :: "('w, 'sched) sext \<Rightarrow> string \<Rightarrow> ('w, bool result) op" where
  "image_exists x tag = call (E_ImageExists tag) (x_imageExists x tag)"

definition paper_versions :: "('w, 'sched) sext \<Rightarrow> ('w, string list result) op" where
  "paper_versions x = call (\<lambda>r. E_Paper ''versions'' [] (is_ok r)) (x_paperVersions x)"

definition paper_build :: "('w, 'sched) sext \<Rightarrow> string \<Rightarrow> ('w, BuildInfo result) op" where
  "paper_build x v = call (\<lambda>r. E_Paper ''build'' v (is_ok r)) (x_paperBuild x v)"

definition paper_builds :: "('w, 'sched) sext \<Rightarrow> string \<Rightarrow> ('w, int list result) op" where
  "paper_builds x v = call (\<lambda>r. E_Paper ''builds'' v (is_ok r)) (x_builds x v)"

definition api_get :: "kind \<Rightarrow> ('w, 'o) kapi \<Rightarrow> string \<Rightarrow> string \<Rightarrow> ('w, 'o result) op" where
  "api_get k a ns n = call (\<lambda>r. E_Get k ns n (is_ok r)) (ka_get a ns n)"

definition api_create :: "('o \<Rightarrow> kobj) \<Rightarrow> ('w, 'o) kapi \<Rightarrow> 'o \<Rightarrow> ('w, 'o result) op" where
  "api_create mk a ob = call (\<lambda>r. E_Create (mk ob) (is_ok r)) (ka_create a ob)"

definition api_update :: "('o \<Rightarrow> kobj) \<Rightarrow> ('w, 'o) kapi \<Rightarrow> 'o \<Rightarrow> ('w, 'o result) op" where
  "api_update mk a ob = call (\<lambda>r. E_Update (mk ob) (is_ok r)) (ka_update a ob)"

definition api_delete :: "('o \<Rightarrow> kobj) \<Rightarrow> ('w, 'o) kapi \<Rightarrow> 'o \<Rightarrow> ('w, unit result) op" where
  "api_delete mk a ob = call (\<lambda>r. E_Delete (mk ob) (is_ok r)) (ka_delete a ob)"

definition list_http_routes ::
  "('w, 'sched) sext \<Rightarrow> string \<Rightarrow> (string \<times> string) list \<Rightarrow> ('w, HTTPRoute list result) op" where
  "list_http_routes x ns sel = call (\<lambda>r. E_ListRoutes ns (is_ok r)) (x_listHTTPRoutes x ns sel)"

definition list_servers :: "('w, 'sched) sext \<Rightarrow> string \<Rightarrow> ('w, PaperMCServer list result) op" where
  "list_servers x ns = call (E_ListServers ns) (x_listServers x ns)"

definition update_plugin :: "('w, 'sched) sext \<Rightarrow> Plugin \<Rightarrow> ('w, Plugin result) op" where
  "update_plugin x p = call (\<lambda>r. E_UpdatePlugin p (is_ok r)) (x_updatePlugin x p)"

definition record_solver :: "('w, 'sched) sext \<Rightarrow> string \<Rightarrow> 'a result \<Rightarrow> ('w, unit) op" where
  "record_solver x name r = (if k_hasMetrics (base x) then emit (E_SolverRun name (is_ok r)) else pass)"

lemmas server_call_ops = list_tags_def image_exists_def paper_versions_def paper_build_def
  paper_builds_def api_get_def api_create_def api_update_def api_delete_def list_http_routes_def
  list_servers_def update_plugin_def record_solver_def

subsection \<open>Decimal numbers\<close>

text \<open>\<^verbatim>\<open>strconv.Atoi\<close>.\<close>

definition Atoi :: "string \<Rightarrow> int result" where
  "Atoi s =
     (let neg = (take 1 s = ''-'');
          body = (if take 1 s = ''-'' \<or> take 1 s = ''+'' then drop 1 s else s);
          v = (if neg then - digits_value 0 body else digits_value 0 body)
      in if body = [] \<or> \<not> list_all is_digit body then Inl (Newf ''strconv.Atoi: parsing %q: invalid syntax'' [AStr s])
         else if v < - (2 ^ 63) \<or> 2 ^ 63 \<le> v then Inl (Newf ''strconv.Atoi: parsing %q: value out of range'' [AStr s])
         else Inr v)"

lemma digits_value_append: "digits_value a (u @ v) = digits_value (digits_value a u) v"
  by (induction u arbitrary: a) simp_all

lemma digit_value_char: "n < 10 \<Longrightarrow> digit_value (char_of (48 + n :: nat)) = int n"
  by (simp add: digit_value_def)

lemma digits_value_nat_dec: "digits_value 0 (nat_dec n) = int n"
proof (induction n rule: nat_dec.induct)
  case (1 n)
  show ?case
  proof (cases "n < 10")
    case True
    then show ?thesis by (subst nat_dec.simps) (simp add: digit_value_char)
  next
    case False
    with 1 show ?thesis
      by (subst nat_dec.simps) (simp add: digits_value_append digit_value_char zdiv_int zmod_int)
  qed
qed

lemma digit_not_sign: "is_digit c \<Longrightarrow> c \<noteq> CHR ''-'' \<and> c \<noteq> CHR ''+''"
  by (auto simp: is_digit_def)

lemma Atoi_nat_dec:
  assumes "n < 2 ^ 63"
  shows "Atoi (nat_dec n) = Inr (int n)"
proof -
  obtain c cs where nd: "nat_dec n = c # cs" by (meson list.exhaust nat_dec_not_Nil)
  with nat_dec_digits [of n] have "c \<noteq> CHR ''-''" "c \<noteq> CHR ''+''" using digit_not_sign by auto
  moreover from assms have "int n < 2 ^ 63" by simp
  ultimately show ?thesis using nat_dec_digits [of n] digits_value_nat_dec [of n] nd
    by (auto simp: Atoi_def Let_def)
qed

lemma Atoi_itoa: "0 \<le> i \<Longrightarrow> i < 2 ^ 63 \<Longrightarrow> Atoi (itoa i) = Inr i"
  using Atoi_nat_dec [of "nat i"] by (simp add: itoa_def nat_less_iff)

subsection \<open>A cluster for the witnesses\<close>

text \<open>
  An API server for one kind of object that keeps its objects in a map, given the key of an object;
  the other parts of the cluster answer as \<open>still_ext\<close> does, and the registry and the repositories are
  empty.
\<close>

definition mem_store :: "('o \<Rightarrow> string \<times> string) \<Rightarrow> (string \<times> string \<Rightarrow> 'o option) \<Rightarrow> string \<times> string \<Rightarrow> 'o option" where
  "mem_store key w = (\<lambda>k. case w k of None \<Rightarrow> None | Some ob \<Rightarrow> if key ob = k then Some ob else None)"

definition mem_api :: "('o \<Rightarrow> string \<times> string) \<Rightarrow> (string \<times> string \<Rightarrow> 'o option, 'o) kapi" where
  "mem_api key =
     \<lparr>ka_get = (\<lambda>ns n w. (case mem_store key w (ns, n) of
                  None \<Rightarrow> Inl (APIStatus NotFound n) | Some ob \<Rightarrow> Inr ob, w)),
      ka_create = (\<lambda>ob w. if mem_store key w (key ob) = None then (Inr ob, w(key ob := Some ob))
                          else (Inl (APIStatus OtherReason ''AlreadyExists''), w)),
      ka_update = (\<lambda>ob w. if mem_store key w (key ob) = None then (Inl (APIStatus NotFound []), w)
                          else (Inr ob, w(key ob := Some ob))),
      ka_delete = (\<lambda>ob w. if mem_store key w (key ob) = None then (Inl (APIStatus NotFound []), w)
                          else (Inr (), w(key ob := None)))\<rparr>"

definition no_api :: "('w, 'o) kapi" where
  "no_api = \<lparr>ka_get = (\<lambda>_ n w. (Inl (APIStatus NotFound n), w)), ka_create = (\<lambda>ob w. (Inr ob, w)),
     ka_update = (\<lambda>ob w. (Inr ob, w)), ka_delete = (\<lambda>_ w. (Inr (), w))\<rparr>"

definition demo_owner :: "PaperMCServer \<Rightarrow> OwnerReference list \<Rightarrow> OwnerReference list result" where
  "demo_owner server refs =
     Inr (if list_ex (\<lambda>r. or_UID r = m_UID (sv_Meta server)) refs then refs
          else refs @ [\<lparr>or_UID = m_UID (sv_Meta server), or_Name = sv_Name server, or_Controller = True\<rparr>])"

definition demo_sext :: "PaperMCServer \<Rightarrow> ('w, unit) sext" where
  "demo_sext server =
     \<lparr>base = still_ext server, x_listTags = (\<lambda>w. (Inr [], w)), x_imageExists = (\<lambda>_ w. (Inr True, w)),
      x_paperVersions = (\<lambda>w. (Inr [], w)), x_paperBuild = (\<lambda>v w. (Inr \<lparr>bi_Version = v, bi_Build = 1, bi_DownloadURL = [], bi_SHA256 = []\<rparr>, w)),
      x_builds = (\<lambda>_ w. (Inr [1], w)),
      x_configMaps = no_api, x_statefulSets = no_api, x_services = no_api, x_networkPolicies = no_api,
      x_tcpRoutes = no_api, x_udpRoutes = no_api, x_httpRoutes = no_api,
      x_listHTTPRoutes = (\<lambda>_ _ w. (Inr [], w)), x_listServers = (\<lambda>_ w. (Inr [server], w)),
      x_updatePlugin = (\<lambda>p w. (Inr p, w)), x_getVersions = (\<lambda>_ w. (Inr [], w)),
      k_SetControllerReference = demo_owner,
      k_RemoveStatusCondition = (\<lambda>cs ty. filter (\<lambda>c. c_Type c \<noteq> ty) cs),
      k_LabelSelectorAsSelector = (\<lambda>sel. Inr (\<lambda>ls. list_all (\<lambda>(k, v). ls k = Some v) (ls_MatchLabels sel))),
      k_ContainsFinalizer = (\<lambda>fs f. f \<in> set fs),
      k_AddFinalizer = (\<lambda>fs f. if f \<in> set fs then fs else fs @ [f]),
      k_RemoveFinalizer = (\<lambda>fs f. filter (\<lambda>g. g \<noteq> f) fs),
      k_OperatorNamespace = ''operator'',
      x_httpDo = (\<lambda>_ w. (Inl (New ''offline''), w)), k_zip_NewReader = (\<lambda>_. Inl (New ''no archive'')),
      k_yaml_Unmarshal = (\<lambda>_. Inl (New ''no document'')), k_range = (\<lambda>_ ks. ks)\<rparr>"

lemma demo_sext_simps [simp]:
  "base (demo_sext server) = still_ext server"
  "x_listTags (demo_sext server) w = (Inr [], w)"
  "x_imageExists (demo_sext server) tag w = (Inr True, w)"
  "x_builds (demo_sext server) v w = (Inr [1], w)"
  "x_networkPolicies (demo_sext server) = no_api"
  "x_listServers (demo_sext server) ns w = (Inr [server], w)"
  "x_updatePlugin (demo_sext server) p w = (Inr p, w)"
  "k_SetControllerReference (demo_sext server) = demo_owner"
  "k_OperatorNamespace (demo_sext server) = ''operator''"
  "k_ContainsFinalizer (demo_sext server) fs f \<longleftrightarrow> f \<in> set fs"
  "k_RemoveFinalizer (demo_sext server) fs f = filter (\<lambda>g. g \<noteq> f) fs"
  by (simp_all add: demo_sext_def)

end
