(* ===== verification/ManagedObjects.thy ===== *)
theory ManagedObjects
  imports ServerEffects
begin

section \<open>Objects that a server owns\<close>

text \<open>
  The pattern by which \<^verbatim>\<open>PaperMCServerReconciler\<close> keeps a TCPRoute, a UDPRoute, an HTTPRoute, a
  NetworkPolicy and a Service as desired: get, then create with an owner reference, or adopt, compare
  and update, or delete. The parts of the pattern are written once, for the accessors of a kind of
  object (\<open>object_ops\<close>); the source repeats them in \<^verbatim>\<open>gateway_routes.go\<close>, \<^verbatim>\<open>networkpolicy.go\<close> and
  \<^verbatim>\<open>papermcserver_controller.go\<close>. \<open>managed_object\<close> is the contract of the accessors, and its lemmas show
  that the pattern converges against an API server that stores what it is given.
\<close>

subsection \<open>Labels (\<^verbatim>\<open>labels.go\<close>)\<close>

definition gcMinecraftOperator :: string where "gcMinecraftOperator = ''minecraft-operator''"
definition gcLabelApp :: string where "gcLabelApp = ''app''"
definition gcLabelServerName :: string where "gcLabelServerName = ''mc.k8s.lex.la/server-name''"

definition standardLabels :: "string \<Rightarrow> string \<Rightarrow> (string \<rightharpoonup> string)" where
  "standardLabels instanceName component =
     [''app.kubernetes.io/name'' \<mapsto> containerNamePaperMC,
      ''app.kubernetes.io/instance'' \<mapsto> instanceName,
      ''app.kubernetes.io/managed-by'' \<mapsto> gcMinecraftOperator,
      ''app.kubernetes.io/component'' \<mapsto> component,
      ''app.kubernetes.io/part-of'' \<mapsto> gcMinecraftOperator]"

definition owned_meta :: "string \<Rightarrow> string \<Rightarrow> (string \<rightharpoonup> string) \<Rightarrow> ObjectMeta" where
  "owned_meta name ns labels = zero_meta\<lparr>m_Name := name, m_Namespace := ns, m_Labels := labels\<rparr>"

subsection \<open>The pattern\<close>

record ('o, 's) object_ops =
  oo_key :: "'o \<Rightarrow> string \<times> string"
  oo_owners :: "'o \<Rightarrow> OwnerReference list"
  oo_set_owners :: "OwnerReference list \<Rightarrow> 'o \<Rightarrow> 'o"
  oo_labels :: "'o \<Rightarrow> (string \<rightharpoonup> string)"
  oo_set_labels :: "(string \<rightharpoonup> string) \<Rightarrow> 'o \<Rightarrow> 'o"
  oo_spec :: "'o \<Rightarrow> 's"
  oo_set_spec :: "'s \<Rightarrow> 'o \<Rightarrow> 'o"

definition wrap_result :: "string \<Rightarrow> 'a result \<Rightarrow> unit result" where
  "wrap_result m r = (case r of Inl err \<Rightarrow> Inl (Wrap err m) | Inr _ \<Rightarrow> Inr ())"

text \<open>Set the owner reference of a new object and create it.\<close>

definition create_owned ::
  "('w, 'sched) sext \<Rightarrow> ('o, 's) object_ops \<Rightarrow> ('o \<Rightarrow> kobj) \<Rightarrow> ('w, 'o) kapi \<Rightarrow> string \<Rightarrow> string
     \<Rightarrow> PaperMCServer \<Rightarrow> 'o \<Rightarrow> ('w, unit result) op" where
  "create_owned x ops mk api ownerMsg createMsg server desired =
     (case k_SetControllerReference x server (oo_owners ops desired) of
        Inl err \<Rightarrow> State_Monad.return (Inl (Wrap err ownerMsg))
      | Inr refs \<Rightarrow> do {
          r \<leftarrow> api_create mk api (oo_set_owners ops refs desired);
          State_Monad.return (wrap_result createMsg r)
        })"

text \<open>Adopt an existing object, and update it unless owners, spec and labels are as desired.\<close>

definition update_owned ::
  "('w, 'sched) sext \<Rightarrow> ('o, 's) object_ops \<Rightarrow> ('o \<Rightarrow> kobj) \<Rightarrow> ('w, 'o) kapi \<Rightarrow> string \<Rightarrow> string
     \<Rightarrow> PaperMCServer \<Rightarrow> 'o \<Rightarrow> 'o \<Rightarrow> ('w, unit result) op" where
  "update_owned x ops mk api ownerMsg updateMsg server existing desired =
     (case k_SetControllerReference x server (oo_owners ops existing) of
        Inl err \<Rightarrow> State_Monad.return (Inl (Wrap err ownerMsg))
      | Inr refs \<Rightarrow>
          let ownerRefsChanged = (length refs \<noteq> length (oo_owners ops existing))
          in if \<not> ownerRefsChanged \<and> oo_spec ops existing = oo_spec ops desired
                \<and> oo_labels ops existing = oo_labels ops desired
             then State_Monad.return (Inr ())
             else do {
               r \<leftarrow> api_update mk api
                     (oo_set_labels ops (oo_labels ops desired)
                       (oo_set_spec ops (oo_spec ops desired) (oo_set_owners ops refs existing)));
               State_Monad.return (wrap_result updateMsg r)
             })"

definition delete_owned ::
  "('o \<Rightarrow> kobj) \<Rightarrow> ('w, 'o) kapi \<Rightarrow> string \<Rightarrow> 'o \<Rightarrow> ('w, unit result) op" where
  "delete_owned mk api deleteMsg existing = do {
     d \<leftarrow> api_delete mk api existing;
     State_Monad.return
       (case d of
          Inl deleteErr \<Rightarrow> if IsNotFound deleteErr then Inr () else Inl (Wrap deleteErr deleteMsg)
        | Inr _ \<Rightarrow> Inr ())
   }"

text \<open>
  The whole pattern for an object of the kind \<open>what\<close>: \<open>skipNoMatch\<close> when a kind that the cluster does
  not know is no error, \<open>shouldExist\<close> and \<open>desired\<close> (which may fail to build) from the configuration.
\<close>

definition reconcile_object ::
  "('w, 'sched) sext \<Rightarrow> ('o, 's) object_ops \<Rightarrow> ('o \<Rightarrow> kobj) \<Rightarrow> ('w, 'o) kapi \<Rightarrow> kind \<Rightarrow> string \<Rightarrow> bool
     \<Rightarrow> string \<Rightarrow> bool \<Rightarrow> 'o result \<Rightarrow> PaperMCServer \<Rightarrow> ('w, unit result) op" where
  "reconcile_object x ops mk api kind what skipNoMatch name shouldExist desired server = do {
     g \<leftarrow> api_get kind api (sv_Namespace server) name;
     case g of
       Inl err \<Rightarrow>
         if IsNotFound err then
           (if \<not> shouldExist then State_Monad.return (Inr ())
            else case desired of
                   Inl e \<Rightarrow> State_Monad.return (Inl (Wrap e (''failed to build '' @ what)))
                 | Inr d \<Rightarrow> create_owned x ops mk api (''failed to set owner reference on '' @ what)
                              (''failed to create '' @ what) server d)
         else if skipNoMatch \<and> IsNoMatch err then State_Monad.return (Inr ())
         else State_Monad.return (Inl (Wrap err (''failed to get '' @ what)))
     | Inr existing \<Rightarrow>
         if \<not> shouldExist then delete_owned mk api (''failed to delete '' @ what) existing
         else (case desired of
                 Inl e \<Rightarrow> State_Monad.return (Inl (Wrap e (''failed to build '' @ what)))
               | Inr d \<Rightarrow> update_owned x ops mk api (''failed to set owner reference on '' @ what)
                            (''failed to update '' @ what) server existing d)
   }"

subsection \<open>Convergence\<close>

text \<open>
  What the operator relies on. An API server \<open>serves\<close> the objects of a kind from \<open>store\<close>: a read
  returns what is stored and changes nothing, and reports that an object is not found only when it is
  absent; a write either fails and changes nothing or takes effect on the named object alone, keeping
  the spec, the labels and the owners it was given. \<open>owner_upsert\<close>: setting the owner reference again
  changes nothing, as \<^verbatim>\<open>SetControllerReference\<close> documents.
\<close>

definition stored_as :: "('o, 's) object_ops \<Rightarrow> 'o \<Rightarrow> 'o \<Rightarrow> bool" where
  "stored_as ops ob ob' \<longleftrightarrow> oo_key ops ob' = oo_key ops ob \<and> oo_spec ops ob' = oo_spec ops ob
     \<and> oo_labels ops ob' = oo_labels ops ob \<and> oo_owners ops ob' = oo_owners ops ob"

definition serves ::
  "('o, 's) object_ops \<Rightarrow> ('w, 'o) kapi \<Rightarrow> ('w \<Rightarrow> string \<times> string \<Rightarrow> 'o option) \<Rightarrow> bool" where
  "serves ops api store \<longleftrightarrow>
     (\<forall>ns n w r w'. ka_get api ns n w = (r, w') \<longrightarrow> store w' = store w \<and>
        (case r of Inr ob \<Rightarrow> store w (ns, n) = Some ob | Inl e \<Rightarrow> store w (ns, n) = None \<or> \<not> IsNotFound e))
   \<and> (\<forall>ob w r w'. ka_create api ob w = (r, w') \<longrightarrow>
        (case r of Inr ob' \<Rightarrow> stored_as ops ob ob' \<and> store w' = (store w)(oo_key ops ob := Some ob')
         | Inl e \<Rightarrow> store w' = store w))
   \<and> (\<forall>ob w r w'. ka_update api ob w = (r, w') \<longrightarrow>
        (case r of Inr ob' \<Rightarrow> stored_as ops ob ob' \<and> store w' = (store w)(oo_key ops ob := Some ob')
         | Inl e \<Rightarrow> store w' = store w))
   \<and> (\<forall>ob w r w'. ka_delete api ob w = (r, w') \<longrightarrow>
        (case r of Inr _ \<Rightarrow> store w' = (store w)(oo_key ops ob := None)
         | Inl e \<Rightarrow> store w' = store w \<and> (store w (oo_key ops ob) = None \<or> \<not> IsNotFound e)))
   \<and> (\<forall>w k ob. store w k = Some ob \<longrightarrow> oo_key ops ob = k)"

lemma serves_get:
  assumes "serves ops api store" "ka_get api ns n w = (r, w')"
  shows "store w' = store w" "r = Inr ob \<Longrightarrow> store w (ns, n) = Some ob"
    "r = Inl e \<Longrightarrow> IsNotFound e \<Longrightarrow> store w (ns, n) = None"
  using assms unfolding serves_def by (fastforce split: sum.splits)+

lemma serves_write:
  assumes "serves ops api store"
  shows "ka_create api ob w = (Inr ob', w') \<Longrightarrow> stored_as ops ob ob' \<and> store w' = (store w)(oo_key ops ob := Some ob')"
    "ka_update api ob w = (Inr ob', w') \<Longrightarrow> stored_as ops ob ob' \<and> store w' = (store w)(oo_key ops ob := Some ob')"
    "ka_delete api ob w = (Inr u, w') \<Longrightarrow> store w' = (store w)(oo_key ops ob := None)"
    "ka_delete api ob w = (Inl e, w') \<Longrightarrow> IsNotFound e \<Longrightarrow> store w' = store w \<and> store w (oo_key ops ob) = None"
  using assms unfolding serves_def by (fastforce split: sum.splits)+

lemma serves_key: "serves ops api store \<Longrightarrow> store w k = Some ob \<Longrightarrow> oo_key ops ob = k"
  unfolding serves_def by blast

definition owner_upsert :: "(PaperMCServer \<Rightarrow> OwnerReference list \<Rightarrow> OwnerReference list result) \<Rightarrow> bool" where
  "owner_upsert k \<longleftrightarrow> (\<forall>server refs refs'. k server refs = Inr refs' \<longrightarrow> k server refs' = Inr refs')"

text \<open>The object under a key is as desired: absent, or present with its spec, labels and an owner.\<close>

definition as_desired ::
  "('w, 'sched) sext \<Rightarrow> ('o, 's) object_ops \<Rightarrow> PaperMCServer \<Rightarrow> bool \<Rightarrow> 'o result \<Rightarrow> 'o option \<Rightarrow> bool" where
  "as_desired x ops server shouldExist desired stored \<longleftrightarrow>
     (if \<not> shouldExist then stored = None
      else \<exists>ob d. stored = Some ob \<and> desired = Inr d
             \<and> oo_spec ops ob = oo_spec ops d \<and> oo_labels ops ob = oo_labels ops d
             \<and> (\<exists>refs. k_SetControllerReference x server (oo_owners ops ob) = Inr refs
                    \<and> length refs = length (oo_owners ops ob)))"

locale managed_object =
  fixes ops :: "('o, 's) object_ops"
  assumes key_set [simp]: "oo_key ops (oo_set_owners ops r ob) = oo_key ops ob"
      "oo_key ops (oo_set_labels ops l ob) = oo_key ops ob"
      "oo_key ops (oo_set_spec ops sp ob) = oo_key ops ob"
    and owners_set [simp]: "oo_owners ops (oo_set_owners ops r ob) = r"
      "oo_owners ops (oo_set_labels ops l ob) = oo_owners ops ob"
      "oo_owners ops (oo_set_spec ops sp ob) = oo_owners ops ob"
    and labels_set [simp]: "oo_labels ops (oo_set_owners ops r ob) = oo_labels ops ob"
      "oo_labels ops (oo_set_labels ops l ob) = l"
    and spec_set [simp]: "oo_spec ops (oo_set_owners ops r ob) = oo_spec ops ob"
      "oo_spec ops (oo_set_labels ops l ob) = oo_spec ops ob"
      "oo_spec ops (oo_set_spec ops sp ob) = sp"
begin

lemma create_owned_converges:
  assumes "serves ops api store" "owner_upsert (k_SetControllerReference x)"
    and "run_state (create_owned x ops mk api om cm server d) s = (Inr (), s')"
  shows "as_desired x ops server True (Inr d) (store (world s') (oo_key ops d))
    \<and> (\<forall>k'. k' \<noteq> oo_key ops d \<longrightarrow> store (world s') k' = store (world s) k')"
proof -
  from assms(3) obtain refs where refs: "k_SetControllerReference x server (oo_owners ops d) = Inr refs"
    by (cases "k_SetControllerReference x server (oo_owners ops d)") (auto simp: create_owned_def)
  with assms(2) have idem: "k_SetControllerReference x server refs = Inr refs" unfolding owner_upsert_def by blast
  from assms(3) refs obtain ob where call: "ka_create api (oo_set_owners ops refs d) (world s) = (Inr ob, world s')"
    by (auto simp: create_owned_def api_create_def call_def wrap_result_def split: sum.splits prod.splits)
  from serves_write(1) [OF assms(1) call] idem show ?thesis by (auto simp: stored_as_def as_desired_def)
qed

lemma update_owned_converges:
  assumes "serves ops api store" "owner_upsert (k_SetControllerReference x)"
    and "store (world s) k = Some ob" "oo_key ops d = k"
    and "run_state (update_owned x ops mk api om um server ob d) s = (Inr (), s')"
  shows "as_desired x ops server True (Inr d) (store (world s') k)
    \<and> (\<forall>k'. k' \<noteq> k \<longrightarrow> store (world s') k' = store (world s) k')"
proof -
  from assms(5) obtain refs where refs: "k_SetControllerReference x server (oo_owners ops ob) = Inr refs"
    by (cases "k_SetControllerReference x server (oo_owners ops ob)") (auto simp: update_owned_def)
  with assms(2) have idem: "k_SetControllerReference x server refs = Inr refs" unfolding owner_upsert_def by blast
  let ?same = "length refs = length (oo_owners ops ob) \<and> oo_spec ops ob = oo_spec ops d \<and> oo_labels ops ob = oo_labels ops d"
  show ?thesis
  proof (cases ?same)
    case True
    with assms(3,5) refs show ?thesis by (auto simp: update_owned_def as_desired_def)
  next
    case False
    define new where "new = oo_set_labels ops (oo_labels ops d)
      (oo_set_spec ops (oo_spec ops d) (oo_set_owners ops refs ob))"
    from assms(5) refs False obtain ob' where call: "ka_update api new (world s) = (Inr ob', world s')"
      by (auto simp: update_owned_def api_update_def call_def wrap_result_def Let_def new_def split: sum.splits prod.splits)
    from serves_key [OF assms(1,3)] have "oo_key ops new = k" by (simp add: new_def)
    with serves_write(2) [OF assms(1) call] idem show ?thesis
      by (auto simp: stored_as_def as_desired_def new_def)
  qed
qed

lemma delete_owned_converges:
  assumes "serves ops api store" "store (world s) k = Some ob"
    and "run_state (delete_owned mk api dm ob) s = (Inr (), s')"
  shows "store (world s') = (store (world s))(k := None)"
proof -
  from assms(3) consider (ok) u where "ka_delete api ob (world s) = (Inr u, world s')"
    | (gone) e where "ka_delete api ob (world s) = (Inl e, world s')" "IsNotFound e"
    by (auto simp: delete_owned_def api_delete_def call_def split: sum.splits prod.splits if_splits)
  then show ?thesis
    using serves_write(3,4) [OF assms(1)] serves_key [OF assms(1,2)] assms(2) by cases (fastforce, force)
qed

text \<open>The writes of the pattern carry the desired spec.\<close>

lemma create_owned_only:
  assumes "\<And>ob ok. oo_spec ops ob = oo_spec ops d \<Longrightarrow> P (E_Create (mk ob) ok)"
  shows "only P (create_owned x ops mk api om cm server d)"
  unfolding create_owned_def server_call_ops by (intro only_rules assms) simp

lemma update_owned_only:
  assumes "\<And>ob ok. oo_spec ops ob = oo_spec ops d \<Longrightarrow> P (E_Update (mk ob) ok)"
  shows "only P (update_owned x ops mk api om um server e d)"
  unfolding update_owned_def server_call_ops by (intro only_rules assms) simp

lemma delete_owned_only: "(\<And>ob ok. P (E_Delete (mk ob) ok)) \<Longrightarrow> only P (delete_owned mk api dm e)"
  unfolding delete_owned_def server_call_ops by (intro only_rules) simp

lemma reconcile_object_only:
  assumes "\<And>ob ok d. desired = Inr d \<Longrightarrow> oo_spec ops ob = oo_spec ops d \<Longrightarrow> P (E_Create (mk ob) ok)"
    and "\<And>ob ok d. desired = Inr d \<Longrightarrow> oo_spec ops ob = oo_spec ops d \<Longrightarrow> P (E_Update (mk ob) ok)"
    and "\<And>ob ok. P (E_Delete (mk ob) ok)" and "\<And>ok. P (E_Get kd (sv_Namespace server) name ok)"
  shows "only P (reconcile_object x ops mk api kd what skip name shouldExist desired server)"
proof (cases desired)
  case (Inl e)
  show ?thesis unfolding reconcile_object_def api_get_def Inl sum.case
    by (intro only_rules delete_owned_only assms(3,4))
next
  case (Inr d)
  show ?thesis unfolding reconcile_object_def api_get_def Inr sum.case
    by (intro only_rules create_owned_only update_owned_only delete_owned_only assms(3,4)
        assms(1,2) [OF Inr]; assumption)
qed

text \<open>A run that succeeds on a known kind leaves the object as desired and no other object changed.\<close>

lemma reconcile_object_converges:
  assumes "serves ops api store" "owner_upsert (k_SetControllerReference x)"
    and "\<And>d. desired = Inr d \<Longrightarrow> oo_key ops d = (sv_Namespace server, name)"
    and "run_state (reconcile_object x ops mk api kd what False name shouldExist desired server) s = (Inr (), s')"
  shows "as_desired x ops server shouldExist desired (store (world s') (sv_Namespace server, name))
    \<and> (\<forall>k'. k' \<noteq> (sv_Namespace server, name) \<longrightarrow> store (world s') k' = store (world s) k')"
proof -
  let ?k = "(sv_Namespace server, name)"
  obtain r w where get: "ka_get api (sv_Namespace server) name (world s) = (r, w)" by fastforce
  define s1 where "s1 = s\<lparr>world := w, trace := trace s @ [E_Get kd (sv_Namespace server) name (is_ok r)]\<rparr>"
  from serves_get(1) [OF assms(1) get] have st: "store (world s1) = store (world s)" by (simp add: s1_def)
  have run: "run_state (api_get kd api (sv_Namespace server) name) s = (r, s1)"
    by (simp add: api_get_def call_def get s1_def)
  show ?thesis
  proof (cases r)
    case (Inl e)
    with assms(4) run have nf: "IsNotFound e"
      by (auto simp: reconcile_object_def split: if_splits)
    then have absent: "store (world s) ?k = None" using serves_get(3) [OF assms(1) get Inl] by blast
    show ?thesis
    proof (cases shouldExist)
      case False
      with assms(4) run Inl nf absent st show ?thesis by (auto simp: reconcile_object_def as_desired_def)
    next
      case True
      with assms(4) run Inl nf obtain d where d: "desired = Inr d"
        and c: "run_state (create_owned x ops mk api (''failed to set owner reference on '' @ what)
                  (''failed to create '' @ what) server d) s1 = (Inr (), s')"
        by (cases desired) (auto simp: reconcile_object_def)
      from create_owned_converges [OF assms(1,2) c] assms(3) [OF d] st True d show ?thesis by auto
    qed
  next
    case (Inr ob)
    then have there: "store (world s1) ?k = Some ob" using serves_get(2) [OF assms(1) get] st by simp
    show ?thesis
    proof (cases shouldExist)
      case False
      with assms(4) run Inr have "run_state (delete_owned mk api (''failed to delete '' @ what) ob) s1 = (Inr (), s')"
        by (simp add: reconcile_object_def)
      from delete_owned_converges [OF assms(1) there this] False st show ?thesis by (simp add: as_desired_def)
    next
      case True
      with assms(4) run Inr obtain d where d: "desired = Inr d"
        and c: "run_state (update_owned x ops mk api (''failed to set owner reference on '' @ what)
                  (''failed to update '' @ what) server ob d) s1 = (Inr (), s')"
        by (cases desired) (auto simp: reconcile_object_def)
      from update_owned_converges [OF assms(1,2) there assms(3) [OF d] c] st True d show ?thesis by auto
    qed
  qed
qed

text \<open>A run on an object that is as desired only reads.\<close>

lemma reconcile_object_stable:
  assumes "serves ops api store"
    and "as_desired x ops server shouldExist desired (store (world s) (sv_Namespace server, name))"
    and "run_state (reconcile_object x ops mk api kd what False name shouldExist desired server) s = (r, s')"
  shows "store (world s') = store (world s)
    \<and> trace s' = trace s @ [E_Get kd (sv_Namespace server) name
         (is_ok (fst (ka_get api (sv_Namespace server) name (world s))))]"
proof -
  obtain g w where get: "ka_get api (sv_Namespace server) name (world s) = (g, w)" by fastforce
  note sg = serves_get [OF assms(1) get]
  from assms(2,3) get sg show ?thesis
    by (cases g; cases shouldExist; cases desired)
      (auto simp: reconcile_object_def api_get_def call_def as_desired_def update_owned_def Let_def split: if_splits)
qed

end

lemma mem_store_upd: "mem_store key (w(key ob := Some ob)) = (mem_store key w)(key ob := Some ob)"
  and mem_store_del: "mem_store key (w(k := None)) = (mem_store key w)(k := None)"
  by (auto simp: mem_store_def fun_eq_iff)

lemma mem_api_serves: "serves ops (mem_api (oo_key ops)) (mem_store (oo_key ops))"
  unfolding serves_def mem_api_def
  by (auto simp: stored_as_def mem_store_upd mem_store_del IsNotFound_def split: option.splits if_splits)
    (auto simp: mem_store_def split: option.splits if_splits)

lemma demo_owner_upsert: "owner_upsert demo_owner"
  by (auto simp: owner_upsert_def demo_owner_def)

end
