(* ===== verification/NetworkPolicies.thy ===== *)
theory NetworkPolicies
  imports ManagedObjects
begin

section \<open>The network policy of a server (\<^verbatim>\<open>networkpolicy.go\<close>)\<close>

text \<open>
  \<open>buildNetworkPolicy\<close> and its parts are pure: the policy that the configuration of a server and its
  matched plugins ask for, or an error for a peer or a destination that is not well-formed.
  \<open>ensureNetworkPolicy\<close> brings the stored policy in line. The lemmas say which peers may reach which
  port under the rules built.
\<close>

definition dnsPort :: int where "dnsPort = 53"
definition minecraftPort :: int where "minecraftPort = 25565"
definition gcLabelMetadataName :: string where "gcLabelMetadataName = ''kubernetes.io/metadata.name''"
definition ProtocolTCP :: string where "ProtocolTCP = ''TCP''"
definition ProtocolUDP :: string where "ProtocolUDP = ''UDP''"
definition gcProtocolUDP :: string where "gcProtocolUDP = ''UDP''"

lemmas network_consts = dnsPort_def minecraftPort_def ProtocolTCP_def ProtocolUDP_def gcProtocolUDP_def

definition server_selector :: "PaperMCServer \<Rightarrow> (string \<times> string) list" where
  "server_selector server = [(gcLabelApp, containerNamePaperMC), (gcLabelServerName, sv_Name server)]"

definition np_port :: "string \<Rightarrow> int \<Rightarrow> NetworkPolicyPort" where
  "np_port proto port = \<lparr>npp_Protocol = Some proto, npp_Port = Some port\<rparr>"

definition sameNamespacePeer :: "string \<Rightarrow> NetworkPolicyPeer" where
  "sameNamespacePeer namespace =
     \<lparr>peer_PodSelector = None,
      peer_NamespaceSelector =
        Some \<lparr>ls_MatchLabels = [(gcLabelMetadataName, namespace)], ls_MatchExpressions = []\<rparr>,
      peer_IPBlock = None\<rparr>"

definition convertToPeer :: "NetworkPolicySource \<Rightarrow> NetworkPolicyPeer result" where
  "convertToPeer source =
     (if nps_CIDR source = [] \<and> nps_PodSelector source = None \<and> nps_NamespaceSelector source = None
      then Inl (New ''NetworkPolicySource must specify at least one of CIDR, PodSelector, or NamespaceSelector'')
      else if nps_CIDR source \<noteq> [] \<and> (nps_PodSelector source \<noteq> None \<or> nps_NamespaceSelector source \<noteq> None)
      then Inl (New ''NetworkPolicySource cannot combine CIDR with PodSelector or NamespaceSelector'')
      else Inr \<lparr>peer_PodSelector = nps_PodSelector source,
                peer_NamespaceSelector = nps_NamespaceSelector source,
                peer_IPBlock = (if nps_CIDR source \<noteq> [] then Some (nps_CIDR source) else None)\<rparr>)"

text \<open>The loop over \<^verbatim>\<open>AllowFrom\<close> appends a peer for every source and stops at the first error.\<close>

fun allow_from_peers :: "NetworkPolicyPeer list \<Rightarrow> NetworkPolicySource list \<Rightarrow> NetworkPolicyPeer list result" where
  "allow_from_peers peers [] = Inr peers"
| "allow_from_peers peers (source # sources) =
     (case convertToPeer source of
        Inl err \<Rightarrow> Inl (Wrap err ''invalid allowFrom source'')
      | Inr peer \<Rightarrow> allow_from_peers (peers @ [peer]) sources)"

text \<open>The protocol of an endpoint: UDP, or TCP for TCP, HTTP and the empty string.\<close>

definition endpoint_proto :: "PluginEndpoint \<Rightarrow> string" where
  "endpoint_proto ep = (if ep_Protocol ep = gcProtocolUDP then ProtocolUDP else ProtocolTCP)"

definition plugin_endpoints :: "Plugin list \<Rightarrow> PluginEndpoint list" where
  "plugin_endpoints ps = concat (map (\<lambda>p. ps_Endpoints (pl_Spec p)) ps)"

fun plugin_rules_loop ::
  "NetworkPolicyPeer list \<Rightarrow> (int \<times> string) set \<Rightarrow> PluginEndpoint list \<Rightarrow> NetworkPolicyRule list" where
  "plugin_rules_loop fromPeers seen [] = []"
| "plugin_rules_loop fromPeers seen (ep # eps) =
     (let key = (ep_Port ep, endpoint_proto ep)
      in if key \<in> seen then plugin_rules_loop fromPeers seen eps
         else \<lparr>rule_Ports = [np_port (endpoint_proto ep) (ep_Port ep)], rule_Peers = fromPeers\<rparr>
              # plugin_rules_loop fromPeers (insert key seen) eps)"

definition buildPluginIngressRules :: "Plugin list \<Rightarrow> NetworkPolicyPeer list \<Rightarrow> NetworkPolicyRule list" where
  "buildPluginIngressRules matchedPlugins fromPeers =
     plugin_rules_loop fromPeers {} (plugin_endpoints matchedPlugins)"

definition rcon_ingress_port :: "PaperMCServer \<Rightarrow> int" where
  "rcon_ingress_port server =
     (let port = rc_Port (ss_RCON (sv_Spec server)) in if port \<le> 0 then 25575 else port)"

definition rcon_namespace :: "string \<Rightarrow> PaperMCServer \<Rightarrow> string" where
  "rcon_namespace operatorNamespace server =
     (if operatorNamespace = [] then sv_Namespace server else operatorNamespace)"

definition buildRCONIngressRule :: "string \<Rightarrow> PaperMCServer \<Rightarrow> NetworkPolicyRule list" where
  "buildRCONIngressRule operatorNamespace server =
     (if \<not> rc_Enabled (ss_RCON (sv_Spec server)) then []
      else [\<lparr>rule_Ports = [np_port ProtocolTCP (rcon_ingress_port server)],
             rule_Peers = [sameNamespacePeer (rcon_namespace operatorNamespace server)]\<rparr>])"

definition buildNetworkPolicyIngress ::
  "string \<Rightarrow> PaperMCServer \<Rightarrow> ServerNetworkPolicy \<Rightarrow> Plugin list \<Rightarrow> NetworkPolicyRule list result" where
  "buildNetworkPolicyIngress operatorNamespace server npSpec matchedPlugins =
     (case allow_from_peers [sameNamespacePeer (sv_Namespace server)] (snp_AllowFrom npSpec) of
        Inl err \<Rightarrow> Inl err
      | Inr fromPeers \<Rightarrow>
          Inr (\<lparr>rule_Ports = [np_port ProtocolTCP minecraftPort], rule_Peers = fromPeers\<rparr>
               # buildPluginIngressRules matchedPlugins fromPeers
               @ buildRCONIngressRule operatorNamespace server))"

fun egress_loop :: "NetworkPolicyRule list \<Rightarrow> NetworkPolicyDestination list \<Rightarrow> NetworkPolicyRule list result" where
  "egress_loop rules [] = Inr rules"
| "egress_loop rules (dest # dests) =
     (if npd_CIDR dest = [] \<and> npd_Port dest = None
      then Inl (New ''NetworkPolicyDestination must specify at least CIDR or Port'')
      else egress_loop
             (rules @
              [\<lparr>rule_Ports =
                  (case npd_Port dest of
                     None \<Rightarrow> []
                   | Some port \<Rightarrow>
                       [np_port (case npd_Protocol dest of None \<Rightarrow> ProtocolTCP | Some p \<Rightarrow> p) port]),
                rule_Peers =
                  (if npd_CIDR dest \<noteq> []
                   then [\<lparr>peer_PodSelector = None, peer_NamespaceSelector = None,
                          peer_IPBlock = Some (npd_CIDR dest)\<rparr>]
                   else [])\<rparr>])
             dests)"

definition buildNetworkPolicyEgress :: "ServerNetworkPolicy \<Rightarrow> NetworkPolicyRule list result" where
  "buildNetworkPolicyEgress npSpec =
     egress_loop
       [\<lparr>rule_Ports = [np_port ProtocolUDP dnsPort, np_port ProtocolTCP dnsPort], rule_Peers = []\<rparr>,
        \<lparr>rule_Ports = [np_port ProtocolTCP 443], rule_Peers = []\<rparr>]
       (snp_AllowEgressTo npSpec)"

definition restrict_egress :: "ServerNetworkPolicy \<Rightarrow> bool" where
  "restrict_egress npSpec = (case snp_RestrictEgress npSpec of None \<Rightarrow> True | Some b \<Rightarrow> b)"

definition buildNetworkPolicy ::
  "string \<Rightarrow> PaperMCServer \<Rightarrow> ServerNetworkPolicy \<Rightarrow> Plugin list \<Rightarrow> NetworkPolicy result" where
  "buildNetworkPolicy operatorNamespace server npSpec matchedPlugins =
     (case buildNetworkPolicyIngress operatorNamespace server npSpec matchedPlugins of
        Inl err \<Rightarrow> Inl (Wrap err ''failed to build ingress rules'')
      | Inr ingress \<Rightarrow>
          (case (if restrict_egress npSpec then buildNetworkPolicyEgress npSpec else Inr []) of
             Inl egressErr \<Rightarrow> Inl (Wrap egressErr ''failed to build egress rules'')
           | Inr egress \<Rightarrow>
               Inr \<lparr>np_Meta = owned_meta (sv_Name server @ ''-minecraft'') (sv_Namespace server)
                       (standardLabels (sv_Name server) ''network-policy''),
                    np_Spec =
                      \<lparr>npsp_PodSelector = \<lparr>ls_MatchLabels = server_selector server, ls_MatchExpressions = []\<rparr>,
                       npsp_PolicyTypes =
                         (if restrict_egress npSpec then [''Ingress'', ''Egress''] else [''Ingress'']),
                       npsp_Ingress = ingress, npsp_Egress = egress\<rparr>\<rparr>))"

subsection \<open>The stored policy\<close>

definition np_ops :: "(NetworkPolicy, NetworkPolicySpec) object_ops" where
  "np_ops =
     \<lparr>oo_key = (\<lambda>p. (m_Namespace (np_Meta p), m_Name (np_Meta p))),
      oo_owners = (\<lambda>p. m_OwnerReferences (np_Meta p)),
      oo_set_owners = (\<lambda>r p. p\<lparr>np_Meta := (np_Meta p)\<lparr>m_OwnerReferences := r\<rparr>\<rparr>),
      oo_labels = (\<lambda>p. m_Labels (np_Meta p)),
      oo_set_labels = (\<lambda>l p. p\<lparr>np_Meta := (np_Meta p)\<lparr>m_Labels := l\<rparr>\<rparr>),
      oo_spec = np_Spec, oo_set_spec = (\<lambda>s p. p\<lparr>np_Spec := s\<rparr>)\<rparr>"

definition network_policy_config :: "PaperMCServer \<Rightarrow> ServerNetworkPolicy option" where
  "network_policy_config server =
     (case ss_Network (sv_Spec server) of
        None \<Rightarrow> None
      | Some net \<Rightarrow>
          (case nc_NetworkPolicy net of None \<Rightarrow> None | Some np \<Rightarrow> if snp_Enabled np then Some np else None))"

text \<open>The policy that shall be stored for a server, if any.\<close>

definition desired_network_policy ::
  "string \<Rightarrow> PaperMCServer \<Rightarrow> Plugin list \<Rightarrow> NetworkPolicy result" where
  "desired_network_policy operatorNamespace server matchedPlugins =
     (case network_policy_config server of
        None \<Rightarrow> Inl (New ''no network policy'')
      | Some npSpec \<Rightarrow> buildNetworkPolicy operatorNamespace server npSpec matchedPlugins)"

definition ensureNetworkPolicy ::
  "('w, 'sched) sext \<Rightarrow> PaperMCServer \<Rightarrow> Plugin list \<Rightarrow> ('w, unit result) op" where
  "ensureNetworkPolicy x server matchedPlugins =
     reconcile_object x np_ops O_NetworkPolicy (x_networkPolicies x) K_NetworkPolicy ''NetworkPolicy'' False
       (sv_Name server @ ''-minecraft'') (network_policy_config server \<noteq> None)
       (desired_network_policy (k_OperatorNamespace x) server matchedPlugins) server"

interpretation network_policies: managed_object np_ops
  by unfold_locales (simp_all add: np_ops_def)

subsection \<open>Which peer may reach which port\<close>

text \<open>A rule of the ingress lists the peer, and the port with its protocol.\<close>

definition opens :: "NetworkPolicyRule list \<Rightarrow> NetworkPolicyPeer \<Rightarrow> string \<Rightarrow> int \<Rightarrow> bool" where
  "opens rules peer proto port \<longleftrightarrow>
     list_ex (\<lambda>r. np_port proto port \<in> set (rule_Ports r) \<and> peer \<in> set (rule_Peers r)) rules"

lemma opens_simps [simp]:
  "opens [] peer proto port \<longleftrightarrow> False"
  "opens (r # rs) peer proto port \<longleftrightarrow>
     np_port proto port \<in> set (rule_Ports r) \<and> peer \<in> set (rule_Peers r) \<or> opens rs peer proto port"
  "opens (rs @ rs') peer proto port \<longleftrightarrow> opens rs peer proto port \<or> opens rs' peer proto port"
  by (simp_all add: opens_def)

lemma np_port_eq [simp]: "np_port a p = np_port b q \<longleftrightarrow> a = b \<and> p = q"
  by (auto simp: np_port_def)

lemma plugin_rules_open:
  "opens (plugin_rules_loop peers seen eps) peer proto port \<longleftrightarrow>
     peer \<in> set peers \<and> (port, proto) \<notin> seen \<and> (\<exists>ep \<in> set eps. ep_Port ep = port \<and> endpoint_proto ep = proto)"
  by (induction peers seen eps rule: plugin_rules_loop.induct) (auto simp: Let_def)

lemma buildPluginIngressRules_open:
  "opens (buildPluginIngressRules ps peers) peer proto port \<longleftrightarrow>
     peer \<in> set peers \<and> (\<exists>ep \<in> set (plugin_endpoints ps). ep_Port ep = port \<and> endpoint_proto ep = proto)"
  by (simp add: buildPluginIngressRules_def plugin_rules_open)

text \<open>The peers a configuration admits: the namespace of the server and those of \<^verbatim>\<open>allowFrom\<close>.\<close>

definition configured_peers :: "PaperMCServer \<Rightarrow> ServerNetworkPolicy \<Rightarrow> NetworkPolicyPeer set" where
  "configured_peers server npSpec =
     insert (sameNamespacePeer (sv_Namespace server)) {p. \<exists>s \<in> set (snp_AllowFrom npSpec). convertToPeer s = Inr p}"

lemma allow_from_peers_set:
  "allow_from_peers peers ss = Inr ps \<Longrightarrow> set ps = set peers \<union> {p. \<exists>s \<in> set ss. convertToPeer s = Inr p}"
  by (induction peers ss arbitrary: ps rule: allow_from_peers.induct) (auto split: sum.splits)

lemma ingress_open:
  assumes "buildNetworkPolicyIngress opns server npSpec ps = Inr rules"
  shows "opens rules peer proto port \<longleftrightarrow>
     peer \<in> configured_peers server npSpec \<and>
       (proto = ProtocolTCP \<and> port = minecraftPort \<or>
        (\<exists>ep \<in> set (plugin_endpoints ps). ep_Port ep = port \<and> endpoint_proto ep = proto))
   \<or> rc_Enabled (ss_RCON (sv_Spec server)) \<and> proto = ProtocolTCP \<and> port = rcon_ingress_port server
     \<and> peer = sameNamespacePeer (rcon_namespace opns server)"
proof -
  from assms obtain peers where
    al: "allow_from_peers [sameNamespacePeer (sv_Namespace server)] (snp_AllowFrom npSpec) = Inr peers"
    and rules: "rules = \<lparr>rule_Ports = [np_port ProtocolTCP minecraftPort], rule_Peers = peers\<rparr>
       # buildPluginIngressRules ps peers @ buildRCONIngressRule opns server"
    by (auto simp: buildNetworkPolicyIngress_def split: sum.splits)
  from allow_from_peers_set [OF al] have "set peers = configured_peers server npSpec"
    by (simp add: configured_peers_def)
  moreover have "opens (buildRCONIngressRule opns server) peer proto port \<longleftrightarrow>
      rc_Enabled (ss_RCON (sv_Spec server)) \<and> proto = ProtocolTCP \<and> port = rcon_ingress_port server
      \<and> peer = sameNamespacePeer (rcon_namespace opns server)"
    by (auto simp: buildRCONIngressRule_def)
  ultimately show ?thesis unfolding rules by (auto simp: buildPluginIngressRules_open)
qed

text \<open>
  C18. The ingress of a built policy, exactly: a configured peer (the namespace of the server, or one of
  \<^verbatim>\<open>allowFrom\<close>) reaches the game port and the endpoints of the matched plugins, the namespace of the
  operator reaches the RCON port when RCON is on, and nothing else is open.
\<close>

theorem network_policy_ingress:
  assumes "buildNetworkPolicy opns server npSpec plugins = Inr np"
  shows "opens (npsp_Ingress (np_Spec np)) peer proto port \<longleftrightarrow>
     peer \<in> configured_peers server npSpec \<and>
       (proto = ProtocolTCP \<and> port = minecraftPort \<or>
        (\<exists>ep \<in> set (plugin_endpoints plugins). ep_Port ep = port \<and> endpoint_proto ep = proto))
   \<or> rc_Enabled (ss_RCON (sv_Spec server)) \<and> proto = ProtocolTCP \<and> port = rcon_ingress_port server
     \<and> peer = sameNamespacePeer (rcon_namespace opns server)"
proof -
  from assms obtain rules where "buildNetworkPolicyIngress opns server npSpec plugins = Inr rules"
    "npsp_Ingress (np_Spec np) = rules"
    by (auto simp: buildNetworkPolicy_def split: sum.splits)
  with ingress_open show ?thesis by simp
qed

definition demo_policy :: ServerNetworkPolicy where
  "demo_policy = \<lparr>snp_Enabled = True,
     snp_AllowFrom = [\<lparr>nps_CIDR = ''10.0.0.0/8'', nps_PodSelector = None, nps_NamespaceSelector = None\<rparr>],
     snp_RestrictEgress = None, snp_AllowEgressTo = []\<rparr>"

definition demo_np_server :: PaperMCServer where
  "demo_np_server = zero_server\<lparr>sv_Meta := zero_meta\<lparr>m_Name := ''mc'', m_Namespace := ''games''\<rparr>,
     sv_Spec := zero_server_spec\<lparr>ss_RCON := \<lparr>rc_Enabled = True, rc_PasswordSecret = \<lparr>sk_Name = ''s'', sk_Key = ''k''\<rparr>,
       rc_Port = 25575\<rparr>, ss_Network := Some \<lparr>nc_NetworkPolicy = Some demo_policy\<rparr>\<rparr>\<rparr>"

definition demo_map_plugin :: Plugin where
  "demo_map_plugin = zero_plugin\<lparr>pl_Spec := zero_plugin_spec\<lparr>ps_Endpoints :=
     [\<lparr>ep_Name = ''web'', ep_Port = 8123, ep_Protocol = ''HTTP''\<rparr>]\<rparr>\<rparr>"

definition demo_rcon_plugin :: Plugin where
  "demo_rcon_plugin = zero_plugin\<lparr>pl_Spec := zero_plugin_spec\<lparr>ps_Endpoints :=
     [\<lparr>ep_Name = ''admin'', ep_Port = 25575, ep_Protocol = ''TCP''\<rparr>]\<rparr>\<rparr>"

lemmas demo_np = demo_rcon_plugin_def demo_policy_def demo_np_server_def demo_map_plugin_def zero_defs

theorem network_policy_ingress_witness:
  "case buildNetworkPolicy ''ops'' demo_np_server demo_policy [demo_map_plugin] of
     Inl _ \<Rightarrow> False
   | Inr np \<Rightarrow> opens (npsp_Ingress (np_Spec np)) (sameNamespacePeer ''games'') ProtocolTCP 8123
            \<and> opens (npsp_Ingress (np_Spec np)) (sameNamespacePeer ''ops'') ProtocolTCP 25575
            \<and> \<not> opens (npsp_Ingress (np_Spec np)) (sameNamespacePeer ''games'') ProtocolTCP 25575"
proof -
  obtain np where np: "buildNetworkPolicy ''ops'' demo_np_server demo_policy [demo_map_plugin] = Inr np"
    by (auto simp: buildNetworkPolicy_def buildNetworkPolicyIngress_def buildNetworkPolicyEgress_def
        restrict_egress_def convertToPeer_def demo_np)
  show ?thesis unfolding np sum.case network_policy_ingress [OF np]
    by (auto simp: configured_peers_def demo_np plugin_endpoints_def endpoint_proto_def network_consts
        rcon_ingress_port_def rcon_namespace_def sameNamespacePeer_def)
qed

text \<open>
  The RCON port is only as closed as the endpoints of the plugins: when a matched plugin declares
  a TCP or HTTP endpoint with the number of the RCON port, the policy opens it to every configured
  peer, beside the namespace of the operator; when none does (and RCON is not on the game port),
  the namespace of the operator is the only peer that reaches it.
\<close>

theorem rcon_restricted_iff:
  assumes "buildNetworkPolicy opns server npSpec plugins = Inr np"
    and "rc_Enabled (ss_RCON (sv_Spec server))" and "rcon_ingress_port server \<noteq> minecraftPort"
  shows "{peer. opens (npsp_Ingress (np_Spec np)) peer ProtocolTCP (rcon_ingress_port server)} =
    insert (sameNamespacePeer (rcon_namespace opns server))
      (if \<exists>ep \<in> set (plugin_endpoints plugins). ep_Port ep = rcon_ingress_port server \<and> endpoint_proto ep = ProtocolTCP
       then configured_peers server npSpec else {})"
proof -
  from assms(1) obtain rules where "buildNetworkPolicyIngress opns server npSpec plugins = Inr rules"
    "npsp_Ingress (np_Spec np) = rules"
    by (auto simp: buildNetworkPolicy_def split: sum.splits)
  with assms(2,3) show ?thesis by (auto simp: ingress_open)
qed

theorem rcon_restricted_iff_witness:
  "case buildNetworkPolicy ''ops'' demo_np_server demo_policy [demo_rcon_plugin] of
     Inl _ \<Rightarrow> False
   | Inr np \<Rightarrow> {peer. opens (npsp_Ingress (np_Spec np)) peer ProtocolTCP 25575} =
       insert (sameNamespacePeer ''ops'') (configured_peers demo_np_server demo_policy)"
proof -
  obtain np where np: "buildNetworkPolicy ''ops'' demo_np_server demo_policy [demo_rcon_plugin] = Inr np"
    by (auto simp: buildNetworkPolicy_def buildNetworkPolicyIngress_def buildNetworkPolicyEgress_def
        restrict_egress_def convertToPeer_def demo_np)
  have "rcon_ingress_port demo_np_server = 25575" "rcon_namespace ''ops'' demo_np_server = ''ops''"
    by (simp_all add: rcon_ingress_port_def rcon_namespace_def demo_np)
  with rcon_restricted_iff [OF np] show ?thesis unfolding np sum.case
    by (simp add: demo_np plugin_endpoints_def endpoint_proto_def network_consts)
qed

text \<open>
  C6. The stored policy follows the configuration. Against an API server that serves policies from
  a store, a successful run leaves the policy of the server exactly as built from its configuration,
  owned by it, or absent when the configuration asks for none, and touches no other policy; and a run
  on a policy that is as desired reads once and writes nothing.
\<close>

theorem network_policy_converges:
  fixes server :: PaperMCServer and plugins :: "Plugin list" and x :: "('w, 'sched) sext"
  assumes "serves np_ops (x_networkPolicies x) store" and "owner_upsert (k_SetControllerReference x)"
  defines "key \<equiv> (sv_Namespace server, sv_Name server @ ''-minecraft'')"
    and "good \<equiv> as_desired x np_ops server (network_policy_config server \<noteq> None)
           (desired_network_policy (k_OperatorNamespace x) server plugins)"
  assumes "run_state (ensureNetworkPolicy x server plugins) s = (r, s')"
  shows "(r = Inr () \<longrightarrow> good (store (world s') key) \<and> (\<forall>k. k \<noteq> key \<longrightarrow> store (world s') k = store (world s) k))
       \<and> (good (store (world s) key) \<longrightarrow> store (world s') = store (world s) \<and>
           trace s' = trace s @ [E_Get K_NetworkPolicy (fst key) (snd key)
             (is_ok (fst (ka_get (x_networkPolicies x) (fst key) (snd key) (world s))))])"
proof (intro conjI impI)
  note run = assms(5) [unfolded ensureNetworkPolicy_def]
  have built: "oo_key np_ops d = key" if "desired_network_policy (k_OperatorNamespace x) server plugins = Inr d" for d
    using that unfolding key_def
    by (auto simp: desired_network_policy_def buildNetworkPolicy_def np_ops_def owned_meta_def split: option.splits sum.splits)
  show "good (store (world s') key)" "\<forall>k. k \<noteq> key \<longrightarrow> store (world s') k = store (world s) k" if "r = Inr ()"
    using network_policies.reconcile_object_converges [OF assms(1,2) built [unfolded key_def] run [unfolded that]]
    unfolding good_def key_def by blast+
  show "store (world s') = store (world s)"
    "trace s' = trace s @ [E_Get K_NetworkPolicy (fst key) (snd key)
             (is_ok (fst (ka_get (x_networkPolicies x) (fst key) (snd key) (world s))))]"
    if "good (store (world s) key)"
    using network_policies.reconcile_object_stable [OF assms(1) that [unfolded good_def key_def] run]
    unfolding key_def by simp_all
qed


definition demo_np_sext :: "(string \<times> string \<Rightarrow> NetworkPolicy option, unit) sext" where
  "demo_np_sext = (demo_sext demo_np_server)\<lparr>x_networkPolicies := mem_api (oo_key np_ops)\<rparr>"

definition demo_np_sys :: "(string \<times> string \<Rightarrow> NetworkPolicy option) sys" where
  "demo_np_sys = \<lparr>world = Map.empty, trace = [], u_cronEntries = Map.empty, b_cronEntries = Map.empty,
     b_cronTriggerTimes = Map.empty, b_backupMu = Map.empty, b_nextMu = 0\<rparr>"

theorem network_policy_converges_witness:
  "\<exists>s'. run_state (ensureNetworkPolicy demo_np_sext demo_np_server [demo_map_plugin]) demo_np_sys = (Inr (), s')
     \<and> as_desired demo_np_sext np_ops demo_np_server True
         (desired_network_policy ''operator'' demo_np_server [demo_map_plugin])
         (mem_store (oo_key np_ops) (world s') (''games'', ''mc-minecraft''))"
proof -
  have cfg: "network_policy_config demo_np_server = Some demo_policy"
    by (simp add: network_policy_config_def demo_np)
  obtain d where d: "desired_network_policy ''operator'' demo_np_server [demo_map_plugin] = Inr d"
    by (auto simp: desired_network_policy_def cfg buildNetworkPolicy_def buildNetworkPolicyIngress_def
        buildNetworkPolicyEgress_def restrict_egress_def convertToPeer_def demo_policy_def)
  have ns: "sv_Namespace demo_np_server = ''games''" "sv_Name demo_np_server = ''mc''" by (simp_all add: demo_np)
  have k: "k_SetControllerReference demo_np_sext = demo_owner" "k_OperatorNamespace demo_np_sext = ''operator''"
    "x_networkPolicies demo_np_sext = mem_api (oo_key np_ops)" by (simp_all add: demo_np_sext_def)
  obtain s' where run: "run_state (ensureNetworkPolicy demo_np_sext demo_np_server [demo_map_plugin]) demo_np_sys = (Inr (), s')"
    by (simp add: ensureNetworkPolicy_def reconcile_object_def api_get_def call_def k cfg d demo_np_sys_def mem_api_def
        mem_store_def IsNotFound_def create_owned_def demo_owner_def api_create_def wrap_result_def)
  from network_policy_converges [of demo_np_sext "mem_store (oo_key np_ops)", OF _ _ run, unfolded k]
    mem_api_serves [of np_ops] demo_owner_upsert run show ?thesis by (simp add: cfg ns)
qed

end
