(* ===== verification/VersionResolution.thy ===== *)
theory VersionResolution
  imports ServerEffects
begin

section \<open>Which Paper version a server shall run\<close>

text \<open>
  \<^verbatim>\<open>internal/controller/papermcserver_controller.go\<close>, the part that decides: the version of a running
  server from its image (\<open>detectCurrentPaperVersion\<close>), the desired version by update strategy
  (\<open>resolveDesiredPaperVersion\<close> and the four strategies), the guards against downgrades and
  incompatible plugins, the plugin versions per server (\<open>resolvePluginVersionForServer\<close>) and the
  available update. A method that changes the server it is given returns the changed server; the
  solver is \<^verbatim>\<open>SimpleSolver\<close>, over the semantic versions \<open>SV\<close>.
\<close>

subsection \<open>Constants and conditions\<close>

definition conditionTypeUpdateBlocked :: string where "conditionTypeUpdateBlocked = ''UpdateBlocked''"
definition conditionTypeSolverRunning :: string where "conditionTypeSolverRunning = ''SolverRunning''"
definition reasonUpdateBlocked :: string where "reasonUpdateBlocked = ''UpdateBlocked''"
definition reasonUpdateUnblocked :: string where "reasonUpdateUnblocked = ''UpdateUnblocked''"
definition reasonSolverStarted :: string where "reasonSolverStarted = ''SolverStarted''"
definition reasonSolverCompleted :: string where "reasonSolverCompleted = ''SolverCompleted''"
definition reasonSolverFailed :: string where "reasonSolverFailed = ''SolverFailed''"
definition versionPolicyLatest :: string where "versionPolicyLatest = ''latest''"
definition versionPolicyPinned :: string where "versionPolicyPinned = ''pinned''"

text \<open>\<^verbatim>\<open>setCondition\<close>: the clock is read, then \<^verbatim>\<open>meta.SetStatusCondition\<close> runs.\<close>

definition setCondition ::
  "('w, 'sched) sext \<Rightarrow> PaperMCServer \<Rightarrow> string \<Rightarrow> ConditionStatus \<Rightarrow> string \<Rightarrow> string \<Rightarrow> ('w, PaperMCServer) op" where
  "setCondition x server conditionType status reason message = do {
     now \<leftarrow> now_op (base x);
     State_Monad.return
       (set_conditions server
          (k_SetStatusCondition (base x) now (st_Conditions (sv_Status server))
             (mk_condition conditionType status (m_Generation (sv_Meta server)) now reason message)))
   }"

definition with_status :: "(PaperMCServerStatus \<Rightarrow> PaperMCServerStatus) \<Rightarrow> PaperMCServer \<Rightarrow> PaperMCServer" where
  "with_status f server = server\<lparr>sv_Status := f (sv_Status server)\<rparr>"

definition setUpdateBlocked ::
  "('w, 'sched) sext \<Rightarrow> PaperMCServer \<Rightarrow> string \<Rightarrow> BlockedByInfo option \<Rightarrow> ('w, PaperMCServer) op" where
  "setUpdateBlocked x server reason blockedBy =
     setCondition x
       (with_status (\<lambda>st. st\<lparr>st_UpdateBlocked :=
          Some \<lparr>ub_Blocked = True, ub_Reason = reason, ub_BlockedBy = blockedBy\<rparr>\<rparr>) server)
       conditionTypeUpdateBlocked ConditionTrue reasonUpdateBlocked reason"

definition clearUpdateBlocked :: "('w, 'sched) sext \<Rightarrow> PaperMCServer \<Rightarrow> ('w, PaperMCServer) op" where
  "clearUpdateBlocked x server =
     setCondition x (with_status (\<lambda>st. st\<lparr>st_UpdateBlocked := None\<rparr>) server)
       conditionTypeUpdateBlocked ConditionFalse reasonUpdateUnblocked
       ''No compatibility issues preventing update''"

subsection \<open>Versions in image tags\<close>

abbreviation digit_or_dot :: "char \<Rightarrow> bool" where "digit_or_dot c \<equiv> is_digit c \<or> c = CHR ''.''"

text \<open>\<^verbatim>\<open>(?:.*/)?(lexfrei/papermc):(.+)\<close>\<close>

definition imageRegex :: grx where
  "imageRegex =
     Seq (Maybe (Seq (Many Any) (Chr ((=) CHR ''/''))))
       (Seq (Grp (ms_word ''lexfrei/papermc'')) (Seq (Chr ((=) CHR '':'')) (Grp (Some_of Any))))"

text \<open>\<^verbatim>\<open>^([0-9.]+)-([0-9]+)$\<close>\<close>

definition tagRegex :: grx where
  "tagRegex =
     Seq (Seq (Grp (Some_of (Chr digit_or_dot))) (Seq (Chr ((=) CHR ''-'')) (Grp (Some_of (Chr is_digit))))) End"

text \<open>\<^verbatim>\<open>^(\d+\.\d+\.\d+)-(\d+)$\<close>\<close>

definition versionBuildRegex :: grx where
  "versionBuildRegex =
     (let num = Some_of (Chr is_digit); dot = Chr ((=) CHR ''.'')
      in Seq (Seq (Grp (Seq num (Seq dot (Seq num (Seq dot num))))) (Seq (Chr ((=) CHR ''-'')) (Grp num))) End)"

definition detectCurrentPaperVersion :: "StatefulSet \<Rightarrow> string \<times> int" where
  "detectCurrentPaperVersion statefulSet =
     (case sts_Containers statefulSet of
        [] \<Rightarrow> ([], 0)
      | c # _ \<Rightarrow>
          (case FindStringSubmatch imageRegex (ct_Image c) of
             Some [_, tag] \<Rightarrow>
               if tag = versionPolicyLatest then (versionPolicyLatest, 0)
               else (case FindAnchored tagRegex tag of
                       Some [paperVersion, buildStr] \<Rightarrow>
                         (case Atoi buildStr of Inl _ \<Rightarrow> (paperVersion, 0) | Inr build \<Rightarrow> (paperVersion, build))
                     | _ \<Rightarrow> ([], 0))
           | _ \<Rightarrow> ([], 0)))"

fun latest_tag_loop :: "'v semver \<Rightarrow> string \<times> int \<Rightarrow> string list \<Rightarrow> string \<times> int" where
  "latest_tag_loop SV best [] = best"
| "latest_tag_loop SV (latestVersion, latestBuild) (tag # tags) =
     latest_tag_loop SV
       (case FindAnchored versionBuildRegex tag of
          Some [candidateVersion, buildStr] \<Rightarrow>
            (case Atoi buildStr of
               Inl _ \<Rightarrow> (latestVersion, latestBuild)
             | Inr candidateBuild \<Rightarrow>
                 if latestVersion = [] then (candidateVersion, candidateBuild)
                 else (case Compare SV candidateVersion latestVersion of
                         Inl _ \<Rightarrow> (latestVersion, latestBuild)
                       | Inr cmp \<Rightarrow>
                           if cmp > 0 then (candidateVersion, candidateBuild)
                           else if cmp = 0 \<and> candidateBuild > latestBuild then (latestVersion, candidateBuild)
                           else (latestVersion, latestBuild)))
        | _ \<Rightarrow> (latestVersion, latestBuild))
       tags"

definition findLatestVersionFromTags :: "'v semver \<Rightarrow> string list \<Rightarrow> (string \<times> int) result" where
  "findLatestVersionFromTags SV tags =
     (case latest_tag_loop SV ([], 0) tags of
        (latestVersion, latestBuild) \<Rightarrow>
          if latestVersion = [] then Inl (New ''no valid version-build tags found in Docker Hub'')
          else Inr (latestVersion, latestBuild))"

subsection \<open>Guards\<close>

definition checkDowngrade ::
  "('w, 'sched) sext \<Rightarrow> 'v semver \<Rightarrow> PaperMCServer \<Rightarrow> string \<Rightarrow> ('w, unit result \<times> PaperMCServer) op" where
  "checkDowngrade x SV server candidateVersion =
     (let current = st_CurrentVersion (sv_Status server)
      in if current = [] then State_Monad.return (Inr (), server)
         else if current = updateStrategyLatest then State_Monad.return (Inr (), server)
         else (case IsDowngrade SV current candidateVersion of
                 Inl err \<Rightarrow> State_Monad.return (Inl (Wrap err ''failed to compare versions''), server)
               | Inr isDowngrade \<Rightarrow>
                   if isDowngrade then do {
                     server' \<leftarrow> setUpdateBlocked x server
                       (''Downgrade not allowed: current='' @ current @ '', candidate='' @ candidateVersion) None;
                     State_Monad.return (Inl (New ''downgrade prevented''), server')
                   }
                   else State_Monad.return (Inr (), server)))"

definition override_enabled :: "Plugin \<Rightarrow> bool" where
  "override_enabled plugin =
     (case ps_CompatibilityOverride (pl_Spec plugin) of None \<Rightarrow> False | Some ov \<Rightarrow> co_Enabled ov)"

definition isPluginCompatibleWithPaper :: "Plugin \<Rightarrow> string \<Rightarrow> bool" where
  "isPluginCompatibleWithPaper plugin candidateVersion =
     (case ps_CompatibilityOverride (pl_Spec plugin) of
        Some ov \<Rightarrow>
          if co_Enabled ov
          then (if co_MinecraftVersions ov \<noteq> [] then ContainsVersion (co_MinecraftVersions ov) candidateVersion else True)
          else list_ex (\<lambda>ver. ContainsVersion (pvi_MinecraftVersions ver) candidateVersion)
                 (pst_AvailableVersions (pl_Status plugin))
      | None \<Rightarrow> list_ex (\<lambda>ver. ContainsVersion (pvi_MinecraftVersions ver) candidateVersion)
                 (pst_AvailableVersions (pl_Status plugin)))"

text \<open>\<^verbatim>\<open>checkPluginCompatibility\<close>: the first incompatible plugin with the reason, or none.\<close>

fun checkPluginCompatibility :: "string \<Rightarrow> Plugin list \<Rightarrow> (string \<times> string) option" where
  "checkPluginCompatibility candidateVersion [] = None"
| "checkPluginCompatibility candidateVersion (plugin # ps) =
     (if pst_AvailableVersions (pl_Status plugin) = [] \<and> \<not> override_enabled plugin
      then checkPluginCompatibility candidateVersion ps
      else if \<not> isPluginCompatibleWithPaper plugin candidateVersion
      then Some (pl_Name plugin, ''Plugin '' @ [CHR 0x27] @ pl_Name plugin @ [CHR 0x27] @
                   '' is incompatible with Paper '' @ candidateVersion)
      else checkPluginCompatibility candidateVersion ps)"

fun blocked_by :: "string \<Rightarrow> Plugin list \<Rightarrow> BlockedByInfo option" where
  "blocked_by blockingPlugin [] = None"
| "blocked_by blockingPlugin (plugin # ps) =
     (if pl_Name plugin = blockingPlugin
      then Some \<lparr>bb_Plugin = blockingPlugin,
                 bb_Version = (case pst_AvailableVersions (pl_Status plugin) of
                                 [] \<Rightarrow> ''unknown'' | v # _ \<Rightarrow> pvi_Version v),
                 bb_SupportedVersions = []\<rparr>
      else blocked_by blockingPlugin ps)"

definition checkCompatibility ::
  "('w, 'sched) sext \<Rightarrow> PaperMCServer \<Rightarrow> string \<Rightarrow> Plugin list \<Rightarrow> ('w, unit result \<times> PaperMCServer) op" where
  "checkCompatibility x server candidateVersion matchedPlugins =
     (case checkPluginCompatibility candidateVersion matchedPlugins of
        None \<Rightarrow> State_Monad.return (Inr (), server)
      | Some (blockingPlugin, blockReason) \<Rightarrow> do {
          server' \<leftarrow> setUpdateBlocked x server blockReason (blocked_by blockingPlugin matchedPlugins);
          State_Monad.return (Inl (New ''update blocked by plugin incompatibility''), server')
        })"

text \<open>The downgrade check, then the compatibility check, as every strategy makes them.\<close>

definition check_candidate ::
  "('w, 'sched) sext \<Rightarrow> 'v semver \<Rightarrow> PaperMCServer \<Rightarrow> string \<Rightarrow> Plugin list \<Rightarrow> ('w, unit result \<times> PaperMCServer) op" where
  "check_candidate x SV server candidateVersion matchedPlugins = do {
     (d, server1) \<leftarrow> checkDowngrade x SV server candidateVersion;
     case d of
       Inl err \<Rightarrow> State_Monad.return (Inl err, server1)
     | Inr _ \<Rightarrow> checkCompatibility x server1 candidateVersion matchedPlugins
   }"

subsection \<open>Available updates\<close>

text \<open>The cached versions of a plugin in the form the solver takes.\<close>

definition solver_versions :: "PluginVersionInfo list \<Rightarrow> PluginVersion list" where
  "solver_versions vs =
     map (\<lambda>v. \<lparr>pv_Version = pvi_Version v, pv_ReleaseDate = pvi_ReleasedAt v, pv_PaperVersions = [],
               pv_MinecraftVersions = pvi_MinecraftVersions v, pv_DownloadURL = pvi_DownloadURL v,
               pv_Hash = pvi_Hash v\<rparr>) vs"

text \<open>A run of the solver for a plugin, with the metrics of its caller.\<close>

definition solve_plugin ::
  "('w, 'sched) sext \<Rightarrow> 'v semver \<Rightarrow> Plugin \<Rightarrow> PaperMCServer list \<Rightarrow> PluginVersion list \<Rightarrow> ('w, string result) op" where
  "solve_plugin x SV plugin servers versions = do {
     now \<leftarrow> now_op (base x);
     let r = FindBestPluginVersion SV now plugin servers versions in
     do { record_solver x ''plugin_version'' r; State_Monad.return r }
   }"

definition temp_server :: "string \<Rightarrow> PaperMCServer" where
  "temp_server paperVersion = with_status (\<lambda>st. st\<lparr>st_CurrentVersion := paperVersion\<rparr>) zero_server"

fun buildPluginVersionPairs ::
  "('w, 'sched) sext \<Rightarrow> 'v semver \<Rightarrow> string \<Rightarrow> Plugin list \<Rightarrow> ('w, PluginVersionPair list) op" where
  "buildPluginVersionPairs x SV candidate [] = State_Monad.return []"
| "buildPluginVersionPairs x SV candidate (plugin # ps) =
     (case pst_AvailableVersions (pl_Status plugin) of
        [] \<Rightarrow> buildPluginVersionPairs x SV candidate ps
      | v # vs \<Rightarrow> do {
          r \<leftarrow> solve_plugin x SV plugin [temp_server candidate] (solver_versions (v # vs));
          rest \<leftarrow> buildPluginVersionPairs x SV candidate ps;
          State_Monad.return
            (\<lparr>pvp_PluginRef = \<lparr>pr_Name = pl_Name plugin, pr_Namespace = pl_Namespace plugin\<rparr>,
              pvp_Version = (case r of Inl _ \<Rightarrow> pvi_Version v | Inr resolved \<Rightarrow> resolved)\<rparr> # rest)
        })"

definition new_update ::
  "('w, 'sched) sext \<Rightarrow> 'v semver \<Rightarrow> string \<Rightarrow> int \<Rightarrow> Plugin list \<Rightarrow> ('w, AvailableUpdate) op" where
  "new_update x SV ver build matchedPlugins = do {
     pairs \<leftarrow> buildPluginVersionPairs x SV ver matchedPlugins;
     releasedAt \<leftarrow> now_op (base x);
     foundAt \<leftarrow> now_op (base x);
     State_Monad.return \<lparr>au_Version = ver, au_Build = build, au_ReleasedAt = releasedAt, au_Plugins = pairs,
       au_FoundAt = foundAt\<rparr>
   }"

definition findVersionUpdate ::
  "('w, 'sched) sext \<Rightarrow> 'v semver \<Rightarrow> PaperMCServer \<Rightarrow> Plugin list
     \<Rightarrow> ('w, AvailableUpdate option result \<times> PaperMCServer) op" where
  "findVersionUpdate x SV server matchedPlugins = do {
     vs \<leftarrow> paper_versions x;
     case vs of
       Inl err \<Rightarrow> State_Monad.return (Inl (Wrap err ''failed to fetch paper versions''), server)
     | Inr paperVersions \<Rightarrow> do {
         server1 \<leftarrow> setCondition x server conditionTypeSolverRunning ConditionTrue reasonSolverStarted
                      ''Resolving optimal Paper version'';
         let r = FindBestPaperVersion SV server1 matchedPlugins paperVersions in
         do {
           record_solver x ''paper_version'' r;
           case r of
             Inl err \<Rightarrow> do {
               server2 \<leftarrow> setCondition x server1 conditionTypeSolverRunning ConditionFalse reasonSolverFailed
                            (''Solver failed: '' @ k_Error (base x) err);
               State_Monad.return (Inl (Wrap err ''solver failed to find best version''), server2)
             }
           | Inr bestVersion \<Rightarrow> do {
               server2 \<leftarrow> setCondition x server1 conditionTypeSolverRunning ConditionFalse reasonSolverCompleted
                            ''Version resolved successfully'';
               if bestVersion = st_CurrentVersion (sv_Status server2) \<or> bestVersion = []
               then State_Monad.return (Inr None, server2)
               else do {
                 b \<leftarrow> paper_build x bestVersion;
                 case b of
                   Inl err \<Rightarrow> State_Monad.return (Inl (Wrap err ''failed to get build info''), server2)
                 | Inr buildInfo \<Rightarrow> do {
                     u \<leftarrow> new_update x SV bestVersion (bi_Build buildInfo) matchedPlugins;
                     State_Monad.return (Inr (Some u), server2)
                   }
               }
             }
         }
       }
   }"

definition findBuildUpdate ::
  "('w, 'sched) sext \<Rightarrow> 'v semver \<Rightarrow> PaperMCServer \<Rightarrow> Plugin list \<Rightarrow> ('w, AvailableUpdate option result) op" where
  "findBuildUpdate x SV server matchedPlugins = do {
     b \<leftarrow> paper_build x (ss_Version (sv_Spec server));
     case b of
       Inl err \<Rightarrow> State_Monad.return (Inl (Wrap err ''failed to get latest build''))
     | Inr buildInfo \<Rightarrow>
         if bi_Build buildInfo \<le> st_CurrentBuild (sv_Status server) then State_Monad.return (Inr None)
         else do {
           u \<leftarrow> new_update x SV (ss_Version (sv_Spec server)) (bi_Build buildInfo) matchedPlugins;
           State_Monad.return (Inr (Some u))
         }
   }"

definition findAvailableUpdate ::
  "('w, 'sched) sext \<Rightarrow> 'v semver \<Rightarrow> PaperMCServer \<Rightarrow> Plugin list
     \<Rightarrow> ('w, AvailableUpdate option result \<times> PaperMCServer) op" where
  "findAvailableUpdate x SV server matchedPlugins =
     (let strategy = ss_UpdateStrategy (sv_Spec server)
      in if strategy = updateStrategyLatest \<or> strategy = updateStrategyAuto
         then findVersionUpdate x SV server matchedPlugins
         else if strategy = updateStrategyPin then do {
           u \<leftarrow> findBuildUpdate x SV server matchedPlugins;
           State_Monad.return (u, server)
         }
         else if strategy = updateStrategyBuildPin then State_Monad.return (Inr None, server)
         else State_Monad.return (Inl (Newf ''unknown updateStrategy: %s'' [AStr strategy]), server))"

subsection \<open>The update strategies\<close>

text \<open>
  Each strategy yields a version and a build, or an error. With some errors the source also returns
  the desired version of the status; the only caller, \<open>updateDesiredVersion\<close>, does not read it then.
\<close>

definition image_tag :: "string \<Rightarrow> int \<Rightarrow> string" where
  "image_tag ver build = ver @ ''-'' @ itoa build"

definition resolveLatestVersion ::
  "('w, 'sched) sext \<Rightarrow> 'v semver \<Rightarrow> PaperMCServer \<Rightarrow> Plugin list
     \<Rightarrow> ('w, (string \<times> int) result \<times> PaperMCServer) op" where
  "resolveLatestVersion x SV server matchedPlugins = do {
     ts \<leftarrow> list_tags x;
     case ts of
       Inl err \<Rightarrow> State_Monad.return (Inl (Wrap err ''failed to list Docker Hub tags''), server)
     | Inr tags \<Rightarrow>
         (case findLatestVersionFromTags SV tags of
            Inl err \<Rightarrow> State_Monad.return (Inl (Wrap err ''failed to find latest version from tags''), server)
          | Inr (candidateVersion, candidateBuild) \<Rightarrow> do {
              (ok, server1) \<leftarrow> check_candidate x SV server candidateVersion matchedPlugins;
              case ok of
                Inl err \<Rightarrow> State_Monad.return (Inl err, server1)
              | Inr _ \<Rightarrow> do {
                  server2 \<leftarrow> clearUpdateBlocked x server1;
                  State_Monad.return (Inr (candidateVersion, candidateBuild), server2)
                }
            })
   }"

definition resolveAutoVersion ::
  "('w, 'sched) sext \<Rightarrow> 'v semver \<Rightarrow> PaperMCServer \<Rightarrow> Plugin list
     \<Rightarrow> ('w, (string \<times> int) result \<times> PaperMCServer) op" where
  "resolveAutoVersion x SV server matchedPlugins = do {
     (u, server1) \<leftarrow> findAvailableUpdate x SV server matchedPlugins;
     case u of
       Inl err \<Rightarrow> State_Monad.return (Inl (Wrap err ''failed to find available update in auto mode''), server1)
     | Inr None \<Rightarrow> State_Monad.return (Inl (New ''no available update found in auto mode''), server1)
     | Inr (Some availableUpdate) \<Rightarrow>
         let candidateVersion = au_Version availableUpdate; build = au_Build availableUpdate;
             tag = image_tag candidateVersion build in
         do {
           (ok, server2) \<leftarrow> check_candidate x SV server1 candidateVersion matchedPlugins;
           case ok of
             Inl err \<Rightarrow> State_Monad.return (Inl err, server2)
           | Inr _ \<Rightarrow> do {
               e \<leftarrow> image_exists x tag;
               case e of
                 Inl err \<Rightarrow>
                   State_Monad.return (Inl (Wrapf err ''failed to verify image existence for %s'' [AStr tag]), server2)
               | Inr False \<Rightarrow>
                   State_Monad.return (Inl (Newf ''image docker.io/lexfrei/papermc:%s does not exist'' [AStr tag]), server2)
               | Inr True \<Rightarrow> do {
                   server3 \<leftarrow> clearUpdateBlocked x server2;
                   State_Monad.return (Inr (candidateVersion, build), server3)
                 }
             }
         }
   }"

text \<open>The builds from the latest to the oldest: the first whose image exists.\<close>

fun existing_build :: "('w, 'sched) sext \<Rightarrow> string \<Rightarrow> int list \<Rightarrow> ('w, int option) op" where
  "existing_build x ver [] = State_Monad.return None"
| "existing_build x ver (b # bs) = do {
     e \<leftarrow> image_exists x (image_tag ver b);
     case e of
       Inr True \<Rightarrow> State_Monad.return (Some b)
     | _ \<Rightarrow> existing_build x ver bs
   }"

definition resolveVersionOnlyMode ::
  "('w, 'sched) sext \<Rightarrow> 'v semver \<Rightarrow> PaperMCServer \<Rightarrow> string \<Rightarrow> Plugin list
     \<Rightarrow> ('w, (string \<times> int) result \<times> PaperMCServer) op" where
  "resolveVersionOnlyMode x SV server candidateVersion matchedPlugins = do {
     (ok, server1) \<leftarrow> check_candidate x SV server candidateVersion matchedPlugins;
     case ok of
       Inl err \<Rightarrow> State_Monad.return (Inl err, server1)
     | Inr _ \<Rightarrow> do {
         bs \<leftarrow> paper_builds x candidateVersion;
         case bs of
           Inl err \<Rightarrow>
             State_Monad.return (Inl (Wrapf err ''failed to get builds for version %s'' [AStr candidateVersion]), server1)
         | Inr buildNumbers \<Rightarrow> do {
             b \<leftarrow> existing_build x candidateVersion (rev buildNumbers);
             case b of
               None \<Rightarrow>
                 State_Monad.return
                   (Inl (Newf ''no Docker images found for any build of version %s'' [AStr candidateVersion]), server1)
             | Some buildNum \<Rightarrow> do {
                 server2 \<leftarrow> clearUpdateBlocked x server1;
                 State_Monad.return (Inr (candidateVersion, buildNum), server2)
               }
           }
       }
   }"

definition resolvePinnedVersionBuild ::
  "('w, 'sched) sext \<Rightarrow> 'v semver \<Rightarrow> PaperMCServer \<Rightarrow> string \<Rightarrow> string \<Rightarrow> string \<Rightarrow> Plugin list
     \<Rightarrow> ('w, (string \<times> int) result \<times> PaperMCServer) op" where
  "resolvePinnedVersionBuild x SV server candidateVersion buildStr fullSpec matchedPlugins =
     (case Atoi buildStr of
        Inl err \<Rightarrow>
          State_Monad.return (Inl (Wrapf err ''failed to parse build number from %s'' [AStr fullSpec]), server)
      | Inr build \<Rightarrow>
          let tag = image_tag candidateVersion build in
          do {
            (ok, server1) \<leftarrow> check_candidate x SV server candidateVersion matchedPlugins;
            case ok of
              Inl err \<Rightarrow> State_Monad.return (Inl err, server1)
            | Inr _ \<Rightarrow> do {
                e \<leftarrow> image_exists x tag;
                case e of
                  Inl err \<Rightarrow>
                    State_Monad.return (Inl (Wrapf err ''failed to verify image existence for %s'' [AStr tag]), server1)
                | Inr False \<Rightarrow> do {
                    server2 \<leftarrow> setUpdateBlocked x server1
                      (''Image docker.io/lexfrei/papermc:'' @ tag @ '' does not exist'') None;
                    State_Monad.return
                      (Inl (Newf ''image docker.io/lexfrei/papermc:%s does not exist'' [AStr tag]), server2)
                  }
                | Inr True \<Rightarrow> do {
                    server2 \<leftarrow> clearUpdateBlocked x server1;
                    State_Monad.return (Inr (candidateVersion, build), server2)
                  }
              }
          })"

definition resolveDesiredPaperVersion ::
  "('w, 'sched) sext \<Rightarrow> 'v semver \<Rightarrow> PaperMCServer \<Rightarrow> Plugin list
     \<Rightarrow> ('w, (string \<times> int) result \<times> PaperMCServer) op" where
  "resolveDesiredPaperVersion x SV server matchedPlugins =
     (let strategy = ss_UpdateStrategy (sv_Spec server); ver = ss_Version (sv_Spec server)
      in if strategy = updateStrategyLatest then resolveLatestVersion x SV server matchedPlugins
         else if strategy = updateStrategyAuto then resolveAutoVersion x SV server matchedPlugins
         else if strategy = updateStrategyPin then
           (if ver = [] then State_Monad.return (Inl (New (''version is required for '' @ [CHR 0x27] @ ''pin'' @ [CHR 0x27] @ '' strategy'')), server)
            else resolveVersionOnlyMode x SV server ver matchedPlugins)
         else if strategy = updateStrategyBuildPin then
           (if ver = [] then State_Monad.return (Inl (New (''version is required for '' @ [CHR 0x27] @ ''build-pin'' @ [CHR 0x27] @ '' strategy'')), server)
            else (case ss_Build (sv_Spec server) of
                    None \<Rightarrow> State_Monad.return (Inl (New (''build is required for '' @ [CHR 0x27] @ ''build-pin'' @ [CHR 0x27] @ '' strategy'')), server)
                  | Some b \<Rightarrow>
                      resolvePinnedVersionBuild x SV server ver (itoa b) (ver @ ''-'' @ itoa b) matchedPlugins))
         else State_Monad.return (Inl (Newf ''invalid updateStrategy: %s'' [AStr strategy]), server))"

definition updateDesiredVersion ::
  "('w, 'sched) sext \<Rightarrow> 'v semver \<Rightarrow> PaperMCServer \<Rightarrow> Plugin list \<Rightarrow> ('w, unit result \<times> PaperMCServer) op" where
  "updateDesiredVersion x SV server matchedPlugins = do {
     (r, server1) \<leftarrow> resolveDesiredPaperVersion x SV server matchedPlugins;
     State_Monad.return
       (case r of
          Inl err \<Rightarrow>
            if st_DesiredVersion (sv_Status server1) \<noteq> [] then (Inr (), server1)
            else (Inl (Wrap err ''cannot resolve desired version and no fallback available''), server1)
        | Inr (desiredVersion, desiredBuild) \<Rightarrow>
            (Inr (), with_status (\<lambda>st. st\<lparr>st_DesiredVersion := desiredVersion, st_DesiredBuild := desiredBuild\<rparr>)
                       server1))
   }"

subsection \<open>Plugin versions for one server\<close>

text \<open>The versions that the delay filter kept, looked up by name in the full list.\<close>

definition delay_filtered :: "time \<Rightarrow> duration \<Rightarrow> PluginVersion list \<Rightarrow> PluginVersion list" where
  "delay_filtered now delay allVersions =
     List.map_filter (\<lambda>f. find (\<lambda>v. pv_Version v = vi_Version f) allVersions)
       (FilterByUpdateDelay now
          (map (\<lambda>v. \<lparr>vi_Version = pv_Version v, vi_ReleaseDate = pv_ReleaseDate v\<rparr>) allVersions) delay)"

definition resolvePluginVersionForServer ::
  "('w, 'sched) sext \<Rightarrow> 'v semver \<Rightarrow> PaperMCServer \<Rightarrow> Plugin \<Rightarrow> ('w, string result) op" where
  "resolvePluginVersionForServer x SV server plugin =
     (if pst_AvailableVersions (pl_Status plugin) = [] then State_Monad.return (Inr [])
      else
        let allVersions = solver_versions (pst_AvailableVersions (pl_Status plugin));
            strategy = (if ps_UpdateStrategy (pl_Spec plugin) = [] then updateStrategyLatest
                        else ps_UpdateStrategy (pl_Spec plugin));
            pinned = ps_Version (pl_Spec plugin)
        in if strategy = updateStrategyPin \<or> strategy = updateStrategyBuildPin \<or> strategy = versionPolicyPinned then
             State_Monad.return
               (if pinned = [] then Inl (Newf (''updateStrategy is '' @ [CHR 0x27] @ ''%s'' @ [CHR 0x27] @ '' but version is not set'') [AStr strategy])
                else if \<not> list_ex (\<lambda>v. pv_Version v = pinned) allVersions
                then Inl (Newf ''pinned version %s not found'' [AStr pinned])
                else Inr pinned)
           else do {
             filteredVersions \<leftarrow>
               (case ps_UpdateDelay (pl_Spec plugin) of
                  None \<Rightarrow> State_Monad.return allVersions
                | Some delay \<Rightarrow> do {
                    now \<leftarrow> now_op (base x);
                    State_Monad.return (delay_filtered now delay allVersions)
                  });
             if filteredVersions = []
             then State_Monad.return (Inl (New ''no versions available after applying update delay''))
             else do {
               r \<leftarrow> solve_plugin x SV plugin [server] filteredVersions;
               State_Monad.return
                 (case r of
                    Inl err \<Rightarrow> Inl (Wrap err ''solver failed to find compatible version'')
                  | Inr resolvedVersion \<Rightarrow>
                      if resolvedVersion = [] then
                        Inl (Newf ''no compatible version found for server %s/%s with Paper %s''
                               [AStr (sv_Namespace server), AStr (sv_Name server),
                                AStr (st_CurrentVersion (sv_Status server))])
                      else Inr resolvedVersion)
             }
           })"

definition plugin_ref_key :: "PluginRef \<Rightarrow> string" where
  "plugin_ref_key r = pr_Namespace r @ ''/'' @ pr_Name r"

definition status_by_key :: "ServerPluginStatus list \<Rightarrow> string \<rightharpoonup> ServerPluginStatus" where
  "status_by_key ps = map_of (rev (map (\<lambda>p. (plugin_ref_key (sp_PluginRef p), p)) ps))"

definition plugin_status_entry ::
  "(string \<rightharpoonup> ServerPluginStatus) \<Rightarrow> Plugin \<Rightarrow> string \<Rightarrow> ServerPluginStatus" where
  "plugin_status_entry existing plugin resolvedVersion =
     (let ref = \<lparr>pr_Name = pl_Name plugin, pr_Namespace = pl_Namespace plugin\<rparr>;
          fresh = \<lparr>sp_PluginRef = ref, sp_ResolvedVersion = resolvedVersion, sp_CurrentVersion = [],
                   sp_DesiredVersion = resolvedVersion, sp_Compatible = (resolvedVersion \<noteq> []),
                   sp_Source = src_Type (ps_Source (pl_Spec plugin)), sp_PendingDeletion = False,
                   sp_InstalledJARName = []\<rparr>
      in case existing (plugin_ref_key ref) of
           None \<Rightarrow> fresh
         | Some prev \<Rightarrow> fresh\<lparr>sp_InstalledJARName := sp_InstalledJARName prev,
                              sp_CurrentVersion := sp_CurrentVersion prev,
                              sp_PendingDeletion := sp_PendingDeletion prev\<rparr>)"

fun plugin_status_loop ::
  "('w, 'sched) sext \<Rightarrow> 'v semver \<Rightarrow> PaperMCServer \<Rightarrow> (string \<rightharpoonup> ServerPluginStatus) \<Rightarrow> Plugin list
     \<Rightarrow> ('w, ServerPluginStatus list) op" where
  "plugin_status_loop x SV server existing [] = State_Monad.return []"
| "plugin_status_loop x SV server existing (plugin # ps) = do {
     r \<leftarrow> resolvePluginVersionForServer x SV server plugin;
     rest \<leftarrow> plugin_status_loop x SV server existing ps;
     State_Monad.return
       (plugin_status_entry existing plugin (case r of Inl _ \<Rightarrow> [] | Inr v \<Rightarrow> v) # rest)
   }"

definition buildPluginStatus ::
  "('w, 'sched) sext \<Rightarrow> 'v semver \<Rightarrow> PaperMCServer \<Rightarrow> Plugin list \<Rightarrow> ('w, ServerPluginStatus list) op" where
  "buildPluginStatus x SV server matchedPlugins =
     plugin_status_loop x SV server (status_by_key (st_Plugins (sv_Status server))) matchedPlugins"

subsection \<open>Image tags\<close>

definition digits :: "string \<Rightarrow> bool" where
  "digits s \<longleftrightarrow> s \<noteq> [] \<and> list_all is_digit s"

definition three_part :: "string \<Rightarrow> bool" where
  "three_part v \<longleftrightarrow> (\<exists>a b c. v = a @ ''.'' @ b @ ''.'' @ c \<and> digits a \<and> digits b \<and> digits c)"

lemma gm_digits: "gm (Some_of (Chr is_digit)) u g \<longleftrightarrow> g = [] \<and> digits u"
  by (simp add: gm_Some_Chr digits_def)

lemma gm_digits_dot:
  "gm (Seq (Some_of (Chr is_digit)) (Seq (Chr ((=) c)) r)) u g \<longleftrightarrow>
     (\<exists>a v. u = a @ c # v \<and> digits a \<and> gm r v g)"
  unfolding gm_Seq [of "Some_of (Chr is_digit)"] gm_digits gm_Seq_eq by (metis append_Nil)

lemma digits_no_dash: "digits s \<Longrightarrow> CHR ''-'' \<notin> set s"
  using digit_not_sign by (auto simp: digits_def list_all_iff)

lemma three_part_no_dash: "three_part v \<Longrightarrow> CHR ''-'' \<notin> set v"
  by (auto simp: three_part_def dest: digits_no_dash)

lemma tagRegex_iff:
  "FindAnchored tagRegex s = Some g \<longleftrightarrow>
     (\<exists>v n. s = v @ CHR ''-'' # n \<and> g = [v, n] \<and> (v \<noteq> [] \<and> list_all digit_or_dot v) \<and> digits n)"
  unfolding tagRegex_def
  by (rule FindAnchored_pair)
    (simp_all only: gm_Some_Chr [of digit_or_dot] gm_digits digits_no_dash, auto simp: list_all_iff is_digit_def)

lemma gm_three_part:
  "gm (Seq (Some_of (Chr is_digit)) (Seq (Chr ((=) CHR ''.'')) (Seq (Some_of (Chr is_digit))
     (Seq (Chr ((=) CHR ''.'')) (Some_of (Chr is_digit)))))) u g \<longleftrightarrow> g = [] \<and> three_part u"
  unfolding gm_digits_dot gm_digits three_part_def by auto

lemma versionBuildRegex_iff:
  "FindAnchored versionBuildRegex s = Some g \<longleftrightarrow>
     (\<exists>v n. s = v @ CHR ''-'' # n \<and> g = [v, n] \<and> three_part v \<and> digits n)"
  unfolding versionBuildRegex_def Let_def
  by (rule FindAnchored_pair) (simp_all only: gm_three_part gm_digits digits_no_dash three_part_no_dash, simp_all)

text \<open>The text before the last slash, and every shorter such text.\<close>

abbreviation upto_slash :: grx where "upto_slash \<equiv> Seq (Many Any) (Chr ((=) CHR ''/''))"

lemma ms_upto_slash_Nil: "ms upto_slash [] = []"
  by (simp add: ms_Many_Chr)

lemma ms_upto_slash_Cons:
  "ms upto_slash (c # s) =
     (if c \<noteq> CHR 0x0A then ms upto_slash s else []) @ (if c = CHR ''/'' then [([], s)] else [])"
  by (simp add: ms_Many_Chr eats_Cons)

lemma ms_upto_slash_none: "CHR ''/'' \<notin> set s \<Longrightarrow> ms upto_slash s = []"
  by (induction s) (auto simp: ms_upto_slash_Nil ms_upto_slash_Cons simp del: ms.simps)

definition paper_image :: "string \<Rightarrow> string" where
  "paper_image tag = ''docker.io/lexfrei/papermc:'' @ tag"

lemma imageRegex_paper_image:
  assumes "tag \<noteq> []" and "CHR ''/'' \<notin> set tag" and "CHR 0x0A \<notin> set tag"
  shows "FindStringSubmatch imageRegex (paper_image tag) = Some [''lexfrei/papermc'', tag]"
proof -
  have up: "ms (Maybe upto_slash) (paper_image tag) =
      [([], ''papermc:'' @ tag)] @ ([], ''lexfrei/papermc:'' @ tag) # [([], paper_image tag)]"
    using assms(2)
    by (simp add: ms.simps(4) paper_image_def ms_upto_slash_Cons ms_upto_slash_none del: ms.simps(2))
  obtain m where "butlast (eats (\<lambda>c. c \<noteq> CHR 0x0A) tag) = ([], []) # m"
    using eats_all [of "\<lambda>c. c \<noteq> CHR 0x0A" tag] assms by (auto simp: list_all_iff)
  then have any: "ms (Grp (Some_of Any)) tag = ([tag], []) # map (\<lambda>(g, r). (take (length tag - length r) tag # g, r)) m"
    by (simp only: ms_Some_Chr ms.simps(5)) simp
  have "ms (Chr ((=) CHR '':'')) ('':'' @ tag) = [] @ ([], tag) # []" by simp
  from ms_Seq_first [OF this _ any]
  obtain m1 where tail: "ms (Seq (Chr ((=) CHR '':'')) (Grp (Some_of Any))) ('':'' @ tag) = ([tag], []) # m1" by auto
  note w = ms_Grp_word [of "''lexfrei/papermc''", OF list.distinct(2)]
  have "ms (Grp (ms_word ''lexfrei/papermc'')) (''lexfrei/papermc:'' @ tag)
      = [] @ ([''lexfrei/papermc''], '':'' @ tag) # []"
    unfolding w by (simp add: HasPrefix_def)
  from ms_Seq_first [OF this _ tail] obtain m2 where name:
    "ms (Seq (Grp (ms_word ''lexfrei/papermc'')) (Seq (Chr ((=) CHR '':'')) (Grp (Some_of Any))))
       (''lexfrei/papermc:'' @ tag) = ([''lexfrei/papermc'', tag], []) # m2" by auto
  have "ms (Seq (Grp (ms_word ''lexfrei/papermc'')) r) (''papermc:'' @ tag) = []" for r
    unfolding ms.simps(2) w by (simp add: HasPrefix_def)
  with ms_Seq_first [OF up _ name]
  obtain m3 where "ms imageRegex (paper_image tag) = ([''lexfrei/papermc'', tag], []) # m3"
    unfolding imageRegex_def by (auto simp del: ms.simps)
  then show ?thesis using FindStringSubmatch_here by blast
qed

lemma itoa_digits: "0 \<le> b \<Longrightarrow> digits (itoa b)"
  using nat_dec_digits [of "nat b"] by (simp add: itoa_def digits_def)

lemma detect_paper_image:
  assumes "v \<noteq> []" and "list_all digit_or_dot v" and "0 \<le> b" and "b < 2 ^ 63"
    and "sts_Containers sts = c # cs" and "ct_Image c = paper_image (image_tag v b)"
  shows "detectCurrentPaperVersion sts = (v, b)"
proof -
  have "list_all digit_or_dot (itoa b)"
    using itoa_digits [OF assms(3)] by (auto simp: digits_def list_all_iff)
  then have ch: "CHR ''/'' \<notin> set (image_tag v b)" "CHR 0x0A \<notin> set (image_tag v b)"
    using assms(2) by (auto simp: image_tag_def list_all_iff is_digit_def)
  have img: "FindStringSubmatch imageRegex (ct_Image c) = Some [''lexfrei/papermc'', image_tag v b]"
    unfolding assms(6) by (rule imageRegex_paper_image) (use ch in \<open>simp_all add: image_tag_def\<close>)
  have tag: "FindAnchored tagRegex (image_tag v b) = Some [v, itoa b]"
    unfolding tagRegex_iff using assms(1,2) itoa_digits [OF assms(3)] by (simp add: image_tag_def)
  have "CHR ''-'' \<in> set (image_tag v b)" by (simp add: image_tag_def)
  then have "image_tag v b \<noteq> versionPolicyLatest" by (auto simp: versionPolicyLatest_def)
  with img tag assms(5) Atoi_itoa [OF assms(3,4)] show ?thesis
    by (simp add: detectCurrentPaperVersion_def)
qed

subsection \<open>The latest tag\<close>

definition tag_parts :: "string \<Rightarrow> (string \<times> int) option" where
  "tag_parts tag =
     (case FindAnchored versionBuildRegex tag of
        Some [v, n] \<Rightarrow> (case Atoi n of Inl _ \<Rightarrow> None | Inr b \<Rightarrow> Some (v, b))
      | _ \<Rightarrow> None)"

definition best_of :: "'v semver \<Rightarrow> (string \<times> int) set \<Rightarrow> string \<times> int \<Rightarrow> bool" where
  "best_of SV S = (\<lambda>(v, b).
     v \<in> fst ` S \<and> (\<exists>v'. (v', b) \<in> S \<and> \<not> newer SV v v')
   \<and> (\<forall>(v', b') \<in> S. \<not> newer SV v' v \<and> (newer SV v v' \<or> b' \<le> b)))"

definition tag_step :: "'v semver \<Rightarrow> string \<times> int \<Rightarrow> string \<times> int \<Rightarrow> string \<times> int" where
  "tag_step SV cand best =
     (if fst best = [] then cand
      else case Compare SV (fst cand) (fst best) of
             Inl _ \<Rightarrow> best
           | Inr cmp \<Rightarrow> if cmp > 0 then cand
                        else if cmp = 0 \<and> snd cand > snd best then (fst best, snd cand) else best)"

lemma latest_tag_loop_fold:
  "latest_tag_loop SV best tags = fold (tag_step SV) (List.map_filter tag_parts tags) best"
proof (induction SV best tags rule: latest_tag_loop.induct)
  case (2 SV v b tag tags)
  show ?case
  proof (cases "FindAnchored versionBuildRegex tag")
    case None
    with 2 show ?thesis by (simp add: tag_parts_def map_filter_simps)
  next
    case (Some g)
    with versionBuildRegex_iff [of tag g] obtain w n where g: "g = [w, n]" by auto
    from 2 show ?thesis unfolding latest_tag_loop.simps(2) Some g
      by (cases "Atoi n") (simp_all add: Some g tag_parts_def tag_step_def map_filter_simps split: sum.split)
  qed
qed (simp add: map_filter_simps)

lemma tag_parts_version: "tag_parts tag = Some (v, b) \<Longrightarrow> three_part v"
  by (auto simp: tag_parts_def versionBuildRegex_iff split: option.splits list.splits sum.splits)

lemma Compare_newer:
  assumes "semver_order SV" "parseable SV v" "parseable SV w" "v \<noteq> Latest" "w \<noteq> Latest"
  shows "\<exists>c. Compare SV v w = Inr c \<and> (0 < c \<longleftrightarrow> newer SV v w) \<and> (c < 0 \<longleftrightarrow> newer SV w v)"
proof -
  from assms(2,3) obtain a b where ab: "NewVersion SV v = Inr a" "NewVersion SV w = Inr b"
    by (auto simp: parseable_def split: sum.splits)
  with assms semver_antisym [OF assms(1), of a b] show ?thesis
    by (auto simp: Compare_def newer_def GreaterThan_iff)
qed

lemma tag_step_best:
  assumes SV: "semver_order SV" and ok: "\<And>v b. (v, b) \<in> insert cand S \<Longrightarrow> parseable SV v \<and> v \<noteq> Latest \<and> v \<noteq> []"
    and best: "best_of SV S best"
  shows "best_of SV (insert cand S) (tag_step SV cand best)"
proof -
  obtain v b where vb: "best = (v, b)" by (cases best)
  obtain cv cb where c: "cand = (cv, cb)" by (cases cand)
  from best vb have vS: "\<exists>b0. (v, b0) \<in> S" by (auto simp: best_of_def)
  with ok have v: "parseable SV v" "v \<noteq> Latest" "v \<noteq> []" by blast+
  from ok c have cv: "parseable SV cv" "cv \<noteq> Latest" by auto
  note nt = newer_not_trans [OF SV] and asym = newer_asym [OF SV]
  obtain cmp where cmp: "Compare SV cv v = Inr cmp" "0 < cmp \<longleftrightarrow> newer SV cv v" "cmp < 0 \<longleftrightarrow> newer SV v cv"
    using Compare_newer [OF SV cv(1) v(1) cv(2) v(2)] by blast
  consider (gt) "newer SV cv v" | (eq) "\<not> newer SV cv v" "\<not> newer SV v cv" | (lt) "newer SV v cv" by blast
  then show ?thesis
  proof cases
    case gt
    then have step: "tag_step SV cand best = (cv, cb)" using cmp v by (simp add: tag_step_def vb c)
    have "\<not> newer SV v' cv \<and> newer SV cv v'" if "(v', b') \<in> S" for v' b'
    proof -
      from that best vb have 1: "\<not> newer SV v' v" by (auto simp: best_of_def)
      from that ok have "parseable SV v'" by blast
      with nt [OF v(1) 1 asym [OF gt]] nt [of v' cv v] 1 gt show ?thesis by blast
    qed
    then show ?thesis unfolding step unfolding c using newer_irrefl [OF SV] by (fastforce simp: best_of_def)
  next
    case eq
    with cmp have "cmp = 0" by linarith
    then have "tag_step SV cand best = (v, max b cb)" using cmp(1) v by (simp add: tag_step_def vb c)
    with best vb c eq show ?thesis by (auto simp: best_of_def max_def)
  next
    case lt
    with asym have "\<not> newer SV cv v" by blast
    with lt cmp have "tag_step SV cand best = best" using v by (simp add: tag_step_def vb c)
    with lt \<open>\<not> newer SV cv v\<close> best vb c show ?thesis by (auto simp: best_of_def)
  qed
qed

lemma fold_tag_step_best:
  assumes "semver_order SV" and "best_of SV S best"
    and "\<And>v b. (v, b) \<in> set ps \<union> S \<Longrightarrow> parseable SV v \<and> v \<noteq> Latest \<and> v \<noteq> []"
  shows "best_of SV (set ps \<union> S) (fold (tag_step SV) ps best)"
  using assms(2,3)
proof (induction ps arbitrary: S best)
  case (Cons p ps)
  have "best_of SV (insert p S) (tag_step SV p best)"
    by (rule tag_step_best [OF assms(1) _ Cons.prems(1)]) (use Cons.prems(2) in auto)
  from Cons.IH [OF this] Cons.prems(2) show ?case by auto
qed simp

lemma three_part_proper: "three_part v \<Longrightarrow> v \<noteq> Latest \<and> v \<noteq> []"
  by (auto simp: three_part_def Latest_def digits_def append_eq_Cons_conv is_digit_def)

lemma findLatestVersionFromTags_best:
  assumes "semver_order SV" and "\<And>v b. Some (v, b) \<in> tag_parts ` set tags \<Longrightarrow> parseable SV v"
  shows "case findLatestVersionFromTags SV tags of
           Inr best \<Rightarrow> best_of SV {p. Some p \<in> tag_parts ` set tags} best
         | Inl _ \<Rightarrow> (\<forall>tag \<in> set tags. tag_parts tag = None)"
proof -
  let ?ps = "List.map_filter tag_parts tags"
  have ps: "set ?ps = {p. Some p \<in> tag_parts ` set tags}" 
    by (induction tags) (auto simp: map_filter_simps split: option.split)
  have ok: "parseable SV v \<and> v \<noteq> Latest \<and> v \<noteq> []" if "(v, b) \<in> set ?ps" for v b
    using that assms(2) [of v b] three_part_proper [of v] tag_parts_version unfolding ps
    by (metis (mono_tags) imageE mem_Collect_eq)
  show ?thesis
  proof (cases ?ps)
    case Nil
    then have "\<forall>tag \<in> set tags. tag_parts tag = None" using ps by (metis (no_types, lifting) empty_iff empty_set imageI mem_Collect_eq option.exhaust)
    with Nil show ?thesis by (simp add: findLatestVersionFromTags_def latest_tag_loop_fold)
  next
    case (Cons p ps)
    have "best_of SV {p} p" using newer_irrefl [OF assms(1)] by (auto simp: best_of_def)
    then have "best_of SV (set ps \<union> {p}) (fold (tag_step SV) ps p)"
      by (rule fold_tag_step_best [OF assms(1)]) (use ok Cons in auto)
    then have b: "best_of SV (set ?ps) (latest_tag_loop SV ([], 0) tags)"
      by (simp add: latest_tag_loop_fold Cons tag_step_def)
    obtain v b where vb: "latest_tag_loop SV ([], 0) tags = (v, b)" by fastforce
    with b ok have "v \<noteq> []" by (auto simp: best_of_def)
    with b vb ps show ?thesis by (simp add: findLatestVersionFromTags_def)
  qed
qed

subsection \<open>What a strategy returns\<close>

definition no_downgrade :: "'v semver \<Rightarrow> PaperMCServer \<Rightarrow> string \<Rightarrow> bool" where
  "no_downgrade SV server v \<longleftrightarrow>
     (let current = st_CurrentVersion (sv_Status server)
      in current = [] \<or> current = Latest \<or> IsDowngrade SV current v = Inr False)"

definition plugin_allows :: "string \<Rightarrow> Plugin \<Rightarrow> bool" where
  "plugin_allows v plugin \<longleftrightarrow>
     pst_AvailableVersions (pl_Status plugin) = [] \<and> \<not> override_enabled plugin
   \<or> isPluginCompatibleWithPaper plugin v"

lemma checkPluginCompatibility_None:
  "checkPluginCompatibility v ps = None \<longleftrightarrow> list_all (plugin_allows v) ps"
  by (induction ps) (auto simp: plugin_allows_def)

text \<open>Servers that differ in their conditions and in the notice of a blocked update only.\<close>

definition same_versions :: "PaperMCServer \<Rightarrow> PaperMCServer \<Rightarrow> bool" where
  "same_versions a b \<longleftrightarrow> sv_Meta a = sv_Meta b \<and> sv_Spec a = sv_Spec b
   \<and> (sv_Status a)\<lparr>st_Conditions := [], st_UpdateBlocked := None\<rparr>
     = (sv_Status b)\<lparr>st_Conditions := [], st_UpdateBlocked := None\<rparr>"

lemma same_versions_refl [simp]: "same_versions a a"
  by (simp add: same_versions_def)

lemma same_versions_trans: "same_versions a b \<Longrightarrow> same_versions b c \<Longrightarrow> same_versions a c"
  by (simp add: same_versions_def)

lemma same_versions_status:
  assumes "same_versions a b"
  shows "st_CurrentVersion (sv_Status a) = st_CurrentVersion (sv_Status b)"
    "st_DesiredVersion (sv_Status a) = st_DesiredVersion (sv_Status b)"
    "st_DesiredBuild (sv_Status a) = st_DesiredBuild (sv_Status b)"
    "st_Plugins (sv_Status a) = st_Plugins (sv_Status b)"
    "st_CurrentBuild (sv_Status a) = st_CurrentBuild (sv_Status b)"
    "sv_Spec a = sv_Spec b" "sv_Meta a = sv_Meta b"
  using assms by (auto simp: same_versions_def dest: arg_cong [where f = st_CurrentVersion] arg_cong [where f = st_DesiredVersion]
      arg_cong [where f = st_DesiredBuild] arg_cong [where f = st_Plugins] arg_cong [where f = st_CurrentBuild])

lemma no_downgrade_same: "same_versions a b \<Longrightarrow> no_downgrade SV a v = no_downgrade SV b v"
  by (simp add: no_downgrade_def same_versions_status)

lemma setCondition_emits: "emits (setCondition x s ty c r m) (\<lambda>s' u. same_versions s s')"
  unfolding setCondition_def call_ops
  by (intro tr_rules) (simp add: same_versions_def set_conditions_def)

lemma blocked_emits:
  "emits (setUpdateBlocked x s r b) (\<lambda>s' u. same_versions s s')"
  "emits (clearUpdateBlocked x s) (\<lambda>s' u. same_versions s s')"
  unfolding setUpdateBlocked_def clearUpdateBlocked_def
  by (rule tr_emits [OF setCondition_emits], simp add: same_versions_def with_status_def)+

lemma check_candidate_emits:
  "emits (check_candidate x SV server v ps)
     (\<lambda>(r, s) u. same_versions server s \<and> (r = Inr () \<longrightarrow> no_downgrade SV server v \<and> list_all (plugin_allows v) ps))"
  unfolding check_candidate_def checkDowngrade_def checkCompatibility_def Let_def
  by (intro tr_rules tr_bind_emits [OF blocked_emits(1)])
    (auto simp: no_downgrade_def checkPluginCompatibility_None [symmetric] updateStrategyLatest_def Latest_def)

lemma solve_plugin_only [only_rules]: "only (\<lambda>_. True) (solve_plugin x SV p ss vs)"
  unfolding solve_plugin_def record_solver_def call_ops by (intro only_rules) simp_all

lemma buildPluginVersionPairs_only [only_rules]: "only (\<lambda>_. True) (buildPluginVersionPairs x SV c ps)"
  by (induction ps) (auto intro!: only_rules split: list.split)

lemma new_update_only [only_rules]: "only (\<lambda>_. True) (new_update x SV v b ps)"
  unfolding new_update_def call_ops by (intro only_rules) simp_all

lemma new_update_emits: "emits (new_update x SV v b ps) (\<lambda>au u. True)"
  by (rule tr_weaken [OF onlyD [OF new_update_only]]) simp

lemma findAvailableUpdate_emits:
  "emits (findAvailableUpdate x SV server ps) (\<lambda>(r, s) u. same_versions server s)"
  unfolding findAvailableUpdate_def findVersionUpdate_def findBuildUpdate_def Let_def server_call_ops
  by (intro tr_rules tr_bind_emits [OF setCondition_emits] tr_bind_emits [OF new_update_emits];
      auto elim: same_versions_trans)

definition image_known :: "'v semver \<Rightarrow> event list \<Rightarrow> string \<Rightarrow> int \<Rightarrow> bool" where
  "image_known SV u v b \<longleftrightarrow> E_ImageExists (image_tag v b) (Inr True) \<in> set u
     \<or> (\<exists>tags. E_ListTags (Inr tags) \<in> set u \<and> findLatestVersionFromTags SV tags = Inr (v, b))"

definition resolved ::
  "'v semver \<Rightarrow> PaperMCServer \<Rightarrow> Plugin list \<Rightarrow> (string \<times> int) result \<times> PaperMCServer \<Rightarrow> event list \<Rightarrow> bool" where
  "resolved SV server ps = (\<lambda>(r, s) u. same_versions server s \<and>
     (\<forall>v b. r = Inr (v, b) \<longrightarrow> no_downgrade SV server v \<and> list_all (plugin_allows v) ps \<and> image_known SV u v b))"

lemma resolveLatestVersion_emits:
  "emits (resolveLatestVersion x SV server ps) (resolved SV server ps)"
  unfolding resolveLatestVersion_def server_call_ops
  by (intro tr_rules tr_bind_emits [OF check_candidate_emits] tr_bind_emits [OF blocked_emits(2)])
    (auto simp: resolved_def image_known_def elim: same_versions_trans)

lemma resolveAutoVersion_emits:
  "emits (resolveAutoVersion x SV server ps) (resolved SV server ps)"
  unfolding resolveAutoVersion_def server_call_ops
  by (intro tr_rules tr_bind_emits [OF check_candidate_emits] tr_bind_emits [OF blocked_emits(2)]
        tr_bind_emits [OF findAvailableUpdate_emits])
    (auto simp: resolved_def image_known_def no_downgrade_same elim: same_versions_trans)

lemma existing_build_emits:
  "emits (existing_build x v bs) (\<lambda>r u. \<forall>b. r = Some b \<longrightarrow> b \<in> set bs \<and> E_ImageExists (image_tag v b) (Inr True) \<in> set u)"
proof (induction bs)
  case (Cons b bs)
  show ?case unfolding existing_build.simps server_call_ops
    by (intro tr_rules tr_emits [OF Cons]) auto
qed (auto intro: tr_rules)

lemma resolveVersionOnlyMode_emits:
  "emits (resolveVersionOnlyMode x SV server v ps) (resolved SV server ps)"
  unfolding resolveVersionOnlyMode_def server_call_ops
  by (intro tr_rules tr_bind_emits [OF check_candidate_emits] tr_bind_emits [OF blocked_emits(2)]
        tr_bind_emits [OF existing_build_emits])
    (auto simp: resolved_def image_known_def elim: same_versions_trans)

lemma resolvePinnedVersionBuild_emits:
  "emits (resolvePinnedVersionBuild x SV server v n f ps) (resolved SV server ps)"
  unfolding resolvePinnedVersionBuild_def server_call_ops
  by (intro tr_rules tr_bind_emits [OF check_candidate_emits] tr_bind_emits [OF blocked_emits(2)]
        tr_bind_emits [OF blocked_emits(1)])
    (auto simp: resolved_def image_known_def elim: same_versions_trans)

lemma resolveDesiredPaperVersion_emits:
  "emits (resolveDesiredPaperVersion x SV server ps) (resolved SV server ps)"
  unfolding resolveDesiredPaperVersion_def Let_def
  by (intro tr_rules resolveLatestVersion_emits resolveAutoVersion_emits resolveVersionOnlyMode_emits
      resolvePinnedVersionBuild_emits) (auto simp: resolved_def)

lemma updateDesiredVersion_emits:
  "emits (updateDesiredVersion x SV server plugins)
     (\<lambda>(r, server') u.
        let old = (st_DesiredVersion (sv_Status server), st_DesiredBuild (sv_Status server));
            new = (st_DesiredVersion (sv_Status server'), st_DesiredBuild (sv_Status server'))
        in (is_ok r \<or> new = old \<and> fst old = [])
         \<and> st_CurrentVersion (sv_Status server') = st_CurrentVersion (sv_Status server)
         \<and> st_Plugins (sv_Status server') = st_Plugins (sv_Status server)
         \<and> (new = old
            \<or> (no_downgrade SV server (fst new) \<and> list_all (plugin_allows (fst new)) plugins
             \<and> image_known SV u (fst new) (snd new))))"
  unfolding updateDesiredVersion_def
  by (intro tr_rules tr_bind_emits [OF resolveDesiredPaperVersion_emits])
    (auto simp: resolved_def Let_def with_status_def same_versions_status split: sum.split)

text \<open>
  A new desired version is safe. Whatever the registry and the Paper API answer,
  \<open>updateDesiredVersion\<close> either leaves the desired version and build of the status as they were, or
  it replaces them by a version that is no downgrade from the running one, that every matched plugin
  accepts (a plugin without version metadata and without an override does not object), and whose
  image the registry reported: by an existence check on the tag, or as the latest tag of a listing.
  It fails only when there is no old desired version to fall back on.
\<close>

theorem desired_version_safe:
  "emits (updateDesiredVersion x SV server plugins)
     (\<lambda>(r, server') u.
        let old = (st_DesiredVersion (sv_Status server), st_DesiredBuild (sv_Status server));
            new = (st_DesiredVersion (sv_Status server'), st_DesiredBuild (sv_Status server'))
        in (is_ok r \<or> new = old \<and> fst old = [])
         \<and> st_CurrentVersion (sv_Status server') = st_CurrentVersion (sv_Status server)
         \<and> st_Plugins (sv_Status server') = st_Plugins (sv_Status server)
         \<and> (new = old
            \<or> (no_downgrade SV server (fst new) \<and> list_all (plugin_allows (fst new)) plugins
             \<and> image_known SV u (fst new) (snd new))))"
  by (rule updateDesiredVersion_emits)

subsection \<open>Plugin status of a server\<close>

lemma resolvePluginVersionForServer_only [only_rules]:
  "only (\<lambda>_. True) (resolvePluginVersionForServer x SV server plugin)"
  unfolding resolvePluginVersionForServer_def call_ops Let_def by (intro only_rules) simp_all

definition preserved :: "(string \<rightharpoonup> ServerPluginStatus) \<Rightarrow> Plugin \<Rightarrow> ServerPluginStatus \<Rightarrow> bool" where
  "preserved existing plugin e \<longleftrightarrow>
     sp_PluginRef e = \<lparr>pr_Name = pl_Name plugin, pr_Namespace = pl_Namespace plugin\<rparr>
   \<and> sp_DesiredVersion e = sp_ResolvedVersion e \<and> (sp_Compatible e \<longleftrightarrow> sp_ResolvedVersion e \<noteq> [])
   \<and> (case existing (plugin_ref_key (sp_PluginRef e)) of
        None \<Rightarrow> sp_InstalledJARName e = [] \<and> sp_CurrentVersion e = [] \<and> \<not> sp_PendingDeletion e
      | Some prev \<Rightarrow> sp_InstalledJARName e = sp_InstalledJARName prev \<and> sp_CurrentVersion e = sp_CurrentVersion prev
                   \<and> sp_PendingDeletion e = sp_PendingDeletion prev)"

lemma plugin_status_loop_emits:
  "emits (plugin_status_loop x SV server existing ps) (\<lambda>es u. list_all2 (preserved existing) ps es)"
proof (induction ps)
  case (Cons p ps)
  show ?case unfolding plugin_status_loop.simps
    by (intro tr_rules tr_bind_emits [OF onlyD [OF resolvePluginVersionForServer_only]] tr_bind_emits [OF Cons])
      (auto simp: preserved_def plugin_status_entry_def Let_def split: option.split)
qed (auto intro: tr_rules)

text \<open>
  The plugin entries of a server's status follow the matched plugins, one entry per plugin in
  their order, and recomputing them never loses what is installed: the JAR name, the installed
  version and the deletion mark of an entry are those of the old entry with the same reference, and
  empty when there was none. An entry is compatible exactly when a version was resolved.
\<close>

theorem plugin_status_keeps_installed:
  "emits (buildPluginStatus x SV server plugins)
     (\<lambda>entries u. list_all2 (preserved (status_by_key (st_Plugins (sv_Status server)))) plugins entries)"
  unfolding buildPluginStatus_def by (rule plugin_status_loop_emits)

end
