(* ===== verification/GatewayRoutes.thy ===== *)
theory GatewayRoutes
  imports NetworkPolicies VersionResolution Sha256 "HOL-Library.AList"
begin

section \<open>Gateway routes (\<^verbatim>\<open>gateway_routes.go\<close>)\<close>

text \<open>
  The TCPRoute and the UDPRoute of the game port and the HTTPRoutes of plugin endpoints. A Go map is
  an association list with distinct keys; \<open>k_range\<close> orders the keys of a \<^verbatim>\<open>range\<close> loop over one. The
  functions that set a condition return the changed server. The properties bound what the routes expose.
\<close>

definition gcProtocolHTTPLower :: string where "gcProtocolHTTPLower = ''http''"
definition gcProtocolHTTP :: string where "gcProtocolHTTP = ''HTTP''"
definition routeTypeLabel :: string where "routeTypeLabel = ''mc.k8s.lex.la/route-type''"
definition conditionTypeHTTPRouteConfigValid :: string where
  "conditionTypeHTTPRouteConfigValid = ''HTTPRouteConfigValid''"
definition maxK8sNameLength :: nat where "maxK8sNameLength = 253"

definition truncateK8sName :: "string \<Rightarrow> string" where
  "truncateK8sName name = shorten maxK8sNameLength name"

definition convertParentRefs :: "GatewayParentRef list \<Rightarrow> ParentReference list" where
  "convertParentRefs refs =
     map (\<lambda>ref. \<lparr>pref_Name = gp_Name ref,
                pref_Namespace = (if gp_Namespace ref \<noteq> [] then Some (gp_Namespace ref) else None),
                pref_SectionName = (if gp_SectionName ref \<noteq> [] then Some (gp_SectionName ref) else None)\<rparr>) refs"

definition buildBackendRef :: "string \<Rightarrow> int \<Rightarrow> BackendRef" where
  "buildBackendRef serviceName port = \<lparr>be_Group = None, be_Kind = None, be_Name = serviceName, be_Port = Some port\<rparr>"

subsection \<open>TCPRoute and UDPRoute\<close>

definition game_route :: "string \<Rightarrow> PaperMCServer \<Rightarrow> GatewayConfig \<Rightarrow> L4Route" where
  "game_route sfx server gw =
     \<lparr>l4_Meta = owned_meta (sv_Name server @ sfx) (sv_Namespace server) (standardLabels (sv_Name server) ''networking''),
      l4_ParentRefs = convertParentRefs (gw_ParentRefs gw),
      l4_Rules = [[buildBackendRef (sv_Name server) minecraftPort]]\<rparr>"

definition buildTCPRoute :: "PaperMCServer \<Rightarrow> GatewayConfig \<Rightarrow> L4Route" where
  "buildTCPRoute server gw = game_route ''-tcp'' server gw"

definition buildUDPRoute :: "PaperMCServer \<Rightarrow> GatewayConfig \<Rightarrow> L4Route" where
  "buildUDPRoute server gw = game_route ''-udp'' server gw"

definition l4_ops :: "(L4Route, ParentReference list \<times> BackendRef list list) object_ops" where
  "l4_ops =
     \<lparr>oo_key = (\<lambda>r. (m_Namespace (l4_Meta r), m_Name (l4_Meta r))),
      oo_owners = (\<lambda>r. m_OwnerReferences (l4_Meta r)),
      oo_set_owners = (\<lambda>o' r. r\<lparr>l4_Meta := (l4_Meta r)\<lparr>m_OwnerReferences := o'\<rparr>\<rparr>),
      oo_labels = (\<lambda>r. m_Labels (l4_Meta r)),
      oo_set_labels = (\<lambda>l r. r\<lparr>l4_Meta := (l4_Meta r)\<lparr>m_Labels := l\<rparr>\<rparr>),
      oo_spec = (\<lambda>r. (l4_ParentRefs r, l4_Rules r)),
      oo_set_spec = (\<lambda>(ps, rs) r. r\<lparr>l4_ParentRefs := ps, l4_Rules := rs\<rparr>)\<rparr>"

interpretation l4_routes: managed_object l4_ops
  by unfold_locales (auto simp: l4_ops_def split: prod.splits)

text \<open>The gateway of a server when it is enabled, and whether one of its two game routes is.\<close>

definition enabled_gateway :: "PaperMCServer \<Rightarrow> GatewayConfig option" where
  "enabled_gateway server =
     (case ss_Gateway (sv_Spec server) of None \<Rightarrow> None | Some gw \<Rightarrow> if gw_Enabled gw then Some gw else None)"

definition route_enabled :: "(GatewayConfig \<Rightarrow> RouteConfig option) \<Rightarrow> PaperMCServer \<Rightarrow> bool" where
  "route_enabled sel server =
     (case enabled_gateway server of
        None \<Rightarrow> False
      | Some gw \<Rightarrow> (case sel gw of None \<Rightarrow> False | Some rc \<Rightarrow> rt_Enabled rc))"

definition on_gateway :: "(GatewayConfig \<Rightarrow> 'a) \<Rightarrow> PaperMCServer \<Rightarrow> 'a result" where
  "on_gateway f server =
     (case enabled_gateway server of None \<Rightarrow> Inl (New ''no gateway'') | Some gw \<Rightarrow> Inr (f gw))"

definition reconcileTCPRoute :: "('w, 'sched) sext \<Rightarrow> PaperMCServer \<Rightarrow> ('w, unit result) op" where
  "reconcileTCPRoute x server =
     reconcile_object x l4_ops O_TCPRoute (x_tcpRoutes x) K_TCPRoute ''TCPRoute'' True
       (sv_Name server @ ''-tcp'') (route_enabled gw_TCPRoute server)
       (on_gateway (buildTCPRoute server) server) server"

definition reconcileUDPRoute :: "('w, 'sched) sext \<Rightarrow> PaperMCServer \<Rightarrow> ('w, unit result) op" where
  "reconcileUDPRoute x server =
     reconcile_object x l4_ops O_UDPRoute (x_udpRoutes x) K_UDPRoute ''UDPRoute'' True
       (sv_Name server @ ''-udp'') (route_enabled gw_UDPRoute server)
       (on_gateway (buildUDPRoute server) server) server"

subsection \<open>HTTPRoutes\<close>

fun findHTTPEndpoint :: "PluginEndpoint list \<Rightarrow> string \<Rightarrow> PluginEndpoint option" where
  "findHTTPEndpoint [] endpointName = None"
| "findHTTPEndpoint (ep # eps) endpointName =
     (if ep_Name ep = endpointName \<and> ep_Protocol ep = gcProtocolHTTP then Some ep
      else findHTTPEndpoint eps endpointName)"

definition http_route_name :: "PaperMCServer \<Rightarrow> PluginHTTPRoute \<Rightarrow> string" where
  "http_route_name server hr =
     truncateK8sName (sv_Name server @ ''-http-'' @ hr_PluginName hr @ ''-'' @ hr_EndpointName hr)"

definition buildHTTPRoute :: "PaperMCServer \<Rightarrow> GatewayConfig \<Rightarrow> PluginHTTPRoute \<Rightarrow> int \<Rightarrow> HTTPRoute" where
  "buildHTTPRoute server gw hr port =
     \<lparr>hrt_Meta = owned_meta (http_route_name server hr) (sv_Namespace server)
         ((standardLabels (sv_Name server) ''networking'')(routeTypeLabel \<mapsto> gcProtocolHTTPLower)),
      hrt_Spec =
        \<lparr>hrs_ParentRefs = convertParentRefs (gw_ParentRefs gw), hrs_Hostnames = [hr_Hostname hr],
         hrs_Rules =
           [\<lparr>hrr_PathPrefix = (if hr_PathPrefix hr \<noteq> [] then Some (hr_PathPrefix hr) else None),
             hrr_BackendRefs =
               [\<lparr>be_Group = Some [], be_Kind = Some ''Service'', be_Name = sv_Name server, be_Port = Some port\<rparr>]\<rparr>]\<rparr>\<rparr>"

text \<open>The plugins by name, where a later plugin replaces an earlier one with its name.\<close>

definition plugin_by_name :: "Plugin list \<Rightarrow> string \<rightharpoonup> Plugin" where
  "plugin_by_name ps = map_of (rev (map (\<lambda>p. (pl_Name p, p)) ps))"

fun http_routes_loop ::
  "PaperMCServer \<Rightarrow> GatewayConfig \<Rightarrow> (string \<rightharpoonup> Plugin) \<Rightarrow> (string \<times> HTTPRoute) list \<times> string list
     \<Rightarrow> PluginHTTPRoute list \<Rightarrow> (string \<times> HTTPRoute) list \<times> string list" where
  "http_routes_loop server gw pluginMap (desired, issues) [] = (desired, issues)"
| "http_routes_loop server gw pluginMap (desired, issues) (hr # hrs) =
     http_routes_loop server gw pluginMap
       (case pluginMap (hr_PluginName hr) of
          None \<Rightarrow> (desired, issues @ [''plugin '' @ [CHR 0x22] @ hr_PluginName hr @ [CHR 0x22] @ '' not matched to this server''])
        | Some plugin \<Rightarrow>
            (case findHTTPEndpoint (ps_Endpoints (pl_Spec plugin)) (hr_EndpointName hr) of
               None \<Rightarrow> (desired, issues @ [''plugin '' @ [CHR 0x22] @ hr_PluginName hr @ [CHR 0x22] @
                          '' has no HTTP endpoint '' @ [CHR 0x22] @ hr_EndpointName hr @ [CHR 0x22]])
             | Some endpoint \<Rightarrow>
                 (AList.update (http_route_name server hr) (buildHTTPRoute server gw hr (ep_Port endpoint)) desired, issues)))
       hrs"

definition buildDesiredHTTPRoutes :: "PaperMCServer \<Rightarrow> Plugin list \<Rightarrow> (string \<times> HTTPRoute) list \<times> string list" where
  "buildDesiredHTTPRoutes server matchedPlugins =
     (case enabled_gateway server of
        None \<Rightarrow> ([], [])
      | Some gw \<Rightarrow> http_routes_loop server gw (plugin_by_name matchedPlugins) ([], []) (gw_HTTPRoutes gw))"

definition join :: "string \<Rightarrow> string list \<Rightarrow> string" where
  "join sep ss = (case ss of [] \<Rightarrow> [] | s # rest \<Rightarrow> s @ concat (map (\<lambda>t. sep @ t) rest))"

definition remove_condition :: "('w, 'sched) sext \<Rightarrow> string \<Rightarrow> PaperMCServer \<Rightarrow> PaperMCServer" where
  "remove_condition x ty server =
     set_conditions server (k_RemoveStatusCondition x (st_Conditions (sv_Status server)) ty)"

definition setHTTPRouteCondition ::
  "('w, 'sched) sext \<Rightarrow> PaperMCServer \<Rightarrow> string list \<Rightarrow> ('w, PaperMCServer) op" where
  "setHTTPRouteCondition x server issues =
     (if (case ss_Gateway (sv_Spec server) of None \<Rightarrow> True | Some gw \<Rightarrow> gw_HTTPRoutes gw = [])
      then State_Monad.return (remove_condition x conditionTypeHTTPRouteConfigValid server)
      else if issues = [] then
        setCondition x server conditionTypeHTTPRouteConfigValid ConditionTrue ''AllRoutesValid''
          ''All httpRoutes reference valid plugins and HTTP endpoints''
      else
        setCondition x server conditionTypeHTTPRouteConfigValid ConditionFalse ''InvalidRouteConfig''
          (''Invalid httpRoutes: '' @ join ''; '' issues))"

definition isOwnedBy :: "HTTPRoute \<Rightarrow> PaperMCServer \<Rightarrow> bool" where
  "isOwnedBy route server =
     list_ex (\<lambda>ref. or_UID ref = m_UID (sv_Meta server)) (m_OwnerReferences (hrt_Meta route))"

text \<open>No map when the cluster does not know HTTPRoutes.\<close>

definition listOwnedHTTPRoutes ::
  "('w, 'sched) sext \<Rightarrow> PaperMCServer \<Rightarrow> ('w, (string \<times> HTTPRoute) list option result) op" where
  "listOwnedHTTPRoutes x server = do {
     l \<leftarrow> list_http_routes x (sv_Namespace server) [(routeTypeLabel, gcProtocolHTTPLower)];
     State_Monad.return
       (case l of
          Inl err \<Rightarrow> if IsNoMatch err then Inr None else Inl (Wrap err ''failed to list HTTPRoutes'')
        | Inr items \<Rightarrow>
            Inr (Some (foldl (\<lambda>m route. AList.update (m_Name (hrt_Meta route)) route m) []
              (filter (\<lambda>route. m_Labels (hrt_Meta route) routeTypeLabel = Some gcProtocolHTTPLower \<and> isOwnedBy route server)
                 items))))
   }"

definition http_ops :: "(HTTPRoute, HTTPRouteSpec) object_ops" where
  "http_ops =
     \<lparr>oo_key = (\<lambda>r. (m_Namespace (hrt_Meta r), m_Name (hrt_Meta r))),
      oo_owners = (\<lambda>r. m_OwnerReferences (hrt_Meta r)),
      oo_set_owners = (\<lambda>o' r. r\<lparr>hrt_Meta := (hrt_Meta r)\<lparr>m_OwnerReferences := o'\<rparr>\<rparr>),
      oo_labels = (\<lambda>r. m_Labels (hrt_Meta r)),
      oo_set_labels = (\<lambda>l r. r\<lparr>hrt_Meta := (hrt_Meta r)\<lparr>m_Labels := l\<rparr>\<rparr>),
      oo_spec = hrt_Spec, oo_set_spec = (\<lambda>s r. r\<lparr>hrt_Spec := s\<rparr>)\<rparr>"

interpretation http_routes: managed_object http_ops
  by unfold_locales (simp_all add: http_ops_def)

definition updateHTTPRouteIfChanged ::
  "('w, 'sched) sext \<Rightarrow> PaperMCServer \<Rightarrow> HTTPRoute \<Rightarrow> HTTPRoute \<Rightarrow> ('w, unit result) op" where
  "updateHTTPRouteIfChanged x server existing desired =
     update_owned x http_ops O_HTTPRoute (x_httpRoutes x) ''failed to set owner reference on HTTPRoute''
       ''failed to update HTTPRoute'' server existing desired"

fun apply_loop ::
  "('w, 'sched) sext \<Rightarrow> PaperMCServer \<Rightarrow> (string \<times> HTTPRoute) list \<Rightarrow> (string \<times> HTTPRoute) list \<Rightarrow> string list
     \<Rightarrow> ('w, unit result) op" where
  "apply_loop x server desired existing [] = State_Monad.return (Inr ())"
| "apply_loop x server desired existing (name # names) =
     (case map_of desired name of
        None \<Rightarrow> apply_loop x server desired existing names
      | Some route \<Rightarrow> do {
          r \<leftarrow> (case map_of existing name of
                  None \<Rightarrow> create_owned x http_ops O_HTTPRoute (x_httpRoutes x)
                            ''failed to set owner reference on HTTPRoute'' ''failed to create HTTPRoute'' server route
                | Some current \<Rightarrow> updateHTTPRouteIfChanged x server current route);
          case r of
            Inl err \<Rightarrow> State_Monad.return (Inl err)
          | Inr _ \<Rightarrow> apply_loop x server desired existing names
        })"

definition applyHTTPRouteChanges ::
  "('w, 'sched) sext \<Rightarrow> PaperMCServer \<Rightarrow> (string \<times> HTTPRoute) list \<Rightarrow> (string \<times> HTTPRoute) list
     \<Rightarrow> ('w, unit result) op" where
  "applyHTTPRouteChanges x server desired existing =
     apply_loop x server desired existing (k_range x [''applyHTTPRouteChanges''] (map fst desired))"

fun orphans_loop ::
  "('w, 'sched) sext \<Rightarrow> (string \<times> HTTPRoute) list \<Rightarrow> (string \<times> HTTPRoute) list \<Rightarrow> string list \<Rightarrow> ('w, unit result) op" where
  "orphans_loop x desired existing [] = State_Monad.return (Inr ())"
| "orphans_loop x desired existing (name # names) =
     (case (map_of existing name, map_of desired name) of
        (Some route, None) \<Rightarrow> do {
          r \<leftarrow> delete_owned O_HTTPRoute (x_httpRoutes x) ''failed to delete orphaned HTTPRoute'' route;
          case r of
            Inl err \<Rightarrow> State_Monad.return (Inl err)
          | Inr _ \<Rightarrow> orphans_loop x desired existing names
        }
      | _ \<Rightarrow> orphans_loop x desired existing names)"

definition deleteOrphanedHTTPRoutes ::
  "('w, 'sched) sext \<Rightarrow> (string \<times> HTTPRoute) list \<Rightarrow> (string \<times> HTTPRoute) list \<Rightarrow> ('w, unit result) op" where
  "deleteOrphanedHTTPRoutes x desired existing =
     orphans_loop x desired existing (k_range x [''deleteOrphanedHTTPRoutes''] (map fst existing))"

definition reconcileHTTPRoutes ::
  "('w, 'sched) sext \<Rightarrow> PaperMCServer \<Rightarrow> Plugin list \<Rightarrow> ('w, unit result \<times> PaperMCServer) op" where
  "reconcileHTTPRoutes x server matchedPlugins =
     (case buildDesiredHTTPRoutes server matchedPlugins of
        (desired, issues) \<Rightarrow> do {
          server1 \<leftarrow> setHTTPRouteCondition x server issues;
          e \<leftarrow> listOwnedHTTPRoutes x server1;
          case e of
            Inl err \<Rightarrow> State_Monad.return (Inl err, server1)
          | Inr None \<Rightarrow> State_Monad.return (Inr (), server1)
          | Inr (Some existing) \<Rightarrow> do {
              r \<leftarrow> applyHTTPRouteChanges x server1 desired existing;
              case r of
                Inl err \<Rightarrow> State_Monad.return (Inl err, server1)
              | Inr _ \<Rightarrow> do {
                  d \<leftarrow> deleteOrphanedHTTPRoutes x desired existing;
                  State_Monad.return (d, server1)
                }
            }
        })"

definition ensureGatewayRoutes ::
  "('w, 'sched) sext \<Rightarrow> PaperMCServer \<Rightarrow> Plugin list \<Rightarrow> ('w, unit result \<times> PaperMCServer) op" where
  "ensureGatewayRoutes x server matchedPlugins = do {
     t \<leftarrow> reconcileTCPRoute x server;
     case t of
       Inl err \<Rightarrow> State_Monad.return (Inl (Wrap err ''failed to reconcile TCPRoute''), server)
     | Inr _ \<Rightarrow> do {
         u \<leftarrow> reconcileUDPRoute x server;
         case u of
           Inl err \<Rightarrow> State_Monad.return (Inl (Wrap err ''failed to reconcile UDPRoute''), server)
         | Inr _ \<Rightarrow> do {
             (h, server1) \<leftarrow> reconcileHTTPRoutes x server matchedPlugins;
             State_Monad.return (wrap_result ''failed to reconcile HTTPRoutes'' h, server1)
           }
       }
   }"

subsection \<open>What the routes expose\<close>

text \<open>A backend that a route of the server may name: the game port, or an HTTP endpoint that its configuration lists.\<close>

definition http_exposed :: "PaperMCServer \<Rightarrow> Plugin list \<Rightarrow> int set" where
  "http_exposed server plugins =
     {ep_Port ep | ep plugin hr gw. enabled_gateway server = Some gw \<and> hr \<in> set (gw_HTTPRoutes gw)
        \<and> plugin \<in> set plugins \<and> pl_Name plugin = hr_PluginName hr \<and> ep \<in> set (ps_Endpoints (pl_Spec plugin))
        \<and> ep_Name ep = hr_EndpointName hr \<and> ep_Protocol ep = gcProtocolHTTP}"

fun backends :: "kobj \<Rightarrow> (string \<times> int option) list" where
  "backends (O_TCPRoute r) = map (\<lambda>b. (be_Name b, be_Port b)) (concat (l4_Rules r))"
| "backends (O_UDPRoute r) = map (\<lambda>b. (be_Name b, be_Port b)) (concat (l4_Rules r))"
| "backends (O_HTTPRoute r) = map (\<lambda>b. (be_Name b, be_Port b)) (concat (map hrr_BackendRefs (hrs_Rules (hrt_Spec r))))"
| "backends _ = []"

fun written :: "event \<Rightarrow> kobj option" where
  "written (E_Create ob _) = Some ob"
| "written (E_Update ob _) = Some ob"
| "written _ = None"

definition exposes_only :: "PaperMCServer \<Rightarrow> Plugin list \<Rightarrow> event \<Rightarrow> bool" where
  "exposes_only server plugins e \<longleftrightarrow>
     (case written e of
        None \<Rightarrow> True
      | Some ob \<Rightarrow> list_all (\<lambda>b. b = (sv_Name server, Some minecraftPort)
                   \<or> (\<exists>r. ob = O_HTTPRoute r) \<and> (\<exists>p \<in> http_exposed server plugins. b = (sv_Name server, Some p)))
                 (backends ob))"

lemma game_routes_only:
  "only (exposes_only server plugins) (reconcileTCPRoute x server)"
  "only (exposes_only server plugins) (reconcileUDPRoute x server)"
  unfolding reconcileTCPRoute_def reconcileUDPRoute_def
  by (rule l4_routes.reconcile_object_only;
      auto simp: exposes_only_def on_gateway_def buildTCPRoute_def buildUDPRoute_def game_route_def l4_ops_def
        buildBackendRef_def split: option.splits)+

lemma findHTTPEndpoint_Some:
  "findHTTPEndpoint eps n = Some ep \<Longrightarrow> ep \<in> set eps \<and> ep_Name ep = n \<and> ep_Protocol ep = gcProtocolHTTP"
  by (induction eps) (auto split: if_splits)

lemma plugin_by_name_Some: "plugin_by_name ps n = Some p \<Longrightarrow> p \<in> set ps \<and> pl_Name p = n"
  by (auto simp: plugin_by_name_def dest!: map_of_SomeD)

definition http_backend_ok :: "PaperMCServer \<Rightarrow> Plugin list \<Rightarrow> HTTPRoute \<Rightarrow> bool" where
  "http_backend_ok server plugins r \<longleftrightarrow>
     (\<exists>p \<in> http_exposed server plugins. backends (O_HTTPRoute r) = [(sv_Name server, Some p)])"

lemma http_routes_loop_ok:
  assumes "enabled_gateway server = Some gw" "set hrs \<subseteq> set (gw_HTTPRoutes gw)"
    and "\<forall>n r. map_of desired n = Some r \<longrightarrow> http_backend_ok server plugins r"
    and "http_routes_loop server gw (plugin_by_name plugins) (desired, issues) hrs = (desired', issues')"
  shows "\<forall>n r. map_of desired' n = Some r \<longrightarrow> http_backend_ok server plugins r"
  using assms(2-4)
proof (induction hrs arbitrary: desired issues)
  case (Cons hr hrs)
  show ?case
  proof (cases "plugin_by_name plugins (hr_PluginName hr)")
    case (Some plugin)
    show ?thesis
    proof (cases "findHTTPEndpoint (ps_Endpoints (pl_Spec plugin)) (hr_EndpointName hr)")
      case ep: (Some ep)
      have "ep_Port ep \<in> http_exposed server plugins"
        using findHTTPEndpoint_Some [OF ep] plugin_by_name_Some [OF Some] assms(1) Cons.prems(1)
        by (auto simp: http_exposed_def)
      then have new: "http_backend_ok server plugins (buildHTTPRoute server gw hr (ep_Port ep))"
        by (auto simp: http_backend_ok_def buildHTTPRoute_def)
      let ?d = "AList.update (http_route_name server hr) (buildHTTPRoute server gw hr (ep_Port ep)) desired"
      have "\<forall>n r. map_of ?d n = Some r \<longrightarrow> http_backend_ok server plugins r"
        using new Cons.prems(2) by (simp add: update_conv)
      moreover have "http_routes_loop server gw (plugin_by_name plugins) (?d, issues) hrs = (desired', issues')"
        using Cons.prems(3) by (simp add: Some ep)
      ultimately show ?thesis using Cons.IH [of ?d issues] Cons.prems(1) by simp
    qed (use Cons Some in simp)
  qed (use Cons in simp)
qed simp

lemma desired_http_routes_ok:
  assumes "buildDesiredHTTPRoutes server plugins = (desired, issues)" "map_of desired n = Some r"
  shows "http_backend_ok server plugins r"
proof (cases "enabled_gateway server")
  case (Some gw)
  with assms http_routes_loop_ok [OF Some subset_refl, of "[]" plugins "[]" desired issues] show ?thesis
    by (auto simp: buildDesiredHTTPRoutes_def)
qed (use assms in \<open>simp add: buildDesiredHTTPRoutes_def\<close>)

lemma apply_loop_only:
  assumes "\<And>n r. map_of desired n = Some r \<Longrightarrow> http_backend_ok server plugins r"
  shows "only (exposes_only server plugins) (apply_loop x server' desired existing names)"
proof (induction names)
  case (Cons n names)
  have *: "oo_spec http_ops ob = oo_spec http_ops r \<Longrightarrow> list_all (\<lambda>b. b = (sv_Name server, Some minecraftPort)
      \<or> (\<exists>r. O_HTTPRoute ob = O_HTTPRoute r) \<and> (\<exists>p \<in> http_exposed server plugins. b = (sv_Name server, Some p)))
      (backends (O_HTTPRoute ob))" if "map_of desired n = Some r" for ob r
    using assms [OF that] by (auto simp: http_backend_ok_def http_ops_def)
  show ?case
  proof (cases "map_of desired n")
    case (Some r)
    show ?thesis unfolding apply_loop.simps Some option.case updateHTTPRouteIfChanged_def
      by (intro only_rules http_routes.create_owned_only http_routes.update_owned_only Cons;
          simp only: exposes_only_def written.simps option.case * [OF Some])
  qed (use Cons in simp)
qed (auto intro: only_rules)

lemma orphans_loop_only:
  "only (exposes_only server plugins) (orphans_loop x desired existing names)"
proof (induction names)
  case (Cons n names)
  then show ?case
    by (cases "map_of existing n"; cases "map_of desired n")
      (auto intro!: only_rules http_routes.delete_owned_only simp: exposes_only_def)
qed (auto intro: only_rules)

lemma setCondition_only: "(\<And>t. P (E_Now t)) \<Longrightarrow> only P (setCondition x s ty c r m)"
  unfolding setCondition_def call_ops by (intro only_rules)

text \<open>
  C31. What the gateway exposes. Every route that a reconciliation creates or updates, whatever the
  cluster answers, has backends of the server's own service only: the game port on the TCP and the
  UDP route, and on an HTTP route the port of an endpoint that is declared as HTTP by a matched plugin
  and listed under its name in the gateway configuration. Without an enabled gateway there is no
  such endpoint. RCON is not exposed unless a plugin declares its port as an HTTP endpoint.
\<close>

theorem gateway_exposes_only:
  "only (exposes_only server plugins) (ensureGatewayRoutes x server plugins)"
proof -
  obtain desired issues where b: "buildDesiredHTTPRoutes server plugins = (desired, issues)" by fastforce
  have "only (exposes_only server plugins) (reconcileHTTPRoutes x server plugins)"
    unfolding reconcileHTTPRoutes_def b prod.case setHTTPRouteCondition_def listOwnedHTTPRoutes_def
      applyHTTPRouteChanges_def deleteOrphanedHTTPRoutes_def server_call_ops
    by (intro only_rules setCondition_only apply_loop_only [OF desired_http_routes_ok [OF b]] orphans_loop_only)
      (auto simp: exposes_only_def)
  then show ?thesis unfolding ensureGatewayRoutes_def by (intro only_rules game_routes_only)
qed

end
