(* ===== verification/ConfigInjector.thy ===== *)
theory ConfigInjector
  imports Webhooks Sha256 GatewayRoutes "HOL-Library.List_Lexorder" "HOL-Library.Char_ord"
begin

section \<open>Injection of configuration files (\<^verbatim>\<open>config_injector.go\<close>)\<close>

text \<open>
  The shell script that copies files from ConfigMaps to the data volume, the init container that runs
  it, and their volumes. The functions are pure, but the source ranges over Go maps: the argument
  \<open>rg\<close> gives the order of each such loop (see \<open>k_range\<close>), so that \<open>rg site keys\<close> is some order of \<open>keys\<close>.
  The properties connect the script with the admission webhooks: which files an admitted server can write.
\<close>

subsection \<open>Paths\<close>

text \<open>\<^verbatim>\<open>filepath.Clean\<close> and \<^verbatim>\<open>filepath.Dir\<close> on Unix; \<open>acc\<close> holds the elements so far, the last first.\<close>

fun clean_parts :: "bool \<Rightarrow> string list \<Rightarrow> string list \<Rightarrow> string list" where
  "clean_parts rooted acc [] = rev acc"
| "clean_parts rooted acc (p # ps) =
     clean_parts rooted
       (if p = [] \<or> p = ''.'' then acc
        else if p = ''..'' then
          (case acc of
             [] \<Rightarrow> if rooted then [] else [p]
           | a # acc' \<Rightarrow> if a = ''..'' then p # acc else acc')
        else p # acc) ps"

definition filepath_Clean :: "string \<Rightarrow> string" where
  "filepath_Clean s =
     (let rooted = (take 1 s = ''/''); parts = clean_parts rooted [] (split_on CHR ''/'' s)
      in if rooted then ''/'' @ join ''/'' parts else if parts = [] then ''.'' else join ''/'' parts)"

definition filepath_Dir :: "string \<Rightarrow> string" where
  "filepath_Dir s = filepath_Clean (rev (dropWhile (\<lambda>c. c \<noteq> CHR ''/'') (rev s)))"

subsection \<open>Constants and data\<close>

definition ConfigInjectorImage :: string where
  "ConfigInjectorImage = ''busybox@sha256:b3255e7dfbcd10cb367af0d409747d511aeb66dfac98cf30e97e87e4207dd76f''"
definition maxVolumeNameLength :: nat where "maxVolumeNameLength = 63"
definition configMountBase :: string where "configMountBase = ''/configs''"
definition dataMountPath :: string where "dataMountPath = ''/data''"
definition configScriptPath :: string where "configScriptPath = ''/scripts''"
definition configScriptKey :: string where "configScriptKey = ''inject-configs.sh''"
definition gcOverwriteAlways :: string where "gcOverwriteAlways = ''always''"
definition gcOverwriteIfNotExists :: string where "gcOverwriteIfNotExists = ''ifNotExists''"
definition gcConfigScript :: string where "gcConfigScript = ''config-script''"
definition gcVolumeData :: string where "gcVolumeData = ''data''"
definition gcRCONSecret :: string where "gcRCONSecret = ''rcon-secret''"
definition gcTrue :: string where "gcTrue = ''true''"

record configMapVolumeRef =
  cv_VolumeName :: string
  cv_ConfigMapName :: string
  cv_MountPath :: string

record configEntry =
  ce_sourcePath :: string
  ce_targetPath :: string
  ce_overwrite :: string
  ce_comment :: string

text \<open>A file of a plugin, or of the server, that the loops collect: its entry and the ConfigMap it needs.\<close>

type_synonym config_item = "configEntry \<times> configMapVolumeRef"

type_synonym overrides_map = "(string \<times> (string \<times> PluginConfigFile) list) list"

definition configMapVolumeName :: "string \<Rightarrow> string" where
  "configMapVolumeName configMapName = shorten maxVolumeNameLength (''cm-'' @ configMapName)"

definition resolvePluginDirName :: "Plugin \<Rightarrow> string" where
  "resolvePluginDirName plugin =
     (if ps_PluginDirName (pl_Spec plugin) \<noteq> [] then ps_PluginDirName (pl_Spec plugin)
      else src_Project (ps_Source (pl_Spec plugin)))"

subsection \<open>Entries\<close>

definition volume_ref :: "string \<Rightarrow> configMapVolumeRef" where
  "volume_ref configMapName =
     (let volName = configMapVolumeName configMapName
      in \<lparr>cv_VolumeName = volName, cv_ConfigMapName = configMapName, cv_MountPath = configMountBase @ ''/'' @ volName\<rparr>)"

definition source_path :: "ConfigMapKeyRef \<Rightarrow> string" where
  "source_path ref = configMountBase @ ''/'' @ configMapVolumeName (ck_Name ref) @ ''/'' @ ck_Key ref"

definition overwrite_or_always :: "string \<Rightarrow> string" where
  "overwrite_or_always o' = (if o' = [] then gcOverwriteAlways else o')"

definition buildPluginConfigEntry :: "string \<Rightarrow> PluginConfigFile \<Rightarrow> config_item" where
  "buildPluginConfigEntry dirName cfg =
     (let overwrite = overwrite_or_always (pcf_Overwrite cfg)
      in (\<lparr>ce_sourcePath = source_path (pcf_ConfigMapRef cfg),
           ce_targetPath = dataMountPath @ ''/plugins/'' @ dirName @ ''/'' @ pcf_Path cfg,
           ce_overwrite = overwrite,
           ce_comment = ''Plugin: '' @ dirName @ '', file: '' @ pcf_Path cfg @ '' (overwrite='' @ overwrite @ '')''\<rparr>,
          volume_ref (ck_Name (pcf_ConfigMapRef cfg))))"

definition buildServerOverridesMap :: "PaperMCServer \<Rightarrow> overrides_map" where
  "buildServerOverridesMap server =
     foldl (\<lambda>m pc.
        AList.update (spc_PluginName pc)
          (foldl (\<lambda>files cfg. AList.update (pcf_Path cfg) cfg files)
             (case map_of m (spc_PluginName pc) of None \<Rightarrow> [] | Some files \<Rightarrow> files)
             (spc_Configs pc)) m)
       [] (ss_PluginConfigs (sv_Spec server))"

text \<open>The values of a Go map in the order of a \<^verbatim>\<open>range\<close> loop.\<close>

definition range_values :: "(string list \<Rightarrow> string list) \<Rightarrow> (string \<times> 'v) list \<Rightarrow> 'v list" where
  "range_values ord m = List.map_filter (map_of m) (ord (map fst m))"

definition pluginHasConfigPath :: "Plugin \<Rightarrow> string \<Rightarrow> bool" where
  "pluginHasConfigPath plugin path = list_ex (\<lambda>cfg. pcf_Path cfg = path) (ps_Configs (pl_Spec plugin))"

text \<open>The plugin's own files, each replaced by an override of its path, then the other overrides.\<close>

definition resolvePluginConfigs ::
  "(string list \<Rightarrow> string list \<Rightarrow> string list) \<Rightarrow> Plugin \<Rightarrow> string \<Rightarrow> overrides_map \<Rightarrow> config_item list" where
  "resolvePluginConfigs rg plugin dirName serverOverrides =
     (let overrides = map_of serverOverrides (pl_Name plugin)
      in map (\<lambda>pluginCfg.
           buildPluginConfigEntry dirName
             (case overrides of
                None \<Rightarrow> pluginCfg
              | Some ov \<Rightarrow> (case map_of ov (pcf_Path pluginCfg) of None \<Rightarrow> pluginCfg | Some cfg \<Rightarrow> cfg)))
           (ps_Configs (pl_Spec plugin))
         @ (case overrides of
              None \<Rightarrow> []
            | Some ov \<Rightarrow>
                map (\<lambda>path. buildPluginConfigEntry dirName (the (map_of ov path)))
                  (filter (\<lambda>path. map_of ov path \<noteq> None \<and> \<not> pluginHasConfigPath plugin path)
                     (rg [''resolvePluginConfigs'', pl_Name plugin] (map fst ov)))))"

definition plugin_config_items ::
  "(string list \<Rightarrow> string list \<Rightarrow> string list) \<Rightarrow> overrides_map \<Rightarrow> Plugin \<Rightarrow> config_item list" where
  "plugin_config_items rg serverOverrides plugin =
     (let dirName = resolvePluginDirName plugin
      in if dirName = [] \<or> ps_Configs (pl_Spec plugin) = [] then
           (case map_of serverOverrides (pl_Name plugin) of
              None \<Rightarrow> []
            | Some ov \<Rightarrow>
                map (buildPluginConfigEntry dirName)
                  (range_values (rg [''collectPluginConfigEntries'', pl_Name plugin]) ov))
         else resolvePluginConfigs rg plugin dirName serverOverrides)"

text \<open>The items of the matched plugins, and the overrides they consume.\<close>

definition collectPluginConfigEntries ::
  "(string list \<Rightarrow> string list \<Rightarrow> string list) \<Rightarrow> Plugin list \<Rightarrow> overrides_map \<Rightarrow> config_item list \<times> string set" where
  "collectPluginConfigEntries rg matchedPlugins serverOverrides =
     (concat (map (plugin_config_items rg serverOverrides) matchedPlugins),
      {pl_Name p | p. p \<in> set matchedPlugins \<and>
         (resolvePluginDirName p \<noteq> [] \<and> ps_Configs (pl_Spec p) \<noteq> [] \<or> map_of serverOverrides (pl_Name p) \<noteq> None)})"

definition collectUnmatchedOverrideEntries ::
  "(string list \<Rightarrow> string list \<Rightarrow> string list) \<Rightarrow> overrides_map \<Rightarrow> string set \<Rightarrow> config_item list \<times> string list" where
  "collectUnmatchedOverrideEntries rg serverOverrides consumedOverrides =
     (let names = filter (\<lambda>n. map_of serverOverrides n \<noteq> None \<and> n \<notin> consumedOverrides)
                    (rg [''collectUnmatchedOverrideEntries''] (map fst serverOverrides))
      in (concat (map (\<lambda>n. map (buildPluginConfigEntry n)
                   (range_values (rg [''collectUnmatchedOverrideEntries'', n]) (the (map_of serverOverrides n)))) names),
          map (\<lambda>n. ''pluginConfigs references plugin '' @ [CHR 0x22] @ n @ [CHR 0x22] @
                   '' which is not matched to this server'') names))"

definition collectServerConfigEntries :: "PaperMCServer \<Rightarrow> config_item list" where
  "collectServerConfigEntries server =
     map (\<lambda>cfg.
        let overwrite = overwrite_or_always (scf_Overwrite cfg)
        in (\<lparr>ce_sourcePath = source_path (scf_ConfigMapRef cfg),
             ce_targetPath = dataMountPath @ ''/'' @ scf_Path cfg,
             ce_overwrite = overwrite,
             ce_comment = ''Server config: '' @ scf_Path cfg @ '' (overwrite='' @ overwrite @ '')''\<rparr>,
            volume_ref (ck_Name (scf_ConfigMapRef cfg))))
       (ss_ServerConfigs (sv_Spec server))"

subsection \<open>The script\<close>

abbreviation line :: "string \<Rightarrow> string" where "line s \<equiv> s @ [CHR 0x0A]"

definition rcon_property :: "string \<Rightarrow> string \<Rightarrow> string" where
  "rcon_property key value =
     line (''  if grep -q '^'' @ key @ ''=' \"$PROPS\"; then'') @
     line (''    sed -i 's/^'' @ key @ ''=.*/'' @ key @ ''='' @ value @ ''/' \"$PROPS\"'') @
     line ''  else'' @
     line (''    echo '' @ [CHR 0x27] @ key @ ''='' @ value @ [CHR 0x27] @ '' >> \"$PROPS\"'') @
     line ''  fi''"

definition buildRCONPropertiesScript :: "PaperMCServer \<Rightarrow> string" where
  "buildRCONPropertiesScript server =
     (let rcon = ss_RCON (sv_Spec server);
          port = (if rc_Port rcon = 0 then 25575 else rc_Port rcon);
          passwordKey = (if sk_Key (rc_PasswordSecret rcon) = [] then ''rcon-password'' else sk_Key (rc_PasswordSecret rcon));
          secretPath = ''/secrets/rcon/'' @ passwordKey
      in if \<not> rc_Enabled rcon then []
         else
           line ''# RCON properties injection from CRD spec'' @
           line ''PROPS=/data/server.properties'' @
           line ''if [ -f \"$PROPS\" ]; then'' @
           rcon_property ''enable-rcon'' gcTrue @
           rcon_property ''rcon.port'' (itoa port) @
           (if sk_Name (rc_PasswordSecret rcon) = [] then []
            else
              line ''  # Inject RCON password from Secret'' @
              line (''  if [ -f \"'' @ secretPath @ ''\" ]; then'') @
              line (''    RCON_PASS=$(cat \"'' @ secretPath @ ''\")'') @
              line ''    if grep -q '^rcon.password=' \"$PROPS\"; then'' @
              line ''      sed -i \"s/^rcon.password=.*/rcon.password=$RCON_PASS/\" \"$PROPS\"'' @
              line ''    else'' @
              line ''      echo \"rcon.password=$RCON_PASS\" >> \"$PROPS\"'' @
              line ''    fi'' @
              line ''  fi'') @
           line ''fi'')"

definition render_entry :: "configEntry \<Rightarrow> string" where
  "render_entry entry =
     (let dir = filepath_Dir (ce_targetPath entry)
      in line (''# '' @ ce_comment entry) @
         (if dir \<noteq> ''.'' \<and> dir \<noteq> ''/'' then line (''mkdir -p '' @ dir) else []) @
         (if ce_overwrite entry = gcOverwriteIfNotExists
          then line (''if [ ! -f '' @ ce_targetPath entry @ '' ]; then'') @
               line (''  cp '' @ ce_sourcePath entry @ '' '' @ ce_targetPath entry) @
               line ''fi''
          else line (''cp '' @ ce_sourcePath entry @ '' '' @ ce_targetPath entry)))"

definition renderConfigScript :: "configEntry list \<Rightarrow> string" where
  "renderConfigScript entries =
     line ''#!/bin/sh'' @ line ''set -e'' @ concat (map render_entry entries)"

definition ref_map :: "configMapVolumeRef list \<Rightarrow> (string \<times> configMapVolumeRef) list" where
  "ref_map refs = foldl (\<lambda>m ref. AList.update (cv_ConfigMapName ref) ref m) [] refs"

definition sortedConfigMapRefs :: "(string \<times> configMapVolumeRef) list \<Rightarrow> configMapVolumeRef list" where
  "sortedConfigMapRefs refMap = sort_key cv_ConfigMapName (map snd refMap)"

text \<open>All items of a server, in the order in which the script copies them, with the warnings.\<close>

definition config_items ::
  "(string list \<Rightarrow> string list \<Rightarrow> string list) \<Rightarrow> PaperMCServer \<Rightarrow> Plugin list \<Rightarrow> config_item list \<times> string list" where
  "config_items rg server matchedPlugins =
     (let serverOverrides = buildServerOverridesMap server;
          (items, consumedOverrides) = collectPluginConfigEntries rg matchedPlugins serverOverrides;
          (unmatched, warnings) = collectUnmatchedOverrideEntries rg serverOverrides consumedOverrides
      in (items @ unmatched @ collectServerConfigEntries server, warnings))"

definition buildConfigScript ::
  "(string list \<Rightarrow> string list \<Rightarrow> string list) \<Rightarrow> PaperMCServer \<Rightarrow> Plugin list
     \<Rightarrow> string \<times> configMapVolumeRef list \<times> string list" where
  "buildConfigScript rg server matchedPlugins =
     (case config_items rg server matchedPlugins of
        (items, warnings) \<Rightarrow>
          let rconScript = buildRCONPropertiesScript server
          in if items = [] \<and> rconScript = [] then ([], [], [])
             else (renderConfigScript (map fst items) @ rconScript,
                   sortedConfigMapRefs (ref_map (map snd items)), warnings))"

subsection \<open>Container, volumes and ConfigMap\<close>

definition buildScriptConfigMap :: "string \<Rightarrow> string \<Rightarrow> string \<Rightarrow> string \<Rightarrow> ConfigMap" where
  "buildScriptConfigMap name namespace serverName script =
     \<lparr>cm_Meta = owned_meta name namespace (standardLabels serverName ''config''),
      cm_Data = [configScriptKey \<mapsto> script], cm_BinaryData = Map.empty\<rparr>"

definition buildConfigVolumes :: "string \<Rightarrow> configMapVolumeRef list \<Rightarrow> Volume list" where
  "buildConfigVolumes scriptCMName refs =
     \<lparr>vol_Name = gcConfigScript, vol_Source = VS_ConfigMap scriptCMName (Some 493)\<rparr>
     # map (\<lambda>ref. \<lparr>vol_Name = cv_VolumeName ref, vol_Source = VS_ConfigMap (cv_ConfigMapName ref) None\<rparr>) refs"

definition buildConfigVolumeMounts :: "configMapVolumeRef list \<Rightarrow> VolumeMount list" where
  "buildConfigVolumeMounts refs =
     [\<lparr>vm_Name = gcVolumeData, vm_MountPath = dataMountPath, vm_ReadOnly = False\<rparr>,
      \<lparr>vm_Name = gcConfigScript, vm_MountPath = configScriptPath, vm_ReadOnly = False\<rparr>]
     @ map (\<lambda>ref. \<lparr>vm_Name = cv_VolumeName ref, vm_MountPath = cv_MountPath ref, vm_ReadOnly = False\<rparr>) refs"

definition script_cm_name :: "PaperMCServer \<Rightarrow> string" where
  "script_cm_name server = sv_Name server @ ''-config-script''"

definition buildConfigInjection ::
  "(string list \<Rightarrow> string list \<Rightarrow> string list) \<Rightarrow> PaperMCServer \<Rightarrow> Plugin list
     \<Rightarrow> (Container \<times> Volume list \<times> ConfigMap) option" where
  "buildConfigInjection rg server matchedPlugins =
     (case buildConfigScript rg server matchedPlugins of
        (script, refs, _) \<Rightarrow>
          if script = [] then None
          else
            let rcon = ss_RCON (sv_Spec server);
                secret = rc_Enabled rcon \<and> sk_Name (rc_PasswordSecret rcon) \<noteq> [];
                volumes = buildConfigVolumes (script_cm_name server) refs @
                  (if secret then [\<lparr>vol_Name = gcRCONSecret, vol_Source = VS_Secret (sk_Name (rc_PasswordSecret rcon))\<rparr>]
                   else []);
                mounts = buildConfigVolumeMounts refs @
                  (if secret then [\<lparr>vm_Name = gcRCONSecret, vm_MountPath = ''/secrets/rcon'', vm_ReadOnly = True\<rparr>] else [])
            in Some
                 (\<lparr>ct_Name = ''config-injector'', ct_Image = ConfigInjectorImage,
                   ct_Command = [''sh'', configScriptPath @ ''/'' @ configScriptKey], ct_Env = [],
                   ct_VolumeMounts = mounts,
                   ct_SecurityContext = Some \<lparr>sx_AllowPrivilegeEscalation = Some False,
                     sx_ReadOnlyRootFilesystem = Some True, sx_Drop = [''ALL'']\<rparr>\<rparr>,
                  volumes, buildScriptConfigMap (script_cm_name server) (sv_Namespace server) (sv_Name server) script))"

text \<open>The references of all config files, the first of each name and key.\<close>

definition collectReferencedConfigMaps :: "PaperMCServer \<Rightarrow> Plugin list \<Rightarrow> ConfigMapKeyRef list" where
  "collectReferencedConfigMaps server matchedPlugins =
     rev (foldl (\<lambda>refs ref.
        if list_ex (\<lambda>r. ck_Name r @ ''/'' @ ck_Key r = ck_Name ref @ ''/'' @ ck_Key ref) refs then refs else ref # refs) []
       (map pcf_ConfigMapRef (concat (map (\<lambda>p. ps_Configs (pl_Spec p)) matchedPlugins)) @
        map pcf_ConfigMapRef (concat (map spc_Configs (ss_PluginConfigs (sv_Spec server)))) @
        map scf_ConfigMapRef (ss_ServerConfigs (sv_Spec server))))"

subsection \<open>Names\<close>

lemma be_bytes_small: "b \<in> set (be_bytes k n) \<Longrightarrow> b < 256"
  by (induction k n rule: be_bytes.induct) auto

lemma hex_digit_safe:
  assumes "n < 16"
  shows "safe_char (hex_digit n) \<and> hex_digit n \<noteq> CHR ''/''"
proof -
  have c: "(of_char (char_of (m :: nat)) :: nat) = m" if "m < 256" for m using that by simp
  have "of_char (hex_digit n) = (if n < 10 then 48 + n else 87 + n)" using assms c by (simp add: hex_digit_def)
  moreover from this have "hex_digit n \<noteq> CHR ''/''" by (auto split: if_splits dest: arg_cong [where f = "of_char :: char \<Rightarrow> nat"])
  ultimately show ?thesis using assms by (auto simp: safe_char_def char_class_defs split: if_splits)
qed

lemma Sum256_small: "b \<in> set (Sum256 bs) \<Longrightarrow> b < 256"
  by (auto simp: Sum256_def Let_def dest: be_bytes_small)

lemma EncodeToString_safe:
  "(\<And>b. b \<in> set bs \<Longrightarrow> b < 256) \<Longrightarrow> list_all (\<lambda>c. safe_char c \<and> c \<noteq> CHR ''/'') (EncodeToString bs)"
  by (auto simp: EncodeToString_def list_all_iff hex_digit_safe less_mult_imp_div_less)

lemma shorten_safe:
  assumes "list_all (\<lambda>c. safe_char c \<and> c \<noteq> CHR ''/'') name"
  shows "list_all (\<lambda>c. safe_char c \<and> c \<noteq> CHR ''/'') (shorten limit name)"
proof -
  have "list_all (\<lambda>c. safe_char c \<and> c \<noteq> CHR ''/'') (EncodeToString (take 4 (Sum256 (string_bytes name))))"
    by (rule EncodeToString_safe) (meson Sum256_small in_set_takeD)
  with assms show ?thesis
    by (auto simp: shorten_def list_all_iff safe_char_def dest: in_set_takeD)
qed

text \<open>
  Generated names fit. The name of an HTTPRoute has at most 253 characters and the name of a
  ConfigMap volume at most 63, as Kubernetes demands, and a name that fits is not changed; a shortened
  name keeps all but the last nine characters of the limit.
\<close>

theorem generated_names_fit:
  "length (truncateK8sName name) \<le> 253 \<and> length (configMapVolumeName cm) \<le> 63
   \<and> (if length name \<le> 253 then truncateK8sName name = name
      else take 244 (truncateK8sName name) = take 244 name \<and> length (truncateK8sName name) = 253)
   \<and> (if length cm \<le> 60 then configMapVolumeName cm = ''cm-'' @ cm
      else take 54 (configMapVolumeName cm) = take 54 (''cm-'' @ cm) \<and> length (configMapVolumeName cm) = 63)"
  by (auto simp: truncateK8sName_def configMapVolumeName_def maxK8sNameLength_def maxVolumeNameLength_def
      shorten_def min_def)

subsection \<open>Which files an admitted configuration writes\<close>

lemma dotdot_free_Cons: "dotdot_free (c # s) \<longleftrightarrow> \<not> (c = CHR ''.'' \<and> take 1 s = ''.'') \<and> dotdot_free s"
proof -
  have "(\<exists>u v. c # s = u @ ''..'' @ v) \<longleftrightarrow> (c = CHR ''.'' \<and> take 1 s = ''.'') \<or> (\<exists>u v. s = u @ ''..'' @ v)"
    by (cases s) (auto simp: Cons_eq_append_conv)
  then show ?thesis by (auto simp: dotdot_free_def)
qed

lemma dotdot_free_slash: "dotdot_free u \<Longrightarrow> dotdot_free v \<Longrightarrow> dotdot_free (u @ CHR ''/'' # v)"
proof (induction u)
  case (Cons c u)
  then show ?case by (cases u) (auto simp: dotdot_free_Cons)
qed (simp add: dotdot_free_Cons)

text \<open>A copy that shell and file system take literally, to a file under the data volume.\<close>

definition entry_confined :: "configEntry \<Rightarrow> bool" where
  "entry_confined e \<longleftrightarrow> list_all safe_char (ce_sourcePath e) \<and> list_all safe_char (ce_targetPath e)
     \<and> dotdot_free (ce_targetPath e) \<and> HasPrefix (ce_targetPath e) ''/data/''"

lemmas safe_char_eval = safe_char_def is_alnum_def is_lower_def is_upper_def is_digit_def code_def

lemma safe_name_chars: "safe_name n \<Longrightarrow> list_all safe_char n \<and> dotdot_free n"
  by (auto simp: safe_name_def list_all_iff)

lemma safe_path_chars: "safe_path p \<Longrightarrow> list_all safe_char p \<and> dotdot_free p"
  by (auto simp: safe_path_def)

lemma source_path_safe:
  assumes "safe_name (ck_Name ref)" "list_all safe_char (ck_Key ref)"
  shows "list_all safe_char (source_path ref)"
proof -
  have "list_all (\<lambda>c. safe_char c \<and> c \<noteq> CHR ''/'') (''cm-'' @ ck_Name ref)"
    using assms(1) by (simp add: safe_name_def safe_char_eval)
  from shorten_safe [OF this, of maxVolumeNameLength] have "list_all safe_char (configMapVolumeName (ck_Name ref))"
    by (simp add: configMapVolumeName_def list_all_iff)
  with assms(2) show ?thesis
    by (simp add: source_path_def configMountBase_def safe_char_eval)
qed

lemma plugin_entry_confined:
  assumes "dir = [] \<or> safe_name dir" "config_ok (pcf_ConfigMapRef cfg, pcf_Path cfg)"
  shows "entry_confined (fst (buildPluginConfigEntry dir cfg))"
proof -
  have d: "list_all safe_char dir" "dotdot_free dir" using assms(1) safe_name_chars by (auto simp: dotdot_free_def)
  have p: "list_all safe_char (pcf_Path cfg)" "dotdot_free (pcf_Path cfg)"
    using assms(2) safe_path_chars by (auto simp: config_ok_def)
  have "dotdot_free (''/data/plugins'' @ CHR ''/'' # dir @ CHR ''/'' # pcf_Path cfg)"
    by (intro dotdot_free_slash d p) (simp add: dotdot_free_Cons, simp add: dotdot_free_def)
  with d p source_path_safe [of "pcf_ConfigMapRef cfg"] assms(2) show ?thesis
    by (simp add: entry_confined_def buildPluginConfigEntry_def Let_def dataMountPath_def config_ok_def
        HasPrefix_def safe_char_eval)
qed

lemma server_entry_confined:
  assumes "configs_ok (map (\<lambda>c. (scf_ConfigMapRef c, scf_Path c)) (ss_ServerConfigs (sv_Spec server)))"
    and "(e, r) \<in> set (collectServerConfigEntries server)"
  shows "entry_confined e"
proof -
  from assms(2) obtain cfg where cfg: "cfg \<in> set (ss_ServerConfigs (sv_Spec server))"
    and e: "ce_sourcePath e = source_path (scf_ConfigMapRef cfg)" "ce_targetPath e = ''/data'' @ CHR ''/'' # scf_Path cfg"
    by (auto simp: collectServerConfigEntries_def Let_def dataMountPath_def)
  with assms(1) have ok: "config_ok (scf_ConfigMapRef cfg, scf_Path cfg)" by (auto simp: configs_ok_def list_all_iff)
  then have p: "list_all safe_char (scf_Path cfg)" "dotdot_free (scf_Path cfg)"
    using safe_path_chars by (auto simp: config_ok_def)
  have "dotdot_free (''/data'' @ CHR ''/'' # scf_Path cfg)"
    by (intro dotdot_free_slash p) (simp add: dotdot_free_Cons, simp add: dotdot_free_def)
  with p ok source_path_safe [of "scf_ConfigMapRef cfg"] show ?thesis
    unfolding entry_confined_def e
    by (simp add: config_ok_def HasPrefix_def safe_char_eval)
qed

text \<open>The files of the overrides of a plugin are files of the server's configuration for it.\<close>

definition overriding :: "PaperMCServer \<Rightarrow> string \<Rightarrow> PluginConfigFile \<Rightarrow> bool" where
  "overriding server n cfg \<longleftrightarrow> (\<exists>pc \<in> set (ss_PluginConfigs (sv_Spec server)). spc_PluginName pc = n \<and> cfg \<in> set (spc_Configs pc))"

lemma put_files_values:
  "map_of (foldl (\<lambda>files cfg. AList.update (pcf_Path cfg) cfg files) files cfgs) q = Some cfg \<Longrightarrow>
     map_of files q = Some cfg \<or> cfg \<in> set cfgs"
proof (induction cfgs arbitrary: files)
  case (Cons c cfgs)
  from Cons.IH [of "AList.update (pcf_Path c) c files"] Cons.prems show ?case
    by (auto simp: update_conv split: if_splits)
qed simp

lemma overrides_fold_values:
  assumes "\<And>ov q cfg. map_of m n = Some ov \<Longrightarrow> map_of ov q = Some cfg \<Longrightarrow> P cfg"
    and "\<And>pc cfg. pc \<in> set pcs \<Longrightarrow> spc_PluginName pc = n \<Longrightarrow> cfg \<in> set (spc_Configs pc) \<Longrightarrow> P cfg"
    and "map_of (foldl (\<lambda>m pc. AList.update (spc_PluginName pc)
          (foldl (\<lambda>files cfg. AList.update (pcf_Path cfg) cfg files)
             (case map_of m (spc_PluginName pc) of None \<Rightarrow> [] | Some files \<Rightarrow> files) (spc_Configs pc)) m) m pcs) n = Some ov"
    and "map_of ov q = Some cfg"
  shows "P cfg"
  using assms
proof (induction pcs arbitrary: m)
  case (Cons pc pcs)
  let ?m = "AList.update (spc_PluginName pc) (foldl (\<lambda>files cfg. AList.update (pcf_Path cfg) cfg files)
     (case map_of m (spc_PluginName pc) of None \<Rightarrow> [] | Some files \<Rightarrow> files) (spc_Configs pc)) m"
  show ?case
  proof (rule Cons.IH [of ?m])
    fix ov' q' cfg' assume *: "map_of ?m n = Some ov'" "map_of ov' q' = Some cfg'"
    show "P cfg'"
    proof (cases "n = spc_PluginName pc")
      case True
      with * put_files_values [of "case map_of m (spc_PluginName pc) of None \<Rightarrow> [] | Some files \<Rightarrow> files" "spc_Configs pc" q' cfg']
      have "(\<exists>files. map_of m n = Some files \<and> map_of files q' = Some cfg') \<or> cfg' \<in> set (spc_Configs pc)"
        by (auto simp: update_conv split: option.splits)
      with Cons.prems(1) Cons.prems(2) [of pc cfg'] True show ?thesis by auto
    next
      case False
      with * have "map_of m n = Some ov'" by (simp add: update_conv)
      with Cons.prems(1) * show ?thesis by blast
    qed
  next
    show "P cfg" if "pc \<in> set pcs" "spc_PluginName pc = n" "cfg \<in> set (spc_Configs pc)" for pc cfg
      using Cons.prems(2) [OF _ that(2,3)] that(1) by simp
  qed (use Cons.prems(3,4) in simp_all)
qed simp

lemma override_values:
  assumes "map_of (buildServerOverridesMap server) n = Some ov" "map_of ov q = Some cfg"
  shows "overriding server n cfg"
  by (rule overrides_fold_values [OF _ _ assms(1) [unfolded buildServerOverridesMap_def] assms(2)])
    (auto simp: overriding_def)

lemma range_values_override:
  assumes "map_of (buildServerOverridesMap server) n = Some ov" "cfg \<in> set (range_values ord ov)"
  shows "overriding server n cfg"
  using assms(2) override_values [OF assms(1)] by (auto simp: range_values_def map_filter_def)

lemma plugin_items_origin:
  assumes "i \<in> set (plugin_config_items rg (buildServerOverridesMap server) p)"
  shows "\<exists>cfg. i = buildPluginConfigEntry (resolvePluginDirName p) cfg
    \<and> (cfg \<in> set (ps_Configs (pl_Spec p)) \<or> overriding server (pl_Name p) cfg)"
proof (cases "resolvePluginDirName p = [] \<or> ps_Configs (pl_Spec p) = []")
  case True
  with assms obtain ov cfg where "map_of (buildServerOverridesMap server) (pl_Name p) = Some ov"
    "cfg \<in> set (range_values (rg [''collectPluginConfigEntries'', pl_Name p]) ov)"
    "i = buildPluginConfigEntry (resolvePluginDirName p) cfg"
    by (cases "map_of (buildServerOverridesMap server) (pl_Name p)") (auto simp: plugin_config_items_def Let_def)
  with range_values_override show ?thesis by blast
next
  case False
  with assms have "i \<in> set (resolvePluginConfigs rg p (resolvePluginDirName p) (buildServerOverridesMap server))"
    by (simp add: plugin_config_items_def Let_def)
  then show ?thesis using override_values [of server "pl_Name p"]
    by (cases "map_of (buildServerOverridesMap server) (pl_Name p)")
      (auto simp: resolvePluginConfigs_def Let_def split: option.splits)
qed

lemma unmatched_items_origin:
  assumes "i \<in> set (fst (collectUnmatchedOverrideEntries rg (buildServerOverridesMap server) consumed))"
  shows "\<exists>n cfg. i = buildPluginConfigEntry n cfg \<and> overriding server n cfg"
proof -
  from assms obtain n ov cfg where "map_of (buildServerOverridesMap server) n = Some ov"
    "cfg \<in> set (range_values (rg [''collectUnmatchedOverrideEntries'', n]) ov)" "i = buildPluginConfigEntry n cfg"
    by (auto simp: collectUnmatchedOverrideEntries_def Let_def)
  with range_values_override show ?thesis by blast
qed

lemma config_items_origin:
  assumes "i \<in> set (fst (config_items rg server plugins))"
  shows "(\<exists>p \<in> set plugins. \<exists>cfg. i = buildPluginConfigEntry (resolvePluginDirName p) cfg
            \<and> (cfg \<in> set (ps_Configs (pl_Spec p)) \<or> overriding server (pl_Name p) cfg))
       \<or> (\<exists>n cfg. i = buildPluginConfigEntry n cfg \<and> overriding server n cfg)
       \<or> i \<in> set (collectServerConfigEntries server)"
proof -
  from assms consider (p) p where "p \<in> set plugins" "i \<in> set (plugin_config_items rg (buildServerOverridesMap server) p)"
    | (u) "i \<in> set (fst (collectUnmatchedOverrideEntries rg (buildServerOverridesMap server)
             (snd (collectPluginConfigEntries rg plugins (buildServerOverridesMap server)))))"
    | (s) "i \<in> set (collectServerConfigEntries server)"
    by (auto simp: config_items_def collectPluginConfigEntries_def Let_def case_prod_beta)
  then show ?thesis using plugin_items_origin unmatched_items_origin by cases blast+
qed

lemma overriding_ok:
  assumes "server_ok cronParse server" "overriding server n cfg"
  shows "safe_name n \<and> config_ok (pcf_ConfigMapRef cfg, pcf_Path cfg)"
proof -
  from assms(1) have "list_all plugin_config_ok (ss_PluginConfigs (sv_Spec server))" by (simp add: server_ok_def Let_def)
  with assms(2) show ?thesis by (auto simp: overriding_def plugin_config_ok_def configs_ok_def list_all_iff)
qed

definition dir_checked :: "Plugin \<Rightarrow> bool" where
  "dir_checked p \<longleftrightarrow> ps_Configs (pl_Spec p) \<noteq> [] \<or> ps_PluginDirName (pl_Spec p) = [] \<or> safe_name (ps_PluginDirName (pl_Spec p))"

lemma dir_name_safe:
  assumes "plugin_ok p" "dir_checked p"
  shows "resolvePluginDirName p = [] \<or> safe_name (resolvePluginDirName p)"
  using assms by (auto simp: plugin_ok_def source_ok_def dir_checked_def resolvePluginDirName_def)

text \<open>
  C16. What the injection script of an admitted configuration copies. When the webhooks admitted the
  server and its matched plugins, and no plugin without config files of its own has an unsafe
  \<^verbatim>\<open>pluginDirName\<close>, every copy of the script names its files by characters that the shell takes
  literally, and writes below \<^verbatim>\<open>/data/\<close> without a parent reference; in whatever order the maps are visited.
\<close>

theorem injected_files_confined:
  assumes "snd (PaperMCServerValidator_validate cronParse server) = None"
    and "\<And>p. p \<in> set plugins \<Longrightarrow> snd (PluginValidator_validate p) = None \<and> dir_checked p"
    and "(e, ref) \<in> set (fst (config_items rg server plugins))"
  shows "entry_confined e"
proof -
  from assms(1) have ok: "server_ok cronParse server" by (simp add: server_validate_iff)
  from config_items_origin [OF assms(3)] consider
      (plugin) p cfg where "p \<in> set plugins" "(e, ref) = buildPluginConfigEntry (resolvePluginDirName p) cfg"
        "cfg \<in> set (ps_Configs (pl_Spec p)) \<or> overriding server (pl_Name p) cfg"
    | (override) n cfg where "(e, ref) = buildPluginConfigEntry n cfg" "overriding server n cfg"
    | (server) "(e, ref) \<in> set (collectServerConfigEntries server)" by blast
  then show ?thesis
  proof cases
    case plugin
    from assms(2) [OF plugin(1)] have pok: "plugin_ok p" "dir_checked p" by (simp_all add: plugin_validate_iff)
    from plugin(3) pok(1) overriding_ok [OF ok] have "config_ok (pcf_ConfigMapRef cfg, pcf_Path cfg)"
      by (auto simp: plugin_ok_def configs_ok_def list_all_iff)
    from plugin_entry_confined [OF dir_name_safe [OF pok] this] show ?thesis by (simp flip: plugin(2))
  next
    case override
    from overriding_ok [OF ok override(2)] plugin_entry_confined [of n cfg] show ?thesis by (simp flip: override(1))
  next
    case server
    with ok server_entry_confined show ?thesis by (auto simp: server_ok_def Let_def)
  qed
qed

definition demo_core_file :: PluginConfigFile where
  "demo_core_file = \<lparr>pcf_ConfigMapRef = \<lparr>ck_Name = ''defaults'', ck_Key = ''core''\<rparr>, pcf_Path = ''core.conf'', pcf_Overwrite = []\<rparr>"

definition demo_config_server :: PaperMCServer where
  "demo_config_server = zero_server\<lparr>sv_Spec := zero_server_spec\<lparr>ss_UpdateStrategy := ''latest'',
     ss_PluginConfigs := [\<lparr>spc_PluginName = ''map'', spc_Configs = [demo_core_file]\<rparr>]\<rparr>\<rparr>"

definition demo_config_plugin :: "string \<Rightarrow> Plugin" where
  "demo_config_plugin dir = zero_plugin\<lparr>pl_Meta := zero_meta\<lparr>m_Name := ''map''\<rparr>,
     pl_Spec := zero_plugin_spec\<lparr>ps_Source := \<lparr>src_Type = ''hangar'', src_Project = ''bluemap'', src_URL = [], src_Checksum = []\<rparr>,
       ps_UpdateStrategy := ''latest'', ps_PluginDirName := dir\<rparr>\<rparr>"

lemmas demo_config = demo_core_file_def demo_config_server_def demo_config_plugin_def zero_defs

lemma demo_core_ok: "config_ok (pcf_ConfigMapRef demo_core_file, pcf_Path demo_core_file)" "safe_name ''map''" "safe_name ''bluemap''"
  by (simp_all add: demo_core_file_def config_ok_def safe_path_def safe_name_def dotdot_free_Cons safe_char_eval)
    (simp_all add: dotdot_free_def)

lemma demo_config_admitted:
  "snd (PaperMCServerValidator_validate (\<lambda>_. Inr ()) demo_config_server) = None"
  "snd (PluginValidator_validate (demo_config_plugin dir)) = None"
  unfolding server_validate_iff plugin_validate_iff using demo_core_ok
  by (simp_all add: server_ok_def plugin_ok_def source_ok_def strategy_ok_def plugin_config_ok_def configs_ok_def demo_config)

lemma demo_config_items:
  "fst (config_items (\<lambda>_ ks. ks) demo_config_server [demo_config_plugin dir]) =
     [buildPluginConfigEntry (if dir = [] then ''bluemap'' else dir) demo_core_file]"
  by (simp add: config_items_def buildServerOverridesMap_def collectPluginConfigEntries_def plugin_config_items_def
      collectUnmatchedOverrideEntries_def collectServerConfigEntries_def resolvePluginDirName_def range_values_def
      map_filter_simps Let_def demo_config)

theorem injected_files_confined_witness:
  "list_all (\<lambda>(e, r). entry_confined e) (fst (config_items (\<lambda>_ ks. ks) demo_config_server [demo_config_plugin ''BlueMap'']))"
proof -
  have d: "dir_checked (demo_config_plugin ''BlueMap'')"
    by (simp add: dir_checked_def demo_config safe_name_def safe_char_eval dotdot_free_Cons) (simp add: dotdot_free_def)
  have "entry_confined (fst i)" if "i \<in> set (fst (config_items (\<lambda>_ ks. ks) demo_config_server [demo_config_plugin ''BlueMap'']))" for i
    using injected_files_confined [OF demo_config_admitted(1), of "[demo_config_plugin ''BlueMap'']" "fst i" "snd i"]
      demo_config_admitted(2) d that by simp
  then show ?thesis by (auto simp: list_all_iff)
qed

lemma render_entry_cp:
  assumes "ce_overwrite e \<noteq> gcOverwriteIfNotExists"
  shows "\<exists>u. render_entry e = u @ (''cp '' @ ce_sourcePath e @ '' '' @ ce_targetPath e) @ [CHR 0x0A]"
  unfolding render_entry_def Let_def if_not_P [OF assms] append_assoc [symmetric] by (rule exI) (rule refl)

text \<open>
  The exception is real: a plugin without config files of its own may carry any \<^verbatim>\<open>pluginDirName\<close>,
  the webhook admits it, and a server that overrides a config file of this plugin gets the name
  in its script, here a second command that runs on every start of the server.
\<close>

theorem plugin_dir_name_injects:
  "snd (PluginValidator_validate (demo_config_plugin ''x; rm -rf /data; echo '')) = None
   \<and> snd (PaperMCServerValidator_validate (\<lambda>_. Inr ()) demo_config_server) = None
   \<and> Contains (fst (buildConfigScript (\<lambda>_ ks. ks) demo_config_server [demo_config_plugin ''x; rm -rf /data; echo '']))
       ''cp /configs/cm-defaults/core /data/plugins/x; rm -rf /data; echo /core.conf''"
proof -
  let ?dir = "''x; rm -rf /data; echo ''"
  obtain e where e: "buildPluginConfigEntry ?dir demo_core_file = (e, volume_ref ''defaults'')"
    and cp: "ce_sourcePath e = ''/configs/cm-defaults/core''" "ce_targetPath e = ''/data/plugins/x; rm -rf /data; echo /core.conf''"
      "ce_overwrite e = ''always''"
    by (simp add: buildPluginConfigEntry_def demo_core_file_def source_path_def dataMountPath_def configMountBase_def
        overwrite_or_always_def gcOverwriteAlways_def configMapVolumeName_def shorten_def maxVolumeNameLength_def Let_def)
  obtain u where "render_entry e = u @ (''cp '' @ ce_sourcePath e @ '' '' @ ce_targetPath e) @ [CHR 0x0A]"
    using render_entry_cp [of e] cp(3) by (auto simp: gcOverwriteIfNotExists_def)
  moreover have "fst (buildConfigScript (\<lambda>_ ks. ks) demo_config_server [demo_config_plugin ?dir])
      = renderConfigScript [e] @ buildRCONPropertiesScript demo_config_server"
    using demo_config_items [of ?dir] e by (auto simp: buildConfigScript_def Let_def split: prod.split)
  ultimately have "\<exists>u v. fst (buildConfigScript (\<lambda>_ ks. ks) demo_config_server [demo_config_plugin ?dir])
      = u @ (''cp '' @ ce_sourcePath e @ '' '' @ ce_targetPath e) @ v"
    unfolding renderConfigScript_def list.map concat.simps append_Nil2 by (metis append.assoc)
  then show ?thesis using demo_config_admitted unfolding Contains_iff cp by simp
qed

definition demo_two_files_server :: PaperMCServer where
  "demo_two_files_server = zero_server\<lparr>sv_Spec := zero_server_spec\<lparr>ss_PluginConfigs :=
     [\<lparr>spc_PluginName = ''map'', spc_Configs = [demo_core_file\<lparr>pcf_Path := ''a''\<rparr>, demo_core_file\<lparr>pcf_Path := ''b''\<rparr>]\<rparr>]\<rparr>\<rparr>"

text \<open>
  The script is not a function of the configuration: with two overriding files for one plugin,
  the order in which the run-time visits a Go map decides the order of the copies, so two
  reconciliations of an unchanged server can render different scripts (and then the ConfigMap is
  updated although nothing changed).
\<close>

theorem config_script_order_dependent:
  "fst (buildConfigScript (\<lambda>_ ks. ks) demo_two_files_server [demo_config_plugin ''m''])
   \<noteq> fst (buildConfigScript (\<lambda>_ ks. rev ks) demo_two_files_server [demo_config_plugin ''m''])"
  by (simp add: buildConfigScript_def config_items_def buildServerOverridesMap_def collectPluginConfigEntries_def plugin_config_items_def
      collectUnmatchedOverrideEntries_def collectServerConfigEntries_def resolvePluginDirName_def range_values_def
      map_filter_simps Let_def demo_config demo_two_files_server_def renderConfigScript_def render_entry_def buildRCONPropertiesScript_def
      buildPluginConfigEntry_def overwrite_or_always_def gcOverwriteAlways_def gcOverwriteIfNotExists_def)

end
