(* ===== verification/Selector.thy ===== *)
theory Selector
  imports ServerEffects
begin

section \<open>Matching plugins and servers (\<^verbatim>\<open>pkg/selector/matcher.go\<close>)\<close>

text \<open>
  A selector is compiled by \<^verbatim>\<open>metav1.LabelSelectorAsSelector\<close> (the field \<open>k_LabelSelectorAsSelector\<close>) to a
  predicate on labels, or rejected. The last lemma connects the two directions of the relation.
\<close>

definition MatchesSelector :: "('w, 'sched) sext \<Rightarrow> (string \<rightharpoonup> string) \<Rightarrow> LabelSelector \<Rightarrow> bool result" where
  "MatchesSelector x labelSet selector =
     (case k_LabelSelectorAsSelector x selector of
        Inl err \<Rightarrow> Inl (Wrap err ''failed to convert label selector'')
      | Inr s \<Rightarrow> Inr (s labelSet))"

definition FindMatchingServers ::
  "('w, 'sched) sext \<Rightarrow> string \<Rightarrow> LabelSelector \<Rightarrow> ('w, PaperMCServer list result) op" where
  "FindMatchingServers x namespace selector = do {
     l \<leftarrow> list_servers x namespace;
     State_Monad.return
       (case l of
          Inl err \<Rightarrow> Inl (Wrap err ''failed to list PaperMCServer resources'')
        | Inr servers \<Rightarrow>
            (case k_LabelSelectorAsSelector x selector of
               Inl err \<Rightarrow> Inl (Wrap err ''failed to convert label selector'')
             | Inr s \<Rightarrow> Inr (filter (\<lambda>server. s (sv_Labels server)) servers)))
   }"

fun matching_plugins_loop ::
  "('w, 'sched) sext \<Rightarrow> (string \<rightharpoonup> string) \<Rightarrow> Plugin list \<Rightarrow> Plugin list result" where
  "matching_plugins_loop x serverLabels [] = Inr []"
| "matching_plugins_loop x serverLabels (plugin # ps) =
     (case k_LabelSelectorAsSelector x (ps_InstanceSelector (pl_Spec plugin)) of
        Inl err \<Rightarrow> Inl (Wrapf err ''plugin %s/%s has invalid instanceSelector''
                           [AStr (pl_Namespace plugin), AStr (pl_Name plugin)])
      | Inr s \<Rightarrow>
          (case matching_plugins_loop x serverLabels ps of
             Inl err \<Rightarrow> Inl err
           | Inr rest \<Rightarrow> Inr (if s serverLabels then plugin # rest else rest)))"

definition FindMatchingPlugins ::
  "('w, 'sched) sext \<Rightarrow> string \<Rightarrow> (string \<rightharpoonup> string) \<Rightarrow> ('w, Plugin list result) op" where
  "FindMatchingPlugins x namespace serverLabels = do {
     l \<leftarrow> list_plugins (base x) namespace;
     State_Monad.return
       (case l of
          Inl err \<Rightarrow> Inl (Wrap err ''failed to list Plugin resources'')
        | Inr plugins \<Rightarrow> matching_plugins_loop x serverLabels plugins)
   }"

definition selects :: "('w, 'sched) sext \<Rightarrow> Plugin \<Rightarrow> PaperMCServer \<Rightarrow> bool" where
  "selects x plugin server \<longleftrightarrow>
     (\<exists>s. k_LabelSelectorAsSelector x (ps_InstanceSelector (pl_Spec plugin)) = Inr s \<and> s (sv_Labels server))"

lemma MatchesSelector_selects:
  "MatchesSelector x (sv_Labels server) (ps_InstanceSelector (pl_Spec plugin)) = Inr True \<longleftrightarrow> selects x plugin server"
  by (auto simp: MatchesSelector_def selects_def split: sum.splits)

lemma matching_plugins_filter:
  "matching_plugins_loop x (sv_Labels server) ps = Inr qs \<Longrightarrow> qs = filter (\<lambda>p. selects x p server) ps"
  by (induction ps arbitrary: qs) (auto simp: selects_def split: sum.splits if_splits)

lemma FindMatchingServers_emits:
  "emits (FindMatchingServers x ns (ps_InstanceSelector (pl_Spec plugin)))
     (\<lambda>r u. \<exists>l. u = [E_ListServers ns l] \<and>
        (\<forall>servers. r = Inr servers \<longrightarrow> (\<exists>all. l = Inr all \<and> servers = filter (selects x plugin) all)))"
  unfolding FindMatchingServers_def server_call_ops
  by (intro tr_rules) (auto simp: selects_def intro!: filter_cong split: sum.split)

lemma FindMatchingPlugins_emits:
  "emits (FindMatchingPlugins x ns (sv_Labels server))
     (\<lambda>r u. \<exists>l. u = [E_ListPlugins ns l] \<and>
        (\<forall>plugins. r = Inr plugins \<longrightarrow> (\<exists>all. l = Inr all \<and> plugins = filter (\<lambda>p. selects x p server) all)))"
  unfolding FindMatchingPlugins_def call_ops
  by (intro tr_rules) (auto dest: matching_plugins_filter split: sum.splits)

end
