(* ===== verification/ServerController.thy ===== *)
theory ServerController
  imports ConfigInjector Selector
begin

section \<open>The PaperMCServer controller\<close>

text \<open>
  \<^verbatim>\<open>internal/controller/papermcserver_controller.go\<close>, the part that acts: the StatefulSet, the Service and
  the script ConfigMap of a server, the update of its status, and the reconciliation as a whole. A
  method that changes the server it is given returns the changed server beside its result. The
  decisions about versions are in \<open>VersionResolution\<close>, the routes in \<open>GatewayRoutes\<close>, the network policy in
  \<open>NetworkPolicies\<close> and the injected files in \<open>ConfigInjector\<close>.
\<close>

subsection \<open>Constants\<close>

definition conditionTypeServerReady :: string where "conditionTypeServerReady = ''Ready''"
definition conditionTypeStatefulSetReady :: string where "conditionTypeStatefulSetReady = ''StatefulSetReady''"
definition conditionTypeUpdateAvailable :: string where "conditionTypeUpdateAvailable = ''UpdateAvailable''"
definition conditionTypeConfigInjectionReady :: string where
  "conditionTypeConfigInjectionReady = ''ConfigInjectionReady''"
definition reasonServerReconcileSuccess :: string where "reasonServerReconcileSuccess = ''ReconcileSuccess''"
definition reasonServerReconcileError :: string where "reasonServerReconcileError = ''ReconcileError''"
definition reasonStatefulSetCreated :: string where "reasonStatefulSetCreated = ''StatefulSetCreated''"
definition reasonStatefulSetNotReady :: string where "reasonStatefulSetNotReady = ''StatefulSetNotReady''"
definition reasonStatefulSetReady :: string where "reasonStatefulSetReady = ''StatefulSetReady''"
definition reasonUpdateFound :: string where "reasonUpdateFound = ''UpdateFound''"
definition reasonNoUpdate :: string where "reasonNoUpdate = ''NoUpdate''"
definition defaultStorageSize :: string where "defaultStorageSize = ''10Gi''"
definition defaultTerminationGracePeriod :: int where "defaultTerminationGracePeriod = 300"
definition gcPortNameMinecraft :: string where "gcPortNameMinecraft = ''minecraft''"
definition gcRCON :: string where "gcRCON = ''rcon''"

subsection \<open>The pod\<close>

text \<open>The first variable of the name gets the value, in place; without one the variable is appended.\<close>

fun addOrUpdateEnv :: "EnvVar list \<Rightarrow> string \<Rightarrow> string \<Rightarrow> EnvVar list" where
  "addOrUpdateEnv [] name value = [\<lparr>ev_Name = name, ev_Value = value, ev_SecretKeyRef = None\<rparr>]"
| "addOrUpdateEnv (e # env) name value =
     (if ev_Name e = name then e\<lparr>ev_Value := value\<rparr> # env else e # addOrUpdateEnv env name value)"

definition buildEnvironmentVariables :: "PaperMCServer \<Rightarrow> EnvVar list \<Rightarrow> EnvVar list" where
  "buildEnvironmentVariables server existingEnv =
     (let spec = sv_Spec server; rcon = ss_RCON spec;
          env1 = addOrUpdateEnv existingEnv ''EULA'' ''TRUE'';
          env2 = (if ss_Version spec \<noteq> [] \<and> ss_Version spec \<noteq> versionPolicyLatest
                  then addOrUpdateEnv env1 ''PAPER_VERSION'' (ss_Version spec) else env1);
          env3 = (case ss_Build spec of None \<Rightarrow> env2 | Some b \<Rightarrow> addOrUpdateEnv env2 ''PAPER_BUILD'' (itoa b))
      in if rc_Enabled rcon
         then addOrUpdateEnv env3 ''RCON_PORT'' (itoa (rc_Port rcon)) @
              [\<lparr>ev_Name = ''RCON_PASSWORD'', ev_Value = [],
                ev_SecretKeyRef = Some (sk_Name (rc_PasswordSecret rcon), sk_Key (rc_PasswordSecret rcon))\<rparr>]
         else env3)"

text \<open>
  \<^verbatim>\<open>int64(d.Seconds())\<close> of a positive duration: whole seconds (the detour over a float is exact below
  \<^verbatim>\<open>2^22\<close> seconds).
\<close>

definition grace_period :: "PaperMCServer \<Rightarrow> int" where
  "grace_period server =
     (let timeout = gs_Timeout (ss_GracefulShutdown (sv_Spec server))
      in if timeout > 0 then timeout div Second else defaultTerminationGracePeriod)"

definition empty_container :: "string \<Rightarrow> Container" where
  "empty_container name = \<lparr>ct_Name = name, ct_Image = [], ct_Command = [], ct_Env = [], ct_VolumeMounts = [],
     ct_SecurityContext = None\<rparr>"

definition buildPodSpec ::
  "(string list \<Rightarrow> string list \<Rightarrow> string list) \<Rightarrow> PaperMCServer \<Rightarrow> Plugin list \<Rightarrow> PodSpec result" where
  "buildPodSpec rg server matchedPlugins =
     (let podSpec = pt_Spec (ss_PodTemplate (sv_Spec server)); st = sv_Status server;
          containers = (case pod_Containers podSpec of [] \<Rightarrow> [empty_container containerNamePaperMC] | c # cs \<Rightarrow> c # cs);
          container = hd containers
      in if st_DesiredVersion st = [] \<or> st_DesiredBuild st = 0
         then Inl (Newf ''BUG: buildPodSpec called without DesiredVersion/DesiredBuild set (version=%s, build=%d)''
                     [AStr (st_DesiredVersion st), AInt (st_DesiredBuild st)])
         else
           let container' = container
                 \<lparr>ct_Image := paper_image (image_tag (st_DesiredVersion st) (st_DesiredBuild st)),
                  ct_Env := buildEnvironmentVariables server (ct_Env container),
                  ct_VolumeMounts := ct_VolumeMounts container @
                    [\<lparr>vm_Name = gcVolumeData, vm_MountPath = ''/data'', vm_ReadOnly = False\<rparr>]\<rparr>;
               podSpec' = podSpec\<lparr>pod_Containers := container' # tl containers,
                                  pod_TerminationGracePeriodSeconds := Some (grace_period server)\<rparr>
           in Inr (case buildConfigInjection rg server matchedPlugins of
                     None \<Rightarrow> podSpec'
                   | Some (initContainer, configVolumes, _) \<Rightarrow>
                       podSpec'\<lparr>pod_InitContainers := initContainer # pod_InitContainers podSpec',
                                pod_Volumes := pod_Volumes podSpec' @ configVolumes\<rparr>))"

definition buildSelector :: "PaperMCServer \<Rightarrow> (string \<times> string) list" where
  "buildSelector server = [(gcLabelApp, containerNamePaperMC), (gcLabelServerName, sv_Name server)]"

definition buildPodTemplate :: "PaperMCServer \<Rightarrow> PodSpec \<Rightarrow> PodTemplateSpec" where
  "buildPodTemplate server podSpec =
     \<lparr>pt_Labels = (pt_Labels (ss_PodTemplate (sv_Spec server)) ++ standardLabels (sv_Name server) ''server'')
        (gcLabelApp \<mapsto> containerNamePaperMC, gcLabelServerName \<mapsto> sv_Name server),
      pt_Annotations = pt_Annotations (ss_PodTemplate (sv_Spec server)),
      pt_Spec = podSpec\<rparr>"

definition buildVolumeClaimTemplates :: "PersistentVolumeClaim list" where
  "buildVolumeClaimTemplates =
     [\<lparr>pvc_Name = gcVolumeData, pvc_AccessModes = [''ReadWriteOnce''], pvc_Storage = defaultStorageSize\<rparr>]"

definition buildStatefulSet ::
  "(string list \<Rightarrow> string list \<Rightarrow> string list) \<Rightarrow> PaperMCServer \<Rightarrow> Plugin list \<Rightarrow> StatefulSet result" where
  "buildStatefulSet rg server matchedPlugins =
     (case buildPodSpec rg server matchedPlugins of
        Inl err \<Rightarrow> Inl (Wrap err ''failed to build pod spec'')
      | Inr podSpec \<Rightarrow>
          Inr \<lparr>sts_Meta = owned_meta (sv_Name server) (sv_Namespace server)
                 (sv_Labels server ++ standardLabels (sv_Name server) ''server''),
               sts_Replicas = Some 1, sts_ServiceName = sv_Name server, sts_Selector = buildSelector server,
               sts_Template = buildPodTemplate server podSpec,
               sts_VolumeClaimTemplates = buildVolumeClaimTemplates,
               sts_StatusReplicas = 0, sts_ReadyReplicas = 0,
               sts_CurrentRevision = [], sts_UpdateRevision = []\<rparr>)"

subsection \<open>The StatefulSet\<close>

definition isOperatorManagedVolume :: "string \<Rightarrow> bool" where
  "isOperatorManagedVolume name = (name = gcVolumeData \<or> name = gcConfigScript \<or> HasPrefix name ''cm-'')"

text \<open>The desired volumes by name, the last of a name; the first existing volume of a name counts.\<close>

definition desired_volumes :: "Volume list \<Rightarrow> string \<rightharpoonup> Volume" where
  "desired_volumes vs = map_of (rev (map (\<lambda>v. (vol_Name v, v)) vs))"

definition volumesChanged :: "Volume list \<Rightarrow> Volume list \<Rightarrow> bool" where
  "volumesChanged existing desired =
     (list_ex (\<lambda>name. find (\<lambda>ev. vol_Name ev = name) existing \<noteq> desired_volumes desired name) (map vol_Name desired)
      \<or> list_ex (\<lambda>ev. isOperatorManagedVolume (vol_Name ev) \<and> desired_volumes desired (vol_Name ev) = None) existing)"

text \<open>
  The first container of the existing StatefulSet is read without a check of the length: on an empty
  list the run-time panics, which the controller run-time turns into an error.
\<close>

definition template_changed :: "StatefulSet \<Rightarrow> StatefulSet \<Rightarrow> bool result" where
  "template_changed existing desired =
     (let e = pt_Spec (sts_Template existing); d = pt_Spec (sts_Template desired)
      in if pod_InitContainers e \<noteq> pod_InitContainers d then Inr True
         else if volumesChanged (pod_Volumes e) (pod_Volumes d) then Inr True
         else case (pod_Containers e, pod_Containers d) of
                (ec # _, dc # _) \<Rightarrow> Inr (ct_Image ec \<noteq> ct_Image dc)
              | _ \<Rightarrow> Inl (New ''panic: index out of range [0] with length 0''))"

definition ensureStatefulSet ::
  "('w, 'sched) sext \<Rightarrow> PaperMCServer \<Rightarrow> Plugin list \<Rightarrow> ('w, StatefulSet result \<times> PaperMCServer) op" where
  "ensureStatefulSet x server matchedPlugins = do {
     g \<leftarrow> api_get K_StatefulSet (x_statefulSets x) (sv_Namespace server) (sv_Name server);
     let built = buildStatefulSet (\<lambda>site. k_range x (''ensureStatefulSet'' # site)) server matchedPlugins in
     case g of
       Inr statefulSet \<Rightarrow>
         (case built of
            Inl err \<Rightarrow> State_Monad.return (Inl (Wrap err ''failed to build desired statefulset for comparison''), server)
          | Inr desired \<Rightarrow>
              (case template_changed statefulSet desired of
                 Inl err \<Rightarrow> State_Monad.return (Inl err, server)
               | Inr False \<Rightarrow> State_Monad.return (Inr statefulSet, server)
               | Inr True \<Rightarrow> do {
                   u \<leftarrow> api_update O_StatefulSet (x_statefulSets x) (statefulSet\<lparr>sts_Template := sts_Template desired\<rparr>);
                   State_Monad.return
                     (case u of
                        Inl err \<Rightarrow> (Inl (Wrap err ''failed to update statefulset''), server)
                      | Inr updated \<Rightarrow> (Inr updated, server))
                 }))
     | Inl err \<Rightarrow>
         if \<not> IsNotFound err then State_Monad.return (Inl (Wrap err ''failed to get statefulset''), server)
         else (case built of
                 Inl e \<Rightarrow> State_Monad.return (Inl (Wrap e ''failed to build statefulset''), server)
               | Inr new \<Rightarrow>
                   (case k_SetControllerReference x server (m_OwnerReferences (sts_Meta new)) of
                      Inl e \<Rightarrow> State_Monad.return (Inl (Wrap e ''failed to set owner reference''), server)
                    | Inr refs \<Rightarrow> do {
                        c \<leftarrow> api_create O_StatefulSet (x_statefulSets x)
                              (new\<lparr>sts_Meta := (sts_Meta new)\<lparr>m_OwnerReferences := refs\<rparr>\<rparr>);
                        case c of
                          Inl e \<Rightarrow> State_Monad.return (Inl (Wrap e ''failed to create statefulset''), server)
                        | Inr created \<Rightarrow> do {
                            server' \<leftarrow> setCondition x server conditionTypeStatefulSetReady ConditionFalse
                              reasonStatefulSetCreated ''StatefulSet created, waiting for ready'';
                            State_Monad.return (Inr created, server')
                          }
                      }))
   }"

subsection \<open>The Service\<close>

definition service_port :: "string \<Rightarrow> int \<Rightarrow> string \<Rightarrow> ServicePort" where
  "service_port name port proto =
     \<lparr>svp_Name = name, svp_Port = port, svp_TargetPort = port, svp_Protocol = proto\<rparr>"

definition endpoint_port_name :: "int \<Rightarrow> string \<Rightarrow> string" where
  "endpoint_port_name port proto = ''ep-'' @ itoa port @ ''-'' @ ToLower (take 3 proto)"

fun endpoint_ports_loop :: "(int \<times> string) set \<Rightarrow> PluginEndpoint list \<Rightarrow> ServicePort list" where
  "endpoint_ports_loop seen [] = []"
| "endpoint_ports_loop seen (ep # eps) =
     (let proto = endpoint_proto ep; key = (ep_Port ep, proto)
      in if key \<in> seen then endpoint_ports_loop seen eps
         else service_port (endpoint_port_name (ep_Port ep) proto) (ep_Port ep) proto
              # endpoint_ports_loop (insert key seen) eps)"

definition buildServicePorts :: "PaperMCServer \<Rightarrow> Plugin list \<Rightarrow> ServicePort list" where
  "buildServicePorts server matchedPlugins =
     (let rcon = ss_RCON (sv_Spec server)
      in service_port gcPortNameMinecraft 25565 ProtocolTCP
         # (if rc_Enabled rcon then [service_port gcRCON (rc_Port rcon) ProtocolTCP] else [])
         @ endpoint_ports_loop
             (insert (25565, ProtocolTCP) (if rc_Enabled rcon then {(rc_Port rcon, ProtocolTCP)} else {}))
             (plugin_endpoints matchedPlugins))"

definition buildService :: "PaperMCServer \<Rightarrow> Plugin list \<Rightarrow> Service" where
  "buildService server matchedPlugins =
     (let cfg = ss_Service (sv_Spec server)
      in \<lparr>svc_Meta = (owned_meta (sv_Name server) (sv_Namespace server) (standardLabels (sv_Name server) ''service''))
            \<lparr>m_Annotations := sc_Annotations cfg\<rparr>,
          svc_Spec =
            \<lparr>svs_Type = (if sc_Type cfg \<noteq> [] then sc_Type cfg else ''LoadBalancer''),
             svs_Ports = buildServicePorts server matchedPlugins,
             svs_Selector = server_selector server,
             svs_LoadBalancerIP = sc_LoadBalancerIP cfg,
             svs_ClusterIP = [], svs_ClusterIPs = []\<rparr>\<rparr>)"

definition svc_ops :: "(Service, ServiceSpec \<times> (string \<rightharpoonup> string)) object_ops" where
  "svc_ops =
     \<lparr>oo_key = (\<lambda>s. (m_Namespace (svc_Meta s), m_Name (svc_Meta s))),
      oo_owners = (\<lambda>s. m_OwnerReferences (svc_Meta s)),
      oo_set_owners = (\<lambda>r s. s\<lparr>svc_Meta := (svc_Meta s)\<lparr>m_OwnerReferences := r\<rparr>\<rparr>),
      oo_labels = (\<lambda>s. m_Labels (svc_Meta s)),
      oo_set_labels = (\<lambda>l s. s\<lparr>svc_Meta := (svc_Meta s)\<lparr>m_Labels := l\<rparr>\<rparr>),
      oo_spec = (\<lambda>s. (svc_Spec s, m_Annotations (svc_Meta s))),
      oo_set_spec = (\<lambda>(sp, an) s. s\<lparr>svc_Spec := sp, svc_Meta := (svc_Meta s)\<lparr>m_Annotations := an\<rparr>\<rparr>)\<rparr>"

interpretation services: managed_object svc_ops
  by unfold_locales (auto simp: svc_ops_def split: prod.splits)

definition with_cluster_ip :: "Service \<Rightarrow> Service \<Rightarrow> Service" where
  "with_cluster_ip existing desired =
     desired\<lparr>svc_Spec := (svc_Spec desired)\<lparr>svs_ClusterIP := svs_ClusterIP (svc_Spec existing),
                                            svs_ClusterIPs := svs_ClusterIPs (svc_Spec existing)\<rparr>\<rparr>"

definition ensureService ::
  "('w, 'sched) sext \<Rightarrow> PaperMCServer \<Rightarrow> Plugin list \<Rightarrow> ('w, unit result) op" where
  "ensureService x server matchedPlugins = do {
     g \<leftarrow> api_get K_Service (x_services x) (sv_Namespace server) (sv_Name server);
     let desired = buildService server matchedPlugins in
     case g of
       Inl err \<Rightarrow>
         if \<not> IsNotFound err then State_Monad.return (Inl (Wrap err ''failed to get service''))
         else create_owned x svc_ops O_Service (x_services x) ''failed to set owner reference''
                ''failed to create service'' server desired
     | Inr existing \<Rightarrow>
         update_owned x svc_ops O_Service (x_services x) ''failed to set owner reference''
           ''failed to update service'' server existing (with_cluster_ip existing desired)
   }"

subsection \<open>The script ConfigMap\<close>

definition deleteOrphanedConfigScriptConfigMap ::
  "('w, 'sched) sext \<Rightarrow> PaperMCServer \<Rightarrow> ('w, unit result) op" where
  "deleteOrphanedConfigScriptConfigMap x server = do {
     g \<leftarrow> api_get K_ConfigMap (x_configMaps x) (sv_Namespace server) (script_cm_name server);
     case g of
       Inr existing \<Rightarrow> do {
         d \<leftarrow> api_delete O_ConfigMap (x_configMaps x) existing;
         State_Monad.return
           (case d of
              Inl delErr \<Rightarrow>
                if IsNotFound delErr then Inr ()
                else Inl (Wrap delErr ''failed to delete orphaned config script configmap'')
            | Inr _ \<Rightarrow> Inr ())
       }
     | Inl err \<Rightarrow>
         State_Monad.return
           (if IsNotFound err then Inr ()
            else Inl (Wrap err ''failed to check for orphaned config script configmap''))
   }"

fun missing_loop ::
  "('w, 'sched) sext \<Rightarrow> PaperMCServer \<Rightarrow> string list \<Rightarrow> ConfigMapKeyRef list \<Rightarrow> ('w, string list) op" where
  "missing_loop x server missing [] = State_Monad.return missing"
| "missing_loop x server missing (ref # refs) = do {
     g \<leftarrow> api_get K_ConfigMap (x_configMaps x) (sv_Namespace server) (ck_Name ref);
     missing_loop x server
       (let name = ck_Name ref @ ''/'' @ ck_Key ref
        in case g of
             Inl err \<Rightarrow> missing @ [if IsNotFound err then name else name @ '' (check failed)'']
           | Inr cm \<Rightarrow>
               if cm_Data cm (ck_Key ref) = None \<and> cm_BinaryData cm (ck_Key ref) = None
               then missing @ [name @ '' (key not found)''] else missing)
       refs
   }"

definition validateReferencedConfigMaps ::
  "('w, 'sched) sext \<Rightarrow> PaperMCServer \<Rightarrow> Plugin list \<Rightarrow> ('w, PaperMCServer) op" where
  "validateReferencedConfigMaps x server matchedPlugins =
     (let refs = collectReferencedConfigMaps server matchedPlugins
      in if refs = [] then State_Monad.return server
         else do {
           missing \<leftarrow> missing_loop x server [] refs;
           if missing \<noteq> [] then
             setCondition x server conditionTypeConfigInjectionReady ConditionFalse ''ConfigMapsMissing''
               (''Referenced ConfigMaps not found: '' @ join '', '' missing)
           else
             setCondition x server conditionTypeConfigInjectionReady ConditionTrue ''ConfigMapsReady''
               ''All referenced ConfigMaps are available''
         })"

definition ensureConfigScriptConfigMap ::
  "('w, 'sched) sext \<Rightarrow> PaperMCServer \<Rightarrow> Plugin list \<Rightarrow> ('w, unit result \<times> PaperMCServer) op" where
  "ensureConfigScriptConfigMap x server matchedPlugins =
     (case buildConfigInjection (\<lambda>site. k_range x (''ensureConfigScriptConfigMap'' # site)) server matchedPlugins of
        None \<Rightarrow> do {
          r \<leftarrow> deleteOrphanedConfigScriptConfigMap x server;
          State_Monad.return (r, remove_condition x conditionTypeConfigInjectionReady server)
        }
      | Some (_, _, scriptCM) \<Rightarrow> do {
          server1 \<leftarrow> validateReferencedConfigMaps x server matchedPlugins;
          case k_SetControllerReference x server1 (m_OwnerReferences (cm_Meta scriptCM)) of
            Inl err \<Rightarrow>
              State_Monad.return (Inl (Wrap err ''failed to set owner reference on config script configmap''), server1)
          | Inr refs \<Rightarrow> do {
              g \<leftarrow> api_get K_ConfigMap (x_configMaps x) (m_Namespace (cm_Meta scriptCM)) (m_Name (cm_Meta scriptCM));
              r \<leftarrow> (case g of
                      Inl err \<Rightarrow>
                        if \<not> IsNotFound err
                        then State_Monad.return (Inl (Wrap err ''failed to get config script configmap''))
                        else do {
                          c \<leftarrow> api_create O_ConfigMap (x_configMaps x)
                                (scriptCM\<lparr>cm_Meta := (cm_Meta scriptCM)\<lparr>m_OwnerReferences := refs\<rparr>\<rparr>);
                          State_Monad.return (wrap_result ''failed to create config script configmap'' c)
                        }
                    | Inr existing \<Rightarrow>
                        if cm_Data existing configScriptKey = cm_Data scriptCM configScriptKey
                        then State_Monad.return (Inr ())
                        else do {
                          u \<leftarrow> api_update O_ConfigMap (x_configMaps x) (existing\<lparr>cm_Data := cm_Data scriptCM\<rparr>);
                          State_Monad.return (wrap_result ''failed to update config script configmap'' u)
                        });
              State_Monad.return (r, server1)
            }
        })"

subsection \<open>Status\<close>

definition isStatefulSetReady :: "StatefulSet \<Rightarrow> bool" where
  "isStatefulSetReady statefulSet =
     (sts_ReadyReplicas statefulSet > 0 \<and> sts_ReadyReplicas statefulSet = sts_StatusReplicas statefulSet)"

definition updateStatefulSetReadiness ::
  "('w, 'sched) sext \<Rightarrow> PaperMCServer \<Rightarrow> StatefulSet \<Rightarrow> ('w, PaperMCServer) op" where
  "updateStatefulSetReadiness x server statefulSet =
     (if isStatefulSetReady statefulSet
      then setCondition x server conditionTypeStatefulSetReady ConditionTrue reasonStatefulSetReady ''StatefulSet is ready''
      else setCondition x server conditionTypeStatefulSetReady ConditionFalse reasonStatefulSetNotReady
             ''StatefulSet is not ready'')"

definition updateAvailableUpdateStatus ::
  "('w, 'sched) sext \<Rightarrow> 'v semver \<Rightarrow> PaperMCServer \<Rightarrow> Plugin list \<Rightarrow> ('w, PaperMCServer) op" where
  "updateAvailableUpdateStatus x SV server matchedPlugins = do {
     (u, server1) \<leftarrow> findAvailableUpdate x SV server matchedPlugins;
     case u of
       Inl err \<Rightarrow>
         setCondition x (with_status (\<lambda>st. st\<lparr>st_AvailableUpdate := None\<rparr>) server1) conditionTypeUpdateAvailable
           ConditionFalse reasonNoUpdate (k_Error (base x) err)
     | Inr (Some availableUpdate) \<Rightarrow>
         setCondition x (with_status (\<lambda>st. st\<lparr>st_AvailableUpdate := Some availableUpdate\<rparr>) server1)
           conditionTypeUpdateAvailable ConditionTrue reasonUpdateFound
           (''Update to '' @ au_Version availableUpdate @ '' available'')
     | Inr None \<Rightarrow>
         setCondition x (with_status (\<lambda>st. st\<lparr>st_AvailableUpdate := None\<rparr>) server1) conditionTypeUpdateAvailable
           ConditionFalse reasonNoUpdate ''Server is up to date''
   }"

definition updateServerStatus ::
  "('w, 'sched) sext \<Rightarrow> 'v semver \<Rightarrow> PaperMCServer \<Rightarrow> StatefulSet \<Rightarrow> Plugin list \<Rightarrow> ('w, PaperMCServer) op" where
  "updateServerStatus x SV server statefulSet matchedPlugins =
     (case detectCurrentPaperVersion statefulSet of
        (currentVersion, currentBuild) \<Rightarrow>
          let server1 = with_status (\<lambda>st. st\<lparr>st_CurrentVersion := currentVersion, st_CurrentBuild := currentBuild\<rparr>) server
          in do {
               plugins \<leftarrow> buildPluginStatus x SV server1 matchedPlugins;
               server2 \<leftarrow> updateAvailableUpdateStatus x SV
                            (with_status (\<lambda>st. st\<lparr>st_Plugins := plugins\<rparr>) server1) matchedPlugins;
               updateStatefulSetReadiness x server2 statefulSet
             })"

subsection \<open>The reconciliation\<close>

definition findMatchedPlugins :: "('w, 'sched) sext \<Rightarrow> PaperMCServer \<Rightarrow> ('w, Plugin list result) op" where
  "findMatchedPlugins x server = do {
     r \<leftarrow> FindMatchingPlugins x (sv_Namespace server) (sv_Labels server);
     State_Monad.return (case r of Inl err \<Rightarrow> Inl (Wrap err ''failed to find matching plugins'') | Inr ps \<Rightarrow> Inr ps)
   }"

definition ensureInfrastructure ::
  "('w, 'sched) sext \<Rightarrow> PaperMCServer \<Rightarrow> Plugin list \<Rightarrow> ('w, StatefulSet result \<times> PaperMCServer) op" where
  "ensureInfrastructure x server matchedPlugins = do {
     (c, server1) \<leftarrow> ensureConfigScriptConfigMap x server matchedPlugins;
     case c of
       Inl err \<Rightarrow> State_Monad.return (Inl (Wrap err ''failed to ensure config script configmap''), server1)
     | Inr _ \<Rightarrow> do {
         (s, server2) \<leftarrow> ensureStatefulSet x server1 matchedPlugins;
         case s of
           Inl err \<Rightarrow> State_Monad.return (Inl (Wrap err ''failed to ensure statefulset''), server2)
         | Inr statefulSet \<Rightarrow> do {
             v \<leftarrow> ensureService x server2 matchedPlugins;
             case v of
               Inl err \<Rightarrow> State_Monad.return (Inl (Wrap err ''failed to ensure service''), server2)
             | Inr _ \<Rightarrow> do {
                 (g, server3) \<leftarrow> ensureGatewayRoutes x server2 matchedPlugins;
                 case g of
                   Inl err \<Rightarrow> State_Monad.return (Inl (Wrap err ''failed to ensure gateway routes''), server3)
                 | Inr _ \<Rightarrow> do {
                     n \<leftarrow> ensureNetworkPolicy x server3 matchedPlugins;
                     case n of
                       Inl err \<Rightarrow> State_Monad.return (Inl (Wrap err ''failed to ensure network policy''), server3)
                     | Inr _ \<Rightarrow> State_Monad.return (Inr statefulSet, server3)
                   }
               }
           }
       }
   }"

definition server_doReconcile ::
  "('w, 'sched) sext \<Rightarrow> 'v semver \<Rightarrow> PaperMCServer \<Rightarrow> ('w, duration result \<times> PaperMCServer) op" where
  "server_doReconcile x SV server = do {
     m \<leftarrow> findMatchedPlugins x server;
     case m of
       Inl err \<Rightarrow> State_Monad.return (Inl (Wrap err ''failed to find matched plugins''), server)
     | Inr matchedPlugins \<Rightarrow> do {
         (d, server1) \<leftarrow> updateDesiredVersion x SV server matchedPlugins;
         case d of
           Inl err \<Rightarrow> State_Monad.return (Inl err, server1)
         | Inr _ \<Rightarrow>
             if st_DesiredVersion (sv_Status server1) = [] \<or> st_DesiredBuild (sv_Status server1) = 0
             then State_Monad.return
                    (Inl (New ''desired version not resolved - cannot create infrastructure''), server1)
             else do {
               (i, server2) \<leftarrow> ensureInfrastructure x server1 matchedPlugins;
               case i of
                 Inl err \<Rightarrow> State_Monad.return (Inl err, server2)
               | Inr statefulSet \<Rightarrow> do {
                   server3 \<leftarrow> updateServerStatus x SV server2 statefulSet matchedPlugins;
                   State_Monad.return (Inr (15 * Minute), server3)
                 }
             }
       }
   }"

definition blockedBy_equal :: "UpdateBlockedStatus \<Rightarrow> UpdateBlockedStatus \<Rightarrow> bool" where
  "blockedBy_equal a b =
     (ub_Blocked a = ub_Blocked b \<and> ub_Reason a = ub_Reason b \<and>
      (case (ub_BlockedBy a, ub_BlockedBy b) of
         (None, None) \<Rightarrow> True
       | (Some p, Some q) \<Rightarrow> bb_Plugin p = bb_Plugin q \<and> bb_Version p = bb_Version q
       | _ \<Rightarrow> False))"

definition option_equal :: "('a \<Rightarrow> 'a \<Rightarrow> bool) \<Rightarrow> 'a option \<Rightarrow> 'a option \<Rightarrow> bool" where
  "option_equal eq a b = (case (a, b) of (None, None) \<Rightarrow> True | (Some p, Some q) \<Rightarrow> eq p q | _ \<Rightarrow> False)"

definition plugin_entry_equal :: "ServerPluginStatus \<Rightarrow> ServerPluginStatus \<Rightarrow> bool" where
  "plugin_entry_equal p q =
     (sp_ResolvedVersion p = sp_ResolvedVersion q \<and> sp_Compatible p = sp_Compatible q \<and>
      sp_CurrentVersion p = sp_CurrentVersion q \<and> sp_DesiredVersion p = sp_DesiredVersion q \<and>
      sp_Source p = sp_Source q \<and> sp_PendingDeletion p = sp_PendingDeletion q \<and>
      sp_InstalledJARName p = sp_InstalledJARName q)"

definition pluginStatusSliceEqual :: "ServerPluginStatus list \<Rightarrow> ServerPluginStatus list \<Rightarrow> bool" where
  "pluginStatusSliceEqual a b =
     (length a = length b \<and>
      list_all (\<lambda>p. case status_by_key a (plugin_ref_key (sp_PluginRef p)) of
                  None \<Rightarrow> False | Some prev \<Rightarrow> plugin_entry_equal prev p) b)"

definition conditionsEqual :: "Condition list \<Rightarrow> Condition list \<Rightarrow> bool" where
  "conditionsEqual a b =
     (length a = length b \<and>
      list_all (\<lambda>c. case map_of (rev (map (\<lambda>d. (c_Type d, d)) a)) (c_Type c) of
                  None \<Rightarrow> False
                | Some prev \<Rightarrow> c_Status prev = c_Status c \<and> c_Reason prev = c_Reason c \<and> c_Message prev = c_Message c) b)"

definition availableUpdateEqual :: "AvailableUpdate option \<Rightarrow> AvailableUpdate option \<Rightarrow> bool" where
  "availableUpdateEqual =
     option_equal (\<lambda>a b. au_Version a = au_Version b \<and> au_Build a = au_Build b \<and>
       list_all2 (\<lambda>p q. pvp_PluginRef p = pvp_PluginRef q \<and> pvp_Version p = pvp_Version q) (au_Plugins a) (au_Plugins b))"

definition updateHistoryEqual :: "UpdateHistory option \<Rightarrow> UpdateHistory option \<Rightarrow> bool" where
  "updateHistoryEqual =
     option_equal (\<lambda>a b. uh_Successful a = uh_Successful b \<and> uh_PreviousVersion a = uh_PreviousVersion b
       \<and> uh_AppliedAt a = uh_AppliedAt b)"

definition backupStatusEqual :: "BackupStatus option \<Rightarrow> BackupStatus option \<Rightarrow> bool" where
  "backupStatusEqual =
     option_equal (\<lambda>a b. bks_BackupCount a = bks_BackupCount b \<and>
       option_equal (\<lambda>p q. bkr_SnapshotName p = bkr_SnapshotName q \<and> bkr_Successful p = bkr_Successful q
         \<and> bkr_Trigger p = bkr_Trigger q \<and> bkr_StartedAt p = bkr_StartedAt q
         \<and> option_equal (=) (bkr_CompletedAt p) (bkr_CompletedAt q)) (bks_LastBackup a) (bks_LastBackup b))"

definition serverStatusEqual :: "PaperMCServerStatus \<Rightarrow> PaperMCServerStatus \<Rightarrow> bool" where
  "serverStatusEqual a b =
     (st_CurrentVersion a = st_CurrentVersion b \<and> st_CurrentBuild a = st_CurrentBuild b \<and>
      st_DesiredVersion a = st_DesiredVersion b \<and> st_DesiredBuild a = st_DesiredBuild b \<and>
      option_equal blockedBy_equal (st_UpdateBlocked a) (st_UpdateBlocked b) \<and>
      pluginStatusSliceEqual (st_Plugins a) (st_Plugins b) \<and>
      availableUpdateEqual (st_AvailableUpdate a) (st_AvailableUpdate b) \<and>
      updateHistoryEqual (st_LastUpdate a) (st_LastUpdate b) \<and>
      backupStatusEqual (st_Backup a) (st_Backup b) \<and>
      conditionsEqual (st_Conditions a) (st_Conditions b))"

definition config_requeue :: "('w, 'sched) sext \<Rightarrow> PaperMCServer \<Rightarrow> duration \<Rightarrow> duration" where
  "config_requeue x server after =
     (case k_FindStatusCondition (base x) (st_Conditions (sv_Status server)) conditionTypeConfigInjectionReady of
        Some cond \<Rightarrow>
          if c_Status cond = ConditionFalse
          then (if after > 0 \<and> after < 30 * Second then after else 30 * Second)
          else after
      | None \<Rightarrow> after)"

definition server_reconcile_fetched ::
  "('w, 'sched) sext \<Rightarrow> 'v semver \<Rightarrow> PaperMCServer \<Rightarrow> ('w, reconcile_result) op" where
  "server_reconcile_fetched x SV server = do {
     (r, server1) \<leftarrow> server_doReconcile x SV server;
     server2 \<leftarrow>
       (case r of
          Inl err \<Rightarrow> setCondition x server1 conditionTypeServerReady ConditionFalse reasonServerReconcileError
                       (k_Error (base x) err)
        | Inr _ \<Rightarrow> setCondition x server1 conditionTypeServerReady ConditionTrue reasonServerReconcileSuccess
                       ''Server reconciled successfully'');
     (e, server3) \<leftarrow>
       (if \<not> is_ok r \<or> \<not> serverStatusEqual (sv_Status server2) (sv_Status server) then do {
          u \<leftarrow> status_update (base x) server2;
          State_Monad.return
            (case u of
               Inl updateErr \<Rightarrow> (Some (case r of Inl err \<Rightarrow> err | Inr _ \<Rightarrow> updateErr), server2)
             | Inr updated \<Rightarrow> (case r of Inl err \<Rightarrow> Some err | Inr _ \<Rightarrow> None, updated))
        }
        else State_Monad.return (None, server2));
     State_Monad.return
       (case e of
          Some err \<Rightarrow> (0, Some err)
        | None \<Rightarrow> (config_requeue x server3 (case r of Inl _ \<Rightarrow> 0 | Inr after \<Rightarrow> after), None))
   }"

definition PaperMCServerReconciler_Reconcile ::
  "('w, 'sched) sext \<Rightarrow> 'v semver \<Rightarrow> string \<Rightarrow> string \<Rightarrow> ('w, reconcile_result) op" where
  "PaperMCServerReconciler_Reconcile x SV ns n = do {
     g \<leftarrow> get_server (base x) ns n;
     case g of
       Inl err \<Rightarrow>
         if IsNotFound err then State_Monad.return (0, None)
         else record_reconcile (base x) ''papermcserver'' (0, Some (Wrap err ''failed to get server''))
     | Inr server \<Rightarrow> do {
         res \<leftarrow> server_reconcile_fetched x SV server;
         record_reconcile (base x) ''papermcserver'' res
       }
   }"

text \<open>The servers to reconcile when a plugin changed, as name and namespace; none on an error.\<close>

definition findServersForPlugin :: "('w, 'sched) sext \<Rightarrow> Plugin \<Rightarrow> ('w, (string \<times> string) list) op" where
  "findServersForPlugin x plugin = do {
     m \<leftarrow> FindMatchingServers x (pl_Namespace plugin) (ps_InstanceSelector (pl_Spec plugin));
     State_Monad.return
       (case m of Inl _ \<Rightarrow> [] | Inr servers \<Rightarrow> map (\<lambda>server. (sv_Name server, sv_Namespace server)) servers)
   }"

subsection \<open>The image of the pod\<close>

definition desired_image :: "PaperMCServer \<Rightarrow> string" where
  "desired_image server =
     paper_image (image_tag (st_DesiredVersion (sv_Status server)) (st_DesiredBuild (sv_Status server)))"

definition runs_image :: "string \<Rightarrow> StatefulSet \<Rightarrow> bool" where
  "runs_image img sts \<longleftrightarrow> (\<exists>c cs. sts_Containers sts = c # cs \<and> ct_Image c = img)"

lemma buildStatefulSet_image:
  assumes "buildStatefulSet rg server plugins = Inr sts"
  shows "runs_image (desired_image server) sts" "st_DesiredVersion (sv_Status server) \<noteq> []"
    "st_DesiredBuild (sv_Status server) \<noteq> 0"
  using assms
  by (auto simp: buildStatefulSet_def buildPodSpec_def buildPodTemplate_def runs_image_def desired_image_def Let_def
      split: sum.splits if_splits option.splits)

lemma buildStatefulSet_Inr:
  assumes "st_DesiredVersion (sv_Status server) \<noteq> []" "st_DesiredBuild (sv_Status server) \<noteq> 0"
  shows "\<exists>sts. buildStatefulSet rg server plugins = Inr sts"
  using assms by (auto simp: buildStatefulSet_def buildPodSpec_def Let_def)

text \<open>A version with another character, such as the one of a release candidate, is not read back.\<close>

lemma detect_odd_image:
  assumes "\<not> list_all digit_or_dot v" and "0 \<le> b" and "CHR ''/'' \<notin> set v" and "CHR 0x0A \<notin> set v"
    and "sts_Containers sts = c # cs" and "ct_Image c = paper_image (image_tag v b)"
  shows "detectCurrentPaperVersion sts = ([], 0)"
proof -
  have "list_all digit_or_dot (itoa b)"
    using itoa_digits [OF assms(2)] by (auto simp: digits_def list_all_iff)
  then have b: "CHR ''/'' \<notin> set (itoa b)" "CHR 0x0A \<notin> set (itoa b)" "CHR ''-'' \<notin> set (itoa b)"
    by (auto simp: list_all_iff is_digit_def)
  have img: "FindStringSubmatch imageRegex (ct_Image c) = Some [''lexfrei/papermc'', image_tag v b]"
    unfolding assms(6) by (rule imageRegex_paper_image) (use b assms(3,4) in \<open>simp_all add: image_tag_def\<close>)
  have "v = v'" if "image_tag v b = v' @ CHR ''-'' # n" "digits n" for v' n
  proof -
    from that(2) have "CHR ''-'' \<notin> set n" by (rule digits_no_dash)
    with that(1) b(3) show ?thesis
      by (auto simp: image_tag_def append_eq_append_conv2 Cons_eq_append_conv append_eq_Cons_conv)
  qed
  then have "FindAnchored tagRegex (image_tag v b) = None"
    using assms(1) tagRegex_iff by (metis not_None_eq)
  moreover have "CHR ''-'' \<in> set (image_tag v b)" by (simp add: image_tag_def)
  then have "image_tag v b \<noteq> versionPolicyLatest" by (auto simp: versionPolicyLatest_def)
  ultimately show ?thesis using img assms(5) by (simp add: detectCurrentPaperVersion_def)
qed

text \<open>
  C33. What the controller reads back of the version it wrote. Of the StatefulSet built for a server
  the detection returns the desired version and build when the version consists of digits and dots;
  for any other version that can stand in an image tag, such as 1.21.5-rc1, it returns the
  empty version and build 0. (Builds are those of the range of \<^verbatim>\<open>int\<close>.)
\<close>

theorem detect_built_version:
  assumes "buildStatefulSet rg server plugins = Inr sts"
    and "CHR ''/'' \<notin> set (st_DesiredVersion (sv_Status server))" and "CHR 0x0A \<notin> set (st_DesiredVersion (sv_Status server))"
    and "0 \<le> st_DesiredBuild (sv_Status server)" and "st_DesiredBuild (sv_Status server) < 2 ^ 63"
  shows "detectCurrentPaperVersion sts =
    (if list_all (\<lambda>c. is_digit c \<or> c = CHR ''.'') (st_DesiredVersion (sv_Status server))
     then (st_DesiredVersion (sv_Status server), st_DesiredBuild (sv_Status server)) else ([], 0))"
proof -
  note b = buildStatefulSet_image [OF assms(1)]
  from b(1) obtain c cs where c: "sts_Containers sts = c # cs"
    "ct_Image c = paper_image (image_tag (st_DesiredVersion (sv_Status server)) (st_DesiredBuild (sv_Status server)))"
    by (auto simp: runs_image_def desired_image_def)
  from detect_paper_image [OF b(2) _ assms(4,5) c] detect_odd_image [OF _ assms(4,2,3) c] show ?thesis by simp
qed

definition demo_desired_server :: "string \<Rightarrow> int \<Rightarrow> PaperMCServer" where
  "demo_desired_server v b = zero_server\<lparr>sv_Meta := zero_meta\<lparr>m_Name := ''mc'', m_Namespace := ''games''\<rparr>,
     sv_Status := zero_server_status\<lparr>st_DesiredVersion := v, st_DesiredBuild := b\<rparr>\<rparr>"

theorem detect_built_version_witness:
  "(\<exists>sts. buildStatefulSet (\<lambda>_ ks. ks) (demo_desired_server ''1.21.1'' 91) [] = Inr sts
      \<and> detectCurrentPaperVersion sts = (''1.21.1'', 91)) \<and>
   (\<exists>sts. buildStatefulSet (\<lambda>_ ks. ks) (demo_desired_server ''1.21.5-rc1'' 10) [] = Inr sts
      \<and> detectCurrentPaperVersion sts = ([], 0))"
proof -
  have st: "st_DesiredVersion (sv_Status (demo_desired_server v b)) = v"
    "st_DesiredBuild (sv_Status (demo_desired_server v b)) = b" for v b by (simp_all add: demo_desired_server_def)
  obtain sts sts' where b: "buildStatefulSet (\<lambda>_ ks. ks) (demo_desired_server ''1.21.1'' 91) [] = Inr sts"
    "buildStatefulSet (\<lambda>_ ks. ks) (demo_desired_server ''1.21.5-rc1'' 10) [] = Inr sts'"
    using buildStatefulSet_Inr [of "demo_desired_server ''1.21.1'' 91" "\<lambda>_ ks. ks" "[]"]
      buildStatefulSet_Inr [of "demo_desired_server ''1.21.5-rc1'' 10" "\<lambda>_ ks. ks" "[]"] st by auto
  have "detectCurrentPaperVersion sts = (''1.21.1'', 91)"
    using detect_built_version [OF b(1)] st by (simp add: is_digit_def)
  moreover have "detectCurrentPaperVersion sts' = ([], 0)"
    using detect_built_version [OF b(2)] st by (simp add: is_digit_def)
  ultimately show ?thesis using b by blast
qed

text \<open>
  A changed version reaches the pod at once. Whenever the StatefulSet in the cluster runs another
  image than the desired one, the server controller replaces the pod template in this very
  reconciliation, whatever the maintenance window, the update delay and the backup settings are.
\<close>

theorem image_updated_at_once:
  assumes "ka_get (x_statefulSets x) (sv_Namespace server) (sv_Name server) (world s) = (Inr sts, w)"
    and "st_DesiredVersion (sv_Status server) \<noteq> []" and "st_DesiredBuild (sv_Status server) \<noteq> 0"
    and "sts_Containers sts = c # cs" and "ct_Image c \<noteq> desired_image server"
  shows "\<exists>sts' ok. runs_image (desired_image server) sts' \<and>
     trace (snd (run_state (ensureStatefulSet x server plugins) s)) =
       trace s @ [E_Get K_StatefulSet (sv_Namespace server) (sv_Name server) True, E_Update (O_StatefulSet sts') ok]"
proof -
  let ?rg = "\<lambda>site. k_range x (''ensureStatefulSet'' # site)"
  obtain d where d: "buildStatefulSet ?rg server plugins = Inr d" using buildStatefulSet_Inr assms(2,3) by blast
  from buildStatefulSet_image(1) [OF d] obtain dc dcs where dc: "sts_Containers d = dc # dcs" "ct_Image dc = desired_image server"
    by (auto simp: runs_image_def)
  have ch: "template_changed sts d = Inr True"
    using assms(4,5) dc by (simp add: template_changed_def Let_def)
  let ?sts' = "sts\<lparr>sts_Template := sts_Template d\<rparr>"
  have "runs_image (desired_image server) ?sts'" using dc by (simp add: runs_image_def)
  moreover obtain r w' where "ka_update (x_statefulSets x) ?sts' w = (r, w')" by fastforce
  ultimately show ?thesis
    by (intro exI [of _ ?sts'] exI [of _ "is_ok r"])
      (simp add: ensureStatefulSet_def api_get_def api_update_def call_def assms(1) d ch Let_def)
qed

definition demo_old_sts_sext :: "(unit, unit) sext" where
  "demo_old_sts_sext = (demo_sext zero_server)\<lparr>x_statefulSets := no_api\<lparr>ka_get := \<lambda>_ _ w. (Inr demo_sts, w)\<rparr>\<rparr>"

theorem image_updated_at_once_witness:
  "\<exists>sts' ok. runs_image ''docker.io/lexfrei/papermc:1.21.4-7'' sts' \<and>
     trace (snd (run_state (ensureStatefulSet demo_old_sts_sext (demo_desired_server ''1.21.4'' 7) []) demo_sys)) =
       [E_Get K_StatefulSet ''games'' ''mc'' True, E_Update (O_StatefulSet sts') ok]"
proof -
  have st: "sv_Status (demo_desired_server ''1.21.4'' 7) = zero_server_status\<lparr>st_DesiredVersion := ''1.21.4'', st_DesiredBuild := 7\<rparr>"
    "sv_Namespace (demo_desired_server ''1.21.4'' 7) = ''games''" "sv_Name (demo_desired_server ''1.21.4'' 7) = ''mc''"
    by (simp_all add: demo_desired_server_def)
  have seven: "itoa 7 = ''7''" by code_simp
  from image_updated_at_once [of demo_old_sts_sext "demo_desired_server ''1.21.4'' 7" demo_sys demo_sts _ demo_container "[]" "[]"]
  show ?thesis
    by (simp add: st desired_image_def paper_image_def image_tag_def seven demo_old_sts_sext_def demo_sts_def demo_container_def
        demo_sys_def zero_pod_spec_def)
qed


subsection \<open>Ports of the service\<close>

lemma itoa_inj: "0 \<le> i \<Longrightarrow> 0 \<le> j \<Longrightarrow> itoa i = itoa j \<longleftrightarrow> i = j"
proof -
  have "nat_dec m = nat_dec n \<longleftrightarrow> m = n" for m n
    using digits_value_nat_dec [of m] digits_value_nat_dec [of n] by (metis of_nat_eq_iff)
  then show "0 \<le> i \<Longrightarrow> 0 \<le> j \<Longrightarrow> itoa i = itoa j \<longleftrightarrow> i = j"
    unfolding itoa_def by (simp add: eq_nat_nat_iff del: nat_dec.simps)
qed

lemma itoa_no_dash: "0 \<le> i \<Longrightarrow> CHR ''-'' \<notin> set (itoa i)"
  using itoa_digits [of i] digits_no_dash by blast

definition port_key :: "ServicePort \<Rightarrow> int \<times> string" where
  "port_key p = (svp_Port p, svp_Protocol p)"

lemma endpoint_proto_cases: "endpoint_proto ep = ''TCP'' \<or> endpoint_proto ep = ''UDP''"
  by (simp add: endpoint_proto_def network_consts)

lemma ToLower_protos: "ToLower ''TCP'' = ''tcp''" "ToLower ''UDP'' = ''udp''"
  by (simp_all add: ToLower_def lower_char_def char_of_def bit_0)

lemma endpoint_ports_loop_set:
  "port_key ` set (endpoint_ports_loop seen eps) = {(ep_Port ep, endpoint_proto ep) | ep. ep \<in> set eps} - seen"
  by (induction seen eps rule: endpoint_ports_loop.induct)
     (auto simp: Let_def port_key_def service_port_def)

lemma endpoint_ports_loop_distinct: "distinct (map port_key (endpoint_ports_loop seen eps))"
proof (induction seen eps rule: endpoint_ports_loop.induct)
  case (2 seen ep eps)
  then show ?case
    using endpoint_ports_loop_set [of "insert (ep_Port ep, endpoint_proto ep) seen" eps]
    by (auto simp: Let_def port_key_def service_port_def)
qed simp

lemma endpoint_ports_loop_port:
  assumes "p \<in> set (endpoint_ports_loop seen eps)"
  shows "\<exists>ep \<in> set eps. p = service_port (endpoint_port_name (ep_Port ep) (endpoint_proto ep)) (ep_Port ep) (endpoint_proto ep)"
  using assms by (induction seen eps rule: endpoint_ports_loop.induct) (auto simp: Let_def split: if_splits)

lemma endpoint_port_name_inj:
  assumes "0 \<le> i" "0 \<le> j" "endpoint_port_name i (endpoint_proto e) = endpoint_port_name j (endpoint_proto f)"
  shows "i = j \<and> endpoint_proto e = endpoint_proto f"
proof -
  have no: "CHR ''-'' \<notin> set (itoa i)" "CHR ''-'' \<notin> set (itoa j)" using itoa_no_dash assms by auto
  from assms(3) have "itoa i @ CHR ''-'' # ToLower (take 3 (endpoint_proto e)) = itoa j @ CHR ''-'' # ToLower (take 3 (endpoint_proto f))"
    by (simp add: endpoint_port_name_def)
  moreover have "CHR ''-'' \<notin> set (ToLower (take 3 (endpoint_proto e)))"
    using endpoint_proto_cases [of e] by (auto simp: ToLower_protos)
  ultimately have "itoa i = itoa j \<and> ToLower (take 3 (endpoint_proto e)) = ToLower (take 3 (endpoint_proto f))"
    using append_Cons_eq_iff [OF no(1)] by blast
  with assms endpoint_proto_cases [of e] endpoint_proto_cases [of f] show ?thesis by (auto simp: itoa_inj ToLower_protos)
qed

lemma itoa_length: "0 \<le> i \<Longrightarrow> i \<le> 65535 \<Longrightarrow> length (itoa i) \<le> 5"
proof -
  have l: "length (nat_dec n) \<le> Suc k" if "n < 10 ^ Suc k" for n k
    using that
  proof (induction k arbitrary: n)
    case (Suc k)
    show ?case
    proof (cases "n < 10")
      case False
      have "n div 10 < 10 ^ Suc k" using Suc.prems by (simp add: less_mult_imp_div_less)
      from Suc.IH [OF this] False show ?thesis by (subst nat_dec.simps) simp
    qed (subst nat_dec.simps, simp)
  qed (subst nat_dec.simps, simp)
  assume "0 \<le> i" "i \<le> 65535"
  then have "nat i < 10 ^ Suc 4" by simp
  from l [OF this] \<open>0 \<le> i\<close> show ?thesis by (simp add: itoa_def)
qed

definition endpoints_valid :: "Plugin list \<Rightarrow> bool" where
  "endpoints_valid plugins \<longleftrightarrow> list_all (\<lambda>ep. ep_Port ep \<in> {1..65535}) (plugin_endpoints plugins)"

lemma endpoint_name_length:
  assumes "ep_Port ep \<in> {1..65535}"
  shows "length (endpoint_port_name (ep_Port ep) (endpoint_proto ep)) \<le> 12"
  using itoa_length [of "ep_Port ep"] assms endpoint_proto_cases [of ep]
  by (auto simp: endpoint_port_name_def ToLower_protos)

lemma endpoint_port_form:
  assumes "endpoints_valid plugins" "p \<in> set (endpoint_ports_loop seen (plugin_endpoints plugins))"
  obtains ep where "p = service_port (endpoint_port_name (ep_Port ep) (endpoint_proto ep)) (ep_Port ep) (endpoint_proto ep)" "ep_Port ep \<in> {1..65535}"
  using endpoint_ports_loop_port [OF assms(2)] assms(1) by (auto simp: endpoints_valid_def list_all_iff)

lemma endpoint_port_wf:
  assumes "endpoints_valid plugins" "p \<in> set (endpoint_ports_loop seen (plugin_endpoints plugins))"
  shows "svp_Name p \<noteq> gcPortNameMinecraft \<and> svp_Name p \<noteq> gcRCON \<and> length (svp_Name p) \<le> 12 \<and> svp_TargetPort p = svp_Port p"
  using assms by (rule endpoint_port_form)
    (use endpoint_name_length in \<open>auto simp: service_port_def endpoint_port_name_def gcPortNameMinecraft_def gcRCON_def\<close>)

lemma endpoint_names_distinct:
  assumes "endpoints_valid plugins"
  shows "distinct (map svp_Name (endpoint_ports_loop seen (plugin_endpoints plugins)))"
proof -
  let ?eps = "endpoint_ports_loop seen (plugin_endpoints plugins)"
  have "inj_on svp_Name (set ?eps)"
  proof (rule inj_onI)
    fix p q assume p: "p \<in> set ?eps" and q: "q \<in> set ?eps" and same: "svp_Name p = svp_Name q"
    obtain ep where ep: "p = service_port (endpoint_port_name (ep_Port ep) (endpoint_proto ep)) (ep_Port ep) (endpoint_proto ep)" "0 \<le> ep_Port ep"
      using assms p by (rule endpoint_port_form) simp
    obtain eq where eq: "q = service_port (endpoint_port_name (ep_Port eq) (endpoint_proto eq)) (ep_Port eq) (endpoint_proto eq)" "0 \<le> ep_Port eq"
      using assms q by (rule endpoint_port_form) simp
    have "endpoint_port_name (ep_Port ep) (endpoint_proto ep) = endpoint_port_name (ep_Port eq) (endpoint_proto eq)"
      using same by (simp add: ep(1) eq(1) service_port_def)
    from endpoint_port_name_inj [OF ep(2) eq(2) this] show "p = q" by (simp add: ep(1) eq(1))
  qed
  moreover have "distinct ?eps" using endpoint_ports_loop_distinct distinct_map by blast
  ultimately show ?thesis by (simp add: distinct_map)
qed

text \<open>
  C32. The ports of the service, for endpoints with port numbers from 1 to 65535. No two ports share
  number and protocol, except that an RCON port of 25565, which the CRD and the webhook admit, repeats
  the game port. No two ports share a name, every name has at most 15 characters, a port forwards to
  its own number, and the ports are exactly the game port, the RCON port when RCON is on, and the
  endpoints of the matched plugins.
\<close>

theorem service_ports_wf:
  fixes server :: PaperMCServer
  assumes "endpoints_valid plugins"
  defines "ports \<equiv> buildServicePorts server plugins"
  shows "(distinct (map port_key ports) \<longleftrightarrow>
           \<not> (rc_Enabled (ss_RCON (sv_Spec server)) \<and> rc_Port (ss_RCON (sv_Spec server)) = 25565)) \<and> distinct (map svp_Name ports)
       \<and> list_all (\<lambda>p. length (svp_Name p) \<le> 15 \<and> svp_TargetPort p = svp_Port p) ports
       \<and> port_key ` set ports = {(25565, ''TCP'')}
           \<union> (if rc_Enabled (ss_RCON (sv_Spec server)) then {(rc_Port (ss_RCON (sv_Spec server)), ''TCP'')} else {})
           \<union> {(ep_Port ep, endpoint_proto ep) | ep. ep \<in> set (plugin_endpoints plugins)}"
proof -
  let ?rcon = "ss_RCON (sv_Spec server)"
  define seen where "seen = insert (25565, ProtocolTCP) (if rc_Enabled ?rcon then {(rc_Port ?rcon, ProtocolTCP)} else {})"
  define eps where "eps = endpoint_ports_loop seen (plugin_endpoints plugins)"
  have ports: "ports = service_port gcPortNameMinecraft 25565 ProtocolTCP
      # (if rc_Enabled ?rcon then [service_port gcRCON (rc_Port ?rcon) ProtocolTCP] else []) @ eps"
    by (simp add: ports_def buildServicePorts_def seen_def eps_def Let_def)
  have keys: "port_key ` set eps = {(ep_Port ep, endpoint_proto ep) | ep. ep \<in> set (plugin_endpoints plugins)} - seen"
    unfolding eps_def by (rule endpoint_ports_loop_set)
  have names: "svp_Name p \<noteq> gcPortNameMinecraft \<and> svp_Name p \<noteq> gcRCON \<and> length (svp_Name p) \<le> 12 \<and> svp_TargetPort p = svp_Port p"
    if "p \<in> set eps" for p
    using assms(1) that unfolding eps_def by (rule endpoint_port_wf)
  have dk: "distinct (map port_key eps)" unfolding eps_def by (rule endpoint_ports_loop_distinct)
  have dn: "distinct (map svp_Name eps)" unfolding eps_def using assms(1) by (rule endpoint_names_distinct)
  have nk: "port_key p \<notin> seen" if "p \<in> set eps" for p using keys that by blast
  show ?thesis
  proof (intro conjI)
    show "distinct (map port_key ports) \<longleftrightarrow> \<not> (rc_Enabled ?rcon \<and> rc_Port ?rcon = 25565)"
    proof -
      have new: "k \<notin> port_key ` set eps" if "k \<in> seen" for k using nk that by blast
      have "port_key (service_port gcPortNameMinecraft 25565 ProtocolTCP) \<notin> port_key ` set eps"
        by (rule new) (simp add: port_key_def service_port_def seen_def)
      moreover have "port_key (service_port gcRCON (rc_Port ?rcon) ProtocolTCP) \<notin> port_key ` set eps" if "rc_Enabled ?rcon"
        by (rule new) (simp add: port_key_def service_port_def seen_def that)
      ultimately show ?thesis using dk by (auto simp: ports port_key_def service_port_def)
    qed
    show "distinct (map svp_Name ports)"
    proof -
      have "svp_Name (service_port nm 25565 ProtocolTCP) = nm" "gcPortNameMinecraft \<noteq> gcRCON" for nm
        by (simp_all add: service_port_def gcPortNameMinecraft_def gcRCON_def)
      moreover have "gcPortNameMinecraft \<notin> svp_Name ` set eps" "gcRCON \<notin> svp_Name ` set eps" using names by force+
      ultimately show ?thesis using dn by (simp add: ports service_port_def)
    qed
    show "list_all (\<lambda>p. length (svp_Name p) \<le> 15 \<and> svp_TargetPort p = svp_Port p) ports"
      using names by (force simp: ports list_all_iff service_port_def gcPortNameMinecraft_def gcRCON_def)
    show "port_key ` set ports = {(25565, ''TCP'')}
           \<union> (if rc_Enabled ?rcon then {(rc_Port ?rcon, ''TCP'')} else {})
           \<union> {(ep_Port ep, endpoint_proto ep) | ep. ep \<in> set (plugin_endpoints plugins)}"
      using keys by (auto simp: ports image_Un seen_def port_key_def service_port_def network_consts)
  qed
qed

definition rcon_on_game_port :: PaperMCServer where
  "rcon_on_game_port = demo_np_server\<lparr>sv_Spec := (sv_Spec demo_np_server)\<lparr>ss_RCON :=
     (ss_RCON (sv_Spec demo_np_server))\<lparr>rc_Port := 25565\<rparr>\<rparr>\<rparr>"

theorem service_ports_wf_witness:
  "distinct (map port_key (buildServicePorts demo_np_server [demo_map_plugin]))
   \<and> port_key ` set (buildServicePorts demo_np_server [demo_map_plugin])
     = {(25565, ''TCP''), (25575, ''TCP''), (8123, ''TCP'')}
   \<and> \<not> distinct (map port_key (buildServicePorts rcon_on_game_port [demo_map_plugin]))"
proof -
  have valid: "endpoints_valid [demo_map_plugin]"
    by (simp add: endpoints_valid_def plugin_endpoints_def demo_np)
  have rcon: "rc_Enabled (ss_RCON (sv_Spec demo_np_server))" "rc_Port (ss_RCON (sv_Spec demo_np_server)) = 25575"
    by (simp_all add: demo_np)
  moreover have "plugin_endpoints [demo_map_plugin] = [\<lparr>ep_Name = ''web'', ep_Port = 8123, ep_Protocol = ''HTTP''\<rparr>]"
    by (simp add: plugin_endpoints_def demo_np)
  moreover have "\<not> distinct (map port_key (buildServicePorts rcon_on_game_port [demo_map_plugin]))"
    using service_ports_wf [OF valid, of rcon_on_game_port] rcon(1) by (simp add: rcon_on_game_port_def)
  ultimately show ?thesis
    using service_ports_wf [OF valid, of demo_np_server]
    by (auto simp: endpoint_proto_def network_consts)
qed

subsection \<open>The images that pods run\<close>

text \<open>Every StatefulSet that is written runs the image.\<close>

definition writes_image :: "string \<Rightarrow> event \<Rightarrow> bool" where
  "writes_image img e \<longleftrightarrow> (\<forall>sts. written e = Some (O_StatefulSet sts) \<longrightarrow> runs_image img sts)"

text \<open>Reading calls, for the computations that write no StatefulSet.\<close>

definition reading :: "event \<Rightarrow> bool" where
  "reading e \<longleftrightarrow> written e = None"

named_theorems reading_rules \<open>computations that only read\<close>

lemma reading_simps: "reading (E_Now t)" "reading (E_SolverRun k b)" "reading (E_Paper o' v b)"
  "reading (E_ImageExists tg r)" "reading (E_ListTags l)"
  by (simp_all add: reading_def)

lemma reading_setCondition [reading_rules]: "only reading (setCondition x server ty c r m)"
  by (rule setCondition_only) (simp add: reading_def)

lemma reading_blocked [reading_rules]:
  "only reading (setUpdateBlocked x server r b)" "only reading (clearUpdateBlocked x server)"
  unfolding setUpdateBlocked_def clearUpdateBlocked_def by (rule reading_setCondition)+

lemma reading_existing_build [reading_rules]: "only reading (existing_build x v bs)"
  by (induction bs) (auto simp: server_call_ops Let_def reading_simps intro!: only_rules)

lemma reading_pairs [reading_rules]: "only reading (buildPluginVersionPairs x SV v ps)"
  by (induction ps)
    (auto simp: solve_plugin_def server_call_ops call_ops Let_def reading_simps intro!: only_rules split: list.split)

lemma reading_findAvailableUpdate [reading_rules]: "only reading (findAvailableUpdate x SV server ps)"
  unfolding findAvailableUpdate_def findVersionUpdate_def findBuildUpdate_def new_update_def
    server_call_ops call_ops Let_def
  by (intro only_rules reading_rules reading_simps)

lemma reading_check_candidate [reading_rules]: "only reading (check_candidate x SV server v ps)"
  unfolding check_candidate_def checkDowngrade_def checkCompatibility_def Let_def
  by (intro only_rules reading_rules)

lemma reading_updateDesiredVersion [reading_rules]: "only reading (updateDesiredVersion x SV server ps)"
  unfolding updateDesiredVersion_def resolveDesiredPaperVersion_def resolveLatestVersion_def resolveAutoVersion_def
    resolveVersionOnlyMode_def resolvePinnedVersionBuild_def server_call_ops Let_def
  by (intro only_rules reading_rules reading_simps)

lemma reading_status_loop [reading_rules]: "only reading (plugin_status_loop x SV server ex ps)"
  by (induction ps)
    (auto simp: resolvePluginVersionForServer_def solve_plugin_def server_call_ops call_ops Let_def reading_simps intro!: only_rules)

lemma reading_updateServerStatus [reading_rules]: "only reading (updateServerStatus x SV server sts ps)"
  unfolding updateServerStatus_def buildPluginStatus_def updateAvailableUpdateStatus_def updateStatefulSetReadiness_def Let_def
  by (intro only_rules reading_rules)

definition no_sts :: "event \<Rightarrow> bool" where
  "no_sts e \<longleftrightarrow> (\<nexists>sts. written e = Some (O_StatefulSet sts))"

lemma reading_no_sts: "only reading m \<Longrightarrow> only no_sts m"
  unfolding only_def by (erule tr_weaken) (auto simp: list_all_iff reading_def no_sts_def)

lemma missing_loop_only: "only no_sts (missing_loop x server acc refs)"
  by (induction refs arbitrary: acc) (auto simp: server_call_ops no_sts_def intro!: only_rules)

lemma ensureConfigScript_only: "only no_sts (ensureConfigScriptConfigMap x server ps)"
  unfolding ensureConfigScriptConfigMap_def deleteOrphanedConfigScriptConfigMap_def validateReferencedConfigMaps_def
    server_call_ops Let_def
  by (intro only_rules missing_loop_only setCondition_only) (simp_all add: no_sts_def)

lemma ensureConfigScript_desired:
  "emits (ensureConfigScriptConfigMap x server ps) (\<lambda>(r, s') u. desired_image s' = desired_image server)"
proof -
  have same: "desired_image s' = desired_image s" if "same_versions s s'" for s s'
    using same_versions_status [OF that] by (simp add: desired_image_def)
  have v: "emits (validateReferencedConfigMaps x server ps) (\<lambda>s' u. desired_image s' = desired_image server)"
    unfolding validateReferencedConfigMaps_def Let_def
    by (intro tr_rules tr_bind_emits [OF onlyD [OF missing_loop_only]] tr_emits [OF setCondition_emits])
      (simp_all add: same)
  show ?thesis
    unfolding ensureConfigScriptConfigMap_def deleteOrphanedConfigScriptConfigMap_def server_call_ops
    by (intro tr_rules tr_bind_emits [OF v]) (simp_all add: remove_condition_def set_conditions_def desired_image_def)
qed

lemma ensureStatefulSet_only: "only (writes_image (desired_image server)) (ensureStatefulSet x server ps)"
proof (cases "buildStatefulSet (\<lambda>site. k_range x (''ensureStatefulSet'' # site)) server ps")
  case (Inl e)
  show ?thesis unfolding ensureStatefulSet_def Inl Let_def sum.case server_call_ops
    by (intro only_rules) (simp_all add: writes_image_def)
next
  case (Inr d)
  from buildStatefulSet_image(1) [OF Inr] have "runs_image (desired_image server) d" .
  then show ?thesis unfolding ensureStatefulSet_def Inr Let_def sum.case server_call_ops
    by (intro only_rules setCondition_only) (auto simp: writes_image_def runs_image_def)
qed

lemma ensureService_only: "only no_sts (ensureService x server ps)"
  unfolding ensureService_def server_call_ops Let_def
  by (intro only_rules services.create_owned_only services.update_owned_only) (simp_all add: no_sts_def)

lemma no_sts_http [simp]:
  "no_sts (E_Now t)" "no_sts (E_Create (O_HTTPRoute r) ok)" "no_sts (E_Update (O_HTTPRoute r) ok)" "no_sts (E_Delete (O_HTTPRoute r) ok)"
  by (simp_all add: no_sts_def)

lemma route_loops_only:
  "only no_sts (apply_loop x server desired existing names)" "only no_sts (orphans_loop x desired existing names)"
proof (induction names)
  case (Cons n names)
  case 1
  show ?case
    by (cases "map_of desired n")
      (auto simp: updateHTTPRouteIfChanged_def intro!: only_rules http_routes.create_owned_only
        http_routes.update_owned_only Cons(1))
  case 2
  show ?case
    by (cases "map_of existing n"; cases "map_of desired n")
      (auto intro!: only_rules http_routes.delete_owned_only Cons(2))
qed (auto intro: only_rules)

lemma ensureGatewayRoutes_only: "only no_sts (ensureGatewayRoutes x server ps)"
  unfolding ensureGatewayRoutes_def reconcileTCPRoute_def reconcileUDPRoute_def reconcileHTTPRoutes_def
    setHTTPRouteCondition_def listOwnedHTTPRoutes_def applyHTTPRouteChanges_def deleteOrphanedHTTPRoutes_def server_call_ops
  by (intro only_rules setCondition_only route_loops_only l4_routes.reconcile_object_only) (simp_all add: no_sts_def)

lemma ensureNetworkPolicy_only: "only no_sts (ensureNetworkPolicy x server ps)"
  unfolding ensureNetworkPolicy_def
  by (intro network_policies.reconcile_object_only) (simp_all add: no_sts_def)

definition sts_safe :: "('w, 'sched) sext \<Rightarrow> 'v semver \<Rightarrow> PaperMCServer \<Rightarrow> event list \<Rightarrow> event \<Rightarrow> bool" where
  "sts_safe x SV server u e \<longleftrightarrow>
     (\<forall>sts. written e = Some (O_StatefulSet sts) \<longrightarrow>
        (\<exists>v b all. v \<noteq> [] \<and> b \<noteq> 0 \<and> runs_image (paper_image (image_tag v b)) sts
         \<and> E_ListPlugins (sv_Namespace server) (Inr all) \<in> set u
         \<and> ((v, b) = (st_DesiredVersion (sv_Status server), st_DesiredBuild (sv_Status server))
            \<or> (no_downgrade SV server v \<and> list_all (\<lambda>p. selects x p server \<longrightarrow> plugin_allows v p) all
             \<and> image_known SV u v b))))"

lemma no_sts_safe: "list_all no_sts u \<Longrightarrow> list_all (sts_safe x SV server v) u"
  by (auto simp: list_all_iff no_sts_def sts_safe_def)

lemma ensureInfrastructure_only: "only (writes_image (desired_image server)) (ensureInfrastructure x server ps)"
proof -
  let ?W = "writes_image (desired_image server)"
  have W: "list_all no_sts u \<Longrightarrow> list_all ?W u" for u by (auto simp: list_all_iff no_sts_def writes_image_def)
  have sts: "emits (ensureStatefulSet x s ps) (\<lambda>_ u. list_all ?W u)" if "desired_image s = desired_image server" for s
    using onlyD [OF ensureStatefulSet_only [of s x ps]] that by simp
  show ?thesis
    unfolding ensureInfrastructure_def
    by (rule onlyI, intro tr_rules tr_bind_emits [OF tr_conj [OF ensureConfigScript_desired onlyD [OF ensureConfigScript_only]]]
        tr_bind_emits [OF sts] tr_bind_emits [OF onlyD [OF ensureService_only]]
        tr_bind_emits [OF onlyD [OF ensureGatewayRoutes_only]] tr_bind_emits [OF onlyD [OF ensureNetworkPolicy_only]])
      (auto simp: W)
qed

lemma image_known_mono: "image_known SV u v b \<Longrightarrow> set u \<subseteq> set u' \<Longrightarrow> image_known SV u' v b"
  unfolding image_known_def by blast

lemma writes_image_safe:
  assumes "list_all (writes_image (desired_image s)) u" and "st_DesiredVersion (sv_Status s) \<noteq> []" "st_DesiredBuild (sv_Status s) \<noteq> 0"
    and "E_ListPlugins (sv_Namespace server) (Inr all) \<in> set t"
    and "(st_DesiredVersion (sv_Status s), st_DesiredBuild (sv_Status s))
           = (st_DesiredVersion (sv_Status server), st_DesiredBuild (sv_Status server))
       \<or> (no_downgrade SV server (st_DesiredVersion (sv_Status s))
           \<and> list_all (plugin_allows (st_DesiredVersion (sv_Status s))) (filter (\<lambda>p. selects x p server) all)
           \<and> image_known SV t (st_DesiredVersion (sv_Status s)) (st_DesiredBuild (sv_Status s)))"
  shows "list_all (sts_safe x SV server t) u"
proof -
  let ?v = "st_DesiredVersion (sv_Status s)" and ?b = "st_DesiredBuild (sv_Status s)"
  have "sts_safe x SV server t e" if "writes_image (desired_image s) e" for e
    unfolding sts_safe_def
  proof (intro allI impI exI [of _ ?v] exI [of _ ?b] exI [of _ all] conjI)
    fix sts assume "written e = Some (O_StatefulSet sts)"
    with that show "runs_image (paper_image (image_tag ?v ?b)) sts" by (simp add: writes_image_def desired_image_def)
  qed (use assms in \<open>auto simp: list_all_iff\<close>)
  with assms(1) show ?thesis by (auto simp: list_all_iff)
qed

lemma sts_safe_mono:
  assumes "list_all (sts_safe x SV server t) u" "set t \<subseteq> set t'"
  shows "list_all (sts_safe x SV server t') u"
  using assms image_known_mono unfolding list_all_iff sts_safe_def by (meson subsetD)

lemma findMatchedPlugins_emits:
  "emits (findMatchedPlugins x server)
     (\<lambda>r u. list_all no_sts u \<and> (\<forall>ps. r = Inr ps \<longrightarrow> (\<exists>all. E_ListPlugins (sv_Namespace server) (Inr all) \<in> set u
        \<and> ps = filter (\<lambda>p. selects x p server) all)))"
  unfolding findMatchedPlugins_def
  by (intro tr_rules tr_bind_emits [OF FindMatchingPlugins_emits]) (auto simp: no_sts_def split: sum.splits)

lemma server_doReconcile_emits:
  "emits (server_doReconcile x SV server) (\<lambda>_ u. list_all (sts_safe x SV server u) u)"
  unfolding server_doReconcile_def
  by (intro tr_rules tr_bind_emits [OF findMatchedPlugins_emits]
      tr_bind_emits [OF tr_conj [OF updateDesiredVersion_emits onlyD [OF reading_no_sts [OF reading_updateDesiredVersion]]]]
      tr_bind_emits [OF onlyD [OF ensureInfrastructure_only]]
      tr_bind_emits [OF onlyD [OF reading_no_sts [OF reading_updateServerStatus]]])
    (auto simp: no_sts_safe Let_def intro!: writes_image_safe elim: image_known_mono)


end
