(* ===== verification/PluginController.thy ===== *)
theory PluginController
  imports ServerController
begin

section \<open>The plugin controller (\<^verbatim>\<open>internal/controller/plugin_controller.go\<close>)\<close>

text \<open>
  The whole controller: fetching metadata from the repository or from the JAR behind a URL, the
  cache of both in the status, the matched servers, and the deletion protocol behind the finalizer.
  A plugin that Go changes through its pointer is passed and returned. The three sentinel errors
  that \<^verbatim>\<open>errors.Mark\<close> attaches are the datatype \<open>error_mark\<close>, beside the error that carries the message.
  The properties are the safety of the deletion protocol, its progress after the timeout, and what
  a download may put into the cache.
\<close>

definition conditionTypeReady :: string where "conditionTypeReady = ''Ready''"
definition conditionTypeRepositoryAvailable :: string where
  "conditionTypeRepositoryAvailable = ''RepositoryAvailable''"
definition conditionTypeVersionResolved :: string where "conditionTypeVersionResolved = ''VersionResolved''"
definition reasonReconcileSuccess :: string where "reasonReconcileSuccess = ''ReconcileSuccess''"
definition reasonReconcileError :: string where "reasonReconcileError = ''ReconcileError''"
definition reasonAvailable :: string where "reasonAvailable = ''Available''"
definition reasonUnavailable :: string where "reasonUnavailable = ''Unavailable''"
definition reasonResolved :: string where "reasonResolved = ''Resolved''"
definition reasonChecksumMismatch :: string where "reasonChecksumMismatch = ''ChecksumMismatch''"
definition reasonFallbackVersion :: string where "reasonFallbackVersion = ''FallbackVersion''"
definition repositoryStatusAvailable :: string where "repositoryStatusAvailable = ''available''"
definition repositoryStatusUnavailable :: string where "repositoryStatusUnavailable = ''unavailable''"
definition repositoryStatusOrphaned :: string where "repositoryStatusOrphaned = ''orphaned''"
definition urlCacheTTL :: duration where "urlCacheTTL = 60 * Minute"
definition deletionTimeout :: duration where "deletionTimeout = 10 * Minute"
definition gcSourceURL :: string where "gcSourceURL = ''url''"
definition gcSourceHangar :: string where "gcSourceHangar = ''hangar''"
definition PluginFinalizer :: string where "PluginFinalizer = ''mc.k8s.lex.la/plugin-cleanup''"

datatype error_mark = errChecksumMismatch | errInvalidURL | errUnsupportedSourceType

type_synonym marked_error = "goerror \<times> error_mark option"

subsection \<open>Conditions and statuses\<close>

definition with_pstatus :: "(PluginStatus \<Rightarrow> PluginStatus) \<Rightarrow> Plugin \<Rightarrow> Plugin" where
  "with_pstatus f plugin = plugin\<lparr>pl_Status := f (pl_Status plugin)\<rparr>"

definition plugin_setCondition ::
  "('w, 'sched) sext \<Rightarrow> Plugin \<Rightarrow> string \<Rightarrow> ConditionStatus \<Rightarrow> string \<Rightarrow> string \<Rightarrow> ('w, Plugin) op" where
  "plugin_setCondition x plugin conditionType status reason message = do {
     now \<leftarrow> now_op (base x);
     State_Monad.return
       (with_pstatus (\<lambda>st. st\<lparr>pst_Conditions := k_SetStatusCondition (base x) now (pst_Conditions st)
          (mk_condition conditionType status (m_Generation (pl_Meta plugin)) now reason message)\<rparr>) plugin)
   }"

definition hasCondition :: "Plugin \<Rightarrow> string \<Rightarrow> string \<Rightarrow> bool" where
  "hasCondition plugin conditionType reason =
     list_ex (\<lambda>c. c_Type c = conditionType \<and> c_Reason c = reason) (pst_Conditions (pl_Status plugin))"

definition minecraftVersionsEqual :: "string list \<Rightarrow> string list \<Rightarrow> bool" where
  "minecraftVersionsEqual a b = list_all2 (=) a b"

definition instancesEqual :: "MatchedInstance list \<Rightarrow> MatchedInstance list \<Rightarrow> bool" where
  "instancesEqual a b =
     (length a = length b \<and>
      list_all (\<lambda>mi. case map_of (rev (map (\<lambda>m. (mi_Namespace m @ ''/'' @ mi_Name m, m)) a))
                            (mi_Namespace mi @ ''/'' @ mi_Name mi) of
                  None \<Rightarrow> False
                | Some prev \<Rightarrow> mi_Compatible prev = mi_Compatible mi \<and> mi_Version prev = mi_Version mi) b)"

definition statusEqual :: "PluginStatus \<Rightarrow> PluginStatus \<Rightarrow> bool" where
  "statusEqual a b =
     (pst_RepositoryStatus a = pst_RepositoryStatus b \<and>
      pst_LastFetched a = pst_LastFetched b \<and>
      instancesEqual (pst_MatchedInstances a) (pst_MatchedInstances b) \<and>
      list_all2 (\<lambda>v w. pvi_Version v = pvi_Version w \<and> pvi_DownloadURL v = pvi_DownloadURL w \<and>
                   pvi_Hash v = pvi_Hash w \<and> pvi_CachedAt v = pvi_CachedAt w \<and>
                   pvi_ReleasedAt v = pvi_ReleasedAt w \<and>
                   minecraftVersionsEqual (pvi_MinecraftVersions v) (pvi_MinecraftVersions w))
        (pst_AvailableVersions a) (pst_AvailableVersions b) \<and>
      conditionsEqual (pst_Conditions a) (pst_Conditions b))"

subsection \<open>Metadata of URL plugins\<close>

text \<open>\<^verbatim>\<open>strings.EqualFold\<close> on ASCII, and \<^verbatim>\<open>plugins.DownloadJAR\<close> with its request as an event.\<close>

definition EqualFold :: "string \<Rightarrow> string \<Rightarrow> bool" where
  "EqualFold s t = (ToLower s = ToLower t)"

definition download_jar :: "('w, 'sched) sext \<Rightarrow> string \<Rightarrow> ('w, string result) op" where
  "download_jar x url =
     (case url_Parse url of
        Inl err \<Rightarrow> State_Monad.return (DownloadJAR (\<lambda>_. Inl err) url)
      | Inr u \<Rightarrow> do {
          resp \<leftarrow> call (\<lambda>resp. E_Download url (DownloadJAR (\<lambda>_. resp) url)) (x_httpDo x u);
          State_Monad.return (DownloadJAR (\<lambda>_. resp) url)
        })"

definition record_plugin_api :: "('w, 'sched) sext \<Rightarrow> string \<Rightarrow> 'a result \<Rightarrow> ('w, unit) op" where
  "record_plugin_api x source r = (if k_hasMetrics (base x) then emit (E_PluginAPI source (is_ok r)) else pass)"

definition resolveVersionWithFallback :: "Plugin \<Rightarrow> string \<Rightarrow> string" where
  "resolveVersionWithFallback plugin jarVersion =
     (if jarVersion \<noteq> [] then jarVersion
      else if ps_Version (pl_Spec plugin) \<noteq> [] then ps_Version (pl_Spec plugin)
      else ''0.0.0'')"

definition setFallbackVersionCondition :: "('w, 'sched) sext \<Rightarrow> Plugin \<Rightarrow> string \<Rightarrow> ('w, Plugin) op" where
  "setFallbackVersionCondition x plugin ver =
     (if ver = ''0.0.0''
      then plugin_setCondition x plugin conditionTypeVersionResolved ConditionFalse reasonFallbackVersion
             ''Version could not be extracted from JAR or spec; using 0.0.0 placeholder''
      else plugin_setCondition x plugin conditionTypeVersionResolved ConditionTrue reasonResolved
             ''Version resolved from JAR metadata or spec'')"

definition resolveURLVersion ::
  "('w, 'sched) sext \<Rightarrow> Plugin \<Rightarrow> string \<Rightarrow> string \<Rightarrow> ('w, PluginVersion list \<times> Plugin) op" where
  "resolveURLVersion x plugin jarBytes sha256Hex =
     (let meta = ParseJARMetadata (k_zip_NewReader x) (k_yaml_Unmarshal x) jarBytes;
          ver = resolveVersionWithFallback plugin (case meta of Inl _ \<Rightarrow> [] | Inr jarMeta \<Rightarrow> jm_Version jarMeta);
          mcVersions = (case meta of Inl _ \<Rightarrow> []
                        | Inr jarMeta \<Rightarrow> if jm_APIVersion jarMeta \<noteq> [] then [jm_APIVersion jarMeta] else [])
      in do {
           plugin1 \<leftarrow> setFallbackVersionCondition x plugin ver;
           State_Monad.return
             ([\<lparr>pv_Version = ver, pv_ReleaseDate = zero_time, pv_PaperVersions = [],
                pv_MinecraftVersions = mcVersions, pv_DownloadURL = src_URL (ps_Source (pl_Spec plugin)),
                pv_Hash = sha256Hex\<rparr>], plugin1)
         })"

definition urlCacheValid :: "('w, 'sched) sext \<Rightarrow> Plugin \<Rightarrow> ('w, bool) op" where
  "urlCacheValid x plugin =
     (let source = ps_Source (pl_Spec plugin)
      in case pst_AvailableVersions (pl_Status plugin) of
           [] \<Rightarrow> State_Monad.return False
         | cached # _ \<Rightarrow>
             if pvi_DownloadURL cached \<noteq> src_URL source then State_Monad.return False
             else if pvi_CachedAt cached = zero_time then State_Monad.return False
             else do {
               now \<leftarrow> now_op (base x);
               State_Monad.return
                 (time_Sub now (pvi_CachedAt cached) \<le> urlCacheTTL \<and>
                  (src_Checksum source = [] \<or> ToLower (pvi_Hash cached) = ToLower (src_Checksum source)))
             })"

definition convertCachedVersions :: "PluginVersionInfo list \<Rightarrow> PluginVersion list" where
  "convertCachedVersions cached =
     map (\<lambda>c. \<lparr>pv_Version = pvi_Version c, pv_ReleaseDate = pvi_ReleasedAt c, pv_PaperVersions = [],
               pv_MinecraftVersions = pvi_MinecraftVersions c, pv_DownloadURL = pvi_DownloadURL c,
               pv_Hash = pvi_Hash c\<rparr>) cached"

definition convertToPluginVersionInfo :: "time \<Rightarrow> PluginVersion list \<Rightarrow> PluginVersionInfo list" where
  "convertToPluginVersionInfo now versions =
     map (\<lambda>v. \<lparr>pvi_Version = pv_Version v, pvi_MinecraftVersions = pv_MinecraftVersions v,
               pvi_DownloadURL = pv_DownloadURL v, pvi_Hash = pv_Hash v, pvi_CachedAt = now,
               pvi_ReleasedAt = (if pv_ReleaseDate v = zero_time then now else pv_ReleaseDate v)\<rparr>) versions"

definition preserve_release_date :: "PluginVersionInfo list \<Rightarrow> PluginVersion list \<Rightarrow> PluginVersion list" where
  "preserve_release_date cachedVersions versions =
     (case (cachedVersions, versions) of
        (cached # _, v # vs) \<Rightarrow>
          if pvi_Hash cached \<noteq> [] \<and> EqualFold (pvi_Hash cached) (pv_Hash v) \<and> pvi_ReleasedAt cached \<noteq> zero_time
          then v\<lparr>pv_ReleaseDate := pvi_ReleasedAt cached\<rparr> # vs else versions
      | _ \<Rightarrow> versions)"

definition fetchURLMetadata ::
  "('w, 'sched) sext \<Rightarrow> Plugin \<Rightarrow> ('w, (marked_error + PluginVersion list \<times> bool) \<times> Plugin) op" where
  "fetchURLMetadata x plugin =
     (let source = ps_Source (pl_Spec plugin)
      in case ValidateDownloadURL (src_URL source) of
           Inl err \<Rightarrow> State_Monad.return (Inl (Wrap err ''invalid URL'', Some errInvalidURL), plugin)
         | Inr _ \<Rightarrow> do {
             valid \<leftarrow> urlCacheValid x plugin;
             if valid
             then State_Monad.return (Inr (convertCachedVersions (pst_AvailableVersions (pl_Status plugin)), True), plugin)
             else do {
               d \<leftarrow> download_jar x (src_URL source);
               record_plugin_api x (src_Type source) d;
               case d of
                 Inl downloadErr \<Rightarrow>
                   State_Monad.return (Inl (Wrap downloadErr ''failed to download JAR'', None), plugin)
               | Inr jarBytes \<Rightarrow>
                   let sha256Hex = EncodeToString (Sum256 (string_bytes jarBytes));
                       specChecksum = ToLower (src_Checksum source)
                   in if src_Checksum source \<noteq> [] \<and> sha256Hex \<noteq> specChecksum
                      then State_Monad.return
                             (Inl (Newf ''checksum mismatch: expected %s, got %s'' [AStr specChecksum, AStr sha256Hex],
                                   Some errChecksumMismatch), plugin)
                      else do {
                        (versions, plugin1) \<leftarrow> resolveURLVersion x plugin jarBytes sha256Hex;
                        State_Monad.return
                          (Inr (preserve_release_date (pst_AvailableVersions (pl_Status plugin1)) versions, False), plugin1)
                      }
             }
           })"

subsection \<open>Metadata and matched servers\<close>

definition fetchHangarMetadata :: "('w, 'sched) sext \<Rightarrow> Plugin \<Rightarrow> ('w, PluginVersion list result) op" where
  "fetchHangarMetadata x plugin = do {
     r \<leftarrow> silent (x_getVersions x (src_Project (ps_Source (pl_Spec plugin))));
     record_plugin_api x (src_Type (ps_Source (pl_Spec plugin))) r;
     State_Monad.return (case r of
        Inl err \<Rightarrow> Inl (Wrap err ''failed to fetch versions from repository'') | Inr versions \<Rightarrow> Inr versions)
   }"

definition fetchPluginMetadata ::
  "('w, 'sched) sext \<Rightarrow> Plugin \<Rightarrow> ('w, (marked_error + PluginVersion list \<times> bool) \<times> Plugin) op" where
  "fetchPluginMetadata x plugin =
     (let ty = src_Type (ps_Source (pl_Spec plugin))
      in if ty = gcSourceURL then fetchURLMetadata x plugin
         else if ty = gcSourceHangar then do {
           r \<leftarrow> fetchHangarMetadata x plugin;
           State_Monad.return (case r of Inl err \<Rightarrow> Inl (err, None) | Inr versions \<Rightarrow> Inr (versions, False), plugin)
         }
         else State_Monad.return
                (Inl (Newf ''source type %q is not yet implemented'' [AStr ty], Some errUnsupportedSourceType), plugin))"

definition handleRepositoryError ::
  "('w, 'sched) sext \<Rightarrow> Plugin \<Rightarrow> goerror \<Rightarrow> ('w, PluginVersion list \<times> duration \<times> Plugin) op" where
  "handleRepositoryError x plugin repoErr =
     (if pst_AvailableVersions (pl_Status plugin) \<noteq> [] then do {
        plugin1 \<leftarrow> plugin_setCondition x (with_pstatus (\<lambda>st. st\<lparr>pst_RepositoryStatus := repositoryStatusOrphaned\<rparr>) plugin)
          conditionTypeRepositoryAvailable ConditionFalse reasonUnavailable ''Repository unavailable, using cached data'';
        State_Monad.return (convertCachedVersions (pst_AvailableVersions (pl_Status plugin1)), 0, plugin1)
      }
      else do {
        plugin1 \<leftarrow> plugin_setCondition x (with_pstatus (\<lambda>st. st\<lparr>pst_RepositoryStatus := repositoryStatusUnavailable\<rparr>) plugin)
          conditionTypeRepositoryAvailable ConditionFalse reasonUnavailable (k_Error (base x) repoErr);
        State_Monad.return ([], 5 * Minute, plugin1)
      })"

text \<open>The three permanent errors have the same shape: a status, two conditions and no requeue.\<close>

definition permanent_error ::
  "('w, 'sched) sext \<Rightarrow> Plugin \<Rightarrow> string \<Rightarrow> goerror \<Rightarrow> string \<Rightarrow> ('w, PluginVersion list \<times> duration \<times> Plugin) op" where
  "permanent_error x plugin reason repoErr message = do {
     plugin1 \<leftarrow> plugin_setCondition x (with_pstatus (\<lambda>st. st\<lparr>pst_RepositoryStatus := repositoryStatusUnavailable\<rparr>) plugin)
       conditionTypeRepositoryAvailable ConditionFalse reason (k_Error (base x) repoErr);
     plugin2 \<leftarrow> plugin_setCondition x plugin1 conditionTypeVersionResolved ConditionFalse reason message;
     State_Monad.return ([], 0, plugin2)
   }"

text \<open>\<open>syncPluginMetadata\<close> never returns an error in the source; the model leaves that result out.\<close>

definition syncPluginMetadata ::
  "('w, 'sched) sext \<Rightarrow> Plugin \<Rightarrow> ('w, PluginVersion list \<times> duration \<times> Plugin) op" where
  "syncPluginMetadata x plugin = do {
     (f, plugin1) \<leftarrow> fetchPluginMetadata x plugin;
     case f of
       Inl (repoErr, mark) \<Rightarrow>
         (case mark of
            Some errChecksumMismatch \<Rightarrow>
              permanent_error x plugin1 reasonChecksumMismatch repoErr ''Cannot resolve version: checksum mismatch''
          | Some errInvalidURL \<Rightarrow>
              permanent_error x plugin1 reasonUnavailable repoErr ''Cannot resolve version: invalid URL''
          | Some errUnsupportedSourceType \<Rightarrow>
              permanent_error x plugin1 reasonUnavailable repoErr ''Cannot resolve version: unsupported source type''
          | None \<Rightarrow> handleRepositoryError x plugin1 repoErr)
     | Inr (allVersions, cacheHit) \<Rightarrow>
         if cacheHit then State_Monad.return (allVersions, 0, plugin1)
         else do {
           plugin2 \<leftarrow> plugin_setCondition x
             (with_pstatus (\<lambda>st. st\<lparr>pst_RepositoryStatus := repositoryStatusAvailable\<rparr>) plugin1)
             conditionTypeRepositoryAvailable ConditionTrue reasonAvailable ''Repository accessible'';
           now \<leftarrow> now_op (base x);
           cachedAt \<leftarrow> now_op (base x);
           State_Monad.return
             (allVersions, 0, with_pstatus (\<lambda>st. st\<lparr>pst_LastFetched := Some now,
                pst_AvailableVersions := convertToPluginVersionInfo cachedAt allVersions\<rparr>) plugin2)
         }
   }"

definition findMatchedServers :: "('w, 'sched) sext \<Rightarrow> Plugin \<Rightarrow> ('w, PaperMCServer list result) op" where
  "findMatchedServers x plugin = do {
     r \<leftarrow> FindMatchingServers x (pl_Namespace plugin) (ps_InstanceSelector (pl_Spec plugin));
     State_Monad.return (case r of Inl err \<Rightarrow> Inl (Wrap err ''failed to find matching servers'') | Inr ss \<Rightarrow> Inr ss)
   }"

definition buildMatchedInstances :: "PaperMCServer list \<Rightarrow> string \<Rightarrow> string \<Rightarrow> MatchedInstance list" where
  "buildMatchedInstances servers pluginName pluginNamespace =
     map (\<lambda>server. \<lparr>mi_Name = sv_Name server, mi_Namespace = sv_Namespace server,
            mi_Version = st_CurrentVersion (sv_Status server),
            mi_Compatible =
              (case find (\<lambda>ps. pr_Name (sp_PluginRef ps) = pluginName \<and> pr_Namespace (sp_PluginRef ps) = pluginNamespace)
                      (st_Plugins (sv_Status server)) of
                 None \<Rightarrow> False | Some ps \<Rightarrow> sp_Compatible ps)\<rparr>) servers"

definition plugin_doReconcile :: "('w, 'sched) sext \<Rightarrow> Plugin \<Rightarrow> ('w, duration result \<times> Plugin) op" where
  "plugin_doReconcile x plugin = do {
     (allVersions, after, plugin1) \<leftarrow> syncPluginMetadata x plugin;
     m \<leftarrow> findMatchedServers x plugin1;
     case m of
       Inl err \<Rightarrow> State_Monad.return (Inl err, plugin1)
     | Inr matchedServers \<Rightarrow>
         let plugin2 = with_pstatus (\<lambda>st. st\<lparr>pst_MatchedInstances :=
                         buildMatchedInstances matchedServers (pl_Name plugin1) (pl_Namespace plugin1)\<rparr>) plugin1
         in if allVersions = [] then State_Monad.return (Inr after, plugin2)
            else do {
              plugin3 \<leftarrow> (if hasCondition plugin2 conditionTypeVersionResolved reasonFallbackVersion
                          then State_Monad.return plugin2
                          else plugin_setCondition x plugin2 conditionTypeVersionResolved ConditionTrue reasonResolved
                                 ''Metadata fetched and servers matched'');
              State_Monad.return (Inr (15 * Minute), plugin3)
            }
   }"

subsection \<open>Deletion\<close>

definition set_progress :: "Plugin \<Rightarrow> DeletionProgressEntry list \<Rightarrow> Plugin" where
  "set_progress plugin es = with_pstatus (\<lambda>st. st\<lparr>pst_DeletionProgress := es\<rparr>) plugin"

abbreviation progress :: "Plugin \<Rightarrow> DeletionProgressEntry list" where
  "progress plugin \<equiv> pst_DeletionProgress (pl_Status plugin)"

definition initDeletionProgressIfNeeded :: "('w, 'sched) sext \<Rightarrow> Plugin \<Rightarrow> ('w, Plugin result) op" where
  "initDeletionProgressIfNeeded x plugin =
     (if progress plugin \<noteq> [] then State_Monad.return (Inr plugin)
      else do {
        m \<leftarrow> findMatchedServers x plugin;
        case m of
          Inl err \<Rightarrow> State_Monad.return (Inl (Wrap err ''failed to find matched servers''))
        | Inr matchedServers \<Rightarrow> do {
            now \<leftarrow> now_op (base x);
            u \<leftarrow> plugin_status_update (base x)
                  (set_progress plugin (map (\<lambda>server. \<lparr>dp_ServerName = sv_Name server, dp_Namespace = sv_Namespace server,
                     dp_JARDeleted = False, dp_DeletedAt = None, dp_DeletionRequestedAt = Some now\<rparr>) matchedServers));
            State_Monad.return (case u of
               Inl err \<Rightarrow> Inl (Wrap err ''failed to initialize deletion progress'') | Inr p \<Rightarrow> Inr p)
          }
      })"

text \<open>
  The clock is read once for the entries' completion time and again for each entry that is still
  open and has a request time.
\<close>

fun force_complete_loop ::
  "('w, 'sched) sext \<Rightarrow> time \<Rightarrow> DeletionProgressEntry list \<Rightarrow> ('w, DeletionProgressEntry list) op" where
  "force_complete_loop x now [] = State_Monad.return []"
| "force_complete_loop x now (entry # es) = do {
     entry' \<leftarrow>
       (case dp_DeletionRequestedAt entry of
          Some requestedAt \<Rightarrow>
            if dp_JARDeleted entry then State_Monad.return entry
            else do {
              t \<leftarrow> now_op (base x);
              State_Monad.return
                (if time_Sub t requestedAt > deletionTimeout
                 then entry\<lparr>dp_JARDeleted := True, dp_DeletedAt := Some now\<rparr> else entry)
            }
        | None \<Rightarrow> State_Monad.return entry);
     rest \<leftarrow> force_complete_loop x now es;
     State_Monad.return (entry' # rest)
   }"

definition forceCompleteStaleDeletions :: "('w, 'sched) sext \<Rightarrow> Plugin \<Rightarrow> ('w, Plugin) op" where
  "forceCompleteStaleDeletions x plugin = do {
     now \<leftarrow> now_op (base x);
     es \<leftarrow> force_complete_loop x now (progress plugin);
     State_Monad.return (set_progress plugin es)
   }"

definition allJARsDeleted :: "Plugin \<Rightarrow> bool" where
  "allJARsDeleted plugin = list_all dp_JARDeleted (progress plugin)"

fun remaining_loop ::
  "('w, 'sched) sext \<Rightarrow> DeletionProgressEntry list \<Rightarrow> ('w, DeletionProgressEntry list) op" where
  "remaining_loop x [] = State_Monad.return []"
| "remaining_loop x (entry # es) =
     (if dp_JARDeleted entry then do {
        rest \<leftarrow> remaining_loop x es;
        State_Monad.return (entry # rest)
      }
      else do {
        g \<leftarrow> get_server (base x) (dp_Namespace entry) (dp_ServerName entry);
        rest \<leftarrow> remaining_loop x es;
        State_Monad.return
          (case g of Inl err \<Rightarrow> if IsNotFound err then rest else entry # rest | Inr _ \<Rightarrow> entry # rest)
      })"

definition cleanupDeletedServers :: "('w, 'sched) sext \<Rightarrow> Plugin \<Rightarrow> ('w, Plugin result) op" where
  "cleanupDeletedServers x plugin =
     (if progress plugin = [] then State_Monad.return (Inr plugin)
      else do {
        remaining \<leftarrow> remaining_loop x (progress plugin);
        if length remaining \<noteq> length (progress plugin) then do {
          u \<leftarrow> plugin_status_update (base x) (set_progress plugin remaining);
          State_Monad.return (case u of
             Inl err \<Rightarrow> Inl (Wrap err ''failed to update deletion progress after cleanup'') | Inr p \<Rightarrow> Inr p)
        }
        else State_Monad.return (Inr plugin)
      })"

fun mark_deleted :: "time \<Rightarrow> string \<Rightarrow> string \<Rightarrow> DeletionProgressEntry list \<Rightarrow> DeletionProgressEntry list" where
  "mark_deleted now serverName namespace [] = []"
| "mark_deleted now serverName namespace (e # es) =
     (if dp_ServerName e = serverName \<and> dp_Namespace e = namespace
      then e\<lparr>dp_JARDeleted := True, dp_DeletedAt := Some now\<rparr> # es
      else e # mark_deleted now serverName namespace es)"

definition markJARAsDeleted :: "('w, 'sched) sext \<Rightarrow> Plugin \<Rightarrow> string \<Rightarrow> string \<Rightarrow> ('w, Plugin result) op" where
  "markJARAsDeleted x plugin serverName namespace = do {
     now \<leftarrow> now_op (base x);
     u \<leftarrow> plugin_status_update (base x) (set_progress plugin (mark_deleted now serverName namespace (progress plugin)));
     State_Monad.return (case u of Inl err \<Rightarrow> Inl (Wrap err ''failed to update deletion progress'') | Inr p \<Rightarrow> Inr p)
   }"

text \<open>
  The first entry of the plugin in a server's status, with its deletion mark set: the name of the
  installed JAR, whether the mark is new, and the entries.
\<close>

fun mark_pending ::
  "Plugin \<Rightarrow> ServerPluginStatus list \<Rightarrow> (string \<times> bool \<times> ServerPluginStatus list) option" where
  "mark_pending plugin [] = None"
| "mark_pending plugin (e # es) =
     (if pr_Name (sp_PluginRef e) = pl_Name plugin \<and> pr_Namespace (sp_PluginRef e) = pl_Namespace plugin
      then Some (sp_InstalledJARName e, \<not> sp_PendingDeletion e, e\<lparr>sp_PendingDeletion := True\<rparr> # es)
      else (case mark_pending plugin es of
              None \<Rightarrow> None | Some (jar, updated, rest) \<Rightarrow> Some (jar, updated, e # rest)))"

text \<open>
  The loop runs over the entries as they were when it started; an entry that \<open>markJARAsDeleted\<close>
  changes is the one being visited or an earlier one of the same server.
\<close>

fun mark_loop :: "('w, 'sched) sext \<Rightarrow> Plugin \<Rightarrow> DeletionProgressEntry list \<Rightarrow> ('w, Plugin result) op" where
  "mark_loop x plugin [] = State_Monad.return (Inr plugin)"
| "mark_loop x plugin (entry # es) =
     (if dp_JARDeleted entry then mark_loop x plugin es
      else do {
        g \<leftarrow> get_server (base x) (dp_Namespace entry) (dp_ServerName entry);
        case g of
          Inl err \<Rightarrow>
            if IsNotFound err then do {
              m \<leftarrow> markJARAsDeleted x plugin (dp_ServerName entry) (dp_Namespace entry);
              case m of Inl e \<Rightarrow> State_Monad.return (Inl e) | Inr plugin1 \<Rightarrow> mark_loop x plugin1 es
            }
            else State_Monad.return
                   (Inl (Wrapf err ''failed to get server %s/%s'' [AStr (dp_Namespace entry), AStr (dp_ServerName entry)]))
        | Inr server \<Rightarrow>
            (case mark_pending plugin (st_Plugins (sv_Status server)) of
               Some (jar # jars, updated, entries) \<Rightarrow>
                 if updated then do {
                   u \<leftarrow> status_update (base x) (with_status (\<lambda>st. st\<lparr>st_Plugins := entries\<rparr>) server);
                   case u of
                     Inl err \<Rightarrow>
                       State_Monad.return
                         (Inl (Wrapf err ''failed to mark plugin for deletion on server %s'' [AStr (sv_Name server)]))
                   | Inr _ \<Rightarrow> mark_loop x plugin es
                 }
                 else mark_loop x plugin es
             | _ \<Rightarrow> do {
                 m \<leftarrow> markJARAsDeleted x plugin (dp_ServerName entry) (dp_Namespace entry);
                 case m of Inl e \<Rightarrow> State_Monad.return (Inl e) | Inr plugin1 \<Rightarrow> mark_loop x plugin1 es
               })
      })"

definition markPluginForDeletionOnServers :: "('w, 'sched) sext \<Rightarrow> Plugin \<Rightarrow> ('w, Plugin result) op" where
  "markPluginForDeletionOnServers x plugin = mark_loop x plugin (progress plugin)"

definition set_finalizers :: "Plugin \<Rightarrow> string list \<Rightarrow> Plugin" where
  "set_finalizers plugin fs = plugin\<lparr>pl_Meta := (pl_Meta plugin)\<lparr>m_Finalizers := fs\<rparr>\<rparr>"

definition has_finalizer :: "('w, 'sched) sext \<Rightarrow> Plugin \<Rightarrow> bool" where
  "has_finalizer x plugin = k_ContainsFinalizer x (m_Finalizers (pl_Meta plugin)) PluginFinalizer"

definition removeFinalizer :: "('w, 'sched) sext \<Rightarrow> Plugin \<Rightarrow> ('w, reconcile_result) op" where
  "removeFinalizer x plugin = do {
     u \<leftarrow> update_plugin x (set_finalizers plugin (k_RemoveFinalizer x (m_Finalizers (pl_Meta plugin)) PluginFinalizer));
     State_Monad.return (0, case u of Inl err \<Rightarrow> Some (Wrap err ''failed to remove finalizer'') | Inr _ \<Rightarrow> None)
   }"

definition reconcileDelete :: "('w, 'sched) sext \<Rightarrow> Plugin \<Rightarrow> ('w, reconcile_result) op" where
  "reconcileDelete x plugin =
     (if \<not> has_finalizer x plugin then State_Monad.return (0, None)
      else do {
        i \<leftarrow> initDeletionProgressIfNeeded x plugin;
        case i of
          Inl err \<Rightarrow> State_Monad.return (0, Some err)
        | Inr plugin1 \<Rightarrow> do {
            c \<leftarrow> cleanupDeletedServers x plugin1;
            case c of
              Inl err \<Rightarrow> State_Monad.return (0, Some (Wrap err ''failed to cleanup deleted servers''))
            | Inr plugin2 \<Rightarrow> do {
                m \<leftarrow> markPluginForDeletionOnServers x plugin2;
                case m of
                  Inl err \<Rightarrow> State_Monad.return (0, Some (Wrap err ''failed to mark plugin for deletion''))
                | Inr plugin3 \<Rightarrow> do {
                    plugin4 \<leftarrow> forceCompleteStaleDeletions x plugin3;
                    u \<leftarrow> plugin_status_update (base x) plugin4;
                    case u of
                      Inl err \<Rightarrow>
                        State_Monad.return
                          (0, if IsNotFound err then None else Some (Wrap err ''failed to persist force-completion''))
                    | Inr plugin5 \<Rightarrow>
                        if \<not> allJARsDeleted plugin5 then State_Monad.return (30 * Second, None)
                        else removeFinalizer x plugin5
                  }
              }
          }
      })"

subsection \<open>The reconciliation\<close>

definition plugin_reconcile_fetched :: "('w, 'sched) sext \<Rightarrow> Plugin \<Rightarrow> ('w, reconcile_result) op" where
  "plugin_reconcile_fetched x plugin =
     (if m_DeletionTimestamp (pl_Meta plugin) \<notin> {None, Some zero_time} then reconcileDelete x plugin
      else if \<not> has_finalizer x plugin then do {
        u \<leftarrow> update_plugin x (set_finalizers plugin (k_AddFinalizer x (m_Finalizers (pl_Meta plugin)) PluginFinalizer));
        State_Monad.return (0, case u of Inl err \<Rightarrow> Some (Wrap err ''failed to add finalizer'') | Inr _ \<Rightarrow> None)
      }
      else do {
        (r, plugin1) \<leftarrow> plugin_doReconcile x plugin;
        plugin2 \<leftarrow>
          (case r of
             Inl err \<Rightarrow> plugin_setCondition x plugin1 conditionTypeReady ConditionFalse reasonReconcileError (k_Error (base x) err)
           | Inr _ \<Rightarrow> plugin_setCondition x plugin1 conditionTypeReady ConditionTrue reasonReconcileSuccess
                        ''Plugin reconciled successfully'');
        e \<leftarrow>
          (if \<not> is_ok r \<or> \<not> statusEqual (pl_Status plugin2) (pl_Status plugin) then do {
             u \<leftarrow> plugin_status_update (base x) plugin2;
             State_Monad.return (case r of Inl err \<Rightarrow> Some err
                | Inr _ \<Rightarrow> (case u of Inl updateErr \<Rightarrow> Some updateErr | Inr _ \<Rightarrow> None))
           }
           else State_Monad.return None);
        State_Monad.return
          (case e of Some err \<Rightarrow> (0, Some err)
           | None \<Rightarrow> (case r of Inl _ \<Rightarrow> 0 | Inr after \<Rightarrow> after, None))
      })"

definition PluginReconciler_Reconcile ::
  "('w, 'sched) sext \<Rightarrow> string \<Rightarrow> string \<Rightarrow> ('w, reconcile_result) op" where
  "PluginReconciler_Reconcile x ns n = do {
     g \<leftarrow> get_plugin (base x) ns n;
     case g of
       Inl err \<Rightarrow>
         if IsNotFound err then State_Monad.return (0, None)
         else record_reconcile (base x) ''plugin'' (0, Some (Wrap err ''failed to get plugin''))
     | Inr plugin \<Rightarrow> do {
         res \<leftarrow> plugin_reconcile_fetched x plugin;
         record_reconcile (base x) ''plugin'' res
       }
   }"

text \<open>The plugins to reconcile when a server changed, as name and namespace; a plugin with an invalid selector is skipped.\<close>

definition findPluginsForServer :: "('w, 'sched) sext \<Rightarrow> PaperMCServer \<Rightarrow> ('w, (string \<times> string) list) op" where
  "findPluginsForServer x server = do {
     l \<leftarrow> list_plugins (base x) (sv_Namespace server);
     State_Monad.return
       (case l of
          Inl _ \<Rightarrow> []
        | Inr plugins \<Rightarrow>
            map (\<lambda>plugin. (pl_Name plugin, pl_Namespace plugin))
              (filter (\<lambda>plugin. MatchesSelector x (sv_Labels server) (ps_InstanceSelector (pl_Spec plugin)) = Inr True) plugins))
   }"

subsection \<open>No JAR is left behind without a reason\<close>

definition no_jar :: "Plugin \<Rightarrow> PaperMCServer \<Rightarrow> bool" where
  "no_jar plugin server \<longleftrightarrow>
     (case find (\<lambda>e. pr_Name (sp_PluginRef e) = pl_Name plugin \<and> pr_Namespace (sp_PluginRef e) = pl_Namespace plugin)
             (st_Plugins (sv_Status server)) of
        None \<Rightarrow> True | Some e \<Rightarrow> sp_InstalledJARName e = [])"

definition settled :: "Plugin \<Rightarrow> event list \<Rightarrow> DeletionProgressEntry \<Rightarrow> bool" where
  "settled plugin u e \<longleftrightarrow>
     dp_JARDeleted e
   \<or> (\<exists>err. E_GetServer (dp_Namespace e) (dp_ServerName e) (Inl err) \<in> set u \<and> IsNotFound err)
   \<or> (\<exists>server. E_GetServer (dp_Namespace e) (dp_ServerName e) (Inr server) \<in> set u \<and> no_jar plugin server)
   \<or> (\<exists>t r. E_Now t \<in> set u \<and> dp_DeletionRequestedAt e = Some r \<and> time_Sub t r > deletionTimeout)"

definition same_entry :: "DeletionProgressEntry \<Rightarrow> DeletionProgressEntry \<Rightarrow> bool" where
  "same_entry e f \<longleftrightarrow> dp_ServerName e = dp_ServerName f \<and> dp_Namespace e = dp_Namespace f
     \<and> dp_DeletionRequestedAt e = dp_DeletionRequestedAt f"

definition covered :: "Plugin \<Rightarrow> event list \<Rightarrow> DeletionProgressEntry list \<Rightarrow> DeletionProgressEntry list \<Rightarrow> bool" where
  "covered plugin u es fs \<longleftrightarrow>
     (\<forall>e \<in> set es. settled plugin u e \<or> (\<exists>f \<in> set fs. same_entry e f \<and> \<not> dp_JARDeleted f))"

lemma settled_mono: "settled plugin u e \<Longrightarrow> set u \<subseteq> set v \<Longrightarrow> settled plugin v e"
  unfolding settled_def by blast

lemma settled_same: "settled plugin u f \<Longrightarrow> same_entry e f \<Longrightarrow> \<not> dp_JARDeleted f \<Longrightarrow> settled plugin u e"
  unfolding settled_def same_entry_def by auto

lemma covered_refl [simp]: "covered plugin u es es"
  by (auto simp: covered_def settled_def same_entry_def)

lemma covered_mono: "covered plugin u es fs \<Longrightarrow> set u \<subseteq> set v \<Longrightarrow> covered plugin v es fs"
  unfolding covered_def by (meson settled_mono)

lemma covered_trans:
  assumes "covered plugin u es fs" "covered plugin u fs gs"
  shows "covered plugin u es gs"
  unfolding covered_def
proof
  fix e assume "e \<in> set es"
  with assms(1) consider "settled plugin u e" | f where "f \<in> set fs" "same_entry e f" "\<not> dp_JARDeleted f"
    unfolding covered_def by blast
  then show "settled plugin u e \<or> (\<exists>g \<in> set gs. same_entry e g \<and> \<not> dp_JARDeleted g)"
  proof cases
    case 2
    with assms(2) consider "settled plugin u f" | g where "g \<in> set gs" "same_entry f g" "\<not> dp_JARDeleted g"
      unfolding covered_def by blast
    then show ?thesis
    proof cases
      case 1
      then show ?thesis using settled_same 2 by blast
    next
      case 2
      moreover from this \<open>same_entry e f\<close> have "same_entry e g" by (simp add: same_entry_def)
      ultimately show ?thesis by blast
    qed
  qed simp
qed

lemma covered_all_deleted: "covered plugin u es fs \<Longrightarrow> list_all dp_JARDeleted fs \<Longrightarrow> e \<in> set es \<Longrightarrow> settled plugin u e"
  unfolding covered_def list_all_iff by blast

lemma covered_more: "covered plugin u es fs \<Longrightarrow> set fs \<subseteq> set gs \<Longrightarrow> covered plugin u es gs"
  unfolding covered_def by blast

lemma covered_step:
  assumes "covered plugin v es fs" "set v \<subseteq> set u" "set fs \<subseteq> set gs" "settled plugin u e \<or> e \<in> set gs"
  shows "covered plugin u (e # es) gs"
proof -
  have "settled plugin u e \<or> (\<exists>f \<in> set gs. same_entry e f \<and> \<not> dp_JARDeleted f)"
    using assms(4) by (auto simp: same_entry_def settled_def)
  with covered_more [OF covered_mono [OF assms(1,2)] assms(3)] show ?thesis by (simp add: covered_def)
qed

lemma remaining_loop_emits: "emits (remaining_loop x es) (\<lambda>fs u. covered plugin u es fs)"
proof (induction es)
  case (Cons e es)
  show ?case unfolding remaining_loop.simps call_ops
    by (intro tr_rules tr_bind_emits [OF Cons])
      (auto intro!: covered_step simp: settled_def split: sum.split)
qed (auto intro: tr_rules simp: covered_def)

lemma mark_deleted_covered:
  assumes "\<And>e. dp_ServerName e = n \<Longrightarrow> dp_Namespace e = ns \<Longrightarrow> settled plugin u e"
  shows "covered plugin u es (mark_deleted t n ns es)"
proof (induction es)
  case (Cons e es)
  show ?case
  proof (cases "dp_ServerName e = n \<and> dp_Namespace e = ns")
    case True
    then have "settled plugin u e" using assms by blast
    with True show ?thesis by (auto intro!: covered_step [OF covered_refl [of _ u es]])
  next
    case False
    then show ?thesis by (auto intro!: covered_step [OF Cons])
  qed
qed (simp add: covered_def)

lemma force_loop_emits: "emits (force_complete_loop x now es) (\<lambda>fs u. covered plugin u es fs)"
proof (induction es)
  case (Cons e es)
  show ?case unfolding force_complete_loop.simps call_ops
    by (intro tr_rules tr_bind_emits [OF Cons]) (auto intro!: covered_step simp: settled_def)
qed (auto intro: tr_rules simp: covered_def)

lemma mark_pending_no_jar:
  "no_jar plugin server \<longleftrightarrow>
     (case mark_pending plugin (st_Plugins (sv_Status server)) of None \<Rightarrow> True | Some (jar, _, _) \<Rightarrow> jar = [])"
proof -
  have "(case find (\<lambda>e. pr_Name (sp_PluginRef e) = pl_Name plugin \<and> pr_Namespace (sp_PluginRef e) = pl_Namespace plugin) es of
        None \<Rightarrow> True | Some e \<Rightarrow> sp_InstalledJARName e = [])
      = (case mark_pending plugin es of None \<Rightarrow> True | Some (jar, _, _) \<Rightarrow> jar = [])" for es
    by (induction es) (auto split: option.splits)
  then show ?thesis unfolding no_jar_def .
qed

text \<open>An API server that answers a status update with the object as it was sent, up to server-side metadata.\<close>

definition status_echo :: "('w, 'sched) sext \<Rightarrow> bool" where
  "status_echo x \<longleftrightarrow>
     (\<forall>p w. case fst (x_pluginStatusUpdate (base x) p w) of
        Inl _ \<Rightarrow> True
      | Inr p' \<Rightarrow> pl_Status p' = pl_Status p \<and> pl_Name p' = pl_Name p \<and> pl_Namespace p' = pl_Namespace p)"

definition same_plugin :: "Plugin \<Rightarrow> Plugin \<Rightarrow> bool" where
  "same_plugin p q \<longleftrightarrow> pl_Name p = pl_Name q \<and> pl_Namespace p = pl_Namespace q"

lemma settled_plugin: "same_plugin p q \<Longrightarrow> settled p u e = settled q u e"
  by (simp add: settled_def no_jar_def same_plugin_def)

lemma status_echoD:
  "status_echo x \<Longrightarrow> fst (x_pluginStatusUpdate (base x) p w) = Inr p' \<Longrightarrow> pl_Status p' = pl_Status p \<and> same_plugin p p'"
  unfolding status_echo_def same_plugin_def by (drule spec [of _ p], drule spec [of _ w]) simp

definition advances :: "Plugin \<Rightarrow> Plugin \<Rightarrow> Plugin result \<Rightarrow> event list \<Rightarrow> bool" where
  "advances P plugin r u \<longleftrightarrow>
     (\<forall>p'. r = Inr p' \<longrightarrow> same_plugin P p' \<and> covered P u (progress plugin) (progress p'))"

lemma same_plugin_simps [simp]: "same_plugin p p" "same_plugin P (set_progress p es) = same_plugin P p"
  "same_plugin (set_progress p es) P = same_plugin p P"
  "progress (set_progress p es) = es"
  by (simp_all add: same_plugin_def set_progress_def with_pstatus_def)

lemma same_plugin_trans: "same_plugin p q \<Longrightarrow> same_plugin q r \<Longrightarrow> same_plugin p r"
  by (simp add: same_plugin_def)

lemma advances_trans: "advances P plugin (Inr q) u \<Longrightarrow> advances P q r v \<Longrightarrow> advances P plugin r (u @ v)"
proof -
  assume a: "advances P plugin (Inr q) u" "advances P q r v"
  have "covered P (u @ v) (progress plugin) (progress p')" if "covered P v (progress q) (progress p')" for p'
    using covered_trans [of P "u @ v" "progress plugin" "progress q"] covered_mono [OF that, of "u @ v"]
      covered_mono [of P u "progress plugin" "progress q" "u @ v"] a(1) by (simp add: advances_def)
  with a show ?thesis by (simp add: advances_def)
qed

lemma plugin_status_update_emits:
  assumes "status_echo x"
  shows "emits (plugin_status_update (base x) p)
     (\<lambda>r u. \<exists>ok. u = [E_PluginStatusUpdate p ok] \<and> (case r of Inl _ \<Rightarrow> True | Inr p' \<Rightarrow> progress p' = progress p \<and> same_plugin p p'))"
  unfolding call_ops by (intro tr_rules) (auto dest: status_echoD [OF assms] split: sum.split)

lemma cleanupDeletedServers_emits:
  assumes "status_echo x" "same_plugin P plugin"
  shows "emits (cleanupDeletedServers x plugin) (advances P plugin)"
  unfolding cleanupDeletedServers_def
  by (intro tr_rules tr_bind_emits [OF remaining_loop_emits [of x _ P]] tr_bind_emits [OF plugin_status_update_emits [OF assms(1)]])
    (auto simp: advances_def assms(2) elim: covered_mono same_plugin_trans [OF assms(2)] split: sum.splits)

lemma markJARAsDeleted_emits:
  assumes "status_echo x" "same_plugin P plugin"
    and "\<And>e. dp_ServerName e = n \<Longrightarrow> dp_Namespace e = ns \<Longrightarrow> settled P v e"
  shows "tr (markJARAsDeleted x plugin n ns) v (advances P plugin)"
proof -
  have mark: "covered P u (progress plugin) (mark_deleted t n ns (progress plugin))" if "set v \<subseteq> set u" for t u
    by (rule covered_mono [OF mark_deleted_covered [OF assms(3)] that])
  have sp: "same_plugin plugin q \<Longrightarrow> same_plugin P q" for q by (rule same_plugin_trans [OF assms(2)])
  show ?thesis
    unfolding markJARAsDeleted_def now_op_def
    by (intro tr_rules tr_bind_emits [OF plugin_status_update_emits [OF assms(1)]])
      (auto simp: advances_def intro: mark sp split: sum.splits)
qed

lemma no_jar_plugin: "same_plugin p q \<Longrightarrow> no_jar p = no_jar q"
  by (simp add: no_jar_def same_plugin_def fun_eq_iff)

lemma mark_loop_emits:
  assumes "status_echo x" "same_plugin P plugin"
  shows "emits (mark_loop x plugin es) (advances P plugin)"
  using assms(2)
proof (induction es arbitrary: plugin)
  case (Cons e es)
  have later: "tr (mark_loop x p es) u (advances P plugin)" if "advances P plugin (Inr p) u" for p u
    by (rule tr_emits [OF Cons.IH]) (use that in \<open>simp add: advances_def\<close>, rule advances_trans [OF that])
  have refl: "advances P plugin (Inr plugin) u" for u using Cons.prems by (simp add: advances_def)
  have err: "advances P plugin (Inl er) u" for er u by (simp add: advances_def)
  show ?case unfolding mark_loop.simps get_server_def status_update_def
    by (intro tr_rules tr_bind [OF markJARAsDeleted_emits [OF assms(1) Cons.prems]] later refl err)
      (auto simp: settled_def no_jar_plugin [OF Cons.prems] mark_pending_no_jar advances_def)
qed (auto intro: tr_rules simp: advances_def)

definition fresh_entry :: "time \<Rightarrow> PaperMCServer \<Rightarrow> DeletionProgressEntry" where
  "fresh_entry now server = \<lparr>dp_ServerName = sv_Name server, dp_Namespace = sv_Namespace server,
     dp_JARDeleted = False, dp_DeletedAt = None, dp_DeletionRequestedAt = Some now\<rparr>"

text \<open>The entries a deletion has to settle: those of the status, or one for each selected server when there are none.\<close>

definition to_delete :: "('w, 'sched) sext \<Rightarrow> Plugin \<Rightarrow> event list \<Rightarrow> DeletionProgressEntry list \<Rightarrow> bool" where
  "to_delete x plugin u es \<longleftrightarrow>
     (if progress plugin \<noteq> [] then es = progress plugin
      else (\<exists>all now. E_ListServers (pl_Namespace plugin) (Inr all) \<in> set u \<and> E_Now now \<in> set u
              \<and> es = map (fresh_entry now) (filter (selects x plugin) all)))"

lemma to_delete_mono: "to_delete x plugin u es \<Longrightarrow> set u \<subseteq> set v \<Longrightarrow> to_delete x plugin v es"
  unfolding to_delete_def by (auto split: if_splits)

definition no_update :: "event \<Rightarrow> bool" where
  "no_update e \<longleftrightarrow> (\<nexists>p ok. e = E_UpdatePlugin p ok)"

lemma no_update_simps [simp]:
  "no_update (E_Now t)" "no_update (E_GetServer ns n r)" "no_update (E_PluginStatusUpdate p ok)"
  "no_update (E_ListServers ns l)" "no_update (E_StatusUpdate s ok)" "\<not> no_update (E_UpdatePlugin p ok)"
  by (simp_all add: no_update_def)

lemma initDeletion_emits:
  assumes "status_echo x"
  shows "emits (initDeletionProgressIfNeeded x plugin)
     (\<lambda>r u. case r of Inl _ \<Rightarrow> True | Inr p' \<Rightarrow> same_plugin plugin p' \<and> to_delete x plugin u (progress p'))"
  unfolding initDeletionProgressIfNeeded_def findMatchedServers_def now_op_def
  by (intro tr_rules tr_bind_emits [OF FindMatchingServers_emits] tr_bind_emits [OF plugin_status_update_emits [OF assms]])
    (auto simp: to_delete_def fresh_entry_def split: sum.splits)

lemma init_no_update: "only no_update (initDeletionProgressIfNeeded x plugin)"
  unfolding initDeletionProgressIfNeeded_def findMatchedServers_def FindMatchingServers_def call_ops server_call_ops
  by (intro only_rules) simp_all

lemma remaining_no_update: "only no_update (remaining_loop x es)"
  by (induction es) (auto simp: call_ops intro!: only_rules)

lemma cleanup_no_update: "only no_update (cleanupDeletedServers x plugin)"
  unfolding cleanupDeletedServers_def call_ops by (intro only_rules remaining_no_update) simp_all

lemma mark_no_update: "only no_update (mark_loop x plugin es)"
proof (induction es arbitrary: plugin)
  case (Cons e es)
  show ?case unfolding mark_loop.simps markJARAsDeleted_def call_ops by (intro only_rules Cons) simp_all
qed (auto intro: only_rules)

lemma force_no_update: "only no_update (force_complete_loop x now es)"
  by (induction es) (auto simp: call_ops intro!: only_rules)

text \<open>The state of a run of the deletion: the plugin as it is known, and the calls so far.\<close>

definition deleting :: "('w, 'sched) sext \<Rightarrow> Plugin \<Rightarrow> Plugin \<Rightarrow> event list \<Rightarrow> bool" where
  "deleting x plugin p v \<longleftrightarrow> same_plugin plugin p \<and> list_all no_update v
     \<and> (\<exists>es. to_delete x plugin v es \<and> covered plugin v es (progress p))"

lemma deletingD: "deleting x plugin p v \<Longrightarrow> same_plugin plugin p" "deleting x plugin p v \<Longrightarrow> list_all no_update v"
  by (simp_all add: deleting_def)

lemma deleting_advances:
  assumes "deleting x plugin p v" "advances plugin p (Inr q) u" "list_all no_update u"
  shows "deleting x plugin q (v @ u)"
proof -
  from assms obtain es where es: "to_delete x plugin v es" "covered plugin v es (progress p)" by (auto simp: deleting_def)
  from assms have "covered plugin (v @ u) (progress p) (progress q)" by (auto simp: advances_def elim: covered_mono)
  with covered_mono [OF es(2), of "v @ u"] have "covered plugin (v @ u) es (progress q)" by (auto intro: covered_trans)
  with to_delete_mono [OF es(1), of "v @ u"] assms show ?thesis by (auto simp: deleting_def advances_def)
qed

lemma deleting_settled:
  assumes "deleting x plugin p v" "allJARsDeleted p" "set v \<subseteq> set u"
  shows "\<exists>es. to_delete x plugin u es \<and> list_all (settled plugin u) es"
proof -
  from assms obtain es where es: "to_delete x plugin v es" "covered plugin v es (progress p)" by (auto simp: deleting_def)
  from covered_all_deleted [OF covered_mono [OF es(2) assms(3)]] assms(2) have "list_all (settled plugin u) es"
    by (simp add: allJARsDeleted_def list_all_iff)
  with to_delete_mono [OF es(1) assms(3)] show ?thesis by blast
qed

lemma deleting_init:
  assumes "status_echo x"
  shows "emits (initDeletionProgressIfNeeded x plugin)
     (\<lambda>r v. list_all no_update v \<and> (case r of Inl _ \<Rightarrow> True | Inr p \<Rightarrow> deleting x plugin p v))"
  by (rule tr_weaken [OF tr_conj [OF initDeletion_emits [OF assms] onlyD [OF init_no_update]]])
    (auto simp: deleting_def split: sum.splits intro: covered_refl)

lemma deleting_step:
  assumes "emits m (advances plugin p)" "only no_update m" "deleting x plugin p v"
  shows "tr m v (\<lambda>r u. list_all no_update u \<and> (case r of Inl _ \<Rightarrow> True | Inr q \<Rightarrow> deleting x plugin q u))"
  by (rule tr_emits [OF tr_conj [OF assms(1) onlyD [OF assms(2)]]])
    (use assms(3) deleting_advances [OF assms(3)] deletingD [OF assms(3)] in \<open>auto split: sum.splits\<close>)

lemma deleting_force:
  assumes "deleting x plugin p v"
  shows "tr (forceCompleteStaleDeletions x p) v (\<lambda>q u. deleting x plugin q u)"
proof -
  have "emits (forceCompleteStaleDeletions x p) (\<lambda>q u. advances plugin p (Inr q) u \<and> list_all no_update u)"
    unfolding forceCompleteStaleDeletions_def now_op_def
    by (intro tr_rules tr_bind_emits [OF tr_conj [OF force_loop_emits [of x _ _ plugin] onlyD [OF force_no_update]]])
      (use assms in \<open>auto simp: advances_def deleting_def elim: covered_mono\<close>)
  then show ?thesis by (rule tr_emits) (use assms deleting_advances in blast)
qed

lemma deleting_persist:
  assumes "status_echo x" "deleting x plugin p v"
  shows "tr (plugin_status_update (base x) p) v
     (\<lambda>r u. list_all no_update u \<and> (case r of Inl _ \<Rightarrow> True | Inr q \<Rightarrow> deleting x plugin q u))"
proof -
  have "same_plugin plugin p" using assms(2) by (simp add: deleting_def)
  then have "advances plugin p (Inr q) u" if "progress q = progress p" "same_plugin p q" for q u
    using that same_plugin_trans by (auto simp: advances_def)
  with assms show ?thesis
    by (intro tr_emits [OF plugin_status_update_emits [OF assms(1)]])
      (auto split: sum.splits intro!: deleting_advances dest: deletingD)
qed

text \<open>
  C5. The finalizer of a deleted plugin is removed only when no server is left that may still hold
  its JAR without a reason. Whatever the cluster answers, if a reconciliation writes the plugin
  without its finalizer, then for every server of the deletion progress (and when the progress was
  empty, for every server that the selector matches in the listed ones) one of four things is on
  record: the update controller had already reported the JAR as deleted, the server was not found,
  the server's status had no installed JAR for this plugin, or the deletion was requested more than
  ten minutes ago.
\<close>

theorem finalizer_removed_safely:
  assumes "status_echo x"
  shows "emits (reconcileDelete x plugin)
     (\<lambda>r u. list_all no_update u
        \<or> (\<exists>es. to_delete x plugin u es \<and> list_all (settled plugin u) es))"
  unfolding reconcileDelete_def removeFinalizer_def update_plugin_def markPluginForDeletionOnServers_def
  by (intro tr_rules tr_bind [OF deleting_init [OF assms]]
      tr_bind [OF deleting_step [OF cleanupDeletedServers_emits [OF assms] cleanup_no_update]]
      tr_bind [OF deleting_step [OF mark_loop_emits [OF assms] mark_no_update]]
      tr_bind [OF deleting_force] tr_bind [OF deleting_persist [OF assms]])
    (auto intro: deleting_settled deletingD)

subsection \<open>A stale deletion completes\<close>

text \<open>The cluster answers every call of the deletion, and its clock has reached the time \<open>t\<close>.\<close>

definition healthy :: "('w, 'sched) sext \<Rightarrow> time \<Rightarrow> bool" where
  "healthy x t \<longleftrightarrow>
     (\<forall>w. t \<le> fst (x_now (base x) w))
   \<and> (\<forall>ns n w. case fst (x_getServer (base x) ns n w) of Inl err \<Rightarrow> IsNotFound err | Inr _ \<Rightarrow> True)
   \<and> (\<forall>s w. is_ok (fst (x_statusUpdate (base x) s w)))
   \<and> (\<forall>p w. is_ok (fst (x_pluginStatusUpdate (base x) p w)))
   \<and> (\<forall>p w. is_ok (fst (x_updatePlugin x p w)))"

definition stale :: "time \<Rightarrow> DeletionProgressEntry list \<Rightarrow> bool" where
  "stale t es \<longleftrightarrow> list_all (\<lambda>e. dp_JARDeleted e \<or>
     (case dp_DeletionRequestedAt e of None \<Rightarrow> False | Some r \<Rightarrow> r + deletionTimeout < t)) es"

lemma stale_subset: "stale t es \<Longrightarrow> set fs \<subseteq> set es \<Longrightarrow> stale t fs"
  by (auto simp: stale_def list_all_iff)

lemma stale_mark_deleted: "stale t es \<Longrightarrow> stale t (mark_deleted now n ns es)"
  by (induction es) (auto simp: stale_def)

lemma healthy_pstatus:
  assumes "healthy x t" "status_echo x"
  shows "emits (plugin_status_update (base x) p) (\<lambda>r u. \<exists>p'. r = Inr p' \<and> progress p' = progress p)"
  unfolding plugin_status_update_def
proof (intro tr_rules)
  fix w a assume a: "fst (x_pluginStatusUpdate (base x) p w) = a"
  with assms(1) have "is_ok a" by (auto simp: healthy_def)
  then obtain p' where "a = Inr p'" by (cases a) auto
  with status_echoD [OF assms(2)] a show "\<exists>p'. a = Inr p' \<and> progress p' = progress p" by auto
qed

lemma remaining_subset: "emits (remaining_loop x es) (\<lambda>fs u. set fs \<subseteq> set es)"
proof (induction es)
  case (Cons e es)
  show ?case unfolding remaining_loop.simps call_ops
    by (intro tr_rules tr_bind_emits [OF Cons]) (auto split: sum.splits if_splits)
qed (auto intro: tr_rules)

lemma mark_stale:
  assumes "healthy x t" "status_echo x" "stale t (progress p)"
  shows "emits (mark_loop x p es) (\<lambda>r u. \<exists>p'. r = Inr p' \<and> stale t (progress p'))"
  using assms(3)
proof (induction es arbitrary: p)
  case (Cons e es)
  have mark: "emits (markJARAsDeleted x p n ns) (\<lambda>r u. \<exists>p'. r = Inr p' \<and> stale t (progress p'))" for n ns
    unfolding markJARAsDeleted_def now_op_def
    by (intro tr_rules tr_bind_emits [OF healthy_pstatus [OF assms(1,2)]])
      (use Cons.prems in \<open>auto simp: stale_mark_deleted\<close>)
  note later = tr_emits [OF Cons.IH]
  have srv: "IsNotFound er" if "fst (x_getServer (base x) ns n w) = Inl er" for ns n w er
    using assms(1) that unfolding healthy_def by (metis (mono_tags, lifting) old.sum.simps(5))
  have st: "fst (x_statusUpdate (base x) s w) \<noteq> Inl er" for s w er
    using assms(1) unfolding healthy_def by (metis (mono_tags) is_ok_simps(2))
  show ?case unfolding mark_loop.simps get_server_def status_update_def
    by (intro tr_rules tr_bind_emits [OF mark] later) (use Cons.prems srv st in auto)
qed (use assms in \<open>auto intro: tr_rules\<close>)

lemma force_stale:
  assumes "healthy x t" "stale t es"
  shows "emits (force_complete_loop x now es) (\<lambda>fs u. list_all dp_JARDeleted fs)"
  using assms(2)
proof (induction es)
  case (Cons e es)
  have es: "stale t es" using Cons.prems by (simp add: stale_def)
  have late: "time_Sub (fst (x_now (base x) w)) r > deletionTimeout" if "r + deletionTimeout < t" for r w
  proof -
    have "t \<le> fst (x_now (base x) w)" using assms(1) by (simp add: healthy_def)
    with that show ?thesis by (auto simp: time_Sub_def deletionTimeout_def max_duration_def)
  qed
  show ?case unfolding force_complete_loop.simps now_op_def
    by (intro tr_rules tr_bind_emits [OF Cons.IH [OF es]])
      (use Cons.prems late in \<open>auto simp: stale_def split: option.splits\<close>)
qed (auto intro: tr_rules)

text \<open>
  C12. A deletion that waits for JARs does not wait for ever. If the cluster answers and every open
  entry of the deletion progress was requested more than ten minutes before the clock of the run,
  then this one reconciliation succeeds without a requeue and its last call writes the plugin
  without the finalizer, so the object can go.
\<close>

theorem stale_deletion_completes:
  assumes "healthy x t" and "status_echo x" and "\<forall>fs f. \<not> k_ContainsFinalizer x (k_RemoveFinalizer x fs f) f"
    and "has_finalizer x plugin" and "progress plugin \<noteq> []" and "stale t (progress plugin)"
  shows "emits (reconcileDelete x plugin)
     (\<lambda>r u. r = (0, None) \<and> (\<exists>p v. u = v @ [E_UpdatePlugin p True] \<and> \<not> has_finalizer x p))"
proof -
  have clean: "emits (cleanupDeletedServers x p) (\<lambda>r u. \<exists>p'. r = Inr p' \<and> stale t (progress p'))"
    if "stale t (progress p)" for p
    unfolding cleanupDeletedServers_def
    by (intro tr_rules tr_bind_emits [OF remaining_subset] tr_bind_emits [OF healthy_pstatus [OF assms(1,2)]])
      (use that stale_subset in auto)
  have force: "emits (forceCompleteStaleDeletions x p) (\<lambda>q u. allJARsDeleted q)" if "stale t (progress p)" for p
    unfolding forceCompleteStaleDeletions_def now_op_def allJARsDeleted_def
    by (intro tr_rules tr_bind_emits [OF force_stale [OF assms(1) that]]) simp
  have upd: "is_ok (fst (x_updatePlugin x p w))" for p w using assms(1) by (simp add: healthy_def)
  have upd': "fst (x_updatePlugin x p w) \<noteq> Inl er" for p w er using upd [of p w] by auto
  show ?thesis
    unfolding reconcileDelete_def initDeletionProgressIfNeeded_def removeFinalizer_def update_plugin_def
      markPluginForDeletionOnServers_def
    by (intro tr_rules tr_bind_emits [OF clean] tr_bind_emits [OF mark_stale [OF assms(1,2)]]
        tr_bind_emits [OF force] tr_bind_emits [OF healthy_pstatus [OF assms(1,2)]])
      (use assms(3-6) upd upd' in \<open>auto simp: allJARsDeleted_def has_finalizer_def set_finalizers_def split: sum.split\<close>)
qed

subsection \<open>Witnesses of the deletion\<close>

definition demo_entry :: DeletionProgressEntry where
  "demo_entry = \<lparr>dp_ServerName = ''mc'', dp_Namespace = ''games'', dp_JARDeleted = False, dp_DeletedAt = None,
     dp_DeletionRequestedAt = Some (demo_time - 11 * Minute)\<rparr>"

definition demo_deleted_plugin :: Plugin where
  "demo_deleted_plugin = zero_plugin\<lparr>pl_Meta := zero_meta\<lparr>m_Name := ''map'', m_Namespace := ''games'',
     m_Finalizers := [PluginFinalizer], m_DeletionTimestamp := Some 1\<rparr>,
     pl_Status := (pl_Status zero_plugin)\<lparr>pst_DeletionProgress := [demo_entry]\<rparr>\<rparr>"

lemma demo_world:
  "status_echo (demo_sext server :: (unit, unit) sext)" "healthy (demo_sext server :: (unit, unit) sext) demo_time"
  "has_finalizer (demo_sext server :: (unit, unit) sext) demo_deleted_plugin" "progress demo_deleted_plugin = [demo_entry]"
  "stale demo_time [demo_entry]"
  by (simp_all add: status_echo_def healthy_def still_ext_def has_finalizer_def demo_deleted_plugin_def stale_def
      demo_entry_def deletionTimeout_def)

theorem stale_deletion_completes_witness:
  "\<exists>v p. trace (snd (run_state (reconcileDelete (demo_sext zero_server) demo_deleted_plugin) demo_sys)) = v @ [E_UpdatePlugin p True]
     \<and> \<not> has_finalizer (demo_sext zero_server :: (unit, unit) sext) p"
  using emits_demo [OF stale_deletion_completes [OF demo_world(2,1) _ demo_world(3), of zero_server]]
  by (auto simp: demo_world(4,5))

lemma demo_deletion_trace:
  "\<not> list_all no_update (trace (snd (run_state (reconcileDelete (demo_sext zero_server) demo_deleted_plugin) demo_sys)))"
  by (simp add: reconcileDelete_def initDeletionProgressIfNeeded_def cleanupDeletedServers_def
      markPluginForDeletionOnServers_def markJARAsDeleted_def forceCompleteStaleDeletions_def removeFinalizer_def
      demo_world still_ext_def call_ops server_call_ops call_def set_progress_def with_pstatus_def demo_entry_def
      demo_deleted_plugin_def has_finalizer_def allJARsDeleted_def Let_def demo_sys_def zero_defs)

theorem finalizer_removed_safely_witness:
  "list_all (settled demo_deleted_plugin
     (trace (snd (run_state (reconcileDelete (demo_sext zero_server) demo_deleted_plugin) demo_sys)))) [demo_entry]"
  using emits_demo [OF finalizer_removed_safely [OF demo_world(1), of zero_server demo_deleted_plugin]] demo_deletion_trace
  by (auto simp: to_delete_def demo_world(4))

subsection \<open>What a download may put into the cache\<close>

text \<open>A request for a JAR goes to the URL of the plugin, after the URL passed the guard.\<close>

fun download_allowed :: "Plugin \<Rightarrow> event \<Rightarrow> bool" where
  "download_allowed plugin (E_Download url _) =
     (src_Type (ps_Source (pl_Spec plugin)) = gcSourceURL \<and> url = src_URL (ps_Source (pl_Spec plugin))
      \<and> ValidateDownloadURL url = Inr ())"
| "download_allowed plugin _ = True"

text \<open>The cache after a download: one version, with the SHA-256 digest of the bytes that were received.\<close>

definition verified_cache :: "Plugin \<Rightarrow> event list \<Rightarrow> PluginVersionInfo list \<Rightarrow> bool" where
  "verified_cache plugin u infos \<longleftrightarrow>
     (let source = ps_Source (pl_Spec plugin)
      in \<exists>body info. E_Download (src_URL source) (Inr body) \<in> set u \<and> infos = [info]
         \<and> pvi_DownloadURL info = src_URL source
         \<and> pvi_Hash info = EncodeToString (Sum256 (string_bytes body))
         \<and> (src_Checksum source = [] \<or> pvi_Hash info = ToLower (src_Checksum source)))"

definition cache_sound :: "Plugin \<Rightarrow> Plugin \<Rightarrow> event list \<Rightarrow> bool" where
  "cache_sound plugin plugin' u \<longleftrightarrow>
     (src_Type (ps_Source (pl_Spec plugin)) = gcSourceURL \<longrightarrow>
        pst_AvailableVersions (pl_Status plugin') = pst_AvailableVersions (pl_Status plugin)
      \<or> verified_cache plugin u (pst_AvailableVersions (pl_Status plugin')))"

definition same_cache :: "Plugin \<Rightarrow> Plugin \<Rightarrow> bool" where
  "same_cache p q \<longleftrightarrow> pl_Spec p = pl_Spec q \<and> pst_AvailableVersions (pl_Status p) = pst_AvailableVersions (pl_Status q)"

lemma same_cache_simps [simp]:
  "same_cache p p" "same_cache p (with_pstatus (\<lambda>st. st\<lparr>pst_RepositoryStatus := r\<rparr>) q) = same_cache p q"
  "same_cache (with_pstatus (\<lambda>st. st\<lparr>pst_RepositoryStatus := r\<rparr>) p) q = same_cache p q"
  by (simp_all add: same_cache_def with_pstatus_def)

lemma plugin_setCondition_emits: "emits (plugin_setCondition x p ty c r m) (\<lambda>q u. same_cache p q \<and> list_all (download_allowed P) u)"
  unfolding plugin_setCondition_def now_op_def by (intro tr_rules) (simp add: same_cache_def with_pstatus_def)

lemma permanent_error_emits:
  "emits (permanent_error x p reason e m) (\<lambda>(vs, d, q) u. vs = [] \<and> d = 0 \<and> same_cache p q \<and> list_all (download_allowed P) u)"
  unfolding permanent_error_def
  by (intro tr_rules tr_bind_emits [OF plugin_setCondition_emits [of _ _ _ _ _ _ P]]) (auto simp: same_cache_def with_pstatus_def)

lemma handleRepositoryError_emits:
  "emits (handleRepositoryError x p e) (\<lambda>(vs, d, q) u. same_cache p q \<and> list_all (download_allowed P) u)"
  unfolding handleRepositoryError_def
  by (intro tr_rules tr_bind_emits [OF plugin_setCondition_emits [of _ _ _ _ _ _ P]]) (auto simp: same_cache_def with_pstatus_def)

definition fetched :: "Plugin \<Rightarrow> (marked_error + PluginVersion list \<times> bool) \<times> Plugin \<Rightarrow> event list \<Rightarrow> bool" where
  "fetched plugin = (\<lambda>(f, p) u. same_cache plugin p \<and> list_all (download_allowed plugin) u \<and>
     (case f of
        Inl _ \<Rightarrow> True
      | Inr (vs, hit) \<Rightarrow> hit \<or> src_Type (ps_Source (pl_Spec plugin)) \<noteq> gcSourceURL
          \<or> (\<forall>t. verified_cache plugin u (convertToPluginVersionInfo t vs))))"

lemma fetchURLMetadata_emits:
  assumes "src_Type (ps_Source (pl_Spec plugin)) = gcSourceURL"
  shows "emits (fetchURLMetadata x plugin) (fetched plugin)"
proof -
  have cond: "emits (setFallbackVersionCondition x plugin v) (\<lambda>q u. same_cache plugin q \<and> list_all (download_allowed plugin) u)" for v
    unfolding setFallbackVersionCondition_def by (intro tr_rules plugin_setCondition_emits)
  have res: "emits (resolveURLVersion x plugin jar hash) (\<lambda>(vs, q) u. same_cache plugin q \<and> list_all (download_allowed plugin) u
      \<and> (\<exists>v. vs = [v] \<and> pv_Hash v = hash \<and> pv_DownloadURL v = src_URL (ps_Source (pl_Spec plugin))))" for jar hash
    unfolding resolveURLVersion_def Let_def by (intro tr_rules tr_bind_emits [OF cond]) auto
  have info: "\<exists>i. convertToPluginVersionInfo t (preserve_release_date old [v]) = [i]
      \<and> pvi_Hash i = pv_Hash v \<and> pvi_DownloadURL i = pv_DownloadURL v" for t old v
    by (cases old) (simp_all add: convertToPluginVersionInfo_def preserve_release_date_def)
  have valid: "emits (urlCacheValid x plugin) (\<lambda>_ u. list_all (download_allowed plugin) u)"
    unfolding urlCacheValid_def now_op_def Let_def by (intro tr_rules) auto
  let ?url = "src_URL (ps_Source (pl_Spec plugin))" and ?sum = "src_Checksum (ps_Source (pl_Spec plugin))"
  have down: "emits (download_jar x ?url) (\<lambda>d u. list_all (download_allowed plugin) u
      \<and> (case d of Inl _ \<Rightarrow> True | Inr body \<Rightarrow> E_Download ?url (Inr body) \<in> set u))" if "ValidateDownloadURL ?url = Inr ()"
    unfolding download_jar_def by (intro tr_rules) (use that assms in \<open>auto simp: DownloadJAR_def split: sum.split\<close>)
  have ok: "fetched plugin (Inr (preserve_release_date old vs, False), q) u"
    if "vs = [v]" "pv_Hash v = EncodeToString (Sum256 (string_bytes body))" "pv_DownloadURL v = ?url"
      "E_Download ?url (Inr body) \<in> set u" "?sum = [] \<or> EncodeToString (Sum256 (string_bytes body)) = ToLower ?sum"
      "same_cache plugin q" "list_all (download_allowed plugin) u" for vs v body old q u
  proof -
    have "verified_cache plugin u (convertToPluginVersionInfo t (preserve_release_date old vs))" for t
      using info [of t old v] that(1-5) unfolding verified_cache_def Let_def by metis
    with that(6,7) show ?thesis by (simp add: fetched_def)
  qed
  show ?thesis
    unfolding fetchURLMetadata_def record_plugin_api_def Let_def
    by (intro tr_rules tr_bind_emits [OF valid] tr_bind_emits [OF down] tr_bind_emits [OF res])
      (auto intro!: ok, auto simp: fetched_def)
qed

lemma fetchPluginMetadata_emits: "emits (fetchPluginMetadata x plugin) (fetched plugin)"
  unfolding fetchPluginMetadata_def fetchHangarMetadata_def record_plugin_api_def Let_def
  by (intro tr_rules fetchURLMetadata_emits) (auto simp: fetched_def split: sum.splits)

lemma tr_mark_case:
  "tr a t Q \<Longrightarrow> tr b t Q \<Longrightarrow> tr c t Q \<Longrightarrow> tr (case m of errChecksumMismatch \<Rightarrow> a | errInvalidURL \<Rightarrow> b | errUnsupportedSourceType \<Rightarrow> c) t Q"
  by (cases m) auto

lemma cache_sound_kept: "same_cache plugin p \<Longrightarrow> same_cache p q \<Longrightarrow> cache_sound plugin q u"
  "same_cache plugin q \<Longrightarrow> cache_sound plugin q u"
  by (simp_all add: cache_sound_def same_cache_def)

lemma cache_sound_stored:
  assumes "src_Type (ps_Source (pl_Spec plugin)) \<noteq> gcSourceURL \<or> (\<forall>t. verified_cache plugin u (convertToPluginVersionInfo t vs))"
    and "set u \<subseteq> set v"
  shows "cache_sound plugin (with_pstatus (\<lambda>st. st\<lparr>pst_LastFetched := f, pst_AvailableVersions := convertToPluginVersionInfo t vs\<rparr>) q) v"
  using assms by (fastforce simp: cache_sound_def with_pstatus_def verified_cache_def Let_def)

text \<open>
  C11. What enters the cache of a URL plugin was downloaded from its own URL and verified. In every
  run of the metadata step, a JAR is requested only for a plugin of source type \<^verbatim>\<open>url\<close>, only from the URL
  of its spec and only when \<open>ValidateDownloadURL\<close> accepts that URL; and the available versions of such a
  plugin afterwards are the old ones, or exactly one version whose hash is the SHA-256 digest of the
  bytes received and equals the checksum of the spec when there is one.
\<close>

theorem url_cache_verified:
  "emits (syncPluginMetadata x plugin)
     (\<lambda>(versions, after, plugin') u. list_all (download_allowed plugin) u \<and> cache_sound plugin plugin' u)"
  unfolding syncPluginMetadata_def now_op_def
  by (intro tr_rules tr_mark_case tr_bind_emits [OF fetchPluginMetadata_emits]
      tr_bind_emits [OF plugin_setCondition_emits [of _ _ _ _ _ _ plugin]] tr_emits [OF permanent_error_emits [of _ _ _ _ _ plugin]]
      tr_emits [OF handleRepositoryError_emits [of _ _ _ plugin]])
    (auto simp: fetched_def intro: cache_sound_kept cache_sound_stored)

subsection \<open>A condition that is never cleared\<close>

text \<open>\<^verbatim>\<open>meta.SetStatusCondition\<close> replaces the condition of its own type and keeps the others.\<close>

definition keeps_other_conditions :: "('w, 'sched) sext \<Rightarrow> bool" where
  "keeps_other_conditions x \<longleftrightarrow>
     (\<forall>t cs c d. d \<in> set cs \<longrightarrow> c_Type d \<noteq> c_Type c \<longrightarrow> d \<in> set (k_SetStatusCondition (base x) t cs c))"

lemma plugin_setCondition_keeps:
  assumes "keeps_other_conditions x" "hasCondition p ty reason" "ty \<noteq> ty'"
  shows "emits (plugin_setCondition x p ty' c r m) (\<lambda>q u. hasCondition q ty reason)"
proof -
  obtain d where d: "d \<in> set (pst_Conditions (pl_Status p))" "c_Type d = ty" "c_Reason d = reason"
    using assms(2) by (auto simp: hasCondition_def list_ex_iff)
  have "d \<in> set (k_SetStatusCondition (base x) t (pst_Conditions (pl_Status p)) (mk_condition ty' c g t r m))" for t g
    using assms(1,3) d unfolding keeps_other_conditions_def by (auto simp: mk_condition_def)
  with d show ?thesis
    unfolding plugin_setCondition_def now_op_def
    by (intro tr_rules) (auto simp: hasCondition_def with_pstatus_def list_ex_iff)
qed

text \<open>
  Once a URL plugin has been resolved to the placeholder version, its source can be changed to the
  repository: every later reconciliation keeps \<^verbatim>\<open>VersionResolved\<close> at the reason \<^verbatim>\<open>FallbackVersion\<close>, whatever
  versions the repository returns.
\<close>

theorem fallback_condition_sticks:
  assumes "keeps_other_conditions x" and "src_Type (ps_Source (pl_Spec plugin)) = gcSourceHangar"
    and "hasCondition plugin conditionTypeVersionResolved reasonFallbackVersion"
  shows "emits (plugin_doReconcile x plugin)
     (\<lambda>(r, plugin') u. hasCondition plugin' conditionTypeVersionResolved reasonFallbackVersion)"
proof -
  let ?H = "\<lambda>p. hasCondition p conditionTypeVersionResolved reasonFallbackVersion"
  have st: "?H (with_pstatus (\<lambda>st. st\<lparr>pst_RepositoryStatus := s\<rparr>) p) = ?H p"
    "?H (with_pstatus (\<lambda>st. st\<lparr>pst_LastFetched := l, pst_AvailableVersions := vs\<rparr>) p) = ?H p"
    "?H (with_pstatus (\<lambda>st. st\<lparr>pst_MatchedInstances := is\<rparr>) p) = ?H p" for s l vs "is" p
    by (simp_all add: hasCondition_def with_pstatus_def)
  have ty: "conditionTypeVersionResolved \<noteq> conditionTypeRepositoryAvailable" "gcSourceHangar \<noteq> gcSourceURL"
    by (simp_all add: conditionTypeVersionResolved_def conditionTypeRepositoryAvailable_def gcSourceHangar_def gcSourceURL_def)
  have set: "emits (plugin_setCondition x p conditionTypeRepositoryAvailable c r m) (\<lambda>q u. ?H q)" if "?H p" for p c r m
    by (rule plugin_setCondition_keeps [OF assms(1) that ty(1)])
  have sync: "emits (syncPluginMetadata x plugin) (\<lambda>(vs, d, q) u. ?H q)"
    unfolding syncPluginMetadata_def fetchPluginMetadata_def fetchHangarMetadata_def handleRepositoryError_def
      record_plugin_api_def now_op_def Let_def assms(2)
    by (simp only: if_not_P [OF ty(2)] if_P refl, intro tr_rules tr_mark_case tr_bind_emits [OF set])
      (use assms(3) in \<open>auto simp: st split: sum.splits\<close>)
  show ?thesis
    unfolding plugin_doReconcile_def findMatchedServers_def FindMatchingServers_def list_servers_def Let_def
    by (intro tr_rules tr_bind_emits [OF sync] tr_bind_emits [OF plugin_setCondition_emits [of _ _ _ _ _ _ plugin]])
      (auto simp: st)
qed

end
