(* ===== verification/GoDuration.thy ===== *)
theory GoDuration
  imports Prelude
begin

section \<open>\<^verbatim>\<open>time.ParseDuration\<close>\<close>

text \<open>
  The parser of the Go library for durations such as \<^verbatim>\<open>1h30m\<close> or \<^verbatim>\<open>-1.5s\<close>, which the service layer
  applies to the update delay of a request. Numbers before and after the decimal point are 64-bit
  counters with the overflow checks of the library; a fraction is scaled in \<^verbatim>\<open>float64\<close>, whose
  rounding is written out (\<open>round53\<close>, to nearest with ties to even, on fractions of naturals; the
  values here are neither subnormal nor too large).
\<close>

subsection \<open>Rounding to 53 bits\<close>

text \<open>Scaling a positive fraction by a power of two, until it lies in [\<open>2 ^ 52\<close>, \<open>2 ^ 53\<close>).\<close>

function scale_up :: "nat \<Rightarrow> nat \<Rightarrow> nat \<Rightarrow> nat \<times> nat" where
  "scale_up n d k = (if n = 0 \<or> 2 ^ 52 * d \<le> n then (n, k) else scale_up (2 * n) d (Suc k))"
  by pat_completeness auto
termination
  by (relation "measure (\<lambda>(n, d, k). 2 ^ 52 * d - n)") auto

function scale_down :: "nat \<Rightarrow> nat \<Rightarrow> nat \<Rightarrow> nat \<times> nat" where
  "scale_down n d k = (if d = 0 \<or> n < 2 ^ 53 * d then (d, k) else scale_down n (2 * d) (Suc k))"
  by pat_completeness auto
termination
  by (relation "measure (\<lambda>(n, d, k). Suc n - 2 ^ 53 * d)") auto

declare scale_up.simps [simp del] scale_down.simps [simp del]

definition half_even :: "nat \<Rightarrow> nat \<Rightarrow> nat" where
  "half_even n d = (let q = n div d; r = n mod d in if 2 * r > d \<or> (2 * r = d \<and> odd q) then Suc q else q)"

definition round53 :: "nat \<Rightarrow> nat \<Rightarrow> nat \<times> nat" where
  "round53 n d =
     (if n = 0 then (0, 1)
      else let (n', up) = scale_up n d 0; (d', down) = scale_down n' d 0
           in (half_even n' d' * 2 ^ down, 2 ^ up))"

text \<open>\<^verbatim>\<open>uint64(float64(f) * (float64(unit) / scale))\<close>; \<open>unit\<close> and \<open>scale\<close> are exact.\<close>

definition float_fraction :: "nat \<Rightarrow> nat \<Rightarrow> nat \<Rightarrow> nat" where
  "float_fraction f unit scale =
     (let (fn, fd) = round53 f 1; (un, ud) = round53 unit scale; (pn, pd) = round53 (fn * un) (fd * ud)
      in pn div pd)"

subsection \<open>The parser\<close>

definition max_magnitude :: nat where "max_magnitude = 2 ^ 63"

definition digit_nat :: "char \<Rightarrow> nat" where "digit_nat c = of_char c - 48"

text \<open>\<^verbatim>\<open>leadingInt\<close>: the leading digits as a number, and the rest; \<open>None\<close> on overflow.\<close>

fun leadingInt :: "nat \<Rightarrow> string \<Rightarrow> (nat \<times> string) option" where
  "leadingInt v [] = Some (v, [])"
| "leadingInt v (c # s) =
     (if \<not> is_digit c then Some (v, c # s)
      else if v > max_magnitude div 10 then None
      else let v' = v * 10 + digit_nat c in if v' > max_magnitude then None else leadingInt v' s)"

text \<open>\<^verbatim>\<open>leadingFraction\<close>: digits that would overflow are dropped.\<close>

fun leadingFraction :: "nat \<Rightarrow> nat \<Rightarrow> bool \<Rightarrow> string \<Rightarrow> nat \<times> nat \<times> string" where
  "leadingFraction v scale overflow [] = (v, scale, [])"
| "leadingFraction v scale overflow (c # s) =
     (if \<not> is_digit c then (v, scale, c # s)
      else if overflow \<or> v > (max_magnitude - 1) div 10 then leadingFraction v scale True s
      else let y = v * 10 + digit_nat c
           in if y > max_magnitude then leadingFraction v scale True s
              else leadingFraction y (scale * 10) False s)"

definition unitMap :: "string \<Rightarrow> nat option" where
  "unitMap = map_of
     [(''ns'', 1), (''us'', 1000), ([CHR 0xC2, CHR 0xB5, CHR ''s''], 1000), ([CHR 0xCE, CHR 0xBC, CHR ''s''], 1000),
      (''ms'', 1000000), (''s'', 1000000000), (''m'', 60000000000), (''h'', 3600000000000)]"

definition unit_char :: "char \<Rightarrow> bool" where
  "unit_char c = (c \<noteq> CHR ''.'' \<and> \<not> is_digit c)"

text \<open>A number with its unit: its nanoseconds and the rest of the string.\<close>

definition duration_part :: "string \<Rightarrow> string \<Rightarrow> (nat \<times> string) result" where
  "duration_part orig s =
     (let invalid = Newf ''time: invalid duration %q'' [AStr orig]
      in if s = [] \<or> unit_char (hd s) then Inl invalid
         else case leadingInt 0 s of
           None \<Rightarrow> Inl invalid
         | Some (v, s1) \<Rightarrow>
             let pre = (length s1 \<noteq> length s);
                 (f, scale, s2, post) =
                   (if take 1 s1 = ''.''
                    then case leadingFraction 0 1 False (drop 1 s1) of
                           (f, scale, r) \<Rightarrow> (f, scale, r, length r \<noteq> length (drop 1 s1))
                    else (0, 1, s1, False));
                 u = takeWhile unit_char s2; rest = dropWhile unit_char s2
             in if \<not> pre \<and> \<not> post then Inl invalid
                else if u = [] then Inl (Newf ''time: missing unit in duration %q'' [AStr orig])
                else case unitMap u of
                  None \<Rightarrow> Inl (Newf ''time: unknown unit %q in duration %q'' [AStr u, AStr orig])
                | Some unit \<Rightarrow>
                    if v > max_magnitude div unit then Inl invalid
                    else let v' = v * unit + (if f > 0 then float_fraction f unit scale else 0)
                         in if f > 0 \<and> v' > max_magnitude then Inl invalid else Inr (v', rest))"

lemma leadingInt_rest: "leadingInt v s = Some (w, r) \<Longrightarrow> length r \<le> length s"
  by (induction v s rule: leadingInt.induct) (auto simp: Let_def split: if_splits)

lemma leadingFraction_rest: "leadingFraction v sc ov s = (w, sc', r) \<Longrightarrow> length r \<le> length s"
  by (induction v sc ov s rule: leadingFraction.induct) (auto simp: Let_def split: if_splits)

lemma dropWhile_shorter: "takeWhile P s \<noteq> [] \<Longrightarrow> length (dropWhile P s) < length s"
  by (metis add_diff_cancel_left' dropWhile_eq_drop length_drop length_greater_0_conv length_takeWhile_le
      order_le_less_trans takeWhile_dropWhile_id length_append less_add_same_cancel2)

lemma duration_part_rest:
  assumes "duration_part orig s = Inr (v, rest)"
  shows "length rest < length s"
proof -
  obtain w s1 where s1: "leadingInt 0 s = Some (w, s1)"
    using assms by (auto simp: duration_part_def Let_def split: if_splits option.splits)
  then have le: "length s1 \<le> length s" by (rule leadingInt_rest)
  show ?thesis
  proof (cases "take 1 s1 = ''.''")
    case True
    obtain f sc s2 where s2: "leadingFraction 0 1 False (drop 1 s1) = (f, sc, s2)" by (cases "leadingFraction 0 1 False (drop 1 s1)")
    then have "length s2 \<le> length s1" using leadingFraction_rest [OF s2] by simp
    moreover have "takeWhile unit_char s2 \<noteq> [] \<and> rest = dropWhile unit_char s2"
      using assms s1 s2 True by (auto simp: duration_part_def Let_def split: if_splits option.splits)
    ultimately show ?thesis using dropWhile_shorter [of unit_char s2] le by auto
  next
    case False
    then have "takeWhile unit_char s1 \<noteq> [] \<and> rest = dropWhile unit_char s1"
      using assms s1 by (auto simp: duration_part_def Let_def split: if_splits option.splits)
    then show ?thesis using dropWhile_shorter [of unit_char s1] le by auto
  qed
qed

function duration_loop :: "string \<Rightarrow> nat \<Rightarrow> string \<Rightarrow> nat result" where
  "duration_loop orig d s =
     (if s = [] then Inr d
      else case duration_part orig s of
        Inl err \<Rightarrow> Inl err
      | Inr (v, rest) \<Rightarrow>
          let d' = (d + v) mod 2 ^ 64
          in if d' > max_magnitude then Inl (Newf ''time: invalid duration %q'' [AStr orig])
             else duration_loop orig d' rest)"
  by pat_completeness auto
termination
  by (relation "measure (\<lambda>(orig, d, s). length s)") (auto dest: duration_part_rest)

declare duration_loop.simps [simp del]

definition ParseDuration :: "string \<Rightarrow> duration result" where
  "ParseDuration orig =
     (let neg = (take 1 orig = ''-''); invalid = Newf ''time: invalid duration %q'' [AStr orig];
          s = (if take 1 orig = ''-'' \<or> take 1 orig = ''+'' then drop 1 orig else orig)
      in if s = ''0'' then Inr 0
         else if s = [] then Inl invalid
         else case duration_loop orig 0 s of
           Inl err \<Rightarrow> Inl err
         | Inr d \<Rightarrow>
             if neg then Inr (- int d)
             else if d > max_magnitude - 1 then Inl invalid else Inr (int d))"

subsection \<open>Correctness\<close>

text \<open>A parsed duration fits in its 64 bits.\<close>

lemma duration_loop_bound:
  "duration_loop orig d s = Inr e \<Longrightarrow> d \<le> max_magnitude \<Longrightarrow> e \<le> max_magnitude"
proof (induction orig d s rule: duration_loop.induct)
  case (1 orig d s)
  show ?case
  proof (cases "s = []")
    case True
    with 1 show ?thesis by (simp add: duration_loop.simps)
  next
    case False
    with 1 show ?thesis
      by (auto simp: duration_loop.simps [of orig d s] Let_def split: sum.splits if_splits)
  qed
qed

text \<open>Sequences of whole numbers with units.\<close>

fun digits_nat :: "nat \<Rightarrow> string \<Rightarrow> nat" where
  "digits_nat v [] = v"
| "digits_nat v (c # s) = digits_nat (v * 10 + digit_nat c) s"

lemma digits_nat_mono: "v \<le> digits_nat v s"
  by (induction v s rule: digits_nat.induct) (auto intro: order_trans [rotated])

lemma digits_nat_append: "digits_nat v (s @ s') = digits_nat (digits_nat v s) s'"
  by (induction v s rule: digits_nat.induct) simp_all

lemma digits_nat_dec: "digits_nat 0 (nat_dec n) = n"
proof (induction n rule: nat_dec.induct)
  case (1 n)
  show ?case
  proof (cases "n < 10")
    case True
    then show ?thesis by (subst nat_dec.simps) (simp add: digit_nat_def)
  next
    case False
    with 1 show ?thesis by (subst nat_dec.simps) (simp add: digits_nat_append digit_nat_def)
  qed
qed

lemma leadingInt_digits:
  assumes "list_all is_digit ds" and "digits_nat v ds \<le> max_magnitude" and "\<not> is_digit c"
  shows "leadingInt v (ds @ c # r) = Some (digits_nat v ds, c # r)"
  using assms
proof (induction ds arbitrary: v)
  case Nil
  then show ?case by simp
next
  case (Cons e ds)
  have le: "v * 10 + digit_nat e \<le> max_magnitude"
    using Cons.prems(2) digits_nat_mono [of "v * 10 + digit_nat e" ds] by simp
  then have "v \<le> max_magnitude div 10" by simp
  with le Cons show ?case by (simp add: not_less)
qed

lemma unitMap_units:
  "unitMap ''ns'' = Some 1" "unitMap ''us'' = Some 1000" "unitMap ''ms'' = Some 1000000"
  "unitMap ''s'' = Some 1000000000" "unitMap ''m'' = Some 60000000000" "unitMap ''h'' = Some 3600000000000"
  by (simp_all add: unitMap_def)

lemma unitMap_shape:
  assumes "unitMap u = Some k"
  shows "0 < k" and "u \<noteq> []" and "list_all unit_char u"
  using assms by (auto simp: unitMap_def unit_char_def is_digit_def split: if_splits)

definition print_parts :: "(nat \<times> string) list \<Rightarrow> string" where
  "print_parts ps = concat (map (\<lambda>(n, u). nat_dec n @ u) ps)"

fun parts_value :: "(nat \<times> string) list \<Rightarrow> nat option" where
  "parts_value [] = Some 0"
| "parts_value ((n, u) # ps) =
     (case (unitMap u, parts_value ps) of (Some k, Some v) \<Rightarrow> Some (n * k + v) | _ \<Rightarrow> None)"

lemma print_parts_start: "print_parts ps = [] \<or> \<not> unit_char (hd (print_parts ps))"
proof (cases ps)
  case Nil
  then show ?thesis by (simp add: print_parts_def)
next
  case (Cons p qs)
  obtain n u where p: "p = (n, u)" by (cases p)
  obtain c cs where nd: "nat_dec n = c # cs" by (meson list.exhaust nat_dec_not_Nil)
  with nat_dec_digits [of n] have "is_digit c" by simp
  with nd p Cons show ?thesis by (simp add: print_parts_def unit_char_def)
qed

lemma takeWhile_units:
  assumes "list_all P u" and "r = [] \<or> \<not> P (hd r)"
  shows "takeWhile P (u @ r) = u" and "dropWhile P (u @ r) = r"
  using assms by (cases r; auto simp: list_all_iff takeWhile_append takeWhile_eq_all_conv dropWhile_append)+

lemma duration_part_print:
  assumes "unitMap u = Some k" and "n * k \<le> max_magnitude" and "r = [] \<or> \<not> unit_char (hd r)"
  shows "duration_part orig (nat_dec n @ u @ r) = Inr (n * k, r)"
proof -
  note u = unitMap_shape [OF assms(1)]
  obtain c u' where c: "u = c # u'" using u(2) by (cases u) auto
  with u(3) have nd: "\<not> is_digit c" "c \<noteq> CHR ''.''" by (auto simp: unit_char_def)
  obtain e es where e: "nat_dec n = e # es" by (meson list.exhaust nat_dec_not_Nil)
  with nat_dec_digits [of n] have ed: "\<not> unit_char e" by (simp add: unit_char_def)
  have "n \<le> n * k" using u(1) by (cases k) auto
  with assms(2) have "n \<le> max_magnitude" by (rule order_trans [rotated])
  then have li: "leadingInt 0 (nat_dec n @ c # u' @ r) = Some (n, c # u' @ r)"
    using leadingInt_digits [OF nat_dec_digits _ nd(1), of 0 n "u' @ r"] by (simp add: digits_nat_dec)
  have le: "n \<le> max_magnitude div k" using assms(2) u(1) by (simp add: less_eq_div_iff_mult_less_eq)
  have tw: "takeWhile unit_char (c # u' @ r) = u" "dropWhile unit_char (c # u' @ r) = r"
    using takeWhile_units [OF u(3) assms(3)] c by simp_all
  show ?thesis
    using li le nd(2) tw c assms(1) u(2) ed e
    by (simp add: duration_part_def Let_def not_less del: takeWhile.simps dropWhile.simps)
qed

lemma duration_loop_print:
  assumes "parts_value ps = Some v" and "d + v \<le> max_magnitude"
  shows "duration_loop orig d (print_parts ps) = Inr (d + v)"
  using assms
proof (induction ps arbitrary: d v)
  case Nil
  then show ?case by (simp add: print_parts_def duration_loop.simps)
next
  case (Cons p ps)
  obtain n u where p: "p = (n, u)" by (cases p)
  obtain k w where kw: "unitMap u = Some k" "parts_value ps = Some w" "v = n * k + w"
    using Cons.prems p by (auto split: option.splits)
  have part: "duration_part orig (nat_dec n @ u @ print_parts ps) = Inr (n * k, print_parts ps)"
    using duration_part_print [OF kw(1) _ print_parts_start] Cons.prems kw(3) by simp
  have "(d + n * k) mod 2 ^ 64 = d + n * k"
    using Cons.prems kw(3) by (simp add: max_magnitude_def)
  with Cons.IH [OF kw(2), of "d + n * k"] Cons.prems kw(3) part show ?case
    by (simp add: p print_parts_def duration_loop.simps [of orig d] Let_def add.assoc not_less)
qed

text \<open>A sequence of whole numbers with units (such as 1h30m) is read as their sum, if it fits in 63 bits.\<close>

lemma ParseDuration_parts:
  assumes "ps \<noteq> []" and "parts_value ps = Some v" and "v < 2 ^ 63"
  shows "ParseDuration (print_parts ps) = Inr (int v)"
proof -
  obtain n u qs where ps: "ps = (n, u) # qs" using assms(1) by (cases ps) auto
  obtain e es where e: "nat_dec n = e # es" by (meson list.exhaust nat_dec_not_Nil)
  with nat_dec_digits [of n] have "is_digit e" by simp
  then have sign: "e \<noteq> CHR ''-''" "e \<noteq> CHR ''+''" by (auto simp: is_digit_def)
  have "unitMap u \<noteq> None" using assms(2) ps by (auto split: option.splits)
  then obtain c u' where "u = c # u'" using unitMap_shape(2) by (metis list.exhaust option.exhaust)
  then have "print_parts ps \<noteq> ''0''" using e ps by (simp add: print_parts_def)
  moreover obtain t where t: "print_parts ps = e # t" using e ps by (simp add: print_parts_def)
  moreover have "duration_loop (print_parts ps) 0 (print_parts ps) = Inr v"
    using duration_loop_print [OF assms(2), of 0] assms(3) by (simp add: max_magnitude_def)
  ultimately show ?thesis
    using assms(3) sign by (auto simp: ParseDuration_def Let_def max_magnitude_def)
qed

lemma ParseDuration_1h30m: "print_parts [(1, ''h''), (30, ''m'')] = ''1h30m''"
proof -
  have "nat_dec (Suc 0) = ''1''" "nat_dec 30 = ''30''"
    by (simp_all add: nat_dec.simps [of "Suc 0"] nat_dec.simps [of 30] nat_dec.simps [of 3] char_of_def bit_0)
  then show ?thesis by (simp add: print_parts_def)
qed

text \<open>A parsed duration lies in the range of a signed 64-bit number of nanoseconds.\<close>

lemma ParseDuration_range:
  "case ParseDuration s of Inl _ \<Rightarrow> True | Inr d \<Rightarrow> min_duration \<le> d \<and> d \<le> max_duration"
  using duration_loop_bound [of s 0]
  by (auto simp: ParseDuration_def Let_def max_magnitude_def min_duration_def max_duration_def not_less
      split: sum.split)

end
