(* ===== verification/Services.thy ===== *)
theory Services
  imports ManagedObjects Webhooks GoDuration "HOL-Library.List_Lexorder" "HOL-Library.Char_ord"
begin

section \<open>The service layer\<close>

text \<open>
  \<^verbatim>\<open>pkg/service\<close>: what the REST API and the web pages read and change. A service holds the Kubernetes
  client only, so its methods take the world's operations \<open>y\<close> (\<open>vext\<close>) in place of the receiver. A list
  without a namespace option asks for the namespace \<open>[]\<close>. \<^verbatim>\<open>sort.Strings\<close> is \<open>sort\<close> in the lexicographic
  order of bytes; the data of a listed ConfigMap is an association list, in the order in which the
  \<^verbatim>\<open>range\<close> loop visits it. Strings are taken to be valid UTF-8, so that a loop over runes visits the ASCII
  characters it compares with as bytes. \<^verbatim>\<open>FormatTimestamp\<close> and \<^verbatim>\<open>FormatTime\<close> print a calendar date and
  are not modelled.
\<close>

subsection \<open>The client\<close>

record ConfigMapItem =
  cmi_Name :: string
  cmi_Namespace :: string
  cmi_Data :: "(string \<times> string) list"

record ('w, 'sched) vext =
  cluster :: "('w, 'sched) sext"
  x_createServer :: "PaperMCServer \<Rightarrow> 'w \<Rightarrow> unit result \<times> 'w"
  x_deleteServer :: "PaperMCServer \<Rightarrow> 'w \<Rightarrow> unit result \<times> 'w"
  x_createPlugin :: "Plugin \<Rightarrow> 'w \<Rightarrow> unit result \<times> 'w"
  x_deletePlugin :: "Plugin \<Rightarrow> 'w \<Rightarrow> unit result \<times> 'w"
  x_listConfigMaps :: "string \<Rightarrow> 'w \<Rightarrow> ConfigMapItem list result \<times> 'w"

abbreviation world_ext :: "('w, 'sched) vext \<Rightarrow> ('w, 'sched) ext" where
  "world_ext y \<equiv> base (cluster y)"

definition create_server :: "('w, 'sched) vext \<Rightarrow> PaperMCServer \<Rightarrow> ('w, unit result) op" where
  "create_server y s = call (\<lambda>r. E_CreateServer s (is_ok r)) (x_createServer y s)"

definition delete_server :: "('w, 'sched) vext \<Rightarrow> PaperMCServer \<Rightarrow> ('w, unit result) op" where
  "delete_server y s = call (\<lambda>r. E_DeleteServer s (is_ok r)) (x_deleteServer y s)"

definition create_plugin :: "('w, 'sched) vext \<Rightarrow> Plugin \<Rightarrow> ('w, unit result) op" where
  "create_plugin y p = call (\<lambda>r. E_CreatePlugin p (is_ok r)) (x_createPlugin y p)"

definition delete_plugin :: "('w, 'sched) vext \<Rightarrow> Plugin \<Rightarrow> ('w, unit result) op" where
  "delete_plugin y p = call (\<lambda>r. E_DeletePlugin p (is_ok r)) (x_deletePlugin y p)"

definition list_config_maps :: "('w, 'sched) vext \<Rightarrow> string \<Rightarrow> ('w, ConfigMapItem list result) op" where
  "list_config_maps y ns = call (\<lambda>r. E_ListConfigMaps ns (is_ok r)) (x_listConfigMaps y ns)"

lemmas service_call_ops = create_server_def delete_server_def create_plugin_def delete_plugin_def
  list_config_maps_def

subsection \<open>Helpers (\<^verbatim>\<open>helpers.go\<close>)\<close>

definition FormatVersionWithBuild :: "string \<Rightarrow> int \<Rightarrow> string" where
  "FormatVersionWithBuild version build =
     (if version = [] then ''Unknown''
      else if build > 0 then version @ ''-'' @ itoa build
      else version)"

fun split_cron_loop :: "string list \<Rightarrow> string \<Rightarrow> string \<Rightarrow> string list" where
  "split_cron_loop parts current [] = (if current \<noteq> [] then parts @ [current] else parts)"
| "split_cron_loop parts current (ch # s) =
     (if ch = CHR '' '' \<or> ch = CHR 0x09
      then (if current \<noteq> [] then split_cron_loop (parts @ [current]) [] s else split_cron_loop parts current s)
      else split_cron_loop parts (current @ [ch]) s)"

definition splitCronExpression :: "string \<Rightarrow> string list" where
  "splitCronExpression expr = split_cron_loop [] [] expr"

definition getWeekdayName :: "string \<Rightarrow> string" where
  "getWeekdayName weekday =
     (case map_of [(''0'', ''Sunday''), (''1'', ''Monday''), (''2'', ''Tuesday''), (''3'', ''Wednesday''),
                   (''4'', ''Thursday''), (''5'', ''Friday''), (''6'', ''Saturday''), (''7'', ''Sunday'')] weekday of
        None \<Rightarrow> [] | Some name \<Rightarrow> name)"

definition FormatCronSchedule :: "string \<Rightarrow> string" where
  "FormatCronSchedule cronExpr =
     (if cronExpr = [] then ''Not scheduled''
      else case splitCronExpression cronExpr of
        [minute, hour, day, month, weekday] \<Rightarrow>
          if day = ''*'' \<and> month = ''*'' \<and> weekday = ''*'' then
            (if minute = ''0'' \<and> hour \<noteq> ''*'' then ''Daily at '' @ hour @ '':00''
             else ''Daily at '' @ hour @ '':'' @ minute)
          else if day = ''*'' \<and> month = ''*'' \<and> weekday \<noteq> ''*'' \<and> getWeekdayName weekday \<noteq> [] then
            (if minute = ''0'' then ''Every '' @ getWeekdayName weekday @ '' at '' @ hour @ '':00''
             else ''Every '' @ getWeekdayName weekday @ '' at '' @ hour @ '':'' @ minute)
          else ''Cron: '' @ cronExpr
      | _ \<Rightarrow> ''Cron: '' @ cronExpr)"

definition FormatPluginCompatibility :: "bool \<Rightarrow> string" where
  "FormatPluginCompatibility compatible = (if compatible then ''compatible'' else ''incompatible'')"

definition isAlphanumeric :: "char \<Rightarrow> bool" where
  "isAlphanumeric ch = ((CHR ''a'' \<le> ch \<and> ch \<le> CHR ''z'') \<or> (CHR ''0'' \<le> ch \<and> ch \<le> CHR ''9''))"

definition IsValidKubernetesName :: "string \<Rightarrow> bool" where
  "IsValidKubernetesName name =
     (if name = [] \<or> length name > 253 then False
      else if \<not> isAlphanumeric (hd name) \<or> \<not> isAlphanumeric (last name) then False
      else list_all (\<lambda>ch. isAlphanumeric ch \<or> ch = CHR ''-'' \<or> ch = CHR ''.'') name)"

subsection \<open>ConfigMaps and namespaces (\<^verbatim>\<open>configmaps.go\<close>, \<^verbatim>\<open>namespaces.go\<close>)\<close>

record ConfigFileData =
  cfd_ConfigMapName :: string
  cfd_ConfigMapKey :: string
  cfd_Path :: string
  cfd_Overwrite :: string

record ServerPluginConfigData =
  pcd_PluginName :: string
  pcd_Configs :: "ConfigFileData list"

record ConfigMapSummary =
  cms_Name :: string
  cms_Namespace :: string
  cms_Keys :: "string list"

definition ListConfigMaps :: "('w, 'sched) vext \<Rightarrow> string \<Rightarrow> ('w, ConfigMapSummary list result) op" where
  "ListConfigMaps y namespace = do {
     l \<leftarrow> list_config_maps y namespace;
     State_Monad.return
       (case l of
          Inl err \<Rightarrow> Inl (Wrap err ''failed to list ConfigMaps'')
        | Inr items \<Rightarrow>
            Inr (map (\<lambda>cm. \<lparr>cms_Name = cmi_Name cm, cms_Namespace = cmi_Namespace cm,
                            cms_Keys = sort (map fst (cmi_Data cm))\<rparr>) items))
   }"

definition CreateConfigMap ::
  "('w, 'sched) vext \<Rightarrow> string \<Rightarrow> string \<Rightarrow> (string \<rightharpoonup> string) \<Rightarrow> ('w, unit result) op" where
  "CreateConfigMap y namespace name data = do {
     r \<leftarrow> api_create O_ConfigMap (x_configMaps (cluster y))
           \<lparr>cm_Meta = zero_meta\<lparr>m_Name := name, m_Namespace := namespace\<rparr>, cm_Data = data,
            cm_BinaryData = Map.empty\<rparr>;
     State_Monad.return (wrap_result ''failed to create ConfigMap'' r)
   }"

definition configDataToPluginConfigFiles :: "ConfigFileData list \<Rightarrow> PluginConfigFile list" where
  "configDataToPluginConfigFiles data =
     map (\<lambda>cfg. \<lparr>pcf_ConfigMapRef = \<lparr>ck_Name = cfd_ConfigMapName cfg, ck_Key = cfd_ConfigMapKey cfg\<rparr>,
                 pcf_Path = cfd_Path cfg, pcf_Overwrite = cfd_Overwrite cfg\<rparr>) data"

definition configDataToServerConfigs :: "ConfigFileData list \<Rightarrow> ServerConfigFile list" where
  "configDataToServerConfigs data =
     map (\<lambda>cfg. \<lparr>scf_ConfigMapRef = \<lparr>ck_Name = cfd_ConfigMapName cfg, ck_Key = cfd_ConfigMapKey cfg\<rparr>,
                 scf_Path = cfd_Path cfg, scf_Overwrite = cfd_Overwrite cfg\<rparr>) data"

definition configDataToPluginConfigs :: "ServerPluginConfigData list \<Rightarrow> ServerPluginConfig list" where
  "configDataToPluginConfigs data =
     map (\<lambda>pc. \<lparr>spc_PluginName = pcd_PluginName pc,
                spc_Configs = configDataToPluginConfigFiles (pcd_Configs pc)\<rparr>) data"

definition ListNamespaces :: "('w, 'sched) vext \<Rightarrow> ('w, string list result) op" where
  "ListNamespaces y = do {
     p \<leftarrow> list_plugins (world_ext y) [];
     case p of
       Inl err \<Rightarrow> State_Monad.return (Inl (Wrap err ''failed to list Plugins''))
     | Inr plugins \<Rightarrow> do {
         l \<leftarrow> list_servers (cluster y) [];
         State_Monad.return
           (case l of
              Inl err \<Rightarrow> Inl (Wrap err ''failed to list PaperMCServers'')
            | Inr servers \<Rightarrow>
                let namespaceSet = remdups (map pl_Namespace plugins @ map sv_Namespace servers @ [''default''])
                in Inr (k_range (cluster y) [''ListNamespaces''] namespaceSet))
       }
   }"

subsection \<open>Data of the servers (\<^verbatim>\<open>servers.go\<close>)\<close>

definition StatusRunning :: string where "StatusRunning = ''running''"
definition StatusUpdating :: string where "StatusUpdating = ''updating''"
definition StatusUnknown :: string where "StatusUnknown = ''unknown''"
definition AnnotationReconcile :: string where "AnnotationReconcile = ''mc.k8s.lex.la/reconcile''"
definition ServiceAnnotationApplyNow :: string where "ServiceAnnotationApplyNow = ''mc.k8s.lex.la/apply-now''"
definition ConditionStatefulSetReady :: string where "ConditionStatefulSetReady = ''StatefulSetReady''"

record AvailableUpdateData =
  aud_Version :: string
  aud_Build :: int
  aud_ReleasedAt :: time

record ServerPluginData =
  spd_Name :: string
  spd_Namespace :: string
  spd_ResolvedVersion :: string
  spd_CurrentVersion :: string
  spd_DesiredVersion :: string
  spd_Compatible :: bool
  spd_SourceType :: string
  spd_Project :: string

record MaintenanceScheduleData =
  msd_CheckCron :: string
  msd_WindowCron :: string
  msd_NextWindow :: string
  msd_Enabled :: bool

record UpdateHistoryData =
  uhd_AppliedAt :: time
  uhd_PreviousVersion :: string
  uhd_Successful :: bool

record ServerData =
  sd_Name :: string
  sd_Namespace :: string
  sd_CurrentVersion :: string
  sd_CurrentBuild :: int
  sd_DesiredVersion :: string
  sd_DesiredBuild :: int
  sd_UpdateStrategy :: string
  sd_Status :: string
  sd_PluginCount :: int
  sd_AvailableUpdate :: "AvailableUpdateData option"
  sd_NextMaintenance :: string
  sd_Labels :: "string \<rightharpoonup> string"
  sd_Plugins :: "ServerPluginData list"
  sd_MaintenanceSchedule :: "MaintenanceScheduleData option"
  sd_UpdateHistory :: "UpdateHistoryData option"

record ServerCreateData =
  scd_Name :: string
  scd_Namespace :: string
  scd_UpdateStrategy :: string
  scd_Version :: string
  scd_Build :: int
  scd_UpdateDelay :: string
  scd_CheckCron :: string
  scd_MaintenanceEnabled :: bool
  scd_MaintenanceCron :: string
  scd_Labels :: "string \<rightharpoonup> string"
  scd_PluginConfigs :: "ServerPluginConfigData list"
  scd_ServerConfigs :: "ConfigFileData list"

record ServerUpdateData =
  sud_Namespace :: string
  sud_Name :: string
  sud_UpdateStrategy :: "string option"
  sud_Version :: "string option"
  sud_Build :: "int option"
  sud_UpdateDelay :: "string option"
  sud_CheckCron :: "string option"
  sud_MaintenanceEnabled :: "bool option"
  sud_MaintenanceCron :: "string option"
  sud_Labels :: "(string \<rightharpoonup> string) option"

fun status_from_conditions :: "Condition list \<Rightarrow> string option" where
  "status_from_conditions [] = None"
| "status_from_conditions (condition # cs) =
     (if c_Type condition = ConditionStatefulSetReady \<and> c_Status condition = ConditionTrue then Some StatusRunning
      else if c_Type condition = ConditionStatefulSetReady \<and> c_Status condition = ConditionFalse
              \<and> c_Reason condition = ''Updating'' then Some StatusUpdating
      else status_from_conditions cs)"

definition DetermineStatus :: "PaperMCServer \<Rightarrow> string" where
  "DetermineStatus server =
     (case status_from_conditions (st_Conditions (sv_Status server)) of
        Some s \<Rightarrow> s
      | None \<Rightarrow> if st_CurrentVersion (sv_Status server) \<noteq> [] then StatusRunning else StatusUnknown)"

definition CheckStatefulSetStatus :: "('w, 'sched) vext \<Rightarrow> string \<Rightarrow> string \<Rightarrow> ('w, string) op" where
  "CheckStatefulSetStatus y name namespace = do {
     r \<leftarrow> get_sts (world_ext y) namespace name;
     State_Monad.return
       (case r of
          Inl _ \<Rightarrow> StatusUnknown
        | Inr sts \<Rightarrow>
            if sts_ReadyReplicas sts > 0 \<and> sts_ReadyReplicas sts = sts_StatusReplicas sts then StatusRunning
            else if sts_CurrentRevision sts \<noteq> sts_UpdateRevision sts then StatusUpdating
            else StatusUnknown)
   }"

definition plugin_status_data :: "ServerPluginStatus \<Rightarrow> ServerPluginData" where
  "plugin_status_data ps =
     \<lparr>spd_Name = pr_Name (sp_PluginRef ps), spd_Namespace = pr_Namespace (sp_PluginRef ps),
      spd_ResolvedVersion = sp_ResolvedVersion ps, spd_CurrentVersion = sp_CurrentVersion ps,
      spd_DesiredVersion = sp_DesiredVersion ps, spd_Compatible = sp_Compatible ps,
      spd_SourceType = sp_Source ps, spd_Project = []\<rparr>"

text \<open>The fields of \<^verbatim>\<open>serverToData\<close> that need no call, with the status found so far.\<close>

definition server_fields :: "PaperMCServer \<Rightarrow> string \<Rightarrow> ServerData" where
  "server_fields server status =
     (let spec = sv_Spec server; st = sv_Status server; us = ss_UpdateSchedule spec; mw = us_MaintenanceWindow us
      in \<lparr>sd_Name = sv_Name server, sd_Namespace = sv_Namespace server,
          sd_CurrentVersion = st_CurrentVersion st, sd_CurrentBuild = st_CurrentBuild st,
          sd_DesiredVersion = st_DesiredVersion st, sd_DesiredBuild = st_DesiredBuild st,
          sd_UpdateStrategy = ss_UpdateStrategy spec, sd_Status = status,
          sd_PluginCount = int (length (st_Plugins st)),
          sd_AvailableUpdate = map_option (\<lambda>au. \<lparr>aud_Version = au_Version au, aud_Build = au_Build au,
             aud_ReleasedAt = au_ReleasedAt au\<rparr>) (st_AvailableUpdate st),
          sd_NextMaintenance = (if mw_Enabled mw then FormatCronSchedule (mw_Cron mw) else []),
          sd_Labels = sv_Labels server,
          sd_Plugins = map plugin_status_data (st_Plugins st),
          sd_MaintenanceSchedule =
            (if mw_Enabled mw
             then Some \<lparr>msd_CheckCron = us_CheckCron us, msd_WindowCron = mw_Cron mw,
                        msd_NextWindow = FormatCronSchedule (mw_Cron mw), msd_Enabled = True\<rparr>
             else None),
          sd_UpdateHistory = map_option (\<lambda>lu. \<lparr>uhd_AppliedAt = uh_AppliedAt lu,
             uhd_PreviousVersion = uh_PreviousVersion lu, uhd_Successful = uh_Successful lu\<rparr>) (st_LastUpdate st)\<rparr>)"

definition serverToData :: "('w, 'sched) vext \<Rightarrow> PaperMCServer \<Rightarrow> ('w, ServerData) op" where
  "serverToData y server =
     (if DetermineStatus server = StatusUnknown then do {
        status \<leftarrow> CheckStatefulSetStatus y (sv_Name server) (sv_Namespace server);
        State_Monad.return (server_fields server status)
      }
      else State_Monad.return (server_fields server (DetermineStatus server)))"

fun fetchPluginDetails :: "('w, 'sched) vext \<Rightarrow> ServerPluginStatus list \<Rightarrow> ('w, ServerPluginData list) op" where
  "fetchPluginDetails y [] = State_Monad.return []"
| "fetchPluginDetails y (pluginStatus # rest) = do {
     g \<leftarrow> get_plugin (world_ext y) (pr_Namespace (sp_PluginRef pluginStatus)) (pr_Name (sp_PluginRef pluginStatus));
     plugins \<leftarrow> fetchPluginDetails y rest;
     State_Monad.return
       ((case g of
           Inl _ \<Rightarrow>
             \<lparr>spd_Name = pr_Name (sp_PluginRef pluginStatus), spd_Namespace = pr_Namespace (sp_PluginRef pluginStatus),
              spd_ResolvedVersion = sp_ResolvedVersion pluginStatus, spd_CurrentVersion = [], spd_DesiredVersion = [],
              spd_Compatible = sp_Compatible pluginStatus, spd_SourceType = [], spd_Project = []\<rparr>
         | Inr plugin \<Rightarrow>
             \<lparr>spd_Name = pl_Name plugin, spd_Namespace = pl_Namespace plugin,
              spd_ResolvedVersion = sp_ResolvedVersion pluginStatus,
              spd_CurrentVersion = sp_CurrentVersion pluginStatus, spd_DesiredVersion = sp_DesiredVersion pluginStatus,
              spd_Compatible = sp_Compatible pluginStatus, spd_SourceType = src_Type (ps_Source (pl_Spec plugin)),
              spd_Project = src_Project (ps_Source (pl_Spec plugin))\<rparr>) # plugins)
   }"

subsection \<open>ServerService\<close>

fun servers_loop :: "('w, 'sched) vext \<Rightarrow> string \<Rightarrow> PaperMCServer list \<Rightarrow> ('w, ServerData list) op" where
  "servers_loop y namespace [] = State_Monad.return []"
| "servers_loop y namespace (server # rest) =
     (if namespace \<noteq> [] \<and> sv_Namespace server \<noteq> namespace then servers_loop y namespace rest
      else do {
        data \<leftarrow> serverToData y server;
        servers \<leftarrow> servers_loop y namespace rest;
        State_Monad.return (data # servers)
      })"

definition ServerService_ListServers :: "('w, 'sched) vext \<Rightarrow> string \<Rightarrow> ('w, ServerData list result) op" where
  "ServerService_ListServers y namespace = do {
     l \<leftarrow> list_servers (cluster y) [];
     case l of
       Inl err \<Rightarrow> State_Monad.return (Inl (Wrap err ''failed to list PaperMCServers''))
     | Inr items \<Rightarrow> do {
         servers \<leftarrow> servers_loop y namespace items;
         State_Monad.return (Inr servers)
       }
   }"

definition server_details :: "('w, 'sched) vext \<Rightarrow> PaperMCServer \<Rightarrow> ('w, ServerData result) op" where
  "server_details y server = do {
     data \<leftarrow> serverToData y server;
     plugins \<leftarrow> fetchPluginDetails y (st_Plugins (sv_Status server));
     State_Monad.return (Inr (data\<lparr>sd_Plugins := plugins\<rparr>))
   }"

definition ServerService_GetServer :: "('w, 'sched) vext \<Rightarrow> string \<Rightarrow> string \<Rightarrow> ('w, ServerData result) op" where
  "ServerService_GetServer y namespace name = do {
     g \<leftarrow> get_server (world_ext y) namespace name;
     case g of
       Inl err \<Rightarrow> State_Monad.return (Inl (Wrap err ''failed to get PaperMCServer''))
     | Inr server \<Rightarrow> server_details y server
   }"

definition ServerService_GetServerByName :: "('w, 'sched) vext \<Rightarrow> string \<Rightarrow> ('w, ServerData result) op" where
  "ServerService_GetServerByName y name = do {
     l \<leftarrow> list_servers (cluster y) [];
     case l of
       Inl err \<Rightarrow> State_Monad.return (Inl (Wrap err ''failed to list PaperMCServers''))
     | Inr items \<Rightarrow>
         (case find (\<lambda>s. sv_Name s = name) items of
            None \<Rightarrow> State_Monad.return (Inl (Newf ''PaperMCServer %q not found'' [AStr name]))
          | Some server \<Rightarrow> server_details y server)
   }"

text \<open>The common part of \<^verbatim>\<open>TriggerReconciliation\<close> and \<^verbatim>\<open>ApplyNow\<close>: an annotation with the current time.\<close>

definition annotate_server :: "('w, 'sched) vext \<Rightarrow> string \<Rightarrow> string \<Rightarrow> string \<Rightarrow> ('w, unit result) op" where
  "annotate_server y key namespace name = do {
     g \<leftarrow> get_server (world_ext y) namespace name;
     case g of
       Inl err \<Rightarrow> State_Monad.return (Inl (Wrap err ''failed to get server''))
     | Inr server \<Rightarrow> do {
         now \<leftarrow> now_op (world_ext y);
         u \<leftarrow> update_server (world_ext y)
               (set_annotations server ((sv_Annotations server)(key \<mapsto> itoa (Unix now))));
         State_Monad.return (wrap_result ''failed to update server'' u)
       }
   }"

definition ServerService_TriggerReconciliation ::
  "('w, 'sched) vext \<Rightarrow> string \<Rightarrow> string \<Rightarrow> ('w, unit result) op" where
  "ServerService_TriggerReconciliation y namespace name = annotate_server y AnnotationReconcile namespace name"

definition ServerService_ApplyNow :: "('w, 'sched) vext \<Rightarrow> string \<Rightarrow> string \<Rightarrow> ('w, unit result) op" where
  "ServerService_ApplyNow y namespace name = annotate_server y ServiceAnnotationApplyNow namespace name"

definition ServerService_DeleteServer :: "('w, 'sched) vext \<Rightarrow> string \<Rightarrow> string \<Rightarrow> ('w, unit result) op" where
  "ServerService_DeleteServer y namespace name = do {
     g \<leftarrow> get_server (world_ext y) namespace name;
     case g of
       Inl err \<Rightarrow> State_Monad.return (Inl (Wrap err ''failed to get server''))
     | Inr server \<Rightarrow> do {
         d \<leftarrow> delete_server y server;
         State_Monad.return (wrap_result ''failed to delete server'' d)
       }
   }"

text \<open>The update delay of a request, where one is given.\<close>

definition parse_delay :: "string \<Rightarrow> duration result" where
  "parse_delay s =
     (case ParseDuration s of Inl err \<Rightarrow> Inl (Wrapf err ''invalid update delay %q'' [AStr s]) | Inr d \<Rightarrow> Inr d)"

definition created_server :: "ServerCreateData \<Rightarrow> duration option \<Rightarrow> PaperMCServer" where
  "created_server data delay = zero_server\<lparr>
     sv_Meta := zero_meta\<lparr>m_Name := scd_Name data, m_Namespace := scd_Namespace data, m_Labels := scd_Labels data\<rparr>,
     sv_Spec := zero_server_spec\<lparr>
       ss_UpdateStrategy := scd_UpdateStrategy data, ss_Version := scd_Version data,
       ss_Build := (if scd_Build data \<noteq> 0 then Some (scd_Build data) else None),
       ss_UpdateDelay := delay,
       ss_UpdateSchedule := \<lparr>us_CheckCron = scd_CheckCron data,
         us_MaintenanceWindow =
           (if scd_MaintenanceEnabled data then \<lparr>mw_Cron = scd_MaintenanceCron data, mw_Enabled = True\<rparr>
            else \<lparr>mw_Cron = [], mw_Enabled = False\<rparr>)\<rparr>,
       ss_PluginConfigs := configDataToPluginConfigs (scd_PluginConfigs data),
       ss_ServerConfigs := configDataToServerConfigs (scd_ServerConfigs data)\<rparr>\<rparr>"

definition ServerService_CreateServer :: "('w, 'sched) vext \<Rightarrow> ServerCreateData \<Rightarrow> ('w, unit result) op" where
  "ServerService_CreateServer y data =
     (case (if scd_UpdateDelay data \<noteq> [] then map_sum id Some (parse_delay (scd_UpdateDelay data)) else Inr None) of
        Inl err \<Rightarrow> State_Monad.return (Inl err)
      | Inr delay \<Rightarrow> do {
          c \<leftarrow> create_server y (created_server data delay);
          State_Monad.return (wrap_result ''failed to create PaperMCServer'' c)
        })"

text \<open>A field that a request may set.\<close>

definition given :: "'a option \<Rightarrow> 'a \<Rightarrow> 'a" where
  "given v old = (case v of None \<Rightarrow> old | Some a \<Rightarrow> a)"

definition patched_server :: "ServerUpdateData \<Rightarrow> duration option \<Rightarrow> PaperMCServer \<Rightarrow> PaperMCServer" where
  "patched_server data delay server =
     (let spec = sv_Spec server; us = ss_UpdateSchedule spec; mw = us_MaintenanceWindow us
      in server\<lparr>
           sv_Meta := (sv_Meta server)\<lparr>m_Labels := given (sud_Labels data) (sv_Labels server)\<rparr>,
           sv_Spec := spec\<lparr>
             ss_UpdateStrategy := given (sud_UpdateStrategy data) (ss_UpdateStrategy spec),
             ss_Version := given (sud_Version data) (ss_Version spec),
             ss_Build := (case sud_Build data of None \<Rightarrow> ss_Build spec | Some b \<Rightarrow> Some b),
             ss_UpdateDelay := (case delay of None \<Rightarrow> ss_UpdateDelay spec | Some d \<Rightarrow> Some d),
             ss_UpdateSchedule := \<lparr>us_CheckCron = given (sud_CheckCron data) (us_CheckCron us),
               us_MaintenanceWindow = \<lparr>mw_Cron = given (sud_MaintenanceCron data) (mw_Cron mw),
                 mw_Enabled = given (sud_MaintenanceEnabled data) (mw_Enabled mw)\<rparr>\<rparr>\<rparr>\<rparr>)"

definition ServerService_UpdateServer :: "('w, 'sched) vext \<Rightarrow> ServerUpdateData \<Rightarrow> ('w, unit result) op" where
  "ServerService_UpdateServer y data = do {
     g \<leftarrow> get_server (world_ext y) (sud_Namespace data) (sud_Name data);
     case g of
       Inl err \<Rightarrow> State_Monad.return (Inl (Wrap err ''failed to get server''))
     | Inr server \<Rightarrow>
         (case (case sud_UpdateDelay data of None \<Rightarrow> Inr None | Some s \<Rightarrow> map_sum id Some (parse_delay s)) of
            Inl err \<Rightarrow> State_Monad.return (Inl err)
          | Inr delay \<Rightarrow> do {
              u \<leftarrow> update_server (world_ext y) (patched_server data delay server);
              State_Monad.return (wrap_result ''failed to update server'' u)
            })
   }"

definition ServerService_GetServerNamespaces :: "('w, 'sched) vext \<Rightarrow> ('w, string list result) op" where
  "ServerService_GetServerNamespaces y = do {
     l \<leftarrow> list_servers (cluster y) [];
     State_Monad.return
       (case l of
          Inl err \<Rightarrow> Inl (Wrap err ''failed to list PaperMCServers'')
        | Inr servers \<Rightarrow>
            Inr (k_range (cluster y) [''GetServerNamespaces''] (remdups (map sv_Namespace servers))))
   }"

subsection \<open>Data of the plugins (\<^verbatim>\<open>plugins.go\<close>)\<close>

definition updateStrategyPinLegacy :: string where "updateStrategyPinLegacy = ''pinned''"

record PluginVersionData =
  pvd_Version :: string
  pvd_SupportedVersions :: "string list"
  pvd_DownloadURL :: string
  pvd_ReleasedAt :: time

record MatchedInstanceData =
  mid_Name :: string
  mid_Namespace :: string
  mid_Version :: string
  mid_Compatible :: bool

record PluginSourceData =
  psd_Type :: string
  psd_Project :: string
  psd_URL :: string
  psd_Checksum :: string

record PluginEndpointData =
  ped_Name :: string
  ped_Port :: int
  ped_Protocol :: string

record PluginData =
  pd_Name :: string
  pd_Namespace :: string
  pd_SourceType :: string
  pd_Project :: string
  pd_URL :: string
  pd_UpdateStrategy :: string
  pd_Version :: string
  pd_Build :: "int option"
  pd_UpdateDelay :: "duration option"
  pd_Endpoints :: "PluginEndpointData list"
  pd_ResolvedVersion :: string
  pd_MatchedServers :: int
  pd_RepositoryStatus :: string
  pd_LastFetched :: "time option"
  pd_AvailableVersions :: "PluginVersionData list"
  pd_MatchedInstances :: "MatchedInstanceData list"

record PluginCreateData =
  pcr_Name :: string
  pcr_Namespace :: string
  pcr_Source :: PluginSourceData
  pcr_UpdateStrategy :: string
  pcr_Version :: string
  pcr_Build :: int
  pcr_UpdateDelay :: string
  pcr_Endpoints :: "PluginEndpointData list"
  pcr_PluginDirName :: string
  pcr_Configs :: "ConfigFileData list"
  pcr_InstanceSelector :: LabelSelector

record PluginUpdateData =
  pud_Namespace :: string
  pud_Name :: string
  pud_UpdateStrategy :: "string option"
  pud_Version :: "string option"
  pud_Build :: "int option"
  pud_UpdateDelay :: "string option"
  pud_Endpoints :: "PluginEndpointData list option"
  pud_InstanceSelector :: "LabelSelector option"

definition convertEndpointsFromCRD :: "PluginEndpoint list \<Rightarrow> PluginEndpointData list" where
  "convertEndpointsFromCRD endpoints =
     map (\<lambda>ep. \<lparr>ped_Name = ep_Name ep, ped_Port = ep_Port ep, ped_Protocol = ep_Protocol ep\<rparr>) endpoints"

text \<open>The other direction, which \<^verbatim>\<open>CreatePlugin\<close> and \<^verbatim>\<open>UpdatePlugin\<close> write out as loops.\<close>

definition endpoints_to_CRD :: "PluginEndpointData list \<Rightarrow> PluginEndpoint list" where
  "endpoints_to_CRD eps =
     map (\<lambda>ep. \<lparr>ep_Name = ped_Name ep, ep_Port = ped_Port ep, ep_Protocol = ped_Protocol ep\<rparr>) eps"

definition pluginToData :: "Plugin \<Rightarrow> PluginData" where
  "pluginToData plugin =
     (let spec = pl_Spec plugin; st = pl_Status plugin;
          isPinned = (ps_UpdateStrategy spec = updateStrategyPin \<or> ps_UpdateStrategy spec = updateStrategyPinLegacy)
      in \<lparr>pd_Name = pl_Name plugin, pd_Namespace = pl_Namespace plugin,
          pd_SourceType = src_Type (ps_Source spec), pd_Project = src_Project (ps_Source spec),
          pd_URL = src_URL (ps_Source spec), pd_UpdateStrategy = ps_UpdateStrategy spec,
          pd_Version = ps_Version spec, pd_Build = ps_Build spec, pd_UpdateDelay = ps_UpdateDelay spec,
          pd_Endpoints = convertEndpointsFromCRD (ps_Endpoints spec),
          pd_ResolvedVersion = (if isPinned \<and> ps_Version spec \<noteq> [] then ps_Version spec else []),
          pd_MatchedServers = int (length (pst_MatchedInstances st)),
          pd_RepositoryStatus = pst_RepositoryStatus st, pd_LastFetched = pst_LastFetched st,
          pd_AvailableVersions =
            map (\<lambda>v. \<lparr>pvd_Version = pvi_Version v, pvd_SupportedVersions = pvi_MinecraftVersions v,
                      pvd_DownloadURL = pvi_DownloadURL v, pvd_ReleasedAt = pvi_ReleasedAt v\<rparr>)
              (pst_AvailableVersions st),
          pd_MatchedInstances =
            map (\<lambda>mi. \<lparr>mid_Name = mi_Name mi, mid_Namespace = mi_Namespace mi, mid_Version = mi_Version mi,
                       mid_Compatible = mi_Compatible mi\<rparr>) (pst_MatchedInstances st)\<rparr>)"

subsection \<open>PluginService\<close>

definition PluginService_ListPlugins :: "('w, 'sched) vext \<Rightarrow> string \<Rightarrow> ('w, PluginData list result) op" where
  "PluginService_ListPlugins y namespace = do {
     l \<leftarrow> list_plugins (world_ext y) [];
     State_Monad.return
       (case l of
          Inl err \<Rightarrow> Inl (Wrap err ''failed to list Plugins'')
        | Inr items \<Rightarrow>
            Inr (map pluginToData (filter (\<lambda>p. \<not> (namespace \<noteq> [] \<and> pl_Namespace p \<noteq> namespace)) items)))
   }"

definition PluginService_GetPlugin :: "('w, 'sched) vext \<Rightarrow> string \<Rightarrow> string \<Rightarrow> ('w, PluginData result) op" where
  "PluginService_GetPlugin y namespace name = do {
     g \<leftarrow> get_plugin (world_ext y) namespace name;
     State_Monad.return
       (case g of Inl err \<Rightarrow> Inl (Wrap err ''failed to get Plugin'') | Inr plugin \<Rightarrow> Inr (pluginToData plugin))
   }"

definition created_plugin :: "PluginCreateData \<Rightarrow> duration option \<Rightarrow> Plugin" where
  "created_plugin data delay = zero_plugin\<lparr>
     pl_Meta := zero_meta\<lparr>m_Name := pcr_Name data, m_Namespace := pcr_Namespace data\<rparr>,
     pl_Spec := zero_plugin_spec\<lparr>
       ps_Source := \<lparr>src_Type = psd_Type (pcr_Source data), src_Project = psd_Project (pcr_Source data),
         src_URL = psd_URL (pcr_Source data), src_Checksum = psd_Checksum (pcr_Source data)\<rparr>,
       ps_UpdateStrategy := pcr_UpdateStrategy data, ps_Version := pcr_Version data,
       ps_Build := (if pcr_Build data \<noteq> 0 then Some (pcr_Build data) else None),
       ps_UpdateDelay := delay,
       ps_InstanceSelector := pcr_InstanceSelector data,
       ps_Endpoints := endpoints_to_CRD (pcr_Endpoints data),
       ps_PluginDirName := pcr_PluginDirName data,
       ps_Configs := configDataToPluginConfigFiles (pcr_Configs data)\<rparr>\<rparr>"

definition PluginService_CreatePlugin :: "('w, 'sched) vext \<Rightarrow> PluginCreateData \<Rightarrow> ('w, unit result) op" where
  "PluginService_CreatePlugin y data =
     (case (if pcr_UpdateDelay data \<noteq> [] then map_sum id Some (parse_delay (pcr_UpdateDelay data)) else Inr None) of
        Inl err \<Rightarrow> State_Monad.return (Inl err)
      | Inr delay \<Rightarrow> do {
          c \<leftarrow> create_plugin y (created_plugin data delay);
          State_Monad.return (wrap_result ''failed to create Plugin'' c)
        })"

definition PluginService_DeletePlugin :: "('w, 'sched) vext \<Rightarrow> string \<Rightarrow> string \<Rightarrow> ('w, unit result) op" where
  "PluginService_DeletePlugin y namespace name = do {
     g \<leftarrow> get_plugin (world_ext y) namespace name;
     case g of
       Inl err \<Rightarrow> State_Monad.return (Inl (Wrap err ''failed to get plugin''))
     | Inr plugin \<Rightarrow> do {
         d \<leftarrow> delete_plugin y plugin;
         State_Monad.return (wrap_result ''failed to delete plugin'' d)
       }
   }"

definition annotated_plugin :: "string \<Rightarrow> string \<Rightarrow> Plugin \<Rightarrow> Plugin" where
  "annotated_plugin key v plugin =
     plugin\<lparr>pl_Meta := (pl_Meta plugin)\<lparr>m_Annotations := (m_Annotations (pl_Meta plugin))(key \<mapsto> v)\<rparr>\<rparr>"

definition PluginService_TriggerReconciliation ::
  "('w, 'sched) vext \<Rightarrow> string \<Rightarrow> string \<Rightarrow> ('w, unit result) op" where
  "PluginService_TriggerReconciliation y namespace name = do {
     g \<leftarrow> get_plugin (world_ext y) namespace name;
     case g of
       Inl err \<Rightarrow> State_Monad.return (Inl (Wrap err ''failed to get plugin''))
     | Inr plugin \<Rightarrow> do {
         now \<leftarrow> now_op (world_ext y);
         u \<leftarrow> update_plugin (cluster y) (annotated_plugin AnnotationReconcile (itoa (Unix now)) plugin);
         State_Monad.return (wrap_result ''failed to update plugin'' u)
       }
   }"

definition patched_plugin :: "PluginUpdateData \<Rightarrow> duration option \<Rightarrow> Plugin \<Rightarrow> Plugin" where
  "patched_plugin data delay plugin =
     (let spec = pl_Spec plugin
      in plugin\<lparr>pl_Spec := spec\<lparr>
           ps_UpdateStrategy := given (pud_UpdateStrategy data) (ps_UpdateStrategy spec),
           ps_Version := given (pud_Version data) (ps_Version spec),
           ps_Build := (case pud_Build data of None \<Rightarrow> ps_Build spec | Some b \<Rightarrow> Some b),
           ps_UpdateDelay := (case delay of None \<Rightarrow> ps_UpdateDelay spec | Some d \<Rightarrow> Some d),
           ps_InstanceSelector := given (pud_InstanceSelector data) (ps_InstanceSelector spec),
           ps_Endpoints := given (map_option endpoints_to_CRD (pud_Endpoints data)) (ps_Endpoints spec)\<rparr>\<rparr>)"

definition PluginService_UpdatePlugin :: "('w, 'sched) vext \<Rightarrow> PluginUpdateData \<Rightarrow> ('w, unit result) op" where
  "PluginService_UpdatePlugin y data = do {
     g \<leftarrow> get_plugin (world_ext y) (pud_Namespace data) (pud_Name data);
     case g of
       Inl err \<Rightarrow> State_Monad.return (Inl (Wrap err ''failed to get plugin''))
     | Inr plugin \<Rightarrow>
         (case (case pud_UpdateDelay data of None \<Rightarrow> Inr None | Some s \<Rightarrow> map_sum id Some (parse_delay s)) of
            Inl err \<Rightarrow> State_Monad.return (Inl err)
          | Inr delay \<Rightarrow> do {
              u \<leftarrow> update_plugin (cluster y) (patched_plugin data delay plugin);
              State_Monad.return (wrap_result ''failed to update plugin'' u)
            })
   }"

definition PluginService_GetPluginNamespaces :: "('w, 'sched) vext \<Rightarrow> ('w, string list result) op" where
  "PluginService_GetPluginNamespaces y = do {
     l \<leftarrow> list_plugins (world_ext y) [];
     State_Monad.return
       (case l of
          Inl err \<Rightarrow> Inl (Wrap err ''failed to list Plugins'')
        | Inr plugins \<Rightarrow>
            Inr (k_range (cluster y) [''GetPluginNamespaces''] (remdups (map pl_Namespace plugins))))
   }"

subsection \<open>Lemmas\<close>

lemma itoa_ascii: "0 \<le> i \<Longrightarrow> itoa i = nat_dec (nat i)"
  by (simp add: itoa_def)

lemma skip_space_digits:
  assumes "is_digit c"
  shows "skip_space (c # cs) = Some (c # cs)"
proof -
  have "\<not> is_space c" "c \<noteq> CHR 0x0D" "c \<noteq> CHR 0x0A" using assms by (auto simp: is_digit_def is_space_def)
  then show ?thesis by simp
qed

text \<open>What \<^verbatim>\<open>Sprintf("%d")\<close> prints of a number that fits in 64 bits, \<^verbatim>\<open>Sscanf("%d")\<close> reads.\<close>

lemma Sscanf_itoa:
  assumes "0 \<le> i" and "i < 2 ^ 63"
  shows "Sscanf_d (itoa i) = Some i"
proof -
  obtain c cs where nd: "nat_dec (nat i) = c # cs" by (meson list.exhaust nat_dec_not_Nil)
  have dig: "list_all is_digit (nat_dec (nat i))" by (rule nat_dec_digits)
  with nd have c: "is_digit c" "c \<noteq> CHR ''-''" "c \<noteq> CHR ''+''" using digit_not_sign by auto
  have tw: "takeWhile is_digit (c # cs) = c # cs" using dig nd by (metis list.pred_set takeWhile_eq_all_conv)
  have dv: "digits_value 0 (c # cs) = i" using digits_value_nat_dec [of "nat i"] nd assms(1) by simp
  show ?thesis
    using assms c(2,3)
    by (simp add: Sscanf_d_def itoa_ascii nd Let_def tw dv skip_space_digits [OF c(1)]
        del: takeWhile.simps digits_value.simps skip_space.simps)
qed

subsection \<open>Updates at once\<close>

text \<open>The annotation that the service writes denotes its time, cut to seconds.\<close>

lemma time_Unix_Unix:
  assumes "0 \<le> Unix t" and "Unix t < 2 ^ 62"
  shows "time_Unix (Unix t) = t - t mod Second"
proof -
  have "Unix t + unix_to_internal = t div Second" by (simp add: Unix_def)
  moreover have "wrap64 (t div Second) = t div Second"
    by (rule wrap64_id) (use assms in \<open>simp_all add: Unix_def unix_to_internal_def\<close>)
  ultimately show ?thesis by (simp add: time_Unix_def minus_mod_eq_div_mult [symmetric])
qed

lemma apply_now_valid_itoa:
  assumes "0 \<le> Unix t0" and "Unix t0 < 2 ^ 62"
  shows "apply_now_valid now (itoa (Unix t0)) \<longleftrightarrow> time_Sub now (t0 - t0 mod Second) \<le> applyNowMaxAge"
proof -
  have "Sscanf_d (itoa (Unix t0)) = Some (Unix t0)" using assms by (intro Sscanf_itoa) simp_all
  then show ?thesis using time_Unix_Unix [OF assms] by (auto simp: apply_now_valid_def)
qed

lemma shouldApplyNow_run:
  assumes "sv_Annotations server AnnotationApplyNow = Some ts" and "Sscanf_d ts \<noteq> None"
  shows "fst (run_state (shouldApplyNow x server) s) = apply_now_valid (fst (x_now x (world s))) ts"
  using assms by (auto simp: shouldApplyNow_def now_op_def call_def run_state_bind split: prod.split)

text \<open>The times a clock may show: from 1970 on, and not in the distant future.\<close>

definition clock_ok :: "('w, 'sched) ext \<Rightarrow> bool" where
  "clock_ok x \<longleftrightarrow> (\<forall>w. 0 \<le> Unix (fst (x_now x w)) \<and> Unix (fst (x_now x w)) < 2 ^ 62)"

text \<open>
  C15. Updates on request. The annotation that \<^verbatim>\<open>ApplyNow\<close> of the service layer writes is read back by the
  update reconciler: the request changes nothing of the server but that annotation, and whenever
  \<^verbatim>\<open>shouldApplyNow\<close> later looks at the server it wrote, it answers yes exactly as long as no more than the
  maximum age has passed since the second in which the request was made.
\<close>

theorem apply_now_accepted:
  fixes y :: "('w, 'sched) vext"
  assumes "clock_ok (world_ext y)"
  shows "emits (ServerService_ApplyNow y ns n) (\<lambda>r u. case r of Inl _ \<Rightarrow> True | Inr _ \<Rightarrow>
    \<exists>server t0 server'. u = [E_GetServer ns n (Inr server), E_Now t0, E_UpdateServer server' True] \<and>
      server' = set_annotations server ((sv_Annotations server)(AnnotationApplyNow \<mapsto> itoa (Unix t0))) \<and>
      (\<forall>(x :: ('v, 'c) ext) s. fst (run_state (shouldApplyNow x server') s) \<longleftrightarrow>
         time_Sub (fst (x_now x (world s))) (t0 - t0 mod Second) \<le> applyNowMaxAge))"
proof -
  have accepted: "fst (run_state (shouldApplyNow x
        (set_annotations server ((sv_Annotations server)(AnnotationApplyNow \<mapsto> itoa (Unix t0))))) s) \<longleftrightarrow>
      time_Sub (fst (x_now x (world s))) (t0 - t0 mod Second) \<le> applyNowMaxAge"
    if "fst (x_now (world_ext y) w) = t0" for server t0 w and x :: "('v, 'c) ext" and s
  proof -
    have t0: "0 \<le> Unix t0" "Unix t0 < 2 ^ 62" using assms that by (auto simp: clock_ok_def)
    then have "Sscanf_d (itoa (Unix t0)) \<noteq> None" using Sscanf_itoa [of "Unix t0"] by simp
    then show ?thesis using apply_now_valid_itoa [OF t0] by (subst shouldApplyNow_run) (simp_all add: set_annotations_def)
  qed
  have key: "ServiceAnnotationApplyNow = AnnotationApplyNow"
    by (simp add: ServiceAnnotationApplyNow_def AnnotationApplyNow_def)
  show ?thesis
    unfolding ServerService_ApplyNow_def annotate_server_def call_ops key
    by (intro tr_rules) (use accepted in \<open>auto split: sum.split simp: wrap_result_def\<close>)
qed

subsection \<open>A cluster for the witnesses\<close>

definition demo_vext :: "PaperMCServer \<Rightarrow> ('w, unit) vext" where
  "demo_vext server =
     \<lparr>cluster = demo_sext server, x_createServer = (\<lambda>_ w. (Inr (), w)), x_deleteServer = (\<lambda>_ w. (Inr (), w)),
      x_createPlugin = (\<lambda>_ w. (Inr (), w)), x_deletePlugin = (\<lambda>_ w. (Inr (), w)),
      x_listConfigMaps = (\<lambda>_ w. (Inr [], w))\<rparr>"

lemma demo_vext_cluster [simp]: "cluster (demo_vext server) = demo_sext server"
  by (simp add: demo_vext_def)

definition demo_apply_now :: "unit result \<times> unit sys" where
  "demo_apply_now = run_state (ServerService_ApplyNow (demo_vext zero_server) ''games'' ''mc'') demo_sys"

lemma demo_apply_now_run:
  "fst demo_apply_now = Inr ()"
  "trace (snd demo_apply_now) = [E_GetServer ''games'' ''mc'' (Inr zero_server), E_Now demo_time,
     E_UpdateServer (set_annotations zero_server ((sv_Annotations zero_server)
       (ServiceAnnotationApplyNow \<mapsto> itoa (Unix demo_time)))) True]"
  by (simp_all add: demo_apply_now_def ServerService_ApplyNow_def annotate_server_def call_ops call_def run_state_bind
      still_ext_def wrap_result_def demo_sys_def)

lemma demo_clock: "clock_ok (world_ext (demo_vext server))"
  by (simp add: clock_ok_def still_ext_def Unix_def demo_time_def unix_to_internal_def)

theorem apply_now_accepted_witness:
  "\<exists>server'. fst demo_apply_now = Inr () \<and> E_UpdateServer server' True \<in> set (trace (snd demo_apply_now)) \<and>
     fst (run_state (shouldApplyNow (demo_ext zero_server) server') demo_sys)"
proof -
  from emits_demo [OF apply_now_accepted [OF demo_clock, where ?'v = unit and ?'c = unit, of zero_server "''games''" "''mc''"]]
  obtain server t0 server' where
    "trace (snd demo_apply_now) = [E_GetServer ''games'' ''mc'' (Inr server), E_Now t0, E_UpdateServer server' True]"
    "\<And>s. fst (run_state (shouldApplyNow (demo_ext zero_server) server') s) \<longleftrightarrow>
       time_Sub (fst (x_now (demo_ext zero_server) (world s))) (t0 - t0 mod Second) \<le> applyNowMaxAge"
    using demo_apply_now_run(1) unfolding demo_apply_now_def by (auto split: sum.splits)
  moreover from this(1) have "t0 = demo_time" by (simp add: demo_apply_now_run)
  ultimately show ?thesis
    using demo_apply_now_run(1)
    by (intro exI [of _ server']) (simp add: time_Sub_def demo_time_def applyNowMaxAge_def max_duration_def min_duration_def)
qed

subsection \<open>Displayed schedules and namespaces\<close>

definition blank :: "char \<Rightarrow> bool" where "blank c \<longleftrightarrow> c = CHR '' '' \<or> c = CHR 0x09"

text \<open>The fields of a cron expression: the maximal runs of characters other than space and tab.\<close>

function fields_of :: "string \<Rightarrow> string list" where
  "fields_of [] = []"
| "fields_of (c # s) =
     (if blank c then fields_of s
      else (c # takeWhile (\<lambda>d. \<not> blank d) s) # fields_of (dropWhile (\<lambda>d. \<not> blank d) s))"
  by pat_completeness auto
termination
  by (relation "measure length") (auto simp: le_imp_less_Suc length_dropWhile_le)

lemma split_cron_loop_fields:
  "split_cron_loop parts current s =
     parts @ (if current = [] then fields_of s
              else (current @ takeWhile (\<lambda>d. \<not> blank d) s) # fields_of (dropWhile (\<lambda>d. \<not> blank d) s))"
  by (induction parts current s rule: split_cron_loop.induct) (auto simp: blank_def)

lemma splitCronExpression_fields: "splitCronExpression expr = fields_of expr"
  using split_cron_loop_fields [of "[]" "[]" expr] by (simp add: splitCronExpression_def)

text \<open>Every namespace with a plugin or a server, and the default one, once each; in the order of a Go map.\<close>

lemma ListNamespaces_complete:
  assumes "\<And>site keys. mset (k_range (cluster y) site keys) = mset keys"
  shows "emits (ListNamespaces y) (\<lambda>r u. case r of Inl _ \<Rightarrow> True | Inr l \<Rightarrow>
    \<exists>plugins servers. u = [E_ListPlugins [] (Inr plugins), E_ListServers [] (Inr servers)] \<and> distinct l \<and>
      set l = pl_Namespace ` set plugins \<union> sv_Namespace ` set servers \<union> {''default''})"
proof -
  have "distinct (k_range (cluster y) site (remdups keys)) \<and> set (k_range (cluster y) site (remdups keys)) = set keys"
    for site keys
    using assms [of site "remdups keys"] by (metis distinct_remdups mset_eq_imp_distinct_iff mset_eq_setD set_remdups)
  then show ?thesis
    unfolding ListNamespaces_def call_ops server_call_ops
    by (intro tr_rules) (auto simp: Let_def split: sum.split)
qed

subsection \<open>Update delays\<close>

text \<open>Every server or plugin that is created has the delay.\<close>

fun created_with_delay :: "duration \<Rightarrow> event \<Rightarrow> bool" where
  "created_with_delay d (E_CreateServer s ok) = (ss_UpdateDelay (sv_Spec s) = Some d)"
| "created_with_delay d (E_CreatePlugin p ok) = (ps_UpdateDelay (pl_Spec p) = Some d)"
| "created_with_delay d _ = True"

lemma parse_delay_parts:
  "ps \<noteq> [] \<Longrightarrow> parts_value ps = Some v \<Longrightarrow> v < 2 ^ 63 \<Longrightarrow> parse_delay (print_parts ps) = Inr (int v)"
  by (simp add: parse_delay_def ParseDuration_parts)

lemma print_parts_not_Nil: "ps \<noteq> [] \<Longrightarrow> print_parts ps \<noteq> []"
  by (cases ps) (auto simp: print_parts_def split: prod.split)

text \<open>
  An update delay written as whole numbers with units, such as 1h30m, reaches the created server or
  plugin as the sum of its parts, as long as the sum fits in 63 bits; the create call is made.
\<close>

theorem delay_round_trip:
  assumes "ps \<noteq> []" and "parts_value ps = Some v" and "v < 2 ^ 63"
  shows "emits (ServerService_CreateServer y (data\<lparr>scd_UpdateDelay := print_parts ps\<rparr>))
      (\<lambda>r u. length u = 1 \<and> list_all (created_with_delay (int v)) u) \<and>
    emits (PluginService_CreatePlugin y (pdata\<lparr>pcr_UpdateDelay := print_parts ps\<rparr>))
      (\<lambda>r u. length u = 1 \<and> list_all (created_with_delay (int v)) u)"
  unfolding ServerService_CreateServer_def PluginService_CreatePlugin_def service_call_ops
  by (intro conjI; simp add: parse_delay_parts [OF assms] print_parts_not_Nil [OF assms(1)]; intro tr_rules;
      simp add: created_server_def created_plugin_def)

definition demo_create_data :: ServerCreateData where
  "demo_create_data = \<lparr>scd_Name = ''mc'', scd_Namespace = ''games'', scd_UpdateStrategy = ''latest'', scd_Version = [],
     scd_Build = 0, scd_UpdateDelay = ''1h30m'', scd_CheckCron = [], scd_MaintenanceEnabled = False,
     scd_MaintenanceCron = [], scd_Labels = Map.empty, scd_PluginConfigs = [], scd_ServerConfigs = []\<rparr>"

theorem delay_round_trip_witness:
  "list_all (created_with_delay (90 * Minute)) (trace (snd (run_state
     (ServerService_CreateServer (demo_vext zero_server) demo_create_data) demo_sys)))"
proof -
  have d: "demo_create_data\<lparr>scd_UpdateDelay := print_parts [(1, ''h''), (30, ''m'')]\<rparr> = demo_create_data"
    unfolding ParseDuration_1h30m by (simp add: demo_create_data_def)
  have "parts_value [(1, ''h''), (30, ''m'')] = Some 5400000000000" by (simp add: unitMap_units)
  from delay_round_trip [OF _ this, of "demo_vext zero_server" demo_create_data]
  show ?thesis unfolding d using emits_demo by fastforce
qed

end
