(* ===== verification/ApiTransport.thy ===== *)
theory ApiTransport
  imports Prelude
begin

section \<open>Transport types of the REST API\<close>

text \<open>
  The structs of \<^verbatim>\<open>api/openapi/generated/api.gen.go\<close> that the handlers read and write, with all their
  fields; an omitted JSON field is \<open>None\<close>, an enumeration is a string. A handler returns a \<open>response\<close>: a
  body with its HTTP status, an empty reply, or an error object with its status, text and code. A text
  is a format with its arguments. Routing and binding are in \<open>RestRouter\<close>; the encoding of JSON is left out.
\<close>

datatype ErrorResponseCode =
  ALREADYEXISTS | FORBIDDEN | INTERNALERROR | INVALIDREQUEST | NOTFOUND | UNAUTHORIZED

type_synonym message = "string \<times> fmtarg list"

datatype 'a response = Reply nat 'a | Empty nat | Problem nat message ErrorResponseCode

record ApiPluginVersionPair =
  avp_Name :: "string option"
  avp_Namespace :: "string option"
  avp_Version :: "string option"

record ApiAvailableUpdate =
  aau_Build :: "int option"
  aau_FoundAt :: "time option"
  aau_Plugins :: "ApiPluginVersionPair list option"
  aau_ReleasedAt :: "time option"
  aau_Version :: "string option"

record ApiBlockedByInfo =
  abb_Plugin :: "string option"
  abb_SupportedVersions :: "string list option"
  abb_Version :: "string option"

record ApiUpdateBlockedStatus =
  aub_Blocked :: "bool option"
  aub_BlockedBy :: "ApiBlockedByInfo option"
  aub_Reason :: "string option"

record ApiCompatibilityOverride =
  aco_Enabled :: "bool option"
  aco_MinecraftVersions :: "string list option"

record ApiCondition =
  acn_LastTransitionTime :: "time option"
  acn_Message :: "string option"
  acn_ObservedGeneration :: "int option"
  acn_Reason :: "string option"
  acn_Status :: string
  acn_Type :: string

record ApiConfigMapCreateRequest =
  acm_Data :: "(string \<times> string) list"
  acm_Name :: string
  acm_Namespace :: string

record ApiConfigMapKeyRef =
  ack_Key :: string
  ack_Name :: string

record ApiConfigMapSummary =
  acs_Keys :: "string list option"
  acs_Name :: string
  acs_Namespace :: string

record ApiDeletionProgressEntry =
  adp_DeletedAt :: "time option"
  adp_JarDeleted :: bool
  adp_Namespace :: string
  adp_ServerName :: string

record ApiHealthResponse =
  ahl_Error :: "string option"
  ahl_Status :: string
  ahl_Timestamp :: time

record ApiLabelSelectorRequirement =
  alr_Key :: string
  alr_Operator :: string
  alr_Values :: "string list option"

record ApiLabelSelector =
  als_MatchExpressions :: "ApiLabelSelectorRequirement list option"
  als_MatchLabels :: "(string \<times> string) list option"

record ApiMaintenanceSchedule =
  ams_CheckCron :: "string option"
  ams_Enabled :: "bool option"
  ams_NextWindow :: "string option"
  ams_WindowCron :: "string option"

record ApiMaintenanceWindowConfig =
  amw_Cron :: "string option"
  amw_Enabled :: "bool option"

record ApiMatchedInstance =
  ami_Compatible :: bool
  ami_Name :: string
  ami_Namespace :: string
  ami_Version :: "string option"

record ApiPluginConfigFile =
  apc_ConfigMapRef :: ApiConfigMapKeyRef
  apc_Overwrite :: "string option"
  apc_Path :: string

record ApiPluginEndpoint =
  aep_Name :: string
  aep_Port :: int
  aep_Protocol :: "string option"

record ApiPluginSource =
  aps_Checksum :: "string option"
  aps_Project :: "string option"
  aps_Type :: string
  aps_Url :: "string option"

record ApiPluginCreateRequest =
  apr_Build :: "int option"
  apr_CompatibilityOverride :: "ApiCompatibilityOverride option"
  apr_Configs :: "ApiPluginConfigFile list option"
  apr_Endpoints :: "ApiPluginEndpoint list option"
  apr_InstanceSelector :: ApiLabelSelector
  apr_Name :: string
  apr_Namespace :: string
  apr_PluginDirName :: "string option"
  apr_Source :: ApiPluginSource
  apr_UpdateDelay :: "string option"
  apr_UpdateStrategy :: "string option"
  apr_Version :: "string option"

record ApiPluginVersion =
  apv_CachedAt :: "time option"
  apv_DownloadUrl :: string
  apv_Hash :: "string option"
  apv_MinecraftVersions :: "string list"
  apv_ReleasedAt :: "time option"
  apv_Version :: string

record ApiPluginDetail =
  apd_AvailableVersions :: "ApiPluginVersion list option"
  apd_Build :: "int option"
  apd_CompatibilityOverride :: "ApiCompatibilityOverride option"
  apd_Conditions :: "ApiCondition list option"
  apd_DeletionProgress :: "ApiDeletionProgressEntry list option"
  apd_Endpoints :: "ApiPluginEndpoint list option"
  apd_InstanceSelector :: "ApiLabelSelector option"
  apd_LastFetched :: "time option"
  apd_MatchedInstances :: "ApiMatchedInstance list option"
  apd_MatchedServers :: "int option"
  apd_Name :: string
  apd_Namespace :: string
  apd_Project :: "string option"
  apd_RepositoryStatus :: "string option"
  apd_ResolvedVersion :: "string option"
  apd_SourceType :: string
  apd_UpdateDelay :: "string option"
  apd_UpdateStrategy :: string
  apd_Url :: "string option"
  apd_Version :: "string option"

record ApiPluginSummary =
  apm_Build :: "int option"
  apm_MatchedServers :: "int option"
  apm_Name :: string
  apm_Namespace :: string
  apm_Project :: "string option"
  apm_RepositoryStatus :: "string option"
  apm_ResolvedVersion :: "string option"
  apm_SourceType :: string
  apm_UpdateStrategy :: string
  apm_Url :: "string option"
  apm_Version :: "string option"

record ApiPluginUpdateRequest =
  apu_Build :: "int option"
  apu_CompatibilityOverride :: "ApiCompatibilityOverride option"
  apu_Configs :: "ApiPluginConfigFile list option"
  apu_Endpoints :: "ApiPluginEndpoint list option"
  apu_InstanceSelector :: "ApiLabelSelector option"
  apu_PluginDirName :: "string option"
  apu_Source :: "ApiPluginSource option"
  apu_UpdateDelay :: "string option"
  apu_UpdateStrategy :: "string option"
  apu_Version :: "string option"

record ApiRCONConfig =
  arc_Enabled :: "bool option"
  arc_PasswordSecretKey :: "string option"
  arc_PasswordSecretName :: "string option"
  arc_Port :: "int option"

record ApiRCONStatus =
  ars_Enabled :: "bool option"
  ars_Port :: "int option"

record ApiServerConfigFile =
  asc_ConfigMapRef :: ApiConfigMapKeyRef
  asc_Overwrite :: "string option"
  asc_Path :: string

record ApiServerPluginConfig =
  asp_Configs :: "ApiPluginConfigFile list"
  asp_PluginName :: string

record ApiServiceConfig =
  asv_Annotations :: "(string \<rightharpoonup> string) option"
  asv_LoadBalancerIP :: "string option"
  asv_Type :: "string option"

record ApiServiceStatus =
  ast_ClusterIP :: "string option"
  ast_ExternalIP :: "string option"
  ast_Type :: "string option"

record ApiServerCreateRequest =
  asr_Build :: "int option"
  asr_CheckCron :: "string option"
  asr_GracefulShutdownTimeout :: "string option"
  asr_Labels :: "(string \<rightharpoonup> string) option"
  asr_MaintenanceWindow :: "ApiMaintenanceWindowConfig option"
  asr_Name :: string
  asr_Namespace :: string
  asr_PluginConfigs :: "ApiServerPluginConfig list option"
  asr_Rcon :: "ApiRCONConfig option"
  asr_ServerConfigs :: "ApiServerConfigFile list option"
  asr_Service :: "ApiServiceConfig option"
  asr_UpdateDelay :: "string option"
  asr_UpdateStrategy :: string
  asr_Version :: "string option"

record ApiServerPlugin =
  agp_Compatible :: bool
  agp_CurrentVersion :: "string option"
  agp_DesiredVersion :: "string option"
  agp_InstalledJarName :: "string option"
  agp_Name :: string
  agp_Namespace :: "string option"
  agp_PendingDeletion :: "bool option"
  agp_Project :: "string option"
  agp_ResolvedVersion :: "string option"
  agp_Source :: "string option"

record ApiUpdateHistory =
  auh_AppliedAt :: "time option"
  auh_PreviousVersion :: "string option"
  auh_Successful :: "bool option"

record ApiServerDetail =
  asd_AvailableUpdate :: "ApiAvailableUpdate option"
  asd_Conditions :: "ApiCondition list option"
  asd_CurrentBuild :: "int option"
  asd_CurrentVersion :: "string option"
  asd_DesiredBuild :: "int option"
  asd_DesiredVersion :: "string option"
  asd_Labels :: "(string \<rightharpoonup> string) option"
  asd_LastUpdate :: "ApiUpdateHistory option"
  asd_MaintenanceSchedule :: "ApiMaintenanceSchedule option"
  asd_Name :: string
  asd_Namespace :: string
  asd_NextMaintenance :: "string option"
  asd_PluginCount :: "int option"
  asd_Plugins :: "ApiServerPlugin list option"
  asd_Rcon :: "ApiRCONStatus option"
  asd_Service :: "ApiServiceStatus option"
  asd_Status :: string
  asd_UpdateBlocked :: "ApiUpdateBlockedStatus option"
  asd_UpdateStrategy :: string

record ApiServerSummary =
  asm_AvailableUpdate :: "ApiAvailableUpdate option"
  asm_CurrentVersion :: "string option"
  asm_DesiredVersion :: "string option"
  asm_Labels :: "(string \<rightharpoonup> string) option"
  asm_Name :: string
  asm_Namespace :: string
  asm_NextMaintenance :: "string option"
  asm_PluginCount :: "int option"
  asm_Status :: string
  asm_UpdateStrategy :: string

record ApiServerUpdateRequest =
  asu_Build :: "int option"
  asu_CheckCron :: "string option"
  asu_Labels :: "(string \<rightharpoonup> string) option"
  asu_MaintenanceWindow :: "ApiMaintenanceWindowConfig option"
  asu_PluginConfigs :: "ApiServerPluginConfig list option"
  asu_ServerConfigs :: "ApiServerConfigFile list option"
  asu_UpdateDelay :: "string option"
  asu_UpdateStrategy :: "string option"
  asu_Version :: "string option"

text \<open>\<^verbatim>\<open>PluginEndpointProtocol.Valid\<close>.\<close>

definition PluginEndpointProtocol_Valid :: "string \<Rightarrow> bool" where
  "PluginEndpointProtocol_Valid e = (e = ''HTTP'' \<or> e = ''TCP'' \<or> e = ''UDP'')"

end
