(* ===== verification/RestApi.thy ===== *)
theory RestApi
  imports Services ApiTransport
begin

section \<open>The REST API\<close>

text \<open>
  \<^verbatim>\<open>pkg/api/handlers.go\<close>. A request is the decoded request object, a response a value of \<open>response\<close>; the
  Go error beside it is always nil. A validator returns \<open>None\<close> where the source returns the empty string.
  Whether an error is reported as missing or as existing depends on its text (\<^verbatim>\<open>err.Error()\<close>, the operation
  \<open>k_Error\<close>). \<^verbatim>\<open>GetVersion\<close> is in \<open>RestRouter\<close>.
\<close>

subsection \<open>Errors\<close>

definition errRequestBodyRequired :: message where "errRequestBodyRequired = (''Request body is required'', [])"
definition defaultProtocol :: string where "defaultProtocol = ''TCP''"

abbreviation plain :: "string \<Rightarrow> message" where "plain s \<equiv> (s, [])"
abbreviation error_text :: "goerror \<Rightarrow> message" where "error_text err \<equiv> (''%v'', [AErrs [err]])"

text \<open>The loop of \<^verbatim>\<open>findSubstring\<close>: the first of the indices \<open>i\<close>, ..., \<open>i + fuel - 1\<close>.\<close>

fun find_substring_loop :: "nat \<Rightarrow> nat \<Rightarrow> string \<Rightarrow> string \<Rightarrow> int" where
  "find_substring_loop 0 i s substr = -1"
| "find_substring_loop (Suc fuel) i s substr =
     (if take (length substr) (drop i s) = substr then int i else find_substring_loop fuel (Suc i) s substr)"

definition findSubstring :: "string \<Rightarrow> string \<Rightarrow> int" where
  "findSubstring s substr = find_substring_loop (nat (int (length s) - int (length substr) + 1)) 0 s substr"

definition containsString :: "string \<Rightarrow> string \<Rightarrow> bool" where
  "containsString s substr = (length substr \<le> length s \<and> 0 \<le> findSubstring s substr)"

definition isNotFoundError :: "('w, 'sched) vext \<Rightarrow> goerror \<Rightarrow> bool" where
  "isNotFoundError y err =
     (let s = k_Error (world_ext y) err
      in s = ''not found'' \<or> containsString s ''not found'' \<or> containsString s ''NotFound'')"

definition isAlreadyExistsError :: "('w, 'sched) vext \<Rightarrow> goerror \<Rightarrow> bool" where
  "isAlreadyExistsError y err = containsString (k_Error (world_ext y) err) ''already exists''"

text \<open>The error responses of the handlers, which the source writes out in each of them.\<close>

abbreviation bad_request :: "message \<Rightarrow> 'a response" where
  "bad_request m \<equiv> Problem 400 m INVALIDREQUEST"

abbreviation internal_error :: "string \<Rightarrow> 'a response" where
  "internal_error s \<equiv> Problem 500 (plain s) INTERNALERROR"

definition missing_or_internal :: "('w, 'sched) vext \<Rightarrow> goerror \<Rightarrow> string \<Rightarrow> 'a response" where
  "missing_or_internal y err s =
     (if isNotFoundError y err then Problem 404 (error_text err) NOTFOUND else internal_error s)"

definition existing_or_internal :: "('w, 'sched) vext \<Rightarrow> goerror \<Rightarrow> string \<Rightarrow> 'a response" where
  "existing_or_internal y err s =
     (if isAlreadyExistsError y err then Problem 409 (error_text err) ALREADYEXISTS else internal_error s)"

subsection \<open>From data to responses\<close>

definition non_empty :: "'a list \<Rightarrow> 'a list option" where
  "non_empty s = (if s \<noteq> [] then Some s else None)"

definition non_zero_time :: "time \<Rightarrow> time option" where
  "non_zero_time t = (if t \<noteq> zero_time then Some t else None)"

definition positive :: "int \<Rightarrow> int option" where
  "positive n = (if n > 0 then Some n else None)"

definition api_available_update :: "AvailableUpdateData \<Rightarrow> ApiAvailableUpdate" where
  "api_available_update au = \<lparr>aau_Build = Some (aud_Build au), aau_FoundAt = None, aau_Plugins = None,
     aau_ReleasedAt = non_zero_time (aud_ReleasedAt au), aau_Version = Some (aud_Version au)\<rparr>"

definition serverDataToSummary :: "ServerData \<Rightarrow> ApiServerSummary" where
  "serverDataToSummary data =
     \<lparr>asm_AvailableUpdate = map_option api_available_update (sd_AvailableUpdate data),
      asm_CurrentVersion = non_empty (sd_CurrentVersion data),
      asm_DesiredVersion = non_empty (sd_DesiredVersion data),
      asm_Labels = (if sd_Labels data \<noteq> Map.empty then Some (sd_Labels data) else None),
      asm_Name = sd_Name data, asm_Namespace = sd_Namespace data,
      asm_NextMaintenance = non_empty (sd_NextMaintenance data),
      asm_PluginCount = positive (sd_PluginCount data),
      asm_Status = sd_Status data, asm_UpdateStrategy = sd_UpdateStrategy data\<rparr>"

definition api_server_plugin :: "ServerPluginData \<Rightarrow> ApiServerPlugin" where
  "api_server_plugin p =
     \<lparr>agp_Compatible = spd_Compatible p, agp_CurrentVersion = non_empty (spd_CurrentVersion p),
      agp_DesiredVersion = non_empty (spd_DesiredVersion p), agp_InstalledJarName = None,
      agp_Name = spd_Name p, agp_Namespace = non_empty (spd_Namespace p), agp_PendingDeletion = None,
      agp_Project = None, agp_ResolvedVersion = None, agp_Source = non_empty (spd_SourceType p)\<rparr>"

definition serverDataToDetail :: "ServerData \<Rightarrow> ApiServerDetail" where
  "serverDataToDetail data =
     \<lparr>asd_AvailableUpdate = map_option api_available_update (sd_AvailableUpdate data), asd_Conditions = None,
      asd_CurrentBuild = None, asd_CurrentVersion = non_empty (sd_CurrentVersion data),
      asd_DesiredBuild = None, asd_DesiredVersion = non_empty (sd_DesiredVersion data),
      asd_Labels = (if sd_Labels data \<noteq> Map.empty then Some (sd_Labels data) else None),
      asd_LastUpdate = map_option (\<lambda>uh. \<lparr>auh_AppliedAt = non_zero_time (uhd_AppliedAt uh),
         auh_PreviousVersion = non_empty (uhd_PreviousVersion uh), auh_Successful = Some (uhd_Successful uh)\<rparr>)
         (sd_UpdateHistory data),
      asd_MaintenanceSchedule = map_option (\<lambda>m. \<lparr>ams_CheckCron = non_empty (msd_CheckCron m),
         ams_Enabled = Some (msd_Enabled m), ams_NextWindow = non_empty (msd_NextWindow m),
         ams_WindowCron = non_empty (msd_WindowCron m)\<rparr>) (sd_MaintenanceSchedule data),
      asd_Name = sd_Name data, asd_Namespace = sd_Namespace data,
      asd_NextMaintenance = non_empty (sd_NextMaintenance data),
      asd_PluginCount = positive (sd_PluginCount data),
      asd_Plugins = map_option (map api_server_plugin) (non_empty (sd_Plugins data)),
      asd_Rcon = None, asd_Service = None, asd_Status = sd_Status data, asd_UpdateBlocked = None,
      asd_UpdateStrategy = sd_UpdateStrategy data\<rparr>"

definition pluginDataToSummary :: "PluginData \<Rightarrow> ApiPluginSummary" where
  "pluginDataToSummary data =
     \<lparr>apm_Build = None, apm_MatchedServers = positive (pd_MatchedServers data),
      apm_Name = pd_Name data, apm_Namespace = pd_Namespace data, apm_Project = non_empty (pd_Project data),
      apm_RepositoryStatus = None, apm_ResolvedVersion = non_empty (pd_ResolvedVersion data),
      apm_SourceType = pd_SourceType data, apm_UpdateStrategy = pd_UpdateStrategy data, apm_Url = None,
      apm_Version = non_empty (pd_Version data)\<rparr>"

definition convertEndpointsToAPI :: "PluginEndpointData list \<Rightarrow> ApiPluginEndpoint list option" where
  "convertEndpointsToAPI endpoints =
     map_option (map (\<lambda>ep. \<lparr>aep_Name = ped_Name ep, aep_Port = ped_Port ep,
                            aep_Protocol = non_empty (ped_Protocol ep)\<rparr>)) (non_empty endpoints)"

definition pluginDataToDetail :: "PluginData \<Rightarrow> ApiPluginDetail" where
  "pluginDataToDetail data =
     \<lparr>apd_AvailableVersions = map_option (map (\<lambda>v. \<lparr>apv_CachedAt = None, apv_DownloadUrl = pvd_DownloadURL v,
         apv_Hash = None, apv_MinecraftVersions = pvd_SupportedVersions v,
         apv_ReleasedAt = non_zero_time (pvd_ReleasedAt v), apv_Version = pvd_Version v\<rparr>))
         (non_empty (pd_AvailableVersions data)),
      apd_Build = None, apd_CompatibilityOverride = None, apd_Conditions = None, apd_DeletionProgress = None,
      apd_Endpoints = convertEndpointsToAPI (pd_Endpoints data), apd_InstanceSelector = None,
      apd_LastFetched = None,
      apd_MatchedInstances = map_option (map (\<lambda>mi. \<lparr>ami_Compatible = mid_Compatible mi, ami_Name = mid_Name mi,
         ami_Namespace = mid_Namespace mi, ami_Version = non_empty (mid_Version mi)\<rparr>))
         (non_empty (pd_MatchedInstances data)),
      apd_MatchedServers = positive (pd_MatchedServers data),
      apd_Name = pd_Name data, apd_Namespace = pd_Namespace data, apd_Project = non_empty (pd_Project data),
      apd_RepositoryStatus = non_empty (pd_RepositoryStatus data),
      apd_ResolvedVersion = non_empty (pd_ResolvedVersion data), apd_SourceType = pd_SourceType data,
      apd_UpdateDelay = None, apd_UpdateStrategy = pd_UpdateStrategy data, apd_Url = None,
      apd_Version = non_empty (pd_Version data)\<rparr>"

subsection \<open>From requests to data\<close>

definition apiConfigFilesToDataFromPlugin :: "ApiPluginConfigFile list \<Rightarrow> ConfigFileData list" where
  "apiConfigFilesToDataFromPlugin configs =
     map (\<lambda>cfg. \<lparr>cfd_ConfigMapName = ack_Name (apc_ConfigMapRef cfg), cfd_ConfigMapKey = ack_Key (apc_ConfigMapRef cfg),
                 cfd_Path = apc_Path cfg, cfd_Overwrite = given (apc_Overwrite cfg) ''always''\<rparr>) configs"

definition apiConfigFilesToData :: "ApiServerConfigFile list \<Rightarrow> ConfigFileData list" where
  "apiConfigFilesToData configs =
     map (\<lambda>cfg. \<lparr>cfd_ConfigMapName = ack_Name (asc_ConfigMapRef cfg), cfd_ConfigMapKey = ack_Key (asc_ConfigMapRef cfg),
                 cfd_Path = asc_Path cfg, cfd_Overwrite = given (asc_Overwrite cfg) ''always''\<rparr>) configs"

definition apiPluginConfigsToData :: "ApiServerPluginConfig list \<Rightarrow> ServerPluginConfigData list" where
  "apiPluginConfigsToData configs =
     map (\<lambda>pc. \<lparr>pcd_PluginName = asp_PluginName pc,
                pcd_Configs = apiConfigFilesToDataFromPlugin (asp_Configs pc)\<rparr>) configs"

definition serverCreateRequestToData :: "ApiServerCreateRequest \<Rightarrow> ServerCreateData" where
  "serverCreateRequestToData req =
     \<lparr>scd_Name = asr_Name req, scd_Namespace = asr_Namespace req, scd_UpdateStrategy = asr_UpdateStrategy req,
      scd_Version = given (asr_Version req) [], scd_Build = given (asr_Build req) 0,
      scd_UpdateDelay = given (asr_UpdateDelay req) [], scd_CheckCron = given (asr_CheckCron req) [],
      scd_MaintenanceEnabled =
        (case asr_MaintenanceWindow req of None \<Rightarrow> False | Some mw \<Rightarrow> given (amw_Enabled mw) False),
      scd_MaintenanceCron = (case asr_MaintenanceWindow req of None \<Rightarrow> [] | Some mw \<Rightarrow> given (amw_Cron mw) []),
      scd_Labels = given (asr_Labels req) Map.empty,
      scd_PluginConfigs = given (map_option apiPluginConfigsToData (asr_PluginConfigs req)) [],
      scd_ServerConfigs = given (map_option apiConfigFilesToData (asr_ServerConfigs req)) []\<rparr>"

definition serverUpdateRequestToData :: "string \<Rightarrow> string \<Rightarrow> ApiServerUpdateRequest \<Rightarrow> ServerUpdateData" where
  "serverUpdateRequestToData namespace name req =
     \<lparr>sud_Namespace = namespace, sud_Name = name, sud_UpdateStrategy = asu_UpdateStrategy req,
      sud_Version = asu_Version req, sud_Build = asu_Build req, sud_UpdateDelay = asu_UpdateDelay req,
      sud_CheckCron = asu_CheckCron req,
      sud_MaintenanceEnabled = (case asu_MaintenanceWindow req of None \<Rightarrow> None | Some mw \<Rightarrow> amw_Enabled mw),
      sud_MaintenanceCron = (case asu_MaintenanceWindow req of None \<Rightarrow> None | Some mw \<Rightarrow> amw_Cron mw),
      sud_Labels = asu_Labels req\<rparr>"

definition labelSelectorToK8s :: "ApiLabelSelector \<Rightarrow> LabelSelector" where
  "labelSelectorToK8s sel =
     \<lparr>ls_MatchLabels = given (als_MatchLabels sel) [],
      ls_MatchExpressions =
        map (\<lambda>expr. (alr_Key expr, alr_Operator expr, given (alr_Values expr) []))
          (given (als_MatchExpressions sel) [])\<rparr>"

text \<open>The conversion of endpoints in both plugin requests; a port is narrowed to 32 bits.\<close>

definition endpoint_data :: "ApiPluginEndpoint list \<Rightarrow> PluginEndpointData list" where
  "endpoint_data eps =
     map (\<lambda>ep. \<lparr>ped_Name = aep_Name ep, ped_Port = wrap32 (aep_Port ep),
                ped_Protocol = given (aep_Protocol ep) defaultProtocol\<rparr>) eps"

definition pluginCreateRequestToData :: "ApiPluginCreateRequest \<Rightarrow> PluginCreateData" where
  "pluginCreateRequestToData req =
     \<lparr>pcr_Name = apr_Name req, pcr_Namespace = apr_Namespace req,
      pcr_Source = \<lparr>psd_Type = aps_Type (apr_Source req), psd_Project = given (aps_Project (apr_Source req)) [],
        psd_URL = given (aps_Url (apr_Source req)) [], psd_Checksum = []\<rparr>,
      pcr_UpdateStrategy = given (apr_UpdateStrategy req) [], pcr_Version = given (apr_Version req) [],
      pcr_Build = given (apr_Build req) 0, pcr_UpdateDelay = given (apr_UpdateDelay req) [],
      pcr_Endpoints = given (map_option endpoint_data (apr_Endpoints req)) [],
      pcr_PluginDirName = given (apr_PluginDirName req) [],
      pcr_Configs = given (map_option apiConfigFilesToDataFromPlugin (apr_Configs req)) [],
      pcr_InstanceSelector = labelSelectorToK8s (apr_InstanceSelector req)\<rparr>"

definition pluginUpdateRequestToData :: "string \<Rightarrow> string \<Rightarrow> ApiPluginUpdateRequest \<Rightarrow> PluginUpdateData" where
  "pluginUpdateRequestToData namespace name req =
     \<lparr>pud_Namespace = namespace, pud_Name = name, pud_UpdateStrategy = apu_UpdateStrategy req,
      pud_Version = apu_Version req, pud_Build = apu_Build req, pud_UpdateDelay = apu_UpdateDelay req,
      pud_Endpoints = map_option endpoint_data (apu_Endpoints req),
      pud_InstanceSelector = map_option labelSelectorToK8s (apu_InstanceSelector req)\<rparr>"

subsection \<open>Validation\<close>

definition dnsLabelPattern :: rx where
  "dnsLabelPattern =
     Cat (Cls [(CHR ''a'', CHR ''z''), (CHR ''0'', CHR ''9'')])
       (Opt (Cat (Star (Cls [(CHR ''a'', CHR ''z''), (CHR ''0'', CHR ''9''), (CHR ''-'', CHR ''-'')]))
                 (Cls [(CHR ''a'', CHR ''z''), (CHR ''0'', CHR ''9'')])))"

definition k8sNamePattern :: rx where
  "k8sNamePattern =
     Cat (Cls [(CHR ''a'', CHR ''z''), (CHR ''0'', CHR ''9'')])
       (Opt (Cat (Star (Cls [(CHR ''a'', CHR ''z''), (CHR ''0'', CHR ''9''), (CHR ''.'', CHR ''.''), (CHR ''-'', CHR ''-'')]))
                 (Cls [(CHR ''a'', CHR ''z''), (CHR ''0'', CHR ''9'')])))"

definition validateK8sName :: "string \<Rightarrow> string \<Rightarrow> message option" where
  "validateK8sName name fieldLabel =
     (if name = [] then Some (''%s is required'', [AStr fieldLabel])
      else if length name > 253 then Some (''%s must be at most 253 characters'', [AStr fieldLabel])
      else if \<not> MatchString k8sNamePattern name
      then Some (''%s must be a valid DNS subdomain (lowercase alphanumeric, hyphens, dots)'', [AStr fieldLabel])
      else None)"

definition maxEndpointNameLength :: nat where "maxEndpointNameLength = 63"

definition port_proto_key :: "ApiPluginEndpoint \<Rightarrow> string" where
  "port_proto_key ep = itoa (aep_Port ep) @ ''/'' @ given (aep_Protocol ep) defaultProtocol"

fun endpoint_request_loop ::
  "string set \<Rightarrow> string set \<Rightarrow> ApiPluginEndpoint list \<Rightarrow> message option" where
  "endpoint_request_loop seenNames seenPortProto [] = None"
| "endpoint_request_loop seenNames seenPortProto (ep # eps) =
     (if aep_Name ep = [] then Some (plain ''Endpoint name is required'')
      else if length (aep_Name ep) > maxEndpointNameLength \<or> \<not> MatchString dnsLabelPattern (aep_Name ep)
      then Some (''Endpoint name %q must be a valid DNS label (lowercase alphanumeric/hyphens, max 63 chars)'',
                 [AStr (aep_Name ep)])
      else if aep_Port ep < 1 \<or> aep_Port ep > 65535
      then Some (''Endpoint port must be between 1 and 65535, got %d'', [AInt (aep_Port ep)])
      else if (case aep_Protocol ep of None \<Rightarrow> False | Some p \<Rightarrow> \<not> PluginEndpointProtocol_Valid p)
      then Some (''Invalid protocol %q, must be TCP, UDP, or HTTP'', [AStr (given (aep_Protocol ep) [])])
      else if aep_Name ep \<in> seenNames then Some (''Duplicate endpoint name %q'', [AStr (aep_Name ep)])
      else if port_proto_key ep \<in> seenPortProto
      then Some (''Duplicate port+protocol combination: %s'', [AStr (port_proto_key ep)])
      else endpoint_request_loop (insert (aep_Name ep) seenNames) (insert (port_proto_key ep) seenPortProto) eps)"

definition validateEndpointRequest :: "ApiPluginEndpoint list option \<Rightarrow> message option" where
  "validateEndpointRequest endpoints =
     (case endpoints of None \<Rightarrow> None | Some eps \<Rightarrow> endpoint_request_loop {} {} eps)"

definition validUpdateStrategies :: "string set" where
  "validUpdateStrategies = {updateStrategyLatest, updateStrategyAuto, updateStrategyPin, updateStrategyBuildPin}"

text \<open>The first message of two checks.\<close>

definition first_message :: "message option \<Rightarrow> message option \<Rightarrow> message option" where
  "first_message m n = (case m of None \<Rightarrow> n | Some e \<Rightarrow> Some e)"

definition validateServerCreateRequest :: "ApiServerCreateRequest \<Rightarrow> message option" where
  "validateServerCreateRequest body =
     first_message (validateK8sName (asr_Name body) ''Name'')
       (first_message (validateK8sName (asr_Namespace body) ''Namespace'')
          (let st = asr_UpdateStrategy body
           in if st \<notin> validUpdateStrategies then Some (''Invalid update strategy %q'', [AStr st])
              else if (st = updateStrategyPin \<or> st = updateStrategyBuildPin) \<and> given (asr_Version body) [] = []
              then Some (plain ''Version is required for pin and build-pin strategies'')
              else if st = updateStrategyBuildPin \<and> asr_Build body = None
              then Some (plain ''Build is required for build-pin strategy'')
              else None))"

definition validatePluginSource :: "ApiPluginSource \<Rightarrow> message option" where
  "validatePluginSource source =
     (if aps_Type source = ''hangar'' then
        (if given (aps_Project source) [] = [] then Some (plain ''Project is required for hangar source type'') else None)
      else if aps_Type source = ''url'' then
        (if given (aps_Url source) [] = [] then Some (plain ''URL is required for url source type'')
         else case ValidateDownloadURL (given (aps_Url source) []) of
                Inl err \<Rightarrow> Some (''Invalid plugin URL: %v'', [AErrs [err]])
              | Inr _ \<Rightarrow> None)
      else Some (''Unsupported source type: %s'', [AStr (aps_Type source)]))"

definition validatePluginCreateRequest :: "ApiPluginCreateRequest \<Rightarrow> message option" where
  "validatePluginCreateRequest body =
     first_message (validateK8sName (apr_Name body) ''Name'')
       (first_message (validateK8sName (apr_Namespace body) ''Namespace'')
          (first_message (validateEndpointRequest (apr_Endpoints body)) (validatePluginSource (apr_Source body))))"

subsection \<open>Handlers\<close>

definition api_GetHealth :: "('w, 'sched) vext \<Rightarrow> ('w, ApiHealthResponse response) op" where
  "api_GetHealth y = do {
     l \<leftarrow> ListNamespaces y;
     now \<leftarrow> now_op (world_ext y);
     State_Monad.return
       (case l of
          Inl _ \<Rightarrow> Reply 503 \<lparr>ahl_Error = Some ''Kubernetes API unavailable'', ahl_Status = ''unhealthy'', ahl_Timestamp = now\<rparr>
        | Inr _ \<Rightarrow> Reply 200 \<lparr>ahl_Error = None, ahl_Status = ''healthy'', ahl_Timestamp = now\<rparr>)
   }"

definition api_ListNamespaces :: "('w, 'sched) vext \<Rightarrow> ('w, string list response) op" where
  "api_ListNamespaces y = do {
     l \<leftarrow> ListNamespaces y;
     State_Monad.return
       (case l of Inl _ \<Rightarrow> internal_error ''Failed to list namespaces'' | Inr namespaces \<Rightarrow> Reply 200 namespaces)
   }"

definition api_ListServers :: "('w, 'sched) vext \<Rightarrow> string option \<Rightarrow> ('w, ApiServerSummary list response) op" where
  "api_ListServers y nsParam = do {
     l \<leftarrow> ServerService_ListServers y (given nsParam []);
     State_Monad.return
       (case l of
          Inl _ \<Rightarrow> internal_error ''Failed to list servers''
        | Inr servers \<Rightarrow> Reply 200 (map serverDataToSummary servers))
   }"

definition api_CreateServer ::
  "('w, 'sched) vext \<Rightarrow> ApiServerCreateRequest option \<Rightarrow> ('w, ApiServerDetail response) op" where
  "api_CreateServer y req =
     (case req of
        None \<Rightarrow> State_Monad.return (bad_request errRequestBodyRequired)
      | Some body \<Rightarrow>
          (case validateServerCreateRequest body of
             Some errMsg \<Rightarrow> State_Monad.return (bad_request errMsg)
           | None \<Rightarrow> do {
               c \<leftarrow> ServerService_CreateServer y (serverCreateRequestToData body);
               case c of
                 Inl err \<Rightarrow> State_Monad.return (existing_or_internal y err ''Failed to create server'')
               | Inr _ \<Rightarrow> do {
                   g \<leftarrow> ServerService_GetServer y (asr_Namespace body) (asr_Name body);
                   State_Monad.return
                     (case g of
                        Inl _ \<Rightarrow> internal_error ''Server created but failed to retrieve details''
                      | Inr srv \<Rightarrow> Reply 201 (serverDataToDetail srv))
                 }
             }))"

definition api_GetServer :: "('w, 'sched) vext \<Rightarrow> string \<Rightarrow> string \<Rightarrow> ('w, ApiServerDetail response) op" where
  "api_GetServer y namespace name = do {
     g \<leftarrow> ServerService_GetServer y namespace name;
     State_Monad.return
       (case g of
          Inl err \<Rightarrow> missing_or_internal y err ''Failed to get server''
        | Inr srv \<Rightarrow> Reply 200 (serverDataToDetail srv))
   }"

definition api_UpdateServer ::
  "('w, 'sched) vext \<Rightarrow> string \<Rightarrow> string \<Rightarrow> ApiServerUpdateRequest option \<Rightarrow> ('w, ApiServerDetail response) op" where
  "api_UpdateServer y namespace name req =
     (case req of
        None \<Rightarrow> State_Monad.return (bad_request errRequestBodyRequired)
      | Some body \<Rightarrow> do {
          u \<leftarrow> ServerService_UpdateServer y (serverUpdateRequestToData namespace name body);
          case u of
            Inl err \<Rightarrow> State_Monad.return (missing_or_internal y err ''Failed to update server'')
          | Inr _ \<Rightarrow> do {
              g \<leftarrow> ServerService_GetServer y namespace name;
              State_Monad.return
                (case g of
                   Inl _ \<Rightarrow> internal_error ''Server updated but failed to retrieve details''
                 | Inr srv \<Rightarrow> Reply 200 (serverDataToDetail srv))
            }
        })"

text \<open>The handlers that act and report only whether they succeeded.\<close>

definition act :: "('w, 'sched) vext \<Rightarrow> ('w, unit result) op \<Rightarrow> string \<Rightarrow> string response \<Rightarrow> ('w, string response) op" where
  "act y m failure ok = do {
     r \<leftarrow> m;
     State_Monad.return (case r of Inl err \<Rightarrow> missing_or_internal y err failure | Inr _ \<Rightarrow> ok)
   }"

definition api_DeleteServer :: "('w, 'sched) vext \<Rightarrow> string \<Rightarrow> string \<Rightarrow> ('w, string response) op" where
  "api_DeleteServer y namespace name =
     act y (ServerService_DeleteServer y namespace name) ''Failed to delete server'' (Empty 204)"

definition api_ResolveServer :: "('w, 'sched) vext \<Rightarrow> string \<Rightarrow> string \<Rightarrow> ('w, string response) op" where
  "api_ResolveServer y namespace name =
     act y (ServerService_TriggerReconciliation y namespace name) ''Failed to trigger reconciliation''
       (Reply 202 ''Reconciliation triggered'')"

definition api_ApplyNowServer :: "('w, 'sched) vext \<Rightarrow> string \<Rightarrow> string \<Rightarrow> ('w, string response) op" where
  "api_ApplyNowServer y namespace name =
     act y (ServerService_ApplyNow y namespace name) ''Failed to apply updates'' (Reply 202 ''Update applied'')"

definition api_ListPlugins :: "('w, 'sched) vext \<Rightarrow> string option \<Rightarrow> ('w, ApiPluginSummary list response) op" where
  "api_ListPlugins y nsParam = do {
     l \<leftarrow> PluginService_ListPlugins y (given nsParam []);
     State_Monad.return
       (case l of
          Inl _ \<Rightarrow> internal_error ''Failed to list plugins''
        | Inr plugins \<Rightarrow> Reply 200 (map pluginDataToSummary plugins))
   }"

definition api_CreatePlugin ::
  "('w, 'sched) vext \<Rightarrow> ApiPluginCreateRequest option \<Rightarrow> ('w, ApiPluginDetail response) op" where
  "api_CreatePlugin y req =
     (case req of
        None \<Rightarrow> State_Monad.return (bad_request errRequestBodyRequired)
      | Some body \<Rightarrow>
          (case validatePluginCreateRequest body of
             Some errMsg \<Rightarrow> State_Monad.return (bad_request errMsg)
           | None \<Rightarrow> do {
               c \<leftarrow> PluginService_CreatePlugin y (pluginCreateRequestToData body);
               case c of
                 Inl err \<Rightarrow> State_Monad.return (existing_or_internal y err ''Failed to create plugin'')
               | Inr _ \<Rightarrow> do {
                   g \<leftarrow> PluginService_GetPlugin y (apr_Namespace body) (apr_Name body);
                   State_Monad.return
                     (case g of
                        Inl _ \<Rightarrow> internal_error ''Plugin created but failed to retrieve details''
                      | Inr p \<Rightarrow> Reply 201 (pluginDataToDetail p))
                 }
             }))"

definition api_GetPlugin :: "('w, 'sched) vext \<Rightarrow> string \<Rightarrow> string \<Rightarrow> ('w, ApiPluginDetail response) op" where
  "api_GetPlugin y namespace name = do {
     g \<leftarrow> PluginService_GetPlugin y namespace name;
     State_Monad.return
       (case g of
          Inl err \<Rightarrow> missing_or_internal y err ''Failed to get plugin''
        | Inr p \<Rightarrow> Reply 200 (pluginDataToDetail p))
   }"

definition api_UpdatePlugin ::
  "('w, 'sched) vext \<Rightarrow> string \<Rightarrow> string \<Rightarrow> ApiPluginUpdateRequest option \<Rightarrow> ('w, ApiPluginDetail response) op" where
  "api_UpdatePlugin y namespace name req =
     (case req of
        None \<Rightarrow> State_Monad.return (bad_request errRequestBodyRequired)
      | Some body \<Rightarrow>
          (case validateEndpointRequest (apu_Endpoints body) of
             Some errMsg \<Rightarrow> State_Monad.return (bad_request errMsg)
           | None \<Rightarrow> do {
               u \<leftarrow> PluginService_UpdatePlugin y (pluginUpdateRequestToData namespace name body);
               case u of
                 Inl err \<Rightarrow> State_Monad.return (missing_or_internal y err ''Failed to update plugin'')
               | Inr _ \<Rightarrow> do {
                   g \<leftarrow> PluginService_GetPlugin y namespace name;
                   State_Monad.return
                     (case g of
                        Inl _ \<Rightarrow> internal_error ''Plugin updated but failed to retrieve details''
                      | Inr p \<Rightarrow> Reply 200 (pluginDataToDetail p))
                 }
             }))"

definition api_DeletePlugin :: "('w, 'sched) vext \<Rightarrow> string \<Rightarrow> string \<Rightarrow> ('w, string response) op" where
  "api_DeletePlugin y namespace name =
     act y (PluginService_DeletePlugin y namespace name) ''Failed to delete plugin'' (Empty 204)"

definition api_ResolvePlugin :: "('w, 'sched) vext \<Rightarrow> string \<Rightarrow> string \<Rightarrow> ('w, string response) op" where
  "api_ResolvePlugin y namespace name =
     act y (PluginService_TriggerReconciliation y namespace name) ''Failed to trigger reconciliation''
       (Reply 202 ''Reconciliation triggered'')"

definition api_ListConfigMaps :: "('w, 'sched) vext \<Rightarrow> string \<Rightarrow> ('w, ApiConfigMapSummary list response) op" where
  "api_ListConfigMaps y namespace = do {
     l \<leftarrow> ListConfigMaps y namespace;
     State_Monad.return
       (case l of
          Inl _ \<Rightarrow> internal_error ''Failed to list ConfigMaps''
        | Inr summaries \<Rightarrow>
            Reply 200 (map (\<lambda>cm. \<lparr>acs_Keys = non_empty (cms_Keys cm), acs_Name = cms_Name cm,
                                  acs_Namespace = cms_Namespace cm\<rparr>) summaries))
   }"

text \<open>The request carries the namespace of its path, \<open>ns\<close>, which the handler does not read.\<close>

definition api_CreateConfigMap ::
  "('w, 'sched) vext \<Rightarrow> string \<Rightarrow> ApiConfigMapCreateRequest option \<Rightarrow> ('w, ApiConfigMapSummary response) op" where
  "api_CreateConfigMap y ns req =
     (case req of
        None \<Rightarrow> State_Monad.return (bad_request errRequestBodyRequired)
      | Some body \<Rightarrow>
          (case validateK8sName (acm_Name body) ''Name'' of
             Some errMsg \<Rightarrow> State_Monad.return (bad_request errMsg)
           | None \<Rightarrow> do {
               c \<leftarrow> CreateConfigMap y (acm_Namespace body) (acm_Name body) (map_of (acm_Data body));
               State_Monad.return
                 (case c of
                    Inl err \<Rightarrow> existing_or_internal y err ''Failed to create ConfigMap''
                  | Inr _ \<Rightarrow> Reply 201
                      \<lparr>acs_Keys = Some (k_range (cluster y) [''CreateConfigMap''] (map fst (acm_Data body))),
                       acs_Name = acm_Name body, acs_Namespace = acm_Namespace body\<rparr>)
             }))"

lemma delimited_iff:
  "MatchString (Cat (Cls a) (Opt (Cat (Star (Cls b)) (Cls a)))) w \<longleftrightarrow>
     w \<noteq> [] \<and> in_cls a (hd w) \<and> in_cls a (last w) \<and> list_all (in_cls b) (butlast (tl w))"
proof -
  have alt: "x \<in> lang (Opt r) \<longleftrightarrow> x = [] \<or> x \<in> lang r" for x r by auto
  have "MatchString (Cat (Cls a) (Opt (Cat (Star (Cls b)) (Cls a)))) w \<longleftrightarrow>
      (\<exists>c cs. w = c # cs \<and> in_cls a c \<and>
        (cs = [] \<or> (\<exists>u d. cs = u @ [d] \<and> list_all (in_cls b) u \<and> in_cls a d)))"
    unfolding MatchString_iff lang_Cat_Cls alt lang_snoc_Cls lang_Star_Cls by blast
  also have "\<dots> \<longleftrightarrow> w \<noteq> [] \<and> in_cls a (hd w) \<and> in_cls a (last w) \<and> list_all (in_cls b) (butlast (tl w))"
  proof (cases w)
    case (Cons c cs)
    then show ?thesis by (cases cs rule: rev_cases) auto
  qed simp
  finally show ?thesis .
qed

lemma isAlphanumeric_cls: "in_cls [(CHR ''a'', CHR ''z''), (CHR ''0'', CHR ''9'')] c \<longleftrightarrow> isAlphanumeric c"
  by (simp add: isAlphanumeric_def less_eq_char_def code_def)

lemma name_char_cls:
  "in_cls [(CHR ''a'', CHR ''z''), (CHR ''0'', CHR ''9''), (CHR ''.'', CHR ''.''), (CHR ''-'', CHR ''-'')] c \<longleftrightarrow>
     isAlphanumeric c \<or> c = CHR ''-'' \<or> c = CHR ''.''"
  using isAlphanumeric_cls [of c] by auto

lemma list_all_ends:
  assumes "w \<noteq> []" and "Q (hd w)" and "Q (last w)"
  shows "list_all Q w \<longleftrightarrow> list_all Q (butlast (tl w))"
proof (cases w)
  case (Cons c cs)
  with assms show ?thesis by (cases cs rule: rev_cases) auto
qed (use assms in simp)

lemma k8s_name_iff: "validateK8sName name fieldLabel = None \<longleftrightarrow> IsValidKubernetesName name"
proof -
  have "MatchString k8sNamePattern name \<longleftrightarrow>
      isAlphanumeric (hd name) \<and> isAlphanumeric (last name) \<and>
      list_all (\<lambda>c. isAlphanumeric c \<or> c = CHR ''-'' \<or> c = CHR ''.'') name" if "name \<noteq> []"
    using that list_all_ends [of name "\<lambda>c. isAlphanumeric c \<or> c = CHR ''-'' \<or> c = CHR ''.''"]
    by (auto simp: k8sNamePattern_def delimited_iff isAlphanumeric_cls name_char_cls simp del: in_cls_Cons cong: list.pred_cong)
  then show ?thesis by (auto simp: validateK8sName_def IsValidKubernetesName_def)
qed

text \<open>
  The API and the service layer check resource names with two different programs, a regular expression
  and a loop over characters, which accept the same names.
\<close>

theorem k8s_name_checks_agree: "validateK8sName name fieldLabel = None \<longleftrightarrow> IsValidKubernetesName name"
  by (rule k8s_name_iff)

lemma find_substring_loop_iff:
  "0 \<le> find_substring_loop k i s sub \<longleftrightarrow> (\<exists>j. i \<le> j \<and> j < i + k \<and> take (length sub) (drop j s) = sub)"
proof (induction k arbitrary: i)
  case (Suc k)
  show ?case
  proof (cases "take (length sub) (drop i s) = sub")
    case False
    then have "(\<exists>j. i \<le> j \<and> j < i + Suc k \<and> take (length sub) (drop j s) = sub) \<longleftrightarrow>
        (\<exists>j. Suc i \<le> j \<and> j < Suc i + k \<and> take (length sub) (drop j s) = sub)"
      by (metis Suc_leD Suc_leI add_Suc add_Suc_right le_neq_implies_less)
    with False Suc.IH [of "Suc i"] show ?thesis by simp
  qed auto
qed simp

lemma containsString_iff: "containsString s sub \<longleftrightarrow> Contains s sub"
proof
  assume "containsString s sub"
  then obtain j where j: "take (length sub) (drop j s) = sub"
    by (auto simp: containsString_def findSubstring_def find_substring_loop_iff)
  have "s = take j s @ sub @ drop (length sub) (drop j s)"
    by (metis append_take_drop_id j)
  then show "Contains s sub" using Contains_iff by blast
next
  assume "Contains s sub"
  then obtain u v where s: "s = u @ sub @ v" by (auto simp: Contains_iff)
  then have "length u < nat (int (length s) - int (length sub) + 1)" "take (length sub) (drop (length u) s) = sub"
    by simp_all
  then have "0 \<le> findSubstring s sub" unfolding findSubstring_def find_substring_loop_iff by auto
  with s show "containsString s sub" by (simp add: containsString_def)
qed

definition endpoint_request_ok :: "ApiPluginEndpoint \<Rightarrow> bool" where
  "endpoint_request_ok ep \<longleftrightarrow> aep_Name ep \<noteq> [] \<and> 1 \<le> aep_Port ep \<and> aep_Port ep \<le> 65535 \<and>
     given (aep_Protocol ep) defaultProtocol \<in> {''TCP'', ''UDP'', ''HTTP''}"

lemma endpoint_loop_accepts:
  assumes "endpoint_request_loop sn sp eps = None"
  shows "list_all endpoint_request_ok eps \<and> distinct (map aep_Name eps) \<and> set (map aep_Name eps) \<inter> sn = {} \<and>
    distinct (map port_proto_key eps) \<and> set (map port_proto_key eps) \<inter> sp = {}"
  using assms
proof (induction sn sp eps rule: endpoint_request_loop.induct)
  case (2 sn sp ep eps)
  from "2.prems" have "endpoint_request_ok ep"
    by (auto simp: endpoint_request_ok_def given_def PluginEndpointProtocol_Valid_def defaultProtocol_def
        split: if_splits option.splits)
  moreover from "2.prems" have "aep_Name ep \<notin> sn" "port_proto_key ep \<notin> sp"
    "endpoint_request_loop (insert (aep_Name ep) sn) (insert (port_proto_key ep) sp) eps = None"
    by (auto split: if_splits)
  moreover note "2.IH" [simplified]
  ultimately show ?case using 2 by (auto split: if_splits)
qed simp

lemma port_proto_distinct:
  assumes "distinct (map port_proto_key eps)"
  shows "distinct (map (\<lambda>ep. (aep_Port ep, given (aep_Protocol ep) defaultProtocol)) eps)"
proof -
  have "map port_proto_key eps =
      map (\<lambda>(p, pr). itoa p @ ''/'' @ pr) (map (\<lambda>ep. (aep_Port ep, given (aep_Protocol ep) defaultProtocol)) eps)"
    by (simp add: port_proto_key_def)
  with assms have "distinct (map (\<lambda>(p, pr). itoa p @ ''/'' @ pr)
      (map (\<lambda>ep. (aep_Port ep, given (aep_Protocol ep) defaultProtocol)) eps))" by (rule subst [rotated])
  then show ?thesis by (simp only: distinct_map [of "\<lambda>(p, pr). itoa p @ ''/'' @ pr"])
qed

lemma endpoint_data_ok:
  assumes "validateEndpointRequest eps = None"
  shows "endpoints_loop path 0 {} {} (endpoints_to_CRD (given (map_option endpoint_data eps) [])) = []"
proof (cases eps)
  case None
  then show ?thesis by (simp add: given_def endpoints_to_CRD_def)
next
  case (Some es)
  let ?crd = "endpoints_to_CRD (endpoint_data es)"
  have acc: "list_all endpoint_request_ok es" "distinct (map aep_Name es)" "distinct (map port_proto_key es)"
    using endpoint_loop_accepts [of "{}" "{}" es] assms Some by (simp_all add: validateEndpointRequest_def)
  have port: "wrap32 (aep_Port ep) = aep_Port ep" and proto: "given (aep_Protocol ep) defaultProtocol \<noteq> []"
    if "ep \<in> set es" for ep
    using acc(1) that by (auto simp: list_all_iff endpoint_request_ok_def intro!: wrap32_id)
  have "list_all endpoint_ok ?crd"
    using acc(1) port by (auto simp: list_all_iff endpoint_request_ok_def endpoint_ok_def endpoints_to_CRD_def
        endpoint_data_def effective_protocol_def)
  moreover have "map ep_Name ?crd = map aep_Name es" by (simp add: endpoints_to_CRD_def endpoint_data_def)
  moreover have "map (\<lambda>ep. (ep_Port ep, effective_protocol ep)) ?crd =
      map (\<lambda>ep. (aep_Port ep, given (aep_Protocol ep) defaultProtocol)) es"
    using port proto by (auto simp: endpoints_to_CRD_def endpoint_data_def effective_protocol_def)
  ultimately show ?thesis
    using acc port_proto_distinct [OF acc(3)] Some by (simp add: endpoints_iff given_def)
qed

lemma first_message_None [simp]: "first_message m n = None \<longleftrightarrow> m = None \<and> n = None"
  by (auto simp: first_message_def split: option.split)

lemma ValidateDownloadURL_ok:
  "ValidateDownloadURL u = Inr () \<Longrightarrow> u \<noteq> [] \<and> (\<exists>p. url_Parse u = Inr p \<and> u_Scheme p = ''https'' \<and> u_Host p \<noteq> [])"
  by (auto simp: ValidateDownloadURL_def split: if_splits sum.splits)

lemma plugin_source_accepts:
  assumes "validatePluginSource src = None"
  shows "(aps_Type src = ''hangar'' \<and> given (aps_Project src) [] \<noteq> []) \<or>
    (aps_Type src = ''url'' \<and> given (aps_Url src) [] \<noteq> [] \<and>
     (\<exists>p. url_Parse (given (aps_Url src) []) = Inr p \<and> u_Scheme p = ''https'' \<and> u_Host p \<noteq> []))"
  using assms ValidateDownloadURL_ok [of "given (aps_Url src) []"]
  by (auto simp: validatePluginSource_def split: if_splits sum.splits)

text \<open>
  What the API server does to a plugin before the webhooks see it: an empty field with a default in
  the CRD, which \<^verbatim>\<open>omitempty\<close> leaves out of the request, gets that default.
\<close>

definition or_default :: "string \<Rightarrow> string \<Rightarrow> string" where
  "or_default v d = (if v = [] then d else v)"

definition with_defaults :: "Plugin \<Rightarrow> Plugin" where
  "with_defaults p = p\<lparr>pl_Spec := (pl_Spec p)\<lparr>
     ps_UpdateStrategy := or_default (ps_UpdateStrategy (pl_Spec p)) ''latest'',
     ps_Endpoints := map (\<lambda>e. e\<lparr>ep_Protocol := or_default (ep_Protocol e) ''TCP''\<rparr>) (ps_Endpoints (pl_Spec p)),
     ps_Configs := map (\<lambda>c. c\<lparr>pcf_Overwrite := or_default (pcf_Overwrite c) ''always''\<rparr>) (ps_Configs (pl_Spec p))\<rparr>\<rparr>"

lemma with_defaults_ok:
  "plugin_ok (with_defaults p) \<longleftrightarrow>
     plugin_ok (p\<lparr>pl_Spec := (pl_Spec p)\<lparr>ps_UpdateStrategy := or_default (ps_UpdateStrategy (pl_Spec p)) ''latest''\<rparr>\<rparr>)"
proof -
  have eff: "effective_protocol (e\<lparr>ep_Protocol := or_default (ep_Protocol e) ''TCP''\<rparr>) = effective_protocol e" for e :: PluginEndpoint
    by (simp add: effective_protocol_def or_default_def webhook_consts)
  then have "endpoint_ok (e\<lparr>ep_Protocol := or_default (ep_Protocol e) ''TCP''\<rparr>) = endpoint_ok e" for e :: PluginEndpoint
    by (simp add: endpoint_ok_def)
  with eff show ?thesis by (simp add: plugin_ok_def with_defaults_def comp_def list_all_iff)
qed

text \<open>
  C22. A request to create a plugin that passes the checks of the API becomes an object that, once the API
  server has filled in the defaults of the CRD, the webhook admits exactly when its project name is
  safe, its strategy, which is \<open>latest\<close> when the request names none, has the fields it needs and its
  config files are well-formed. The API has checked source and endpoints as strictly as the webhook
  does, and the conversion (ports to 32 bits, default protocol) loses nothing of them.
\<close>

theorem api_plugin_admitted_iff:
  assumes "validatePluginCreateRequest body = None"
  shows "snd (PluginValidator_ValidateCreate (with_defaults (created_plugin (pluginCreateRequestToData body) delay))) = None \<longleftrightarrow>
    (given (aps_Project (apr_Source body)) [] \<noteq> [] \<longrightarrow> safe_name (given (aps_Project (apr_Source body)) [])) \<and>
    strategy_ok (or_default (given (apr_UpdateStrategy body) []) ''latest'') (given (apr_Version body) [])
      (case apr_Build body of None \<Rightarrow> None | Some b \<Rightarrow> if b \<noteq> 0 then Some b else None) \<and>
    (given (apr_Configs body) [] \<noteq> [] \<longrightarrow> safe_name (given (apr_PluginDirName body) [])) \<and>
    configs_ok (map (\<lambda>c. (\<lparr>ck_Name = ack_Name (apc_ConfigMapRef c), ck_Key = ack_Key (apc_ConfigMapRef c)\<rparr>, apc_Path c))
      (given (apr_Configs body) []))"
proof -
  let ?p = "created_plugin (pluginCreateRequestToData body) delay" and ?s = "apr_Source body"
  have v: "validateEndpointRequest (apr_Endpoints body) = None" "validatePluginSource ?s = None"
    using assms by (simp_all add: validatePluginCreateRequest_def)
  have src: "ps_Source (pl_Spec ?p) = \<lparr>src_Type = aps_Type ?s, src_Project = given (aps_Project ?s) [],
      src_URL = given (aps_Url ?s) [], src_Checksum = []\<rparr>"
    and strategy: "ps_UpdateStrategy (pl_Spec ?p) = given (apr_UpdateStrategy body) []"
      "ps_Version (pl_Spec ?p) = given (apr_Version body) []"
      "ps_Build (pl_Spec ?p) = (case apr_Build body of None \<Rightarrow> None | Some b \<Rightarrow> if b \<noteq> 0 then Some b else None)"
    and eps: "ps_Endpoints (pl_Spec ?p) = endpoints_to_CRD (given (map_option endpoint_data (apr_Endpoints body)) [])"
    and dir: "ps_PluginDirName (pl_Spec ?p) = given (apr_PluginDirName body) []"
    by (simp_all add: created_plugin_def pluginCreateRequestToData_def given_def split: option.split)
  have cfg: "ps_Configs (pl_Spec ?p) =
      map (\<lambda>c. \<lparr>pcf_ConfigMapRef = \<lparr>ck_Name = ack_Name (apc_ConfigMapRef c), ck_Key = ack_Key (apc_ConfigMapRef c)\<rparr>,
        pcf_Path = apc_Path c, pcf_Overwrite = given (apc_Overwrite c) ''always''\<rparr>) (given (apr_Configs body) [])"
    by (cases "apr_Configs body")
      (simp_all add: created_plugin_def pluginCreateRequestToData_def given_def configDataToPluginConfigFiles_def
        apiConfigFilesToDataFromPlugin_def)
  have "source_ok (ps_Source (pl_Spec ?p)) \<longleftrightarrow>
      (given (aps_Project ?s) [] \<noteq> [] \<longrightarrow> safe_name (given (aps_Project ?s) []))"
    using plugin_source_accepts [OF v(2)] by (auto simp: src source_ok_def)
  moreover have "list_all endpoint_ok (ps_Endpoints (pl_Spec ?p)) \<and> distinct (map ep_Name (ps_Endpoints (pl_Spec ?p)))
      \<and> distinct (map (\<lambda>ep. (ep_Port ep, effective_protocol ep)) (ps_Endpoints (pl_Spec ?p)))"
    using endpoint_data_ok [OF v(1)] endpoints_iff unfolding eps by blast
  ultimately show ?thesis
    by (simp only: PluginValidator_ValidateCreate_def plugin_validate_iff with_defaults_ok)
      (simp add: plugin_ok_def strategy dir cfg comp_def)
qed

definition window_enabled :: "ApiServerCreateRequest \<Rightarrow> bool" where
  "window_enabled body = (case asr_MaintenanceWindow body of None \<Rightarrow> False | Some mw \<Rightarrow> given (amw_Enabled mw) False)"

definition window_cron :: "ApiServerCreateRequest \<Rightarrow> string" where
  "window_cron body = (case asr_MaintenanceWindow body of None \<Rightarrow> [] | Some mw \<Rightarrow> given (amw_Cron mw) [])"

lemma given_map_option: "given (map_option f x) (f a) = f (given x a)"
  by (simp add: given_def split: option.split)

lemma server_request_strategy:
  assumes "validateServerCreateRequest body = None"
  shows "strategy_ok (asr_UpdateStrategy body) (given (asr_Version body) [])
      (if given (asr_Build body) 0 \<noteq> 0 then Some (given (asr_Build body) 0) else None) \<longleftrightarrow>
    (asr_UpdateStrategy body = ''build-pin'' \<longrightarrow> asr_Build body \<noteq> Some 0)"
  using assms
  by (auto simp: validateServerCreateRequest_def strategy_ok_def validUpdateStrategies_def strategy_defs Let_def
      given_def split: if_splits option.splits)

text \<open>
  C23. A request to create a server that passes the checks of the API becomes an object that the webhook
  admits exactly when its cron expressions parse, its config files are well-formed and, for the
  strategy build-pin, its build is not zero: build 0 passes the API and is then dropped.
\<close>

theorem api_server_admitted_iff:
  assumes "validateServerCreateRequest body = None"
  shows "snd (PaperMCServerValidator_ValidateCreate cronParse
        (created_server (serverCreateRequestToData body) delay)) = None \<longleftrightarrow>
    (asr_UpdateStrategy body = ''build-pin'' \<longrightarrow> asr_Build body \<noteq> Some 0) \<and>
    \<not> isl (cronParse (given (asr_CheckCron body) [])) \<and>
    (window_enabled body \<longrightarrow> \<not> isl (cronParse (window_cron body))) \<and>
    list_all plugin_config_ok (configDataToPluginConfigs (apiPluginConfigsToData (given (asr_PluginConfigs body) []))) \<and>
    distinct (map asp_PluginName (given (asr_PluginConfigs body) [])) \<and>
    configs_ok (map (\<lambda>c. (\<lparr>ck_Name = ack_Name (asc_ConfigMapRef c), ck_Key = ack_Key (asc_ConfigMapRef c)\<rparr>, asc_Path c))
      (given (asr_ServerConfigs body) []))"
proof -
  let ?s = "created_server (serverCreateRequestToData body) delay"
  have strategy: "ss_UpdateStrategy (sv_Spec ?s) = asr_UpdateStrategy body"
      "ss_Version (sv_Spec ?s) = given (asr_Version body) []"
      "ss_Build (sv_Spec ?s) = (if given (asr_Build body) 0 \<noteq> 0 then Some (given (asr_Build body) 0) else None)"
    and cron: "us_CheckCron (ss_UpdateSchedule (sv_Spec ?s)) = given (asr_CheckCron body) []"
      "mw_Enabled (us_MaintenanceWindow (ss_UpdateSchedule (sv_Spec ?s))) = window_enabled body"
      "window_enabled body \<Longrightarrow> mw_Cron (us_MaintenanceWindow (ss_UpdateSchedule (sv_Spec ?s))) = window_cron body"
    and rest: "\<not> rc_Enabled (ss_RCON (sv_Spec ?s))" "ss_Backup (sv_Spec ?s) = None" "ss_Gateway (sv_Spec ?s) = None"
    by (simp_all add: created_server_def serverCreateRequestToData_def window_enabled_def window_cron_def zero_server_spec_def)
  have pcs: "ss_PluginConfigs (sv_Spec ?s) =
      configDataToPluginConfigs (apiPluginConfigsToData (given (asr_PluginConfigs body) []))"
    using given_map_option [of apiPluginConfigsToData "asr_PluginConfigs body" "[]"]
    by (simp add: created_server_def serverCreateRequestToData_def apiPluginConfigsToData_def)
  have scs: "ss_ServerConfigs (sv_Spec ?s) = configDataToServerConfigs (apiConfigFilesToData (given (asr_ServerConfigs body) []))"
    using given_map_option [of apiConfigFilesToData "asr_ServerConfigs body" "[]"]
    by (simp add: created_server_def serverCreateRequestToData_def apiConfigFilesToData_def)
  have names: "map spc_PluginName (configDataToPluginConfigs (apiPluginConfigsToData l)) = map asp_PluginName l" for l
    by (simp add: configDataToPluginConfigs_def apiPluginConfigsToData_def)
  have files: "map (\<lambda>c. (scf_ConfigMapRef c, scf_Path c)) (configDataToServerConfigs (apiConfigFilesToData l)) =
      map (\<lambda>c. (\<lparr>ck_Name = ack_Name (asc_ConfigMapRef c), ck_Key = ack_Key (asc_ConfigMapRef c)\<rparr>, asc_Path c)) l" for l
    by (simp add: configDataToServerConfigs_def apiConfigFilesToData_def)
  show ?thesis
    using server_request_strategy [OF assms] cron(3)
    by (auto simp: PaperMCServerValidator_ValidateCreate_def server_validate_iff server_ok_def Let_def strategy cron(1,2)
        rest pcs scs names files)
qed

subsection \<open>Requests\<close>

datatype request =
    R_GetHealth
  | R_ListNamespaces
  | R_ListServers "string option"
  | R_CreateServer "ApiServerCreateRequest option"
  | R_GetServer string string
  | R_UpdateServer string string "ApiServerUpdateRequest option"
  | R_DeleteServer string string
  | R_ResolveServer string string
  | R_ApplyNowServer string string
  | R_ListPlugins "string option"
  | R_CreatePlugin "ApiPluginCreateRequest option"
  | R_GetPlugin string string
  | R_UpdatePlugin string string "ApiPluginUpdateRequest option"
  | R_DeletePlugin string string
  | R_ResolvePlugin string string
  | R_ListConfigMaps string
  | R_CreateConfigMap string "ApiConfigMapCreateRequest option"

primrec status :: "'a response \<Rightarrow> nat" where
  "status (Reply c _) = c"
| "status (Empty c) = c"
| "status (Problem c _ _) = c"

definition status_of :: "('w, 'a response) op \<Rightarrow> ('w, nat) op" where
  "status_of m = do { r \<leftarrow> m; State_Monad.return (status r) }"

primrec serve :: "('w, 'sched) vext \<Rightarrow> request \<Rightarrow> ('w, nat) op" where
  "serve y R_GetHealth = status_of (api_GetHealth y)"
| "serve y R_ListNamespaces = status_of (api_ListNamespaces y)"
| "serve y (R_ListServers ns) = status_of (api_ListServers y ns)"
| "serve y (R_CreateServer b) = status_of (api_CreateServer y b)"
| "serve y (R_GetServer ns n) = status_of (api_GetServer y ns n)"
| "serve y (R_UpdateServer ns n b) = status_of (api_UpdateServer y ns n b)"
| "serve y (R_DeleteServer ns n) = status_of (api_DeleteServer y ns n)"
| "serve y (R_ResolveServer ns n) = status_of (api_ResolveServer y ns n)"
| "serve y (R_ApplyNowServer ns n) = status_of (api_ApplyNowServer y ns n)"
| "serve y (R_ListPlugins ns) = status_of (api_ListPlugins y ns)"
| "serve y (R_CreatePlugin b) = status_of (api_CreatePlugin y b)"
| "serve y (R_GetPlugin ns n) = status_of (api_GetPlugin y ns n)"
| "serve y (R_UpdatePlugin ns n b) = status_of (api_UpdatePlugin y ns n b)"
| "serve y (R_DeletePlugin ns n) = status_of (api_DeletePlugin y ns n)"
| "serve y (R_ResolvePlugin ns n) = status_of (api_ResolvePlugin y ns n)"
| "serve y (R_ListConfigMaps ns) = status_of (api_ListConfigMaps y ns)"
| "serve y (R_CreateConfigMap ns b) = status_of (api_CreateConfigMap y ns b)"

text \<open>The calls that change the cluster or a pod, and whether they succeeded.\<close>

fun write_ok :: "event \<Rightarrow> bool option" where
  "write_ok (E_UpdateServer _ ok) = Some ok"
| "write_ok (E_PatchServer _ _ ok) = Some ok"
| "write_ok (E_StatusUpdate _ ok) = Some ok"
| "write_ok (E_DeletePod _ _ ok) = Some ok"
| "write_ok (E_UpdateSts _ ok) = Some ok"
| "write_ok (E_PluginStatusUpdate _ ok) = Some ok"
| "write_ok (E_Exec _ _ _ _ r) = Some (is_ok r)"
| "write_ok (E_Rcon _ _ ok) = Some ok"
| "write_ok (E_CreateSnapshot _ ok) = Some ok"
| "write_ok (E_DeleteSnapshot _ ok) = Some ok"
| "write_ok (E_Create _ ok) = Some ok"
| "write_ok (E_Update _ ok) = Some ok"
| "write_ok (E_Delete _ ok) = Some ok"
| "write_ok (E_UpdatePlugin _ ok) = Some ok"
| "write_ok (E_CreateServer _ ok) = Some ok"
| "write_ok (E_DeleteServer _ ok) = Some ok"
| "write_ok (E_CreatePlugin _ ok) = Some ok"
| "write_ok (E_DeletePlugin _ ok) = Some ok"
| "write_ok _ = None"

abbreviation writes :: "event list \<Rightarrow> event list" where
  "writes u \<equiv> filter (\<lambda>e. write_ok e \<noteq> None) u"

lemma write_ok_Nil: "list_all (\<lambda>e. write_ok e = None) u \<Longrightarrow> writes u = []"
  by (induction u) auto

lemma reads_serverToData: "only (\<lambda>e. write_ok e = None) (serverToData y s)"
  unfolding serverToData_def CheckStatefulSetStatus_def call_ops by (intro only_rules; simp)

lemma reads_fetchPluginDetails: "only (\<lambda>e. write_ok e = None) (fetchPluginDetails y ps)"
  by (induction ps) (auto simp: call_ops intro!: only_rules)

lemma reads_servers_loop: "only (\<lambda>e. write_ok e = None) (servers_loop y ns ss)"
  by (induction ss) (auto intro!: only_rules reads_serverToData)

lemma reads_GetServer: "only (\<lambda>e. write_ok e = None) (ServerService_GetServer y ns n)"
  unfolding ServerService_GetServer_def server_details_def call_ops
  by (intro only_rules reads_serverToData reads_fetchPluginDetails; simp)

lemma reads_GetPlugin: "only (\<lambda>e. write_ok e = None) (PluginService_GetPlugin y ns n)"
  unfolding PluginService_GetPlugin_def call_ops by (intro only_rules; simp)

lemmas reads_rules = reads_serverToData reads_fetchPluginDetails reads_servers_loop reads_GetServer reads_GetPlugin

text \<open>
  What a request may write, given the calls made while it was served: the object that a create request
  describes, or the object that was read under the name in the request.
\<close>

primrec may_write :: "request \<Rightarrow> event list \<Rightarrow> event \<Rightarrow> bool" where
  "may_write R_GetHealth u e \<longleftrightarrow> False"
| "may_write R_ListNamespaces u e \<longleftrightarrow> False"
| "may_write (R_ListServers ns) u e \<longleftrightarrow> False"
| "may_write (R_CreateServer b) u e \<longleftrightarrow>
     (\<exists>body s ok. b = Some body \<and> e = E_CreateServer s ok \<and>
        sv_Name s = asr_Name body \<and> sv_Namespace s = asr_Namespace body)"
| "may_write (R_GetServer ns n) u e \<longleftrightarrow> False"
| "may_write (R_UpdateServer ns n b) u e \<longleftrightarrow>
     (\<exists>s s' ok. E_GetServer ns n (Inr s) \<in> set u \<and> e = E_UpdateServer s' ok \<and>
        sv_Name s' = sv_Name s \<and> sv_Namespace s' = sv_Namespace s \<and>
        sv_Annotations s' = sv_Annotations s \<and> sv_Status s' = sv_Status s)"
| "may_write (R_DeleteServer ns n) u e \<longleftrightarrow>
     (\<exists>s ok. E_GetServer ns n (Inr s) \<in> set u \<and> e = E_DeleteServer s ok)"
| "may_write (R_ResolveServer ns n) u e \<longleftrightarrow>
     (\<exists>s t ok. E_GetServer ns n (Inr s) \<in> set u \<and> E_Now t \<in> set u \<and> e = E_UpdateServer
        (set_annotations s ((sv_Annotations s)(''mc.k8s.lex.la/reconcile'' \<mapsto> itoa (Unix t)))) ok)"
| "may_write (R_ApplyNowServer ns n) u e \<longleftrightarrow>
     (\<exists>s t ok. E_GetServer ns n (Inr s) \<in> set u \<and> E_Now t \<in> set u \<and> e = E_UpdateServer
        (set_annotations s ((sv_Annotations s)(''mc.k8s.lex.la/apply-now'' \<mapsto> itoa (Unix t)))) ok)"
| "may_write (R_ListPlugins ns) u e \<longleftrightarrow> False"
| "may_write (R_CreatePlugin b) u e \<longleftrightarrow>
     (\<exists>body p ok. b = Some body \<and> e = E_CreatePlugin p ok \<and>
        pl_Name p = apr_Name body \<and> pl_Namespace p = apr_Namespace body)"
| "may_write (R_GetPlugin ns n) u e \<longleftrightarrow> False"
| "may_write (R_UpdatePlugin ns n b) u e \<longleftrightarrow>
     (\<exists>p p' ok. E_GetPlugin ns n (Inr p) \<in> set u \<and> e = E_UpdatePlugin p' ok \<and>
        pl_Meta p' = pl_Meta p \<and> ps_Source (pl_Spec p') = ps_Source (pl_Spec p) \<and> pl_Status p' = pl_Status p)"
| "may_write (R_DeletePlugin ns n) u e \<longleftrightarrow>
     (\<exists>p ok. E_GetPlugin ns n (Inr p) \<in> set u \<and> e = E_DeletePlugin p ok)"
| "may_write (R_ResolvePlugin ns n) u e \<longleftrightarrow>
     (\<exists>p t ok. E_GetPlugin ns n (Inr p) \<in> set u \<and> E_Now t \<in> set u \<and> e = E_UpdatePlugin
        (p\<lparr>pl_Meta := (pl_Meta p)\<lparr>m_Annotations := (m_Annotations (pl_Meta p))(''mc.k8s.lex.la/reconcile'' \<mapsto> itoa (Unix t))\<rparr>\<rparr>) ok)"
| "may_write (R_ListConfigMaps ns) u e \<longleftrightarrow> False"
| "may_write (R_CreateConfigMap ns b) u e \<longleftrightarrow>
     (\<exists>body cm ok. b = Some body \<and> e = E_Create (O_ConfigMap cm) ok \<and>
        m_Name (cm_Meta cm) = acm_Name body \<and> m_Namespace (cm_Meta cm) = acm_Namespace body \<and>
        cm_Data cm = map_of (acm_Data body))"

text \<open>Requests that are meant to change something.\<close>

primrec mutating :: "request \<Rightarrow> bool" where
  "mutating R_GetHealth = False"
| "mutating R_ListNamespaces = False"
| "mutating (R_ListServers ns) = False"
| "mutating (R_CreateServer b) = True"
| "mutating (R_GetServer ns n) = False"
| "mutating (R_UpdateServer ns n b) = True"
| "mutating (R_DeleteServer ns n) = True"
| "mutating (R_ResolveServer ns n) = True"
| "mutating (R_ApplyNowServer ns n) = True"
| "mutating (R_ListPlugins ns) = False"
| "mutating (R_CreatePlugin b) = True"
| "mutating (R_GetPlugin ns n) = False"
| "mutating (R_UpdatePlugin ns n b) = True"
| "mutating (R_DeletePlugin ns n) = True"
| "mutating (R_ResolvePlugin ns n) = True"
| "mutating (R_ListConfigMaps ns) = False"
| "mutating (R_CreateConfigMap ns b) = True"

text \<open>
  How a request is served: at most one write, which it may make; success (2xx) of a mutating request
  comes with a write that succeeded, and a client error (4xx) with none.
\<close>

definition served :: "request \<Rightarrow> nat \<Rightarrow> event list \<Rightarrow> bool" where
  "served req sc u \<longleftrightarrow>
     length (writes u) \<le> 1 \<and> list_all (may_write req u) (writes u) \<and>
     (mutating req \<and> sc < 300 \<longrightarrow> map write_ok (writes u) = [Some True]) \<and>
     (400 \<le> sc \<and> sc < 500 \<longrightarrow> Some True \<notin> set (map write_ok (writes u)))"

text \<open>A service call that makes at most one write, in terms of its result.\<close>

definition one_write :: "request \<Rightarrow> 'a result \<Rightarrow> event list \<Rightarrow> bool" where
  "one_write req r u \<longleftrightarrow>
     length (writes u) \<le> 1 \<and> list_all (may_write req u) (writes u) \<and>
     (case r of Inl _ \<Rightarrow> Some True \<notin> set (map write_ok (writes u)) | Inr _ \<Rightarrow> map write_ok (writes u) = [Some True])"

lemma may_write_mono: "may_write req u e \<Longrightarrow> may_write req (u @ v) e"
  by (cases req; simp; blast)

lemma one_write_append:
  assumes "one_write req r u" and "list_all (\<lambda>e. write_ok e = None) v"
  shows "one_write req r (u @ v)"
proof -
  have w: "writes (u @ v) = writes u" by (simp only: filter_append write_ok_Nil [OF assms(2)] append_Nil2)
  show ?thesis using assms(1) unfolding one_write_def w by (auto simp: list_all_iff intro: may_write_mono)
qed

lemma served_one_write:
  assumes "one_write req r u" and "case r of Inl _ \<Rightarrow> 400 \<le> sc | Inr _ \<Rightarrow> sc < 300 \<or> 500 \<le> sc"
  shows "served req sc u"
  using assms by (auto simp: one_write_def served_def split: sum.splits)

lemma served_no_write: "list_all (\<lambda>e. write_ok e = None) u \<Longrightarrow> \<not> mutating req \<or> 300 \<le> sc \<Longrightarrow> served req sc u"
  using write_ok_Nil [of u] by (auto simp: served_def)

lemma served_reading:
  assumes "only (\<lambda>e. write_ok e = None) m" and "\<not> mutating req"
  shows "emits (status_of m) (served req)"
  unfolding status_of_def
  by (rule tr_bind_emits [OF onlyD [OF assms(1)]]) (auto intro!: tr_return served_no_write simp: assms(2))

lemma error_status [simp]:
  "400 \<le> status (missing_or_internal y err s)" "400 \<le> status (existing_or_internal y err s)"
  by (simp_all add: missing_or_internal_def existing_or_internal_def)

lemma served_act:
  assumes "emits m (one_write req)" and "status ok < 300"
  shows "emits (status_of (act y m f ok)) (served req)"
  unfolding status_of_def act_def
  by (intro tr_bind_assoc tr_bind_emits [OF assms(1)] tr_bind_return tr_return, rule served_one_write)
    (use assms(2) in \<open>auto split: sum.split\<close>)

text \<open>A service call that writes, followed by one that reads the result back.\<close>

lemma served_then_read:
  fixes m :: "('w, 'a result) op"
  assumes "emits m (one_write req)" and "\<And>a. only (\<lambda>e. write_ok e = None) (k a)"
    and "\<And>err. 400 \<le> status (f err)" and "\<And>b. status (g b) < 300 \<or> 500 \<le> status (g b)"
  shows "emits (status_of (do { r \<leftarrow> m; case r of Inl err \<Rightarrow> State_Monad.return (f err)
      | Inr a \<Rightarrow> do { b \<leftarrow> k a; State_Monad.return (g b) } })) (served req)"
  unfolding status_of_def
proof (intro tr_bind_assoc tr_bind_emits [OF assms(1)])
  fix r :: "'a result" and u
  assume r: "one_write req r u"
  show "tr (State_Monad.bind (case r of Inl err \<Rightarrow> State_Monad.return (f err)
      | Inr a \<Rightarrow> State_Monad.bind (k a) (\<lambda>b. State_Monad.return (g b))) (\<lambda>r. State_Monad.return (status r)))
     ([] @ u) (served req)"
  proof (cases r)
    case (Inl err)
    with r assms(3) show ?thesis by (auto intro!: tr_bind_return tr_return served_one_write [OF r])
  next
    case (Inr a)
    show ?thesis
      unfolding Inr sum.case append_Nil
      by (intro tr_bind_assoc tr_bind_emits [OF onlyD [OF assms(2)]] tr_bind_return tr_return,
          rule served_one_write [OF one_write_append [OF r]]) (use Inr assms(4) in auto)
  qed
qed

lemma wrap_result_cases [simp]:
  "(case wrap_result m r of Inl _ \<Rightarrow> a | Inr _ \<Rightarrow> b) = (if is_ok r then b else a)"
  by (auto simp: wrap_result_def split: sum.split)

lemma one_write_server_actions:
  "emits (ServerService_TriggerReconciliation y ns n) (one_write (R_ResolveServer ns n))"
  "emits (ServerService_ApplyNow y ns n) (one_write (R_ApplyNowServer ns n))"
  unfolding ServerService_TriggerReconciliation_def ServerService_ApplyNow_def annotate_server_def call_ops
  by (intro tr_rules; auto simp: one_write_def AnnotationReconcile_def ServiceAnnotationApplyNow_def)+

lemma one_write_delete:
  "emits (ServerService_DeleteServer y ns n) (one_write (R_DeleteServer ns n))"
  "emits (PluginService_DeletePlugin y ns n) (one_write (R_DeletePlugin ns n))"
  unfolding ServerService_DeleteServer_def PluginService_DeletePlugin_def call_ops service_call_ops
  by (intro tr_rules; auto simp: one_write_def)+

lemma one_write_resolve_plugin:
  "emits (PluginService_TriggerReconciliation y ns n) (one_write (R_ResolvePlugin ns n))"
  unfolding PluginService_TriggerReconciliation_def call_ops server_call_ops
  by (intro tr_rules; auto simp: one_write_def AnnotationReconcile_def annotated_plugin_def)

lemma created_names:
  "sv_Name (created_server data delay) = scd_Name data" "sv_Namespace (created_server data delay) = scd_Namespace data"
  "pl_Name (created_plugin pdata delay) = pcr_Name pdata" "pl_Namespace (created_plugin pdata delay) = pcr_Namespace pdata"
  by (simp_all add: created_server_def created_plugin_def)

lemma patched_frames:
  "sv_Name (patched_server d delay s) = sv_Name s" "sv_Namespace (patched_server d delay s) = sv_Namespace s"
  "sv_Annotations (patched_server d delay s) = sv_Annotations s" "sv_Status (patched_server d delay s) = sv_Status s"
  "pl_Meta (patched_plugin pd' delay p) = pl_Meta p" "pl_Status (patched_plugin pd' delay p) = pl_Status p"
  "ps_Source (pl_Spec (patched_plugin pd' delay p)) = ps_Source (pl_Spec p)"
  by (simp_all add: patched_server_def patched_plugin_def Let_def)

lemma one_write_create:
  "emits (ServerService_CreateServer y (serverCreateRequestToData body)) (one_write (R_CreateServer (Some body)))"
  "emits (PluginService_CreatePlugin y (pluginCreateRequestToData pbody)) (one_write (R_CreatePlugin (Some pbody)))"
  unfolding ServerService_CreateServer_def PluginService_CreatePlugin_def service_call_ops
  by (intro tr_rules; auto simp: one_write_def created_names serverCreateRequestToData_def pluginCreateRequestToData_def)+

lemma one_write_update:
  "emits (ServerService_UpdateServer y (serverUpdateRequestToData ns n body)) (one_write (R_UpdateServer ns n b))"
  "emits (PluginService_UpdatePlugin y (pluginUpdateRequestToData ns n pbody)) (one_write (R_UpdatePlugin ns n pb))"
  unfolding ServerService_UpdateServer_def PluginService_UpdatePlugin_def call_ops server_call_ops
  by (intro tr_rules; auto simp: one_write_def patched_frames serverUpdateRequestToData_def pluginUpdateRequestToData_def)+

lemma one_write_config_map:
  "emits (CreateConfigMap y (acm_Namespace body) (acm_Name body) (map_of (acm_Data body)))
     (one_write (R_CreateConfigMap ns (Some body)))"
  unfolding CreateConfigMap_def server_call_ops by (intro tr_rules; auto simp: one_write_def)

lemma served_rejected: "mutating req \<Longrightarrow> emits (status_of (State_Monad.return (bad_request m))) (served req)"
  unfolding status_of_def by (intro tr_bind_return tr_return) (simp add: served_def)

text \<open>The handlers that only read, and those that write.\<close>

lemma reading_handlers:
  "only (\<lambda>e. write_ok e = None) (api_GetHealth y)"
  "only (\<lambda>e. write_ok e = None) (api_ListNamespaces y)"
  "only (\<lambda>e. write_ok e = None) (api_ListServers y nsp)"
  "only (\<lambda>e. write_ok e = None) (api_GetServer y ns n)"
  "only (\<lambda>e. write_ok e = None) (api_ListPlugins y nsp)"
  "only (\<lambda>e. write_ok e = None) (api_GetPlugin y ns n)"
  "only (\<lambda>e. write_ok e = None) (api_ListConfigMaps y ns)"
  unfolding api_GetHealth_def api_ListNamespaces_def ListNamespaces_def api_ListServers_def
    ServerService_ListServers_def api_GetServer_def api_ListPlugins_def PluginService_ListPlugins_def api_GetPlugin_def
    api_ListConfigMaps_def ListConfigMaps_def call_ops server_call_ops service_call_ops
  by (intro only_rules reads_rules; simp)+

lemma served_create:
  "emits (status_of (api_CreateServer y b)) (served (R_CreateServer b))"
  "emits (status_of (api_CreatePlugin y pb)) (served (R_CreatePlugin pb))"
  unfolding api_CreateServer_def api_CreatePlugin_def
  by (split option.split, intro conjI impI allI served_rejected, simp, split option.split,
      intro conjI impI allI served_rejected served_then_read one_write_create reads_rules;
      auto intro: one_write_create split: sum.split)+

lemma served_update:
  "emits (status_of (api_UpdateServer y ns n b)) (served (R_UpdateServer ns n b))"
  "emits (status_of (api_UpdatePlugin y ns n pb)) (served (R_UpdatePlugin ns n pb))"
proof -
  show "emits (status_of (api_UpdateServer y ns n b)) (served (R_UpdateServer ns n b))"
    unfolding api_UpdateServer_def
    by (split option.split, intro conjI impI allI served_rejected served_then_read one_write_update reads_rules)
      (auto split: sum.split)
  show "emits (status_of (api_UpdatePlugin y ns n pb)) (served (R_UpdatePlugin ns n pb))"
    unfolding api_UpdatePlugin_def
    by (split option.split, intro conjI impI allI served_rejected, simp, split option.split,
        intro conjI impI allI served_rejected served_then_read one_write_update reads_rules)
      (auto split: sum.split)
qed

lemma served_config_map: "emits (status_of (api_CreateConfigMap y ns b)) (served (R_CreateConfigMap ns b))"
  unfolding api_CreateConfigMap_def
  by (split option.split, intro conjI impI allI served_rejected, simp, split option.split,
      intro conjI impI allI served_rejected, simp, unfold status_of_def,
      intro tr_bind_assoc tr_bind_emits [OF one_write_config_map] tr_bind_return tr_return, rule served_one_write)
    (auto split: sum.split)

text \<open>
  Every request to the REST API makes at most one write, and only the write its method names: a
  create request the object with its name and namespace, an update or delete request the object
  that was read under the name in the URL (with name, annotations and status untouched by an update),
  an action its annotation with the current time. A reading request writes nothing, a success (2xx) of a
  mutating request means that its write succeeded, and a client error (4xx) that no write did.
\<close>

theorem rest_writes_confined: "emits (serve y req) (served req)"
  by (cases req)
    (simp_all add: served_reading reading_handlers served_create served_update served_config_map api_DeleteServer_def
      api_ResolveServer_def api_ApplyNowServer_def api_DeletePlugin_def api_ResolvePlugin_def served_act
      one_write_server_actions one_write_delete one_write_resolve_plugin)

subsection \<open>What an update request changes\<close>

definition only_requested :: "ApiServerUpdateRequest \<Rightarrow> PaperMCServer \<Rightarrow> PaperMCServer \<Rightarrow> bool" where
  "only_requested b s s' \<longleftrightarrow>
     (let spec = sv_Spec s; spec' = sv_Spec s'; us = ss_UpdateSchedule spec; us' = ss_UpdateSchedule spec';
          mw = us_MaintenanceWindow us; mw' = us_MaintenanceWindow us'
      in sv_Status s' = sv_Status s \<and>
         sv_Meta s' = (sv_Meta s)\<lparr>m_Labels := given (asu_Labels b) (sv_Labels s)\<rparr> \<and>
         ss_UpdateStrategy spec' = given (asu_UpdateStrategy b) (ss_UpdateStrategy spec) \<and>
         ss_Version spec' = given (asu_Version b) (ss_Version spec) \<and>
         ss_Build spec' = (if asu_Build b = None then ss_Build spec else asu_Build b) \<and>
         (case asu_UpdateDelay b of
            None \<Rightarrow> ss_UpdateDelay spec' = ss_UpdateDelay spec
          | Some str \<Rightarrow> \<exists>d. ParseDuration str = Inr d \<and> ss_UpdateDelay spec' = Some d) \<and>
         us_CheckCron us' = given (asu_CheckCron b) (us_CheckCron us) \<and>
         mw_Enabled mw' = (case asu_MaintenanceWindow b of None \<Rightarrow> mw_Enabled mw | Some w \<Rightarrow> given (amw_Enabled w) (mw_Enabled mw)) \<and>
         mw_Cron mw' = (case asu_MaintenanceWindow b of None \<Rightarrow> mw_Cron mw | Some w \<Rightarrow> given (amw_Cron w) (mw_Cron mw)) \<and>
         ss_GracefulShutdown spec' = ss_GracefulShutdown spec \<and> ss_RCON spec' = ss_RCON spec \<and>
         ss_Service spec' = ss_Service spec \<and> ss_Gateway spec' = ss_Gateway spec \<and> ss_Backup spec' = ss_Backup spec \<and>
         ss_Network spec' = ss_Network spec \<and> ss_PluginConfigs spec' = ss_PluginConfigs spec \<and>
         ss_ServerConfigs spec' = ss_ServerConfigs spec \<and> ss_PodTemplate spec' = ss_PodTemplate spec)"

lemma patched_only_requested:
  assumes "case asu_UpdateDelay b of None \<Rightarrow> delay = None | Some str \<Rightarrow> \<exists>d. ParseDuration str = Inr d \<and> delay = Some d"
  shows "only_requested b s (patched_server (serverUpdateRequestToData ns n b) delay s)"
  using assms
  by (auto simp: only_requested_def patched_server_def serverUpdateRequestToData_def Let_def given_def split: option.splits)

lemma request_delay:
  "(case d of None \<Rightarrow> Inr None | Some s \<Rightarrow> map_sum id Some (parse_delay s)) = Inr delay \<Longrightarrow>
   case d of None \<Rightarrow> delay = None | Some str \<Rightarrow> \<exists>d. ParseDuration str = Inr d \<and> delay = Some d"
  by (auto simp: parse_delay_def split: option.splits sum.splits)

text \<open>No other event of the service or of the reading handlers writes a server.\<close>

lemma reads_no_server_write:
  "list_all (\<lambda>e. write_ok e = None) u \<Longrightarrow> E_UpdateServer s ok \<notin> set u"
  by (auto simp: list_all_iff)

lemma UpdateServer_requested:
  "emits (ServerService_UpdateServer y (serverUpdateRequestToData ns n b))
     (\<lambda>r u. \<forall>s' ok. E_UpdateServer s' ok \<in> set u \<longrightarrow> (\<exists>s. E_GetServer ns n (Inr s) \<in> set u \<and> only_requested b s s'))"
proof -
  have names: "sud_Namespace (serverUpdateRequestToData ns n b) = ns" "sud_Name (serverUpdateRequestToData ns n b) = n"
    "sud_UpdateDelay (serverUpdateRequestToData ns n b) = asu_UpdateDelay b"
    by (simp_all add: serverUpdateRequestToData_def)
  show ?thesis
    unfolding ServerService_UpdateServer_def call_ops names
    by (intro tr_rules) (auto dest!: request_delay intro: patched_only_requested)
qed

text \<open>
  C26. A request to update a server changes the fields it contains, each to the value given, and no other
  part of the object: whatever is written differs from what was read only in them. Its plugin and
  server configurations are the exception: they are ignored.
\<close>

theorem update_request_frame:
  "emits (api_UpdateServer y ns n (Some b))
     (\<lambda>r u. \<forall>s' ok. E_UpdateServer s' ok \<in> set u \<longrightarrow> (\<exists>s. E_GetServer ns n (Inr s) \<in> set u \<and> only_requested b s s'))"
  unfolding api_UpdateServer_def option.case
  by (intro tr_bind_emits [OF UpdateServer_requested] tr_sum_case tr_return tr_bind_emits [OF onlyD [OF reads_GetServer]])
    (use reads_no_server_write in fastforce)+

subsection \<open>Errors reported by their text\<close>

text \<open>
  Errors are classified by searching their text, which contains what the client sent: an update of
  a server that exists, with the malformed delay "not found", is answered with 404 NOT_FOUND. (The error
  text is assumed to contain the quoted argument, as the errors library documents.)
\<close>

theorem bad_delay_reported_missing:
  assumes "\<forall>err. Contains (k_Error (world_ext y) (Wrapf err ''invalid update delay %q'' [AStr ''not found''])) ''not found''"
    and "asu_UpdateDelay b = Some ''not found''"
  shows "emits (api_UpdateServer y ns n (Some b)) (\<lambda>r u.
    (\<exists>s. u = [E_GetServer ns n (Inr s)] \<and> (\<exists>m. r = Problem 404 m NOTFOUND)) \<or> (\<exists>err. u = [E_GetServer ns n (Inl err)]))"
proof -
  have "ParseDuration ''not found'' = Inl (Newf ''time: invalid duration %q'' [AStr ''not found''])"
    by (simp add: ParseDuration_def duration_loop.simps duration_part_def unit_char_def is_digit_def)
  then have delay: "(case asu_UpdateDelay b of None \<Rightarrow> Inr None | Some s \<Rightarrow> map_sum id Some (parse_delay s)) =
      Inl (Wrapf (Newf ''time: invalid duration %q'' [AStr ''not found'']) ''invalid update delay %q'' [AStr ''not found''])"
    by (simp add: assms(2) parse_delay_def)
  have names: "sud_Namespace (serverUpdateRequestToData ns n b) = ns" "sud_Name (serverUpdateRequestToData ns n b) = n"
    "sud_UpdateDelay (serverUpdateRequestToData ns n b) = asu_UpdateDelay b"
    by (simp_all add: serverUpdateRequestToData_def)
  show ?thesis
    unfolding api_UpdateServer_def option.case ServerService_UpdateServer_def call_ops names delay sum.case
    by (intro tr_rules)
      (use assms(1) in \<open>auto simp: missing_or_internal_def isNotFoundError_def containsString_iff Let_def\<close>)
qed

fun without_checksum :: "event \<Rightarrow> bool" where
  "without_checksum (E_CreatePlugin p ok) = (src_Checksum (ps_Source (pl_Spec p)) = [])"
| "without_checksum _ = True"

text \<open>
  The checksum in a request to create a plugin is not part of the object that is created, so that
  its downloads are not verified: the conversion of the request leaves the field out.
\<close>

theorem checksum_dropped:
  assumes "aps_Checksum (apr_Source body) = Some c"
  shows "emits (api_CreatePlugin y (Some body)) (\<lambda>r u. list_all without_checksum u)"
proof -
  have names: "src_Checksum (ps_Source (pl_Spec (created_plugin (pluginCreateRequestToData body) delay))) = []" for delay
    by (simp add: created_plugin_def pluginCreateRequestToData_def)
  show ?thesis
    unfolding api_CreatePlugin_def option.case PluginService_CreatePlugin_def PluginService_GetPlugin_def
      call_ops service_call_ops
    by (intro tr_rules) (simp_all add: names)
qed

subsection \<open>Witnesses\<close>

definition demo_create_plugin :: ApiPluginCreateRequest where
  "demo_create_plugin =
     \<lparr>apr_Build = None, apr_CompatibilityOverride = None, apr_Configs = None,
      apr_Endpoints = Some [\<lparr>aep_Name = ''web'', aep_Port = 8123, aep_Protocol = Some ''HTTP''\<rparr>],
      apr_InstanceSelector = \<lparr>als_MatchExpressions = None, als_MatchLabels = None\<rparr>,
      apr_Name = ''map'', apr_Namespace = ''games'', apr_PluginDirName = None,
      apr_Source = \<lparr>aps_Checksum = Some ''00'', aps_Project = Some ''BlueMap'', aps_Type = ''hangar'', aps_Url = None\<rparr>,
      apr_UpdateDelay = None, apr_UpdateStrategy = Some ''latest'', apr_Version = None\<rparr>"

definition demo_create_server :: "int \<Rightarrow> ApiServerCreateRequest" where
  "demo_create_server build =
     \<lparr>asr_Build = Some build, asr_CheckCron = Some ''0 * * * *'', asr_GracefulShutdownTimeout = None, asr_Labels = None,
      asr_MaintenanceWindow = None, asr_Name = ''mc'', asr_Namespace = ''games'', asr_PluginConfigs = None,
      asr_Rcon = None, asr_ServerConfigs = None, asr_Service = None, asr_UpdateDelay = None,
      asr_UpdateStrategy = ''build-pin'', asr_Version = Some ''1.21.1''\<rparr>"

lemma demo_names: "validateK8sName ''map'' l = None" "validateK8sName ''games'' l = None" "validateK8sName ''mc'' l = None"
  by (simp_all add: k8s_name_iff IsValidKubernetesName_def isAlphanumeric_def less_eq_char_def)

lemma demo_create_plugin_valid: "validatePluginCreateRequest demo_create_plugin = None"
proof -
  have "MatchString dnsLabelPattern ''web''"
    unfolding dnsLabelPattern_def delimited_iff by (simp add: code_def)
  then show ?thesis
    by (simp add: validatePluginCreateRequest_def demo_create_plugin_def demo_names validateEndpointRequest_def
        maxEndpointNameLength_def PluginEndpointProtocol_Valid_def validatePluginSource_def given_def)
qed

definition demo_no_strategy :: ApiPluginCreateRequest where
  "demo_no_strategy = demo_create_plugin\<lparr>apr_UpdateStrategy := None\<rparr>"

theorem api_plugin_admitted_iff_witness:
  "validatePluginCreateRequest demo_no_strategy = None \<and>
   snd (PluginValidator_ValidateCreate (with_defaults (created_plugin (pluginCreateRequestToData demo_no_strategy) None))) = None"
proof -
  have valid: "validatePluginCreateRequest demo_no_strategy = None"
    using demo_create_plugin_valid by (simp add: validatePluginCreateRequest_def demo_no_strategy_def)
  have "dotdot_free ''BlueMap''" using Contains_dotdot [of "''BlueMap''"] by (simp add: HasPrefix_def)
  then have "safe_name ''BlueMap''"
    by (simp add: safe_name_def safe_char_def char_class_defs) (simp add: code_def)
  then show ?thesis
    using api_plugin_admitted_iff [OF valid, of None] valid
    by (simp add: demo_no_strategy_def demo_create_plugin_def given_def strategy_ok_def configs_ok_def or_default_def)
qed

lemma demo_create_server_valid: "validateServerCreateRequest (demo_create_server b) = None"
  by (simp add: validateServerCreateRequest_def demo_create_server_def demo_names validUpdateStrategies_def strategy_defs
      given_def Let_def)

theorem api_server_admitted_iff_witness:
  "validateServerCreateRequest (demo_create_server 0) = None \<and>
   snd (PaperMCServerValidator_ValidateCreate (\<lambda>_. Inr ())
     (created_server (serverCreateRequestToData (demo_create_server 0)) None)) \<noteq> None \<and>
   snd (PaperMCServerValidator_ValidateCreate (\<lambda>_. Inr ())
     (created_server (serverCreateRequestToData (demo_create_server 7)) None)) = None"
  using api_server_admitted_iff [OF demo_create_server_valid, of "\<lambda>_. Inr ()" 0 None]
    api_server_admitted_iff [OF demo_create_server_valid, of "\<lambda>_. Inr ()" 7 None] demo_create_server_valid [of 0]
  by (simp add: demo_create_server_def window_enabled_def given_def configDataToPluginConfigs_def
      apiPluginConfigsToData_def configs_ok_def)

text \<open>An error text as the errors library builds it from the message and its cause, for the one message here.\<close>

definition demo_text_vext :: "PaperMCServer \<Rightarrow> ('w, unit) vext" where
  "demo_text_vext server = (demo_vext server)\<lparr>cluster := (demo_sext server)\<lparr>base := (still_ext server)
     \<lparr>k_Error := (\<lambda>_. ''invalid update delay \"not found\": time: invalid duration \"not found\"'')\<rparr>\<rparr>\<rparr>"

definition demo_update_request :: ApiServerUpdateRequest where
  "demo_update_request = \<lparr>asu_Build = None, asu_CheckCron = None, asu_Labels = None, asu_MaintenanceWindow = None,
     asu_PluginConfigs = None, asu_ServerConfigs = None, asu_UpdateDelay = Some ''not found'', asu_UpdateStrategy = None,
     asu_Version = None\<rparr>"

theorem bad_delay_reported_missing_witness:
  "\<exists>m. fst (run_state (api_UpdateServer (demo_text_vext zero_server) ''games'' ''mc'' (Some demo_update_request)) demo_sys)
     = Problem 404 m NOTFOUND"
proof -
  let ?y = "demo_text_vext zero_server :: (unit, unit) vext"
  have "\<forall>err. Contains (k_Error (world_ext ?y) (Wrapf err ''invalid update delay %q'' [AStr ''not found''])) ''not found''"
    by (simp add: demo_text_vext_def HasPrefix_def)
  moreover have "asu_UpdateDelay demo_update_request = Some ''not found''" by (simp add: demo_update_request_def)
  moreover have "x_getServer (world_ext ?y) ns n w = (Inr zero_server, w)" for ns n w
    by (simp add: demo_text_vext_def still_ext_def)
  then have "trace (snd (run_state (api_UpdateServer ?y ''games'' ''mc'' (Some demo_update_request)) demo_sys)) \<noteq>
      [E_GetServer ''games'' ''mc'' (Inl err)]" for err
    by (simp add: api_UpdateServer_def ServerService_UpdateServer_def get_server_def call_def run_state_bind
        serverUpdateRequestToData_def demo_update_request_def parse_delay_def ParseDuration_def duration_loop.simps duration_part_def
        unit_char_def is_digit_def demo_sys_def)
  ultimately show ?thesis
    using emits_demo [OF bad_delay_reported_missing [of ?y demo_update_request "''games''" "''mc''"]] by auto
qed

definition demo_plugin_run :: "ApiPluginDetail response \<times> unit sys" where
  "demo_plugin_run = run_state (api_CreatePlugin (demo_vext zero_server) (Some demo_create_plugin)) demo_sys"

theorem checksum_dropped_witness:
  "aps_Checksum (apr_Source demo_create_plugin) = Some ''00'' \<and>
   E_CreatePlugin (created_plugin (pluginCreateRequestToData demo_create_plugin) None) True \<in> set (trace (snd demo_plugin_run)) \<and>
   list_all without_checksum (trace (snd demo_plugin_run))"
proof -
  have c: "aps_Checksum (apr_Source demo_create_plugin) = Some ''00''" by (simp add: demo_create_plugin_def)
  have d: "pcr_UpdateDelay (pluginCreateRequestToData demo_create_plugin) = []"
    by (simp add: demo_create_plugin_def pluginCreateRequestToData_def given_def)
  have "E_CreatePlugin (created_plugin (pluginCreateRequestToData demo_create_plugin) None) True \<in> set (trace (snd demo_plugin_run))"
    by (simp add: demo_plugin_run_def api_CreatePlugin_def demo_create_plugin_valid PluginService_CreatePlugin_def d
        create_plugin_def call_def demo_vext_def run_state_bind wrap_result_def PluginService_GetPlugin_def get_plugin_def
        demo_sys_def split: prod.split)
  with c emits_demo [OF checksum_dropped [OF c, of "demo_vext zero_server"]] show ?thesis
    by (simp add: demo_plugin_run_def)
qed

definition demo_pin :: ApiServerUpdateRequest where
  "demo_pin = demo_update_request\<lparr>asu_UpdateDelay := None, asu_Version := Some ''1.21.4''\<rparr>"

definition demo_conflict_vext :: "(unit, unit) vext" where
  "demo_conflict_vext = (demo_vext zero_server)\<lparr>cluster := (demo_sext zero_server)\<lparr>base := (still_ext zero_server)
     \<lparr>x_updateServer := (\<lambda>_ w. (Inl (APIStatus Conflict ''modified''), w))\<rparr>\<rparr>\<rparr>"

definition demo_update_run :: "ApiServerDetail response \<times> unit sys" where
  "demo_update_run = run_state (api_UpdateServer demo_conflict_vext ''games'' ''mc'' (Some demo_pin)) demo_sys"

theorem update_request_frame_witness:
  "\<exists>s s' ok. E_UpdateServer s' ok \<in> set (trace (snd demo_update_run)) \<and>
     E_GetServer ''games'' ''mc'' (Inr s) \<in> set (trace (snd demo_update_run)) \<and>
     ss_Version (sv_Spec s') = ''1.21.4'' \<and> ss_UpdateStrategy (sv_Spec s') = ss_UpdateStrategy (sv_Spec s)"
proof -
  have calls: "x_getServer (world_ext demo_conflict_vext) ns n w = (Inr zero_server, w)"
    "x_updateServer (world_ext demo_conflict_vext) s w = (Inl (APIStatus Conflict ''modified''), w)" for ns n s w
    by (simp_all add: demo_conflict_vext_def still_ext_def)
  have "\<exists>s' ok. E_UpdateServer s' ok \<in> set (trace (snd demo_update_run))"
    using calls
    by (auto simp: demo_update_run_def wrap_result_def api_UpdateServer_def ServerService_UpdateServer_def get_server_def update_server_def
        call_def run_state_bind serverUpdateRequestToData_def demo_pin_def demo_update_request_def)
  then obtain s' ok where w: "E_UpdateServer s' ok \<in> set (trace (snd demo_update_run))" by blast
  then obtain s where "E_GetServer ''games'' ''mc'' (Inr s) \<in> set (trace (snd demo_update_run))"
    and "only_requested demo_pin s s'"
    using emits_demo [OF update_request_frame [of demo_conflict_vext "''games''" "''mc''" demo_pin]]
    by (auto simp: demo_update_run_def)
  with w show ?thesis
    by (auto simp: only_requested_def Let_def demo_pin_def demo_update_request_def given_def)
qed

end
