(* ===== verification/SchemaParser.thy ===== *)
theory SchemaParser
  imports PluginURL ServerEffects Solver "HOL-Library.List_Lexorder" "HOL-Library.Char_ord"
begin

section \<open>Forms from the OpenAPI document (pkg/webui/schema/types.go, parser.go)\<close>

text \<open>
  The web interface derives its forms from the request schemas of the OpenAPI document.
  \<^item> \<open>goany\<close> is Go's \<^verbatim>\<open>any\<close> as the YAML decoder (a library) and the adapters of the web interface
    fill it. A map is an association list; the loops of the parser visit it in an order Go does not
    fix, so the order is an argument, \<open>iteration\<close>, which may differ at every place of the schema.
  \<^item> A finite \<^verbatim>\<open>float64\<close> is \<open>AFloat m k\<close>, the number \<open>m / 2 ^ k\<close>; its shortest decimal text is an
    argument (\<open>ftoa\<close>). Its conversion to an integer out of range is the one of 64-bit x86.
  \<^item> \<open>parseField\<close> follows references, which may be cyclic: its first argument bounds the depth and
    \<open>None\<close> is a recursion that is deeper.

  The lemmas: the sort gives the strictly sorted list of the fields, hence a form does not depend on the
  order of the iteration, and the parser returns when the references are well-founded.
\<close>

datatype goany =
    ANil
  | ABool bool
  | AInt int
  | AFloat int nat
  | AString string
  | ASlice "goany list"
  | AMap "(string \<times> goany) list"
  | AStringMap "(string \<times> string) list"
  | AOther string

type_synonym gomap = "(string \<times> goany) list"
type_synonym iteration = "string list \<Rightarrow> gomap \<Rightarrow> gomap"
type_synonym ftoa = "int \<Rightarrow> nat \<Rightarrow> string"

subsection \<open>Types\<close>

record FieldCondition =
  cd_DependsOn :: string
  cd_Values :: "string list"

record FieldAttrs =
  fa_Name :: string
  fa_Type :: string
  fa_Format :: string
  fa_Description :: string
  fa_Required :: bool
  fa_Enum :: "string list"
  fa_Default :: string
  fa_Pattern :: string
  fa_MinLength :: "int option"
  fa_MaxLength :: "int option"
  fa_Minimum :: "int option"
  fa_Maximum :: "int option"
  fa_Example :: string
  fa_AdditionalProperties :: bool
  fa_Condition :: "FieldCondition option"
  fa_ReadOnlyOnEdit :: bool

datatype FormField = FormField (attrs: FieldAttrs) (ff_Properties: "FormField list") (ff_Items: "FormField option")

abbreviation ff_Name :: "FormField \<Rightarrow> string" where
  "ff_Name f \<equiv> fa_Name (attrs f)"

record FormSchema =
  fs_Title :: string
  fs_Description :: string
  fs_Fields :: "FormField list"

record Parser =
  p_root :: gomap
  p_schemas :: gomap

definition conditionalRules :: "string \<Rightarrow> FieldCondition option" where
  "conditionalRules = [
     ''version'' \<mapsto> \<lparr>cd_DependsOn = ''updateStrategy'', cd_Values = [''pin'', ''build-pin'']\<rparr>,
     ''build'' \<mapsto> \<lparr>cd_DependsOn = ''updateStrategy'', cd_Values = [''build-pin'']\<rparr>]"

subsection \<open>Conversions\<close>

text \<open>A type assertion to string with its zero value on failure, and one to a map.\<close>

definition as_string :: "goany option \<Rightarrow> string" where
  "as_string v = (case v of Some (AString s) \<Rightarrow> s | _ \<Rightarrow> [])"

definition as_map :: "goany option \<Rightarrow> gomap option" where
  "as_map v = (case v of Some (AMap m) \<Rightarrow> Some m | _ \<Rightarrow> None)"

definition toStringSlice :: "goany option \<Rightarrow> string list" where
  "toStringSlice v =
     (case v of
        Some (ASlice arr) \<Rightarrow> concat (map (\<lambda>item. case item of AString s \<Rightarrow> [s] | _ \<Rightarrow> []) arr)
      | _ \<Rightarrow> [])"

definition float_int :: "int \<Rightarrow> nat \<Rightarrow> int" where
  "float_int m k =
     (let n = (if m < 0 then - ((- m) div 2 ^ k) else m div 2 ^ k)
      in if - (2 ^ 63) \<le> n \<and> n < 2 ^ 63 then n else - (2 ^ 63))"

text \<open>The first result of \<^verbatim>\<open>strconv.Atoi\<close>: 0 on a syntax error, the nearest integer on an overflow.\<close>

definition Atoi_value :: "string \<Rightarrow> int" where
  "Atoi_value s =
     (let neg = (take 1 s = ''-''); body = (if take 1 s = ''-'' \<or> take 1 s = ''+'' then drop 1 s else s);
          v = (if neg then - digits_value 0 body else digits_value 0 body)
      in if body = [] \<or> \<not> list_all is_digit body then 0
         else if v < - (2 ^ 63) then - (2 ^ 63) else if 2 ^ 63 \<le> v then 2 ^ 63 - 1 else v)"

definition toInt :: "goany \<Rightarrow> int" where
  "toInt v =
     (case v of AInt n \<Rightarrow> n | AFloat m k \<Rightarrow> float_int m k | AString s \<Rightarrow> Atoi_value s | _ \<Rightarrow> 0)"

definition Join :: "string list \<Rightarrow> string \<Rightarrow> string" where
  "Join xs sep = (case xs of [] \<Rightarrow> [] | y # ys \<Rightarrow> y @ concat (map (\<lambda>z. sep @ z) ys))"

definition FormatBool :: "bool \<Rightarrow> string" where
  "FormatBool b = (if b then ''true'' else ''false'')"

text \<open>The \<^verbatim>\<open>%v\<close> format, which prints maps in the order of their keys.\<close>

fun Sprint :: "ftoa \<Rightarrow> goany \<Rightarrow> string" where
  "Sprint ff ANil = ''<nil>''"
| "Sprint ff (ABool b) = FormatBool b"
| "Sprint ff (AInt n) = itoa n"
| "Sprint ff (AFloat m k) = ff m k"
| "Sprint ff (AString s) = s"
| "Sprint ff (ASlice xs) = ''['' @ Join (map (Sprint ff) xs) '' '' @ '']''"
| "Sprint ff (AMap m) =
     ''map['' @ Join (map snd (sort_key fst (map (\<lambda>(k, v). (k, k @ '':'' @ Sprint ff v)) m))) '' '' @ '']''"
| "Sprint ff (AStringMap m) = ''map['' @ Join (map (\<lambda>(k, v). k @ '':'' @ v) (sort_key fst m)) '' '' @ '']''"
| "Sprint ff (AOther s) = s"

definition toString :: "ftoa \<Rightarrow> goany option \<Rightarrow> string" where
  "toString ff v =
     (case v of
        None \<Rightarrow> []
      | Some ANil \<Rightarrow> []
      | Some (AString s) \<Rightarrow> s
      | Some (ABool b) \<Rightarrow> FormatBool b
      | Some (AInt n) \<Rightarrow> itoa n
      | Some (AFloat m k) \<Rightarrow> (if m = float_int m k * 2 ^ k then itoa (float_int m k) else ff m k)
      | Some w \<Rightarrow> Sprint ff w)"

subsection \<open>Navigation\<close>

fun navigateMap :: "gomap \<Rightarrow> string list \<Rightarrow> gomap result" where
  "navigateMap m [] = Inr m"
| "navigateMap m (key # keys) =
     (case map_of m key of
        None \<Rightarrow> Inl (Newf ''key %q not found'' [AStr key])
      | Some (AMap n) \<Rightarrow> navigateMap n keys
      | Some _ \<Rightarrow> Inl (Newf ''key %q is not a map'' [AStr key]))"

definition NewParser :: "gomap result \<Rightarrow> Parser result" where
  "NewParser decoded =
     (case decoded of
        Inl err \<Rightarrow> Inl (Wrap err ''failed to parse OpenAPI spec'')
      | Inr root \<Rightarrow>
          (case navigateMap root [''components'', ''schemas''] of
             Inl err \<Rightarrow> Inl (Wrap err ''failed to find components.schemas'')
           | Inr schemas \<Rightarrow> Inr \<lparr>p_root = root, p_schemas = schemas\<rparr>))"

fun ref_walk :: "goany option \<Rightarrow> string list \<Rightarrow> goany option" where
  "ref_walk current [] = current"
| "ref_walk current (seg # segs) =
     (case as_map current of None \<Rightarrow> None | Some m \<Rightarrow> ref_walk (map_of m seg) segs)"

definition resolveRef :: "Parser \<Rightarrow> string \<Rightarrow> gomap option" where
  "resolveRef p ref = as_map (ref_walk (Some (AMap (p_root p))) (split_on (CHR ''/'') (TrimPrefix ref ''#/'')))"

definition resolvePropMap :: "Parser \<Rightarrow> goany \<Rightarrow> gomap option" where
  "resolvePropMap p raw =
     (case raw of
        AMap propMap \<Rightarrow>
          (case map_of propMap ''$ref'' of
             Some (AString ref) \<Rightarrow> resolveRef p ref
           | _ \<Rightarrow> Some propMap)
      | _ \<Rightarrow> None)"

definition buildRequiredSet :: "gomap \<Rightarrow> string \<Rightarrow> bool" where
  "buildRequiredSet schemaMap name = (name \<in> set (toStringSlice (map_of schemaMap ''required'')))"

subsection \<open>Fields\<close>

definition new_field :: "string \<Rightarrow> bool \<Rightarrow> FieldAttrs" where
  "new_field name required =
     \<lparr>fa_Name = name, fa_Type = [], fa_Format = [], fa_Description = [], fa_Required = required, fa_Enum = [],
      fa_Default = [], fa_Pattern = [], fa_MinLength = None, fa_MaxLength = None, fa_Minimum = None, fa_Maximum = None,
      fa_Example = [], fa_AdditionalProperties = False, fa_Condition = None, fa_ReadOnlyOnEdit = False\<rparr>"

definition extractBasicProps :: "ftoa \<Rightarrow> gomap \<Rightarrow> FieldAttrs \<Rightarrow> FieldAttrs" where
  "extractBasicProps ff propMap field =
     field\<lparr>fa_Type := as_string (map_of propMap ''type''), fa_Format := as_string (map_of propMap ''format''),
       fa_Description := as_string (map_of propMap ''description''), fa_Pattern := as_string (map_of propMap ''pattern''),
       fa_Example := toString ff (map_of propMap ''example''), fa_Default := toString ff (map_of propMap ''default''),
       fa_Enum := (case map_of propMap ''enum'' of None \<Rightarrow> fa_Enum field | Some e \<Rightarrow> toStringSlice (Some e))\<rparr>"

definition extractConstraints :: "gomap \<Rightarrow> FieldAttrs \<Rightarrow> FieldAttrs" where
  "extractConstraints propMap field =
     field\<lparr>fa_MinLength := map_option toInt (map_of propMap ''minLength''),
       fa_MaxLength := map_option toInt (map_of propMap ''maxLength''),
       fa_Minimum := map_option toInt (map_of propMap ''minimum''),
       fa_Maximum := map_option toInt (map_of propMap ''maximum'')\<rparr>"

definition string_map :: "gomap \<Rightarrow> bool" where
  "string_map propMap =
     (case as_map (map_of propMap ''additionalProperties'') of
        None \<Rightarrow> False
      | Some apMap \<Rightarrow> as_string (map_of apMap ''type'') = ''string'')"

definition applyFieldMeta :: "FieldAttrs \<Rightarrow> FieldAttrs" where
  "applyFieldMeta field =
     field\<lparr>fa_Condition := (case conditionalRules (fa_Name field) of Some c \<Rightarrow> Some c | None \<Rightarrow> fa_Condition field),
       fa_ReadOnlyOnEdit := (fa_Name field = ''name'' \<or> fa_Name field = ''namespace'' \<or> fa_ReadOnlyOnEdit field)\<rparr>"

definition fieldLess :: "FormField \<Rightarrow> FormField \<Rightarrow> bool" where
  "fieldLess a b =
     (let aID = (ff_Name a = ''name'' \<or> ff_Name a = ''namespace'');
          bID = (ff_Name b = ''name'' \<or> ff_Name b = ''namespace'')
      in if aID \<noteq> bID then aID
         else if aID \<and> bID then ff_Name a = ''name''
         else if fa_Required (attrs a) \<noteq> fa_Required (attrs b) then fa_Required (attrs a)
         else ff_Name a < ff_Name b)"

fun sort_fields_inner :: "('a \<Rightarrow> 'a \<Rightarrow> bool) \<Rightarrow> nat \<Rightarrow> 'a list \<Rightarrow> 'a list" where
  "sort_fields_inner lt 0 fs = fs"
| "sort_fields_inner lt (Suc j) fs =
     sort_fields_inner lt j (if lt (fs ! Suc j) (fs ! j) then swap fs (Suc j) j else fs)"

definition sort_fields_by :: "('a \<Rightarrow> 'a \<Rightarrow> bool) \<Rightarrow> 'a list \<Rightarrow> 'a list" where
  "sort_fields_by lt fs = fold (sort_fields_inner lt) [1..<length fs] fs"

definition sortFields :: "FormField list \<Rightarrow> FormField list" where
  "sortFields = sort_fields_by fieldLess"

primrec parseField :: "nat \<Rightarrow> iteration \<Rightarrow> ftoa \<Rightarrow> Parser \<Rightarrow> string list \<Rightarrow> string \<Rightarrow> goany \<Rightarrow> bool \<Rightarrow> FormField option" where
  "parseField 0 it ff p path name raw required = None"
| "parseField (Suc n) it ff p path name raw required =
     (case resolvePropMap p raw of
        None \<Rightarrow> Some (FormField ((new_field name required)\<lparr>fa_Type := ''string''\<rparr>) [] None)
      | Some propMap \<Rightarrow>
          let field = extractConstraints propMap (extractBasicProps ff propMap (new_field name required));
              isObject = (fa_Type field = ''object'');
              props = (if isObject then
                         (case as_map (map_of propMap ''properties'') of
                            None \<Rightarrow> Some []
                          | Some m \<Rightarrow>
                              map_option sortFields (those (map (\<lambda>(subName, subRaw).
                                parseField n it ff p (path @ [name]) subName subRaw (buildRequiredSet propMap subName))
                                (it (path @ [name]) m))))
                       else Some []);
              items = (if fa_Type field = ''array'' then
                         (case map_of propMap ''items'' of
                            None \<Rightarrow> Some None
                          | Some i \<Rightarrow> map_option Some (parseField n it ff p (path @ [name]) ''item'' i False))
                       else Some None)
          in (case (props, items) of
                (Some ps, Some i) \<Rightarrow>
                  Some (FormField (applyFieldMeta (field\<lparr>fa_AdditionalProperties := isObject \<and> string_map propMap\<rparr>)) ps i)
              | _ \<Rightarrow> None))"

definition ParseSchema :: "nat \<Rightarrow> iteration \<Rightarrow> ftoa \<Rightarrow> Parser \<Rightarrow> string \<Rightarrow> FormSchema result option" where
  "ParseSchema n it ff p schemaName =
     (case map_of (p_schemas p) schemaName of
        None \<Rightarrow> Some (Inl (Newf ''schema %q not found'' [AStr schemaName]))
      | Some (AMap schemaMap) \<Rightarrow>
          (case those (map (\<lambda>(propName, propRaw).
                    parseField n it ff p [schemaName] propName propRaw (buildRequiredSet schemaMap propName))
                  (it [schemaName] (case as_map (map_of schemaMap ''properties'') of None \<Rightarrow> [] | Some m \<Rightarrow> m))) of
             None \<Rightarrow> None
           | Some fs \<Rightarrow>
               Some (Inr \<lparr>fs_Title = schemaName, fs_Description = as_string (map_of schemaMap ''description''),
                          fs_Fields = sortFields fs\<rparr>))
      | Some _ \<Rightarrow> Some (Inl (Newf ''schema %q is not an object'' [AStr schemaName])))"

subsection \<open>The sort\<close>

text \<open>In the inner loop at position \<open>j\<close>, only the pairs that end at \<open>j\<close> may be out of order.\<close>

definition sorted_but :: "('a \<Rightarrow> 'a \<Rightarrow> bool) \<Rightarrow> nat \<Rightarrow> nat \<Rightarrow> 'a list \<Rightarrow> bool" where
  "sorted_but lt n j xs \<longleftrightarrow> n \<le> length xs \<and> j < n \<and> (\<forall>a b. a < b \<and> b < n \<and> b \<noteq> j \<longrightarrow> lt (xs ! a) (xs ! b))"

definition at_pairs :: "('a \<Rightarrow> 'a \<Rightarrow> bool) \<Rightarrow> 'a list \<Rightarrow> bool" where
  "at_pairs P xs \<longleftrightarrow> (\<forall>a b. a < length xs \<and> b < length xs \<and> a \<noteq> b \<longrightarrow> P (xs ! a) (xs ! b))"

abbreviation total_on_list :: "('a \<Rightarrow> 'a \<Rightarrow> bool) \<Rightarrow> 'a list \<Rightarrow> bool" where
  "total_on_list lt \<equiv> at_pairs (\<lambda>x y. lt x y \<or> lt y x)"

lemma at_pairsD: "at_pairs P xs \<Longrightarrow> a < length xs \<Longrightarrow> b < length xs \<Longrightarrow> a \<noteq> b \<Longrightarrow> P (xs ! a) (xs ! b)"
  by (simp add: at_pairs_def)

lemma at_pairs_swap:
  assumes "at_pairs P xs" "i < length xs" "j < length xs"
  shows "at_pairs P (swap xs i j)"
proof -
  have "swap xs i j ! a = xs ! (if a = j then i else if a = i then j else a)" if "a < length xs" for a
    using assms(2,3) that by (auto simp: nth_swap)
  with assms show ?thesis by (auto simp: at_pairs_def)
qed

lemma sorted_but_step:
  assumes "sorted_but lt n (Suc j) xs" "total_on_list lt xs" "transp lt"
  shows "sorted_but lt n j (if lt (xs ! Suc j) (xs ! j) then swap xs (Suc j) j else xs)"
proof (cases "lt (xs ! Suc j) (xs ! j)")
  case True
  have len: "Suc j < length xs" using assms(1) by (simp add: sorted_but_def)
  have "lt (swap xs (Suc j) j ! a) (swap xs (Suc j) j ! b)" if "a < b" "b < n" "b \<noteq> j" for a b
  proof -
    have "b < length xs" using assms(1) that by (simp add: sorted_but_def)
    with that len True assms(1) show ?thesis by (auto simp: nth_swap sorted_but_def)
  qed
  with assms(1) True show ?thesis by (simp add: sorted_but_def)
next
  case False
  have "Suc j < length xs" using assms(1) by (simp add: sorted_but_def)
  with False at_pairsD [OF assms(2), of "Suc j" j] have next_ok: "lt (xs ! j) (xs ! Suc j)" by simp
  have "lt (xs ! a) (xs ! b)" if "a < b" "b < n" "b \<noteq> j" for a b
  proof (cases "b = Suc j")
    case b: True
    show ?thesis
    proof (cases "a = j")
      case False
      with b that assms(1) have "lt (xs ! a) (xs ! j)" by (auto simp: sorted_but_def)
      with next_ok b assms(3) show ?thesis by (meson transpD)
    qed (use b next_ok in simp)
  qed (use that assms(1) in \<open>auto simp: sorted_but_def\<close>)
  with assms(1) False show ?thesis by (simp add: sorted_but_def)
qed

lemma inner_post:
  assumes "sorted_but lt n j xs" "total_on_list lt xs" "transp lt"
  shows "sorted_but lt n 0 (sort_fields_inner lt j xs) \<and> total_on_list lt (sort_fields_inner lt j xs) \<and>
    mset (sort_fields_inner lt j xs) = mset xs"
  using assms
proof (induction j arbitrary: xs)
  case (Suc j)
  let ?ys = "if lt (xs ! Suc j) (xs ! j) then swap xs (Suc j) j else xs"
  have len: "Suc j < length xs" using Suc.prems(1) by (simp add: sorted_but_def)
  then have same: "mset ?ys = mset xs" and total: "total_on_list lt ?ys"
    using Suc.prems(2) by (auto simp: mset_swap_version intro: at_pairs_swap)
  from Suc.IH [OF sorted_but_step [OF Suc.prems] total Suc.prems(3)] show ?case
    by (simp only: sort_fields_inner.simps same)
qed simp

lemma outer_post:
  assumes "total_on_list lt xs" "transp lt" "n < length xs"
  shows "let ys = fold (sort_fields_inner lt) [1..<Suc n] xs in
    sorted_but lt (Suc n) 0 ys \<and> total_on_list lt ys \<and> mset ys = mset xs"
  using assms(3)
proof (induction n)
  case 0
  with assms(1) show ?case by (simp add: sorted_but_def Suc_leI)
next
  case (Suc n)
  define ys where "ys = fold (sort_fields_inner lt) [1..<Suc n] xs"
  have ys: "sorted_but lt (Suc n) 0 ys" "total_on_list lt ys" "mset ys = mset xs"
    using Suc by (simp_all add: ys_def Let_def)
  have "length ys = length xs" using ys(3) by (rule mset_eq_length)
  with ys(1) Suc.prems have "sorted_but lt (Suc (Suc n)) (Suc n) ys" by (auto simp: sorted_but_def)
  from inner_post [OF this ys(2) assms(2)] ys(3)
  show ?case by (simp add: ys_def)
qed

lemma sort_fields_by_sorted:
  assumes "total_on_list lt xs" "transp lt"
  shows "sorted_wrt lt (sort_fields_by lt xs)" and "mset (sort_fields_by lt xs) = mset xs"
proof -
  have "sorted_wrt lt (sort_fields_by lt xs) \<and> mset (sort_fields_by lt xs) = mset xs"
  proof (cases xs)
    case (Cons y ys)
    then obtain n where n: "length xs = Suc n" by simp
    with outer_post [OF assms, of n]
    have "sorted_but lt (length xs) 0 (sort_fields_by lt xs)" "mset (sort_fields_by lt xs) = mset xs"
      unfolding sort_fields_by_def n Let_def by simp_all
    moreover from this(2) have "length (sort_fields_by lt xs) = length xs" by (rule mset_eq_length)
    ultimately show ?thesis by (auto simp: sorted_but_def sorted_wrt_iff_nth_less)
  qed (simp add: sort_fields_by_def)
  then show "sorted_wrt lt (sort_fields_by lt xs)" "mset (sort_fields_by lt xs) = mset xs" by simp_all
qed

lemma strictly_sorted_unique:
  assumes "sorted_wrt lt xs" "sorted_wrt lt ys" "mset xs = mset ys" "asymp lt"
  shows "xs = ys"
  using assms(1-3)
proof (induction xs arbitrary: ys)
  case (Cons x xs)
  then obtain y ys' where ys: "ys = y # ys'" by (cases ys) auto
  have "x = y"
  proof (rule ccontr)
    assume "x \<noteq> y"
    moreover have "set (x # xs) = set ys" using Cons.prems(3) by (metis set_mset_mset)
    ultimately have "x \<in> set ys'" "y \<in> set xs" using ys by auto
    with Cons.prems(1,2) ys have "lt x y" "lt y x" by simp_all
    with assms(4) show False by (meson asympD)
  qed
  with Cons ys show ?case by simp
qed simp

lemma sort_fields_by_order:
  assumes "total_on_list lt xs" "total_on_list lt ys" "transp lt" "asymp lt" "mset xs = mset ys"
  shows "sort_fields_by lt xs = sort_fields_by lt ys"
  using sort_fields_by_sorted [OF assms(1,3)] sort_fields_by_sorted [OF assms(2,3)] assms(4,5)
  by (auto intro!: strictly_sorted_unique)

lemma inner_cong:
  "at_pairs (\<lambda>x y. lt x y = lt' x y) xs \<Longrightarrow> j < length xs \<Longrightarrow>
     sort_fields_inner lt j xs = sort_fields_inner lt' j xs \<and>
     at_pairs (\<lambda>x y. lt x y = lt' x y) (sort_fields_inner lt j xs) \<and> length (sort_fields_inner lt j xs) = length xs"
proof (induction j arbitrary: xs)
  case (Suc j)
  let ?ys = "if lt (xs ! Suc j) (xs ! j) then swap xs (Suc j) j else xs"
  have "lt (xs ! Suc j) (xs ! j) = lt' (xs ! Suc j) (xs ! j)"
    using at_pairsD [OF Suc.prems(1), of "Suc j" j] Suc.prems(2) by simp
  moreover have "at_pairs (\<lambda>x y. lt x y = lt' x y) ?ys" "length ?ys = length xs"
    using Suc.prems by (auto intro: at_pairs_swap)
  ultimately show ?case using Suc.IH [of ?ys] Suc.prems(2) by (auto split: if_splits)
qed simp

lemma outer_cong:
  assumes "at_pairs (\<lambda>x y. lt x y = lt' x y) xs" "\<forall>i \<in> set is. i < length xs"
  shows "fold (sort_fields_inner lt) is xs = fold (sort_fields_inner lt') is xs"
  using assms
proof (induction "is" arbitrary: xs)
  case (Cons i "is")
  then have "sort_fields_inner lt i xs = sort_fields_inner lt' i xs"
    "at_pairs (\<lambda>x y. lt x y = lt' x y) (sort_fields_inner lt i xs)" "length (sort_fields_inner lt i xs) = length xs"
    using inner_cong [of lt lt' xs i] by auto
  with Cons.IH [of "sort_fields_inner lt i xs"] Cons.prems(2) show ?case by simp
qed simp

lemma sort_fields_by_cong:
  "at_pairs (\<lambda>x y. lt x y = lt' x y) xs \<Longrightarrow> sort_fields_by lt xs = sort_fields_by lt' xs"
  by (simp add: sort_fields_by_def outer_cong)

subsection \<open>The order of the fields\<close>

text \<open>Fields of different names are compared by rank and then by name.\<close>

definition field_rank :: "FormField \<Rightarrow> nat" where
  "field_rank f =
     (if ff_Name f = ''name'' then 0 else if ff_Name f = ''namespace'' then 1
      else if fa_Required (attrs f) then 2 else 3)"

definition field_before :: "FormField \<Rightarrow> FormField \<Rightarrow> bool" where
  "field_before a b \<longleftrightarrow> field_rank a < field_rank b \<or> field_rank a = field_rank b \<and> ff_Name a < ff_Name b"

lemma field_before_order: "transp field_before" "asymp field_before"
  by (auto simp: field_before_def intro!: transpI asympI)

lemma field_before_total: "ff_Name a \<noteq> ff_Name b \<Longrightarrow> field_before a b \<or> field_before b a"
  by (auto simp: field_before_def)

lemma fieldLess_before:
  assumes "ff_Name a \<noteq> ff_Name b"
  shows "fieldLess a b = field_before a b"
proof -
  consider "ff_Name a = ''name''" | "ff_Name a = ''namespace''" | "ff_Name a \<noteq> ''name''" "ff_Name a \<noteq> ''namespace''" by blast
  then show ?thesis
  proof cases
    case 3
    consider "ff_Name b = ''name''" | "ff_Name b = ''namespace''" | "ff_Name b \<noteq> ''name''" "ff_Name b \<noteq> ''namespace''" by blast
    then show ?thesis using 3 assms
      by cases (simp_all add: fieldLess_def field_before_def field_rank_def Let_def)
  qed (use assms in \<open>simp_all add: fieldLess_def field_before_def field_rank_def Let_def\<close>)
qed

lemma distinct_pairs:
  "distinct (map f xs) \<Longrightarrow> (\<And>x y. f x \<noteq> f y \<Longrightarrow> P x y) \<Longrightarrow> at_pairs P xs"
  by (auto simp: at_pairs_def distinct_conv_nth)

lemma sortFields_before:
  assumes "distinct (map ff_Name fs)"
  shows "sortFields fs = sort_fields_by field_before fs" "total_on_list field_before fs"
proof -
  show "sortFields fs = sort_fields_by field_before fs"
    unfolding sortFields_def
    by (rule sort_fields_by_cong, rule distinct_pairs [OF assms]) (simp add: fieldLess_before)
  show "total_on_list field_before fs"
    by (rule distinct_pairs [OF assms]) (rule field_before_total)
qed

lemma sortFields_sorted:
  assumes "distinct (map ff_Name fs)"
  shows "sorted_wrt field_before (sortFields fs)" "mset (sortFields fs) = mset fs"
  using sort_fields_by_sorted [OF sortFields_before(2) [OF assms] field_before_order(1)]
  by (simp_all add: sortFields_before(1) [OF assms])

lemma sortFields_order:
  assumes "distinct (map ff_Name fs)" "mset fs = mset gs"
  shows "sortFields fs = sortFields gs"
proof -
  have "mset (map ff_Name fs) = mset (map ff_Name gs)" using assms(2) by simp
  then have gs: "distinct (map ff_Name gs)" using assms(1) by (rule mset_eq_imp_distinct_iff [THEN iffD1])
  show ?thesis
    using sort_fields_by_order [OF sortFields_before(2) [OF assms(1)] sortFields_before(2) [OF gs] field_before_order assms(2)]
    by (simp add: sortFields_before(1) [OF assms(1)] sortFields_before(1) [OF gs])
qed

subsection \<open>Forms do not depend on the order of iteration\<close>

text \<open>Every map has distinct keys, at every depth.\<close>

fun proper :: "goany \<Rightarrow> bool" where
  "proper (ASlice xs) = (\<forall>x \<in> set xs. proper x)"
| "proper (AMap m) = (distinct (map fst m) \<and> (\<forall>kv \<in> set m. proper (snd kv)))"
| "proper _ = True"

definition visits :: "iteration \<Rightarrow> bool" where
  "visits it \<longleftrightarrow> (\<forall>path m. mset (it path m) = mset m)"

lemma visits_perm:
  assumes "visits it"
  shows "set (it path m) = set m" "distinct (map fst m) \<Longrightarrow> distinct (map fst (it path m))"
proof -
  have eq: "mset (it path m) = mset m" using assms by (simp add: visits_def)
  then show "set (it path m) = set m" by (rule mset_eq_setD)
  have "mset (map fst (it path m)) = mset (map fst m)" using eq by simp
  then show "distinct (map fst m) \<Longrightarrow> distinct (map fst (it path m))"
    using mset_eq_imp_distinct_iff by blast
qed

lemma proper_lookup: "proper (AMap m) \<Longrightarrow> map_of m k = Some v \<Longrightarrow> proper v"
  by (auto dest!: map_of_SomeD)

lemma proper_entry: "proper (AMap m) \<Longrightarrow> (k, v) \<in> set m \<Longrightarrow> proper v"
  by fastforce

lemma proper_as_map: "(\<And>v. x = Some v \<Longrightarrow> proper v) \<Longrightarrow> as_map x = Some m \<Longrightarrow> proper (AMap m)"
  by (auto simp: as_map_def split: option.splits goany.splits)

lemma proper_walk: "(\<And>v. x = Some v \<Longrightarrow> proper v) \<Longrightarrow> ref_walk x segs = Some w \<Longrightarrow> proper w"
proof (induction segs arbitrary: x)
  case (Cons seg segs)
  then obtain m where m: "as_map x = Some m" "ref_walk (map_of m seg) segs = Some w"
    by (auto split: option.splits)
  from proper_as_map [OF Cons.prems(1) m(1)] have "proper (AMap m)" .
  with Cons.IH [OF _ m(2)] proper_lookup show ?case by blast
qed simp

lemma proper_resolve:
  assumes "proper (AMap (p_root p))" "proper raw" "resolvePropMap p raw = Some m"
  shows "proper (AMap m)"
proof -
  have "proper (AMap m)" if "resolveRef p ref = Some m" for ref
    using that assms(1) unfolding resolveRef_def
    by (intro proper_as_map [of "ref_walk (Some (AMap (p_root p))) (split_on (CHR ''/'') (TrimPrefix ref ''#/''))"])
      (auto dest!: proper_walk [rotated])
  with assms(2,3) show ?thesis
    by (auto simp: resolvePropMap_def split: goany.splits option.splits)
qed

lemma those_map_Some [simp]: "those (map Some ys) = Some ys"
  by (induction ys) simp_all

lemma those_Some: "those xs = Some ys \<longleftrightarrow> xs = map Some ys"
  by (induction xs arbitrary: ys) (auto split: option.splits simp: Cons_eq_map_conv map_option_case)

lemma those_None: "those xs = None \<longleftrightarrow> None \<in> set xs"
  by (induction xs) (auto split: option.splits)

lemma those_perm:
  assumes "mset xs = mset ys" "those (map f xs) = Some us"
  shows "\<exists>vs. those (map f ys) = Some vs \<and> mset us = mset vs"
proof -
  have "set xs = set ys" using assms(1) by (rule mset_eq_setD)
  with assms(2) have "those (map f ys) \<noteq> None" by (auto simp: those_None those_Some dest!: arg_cong [of _ _ set])
  then obtain vs where vs: "those (map f ys) = Some vs" by blast
  have "mset (map f xs) = mset (map f ys)" using assms(1) by simp
  with assms(2) vs have "image_mset Some (mset us) = image_mset Some (mset vs)" by (simp add: those_Some)
  then have "mset us = mset vs" by (metis inj_Some multiset.inj_map inj_eq)
  with vs show ?thesis by blast
qed

lemma parseField_name: "parseField n it ff p path name raw req = Some f \<Longrightarrow> ff_Name f = name"
  by (cases n) (auto simp: new_field_def extractBasicProps_def extractConstraints_def applyFieldMeta_def Let_def
      split: option.splits if_splits)

lemma those_names:
  assumes "those (map (\<lambda>(k, v). parseField n it ff p path k v (r k)) m) = Some fs"
  shows "map ff_Name fs = map fst m"
  using assms
proof (induction m arbitrary: fs)
  case (Cons kv m)
  then show ?case by (cases kv) (auto simp: parseField_name split: option.splits)
qed simp

text \<open>Two runs that agree on every sub-field build the same list of fields.\<close>

lemma sub_fields_agree:
  assumes "visits it" "visits it'" "distinct (map fst m)"
    and "\<And>k v. (k, v) \<in> set m \<Longrightarrow> parseField n it ff p path k v (r k) = parseField n it' ff p path k v (r k)"
  shows "map_option sortFields (those (map (\<lambda>(k, v). parseField n it ff p path k v (r k)) (it q m))) =
    map_option sortFields (those (map (\<lambda>(k, v). parseField n it' ff p path k v (r k)) (it' q m)))"
proof -
  let ?f = "\<lambda>(k, v). parseField n it ff p path k v (r k)"
  have same: "map (\<lambda>(k, v). parseField n it' ff p path k v (r k)) (it' q m) = map ?f (it' q m)"
    using assms(4) visits_perm(1) [OF assms(2)] by auto
  have perm: "mset (it q m) = mset (it' q m)" using assms(1,2) by (simp add: visits_def)
  show ?thesis
  proof (cases "those (map ?f (it q m))")
    case None
    then have "None \<in> ?f ` set (it q m)" by (simp only: those_None set_map)
    then have "those (map ?f (it' q m)) = None"
      by (simp only: mset_eq_setD [OF perm] those_None set_map)
    with None show ?thesis by (simp add: same)
  next
    case (Some us)
    then obtain vs where vs: "those (map ?f (it' q m)) = Some vs" "mset us = mset vs"
      using those_perm [OF perm] by blast
    have "distinct (map ff_Name us)"
      using those_names [OF Some] visits_perm(2) [OF assms(1,3)] by simp
    with Some vs show ?thesis by (simp add: same sortFields_order)
  qed
qed

lemma parseField_order:
  assumes "visits it" "visits it'" "proper (AMap (p_root p))" "proper raw"
  shows "parseField n it ff p path name raw req = parseField n it' ff p path name raw req"
  using assms(4)
proof (induction n arbitrary: path name raw req)
  case (Suc n)
  show ?case
  proof (cases "resolvePropMap p raw")
    case (Some m)
    have m: "proper (AMap m)" using proper_resolve [OF assms(3) Suc.prems Some] .
    have props: "map_option sortFields (those (map (\<lambda>(k, v). parseField n it ff p q k v (buildRequiredSet m k)) (it q ps))) =
        map_option sortFields (those (map (\<lambda>(k, v). parseField n it' ff p q k v (buildRequiredSet m k)) (it' q ps)))"
      if "as_map (map_of m ''properties'') = Some ps" for q ps
    proof -
      have ps: "proper (AMap ps)" using proper_as_map [OF _ that] proper_lookup [OF m] by blast
      then show ?thesis
        by (intro sub_fields_agree assms Suc.IH) auto
    qed
    have items: "parseField n it ff p q ''item'' i False = parseField n it' ff p q ''item'' i False"
      if "map_of m ''items'' = Some i" for q i
      using Suc.IH [OF proper_lookup [OF m that]] .
    show ?thesis
      by (simp add: Some Let_def props items cong: option.case_cong)
  qed simp
qed simp

subsection \<open>Parsing ends when references are well-founded\<close>

fun refs :: "goany \<Rightarrow> string list" where
  "refs (ASlice xs) = concat (map refs xs)"
| "refs (AMap m) = concat (map (\<lambda>(k, v). (if k = ''$ref'' then [as_string (Some v)] else []) @ refs v) m)"
| "refs _ = []"

definition refs_founded :: "Parser \<Rightarrow> (string \<Rightarrow> nat) \<Rightarrow> bool" where
  "refs_founded p rank \<longleftrightarrow>
     (\<forall>r m. resolveRef p r = Some m \<longrightarrow> (\<forall>s \<in> set (refs (AMap m)). rank s < rank r))"

definition sub_values :: "gomap \<Rightarrow> goany list" where
  "sub_values m = (case as_map (map_of m ''properties'') of None \<Rightarrow> [] | Some ps \<Rightarrow> map snd ps) @
     (case map_of m ''items'' of None \<Rightarrow> [] | Some i \<Rightarrow> [i])"

lemma refs_lookup: "map_of m k = Some v \<Longrightarrow> set (refs v) \<subseteq> set (refs (AMap m))"
  by (force dest!: map_of_SomeD)

lemma refs_walk: "ref_walk x segs = Some w \<Longrightarrow> \<exists>v. x = Some v \<and> set (refs w) \<subseteq> set (refs v)"
proof (induction segs arbitrary: x)
  case (Cons seg segs)
  then obtain m where m: "x = Some (AMap m)" "ref_walk (map_of m seg) segs = Some w"
    by (auto simp: as_map_def split: option.splits goany.splits)
  from Cons.IH [OF m(2)] obtain v where "map_of m seg = Some v" "set (refs w) \<subseteq> set (refs v)" by blast
  with refs_lookup m(1) show ?case by blast
qed simp

lemma refs_resolve: "resolveRef p r = Some m \<Longrightarrow> set (refs (AMap m)) \<subseteq> set (refs (AMap (p_root p)))"
  by (auto simp: resolveRef_def as_map_def simp del: refs.simps dest!: refs_walk split: option.splits goany.splits)

lemma refs_ref: "map_of m ''$ref'' = Some (AString r) \<Longrightarrow> r \<in> set (refs (AMap m))"
  by (force dest!: map_of_SomeD simp: as_string_def)

lemma refs_sub_values: "v \<in> set (sub_values m) \<Longrightarrow> set (refs v) \<subseteq> set (refs (AMap m))"
proof -
  assume v: "v \<in> set (sub_values m)"
  show ?thesis
  proof (cases "map_of m ''items'' = Some v")
    case False
    with v obtain ps where ps: "map_of m ''properties'' = Some (AMap ps)" "v \<in> snd ` set ps"
      by (auto simp: sub_values_def as_map_def split: option.splits goany.splits)
    then have "set (refs v) \<subseteq> set (refs (AMap ps))" by force
    with refs_lookup [OF ps(1)] show ?thesis by blast
  qed (rule refs_lookup)
qed

lemma size_lookup: "map_of m k = Some v \<Longrightarrow> size v < size (AMap m)"
  by (induction m) (auto split: if_splits)

lemma size_sub_values: "v \<in> set (sub_values m) \<Longrightarrow> size v < size (AMap m)"
proof -
  assume v: "v \<in> set (sub_values m)"
  show ?thesis
  proof (cases "map_of m ''items'' = Some v")
    case False
    with v obtain ps where ps: "map_of m ''properties'' = Some (AMap ps)" "v \<in> snd ` set ps"
      by (auto simp: sub_values_def as_map_def split: option.splits goany.splits)
    then obtain k where "(k, v) \<in> set ps" by auto
    then have "size v < size (AMap ps)" by (induction ps) auto
    with size_lookup [OF ps(1)] show ?thesis by simp
  qed (rule size_lookup)
qed

definition parses :: "nat \<Rightarrow> iteration \<Rightarrow> ftoa \<Rightarrow> Parser \<Rightarrow> goany \<Rightarrow> bool" where
  "parses n it ff p v \<longleftrightarrow> (\<forall>k path name req. n \<le> k \<longrightarrow> parseField k it ff p path name v req \<noteq> None)"

lemma common_bound:
  assumes "\<forall>v \<in> set vs. \<exists>n. parses n it ff p v"
  shows "\<exists>n. \<forall>v \<in> set vs. parses n it ff p v"
  using assms
proof (induction vs)
  case (Cons v vs)
  then obtain n k where "\<forall>w \<in> set vs. parses n it ff p w" "parses k it ff p v" by auto
  then have "\<forall>w \<in> set (v # vs). parses (max n k) it ff p w" by (auto simp: parses_def)
  then show ?case ..
qed simp

lemma those_parses:
  assumes "visits it" "\<And>s v. (s, v) \<in> set ps \<Longrightarrow> parseField k it ff p q s v (r s) \<noteq> None"
  shows "those (map (\<lambda>(s, v). parseField k it ff p q s v (r s)) (it u ps)) \<noteq> None"
proof
  assume "those (map (\<lambda>(s, v). parseField k it ff p q s v (r s)) (it u ps)) = None"
  then obtain s v where "(s, v) \<in> set ps" "parseField k it ff p q s v (r s) = None"
    by (auto simp: those_None visits_perm(1) [OF assms(1)])
  with assms(2) show False by blast
qed

lemma parses_sub_values:
  assumes "visits it" "resolvePropMap p raw = Some m" "\<forall>v \<in> set (sub_values m). parses n it ff p v"
  shows "parses (Suc n) it ff p raw"
  unfolding parses_def
proof (intro allI impI)
  fix k path req and name :: string
  assume "Suc n \<le> k"
  then obtain j where k: "k = Suc j" "n \<le> j" by (auto simp: Suc_le_eq dest: less_imp_Suc_add)
  have sub: "parseField j it ff p q s v r \<noteq> None" if "v \<in> set (sub_values m)" for q s v r
    using assms(3) that k(2) by (auto simp: parses_def)
  have props: "those (map (\<lambda>(s, v). parseField j it ff p q s v (r s)) (it u ps)) \<noteq> None"
    if "as_map (map_of m ''properties'') = Some ps" for q r u ps
    using that by (intro those_parses assms(1) sub) (force simp: sub_values_def)
  have items: "parseField j it ff p q s i r \<noteq> None" if "map_of m ''items'' = Some i" for q s i r
    using sub that by (simp add: sub_values_def)
  let ?q = "path @ [name]"
  show "parseField k it ff p path name raw req \<noteq> None"
    using props [of _ ?q "buildRequiredSet m" ?q] items [of _ ?q "''item''" False]
    by (cases "as_map (map_of m ''properties'')"; cases "map_of m ''items''")
      (force simp: k(1) assms(2) Let_def)+
qed

lemma parses_ranked:
  assumes "visits it" "refs_founded p rank" "\<forall>r \<in> set (refs raw). rank r < b"
  shows "\<exists>n. parses n it ff p raw"
  using assms(3)
proof (induction b arbitrary: raw rule: less_induct)
  case (less b)
  note outer = less.IH
  show ?case using less.prems
  proof (induction "size raw" arbitrary: raw rule: less_induct)
    case less
    note inner = less.hyps
    show ?case
    proof (cases "resolvePropMap p raw")
      case None
      have "parses (Suc 0) it ff p raw"
        unfolding parses_def by (auto simp: Suc_le_eq None dest!: less_imp_Suc_add)
      then show ?thesis ..
    next
      case (Some m)
      have "\<exists>n. parses n it ff p v" if v: "v \<in> set (sub_values m)" for v
      proof (cases "raw = AMap m")
        case True
        with less.prems refs_sub_values [OF v] have "\<forall>r \<in> set (refs v). rank r < b" by blast
        with inner [of v] size_sub_values [OF v] True show ?thesis by blast
      next
        case False
        with Some obtain pm r where pm: "raw = AMap pm" "map_of pm ''$ref'' = Some (AString r)"
          and r: "resolveRef p r = Some m"
          by (auto simp: resolvePropMap_def split: goany.splits option.splits)
        have r_in: "r \<in> set (refs raw)" using refs_ref [OF pm(2)] pm(1) by simp
        have "\<forall>s \<in> set (refs v). rank s < rank r"
          using assms(2) r refs_sub_values [OF v] unfolding refs_founded_def by blast
        then show ?thesis using outer [of "rank r" v] less.prems r_in by blast
      qed
      then obtain n where "\<forall>v \<in> set (sub_values m). parses n it ff p v"
        using common_bound [of "sub_values m"] by blast
      with parses_sub_values [OF assms(1) Some] show ?thesis by blast
    qed
  qed
qed

lemma parses_all:
  assumes "visits it" "refs_founded p rank"
  shows "\<exists>n. parses n it ff p raw"
  by (rule parses_ranked [OF assms, of _ "Suc (Max (rank ` set (refs raw)))"]) (simp add: less_Suc_eq_le)

text \<open>A schema that contains itself is never parsed.\<close>

lemma self_reference_not_parsed:
  assumes "resolveRef p r = Some m" "map_of m ''type'' = Some (AString ''array'')"
    "map_of m ''items'' = Some (AMap [(''$ref'', AString r)])" "resolvePropMap p raw = Some m"
  shows "parseField n it ff p path name raw req = None"
  using assms(4)
proof (induction n arbitrary: path name raw req)
  case (Suc n)
  have "resolvePropMap p (AMap [(''$ref'', AString r)]) = Some m" using assms(1) by (simp add: resolvePropMap_def)
  from Suc.IH [OF this] Suc.prems show ?case
    by (simp add: assms(2,3) Let_def extractBasicProps_def extractConstraints_def as_string_def split: option.splits)
qed simp

lemma proper_properties:
  assumes "proper (AMap (p_schemas p))" "map_of (p_schemas p) schemaName = Some (AMap m)"
  shows "proper (AMap (case as_map (map_of m ''properties'') of None \<Rightarrow> [] | Some ps \<Rightarrow> ps))"
  using proper_lookup [OF proper_lookup [OF assms], of "''properties''"]
  by (fastforce simp: as_map_def split: option.splits goany.splits)

lemma ParseSchema_order:
  assumes "visits it" "visits it'" "proper (AMap (p_root p))" "proper (AMap (p_schemas p))"
  shows "ParseSchema n it ff p schemaName = ParseSchema n it' ff p schemaName"
proof -
  let ?props = "\<lambda>m. case as_map (map_of m ''properties'') of None \<Rightarrow> [] | Some ps \<Rightarrow> ps"
  let ?parse = "\<lambda>it m. those (map (\<lambda>(k, v). parseField n it ff p [schemaName] k v (buildRequiredSet m k)) (it [schemaName] (?props m)))"
  have same: "map_option sortFields (?parse it m) = map_option sortFields (?parse it' m)"
    if "map_of (p_schemas p) schemaName = Some (AMap m)" for m
    using proper_properties [OF assms(4) that]
    by (intro sub_fields_agree assms parseField_order) (simp, rule proper_entry)
  show ?thesis
  proof (cases "map_of (p_schemas p) schemaName")
    case (Some v)
    show ?thesis
    proof (cases v)
      case (AMap m)
      with same [of m] Some show ?thesis
        by (cases "?parse it m"; cases "?parse it' m") (simp_all add: ParseSchema_def)
    qed (simp_all add: ParseSchema_def Some)
  qed (simp add: ParseSchema_def)
qed

lemma ParseSchema_fields:
  assumes "visits it" "proper (AMap (p_schemas p))" "ParseSchema n it ff p schemaName = Some (Inr form)"
  shows "sorted_wrt field_before (fs_Fields form) \<and>
    (\<exists>m. map_of (p_schemas p) schemaName = Some (AMap m) \<and>
       ff_Name ` set (fs_Fields form) = fst ` set (case as_map (map_of m ''properties'') of None \<Rightarrow> [] | Some ps \<Rightarrow> ps))"
proof -
  let ?props = "\<lambda>m. case as_map (map_of m ''properties'') of None \<Rightarrow> [] | Some ps \<Rightarrow> ps"
  let ?parse = "\<lambda>it m. those (map (\<lambda>(k, v). parseField n it ff p [schemaName] k v (buildRequiredSet m k)) (it [schemaName] (?props m)))"
  from assms(3) obtain m fs where m: "map_of (p_schemas p) schemaName = Some (AMap m)" and fs: "?parse it m = Some fs"
    and form: "fs_Fields form = sortFields fs"
    by (auto simp: ParseSchema_def split: option.splits goany.splits)
  have "distinct (map fst (it [schemaName] (?props m)))"
    using proper_properties [OF assms(2) m] by (intro visits_perm(2) [OF assms(1)]) auto
  then have "distinct (map ff_Name fs)" by (simp only: those_names [OF fs])
  then have sorted: "sorted_wrt field_before (sortFields fs)" "set (sortFields fs) = set fs"
    by (rule sortFields_sorted, rule mset_eq_setD [OF sortFields_sorted(2)])
  have "ff_Name ` set fs = fst ` set (it [schemaName] (?props m))"
    using those_names [OF fs] by (metis set_map)
  then have "ff_Name ` set fs = fst ` set (?props m)" by (simp only: visits_perm(1) [OF assms(1)])
  with sorted form m show ?thesis
    by auto
qed

subsection \<open>Properties\<close>

text \<open>C28. The form built from a schema does not depend on the order in which Go iterates over its maps, at any
  depth of the schema. It has one field for every property, and the fields come strictly sorted: name,
  namespace, then the required ones and then the others, each group in alphabetical order.\<close>

theorem ParseSchema_order_independent:
  assumes "visits it" "visits it'" "proper (AMap (p_root p))" "proper (AMap (p_schemas p))"
  shows "ParseSchema n it ff p schemaName = ParseSchema n it' ff p schemaName \<and>
    (\<forall>form. ParseSchema n it ff p schemaName = Some (Inr form) \<longrightarrow>
      sorted_wrt field_before (fs_Fields form) \<and>
      (\<exists>m. map_of (p_schemas p) schemaName = Some (AMap m) \<and>
         ff_Name ` set (fs_Fields form) = fst ` set (case as_map (map_of m ''properties'') of None \<Rightarrow> [] | Some ps \<Rightarrow> ps)))"
  using ParseSchema_order [OF assms] ParseSchema_fields [OF assms(1,4)] by blast

definition demo_strategy :: goany where
  "demo_strategy = AMap [(''type'', AString ''string''), (''enum'', ASlice [AString ''latest'', AString ''pin''])]"

definition demo_request :: goany where
  "demo_request = AMap [(''required'', ASlice [AString ''name'', AString ''strategy'']),
     (''properties'', AMap [
        (''labels'', AMap [(''type'', AString ''object''), (''additionalProperties'', AMap [(''type'', AString ''string'')])]),
        (''strategy'', AMap [(''$ref'', AString ''#/components/schemas/S'')]),
        (''name'', AMap [(''type'', AString ''string''), (''minLength'', AInt 1)])])]"

definition demo_schemas :: gomap where
  "demo_schemas = [(''S'', demo_strategy), (''R'', demo_request)]"

definition demo_parser :: Parser where
  "demo_parser = \<lparr>p_root = [(''components'', AMap [(''schemas'', AMap demo_schemas)])], p_schemas = demo_schemas\<rparr>"

abbreviation no_floats :: ftoa where "no_floats \<equiv> \<lambda>_ _. []"

lemmas demo_schema_eval = ParseSchema_def demo_parser_def demo_schemas_def demo_request_def demo_strategy_def as_map_def
  resolvePropMap_def resolveRef_def TrimPrefix_def HasPrefix_def sortFields_def sort_fields_by_def fieldLess_def
  buildRequiredSet_def toStringSlice_def new_field_def extractBasicProps_def extractConstraints_def applyFieldMeta_def
  as_string_def numeral_2_eq_2 Let_def swap_def upt_rec

theorem ParseSchema_order_independent_witness:
  "ParseSchema 2 (\<lambda>_. rev) no_floats demo_parser ''R'' = ParseSchema 2 (\<lambda>_ m. m) no_floats demo_parser ''R'' \<and>
   (case ParseSchema 2 (\<lambda>_ m. m) no_floats demo_parser ''R'' of
      Some (Inr form) \<Rightarrow> map ff_Name (fs_Fields form) = [''name'', ''strategy'', ''labels'']
    | _ \<Rightarrow> False)"
proof -
  have "visits (\<lambda>_. rev)" "visits (\<lambda>_ m. m)" by (simp_all add: visits_def)
  moreover have "proper (AMap (p_root demo_parser))" "proper (AMap (p_schemas demo_parser))"
    by (simp_all add: demo_parser_def demo_schemas_def demo_strategy_def demo_request_def)
  ultimately have "ParseSchema 2 (\<lambda>_. rev) no_floats demo_parser ''R'' = ParseSchema 2 (\<lambda>_ m. m) no_floats demo_parser ''R''"
    by (rule ParseSchema_order_independent [THEN conjunct1])
  moreover have "case ParseSchema 2 (\<lambda>_ m. m) no_floats demo_parser ''R'' of
      Some (Inr form) \<Rightarrow> map ff_Name (fs_Fields form) = [''name'', ''strategy'', ''labels'']
    | _ \<Rightarrow> False"
    by (simp add: demo_schema_eval)
  ultimately show ?thesis ..
qed

text \<open>C39. When the references of the document are well-founded, a schema is parsed with finite recursion: there
  is a depth from which on the parser returns, whatever the order of iteration.\<close>

theorem ParseSchema_terminates:
  assumes "visits it" "refs_founded p rank"
  shows "\<exists>n. \<forall>k \<ge> n. \<exists>r. ParseSchema k it ff p schemaName = Some r"
proof (cases "map_of (p_schemas p) schemaName")
  case (Some v)
  show ?thesis
  proof (cases v)
    case (AMap m)
    let ?props = "case as_map (map_of m ''properties'') of None \<Rightarrow> [] | Some ps \<Rightarrow> ps"
    obtain n where n: "\<forall>v \<in> set (map snd ?props). parses n it ff p v"
      using common_bound [of "map snd ?props"] parses_all [OF assms] by blast
    have "\<exists>r. ParseSchema k it ff p schemaName = Some r" if "n \<le> k" for k
    proof -
      have "those (map (\<lambda>(s, v). parseField k it ff p [schemaName] s v (buildRequiredSet m s)) (it [schemaName] ?props)) \<noteq> None"
        using n that by (intro those_parses assms(1)) (force simp: parses_def)
      then show ?thesis using Some AMap by (auto simp: ParseSchema_def)
    qed
    then show ?thesis by blast
  qed (simp_all add: ParseSchema_def Some)
qed (simp add: ParseSchema_def)

theorem ParseSchema_terminates_witness:
  "\<exists>n. \<forall>k \<ge> n. \<exists>r. ParseSchema k (\<lambda>_. rev) no_floats demo_parser ''R'' = Some r"
proof (rule ParseSchema_terminates)
  let ?s = "''#/components/schemas/S''"
  show "visits (\<lambda>_. rev)" by (simp add: visits_def)
  show "refs_founded demo_parser (\<lambda>r. if r = ?s then 0 else 1)"
    unfolding refs_founded_def
  proof (intro allI impI ballI)
    fix r m s
    assume r: "resolveRef demo_parser r = Some m" and s: "s \<in> set (refs (AMap m))"
    have "refs (AMap (p_root demo_parser)) = [?s]"
      by (simp add: demo_parser_def demo_schemas_def demo_request_def demo_strategy_def as_string_def)
    with subsetD [OF refs_resolve [OF r] s] have "s = ?s" by (simp only: list.set) simp
    moreover have "r \<noteq> ?s"
    proof
      assume "r = ?s"
      with r have "AMap m = demo_strategy"
        by (simp add: resolveRef_def TrimPrefix_def HasPrefix_def as_map_def demo_parser_def demo_schemas_def demo_strategy_def)
      with s show False by (simp add: demo_strategy_def)
    qed
    ultimately show "(if s = ?s then 0 else 1) < (if r = ?s then 0 else 1 :: nat)" by simp
  qed
qed

end
