(* ===== verification/FormRenderer.thy ===== *)
theory FormRenderer
  imports SchemaParser
begin

section \<open>HTML forms (pkg/webui/schema/renderer.go)\<close>

text \<open>
  A parsed form is written as HTML text that the page includes without further escaping. Each writer of the
  code is a function that gives the text it appends to the builder. The values a form is filled with
  are a map (or nil) of Go's \<^verbatim>\<open>any\<close>; the entries of a map field appear in the order of iteration, which
  is an argument. Text is bytes, so the dash of the placeholders is three of them.

  The lemmas are about a scanner of HTML, \<open>scan\<close>: it follows tags and double-quoted attribute values and
  collects the words of every tag with the attribute values left out. They show that no value of a
  schema or of an object changes what the scanner sees.
\<close>

datatype FormMode = ModeCreate | ModeEdit

record RenderOptions =
  ro_Mode :: FormMode
  ro_SubmitURL :: string
  ro_SuccessRedirect :: string

definition escape_char :: "char \<Rightarrow> string" where
  "escape_char c =
     (if c = CHR ''&'' then ''&amp;''
      else if c = CHR 0x27 then ''&#39;''
      else if c = CHR ''<'' then ''&lt;''
      else if c = CHR ''>'' then ''&gt;''
      else if c = CHR 0x22 then ''&#34;''
      else [c])"

text \<open>\<^verbatim>\<open>html.EscapeString\<close>.\<close>

definition EscapeString :: "string \<Rightarrow> string" where
  "EscapeString s = concat (map escape_char s)"

definition upper_letter :: "char \<Rightarrow> bool" where
  "upper_letter c = (65 \<le> (of_char c :: nat) \<and> (of_char c :: nat) \<le> 90)"

definition toUpper :: "char \<Rightarrow> char" where
  "toUpper r = (if 97 \<le> (of_char r :: nat) \<and> (of_char r :: nat) \<le> 122 then char_of ((of_char r :: nat) - 32) else r)"

fun humanize :: "string \<Rightarrow> string" where
  "humanize [] = []"
| "humanize (c # cs) =
     map (\<lambda>r. if r = CHR ''_'' then CHR '' '' else r)
       (toUpper c # concat (map (\<lambda>r. if upper_letter r then [CHR '' '', r] else [r]) cs))"

text \<open>The part before the first newline, when there is one after the first byte.\<close>

definition first_line :: "string \<Rightarrow> string" where
  "first_line s =
     (let l = takeWhile (\<lambda>c. c \<noteq> CHR 0x0A) s in if l \<noteq> [] then l else s)"

definition getMapValue :: "gomap option \<Rightarrow> string \<Rightarrow> gomap option" where
  "getMapValue values key =
     (case values of
        None \<Rightarrow> None
      | Some vs \<Rightarrow>
          (case map_of vs key of
             Some (AMap m) \<Rightarrow> Some m
           | Some (AStringMap m) \<Rightarrow> Some (map (\<lambda>(k, v). (k, AString v)) m)
           | _ \<Rightarrow> None))"

definition getStringValue :: "ftoa \<Rightarrow> gomap option \<Rightarrow> string \<Rightarrow> string" where
  "getStringValue ff values key =
     (case values of
        None \<Rightarrow> []
      | Some vs \<Rightarrow>
          (case map_of vs key of
             Some v \<Rightarrow> toString ff (Some v)
           | None \<Rightarrow> toString ff (ref_walk (Some (AMap vs)) (split_on (CHR ''.'') key))))"

subsection \<open>Attributes\<close>

definition writeInputStyle :: "bool \<Rightarrow> string" where
  "writeInputStyle readonly =
     '' style=\"'' @
     ''width:100%;padding:8px 10px;background:var(--bg-tertiary);color:var(--text-primary);'' @
     ''border:1px solid var(--border);border-radius:4px;font-size:14px;'' @
     (if readonly then ''opacity:0.6;cursor:not-allowed;'' else []) @ ''\"''"

definition writeValidationAttrs :: "FieldAttrs \<Rightarrow> string" where
  "writeValidationAttrs field =
     (if fa_Required field then '' required'' else []) @
     (if fa_Pattern field \<noteq> [] then '' pattern=\"'' @ EscapeString (fa_Pattern field) @ ''\"'' else []) @
     (case fa_MinLength field of None \<Rightarrow> [] | Some n \<Rightarrow> '' minlength=\"'' @ itoa n @ ''\"'') @
     (case fa_MaxLength field of None \<Rightarrow> [] | Some n \<Rightarrow> '' maxlength=\"'' @ itoa n @ ''\"'')"

definition writeValueAttr :: "string \<Rightarrow> string" where
  "writeValueAttr value = (if value \<noteq> [] then '' value=\"'' @ EscapeString value @ ''\"'' else [])"

definition placeholder_text :: "FieldAttrs \<Rightarrow> string" where
  "placeholder_text field =
     (if fa_Example field = [] \<and> fa_Description field \<noteq> [] then
        let ph = TrimSpace (first_line (fa_Description field))
        in if 60 < length ph then take 57 ph @ ''...'' else ph
      else fa_Example field)"

definition writePlaceholder :: "FieldAttrs \<Rightarrow> string" where
  "writePlaceholder field =
     (if placeholder_text field \<noteq> [] then '' placeholder=\"'' @ EscapeString (placeholder_text field) @ ''\"'' else [])"

subsection \<open>Inputs\<close>

definition writeLabel :: "FieldAttrs \<Rightarrow> string \<Rightarrow> string" where
  "writeLabel field fullName =
     ''<label for=\"'' @ EscapeString fullName @ ''\" style=\"display:block;font-size:13px;font-weight:600;'' @
     ''color:var(--text-secondary);margin-bottom:6px;\">'' @
     EscapeString (humanize (fa_Name field)) @
     (if fa_Required field then '' <span style=\"color:var(--error);\">*</span>'' else []) @
     ''</label>''"

definition help_link :: "string \<Rightarrow> string \<Rightarrow> string" where
  "help_link label url =
     ''<a href=\"'' @ url @ ''\" target=\"_blank\" rel=\"noopener\" '' @
     ''style=\"font-size:11px;color:var(--accent);margin-top:2px;display:inline-block;\">'' @ EscapeString label @ ''</a>''"

definition writeHelpLink :: "FieldAttrs \<Rightarrow> string" where
  "writeHelpLink field =
     (let lowerDesc = ToLower (fa_Description field)
      in (if Contains (fa_Name field) ''Cron'' \<or> Contains (fa_Name field) ''cron'' \<or> Contains lowerDesc ''cron''
          then help_link ''Cron syntax reference'' ''https://crontab.guru/'' else []) @
         (if Contains lowerDesc ''duration'' \<or> Contains lowerDesc ''go duration''
          then help_link ''Go duration format reference'' ''https://pkg.go.dev/time#ParseDuration'' else []))"

definition description_text :: "string \<Rightarrow> string" where
  "description_text desc =
     ''<p style=\"font-size:11px;color:var(--text-muted);margin-top:4px;\">'' @ EscapeString desc @ ''</p>''"

definition writeDescription :: "FieldAttrs \<Rightarrow> string" where
  "writeDescription field =
     (if fa_Description field = [] then []
      else let desc = TrimSpace (first_line (fa_Description field))
        in (if desc \<noteq> [] then description_text desc else []) @ writeHelpLink field)"

definition writeTextInput :: "FieldAttrs \<Rightarrow> string \<Rightarrow> string \<Rightarrow> bool \<Rightarrow> string" where
  "writeTextInput field fullName value readonly =
     ''<input type=\"'' @ (if fa_Format field = ''uri'' then ''url'' else ''text'') @ ''\" id=\"'' @ EscapeString fullName @
     ''\" name=\"'' @ EscapeString fullName @ ''\"'' @
     writeValueAttr value @ writePlaceholder field @ writeValidationAttrs field @
     (if readonly then '' readonly'' else []) @ writeInputStyle readonly @ ''/>''"

definition writeNumberInput :: "FieldAttrs \<Rightarrow> string \<Rightarrow> string \<Rightarrow> bool \<Rightarrow> string" where
  "writeNumberInput field fullName value readonly =
     ''<input type=\"number\" id=\"'' @ EscapeString fullName @ ''\" name=\"'' @ EscapeString fullName @ ''\"'' @
     writeValueAttr value @
     (case fa_Minimum field of None \<Rightarrow> [] | Some n \<Rightarrow> '' min=\"'' @ itoa n @ ''\"'') @
     (case fa_Maximum field of None \<Rightarrow> [] | Some n \<Rightarrow> '' max=\"'' @ itoa n @ ''\"'') @
     (if fa_Required field then '' required'' else []) @
     (if readonly then '' readonly'' else []) @ writeInputStyle readonly @ ''/>''"

definition write_option :: "FieldAttrs \<Rightarrow> string \<Rightarrow> string \<Rightarrow> string" where
  "write_option field value opt =
     ''<option value=\"'' @ EscapeString opt @ ''\"'' @
     (if opt = value \<or> value = [] \<and> opt = fa_Default field then '' selected'' else []) @ ''>'' @
     EscapeString opt @ ''</option>''"

definition em_dash :: string where
  "em_dash = [CHR 0xE2, CHR 0x80, CHR 0x94]"

definition prompt_option :: "string \<Rightarrow> string" where
  "prompt_option prompt = ''<option value=\"\">'' @ em_dash @ prompt @ em_dash @ ''</option>''"

definition hidden_input :: "string \<Rightarrow> string \<Rightarrow> string" where
  "hidden_input fullName value =
     ''<input type=\"hidden\" name=\"'' @ EscapeString fullName @ ''\" value=\"'' @ EscapeString value @ ''\"/>''"

definition writeSelect :: "FieldAttrs \<Rightarrow> string \<Rightarrow> string \<Rightarrow> bool \<Rightarrow> string" where
  "writeSelect field fullName value readonly =
     ''<select id=\"'' @ EscapeString fullName @ ''\" name=\"'' @ EscapeString fullName @ ''\"'' @
     (if fa_Required field then '' required'' else []) @
     (if readonly then '' disabled'' else []) @ writeInputStyle readonly @ ''>'' @
     (if \<not> fa_Required field then prompt_option '' Select '' else []) @
     concat (map (write_option field value) (fa_Enum field)) @
     ''</select>'' @
     (if readonly \<and> value \<noteq> [] then hidden_input fullName value else [])"

definition writeCheckbox :: "string \<Rightarrow> string \<Rightarrow> string \<Rightarrow> bool \<Rightarrow> string" where
  "writeCheckbox fullName value defaultVal readonly =
     (let checked = (value = ''true'' \<or> value = [] \<and> defaultVal = ''true'')
      in ''<input type=\"checkbox\" id=\"'' @ EscapeString fullName @ ''\" name=\"'' @ EscapeString fullName @ ''\"'' @
         (if checked then '' checked'' else []) @
         (if readonly then '' disabled'' else []) @ '' style=\"width:auto;margin-top:8px;\"/>'' @
         (if readonly then
            ''<input type=\"hidden\" name=\"'' @ EscapeString fullName @ ''\" value=\"'' @
            (if checked then ''true'' else ''false'') @ ''\"/>''
          else []))"

definition writeScalarField :: "ftoa \<Rightarrow> FieldAttrs \<Rightarrow> string \<Rightarrow> gomap option \<Rightarrow> FormMode \<Rightarrow> string" where
  "writeScalarField ff field fullName values mode =
     (let value = getStringValue ff values fullName;
          readonly = (fa_ReadOnlyOnEdit field \<and> mode = ModeEdit)
      in writeLabel field fullName @
         (if fa_Enum field \<noteq> [] then writeSelect field fullName value readonly
          else if fa_Type field = ''boolean'' then writeCheckbox fullName value (fa_Default field) readonly
          else if fa_Type field = ''integer'' then writeNumberInput field fullName value readonly
          else writeTextInput field fullName value readonly) @
         writeDescription field)"

subsection \<open>Maps, arrays and objects\<close>

definition input_style :: string where
  "input_style =
     ''style=\"flex:1;padding:6px 8px;background:var(--bg-tertiary);color:var(--text-primary);'' @
     ''border:1px solid var(--border);border-radius:4px;font-size:13px;\"/>''"

definition remove_style :: string where
  "remove_style = ''style=\"font-size:11px;color:var(--error);background:none;border:none;cursor:pointer;\">''"

definition writeMapEntryRow :: "string \<Rightarrow> string \<Rightarrow> string \<Rightarrow> string" where
  "writeMapEntryRow fName key value =
     ''<div style=\"display:flex;gap:8px;margin-bottom:6px;align-items:center;\">'' @
     ''<input type=\"text\" data-map-key value=\"'' @ EscapeString key @ ''\" placeholder=\"Key\" '' @ input_style @
     ''<input type=\"text\" data-map-value data-map-name=\"'' @ EscapeString fName @ ''\" value=\"'' @ EscapeString value @
     ''\" placeholder=\"Value\" '' @ input_style @
     ''<button type=\"button\" data-map-remove '' @ remove_style @ ''Remove</button>'' @
     ''</div>''"

definition add_button :: "string \<Rightarrow> string \<Rightarrow> string" where
  "add_button attr fullName =
     ''<button type=\"button\" '' @ attr @ ''=\"'' @ EscapeString fullName @ ''\" '' @
     ''style=\"margin-top:8px;padding:4px 12px;font-size:12px;background:var(--bg-tertiary);'' @
     ''color:var(--text-secondary);border:1px solid var(--border);border-radius:4px;cursor:pointer;\">+ Add</button>''"

definition writeMapField :: "(gomap \<Rightarrow> gomap) \<Rightarrow> ftoa \<Rightarrow> FieldAttrs \<Rightarrow> string \<Rightarrow> gomap option \<Rightarrow> string" where
  "writeMapField order ff field fullName values =
     writeLabel field fullName @
     ''<div data-map-field=\"'' @ EscapeString fullName @ ''\">'' @
     ''<div data-map-entries>'' @
     (case getMapValue values fullName of
        None \<Rightarrow> []
      | Some m \<Rightarrow> concat (map (\<lambda>(k, v). writeMapEntryRow fullName k (toString ff (Some v))) (order m))) @
     ''</div>'' @ add_button ''data-map-add'' fullName @ ''</div>''"

definition config_select :: "string \<Rightarrow> string \<Rightarrow> string \<Rightarrow> string \<Rightarrow> string" where
  "config_select fullName marker prompt value =
     ''<select name=\"'' @ EscapeString fullName @ marker @ writeInputStyle False @ ''>'' @
     prompt_option prompt @
     (if value \<noteq> [] then
        ''<option value=\"'' @ EscapeString value @ ''\" selected>'' @ EscapeString value @ ''</option>''
      else []) @ ''</select></div>''"

definition writeConfigMapRefField :: "ftoa \<Rightarrow> FieldAttrs \<Rightarrow> string \<Rightarrow> gomap option \<Rightarrow> string" where
  "writeConfigMapRefField ff field fullName values =
     writeLabel field fullName @
     ''<div data-configmap-ref=\"'' @ EscapeString fullName @ ''\" style=\"display:flex;gap:8px;align-items:end;flex-wrap:wrap;\">'' @
     ''<div style=\"flex:1;min-width:180px;\">'' @
     ''<label style=\"font-size:11px;color:var(--text-muted);'' @ ''display:block;margin-bottom:4px;\">ConfigMap</label>'' @
     config_select fullName ''.name\" data-configmap-name'' '' Select ConfigMap '' (getStringValue ff values (fullName @ ''.name'')) @
     ''<div style=\"flex:1;min-width:150px;\">'' @
     ''<label style=\"font-size:11px;color:var(--text-muted);display:block;margin-bottom:4px;\">Key</label>'' @
     config_select fullName ''.key\" data-configmap-key'' '' Select Key '' (getStringValue ff values (fullName @ ''.key'')) @
     ''<button type=\"button\" data-configmap-create '' @
     ''style=\"padding:6px 12px;font-size:12px;background:var(--accent);color:white;'' @
     ''border:none;border-radius:4px;cursor:pointer;white-space:nowrap;\">+ New</button>'' @
     ''</div>'' @ writeDescription field"

definition field_name :: "string \<Rightarrow> FieldAttrs \<Rightarrow> string" where
  "field_name pre field = (if pre \<noteq> [] then pre @ ''.'' @ fa_Name field else fa_Name field)"

definition is_wide :: "FormField \<Rightarrow> bool" where
  "is_wide f =
     (fa_AdditionalProperties (attrs f) \<or> fa_Type (attrs f) = ''array'' \<and> ff_Items f \<noteq> None \<or>
      fa_Type (attrs f) = ''object'' \<and> ff_Properties f \<noteq> [])"

definition field_open :: "FormField \<Rightarrow> string" where
  "field_open f =
     (let wideStyle = (if is_wide f then ''grid-column:1/-1;'' else [])
      in case fa_Condition (attrs f) of
           Some c \<Rightarrow>
             ''<div data-depends-on=\"'' @ EscapeString (cd_DependsOn c) @ ''\" data-show-when=\"'' @
             EscapeString (Join (cd_Values c) '','') @ ''\" style=\"display:none;'' @ wideStyle @ ''\">''
         | None \<Rightarrow> if is_wide f then ''<div style=\"'' @ wideStyle @ ''\">'' else ''<div>'')"

definition array_open :: "FieldAttrs \<Rightarrow> string \<Rightarrow> string" where
  "array_open field fullName =
     writeLabel field fullName @
     ''<div data-array-field=\"'' @ EscapeString fullName @ ''\">'' @ ''<div data-array-entries></div>'' @
     ''<template data-array-template>'' @
     ''<div data-array-item style=\"border:1px solid var(--border);'' @ ''border-radius:4px;padding:10px;margin-bottom:8px;\">''"

definition array_close :: "string \<Rightarrow> string" where
  "array_close fullName =
     ''<button type=\"button\" data-array-remove '' @ remove_style @ ''Remove</button>'' @
     ''</div>'' @ ''</template>'' @ add_button ''data-array-add'' fullName @ ''</div>''"

lemma field_size_properties: "f \<in> set (ff_Properties g) \<Longrightarrow> size f < size g"
  by (cases g) (auto simp: less_Suc_eq_le intro: size_list_estimation' trans_le_add1)

lemma field_size_items: "ff_Items g = Some h \<Longrightarrow> size h < size g"
  by (cases g) auto

function writeField :: "(gomap \<Rightarrow> gomap) \<Rightarrow> ftoa \<Rightarrow> FormField \<Rightarrow> string \<Rightarrow> gomap option \<Rightarrow> FormMode \<Rightarrow> string" where
  "writeField order ff field pre values mode =
     (let a = attrs field; fullName = field_name pre a
      in field_open field @
         (if fa_AdditionalProperties a then writeMapField order ff a fullName values
          else if fa_Type a = ''array'' \<and> ff_Items field \<noteq> None then
            array_open a fullName @
            (case ff_Items field of
               None \<Rightarrow> []
             | Some item \<Rightarrow>
                 if fa_Type (attrs item) = ''object''
                 then concat (map (\<lambda>f. writeField order ff f (fullName @ CHR ''.'' # ''*'') None ModeCreate) (ff_Properties item))
                 else []) @
            array_close fullName
          else if fa_Name a = ''configMapRef'' \<and> fa_Type a = ''object'' then writeConfigMapRefField ff a fullName values
          else if fa_Type a = ''object'' \<and> ff_Properties field \<noteq> [] then
            writeLabel a fullName @
            ''<fieldset style=\"border:1px solid var(--border);border-radius:6px;padding:15px;margin:0;\">'' @
            concat (map (\<lambda>f. writeField order ff f fullName values mode) (ff_Properties field)) @
            ''</fieldset>''
          else writeScalarField ff a fullName values mode) @
         ''</div>'')"
  by pat_completeness auto

termination
  by (relation "measure (\<lambda>(order, ff, field, _). size field)")
    (auto dest: field_size_properties field_size_items intro: less_trans)

definition writeFormOpen :: "RenderOptions \<Rightarrow> string" where
  "writeFormOpen opts =
     ''<form id=\"resource-form\" '' @ (if ro_Mode opts = ModeEdit then ''hx-put'' else ''hx-post'') @ ''=\"'' @
     EscapeString (ro_SubmitURL opts) @ ''\" hx-ext=\"json-enc\" '' @
     ''hx-target=\"#form-result\" hx-swap=\"innerHTML\" data-success-redirect=\"'' @
     EscapeString (if ro_SuccessRedirect opts = [] then ''/ui'' else ro_SuccessRedirect opts) @ ''\">''"

definition writeSubmitButton :: "FormMode \<Rightarrow> string" where
  "writeSubmitButton mode =
     ''<div style=\"margin-top:20px;\"><button type=\"submit\" '' @
     ''style=\"padding:10px 24px;background:var(--accent);color:white;border:none;'' @
     ''border-radius:6px;font-size:14px;font-weight:600;cursor:pointer;\">'' @
     (if mode = ModeEdit then ''Update'' else ''Create'') @ ''</button></div>''"

definition RenderForm :: "(gomap \<Rightarrow> gomap) \<Rightarrow> ftoa \<Rightarrow> FormSchema \<Rightarrow> gomap option \<Rightarrow> RenderOptions \<Rightarrow> string" where
  "RenderForm order ff schema values opts =
     writeFormOpen opts @ ''<div id=\"form-result\"></div>'' @
     ''<div style=\"display:grid;grid-template-columns:repeat(auto-fit,minmax(280px,1fr));gap:20px;\">'' @
     concat (map (\<lambda>field. writeField order ff field [] values (ro_Mode opts)) (fs_Fields schema)) @
     ''</div>'' @ writeSubmitButton (ro_Mode opts) @ ''</form>''"

subsection \<open>A scanner of HTML\<close>

text \<open>Outside of a tag, inside one with the word read so far, and inside a quoted attribute value.\<close>

datatype html_mode = InText | InTag string | InValue string

fun scan :: "html_mode \<Rightarrow> string \<Rightarrow> html_mode \<times> string list" where
  "scan m [] = (m, [])"
| "scan InText (c # cs) = scan (if c = CHR ''<'' then InTag [] else InText) cs"
| "scan (InTag w) (c # cs) =
     (if c = CHR ''>'' then (let (m, ws) = scan InText cs in (m, w # ws))
      else if c = CHR '' '' then (let (m, ws) = scan (InTag []) cs in (m, w # ws))
      else if c = CHR 0x22 then scan (InValue (w @ [c])) cs
      else scan (InTag (w @ [c])) cs)"
| "scan (InValue w) (c # cs) = scan (if c = CHR 0x22 then InTag (w @ [c]) else InValue w) cs"

text \<open>The tags and attributes of the forms. None of them carries code.\<close>

definition form_words :: "string list" where
  "form_words = [''form'', ''/form'', ''div'', ''/div'', ''label'', ''/label'', ''span'', ''/span'', ''a'', ''/a'', ''p'', ''/p'',
     ''input'', ''select'', ''/select'', ''option'', ''/option'', ''button'', ''/button'', ''fieldset'', ''/fieldset'',
     ''template'', ''/template'',
     ''id=\"\"'', ''name=\"\"'', ''type=\"\"'', ''value=\"\"'', ''value=\"\"/'', ''style=\"\"'', ''style=\"\"/'', ''for=\"\"'', ''href=\"\"'',
     ''target=\"\"'', ''rel=\"\"'', ''min=\"\"'', ''max=\"\"'', ''minlength=\"\"'', ''maxlength=\"\"'', ''pattern=\"\"'', ''placeholder=\"\"'',
     ''required'', ''readonly'', ''disabled'', ''checked'', ''selected'',
     ''hx-put=\"\"'', ''hx-post=\"\"'', ''hx-ext=\"\"'', ''hx-target=\"\"'', ''hx-swap=\"\"'', ''data-success-redirect=\"\"'',
     ''data-depends-on=\"\"'', ''data-show-when=\"\"'', ''data-map-field=\"\"'', ''data-map-entries'', ''data-map-add=\"\"'',
     ''data-map-key'', ''data-map-value'', ''data-map-name=\"\"'', ''data-map-remove'', ''data-array-field=\"\"'',
     ''data-array-entries'', ''data-array-template'', ''data-array-item'', ''data-array-remove'', ''data-array-add=\"\"'',
     ''data-configmap-ref=\"\"'', ''data-configmap-name'', ''data-configmap-key'', ''data-configmap-create'']"

definition scans :: "html_mode \<Rightarrow> string \<Rightarrow> html_mode \<Rightarrow> bool" where
  "scans m s n \<longleftrightarrow> fst (scan m s) = n \<and> list_all (\<lambda>w. w \<in> set form_words) (snd (scan m s))"

lemma scan_append: "scan m (u @ v) = (let (n, ws) = scan m u; (k, xs) = scan n v in (k, ws @ xs))"
  by (induction m u rule: scan.induct) (auto simp: Let_def split: prod.splits)

lemma scans_append: "scans m u n \<Longrightarrow> scans n v k \<Longrightarrow> scans m (u @ v) k"
  by (auto simp: scans_def scan_append Let_def split: prod.splits)

lemma scans_Nil: "scans m [] m"
  by (simp add: scans_def)

lemma scans_if: "(b \<Longrightarrow> scans m u n) \<Longrightarrow> (\<not> b \<Longrightarrow> scans m v n) \<Longrightarrow> scans m (if b then u else v) n"
  by simp

lemma scans_concat: "(\<And>s. s \<in> set ss \<Longrightarrow> scans InText s InText) \<Longrightarrow> scans InText (concat ss) InText"
  by (induction ss) (auto intro: scans_Nil scans_append)

lemma scan_text: "CHR ''<'' \<notin> set s \<Longrightarrow> scan InText s = (InText, [])"
  by (induction s) auto

lemma scan_value: "CHR 0x22 \<notin> set s \<Longrightarrow> scan (InValue w) s = (InValue w, [])"
  by (induction s) auto

lemma escaped_chars: "CHR ''<'' \<notin> set (EscapeString s)" "CHR 0x22 \<notin> set (EscapeString s)"
  by (auto simp: EscapeString_def escape_char_def split: if_splits)

lemma scans_escaped: "scans InText (EscapeString s) InText" "scans (InValue w) (EscapeString s) (InValue w)"
  by (simp_all add: scans_def scan_text scan_value escaped_chars)

lemma itoa_no_quote: "CHR 0x22 \<notin> set (itoa n)"
  using nat_dec_digits [of "nat (- n)"] nat_dec_digits [of "nat n"]
  by (auto simp: itoa_def is_digit_def list_all_iff)

lemma scans_itoa: "scans (InValue w) (itoa n) (InValue w)"
  by (simp add: scans_def scan_value itoa_no_quote)

text \<open>A word of a tag may be followed by more attributes. What an attribute writer appends starts with a
  space, which ends the word before it.\<close>

definition attribute :: "string \<Rightarrow> bool" where
  "attribute s \<longleftrightarrow> (\<forall>w \<in> set form_words. \<exists>w' \<in> set form_words. scans (InTag w) s (InTag w'))"

lemma attribute_Nil: "attribute []"
  by (auto simp: attribute_def intro: scans_Nil)

lemma attribute_append: "attribute u \<Longrightarrow> attribute v \<Longrightarrow> attribute (u @ v)"
  by (meson attribute_def scans_append)

lemma attribute_space:
  assumes "scans (InTag []) s (InTag w)" "w \<in> set form_words"
  shows "attribute (CHR '' '' # s)"
  using assms by (auto simp: attribute_def scans_def split: prod.splits)

lemma attribute_if: "(b \<Longrightarrow> attribute u) \<Longrightarrow> (\<not> b \<Longrightarrow> attribute v) \<Longrightarrow> attribute (if b then u else v)"
  by simp

definition closing :: "string \<Rightarrow> bool" where
  "closing s \<longleftrightarrow> (\<forall>w \<in> set form_words. scans (InTag w) s InText)"

lemma closing_space: "scans (InTag []) s InText \<Longrightarrow> closing (CHR '' '' # s)"
  by (auto simp: closing_def scans_def split: prod.splits)

lemma closing_tag: "scans InText s InText \<Longrightarrow> closing (CHR ''>'' # s)"
  by (auto simp: closing_def scans_def split: prod.splits)

lemma closing_append: "attribute u \<Longrightarrow> closing v \<Longrightarrow> closing (u @ v)"
  by (meson attribute_def closing_def scans_append)

lemma scans_tag: "scans m u (InTag w) \<Longrightarrow> w \<in> set form_words \<Longrightarrow> closing v \<Longrightarrow> scans m (u @ v) InText"
  by (meson closing_def scans_append)

text \<open>Evaluation of the scanner on a literal: the rest of the text is left alone in each step.\<close>

lemma scan_weak_cong: "m = n \<Longrightarrow> scan m s = scan n s"
  by simp

lemma scan_If: "scan m (if b then u else v) = (if b then scan m u else scan m v)"
  by simp

text \<open>Each word of the list is a rewrite rule, so that no word is compared with all the others.\<close>

definition form_word :: "string \<Rightarrow> bool" where
  "form_word w \<longleftrightarrow> w \<in> set form_words"

lemma form_word_all: "list_all form_word form_words"
  by (simp add: list_all_iff form_word_def)

lemmas form_word_facts = form_word_all [unfolded form_words_def list.pred_inject]

lemma scans_iff: "scans m s n \<longleftrightarrow> fst (scan m s) = n \<and> list_all form_word (snd (scan m s))"
  by (simp add: scans_def form_word_def [abs_def])

lemmas scan_eval = scans_iff scan_append scan_If scan_text [OF escaped_chars(1)] scan_value [OF escaped_chars(2)]
  scan_value [OF itoa_no_quote] Let_def form_word_facts

subsection \<open>What the writers leave behind\<close>

lemma attr_values:
  "attribute ('' value=\"'' @ EscapeString v @ ''\"'')" "attribute ('' placeholder=\"'' @ EscapeString v @ ''\"'')"
  "attribute ('' pattern=\"'' @ EscapeString v @ ''\"'')" "attribute ('' minlength=\"'' @ itoa n @ ''\"'')"
  "attribute ('' maxlength=\"'' @ itoa n @ ''\"'')" "attribute ('' min=\"'' @ itoa n @ ''\"'')"
  "attribute ('' max=\"'' @ itoa n @ ''\"'')"
  by (simp_all, (rule attribute_space, simp add: scan_eval cong: scan_weak_cong, simp add: form_word_def [symmetric] form_word_facts)+)

lemma attr_flags:
  "attribute '' required''" "attribute '' readonly''" "attribute '' disabled''" "attribute '' checked''" "attribute '' selected''"
  by (rule attribute_space, simp add: scan_eval cong: scan_weak_cong, simp add: form_word_def [symmetric] form_word_facts)+

lemma writeInputStyle_attribute: "attribute (writeInputStyle readonly)"
  unfolding writeInputStyle_def
  by (cases readonly) (simp, rule attribute_space, simp add: scan_eval cong: scan_weak_cong, simp add: form_word_def [symmetric] form_word_facts)+

lemma writeInputStyle_close: "closing (writeInputStyle readonly @ ''/>'')"
  unfolding writeInputStyle_def by (simp, intro conjI impI; rule closing_space, simp add: scan_eval cong: scan_weak_cong)

lemmas attribute_intros = attribute_Nil attribute_append attribute_if attr_values attr_flags writeInputStyle_attribute

lemma writeValueAttr_attribute: "attribute (writeValueAttr v)"
  unfolding writeValueAttr_def by (intro attribute_intros)

lemma writePlaceholder_attribute: "attribute (writePlaceholder field)"
  unfolding writePlaceholder_def by (intro attribute_intros)

lemma attribute_option: "(\<And>n. attribute (f n)) \<Longrightarrow> attribute (case x of None \<Rightarrow> [] | Some n \<Rightarrow> f n)"
  by (cases x) (simp_all add: attribute_Nil)

lemma writeValidationAttrs_attribute: "attribute (writeValidationAttrs field)"
  unfolding writeValidationAttrs_def by (intro attribute_intros attribute_option)

text \<open>Text that starts and ends outside of a tag.\<close>

definition flow :: "string \<Rightarrow> bool" where
  "flow s \<longleftrightarrow> scans InText s InText"

lemma flow_append: "flow u \<Longrightarrow> flow v \<Longrightarrow> flow (u @ v)"
  by (auto simp: flow_def intro: scans_append)

lemma flow_Nil: "flow []"
  by (simp add: flow_def scans_Nil)

lemma flow_if: "(b \<Longrightarrow> flow u) \<Longrightarrow> (\<not> b \<Longrightarrow> flow v) \<Longrightarrow> flow (if b then u else v)"
  by simp

lemma flow_concat: "(\<And>s. s \<in> set ss \<Longrightarrow> flow s) \<Longrightarrow> flow (concat ss)"
  unfolding flow_def by (rule scans_concat)

lemma flow_concat_map: "(\<And>x. x \<in> set xs \<Longrightarrow> flow (f x)) \<Longrightarrow> flow (concat (map f xs))"
  by (rule flow_concat) auto

lemma flow_pieces: "list_all flow ss \<Longrightarrow> flow (concat ss)"
  by (rule flow_concat) (auto simp: list_all_iff)

lemma flow_tag:
  assumes "scans InText u (InTag w)" "closing v" "w \<in> set form_words"
  shows "flow (u @ v)"
  using scans_tag [OF assms(1,3,2)] by (simp add: flow_def)

lemmas flow_intros = flow_append flow_Nil flow_if flow_concat_map
lemmas flow_eval = flow_def scan_eval

lemma literal_flow:
  "flow ''</select>''" "flow ''</div>''" "flow ''</fieldset>''" "flow ''</form>''" "flow ''<div id=\"form-result\"></div>''"
  "flow ''<div data-map-entries>''" "flow ''<div data-array-entries></div>''" "flow ''</template>''" "flow ''Remove</button>''"
  "flow ''<template data-array-template>''" "flow ''</select></div>''" "flow ''Update''" "flow ''Create''"
  by (simp_all add: flow_eval cong: scan_weak_cong)

lemma writeLabel_flow: "flow (writeLabel field fullName)"
  by (simp add: writeLabel_def flow_eval cong: scan_weak_cong)

lemma help_link_flow: "CHR 0x22 \<notin> set url \<Longrightarrow> flow (help_link label url)"
  by (simp add: help_link_def flow_eval scan_value cong: scan_weak_cong)

lemma description_text_flow: "flow (description_text desc)"
  by (simp add: description_text_def flow_eval cong: scan_weak_cong)

lemma writeDescription_flow: "flow (writeDescription field)"
  unfolding writeDescription_def writeHelpLink_def Let_def
  by (intro flow_intros description_text_flow help_link_flow) simp_all

lemma writeTextInput_flow: "flow (writeTextInput field fullName value readonly)"
proof -
  let ?open = "''<input type=\"'' @ (if fa_Format field = ''uri'' then ''url'' else ''text'') @ ''\" id=\"'' @
    EscapeString fullName @ ''\" name=\"'' @ EscapeString fullName @ ''\"''"
  let ?attrs = "writeValueAttr value @ writePlaceholder field @ writeValidationAttrs field @ (if readonly then '' readonly'' else [])"
  have "scans InText ?open (InTag ''name=\"\"'')" by (simp add: scan_eval cong: scan_weak_cong)
  moreover have "closing (?attrs @ writeInputStyle readonly @ ''/>'')"
    by (intro closing_append attribute_intros writeValueAttr_attribute writePlaceholder_attribute
        writeValidationAttrs_attribute writeInputStyle_close)
  ultimately have "flow (?open @ ?attrs @ writeInputStyle readonly @ ''/>'')"
    by (rule flow_tag) (simp add: form_word_def [symmetric] form_word_facts)
  then show ?thesis by (simp add: writeTextInput_def)
qed

lemma writeNumberInput_flow: "flow (writeNumberInput field fullName value readonly)"
proof -
  let ?open = "''<input type=\"number\" id=\"'' @ EscapeString fullName @ ''\" name=\"'' @ EscapeString fullName @ ''\"''"
  let ?attrs = "writeValueAttr value @ (case fa_Minimum field of None \<Rightarrow> [] | Some n \<Rightarrow> '' min=\"'' @ itoa n @ ''\"'') @
     (case fa_Maximum field of None \<Rightarrow> [] | Some n \<Rightarrow> '' max=\"'' @ itoa n @ ''\"'') @
     (if fa_Required field then '' required'' else []) @ (if readonly then '' readonly'' else [])"
  have "scans InText ?open (InTag ''name=\"\"'')" by (simp add: scan_eval cong: scan_weak_cong)
  moreover have "closing (?attrs @ writeInputStyle readonly @ ''/>'')"
    by (intro closing_append attribute_append attribute_if attribute_Nil attr_flags attribute_option attr_values(6,7)
        writeValueAttr_attribute writeInputStyle_close)
  ultimately have "flow (?open @ ?attrs @ writeInputStyle readonly @ ''/>'')"
    by (rule flow_tag) (simp add: form_word_def [symmetric] form_word_facts)
  then show ?thesis by (simp add: writeNumberInput_def)
qed

lemma write_option_flow: "flow (write_option field value opt)"
  by (simp add: write_option_def flow_eval cong: scan_weak_cong)

lemma hidden_input_flow: "flow (hidden_input fullName value)"
  by (simp add: hidden_input_def flow_eval cong: scan_weak_cong)

lemma prompt_option_flow: "CHR ''<'' \<notin> set s \<Longrightarrow> flow (prompt_option s)"
  by (simp add: prompt_option_def em_dash_def flow_eval scan_text cong: scan_weak_cong)

lemma writeSelect_flow: "flow (writeSelect field fullName value readonly)"
proof -
  let ?open = "''<select id=\"'' @ EscapeString fullName @ ''\" name=\"'' @ EscapeString fullName @ ''\"''"
  let ?attrs = "(if fa_Required field then '' required'' else []) @ (if readonly then '' disabled'' else []) @ writeInputStyle readonly"
  let ?rest = "(if \<not> fa_Required field then prompt_option '' Select '' else []) @
     concat (map (write_option field value) (fa_Enum field)) @ ''</select>'' @
     (if readonly \<and> value \<noteq> [] then hidden_input fullName value else [])"
  have "scans InText ?open (InTag ''name=\"\"'')" by (simp add: scan_eval cong: scan_weak_cong)
  moreover have "flow ?rest"
    by (intro flow_intros literal_flow prompt_option_flow write_option_flow hidden_input_flow) simp
  then have "closing (?attrs @ CHR ''>'' # ?rest)"
    unfolding flow_def by (intro closing_append attribute_intros closing_tag)
  ultimately have "flow (?open @ ?attrs @ CHR ''>'' # ?rest)"
    by (rule flow_tag) (simp add: form_word_def [symmetric] form_word_facts)
  then show ?thesis by (simp add: writeSelect_def)
qed

lemma writeCheckbox_flow: "flow (writeCheckbox fullName value defaultVal readonly)"
  by (simp add: writeCheckbox_def flow_eval cong: scan_weak_cong)

lemma writeScalarField_flow: "flow (writeScalarField ff field fullName values mode)"
  unfolding writeScalarField_def Let_def
  by (intro flow_intros writeLabel_flow writeSelect_flow writeCheckbox_flow writeNumberInput_flow
      writeTextInput_flow writeDescription_flow)

lemma writeMapEntryRow_flow: "flow (writeMapEntryRow fName key value)"
  by (simp add: writeMapEntryRow_def input_style_def remove_style_def flow_eval cong: scan_weak_cong)

lemma add_button_flow: "flow (add_button ''data-map-add'' fullName)" "flow (add_button ''data-array-add'' fullName)"
  by (simp_all add: add_button_def flow_eval cong: scan_weak_cong)

lemmas piece_flow = literal_flow writeLabel_flow writeDescription_flow add_button_flow

lemma writeMapField_flow: "flow (writeMapField order ff field fullName values)"
proof -
  let ?rows = "case getMapValue values fullName of None \<Rightarrow> []
      | Some m \<Rightarrow> concat (map (\<lambda>(k, v). writeMapEntryRow fullName k (toString ff (Some v))) (order m))"
  let ?open = "''<div data-map-field=\"'' @ EscapeString fullName @ ''\">''"
  have "flow ?rows" by (auto split: option.split intro!: flow_intros writeMapEntryRow_flow)
  moreover have "flow ?open" by (simp add: flow_eval cong: scan_weak_cong)
  ultimately have "list_all flow [writeLabel field fullName, ?open, ''<div data-map-entries>'', ?rows, ''</div>'',
      add_button ''data-map-add'' fullName, ''</div>'']"
    by (simp only: list.pred_inject simp_thms piece_flow)
  from flow_pieces [OF this] show ?thesis by (simp add: writeMapField_def)
qed

lemma selected_option_flow:
  "flow (if value \<noteq> [] then ''<option value=\"'' @ EscapeString value @ ''\" selected>'' @ EscapeString value @ ''</option>'' else [])"
  by (simp add: flow_eval cong: scan_weak_cong)

lemma config_select_flow:
  assumes "marker = ''.name\" data-configmap-name'' \<and> w = ''data-configmap-name'' \<or>
      marker = ''.key\" data-configmap-key'' \<and> w = ''data-configmap-key''"
    and "CHR ''<'' \<notin> set prompt"
  shows "flow (config_select fullName marker prompt value)"
proof -
  let ?open = "''<select name=\"'' @ EscapeString fullName @ marker"
  let ?selected = "if value \<noteq> [] then ''<option value=\"'' @ EscapeString value @ ''\" selected>'' @ EscapeString value @ ''</option>'' else []"
  let ?rest = "prompt_option prompt @ ?selected @ ''</select></div>''"
  have "scans InText ?open (InTag w)" using assms(1) by (auto simp: scan_eval cong: scan_weak_cong)
  moreover have "flow ?rest"
    by (rule flow_append prompt_option_flow assms(2) selected_option_flow literal_flow)+
  then have "closing (writeInputStyle False @ CHR ''>'' # ?rest)"
    unfolding flow_def by (intro closing_append writeInputStyle_attribute closing_tag)
  ultimately have "flow (?open @ writeInputStyle False @ CHR ''>'' # ?rest)"
    by (rule flow_tag) (use assms(1) in \<open>auto simp: form_word_def [symmetric] form_word_facts\<close>)
  then show ?thesis by (simp add: config_select_def)
qed

lemma writeConfigMapRefField_flow: "flow (writeConfigMapRefField ff field fullName values)"
proof -
  let ?name = "config_select fullName ''.name\" data-configmap-name'' '' Select ConfigMap '' (getStringValue ff values (fullName @ ''.name''))"
  let ?key = "config_select fullName ''.key\" data-configmap-key'' '' Select Key '' (getStringValue ff values (fullName @ ''.key''))"
  let ?open = "''<div data-configmap-ref=\"'' @ EscapeString fullName @ ''\" style=\"display:flex;gap:8px;align-items:end;flex-wrap:wrap;\">'' @
     ''<div style=\"flex:1;min-width:180px;\">'' @
     ''<label style=\"font-size:11px;color:var(--text-muted);'' @ ''display:block;margin-bottom:4px;\">ConfigMap</label>''"
  let ?between = "''<div style=\"flex:1;min-width:150px;\">'' @
     ''<label style=\"font-size:11px;color:var(--text-muted);display:block;margin-bottom:4px;\">Key</label>''"
  let ?button = "''<button type=\"button\" data-configmap-create '' @
     ''style=\"padding:6px 12px;font-size:12px;background:var(--accent);color:white;'' @
     ''border:none;border-radius:4px;cursor:pointer;white-space:nowrap;\">+ New</button>''"
  have "flow ?open" "flow ?between" "flow ?button" by (simp_all add: flow_eval cong: scan_weak_cong)
  moreover have "flow ?name" by (rule config_select_flow [where w = "''data-configmap-name''"]) simp_all
  moreover have "flow ?key" by (rule config_select_flow [where w = "''data-configmap-key''"]) simp_all
  ultimately have "list_all flow [writeLabel field fullName, ?open, ?name, ?between, ?key, ?button, ''</div>'', writeDescription field]"
    by (simp only: list.pred_inject simp_thms piece_flow)
  from flow_pieces [OF this] show ?thesis by (simp add: writeConfigMapRefField_def)
qed

lemma array_flow: "flow (array_open field fullName)" "flow (array_close fullName)"
proof -
  let ?field = "''<div data-array-field=\"'' @ EscapeString fullName @ ''\">''"
  let ?item = "''<div data-array-item style=\"border:1px solid var(--border);'' @ ''border-radius:4px;padding:10px;margin-bottom:8px;\">''"
  let ?remove = "''<button type=\"button\" data-array-remove '' @ remove_style"
  have "flow ?field" "flow ?item" "flow ?remove" by (simp_all add: remove_style_def flow_eval cong: scan_weak_cong)
  then have "list_all flow [writeLabel field fullName, ?field, ''<div data-array-entries></div>'', ''<template data-array-template>'', ?item]"
    "list_all flow [?remove, ''Remove</button>'', ''</div>'', ''</template>'', add_button ''data-array-add'' fullName, ''</div>'']"
    by (simp_all only: list.pred_inject simp_thms piece_flow)
  from this [THEN flow_pieces] show "flow (array_open field fullName)" "flow (array_close fullName)"
    by (simp_all add: array_open_def array_close_def)
qed

lemma field_open_flow: "flow (field_open f)"
  by (simp add: field_open_def Let_def flow_eval cong: scan_weak_cong split: option.split)

lemma fieldset_flow: "flow ''<fieldset style=\"border:1px solid var(--border);border-radius:6px;padding:15px;margin:0;\">''"
  by (simp add: flow_eval cong: scan_weak_cong)

lemma writeField_flow: "flow (writeField order ff field pre values mode)"
proof (induction order ff field pre "values" mode rule: writeField.induct)
  case (1 order ff field pre vals mode)
  let ?a = "attrs field"
  let ?n = "field_name pre ?a"
  have items: "flow (case ff_Items field of None \<Rightarrow> [] | Some item \<Rightarrow>
      if fa_Type (attrs item) = ''object''
      then concat (map (\<lambda>f. writeField order ff f (?n @ CHR ''.'' # ''*'') None ModeCreate) (ff_Properties item)) else [])"
    if "\<not> fa_AdditionalProperties ?a" "fa_Type ?a = ''array'' \<and> ff_Items field \<noteq> None"
    using 1(1) [OF refl refl that] by (auto split: option.split intro!: flow_intros)
  have props: "flow (concat (map (\<lambda>f. writeField order ff f ?n vals mode) (ff_Properties field)))"
    if "\<not> fa_AdditionalProperties ?a" "\<not> (fa_Type ?a = ''array'' \<and> ff_Items field \<noteq> None)"
      "\<not> (fa_Name ?a = ''configMapRef'' \<and> fa_Type ?a = ''object'')" "fa_Type ?a = ''object'' \<and> ff_Properties field \<noteq> []"
    using 1(2) [OF refl refl that] by (intro flow_concat_map)
  show ?case
    unfolding writeField.simps [of order ff field pre vals mode] Let_def
    by (intro flow_append flow_if field_open_flow writeMapField_flow array_flow items props writeConfigMapRefField_flow
        writeLabel_flow fieldset_flow writeScalarField_flow literal_flow)
qed

lemma writeFormOpen_flow: "flow (writeFormOpen opts)"
  by (simp add: writeFormOpen_def flow_eval cong: scan_weak_cong)

lemma writeSubmitButton_flow: "flow (writeSubmitButton mode)"
  by (simp add: writeSubmitButton_def flow_eval cong: scan_weak_cong)

lemma grid_flow:
  "flow ''<div style=\"display:grid;grid-template-columns:repeat(auto-fit,minmax(280px,1fr));gap:20px;\">''"
  by (simp add: flow_eval cong: scan_weak_cong)

subsection \<open>Property\<close>

text \<open>C17. Whatever a schema, the object that fills the form and the addresses contain, the rendered form is
  balanced as text: a scanner that starts outside of a tag ends outside of one, and all the words it
  finds in tags, names of elements and of attributes with their values left out, are among the ones
  the renderer writes. No value can open a tag, leave its attribute or add another one.\<close>

theorem RenderForm_no_injection:
  "fst (scan InText (RenderForm order ff schema values opts)) = InText \<and>
   set (snd (scan InText (RenderForm order ff schema values opts))) \<subseteq> set form_words"
proof -
  have "flow (RenderForm order ff schema values opts)"
    unfolding RenderForm_def
    by (intro flow_append flow_concat_map writeFormOpen_flow literal_flow grid_flow writeField_flow writeSubmitButton_flow)
  then show ?thesis by (auto simp: flow_def scans_def list_all_iff)
qed

end
