(* ===== verification/WebPages.thy ===== *)
theory WebPages
  imports RestApi FormRenderer
begin

section \<open>Data of the web pages (pkg/webui/adapters.go, templates)\<close>

text \<open>
  What the pages are filled with: the records of the page templates, the conversions of the data of the
  services to them and the values a form is filled with. The printing of a calendar date is an
  argument; \<^verbatim>\<open>Duration.String\<close> and \<^verbatim>\<open>url.QueryEscape\<close> are written out.

  The lemmas: what the form of a server is filled with, and that the delay it shows is read back as the
  same delay.
\<close>

subsection \<open>Templates\<close>

record PluginSummary =
  psm_Name :: string
  psm_CurrentVersion :: string
  psm_DesiredVersion :: string

record PluginUpdate =
  pu_Name :: string
  pu_FromVersion :: string
  pu_ToVersion :: string

record UpdatePlan =
  up_PaperUpdate :: string
  up_PluginUpdates :: "PluginUpdate list"
  up_AppliesAt :: string

record ServerSummary =
  ssm_Name :: string
  ssm_Namespace :: string
  ssm_CurrentPaperVersion :: string
  ssm_Strategy :: string
  ssm_AvailableUpdate :: string
  ssm_PluginCount :: int
  ssm_NextMaintenance :: string
  ssm_Status :: string
  ssm_Plugins :: "PluginSummary list"
  ssm_UpdatePlan :: "UpdatePlan option"
  ssm_Labels :: "string \<rightharpoonup> string"

record DashboardData =
  dd_Servers :: "ServerSummary list"
  dd_Namespaces :: "string list"
  dd_SelectedNamespace :: string

record PluginInfo =
  pi_Name :: string
  pi_Project :: string
  pi_CurrentVersion :: string
  pi_ResolvedVersion :: string
  pi_Status :: string

record MaintenanceInfo =
  mi_CheckCron :: string
  mi_WindowCron :: string
  mi_NextWindow :: string

record UpdateInfo =
  ui_Timestamp :: string
  ui_Status :: string
  ui_Message :: string

record ServerDetailData =
  sdd_Name :: string
  sdd_Namespace :: string
  sdd_CurrentPaperVersion :: string
  sdd_DesiredPaperVersion :: string
  sdd_AvailableUpdate :: string
  sdd_Plugins :: "PluginInfo list"
  sdd_MaintenanceSchedule :: MaintenanceInfo
  sdd_LastUpdate :: UpdateInfo
  sdd_Labels :: "string \<rightharpoonup> string"

record PluginListItem =
  pli_Name :: string
  pli_Namespace :: string
  pli_SourceType :: string
  pli_Project :: string
  pli_UpdateStrategy :: string
  pli_Version :: string
  pli_ResolvedVersion :: string
  pli_MatchedServers :: int

record PluginListData =
  pld_Plugins :: "PluginListItem list"
  pld_Namespaces :: "string list"
  pld_SelectedNamespace :: string

record PluginDetailData =
  pdd_Name :: string
  pdd_Namespace :: string
  pdd_SourceType :: string
  pdd_Project :: string
  pdd_URL :: string
  pdd_UpdateStrategy :: string
  pdd_Version :: string
  pdd_ResolvedVersion :: string
  pdd_MatchedServers :: int
  pdd_RepositoryStatus :: string

record SchemaFormData =
  sfd_Title :: string
  sfd_BackURL :: string
  sfd_FormHTML :: string

subsection \<open>Adapters\<close>

definition formatVersionWithBuild :: "string \<Rightarrow> int \<Rightarrow> string" where
  "formatVersionWithBuild version build =
     (if version = [] then ''Unknown''
      else if build > 0 then version @ ''-'' @ itoa build
      else version)"

definition update_text :: "AvailableUpdateData option \<Rightarrow> string" where
  "update_text au = (case au of None \<Rightarrow> [] | Some u \<Rightarrow> aud_Version u @ ''-'' @ itoa (aud_Build u))"

definition web_serverDataToSummary :: "ServerData \<Rightarrow> ServerSummary" where
  "web_serverDataToSummary data =
     \<lparr>ssm_Name = sd_Name data, ssm_Namespace = sd_Namespace data,
      ssm_CurrentPaperVersion = formatVersionWithBuild (sd_CurrentVersion data) (sd_CurrentBuild data),
      ssm_Strategy = sd_UpdateStrategy data, ssm_AvailableUpdate = update_text (sd_AvailableUpdate data),
      ssm_PluginCount = sd_PluginCount data, ssm_NextMaintenance = sd_NextMaintenance data, ssm_Status = sd_Status data,
      ssm_Plugins = map (\<lambda>p. \<lparr>psm_Name = spd_Name p, psm_CurrentVersion = spd_CurrentVersion p,
         psm_DesiredVersion = spd_DesiredVersion p\<rparr>) (sd_Plugins data),
      ssm_UpdatePlan =
        (case sd_AvailableUpdate data of
           None \<Rightarrow> None
         | Some u \<Rightarrow>
             Some \<lparr>up_PaperUpdate = update_text (Some u),
               up_PluginUpdates = map (\<lambda>p. \<lparr>pu_Name = spd_Name p, pu_FromVersion = spd_CurrentVersion p, pu_ToVersion = spd_DesiredVersion p\<rparr>)
                 (filter (\<lambda>p. spd_DesiredVersion p \<noteq> [] \<and> spd_DesiredVersion p \<noteq> spd_CurrentVersion p) (sd_Plugins data)),
               up_AppliesAt = (case sd_MaintenanceSchedule data of None \<Rightarrow> [] | Some m \<Rightarrow> msd_NextWindow m)\<rparr>),
      ssm_Labels = sd_Labels data\<rparr>"

definition web_serverDataToDetail :: "(time \<Rightarrow> string) \<Rightarrow> ServerData \<Rightarrow> ServerDetailData" where
  "web_serverDataToDetail rfc3339 data =
     \<lparr>sdd_Name = sd_Name data, sdd_Namespace = sd_Namespace data,
      sdd_CurrentPaperVersion = formatVersionWithBuild (sd_CurrentVersion data) (sd_CurrentBuild data),
      sdd_DesiredPaperVersion = formatVersionWithBuild (sd_DesiredVersion data) (sd_DesiredBuild data),
      sdd_AvailableUpdate = update_text (sd_AvailableUpdate data),
      sdd_Plugins = map (\<lambda>p. \<lparr>pi_Name = spd_Name p, pi_Project = spd_Project p, pi_CurrentVersion = spd_CurrentVersion p,
         pi_ResolvedVersion = spd_ResolvedVersion p, pi_Status = (if spd_Compatible p then ''compatible'' else ''incompatible'')\<rparr>)
         (sd_Plugins data),
      sdd_MaintenanceSchedule =
        (case sd_MaintenanceSchedule data of
           None \<Rightarrow> \<lparr>mi_CheckCron = [], mi_WindowCron = [], mi_NextWindow = []\<rparr>
         | Some m \<Rightarrow> \<lparr>mi_CheckCron = msd_CheckCron m, mi_WindowCron = msd_WindowCron m, mi_NextWindow = msd_NextWindow m\<rparr>),
      sdd_LastUpdate =
        (case sd_UpdateHistory data of
           None \<Rightarrow> \<lparr>ui_Timestamp = [], ui_Status = [], ui_Message = []\<rparr>
         | Some h \<Rightarrow> \<lparr>ui_Timestamp = rfc3339 (uhd_AppliedAt h),
             ui_Status = (if uhd_Successful h then ''success'' else ''failed''),
             ui_Message = ''Updated from '' @ uhd_PreviousVersion h\<rparr>),
      sdd_Labels = sd_Labels data\<rparr>"

definition pluginDataToListItem :: "PluginData \<Rightarrow> PluginListItem" where
  "pluginDataToListItem data =
     \<lparr>pli_Name = pd_Name data, pli_Namespace = pd_Namespace data, pli_SourceType = pd_SourceType data,
      pli_Project = pd_Project data, pli_UpdateStrategy = pd_UpdateStrategy data, pli_Version = pd_Version data,
      pli_ResolvedVersion = pd_ResolvedVersion data, pli_MatchedServers = pd_MatchedServers data\<rparr>"

definition webui_pluginDataToDetail :: "PluginData \<Rightarrow> PluginDetailData" where
  "webui_pluginDataToDetail data =
     \<lparr>pdd_Name = pd_Name data, pdd_Namespace = pd_Namespace data, pdd_SourceType = pd_SourceType data,
      pdd_Project = pd_Project data, pdd_URL = pd_URL data, pdd_UpdateStrategy = pd_UpdateStrategy data,
      pdd_Version = pd_Version data, pdd_ResolvedVersion = pd_ResolvedVersion data,
      pdd_MatchedServers = pd_MatchedServers data, pdd_RepositoryStatus = pd_RepositoryStatus data\<rparr>"

subsection \<open>Durations as text\<close>

text \<open>The last \<open>prec\<close> digits of \<open>v\<close> as a fraction without trailing zeros (\<^verbatim>\<open>fmtFrac\<close>), and the rest of \<open>v\<close>.\<close>

fun fmtFrac :: "nat \<Rightarrow> nat \<Rightarrow> bool \<Rightarrow> string \<Rightarrow> string \<times> nat" where
  "fmtFrac v 0 printed acc = ((if printed then ''.'' @ acc else acc), v)"
| "fmtFrac v (Suc prec) printed acc =
     (let digit = v mod 10; printed' = (printed \<or> digit \<noteq> 0)
      in fmtFrac (v div 10) prec printed' (if printed' then char_of (digit + 48) # acc else acc))"

definition micro :: string where
  "micro = [CHR 0xC2, CHR 0xB5]"

definition Duration_String :: "duration \<Rightarrow> string" where
  "Duration_String d =
     (let u = nat \<bar>d\<bar>; sign = (if d < 0 then ''-'' else [])
      in if u < 1000000000 then
           (if u = 0 then ''0s''
            else let (prec, unit) = (if u < 1000 then (0, ''ns'') else if u < 1000000 then (3, micro @ ''s'') else (6, ''ms''));
                     (frac, n) = fmtFrac u prec False []
                 in sign @ nat_dec n @ frac @ unit)
         else let (frac, secs) = fmtFrac u 9 False [];
                  mins = secs div 60;
                  hours = mins div 60
              in sign @ (if hours > 0 then nat_dec hours @ ''h'' else []) @
                 (if mins > 0 then nat_dec (mins mod 60) @ ''m'' else []) @ nat_dec (secs mod 60) @ frac @ ''s'')"

subsection \<open>Values of the edit forms\<close>

definition serverDataToValues :: "(string \<times> string) list \<Rightarrow> ServerData \<Rightarrow> gomap" where
  "serverDataToValues labels data =
     [(''name'', AString (sd_Name data)), (''namespace'', AString (sd_Namespace data)),
      (''updateStrategy'', AString (sd_UpdateStrategy data)),
      (''version'', AString (if sd_CurrentVersion data = [] then sd_DesiredVersion data else sd_CurrentVersion data))] @
     (if sd_CurrentBuild data > 0 then [(''build'', AInt (sd_CurrentBuild data))] else []) @
     (case sd_MaintenanceSchedule data of
        None \<Rightarrow> [(''checkCron'', AString [])]
      | Some m \<Rightarrow> [(''maintenanceWindow.enabled'', ABool (msd_Enabled m)), (''maintenanceWindow.cron'', AString (msd_WindowCron m)),
          (''checkCron'', AString (msd_CheckCron m))]) @
     (if labels \<noteq> [] then [(''labels'', AStringMap labels)] else [])"

definition pluginDataToValues :: "PluginData \<Rightarrow> gomap" where
  "pluginDataToValues data =
     [(''name'', AString (pd_Name data)), (''namespace'', AString (pd_Namespace data)),
      (''source.type'', AString (pd_SourceType data)), (''source.project'', AString (pd_Project data)),
      (''source.url'', AString (pd_URL data)), (''updateStrategy'', AString (pd_UpdateStrategy data)),
      (''version'', AString (pd_Version data))] @
     (case pd_Build data of None \<Rightarrow> [] | Some b \<Rightarrow> [(''build'', AInt b)]) @
     (case pd_UpdateDelay data of None \<Rightarrow> [] | Some d \<Rightarrow> [(''updateDelay'', AString (Duration_String d))])"

subsection \<open>Query strings\<close>

definition unreserved :: "char \<Rightarrow> bool" where
  "unreserved c =
     (let n = (of_char c :: nat) in 97 \<le> n \<and> n \<le> 122 \<or> 65 \<le> n \<and> n \<le> 90 \<or> 48 \<le> n \<and> n \<le> 57 \<or> c \<in> set ''-_.~'')"

definition upper_hex :: "nat \<Rightarrow> char" where
  "upper_hex n = ''0123456789ABCDEF'' ! n"

definition query_escape_char :: "char \<Rightarrow> string" where
  "query_escape_char c =
     (if unreserved c then [c]
      else if c = CHR '' '' then ''+''
      else [CHR ''%'', upper_hex ((of_char c :: nat) div 16), upper_hex ((of_char c :: nat) mod 16)])"

definition QueryEscape :: "string \<Rightarrow> string" where
  "QueryEscape s = concat (map query_escape_char s)"

subsection \<open>The delay of a form\<close>

lemma fmtFrac_whole: "fmtFrac (m * 10 ^ prec) prec False [] = ([], m)"
  by (induction prec) (simp_all add: Let_def mult.assoc)

lemma Duration_String_seconds:
  assumes "0 < secs"
  shows "Duration_String (int secs * 1000000000) = print_parts
    ((if secs div 60 div 60 > 0 then [(secs div 60 div 60, ''h'')] else []) @
     (if secs div 60 > 0 then [(secs div 60 mod 60, ''m'')] else []) @ [(secs mod 60, ''s'')])"
proof -
  have "nat \<bar>int secs * 1000000000\<bar> = secs * 10 ^ 9" by (simp add: nat_mult_distrib)
  with assms fmtFrac_whole [of secs 9] show ?thesis
    by (simp add: Duration_String_def print_parts_def Let_def)
qed

lemma hms: "(secs div 60 div 60) * 3600 + (secs div 60 mod 60) * 60 + secs mod 60 = (secs :: nat)"
proof -
  have "h * 3600 + r * 60 + s = secs" if "h * 60 + r = m" "m * 60 + s = secs" for h r m s :: nat
    using that by linarith
  from this [OF div_mult_mod_eq div_mult_mod_eq] show ?thesis .
qed

text \<open>The delay that the edit form of a plugin shows is read back as the same delay: the text of a whole
  number of seconds parses to it.\<close>

theorem form_delay_round_trip:
  assumes "int secs * 1000000000 < 2 ^ 63"
  shows "pd_UpdateDelay data = Some (int secs * 1000000000) \<Longrightarrow>
    map_of (pluginDataToValues data) ''updateDelay'' = Some (AString s) \<Longrightarrow> ParseDuration s = Inr (int secs * 1000000000)"
proof -
  have "ParseDuration (Duration_String (int secs * 1000000000)) = Inr (int secs * 1000000000)"
  proof (cases "secs = 0")
    case True
    have "nat_dec 0 = ''0''" by (simp add: nat_dec.simps char_of_def bit_0)
    then have "Duration_String 0 = print_parts [(0, ''s'')]" by (simp add: Duration_String_def print_parts_def Let_def)
    then show ?thesis using True ParseDuration_parts [of "[(0, ''s'')]" 0] by (simp add: unitMap_def)
  next
    case False
    let ?ps = "(if secs div 60 div 60 > 0 then [(secs div 60 div 60, ''h'')] else []) @
      (if secs div 60 > 0 then [(secs div 60 mod 60, ''m'')] else []) @ [(secs mod 60, ''s'')]"
    have "parts_value ?ps = Some (secs * 1000000000)"
      using hms [of secs] by (auto simp: unitMap_def) (insert div_mult_mod_eq [of secs 60], linarith)
    moreover have "secs * 1000000000 < 2 ^ 63" using assms by (simp flip: of_nat_less_iff)
    ultimately show ?thesis
      using ParseDuration_parts [of ?ps "secs * 1000000000"] False by (simp add: Duration_String_seconds)
  qed
  then show "pd_UpdateDelay data = Some (int secs * 1000000000) \<Longrightarrow>
    map_of (pluginDataToValues data) ''updateDelay'' = Some (AString s) \<Longrightarrow> ParseDuration s = Inr (int secs * 1000000000)"
    by (auto simp: pluginDataToValues_def split: option.splits)
qed

theorem form_delay_round_trip_witness:
  "ParseDuration (Duration_String (int 90 * 1000000000)) = Inr (int 90 * 1000000000)"
proof -
  define data :: PluginData where "data = pluginToData zero_plugin\<lparr>pd_UpdateDelay := Some (int 90 * 1000000000), pd_Build := None\<rparr>"
  have "map_of (pluginDataToValues data) ''updateDelay'' = Some (AString (Duration_String (int 90 * 1000000000)))"
    by (simp add: data_def pluginDataToValues_def)
  then show ?thesis
    using form_delay_round_trip [of 90 data] by (simp add: data_def)
qed

text \<open>The edit form of a server does not show the version and build that are configured: it is filled
  the same whatever they are. Its version field holds the version that runs, so that saving the form
  unchanged pins the server to the running version and loses a newer pin that waits for its
  maintenance window.\<close>

theorem edit_form_ignores_configured_version:
  "serverDataToValues labels (server_fields (server\<lparr>sv_Spec := (sv_Spec server)\<lparr>ss_Version := v, ss_Build := b\<rparr>\<rparr>) state) =
   serverDataToValues labels (server_fields server state) \<and>
   map_of (serverDataToValues labels (server_fields server state)) ''version'' =
     Some (AString (if st_CurrentVersion (sv_Status server) = [] then st_DesiredVersion (sv_Status server)
                    else st_CurrentVersion (sv_Status server)))"
  by (simp add: serverDataToValues_def server_fields_def Let_def)

end
