(* ===== verification/WebServer.thy ===== *)
theory WebServer
  imports WebPages ServerController
begin

section \<open>The web server (pkg/webui/server.go, pkg/webui/handlers.go)\<close>

text \<open>
  The web pages: the patterns of the request multiplexer, the handlers with every guard and reply, and
  the polling of the solver's status. \<open>ui\<close> is what the server holds; the generated templates are
  represented by the data they print (\<open>page\<close>), the REST API below \<^verbatim>\<open>/api/v1/\<close> and the stream of events are
  modelled elsewhere and only named by a reply. Of \<^verbatim>\<open>net/http\<close> and \<^verbatim>\<open>net/url\<close> the multiplexer, the cleaning
  of paths and the parsing of query strings are written out; a path is taken to be free of percent
  escapes, and no request is a \<^verbatim>\<open>CONNECT\<close>.

  The lemmas: what each request may write, which names have no page of their own, that a status poll asks
  for the right server and ends after thirty attempts, and that a failed reconciliation is never shown.
\<close>

subsection \<open>Query strings and paths\<close>

definition query_hex :: "char \<Rightarrow> nat option" where
  "query_hex c =
     (let n = (of_char c :: nat)
      in if 48 \<le> n \<and> n \<le> 57 then Some (n - 48)
         else if 97 \<le> n \<and> n \<le> 102 then Some (n - 87)
         else if 65 \<le> n \<and> n \<le> 70 then Some (n - 55) else None)"

fun QueryUnescape :: "string \<Rightarrow> string option" where
  "QueryUnescape [] = Some []"
| "QueryUnescape (c # s) =
     (if c = CHR ''%'' then
        (case s of
           h # l # rest \<Rightarrow>
             (case (query_hex h, query_hex l) of
                (Some a, Some b) \<Rightarrow> map_option (Cons (char_of (a * 16 + b))) (QueryUnescape rest)
              | _ \<Rightarrow> None)
         | _ \<Rightarrow> None)
      else map_option (Cons (if c = CHR ''+'' then CHR '' '' else c)) (QueryUnescape s))"

definition cut_at :: "char \<Rightarrow> string \<Rightarrow> string \<times> string" where
  "cut_at d s = (takeWhile (\<lambda>c. c \<noteq> d) s, tl (dropWhile (\<lambda>c. c \<noteq> d) s))"

text \<open>\<^verbatim>\<open>URL.Query\<close>: parts that cannot be decoded are dropped. \<^verbatim>\<open>Get\<close> returns the first value of a key.\<close>

definition query_pair :: "string \<Rightarrow> (string \<times> string) option" where
  "query_pair seg =
     (if CHR '';'' \<in> set seg \<or> seg = [] then None
      else case (QueryUnescape (fst (cut_at (CHR ''='') seg)), QueryUnescape (snd (cut_at (CHR ''='') seg))) of
             (Some k, Some v) \<Rightarrow> Some (k, v)
           | _ \<Rightarrow> None)"

definition ParseQuery :: "string \<Rightarrow> (string \<times> string) list" where
  "ParseQuery raw = List.map_filter query_pair (split_on (CHR ''&'') raw)"

definition query_get :: "string \<Rightarrow> string \<Rightarrow> string" where
  "query_get raw key = (case map_of (ParseQuery raw) key of None \<Rightarrow> [] | Some v \<Rightarrow> v)"

fun clean_parts :: "string list \<Rightarrow> string list \<Rightarrow> string list" where
  "clean_parts out [] = rev out"
| "clean_parts out (p # ps) =
     (if p = [] \<or> p = ''.'' then clean_parts out ps
      else if p = ''..'' then clean_parts (tl out) ps
      else clean_parts (p # out) ps)"

text \<open>\<^verbatim>\<open>cleanPath\<close> of the multiplexer.\<close>

definition cleanPath :: "string \<Rightarrow> string" where
  "cleanPath p =
     (if p = [] then ''/''
      else let parts = clean_parts [] (split_on (CHR ''/'') p)
           in if parts = [] then ''/''
              else concat (map (\<lambda>q. CHR ''/'' # q) parts) @ (if HasSuffix p ''/'' then ''/'' else []))"

subsection \<open>Requests and replies\<close>

record config_map_body =
  cmb_Name :: string
  cmb_Namespace :: string
  cmb_Data :: "(string \<times> string) list"

text \<open>The body of a request, where a handler decodes one: \<open>None\<close> if it is not of the expected form.\<close>

record ui_request =
  uq_Method :: string
  uq_Path :: string
  uq_RawQuery :: string
  uq_Body :: "config_map_body option"

definition ui_query :: "ui_request \<Rightarrow> string \<Rightarrow> string" where
  "ui_query q key = query_get (uq_RawQuery q) key"

datatype page =
    Dashboard DashboardData
  | ServerDetail ServerDetailData
  | PluginList PluginListData
  | PluginDetail PluginDetailData
  | SchemaFormPage SchemaFormData

text \<open>
  \<open>HttpError\<close> is \<^verbatim>\<open>http.Error\<close>, \<open>EscapedError\<close> the same with the text passed through
  \<^verbatim>\<open>html.EscapeString\<close>, \<open>RedirectTo\<close> \<^verbatim>\<open>http.Redirect\<close>; \<open>Html\<close> and \<open>Plain\<close> are written with status 200.
  \<open>StaticFile\<close>, \<open>OpenApiSpec\<close>, \<open>EventStream\<close> and \<open>RestApi\<close> hand the request on; \<open>NoReply\<close> is a handler that
  does not return.
\<close>

datatype reply =
    HttpError nat message
  | EscapedError nat message
  | NotFoundPage
  | RedirectTo nat string
  | Rendered page
  | Html string
  | Plain string
  | Summaries "ConfigMapSummary list"
  | CreatedReply string string
  | StaticFile string
  | OpenApiSpec
  | EventStream
  | RestCall string
  | NoReply

text \<open>The status of a reply that a handler of this package writes.\<close>

primrec reply_code :: "reply \<Rightarrow> nat option" where
  "reply_code (HttpError c _) = Some c"
| "reply_code (EscapedError c _) = Some c"
| "reply_code NotFoundPage = Some 404"
| "reply_code (RedirectTo c _) = Some c"
| "reply_code (Rendered _) = Some 200"
| "reply_code (Html _) = Some 200"
| "reply_code (Plain _) = Some 200"
| "reply_code (Summaries _) = Some 200"
| "reply_code (CreatedReply _ _) = Some 201"
| "reply_code (StaticFile _) = None"
| "reply_code OpenApiSpec = Some 200"
| "reply_code EventStream = None"
| "reply_code (RestCall _) = None"
| "reply_code NoReply = None"

text \<open>
  What the server holds, with the orders of its loops over maps (\<open>ui_entries\<close>, \<open>ui_iteration\<close>, \<open>ui_values\<close>),
  the printing of floats and dates, and the fuel for the parser of schemas. \<open>ui_render\<close> is the failure of
  a template, if any.
\<close>

record ('w, 'sched) ui =
  ui_client :: "('w, 'sched) vext"
  ui_schemaParser :: "Parser option"
  ui_hasApi :: bool
  ui_render :: "page \<Rightarrow> goerror option"
  ui_entries :: "(string \<rightharpoonup> string) \<Rightarrow> (string \<times> string) list"
  ui_iteration :: iteration
  ui_values :: "gomap \<Rightarrow> gomap"
  ui_ftoa :: ftoa
  ui_rfc3339 :: "time \<Rightarrow> string"
  ui_fuel :: nat

definition rendered :: "('w, 'sched) ui \<Rightarrow> string \<Rightarrow> page \<Rightarrow> reply" where
  "rendered u failure p =
     (case ui_render u p of None \<Rightarrow> Rendered p | Some err \<Rightarrow> HttpError 500 (failure, [AErrs [err]]))"

definition method_not_allowed :: reply where
  "method_not_allowed = HttpError 405 (plain ''Method not allowed'')"

subsection \<open>Pages\<close>

definition page_namespaces :: "('w, 'sched) ui \<Rightarrow> string list \<Rightarrow> string list" where
  "page_namespaces u nss = k_range (cluster (ui_client u)) [''namespaceSet''] (remdups nss)"

definition fetchDashboardData :: "('w, 'sched) ui \<Rightarrow> string \<Rightarrow> ('w, DashboardData result) op" where
  "fetchDashboardData u filterNamespace = do {
     l \<leftarrow> ServerService_ListServers (ui_client u) [];
     case l of
       Inl err \<Rightarrow> State_Monad.return (Inl err)
     | Inr allServers \<Rightarrow> do {
         l' \<leftarrow> (if filterNamespace \<noteq> [] then ServerService_ListServers (ui_client u) filterNamespace
                else State_Monad.return (Inr allServers));
         State_Monad.return
           (map_sum id (\<lambda>serversData.
              \<lparr>dd_Servers = map web_serverDataToSummary serversData,
               dd_Namespaces = page_namespaces u (map sd_Namespace allServers),
               dd_SelectedNamespace = filterNamespace\<rparr>) l')
       }
   }"

definition fetchPluginListData :: "('w, 'sched) ui \<Rightarrow> string \<Rightarrow> ('w, PluginListData result) op" where
  "fetchPluginListData u filterNamespace = do {
     l \<leftarrow> PluginService_ListPlugins (ui_client u) [];
     case l of
       Inl err \<Rightarrow> State_Monad.return (Inl err)
     | Inr allPlugins \<Rightarrow> do {
         l' \<leftarrow> (if filterNamespace \<noteq> [] then PluginService_ListPlugins (ui_client u) filterNamespace
                else State_Monad.return (Inr allPlugins));
         State_Monad.return
           (map_sum id (\<lambda>pluginsData.
              \<lparr>pld_Plugins = map pluginDataToListItem pluginsData,
               pld_Namespaces = page_namespaces u (map pd_Namespace allPlugins),
               pld_SelectedNamespace = filterNamespace\<rparr>) l')
       }
   }"

definition handleDashboard :: "('w, 'sched) ui \<Rightarrow> ui_request \<Rightarrow> ('w, reply) op" where
  "handleDashboard u q =
     (if uq_Path q \<noteq> ''/ui'' then State_Monad.return NotFoundPage
      else do {
        d \<leftarrow> fetchDashboardData u (ui_query q ''namespace'');
        State_Monad.return
          (case d of
             Inl err \<Rightarrow> HttpError 500 (''Failed to fetch dashboard data: %v'', [AErrs [err]])
           | Inr data \<Rightarrow> rendered u ''Failed to render dashboard: %v'' (Dashboard data))
      })"

definition handlePluginList :: "('w, 'sched) ui \<Rightarrow> ui_request \<Rightarrow> ('w, reply) op" where
  "handlePluginList u q = do {
     d \<leftarrow> fetchPluginListData u (ui_query q ''namespace'');
     State_Monad.return
       (case d of
          Inl err \<Rightarrow> HttpError 500 (''Failed to fetch plugin list: %v'', [AErrs [err]])
        | Inr data \<Rightarrow> rendered u ''Failed to render plugin list: %v'' (PluginList data))
   }"

definition handleServerDetailPage :: "('w, 'sched) ui \<Rightarrow> ui_request \<Rightarrow> string \<Rightarrow> ('w, reply) op" where
  "handleServerDetailPage u q serverName =
     (if serverName = [] then State_Monad.return NotFoundPage
      else if ui_query q ''namespace'' \<noteq> [] then do {
        g \<leftarrow> ServerService_GetServer (ui_client u) (ui_query q ''namespace'') serverName;
        State_Monad.return
          (case g of
             Inl err \<Rightarrow>
               if IsNotFound err then NotFoundPage
               else HttpError 500 (''Failed to fetch server details: %v'', [AErrs [err]])
           | Inr data \<Rightarrow>
               rendered u ''Failed to render server details: %v'' (ServerDetail (web_serverDataToDetail (ui_rfc3339 u) data)))
      }
      else do {
        g \<leftarrow> ServerService_GetServerByName (ui_client u) serverName;
        State_Monad.return
          (case g of
             Inl err \<Rightarrow> NotFoundPage
           | Inr data \<Rightarrow>
               rendered u ''Failed to render server details: %v'' (ServerDetail (web_serverDataToDetail (ui_rfc3339 u) data)))
      })"

definition handlePluginDetailPage :: "('w, 'sched) ui \<Rightarrow> ui_request \<Rightarrow> string \<Rightarrow> ('w, reply) op" where
  "handlePluginDetailPage u q pluginName =
     (if pluginName = [] then State_Monad.return NotFoundPage
      else if ui_query q ''namespace'' = [] then State_Monad.return (HttpError 400 (plain ''Missing namespace parameter''))
      else do {
        g \<leftarrow> PluginService_GetPlugin (ui_client u) (ui_query q ''namespace'') pluginName;
        State_Monad.return
          (case g of
             Inl err \<Rightarrow>
               if IsNotFound err then NotFoundPage
               else HttpError 500 (''Failed to fetch plugin: %v'', [AErrs [err]])
           | Inr data \<Rightarrow> rendered u ''Failed to render plugin detail: %v'' (PluginDetail (webui_pluginDataToDetail data)))
      })"

subsection \<open>Forms\<close>

definition renderSchemaForm ::
  "('w, 'sched) ui \<Rightarrow> string \<Rightarrow> FormMode \<Rightarrow> string \<Rightarrow> string \<Rightarrow> string \<Rightarrow> gomap option \<Rightarrow> reply" where
  "renderSchemaForm u schemaName mode submitURL backURL title values =
     (case ui_schemaParser u of
        None \<Rightarrow> HttpError 500 (plain ''Schema parser not initialized'')
      | Some p \<Rightarrow>
          (case ParseSchema (ui_fuel u) (ui_iteration u) (ui_ftoa u) p schemaName of
             None \<Rightarrow> NoReply
           | Some (Inl err) \<Rightarrow> HttpError 500 (''Failed to parse schema: %v'', [AErrs [err]])
           | Some (Inr formSchema) \<Rightarrow>
               rendered u ''Failed to render form: %v'' (SchemaFormPage
                 \<lparr>sfd_Title = title, sfd_BackURL = backURL,
                  sfd_FormHTML = RenderForm (ui_values u) (ui_ftoa u) formSchema values
                    \<lparr>ro_Mode = mode, ro_SubmitURL = submitURL, ro_SuccessRedirect = backURL\<rparr>\<rparr>)))"

definition handleServerCreate :: "('w, 'sched) ui \<Rightarrow> ui_request \<Rightarrow> reply" where
  "handleServerCreate u q =
     (if uq_Method q \<noteq> ''GET'' then method_not_allowed
      else renderSchemaForm u ''ServerCreateRequest'' ModeCreate ''/api/v1/servers'' ''/ui'' ''Create Server'' None)"

definition handlePluginCreate :: "('w, 'sched) ui \<Rightarrow> ui_request \<Rightarrow> reply" where
  "handlePluginCreate u q =
     (if uq_Method q \<noteq> ''GET'' then method_not_allowed
      else renderSchemaForm u ''PluginCreateRequest'' ModeCreate ''/api/v1/plugins'' ''/ui/plugins'' ''Create Plugin'' None)"

definition handleServerEdit :: "('w, 'sched) ui \<Rightarrow> ui_request \<Rightarrow> string \<Rightarrow> ('w, reply) op" where
  "handleServerEdit u q serverName =
     (let namespace = ui_query q ''namespace''
      in if namespace = [] then State_Monad.return (HttpError 400 (plain ''Missing namespace parameter''))
         else do {
           g \<leftarrow> ServerService_GetServer (ui_client u) namespace serverName;
           State_Monad.return
             (case g of
                Inl err \<Rightarrow>
                  if IsNotFound err then NotFoundPage
                  else HttpError 500 (''Failed to get server: %v'', [AErrs [err]])
              | Inr serverData \<Rightarrow>
                  renderSchemaForm u ''ServerUpdateRequest'' ModeEdit
                    (''/api/v1/servers/'' @ namespace @ ''/'' @ serverName) ''/ui'' (''Edit Server: '' @ serverName)
                    (Some (serverDataToValues (ui_entries u (sd_Labels serverData)) serverData)))
         })"

definition handlePluginEdit :: "('w, 'sched) ui \<Rightarrow> ui_request \<Rightarrow> string \<Rightarrow> ('w, reply) op" where
  "handlePluginEdit u q pluginName =
     (let namespace = ui_query q ''namespace''
      in if namespace = [] then State_Monad.return (HttpError 400 (plain ''Missing namespace parameter''))
         else do {
           g \<leftarrow> PluginService_GetPlugin (ui_client u) namespace pluginName;
           State_Monad.return
             (case g of
                Inl err \<Rightarrow>
                  if IsNotFound err then NotFoundPage
                  else HttpError 500 (''Failed to get plugin: %v'', [AErrs [err]])
              | Inr data \<Rightarrow>
                  renderSchemaForm u ''PluginUpdateRequest'' ModeEdit
                    (''/api/v1/plugins/'' @ namespace @ ''/'' @ pluginName) ''/ui/plugins'' (''Edit Plugin: '' @ pluginName)
                    (Some (pluginDataToValues data)))
         })"

subsection \<open>Actions\<close>

text \<open>The name and the namespace that a path and its query name, if the path ends in the action.\<close>

definition parseResourcePathAction :: "ui_request \<Rightarrow> string \<Rightarrow> string \<Rightarrow> (string \<times> string) option" where
  "parseResourcePathAction q pre expectedAction =
     (let parts = split_on (CHR ''/'') (TrimPrefix (uq_Path q) pre);
          resourceName = parts ! 0;
          namespace = ui_query q ''namespace''
      in if length parts < 2 \<or> parts ! 1 \<noteq> expectedAction then None
         else if resourceName = [] \<or> namespace = [] then None
         else Some (resourceName, namespace))"

text \<open>The reading and the deletion of the resource come with its type.\<close>

definition handleResourceDelete ::
  "ui_request \<Rightarrow> string \<Rightarrow> string \<Rightarrow> (string \<Rightarrow> string \<Rightarrow> ('w, 'r result) op) \<Rightarrow> ('r \<Rightarrow> ('w, unit result) op) \<Rightarrow>
   string \<Rightarrow> ('w, reply) op" where
  "handleResourceDelete q pathPrefix resourceType get_resource delete_resource redirectURL =
     (if uq_Method q \<noteq> ''POST'' then State_Monad.return method_not_allowed
      else case parseResourcePathAction q pathPrefix ''delete'' of
        None \<Rightarrow> State_Monad.return (HttpError 400 (''Missing %s name or namespace'', [AStr resourceType]))
      | Some (name, namespace) \<Rightarrow> do {
          g \<leftarrow> get_resource namespace name;
          case g of
            Inl err \<Rightarrow> State_Monad.return (HttpError 404 (''Failed to get %s: %v'', [AStr resourceType, AErrs [err]]))
          | Inr resource \<Rightarrow> do {
              d \<leftarrow> delete_resource resource;
              State_Monad.return
                (case d of
                   Inl err \<Rightarrow> HttpError 500 (''Failed to delete %s: %v'', [AStr resourceType, AErrs [err]])
                 | Inr _ \<Rightarrow> RedirectTo 303 redirectURL)
            }
        })"

definition handleServerDelete :: "('w, 'sched) ui \<Rightarrow> ui_request \<Rightarrow> ('w, reply) op" where
  "handleServerDelete u q =
     handleResourceDelete q ''/ui/server/'' ''server'' (get_server (world_ext (ui_client u)))
       (delete_server (ui_client u)) ''/ui''"

definition handlePluginDelete :: "('w, 'sched) ui \<Rightarrow> ui_request \<Rightarrow> ('w, reply) op" where
  "handlePluginDelete u q =
     handleResourceDelete q ''/ui/plugin/'' ''plugin'' (get_plugin (world_ext (ui_client u)))
       (delete_plugin (ui_client u)) ''/ui/plugins''"

definition check_mark :: string where "check_mark = [CHR 0xE2, CHR 0x9C, CHR 0x93]"
definition cross_mark :: string where "cross_mark = [CHR 0xE2, CHR 0x9D, CHR 0x8C]"
definition hourglass :: string where "hourglass = [CHR 0xE2, CHR 0x8F, CHR 0xB3]"
definition stopwatch :: string where "stopwatch = [CHR 0xE2, CHR 0x8F, CHR 0xB1]"

definition handleApplyNow :: "('w, 'sched) ui \<Rightarrow> ui_request \<Rightarrow> ('w, reply) op" where
  "handleApplyNow u q =
     (if uq_Method q \<noteq> ''POST'' then State_Monad.return method_not_allowed
      else case parseResourcePathAction q ''/ui/server/'' ''apply-now'' of
        None \<Rightarrow> State_Monad.return (HttpError 400 (plain ''Missing server name or namespace''))
      | Some (serverName, namespace) \<Rightarrow> do {
          r \<leftarrow> ServerService_ApplyNow (ui_client u) namespace serverName;
          State_Monad.return
            (case r of
               Inl err \<Rightarrow> HttpError 500 (''Failed to apply now: %v'', [AErrs [err]])
             | Inr _ \<Rightarrow> Html (''<span style=\"color: green;\">'' @ check_mark @ '' Apply Now triggered</span>''))
        })"

definition poll_query :: "string \<Rightarrow> string \<Rightarrow> int \<Rightarrow> string" where
  "poll_query serverName namespace n =
     ''name='' @ QueryEscape serverName @ ''&namespace='' @ QueryEscape namespace @ ''&attempt='' @ itoa n"

definition handleServerResolve :: "('w, 'sched) ui \<Rightarrow> ui_request \<Rightarrow> ('w, reply) op" where
  "handleServerResolve u q =
     (let serverName = ui_query q ''name''; namespace = ui_query q ''namespace''
      in if uq_Method q \<noteq> ''POST'' then State_Monad.return method_not_allowed
         else if serverName = [] \<or> namespace = [] then
           State_Monad.return (HttpError 400 (plain ''Missing name or namespace parameter''))
         else do {
           r \<leftarrow> ServerService_TriggerReconciliation (ui_client u) namespace serverName;
           State_Monad.return
             (case r of
                Inl err \<Rightarrow> EscapedError 500 (''Failed to trigger reconciliation: %v'', [AErrs [err]])
              | Inr _ \<Rightarrow>
                  Html (''<button disabled style=\"background-color: #ccc; color: #666; border: none; '' @
                    ''padding: 6px 12px; border-radius: 4px; font-size: 13px; cursor: not-allowed; '' @
                    ''white-space: nowrap;\">'' @ hourglass @ '' Resolving...</button>'' @
                    ''<div hx-get=\"/ui/server/status?'' @ poll_query serverName namespace 1 @ ''\" '' @
                    ''hx-trigger=\"load delay:1s\" hx-target=\"#solver-status-'' @ EscapeString serverName @
                    ''\" hx-swap=\"innerHTML\"></div>''))
         })"

definition handlePluginResolve :: "('w, 'sched) ui \<Rightarrow> ui_request \<Rightarrow> ('w, reply) op" where
  "handlePluginResolve u q =
     (let pluginName = ui_query q ''name''; namespace = ui_query q ''namespace''
      in if uq_Method q \<noteq> ''POST'' then State_Monad.return method_not_allowed
         else if pluginName = [] \<or> namespace = [] then
           State_Monad.return (HttpError 400 (plain ''Missing name or namespace parameter''))
         else do {
           r \<leftarrow> PluginService_TriggerReconciliation (ui_client u) namespace pluginName;
           State_Monad.return
             (case r of
                Inl err \<Rightarrow> EscapedError 500 (''Failed to trigger reconciliation: %v'', [AErrs [err]])
              | Inr _ \<Rightarrow> Plain (''Plugin '' @ EscapeString pluginName @ '' reconciliation triggered''))
         })"

subsection \<open>Status of the solver\<close>

record solverStatusInfo =
  si_solverRunning :: bool
  si_solverCompleted :: bool
  si_solverFailed :: bool
  si_readySuccess :: bool
  si_readyFailed :: bool

definition note_condition :: "Condition \<Rightarrow> solverStatusInfo \<Rightarrow> solverStatusInfo" where
  "note_condition c info =
     (let info1 = (if c_Type c = ''SolverRunning'' then
            info\<lparr>si_solverRunning := c_Status c = ConditionTrue,
                 si_solverCompleted := si_solverCompleted info \<or> c_Reason c = ''SolverCompleted'',
                 si_solverFailed := si_solverFailed info \<or> c_Reason c = ''SolverFailed''\<rparr> else info)
      in if c_Type c = ''Ready'' then
           info1\<lparr>si_readySuccess := c_Status c = ConditionTrue, si_readyFailed := c_Reason c = ''ReconciliationFailed''\<rparr>
         else info1)"

definition parseSolverStatus :: "PaperMCServer \<Rightarrow> solverStatusInfo" where
  "parseSolverStatus server =
     fold note_condition (st_Conditions (sv_Status server))
       \<lparr>si_solverRunning = False, si_solverCompleted = False, si_solverFailed = False, si_readySuccess = False,
        si_readyFailed = False\<rparr>"

definition poll_again :: "string \<Rightarrow> string \<Rightarrow> int \<Rightarrow> string \<Rightarrow> string" where
  "poll_again serverName namespace n shown =
     ''<span style=\"color: orange;\" hx-get=\"/ui/server/status?'' @ poll_query serverName namespace n @ ''\" '' @
     ''hx-trigger=\"load delay:2s\" hx-target=\"this\" hx-swap=\"outerHTML\">'' @ hourglass @ shown @ ''</span>''"

definition solver_failed_html :: string where
  "solver_failed_html = ''<span style=\"color: red;\">'' @ cross_mark @ '' Solver failed</span>''"

definition resolved_html :: string where
  "resolved_html = ''<span style=\"color: green;\">'' @ check_mark @ '' Resolved</span>''"

definition failed_html :: string where
  "failed_html = ''<span style=\"color: red;\">'' @ cross_mark @ '' Failed</span>''"

definition renderSolverStatus :: "solverStatusInfo \<Rightarrow> string \<Rightarrow> string \<Rightarrow> int \<Rightarrow> string" where
  "renderSolverStatus info serverName namespace attempt =
     (let nextAttempt = attempt + 1
      in if si_solverRunning info then poll_again serverName namespace nextAttempt '' Running solver...''
         else if si_solverFailed info then solver_failed_html
         else if si_solverCompleted info \<and> si_readySuccess info then resolved_html
         else if si_readyFailed info then failed_html
         else poll_again serverName namespace nextAttempt '' Working...'')"

definition poll_attempt :: "string \<Rightarrow> int" where
  "poll_attempt attemptStr =
     (let attempt = (if attemptStr \<noteq> [] then (case Sscanf_d attemptStr of None \<Rightarrow> 1 | Some n \<Rightarrow> n) else 1)
      in if attempt < 1 then 1 else attempt)"

definition handleServerStatus :: "('w, 'sched) ui \<Rightarrow> ui_request \<Rightarrow> ('w, reply) op" where
  "handleServerStatus u q =
     (let serverName = ui_query q ''name''; namespace = ui_query q ''namespace'';
          attempt = poll_attempt (ui_query q ''attempt'')
      in if uq_Method q \<noteq> ''GET'' then State_Monad.return method_not_allowed
         else if serverName = [] \<or> namespace = [] then
           State_Monad.return (HttpError 400 (plain ''Missing name or namespace parameter''))
         else if attempt > 30 then
           State_Monad.return (Html (''<span style=\"color: orange;\">'' @ stopwatch @ '' Timeout - check logs</span>''))
         else do {
           g \<leftarrow> get_server (world_ext (ui_client u)) namespace serverName;
           State_Monad.return
             (case g of
                Inl err \<Rightarrow> Html (''<span style=\"color: red;\">'' @ cross_mark @ '' Error</span>'')
              | Inr server \<Rightarrow> Html (renderSolverStatus (parseSolverStatus server) serverName namespace attempt))
         })"

subsection \<open>ConfigMaps\<close>

definition handleListConfigMaps :: "('w, 'sched) ui \<Rightarrow> ui_request \<Rightarrow> ('w, reply) op" where
  "handleListConfigMaps u q =
     (if ui_query q ''namespace'' = [] then State_Monad.return (HttpError 400 (plain ''Missing namespace parameter''))
      else do {
        cms \<leftarrow> ListConfigMaps (ui_client u) (ui_query q ''namespace'');
        State_Monad.return
          (case cms of
             Inl err \<Rightarrow> HttpError 500 (''Failed to list ConfigMaps: %v'', [AErrs [err]])
           | Inr summaries \<Rightarrow> Summaries summaries)
      })"

definition handleCreateConfigMap :: "('w, 'sched) ui \<Rightarrow> ui_request \<Rightarrow> ('w, reply) op" where
  "handleCreateConfigMap u q =
     (if uq_Method q \<noteq> ''POST'' then State_Monad.return method_not_allowed
      else case uq_Body q of
        None \<Rightarrow> State_Monad.return (HttpError 400 (plain ''Invalid JSON body''))
      | Some req \<Rightarrow>
          if cmb_Name req = [] \<or> cmb_Namespace req = [] \<or> cmb_Data req = [] then
            State_Monad.return (HttpError 400 (plain ''name, namespace, and data are required''))
          else do {
            r \<leftarrow> CreateConfigMap (ui_client u) (cmb_Namespace req) (cmb_Name req) (map_of (cmb_Data req));
            State_Monad.return
              (case r of
                 Inl err \<Rightarrow> HttpError 500 (''Failed to create ConfigMap: %v'', [AErrs [err]])
               | Inr _ \<Rightarrow> CreatedReply (cmb_Name req) (cmb_Namespace req))
          })"

subsection \<open>Routes\<close>

definition handlePluginRoutes :: "('w, 'sched) ui \<Rightarrow> ui_request \<Rightarrow> ('w, reply) op" where
  "handlePluginRoutes u q =
     (let parts = split_on (CHR ''/'') (TrimPrefix (uq_Path q) ''/ui/plugin/'')
      in if length parts < 1 \<or> parts ! 0 = [] then State_Monad.return NotFoundPage
         else if length parts \<ge> 2 then
           (if parts ! 1 = ''delete'' then handlePluginDelete u q
            else if parts ! 1 = ''edit'' then handlePluginEdit u q (parts ! 0)
            else State_Monad.return NotFoundPage)
         else handlePluginDetailPage u q (parts ! 0))"

definition handleServerRoutes :: "('w, 'sched) ui \<Rightarrow> ui_request \<Rightarrow> ('w, reply) op" where
  "handleServerRoutes u q =
     (let parts = split_on (CHR ''/'') (TrimPrefix (uq_Path q) ''/ui/server/'')
      in if length parts < 1 \<or> parts ! 0 = [] then State_Monad.return NotFoundPage
         else if length parts \<ge> 2 then
           (if parts ! 1 = ''delete'' then handleServerDelete u q
            else if parts ! 1 = ''apply-now'' then handleApplyNow u q
            else if parts ! 1 = ''edit'' then handleServerEdit u q (parts ! 0)
            else State_Monad.return NotFoundPage)
         else handleServerDetailPage u q (parts ! 0))"

text \<open>The handlers that \<^verbatim>\<open>NewServer\<close> registers, each with its pattern.\<close>

datatype route =
    StaticFiles | SpecFile | ListConfigMapsRoute | CreateConfigMapRoute | DashboardRoute | ServerCreateRoute | ServerRoutes
  | EventsRoute | ServerResolveRoute | ServerStatusRoute | PluginResolveRoute | PluginListRoute | PluginCreateRoute
  | PluginRoutes | ApiRoutes

definition ui_patterns :: "bool \<Rightarrow> (string \<times> route) list" where
  "ui_patterns hasApi =
     [(''/ui/static/'', StaticFiles), (''/api/v1/openapi.yaml'', SpecFile), (''/ui/api/configmaps'', ListConfigMapsRoute),
      (''/ui/api/configmaps/create'', CreateConfigMapRoute), (''/ui'', DashboardRoute),
      (''/ui/server/new'', ServerCreateRoute), (''/ui/server/'', ServerRoutes), (''/ui/events'', EventsRoute),
      (''/ui/server/resolve'', ServerResolveRoute), (''/ui/server/status'', ServerStatusRoute),
      (''/ui/plugin/resolve'', PluginResolveRoute), (''/ui/plugins'', PluginListRoute),
      (''/ui/plugin/new'', PluginCreateRoute), (''/ui/plugin/'', PluginRoutes)] @
     (if hasApi then [(''/api/v1/'', ApiRoutes)] else [])"

text \<open>A pattern matches the path itself and, where it ends in a slash, every path below it; the longest
  pattern wins.\<close>

definition pattern_matches :: "string \<Rightarrow> string \<Rightarrow> bool" where
  "pattern_matches path pat \<longleftrightarrow> path = pat \<or> HasSuffix pat ''/'' \<and> HasPrefix path pat"

definition mux_match :: "(string \<times> route) list \<Rightarrow> string \<Rightarrow> (string \<times> route) option" where
  "mux_match pats path =
     find (\<lambda>(pat, _). pattern_matches path pat) (rev (sort_key (\<lambda>(pat, _). length pat) pats))"

datatype muxed = Serve route | MovedTo string | NoRoute

definition mux_handler :: "(string \<times> route) list \<Rightarrow> string \<Rightarrow> muxed" where
  "mux_handler pats urlPath =
     (let path = cleanPath urlPath; m = mux_match pats path
      in if map_of pats path = None \<and> \<not> HasSuffix path ''/'' \<and> map_of pats (path @ ''/'') \<noteq> None then MovedTo (path @ ''/'')
         else if path \<noteq> urlPath then MovedTo path
         else case m of None \<Rightarrow> NoRoute | Some (_, r) \<Rightarrow> Serve r)"

primrec serve_route :: "('w, 'sched) ui \<Rightarrow> ui_request \<Rightarrow> route \<Rightarrow> ('w, reply) op" where
  "serve_route u q StaticFiles = State_Monad.return (StaticFile (TrimPrefix (uq_Path q) ''/ui/static/''))"
| "serve_route u q SpecFile = State_Monad.return OpenApiSpec"
| "serve_route u q ListConfigMapsRoute = handleListConfigMaps u q"
| "serve_route u q CreateConfigMapRoute = handleCreateConfigMap u q"
| "serve_route u q DashboardRoute = handleDashboard u q"
| "serve_route u q ServerCreateRoute = State_Monad.return (handleServerCreate u q)"
| "serve_route u q ServerRoutes = handleServerRoutes u q"
| "serve_route u q EventsRoute = State_Monad.return EventStream"
| "serve_route u q ServerResolveRoute = handleServerResolve u q"
| "serve_route u q ServerStatusRoute = handleServerStatus u q"
| "serve_route u q PluginResolveRoute = handlePluginResolve u q"
| "serve_route u q PluginListRoute = handlePluginList u q"
| "serve_route u q PluginCreateRoute = State_Monad.return (handlePluginCreate u q)"
| "serve_route u q PluginRoutes = handlePluginRoutes u q"
| "serve_route u q ApiRoutes = State_Monad.return (RestCall (TrimPrefix (uq_Path q) ''/api/v1''))"

definition ui_serve :: "('w, 'sched) ui \<Rightarrow> ui_request \<Rightarrow> ('w, reply) op" where
  "ui_serve u q =
     (case mux_handler (ui_patterns (ui_hasApi u)) (uq_Path q) of
        Serve r \<Rightarrow> serve_route u q r
      | MovedTo path \<Rightarrow> State_Monad.return (RedirectTo 301 path)
      | NoRoute \<Rightarrow> State_Monad.return NotFoundPage)"

subsection \<open>What a request may write\<close>

text \<open>The request to the REST API that does the same.\<close>

primrec ui_names :: "ui_request \<Rightarrow> request \<Rightarrow> bool" where
  "ui_names q R_GetHealth \<longleftrightarrow> False"
| "ui_names q R_ListNamespaces \<longleftrightarrow> False"
| "ui_names q (R_ListServers ns) \<longleftrightarrow> False"
| "ui_names q (R_CreateServer b) \<longleftrightarrow> False"
| "ui_names q (R_GetServer ns n) \<longleftrightarrow> False"
| "ui_names q (R_UpdateServer ns n b) \<longleftrightarrow> False"
| "ui_names q (R_DeleteServer ns n) \<longleftrightarrow>
     ns = ui_query q ''namespace'' \<and> HasPrefix (uq_Path q) (''/ui/server/'' @ n @ ''/delete'')"
| "ui_names q (R_ResolveServer ns n) \<longleftrightarrow>
     ns = ui_query q ''namespace'' \<and> n = ui_query q ''name'' \<and> uq_Path q = ''/ui/server/resolve''"
| "ui_names q (R_ApplyNowServer ns n) \<longleftrightarrow>
     ns = ui_query q ''namespace'' \<and> HasPrefix (uq_Path q) (''/ui/server/'' @ n @ ''/apply-now'')"
| "ui_names q (R_ListPlugins ns) \<longleftrightarrow> False"
| "ui_names q (R_CreatePlugin b) \<longleftrightarrow> False"
| "ui_names q (R_GetPlugin ns n) \<longleftrightarrow> False"
| "ui_names q (R_UpdatePlugin ns n b) \<longleftrightarrow> False"
| "ui_names q (R_DeletePlugin ns n) \<longleftrightarrow>
     ns = ui_query q ''namespace'' \<and> HasPrefix (uq_Path q) (''/ui/plugin/'' @ n @ ''/delete'')"
| "ui_names q (R_ResolvePlugin ns n) \<longleftrightarrow>
     ns = ui_query q ''namespace'' \<and> n = ui_query q ''name'' \<and> uq_Path q = ''/ui/plugin/resolve''"
| "ui_names q (R_ListConfigMaps ns) \<longleftrightarrow> False"
| "ui_names q (R_CreateConfigMap ns b) \<longleftrightarrow>
     uq_Path q = ''/ui/api/configmaps/create'' \<and>
     uq_Body q = map_option (\<lambda>c. \<lparr>cmb_Name = acm_Name c, cmb_Namespace = acm_Namespace c, cmb_Data = acm_Data c\<rparr>) b"

text \<open>Replies that report an action as done.\<close>

fun announces :: "reply \<Rightarrow> bool" where
  "announces (Html _) = True"
| "announces (Plain _) = True"
| "announces (CreatedReply _ _) = True"
| "announces (RedirectTo c _) = (c = 303)"
| "announces _ = False"

definition client_error :: "reply \<Rightarrow> bool" where
  "client_error rep = (case reply_code rep of None \<Rightarrow> False | Some c \<Rightarrow> 400 \<le> c \<and> c < 500)"

definition ui_confined :: "ui_request \<Rightarrow> reply \<Rightarrow> event list \<Rightarrow> bool" where
  "ui_confined q rep t \<longleftrightarrow>
     length (writes t) \<le> 1 \<and>
     (writes t \<noteq> [] \<longrightarrow> uq_Method q = ''POST'' \<and> (\<exists>req. ui_names q req \<and> list_all (may_write req t) (writes t))) \<and>
     (uq_Method q = ''POST'' \<and> announces rep \<longrightarrow> map write_ok (writes t) = [Some True]) \<and>
     (client_error rep \<longrightarrow> Some True \<notin> set (map write_ok (writes t)))"

lemma reading_confined:
  assumes "only (\<lambda>e. write_ok e = None) m" and "\<And>a. uq_Method q = ''POST'' \<Longrightarrow> \<not> announces (f a)"
  shows "emits (do { a \<leftarrow> m; State_Monad.return (f a) }) (ui_confined q)"
  by (rule tr_bind_emits [OF onlyD [OF assms(1)]])
    (auto intro!: tr_return dest!: write_ok_Nil simp: ui_confined_def assms(2))

lemma return_confined:
  assumes "uq_Method q = ''POST'' \<Longrightarrow> \<not> announces rep"
  shows "emits (State_Monad.return rep) (ui_confined q)"
  using assms by (auto intro!: tr_return simp: ui_confined_def)

lemma action_confined:
  fixes m :: "('w, unit result) op"
  assumes "emits m (one_write req)" and "ui_names q req" and "uq_Method q = ''POST''"
    and "\<And>err. \<not> announces (f err)" and "\<not> client_error (g ())"
  shows "emits (do { r \<leftarrow> m; State_Monad.return (case r of Inl err \<Rightarrow> f err | Inr v \<Rightarrow> g v) }) (ui_confined q)"
  by (rule tr_bind_emits [OF assms(1)])
    (use assms in \<open>auto intro!: tr_return simp: ui_confined_def one_write_def split: sum.splits\<close>)

lemma split_on_head: "split_on d r = u # ws \<Longrightarrow> \<exists>x. r = u @ x"
  by (induction d r arbitrary: u ws rule: split_on.induct) (auto split: if_splits list.splits)

lemma split_on_second: "split_on d r = u # v # ws \<Longrightarrow> \<exists>x. r = u @ d # v @ x"
proof (induction d r arbitrary: u rule: split_on.induct)
  case (2 d c cs)
  then show ?case by (cases "c = d") (auto split: list.splits dest: split_on_head)
qed simp

lemma parse_action_path:
  assumes "parseResourcePathAction q pre a = Some (n, ns)" and "HasPrefix (uq_Path q) pre"
  shows "HasPrefix (uq_Path q) (pre @ n @ CHR ''/'' # a)" and "ns = ui_query q ''namespace''"
proof -
  obtain r where r: "uq_Path q = pre @ r" using assms(2) by (auto simp: HasPrefix_iff)
  let ?parts = "split_on (CHR ''/'') r"
  have p: "2 \<le> length ?parts" "?parts ! 1 = a" "?parts ! 0 = n" "ns = ui_query q ''namespace''"
    using assms(1) by (auto simp: parseResourcePathAction_def TrimPrefix_def HasPrefix_def r Let_def split: if_splits)
  then obtain ws where "?parts = n # a # ws" by (cases ?parts; cases "tl ?parts") auto
  then show "HasPrefix (uq_Path q) (pre @ n @ CHR ''/'' # a)" "ns = ui_query q ''namespace''"
    using split_on_second p(4) unfolding r HasPrefix_iff by fastforce+
qed

lemma confined_write:
  assumes "ui_names q req" and "uq_Method q = ''POST''" and "writes t = [e]" and "may_write req t e"
    and "announces rep \<Longrightarrow> write_ok e = Some True" and "client_error rep \<Longrightarrow> write_ok e \<noteq> Some True"
  shows "ui_confined q rep t"
  using assms by (auto simp: ui_confined_def)

lemma confined_no_write: "writes t = [] \<Longrightarrow> \<not> announces rep \<Longrightarrow> ui_confined q rep t"
  by (simp add: ui_confined_def)

lemma delete_reply_confined:
  assumes "ui_names q req" and "uq_Method q = ''POST''" and "writes t = [e]" and "may_write req t e"
    and "write_ok e = Some (is_ok d)"
  shows "ui_confined q (case d of Inl err \<Rightarrow> HttpError 500 (m err) | Inr _ \<Rightarrow> RedirectTo 303 url) t"
  using assms by (cases d) (auto intro!: confined_write simp: client_error_def)

lemma server_delete_confined:
  assumes "HasPrefix (uq_Path q) ''/ui/server/''"
  shows "emits (handleServerDelete u q) (ui_confined q)"
  unfolding handleServerDelete_def handleResourceDelete_def call_ops service_call_ops
proof (intro tr_rules; (simp add: confined_no_write method_not_allowed_def; fail)?)
  fix p n ns w s w' and a :: "PaperMCServer result" and d :: "unit result"
  assume "parseResourcePathAction q ''/ui/server/'' ''delete'' = Some p" "p = (n, ns)"
  with parse_action_path [OF _ assms] have "ui_names q (R_DeleteServer ns n)" by simp
  moreover assume "a = Inr s" "\<not> uq_Method q \<noteq> ''POST''"
  ultimately show "ui_confined q (case d of Inl err \<Rightarrow> HttpError 500 (''Failed to delete %s: %v'', [AStr ''server'', AErrs [err]])
      | Inr _ \<Rightarrow> RedirectTo 303 ''/ui'') (([] @ [E_GetServer ns n a]) @ [E_DeleteServer s (is_ok d)])"
    by (intro delete_reply_confined [where req = "R_DeleteServer ns n" and e = "E_DeleteServer s (is_ok d)"]) auto
qed

lemma plugin_delete_confined:
  assumes "HasPrefix (uq_Path q) ''/ui/plugin/''"
  shows "emits (handlePluginDelete u q) (ui_confined q)"
  unfolding handlePluginDelete_def handleResourceDelete_def call_ops service_call_ops
proof (intro tr_rules; (simp add: confined_no_write method_not_allowed_def; fail)?)
  fix r n ns w p w' and a :: "Plugin result" and d :: "unit result"
  assume "parseResourcePathAction q ''/ui/plugin/'' ''delete'' = Some r" "r = (n, ns)"
  with parse_action_path [OF _ assms] have "ui_names q (R_DeletePlugin ns n)" by simp
  moreover assume "a = Inr p" "\<not> uq_Method q \<noteq> ''POST''"
  ultimately show "ui_confined q (case d of Inl err \<Rightarrow> HttpError 500 (''Failed to delete %s: %v'', [AStr ''plugin'', AErrs [err]])
      | Inr _ \<Rightarrow> RedirectTo 303 ''/ui/plugins'') (([] @ [E_GetPlugin ns n a]) @ [E_DeletePlugin p (is_ok d)])"
    by (intro delete_reply_confined [where req = "R_DeletePlugin ns n" and e = "E_DeletePlugin p (is_ok d)"]) auto
qed

lemma apply_now_confined:
  assumes "HasPrefix (uq_Path q) ''/ui/server/''"
  shows "emits (handleApplyNow u q) (ui_confined q)"
proof (cases "parseResourcePathAction q ''/ui/server/'' ''apply-now''")
  case None
  then show ?thesis
    unfolding handleApplyNow_def by (auto intro!: return_confined simp: method_not_allowed_def)
next
  case (Some p)
  obtain n ns where p: "p = (n, ns)" by (cases p)
  with parse_action_path [OF _ assms] Some have "ui_names q (R_ApplyNowServer ns n)" by simp
  with Some p show ?thesis
    unfolding handleApplyNow_def
    by (auto intro!: return_confined action_confined one_write_server_actions simp: method_not_allowed_def client_error_def)
qed

lemma resolve_confined:
  "uq_Path q = ''/ui/server/resolve'' \<Longrightarrow> emits (handleServerResolve u q) (ui_confined q)"
  "uq_Path q = ''/ui/plugin/resolve'' \<Longrightarrow> emits (handlePluginResolve u q) (ui_confined q)"
  unfolding handleServerResolve_def handlePluginResolve_def Let_def
  by (auto intro!: return_confined action_confined one_write_server_actions one_write_resolve_plugin
      simp: method_not_allowed_def client_error_def)

lemma create_config_map_confined:
  assumes "uq_Path q = ''/ui/api/configmaps/create''"
  shows "emits (handleCreateConfigMap u q) (ui_confined q)"
proof (cases "uq_Body q")
  case (Some b)
  let ?c = "\<lparr>acm_Data = cmb_Data b, acm_Name = cmb_Name b, acm_Namespace = cmb_Namespace b\<rparr>"
  have "ui_names q (R_CreateConfigMap [] (Some ?c))" using assms Some by simp
  moreover have "emits (CreateConfigMap (ui_client u) (cmb_Namespace b) (cmb_Name b) (map_of (cmb_Data b)))
      (one_write (R_CreateConfigMap [] (Some ?c)))"
    using one_write_config_map [of "ui_client u" ?c] by simp
  ultimately show ?thesis
    unfolding handleCreateConfigMap_def using Some
    by (auto intro!: return_confined action_confined simp: method_not_allowed_def client_error_def)
qed (auto simp: handleCreateConfigMap_def method_not_allowed_def intro!: return_confined)

text \<open>The pages and forms only read.\<close>

lemma reads_ListServers: "only (\<lambda>e. write_ok e = None) (ServerService_ListServers y ns)"
  and reads_ListPlugins: "only (\<lambda>e. write_ok e = None) (PluginService_ListPlugins y ns)"
  and reads_GetServerByName: "only (\<lambda>e. write_ok e = None) (ServerService_GetServerByName y n)"
  and reads_ListConfigMaps: "only (\<lambda>e. write_ok e = None) (ListConfigMaps y ns)"
  unfolding ServerService_ListServers_def PluginService_ListPlugins_def ServerService_GetServerByName_def server_details_def
    ListConfigMaps_def call_ops server_call_ops service_call_ops
  by (intro only_rules reads_rules; simp)+

lemmas page_reads = reads_rules reads_ListServers reads_ListPlugins reads_GetServerByName reads_ListConfigMaps

lemma reads_page_data:
  "only (\<lambda>e. write_ok e = None) (fetchDashboardData u ns)" "only (\<lambda>e. write_ok e = None) (fetchPluginListData u ns)"
  unfolding fetchDashboardData_def fetchPluginListData_def by (intro only_rules page_reads; simp)+

lemma rendered_silent [simp]: "\<not> announces (rendered u m p)"
  by (simp add: rendered_def split: option.split)

lemma form_silent [simp]: "\<not> announces (renderSchemaForm u sn mode surl burl t vs)"
  by (simp add: renderSchemaForm_def split: option.split sum.split)

lemma pages_confined:
  "emits (handleDashboard u q) (ui_confined q)" "emits (handlePluginList u q) (ui_confined q)"
  "emits (handleServerDetailPage u q n) (ui_confined q)" "emits (handlePluginDetailPage u q n) (ui_confined q)"
  "emits (handleServerEdit u q n) (ui_confined q)" "emits (handlePluginEdit u q n) (ui_confined q)"
  "emits (handleListConfigMaps u q) (ui_confined q)"
  unfolding handleDashboard_def handlePluginList_def handleServerDetailPage_def handlePluginDetailPage_def
    handleServerEdit_def handlePluginEdit_def handleListConfigMaps_def Let_def
  by (auto intro!: return_confined reading_confined page_reads reads_page_data split: sum.splits if_splits)

lemma status_confined: "emits (handleServerStatus u q) (ui_confined q)"
  unfolding handleServerStatus_def Let_def call_ops
  by (auto intro!: return_confined reading_confined only_rules simp: method_not_allowed_def)

lemma forms_confined:
  "emits (State_Monad.return (handleServerCreate u q)) (ui_confined q)"
  "emits (State_Monad.return (handlePluginCreate u q)) (ui_confined q)"
  by (auto intro!: return_confined simp: handleServerCreate_def handlePluginCreate_def method_not_allowed_def)

lemma routes_confined:
  "HasPrefix (uq_Path q) ''/ui/server/'' \<Longrightarrow> emits (handleServerRoutes u q) (ui_confined q)"
  "HasPrefix (uq_Path q) ''/ui/plugin/'' \<Longrightarrow> emits (handlePluginRoutes u q) (ui_confined q)"
  unfolding handleServerRoutes_def handlePluginRoutes_def Let_def
  by (auto intro!: return_confined pages_confined server_delete_confined plugin_delete_confined apply_now_confined)

lemma mux_handler_Serve:
  assumes "mux_handler pats path = Serve r"
  shows "\<exists>pat. (pat, r) \<in> set pats \<and> pattern_matches path pat"
proof -
  obtain pat where "mux_match pats path = Some (pat, r)"
    using assms by (auto simp: mux_handler_def Let_def split: if_splits option.splits)
  then obtain i where "i < length pats" "rev (sort_key (\<lambda>(pat, _). length pat) pats) ! i = (pat, r)"
    "pattern_matches path pat"
    by (auto simp: mux_match_def find_Some_iff)
  then have "(pat, r) \<in> set (rev (sort_key (\<lambda>(pat, _). length pat) pats))"
    by (metis length_rev length_sort nth_mem)
  with \<open>pattern_matches path pat\<close> show ?thesis by auto
qed

text \<open>C14. A request to the web pages makes at most one write, only if its method is POST, and only what the request
  to the REST API that its path and query name may write. A reply to a POST that reports success
  (a redirect, a created object, a message) means that the write succeeded, and one that reports an error of
  the client (4xx) that nothing was written.\<close>

theorem ui_writes_confined: "emits (ui_serve u q) (ui_confined q)"
proof (cases "mux_handler (ui_patterns (ui_hasApi u)) (uq_Path q)")
  case (Serve r)
  then obtain pat where pat: "(pat, r) \<in> set (ui_patterns (ui_hasApi u))" "pattern_matches (uq_Path q) pat"
    using mux_handler_Serve by blast
  then have "emits (serve_route u q r) (ui_confined q)"
    by (cases r)
      (auto simp: ui_patterns_def pattern_matches_def HasSuffix_def return_confined pages_confined forms_confined status_confined
        resolve_confined create_config_map_confined routes_confined HasPrefix_def split: if_splits)
  then show ?thesis by (simp add: ui_serve_def Serve)
qed (simp_all add: ui_serve_def return_confined)

subsection \<open>Pages of resources\<close>

lemma mux_match_longest:
  assumes "(pat, r) \<in> set pats" and "pattern_matches path pat"
    and "\<And>pat' r'. (pat', r') \<in> set pats \<Longrightarrow> pattern_matches path pat' \<Longrightarrow> (pat', r') = (pat, r) \<or> length pat' < length pat"
  shows "mux_match pats path = Some (pat, r)"
proof -
  let ?xs = "rev (sort_key (\<lambda>(pat, _). length pat) pats)"
  let ?P = "\<lambda>(pat, _). pattern_matches path pat"
  obtain x where x: "find ?P ?xs = Some x" using assms(1,2) by (cases "find ?P ?xs") (auto simp: find_None_iff)
  then obtain i where i: "i < length ?xs" "?xs ! i = x" "?P x" "\<forall>j < i. \<not> ?P (?xs ! j)" by (auto simp: find_Some_iff)
  obtain j where j: "j < length ?xs" "?xs ! j = (pat, r)" using assms(1) by (metis in_set_conv_nth set_rev set_sort)
  have "i \<le> j" using i(4) j(2) assms(2) by (metis (no_types, lifting) case_prod_conv not_le_imp_less)
  moreover have sorted: "sorted_wrt (\<ge>) (map (\<lambda>(pat, _). length pat) ?xs)"
    by (simp add: sorted_wrt_rev flip: rev_map)
  have "length (fst (?xs ! j)) \<le> length (fst (?xs ! i))" if "i < j"
    using sorted_wrt_nth_less [OF sorted that] j(1) i(1) by (simp add: case_prod_beta)
  ultimately have "length pat \<le> length (fst x)"
    using i(2) j(2) by (cases "i = j") (auto simp del: rev_nth)
  moreover have "x \<in> set pats" using i(1,2) by (metis nth_mem set_rev set_sort)
  ultimately have "x = (pat, r)" using assms(3) [of "fst x" "snd x"] i(3) by (auto simp: case_prod_beta)
  with x show ?thesis by (simp add: mux_match_def)
qed

lemma k8s_name_chars:
  assumes "IsValidKubernetesName name"
  shows "CHR ''/'' \<notin> set name" and "name \<noteq> []" and "name \<noteq> ''.''" and "name \<noteq> ''..''"
  using assms by (auto simp: IsValidKubernetesName_def isAlphanumeric_def list_all_iff split: if_splits)

lemma cleanPath_resource:
  assumes "IsValidKubernetesName name"
  shows "cleanPath (''/ui/server/'' @ name) = ''/ui/server/'' @ name" and "cleanPath (''/ui/plugin/'' @ name) = ''/ui/plugin/'' @ name"
    and "\<not> HasSuffix (''/ui/server/'' @ name) ''/''" and "\<not> HasSuffix (''/ui/plugin/'' @ name) ''/''"
proof -
  have suffix: "\<not> HasSuffix (p @ name) ''/''" for p
    using k8s_name_chars(1,2) [OF assms] by (auto simp: HasSuffix_iff append_eq_append_conv2 append_eq_Cons_conv)
  then show "\<not> HasSuffix (''/ui/server/'' @ name) ''/''" "\<not> HasSuffix (''/ui/plugin/'' @ name) ''/''" by blast+
  show "cleanPath (''/ui/server/'' @ name) = ''/ui/server/'' @ name" "cleanPath (''/ui/plugin/'' @ name) = ''/ui/plugin/'' @ name"
    using suffix [of "''/ui/server/''"] suffix [of "''/ui/plugin/''"] k8s_name_chars [OF assms]
    by (simp_all add: cleanPath_def split_on_notin Let_def)
qed

lemma pattern_below:
  assumes "CHR ''/'' \<notin> set name"
  shows "pattern_matches (pre @ name) pat \<longleftrightarrow> pat = pre @ name \<or> HasSuffix pat ''/'' \<and> HasPrefix pre pat"
proof -
  have "\<exists>x. pre = (p @ ''/'') @ x" if "pre @ name = (p @ ''/'') @ r" for p r
    using that assms by (auto simp: append_eq_append_conv2 append_eq_Cons_conv Cons_eq_append_conv)
  then show ?thesis
    by (auto simp: pattern_matches_def HasSuffix_iff HasPrefix_iff) 
qed

lemma ui_patterns_distinct: "distinct (map fst (ui_patterns hasApi))"
  by (simp add: ui_patterns_def)

lemma exact_patterns:
  "map_of (ui_patterns hasApi) (''/ui/server/'' @ name) =
     (if name = [] then Some ServerRoutes else if name = ''new'' then Some ServerCreateRoute
      else if name = ''resolve'' then Some ServerResolveRoute else if name = ''status'' then Some ServerStatusRoute else None)"
  "map_of (ui_patterns hasApi) (''/ui/plugin/'' @ name) =
     (if name = [] then Some PluginRoutes else if name = ''new'' then Some PluginCreateRoute
      else if name = ''resolve'' then Some PluginResolveRoute else None)"
  by (simp_all add: ui_patterns_def eq_commute [of _ name])

lemma tree_patterns:
  "filter (\<lambda>(pat, _). HasSuffix pat ''/'' \<and> HasPrefix ''/ui/server/'' pat) (ui_patterns hasApi) = [(''/ui/server/'', ServerRoutes)]"
  "filter (\<lambda>(pat, _). HasSuffix pat ''/'' \<and> HasPrefix ''/ui/plugin/'' pat) (ui_patterns hasApi) = [(''/ui/plugin/'', PluginRoutes)]"
  by (simp_all add: ui_patterns_def HasSuffix_def HasPrefix_def)

text \<open>A path below a tree is served by the pattern that is the path, if there is one, and else by the tree.\<close>

lemma mux_below:
  assumes "filter (\<lambda>(pat, _). HasSuffix pat ''/'' \<and> HasPrefix pre pat) pats = [(pre, tree)]" (is "filter ?P pats = _") and "distinct (map fst pats)"
    and "CHR ''/'' \<notin> set name" and "name \<noteq> []"
  shows "mux_match pats (pre @ name) =
    Some (case map_of pats (pre @ name) of None \<Rightarrow> (pre, tree) | Some r \<Rightarrow> (pre @ name, r))"
proof -
  have below: "(pat, r) = (pre, tree) \<or> pat = pre @ name \<and> map_of pats (pre @ name) = Some r"
    if "(pat, r) \<in> set pats" "pattern_matches (pre @ name) pat" for pat r
  proof (cases "pat = pre @ name")
    case True
    with that(1) show ?thesis by (simp add: map_of_eq_Some_iff [OF assms(2)])
  next
    case False
    with that have "(pat, r) \<in> set (filter ?P pats)" unfolding pattern_below [OF assms(3)] by simp
    then show ?thesis unfolding assms(1) by simp
  qed
  have "(pre, tree) \<in> set (filter ?P pats)" unfolding assms(1) by simp
  then have tree: "(pre, tree) \<in> set pats" "HasSuffix pre ''/''" by simp_all
  show ?thesis
  proof (cases "map_of pats (pre @ name)")
    case None
    have "mux_match pats (pre @ name) = Some (pre, tree)"
    proof (rule mux_match_longest [OF tree(1)])
      show "pattern_matches (pre @ name) pre" using tree(2) by (simp add: pattern_matches_def HasPrefix_def)
      show "(pat, r) = (pre, tree) \<or> length pat < length pre"
        if "(pat, r) \<in> set pats" "pattern_matches (pre @ name) pat" for pat r
        using below [OF that] None by simp
    qed
    with None show ?thesis by simp
  next
    case (Some r)
    have "mux_match pats (pre @ name) = Some (pre @ name, r)"
    proof (rule mux_match_longest [OF map_of_SomeD [OF Some]])
      show "pattern_matches (pre @ name) (pre @ name)" by (simp add: pattern_matches_def)
      show "(pat, r') = (pre @ name, r) \<or> length pat < length (pre @ name)"
        if "(pat, r') \<in> set pats" "pattern_matches (pre @ name) pat" for pat r'
        using below [OF that] Some assms(4) by auto
    qed
    with Some show ?thesis by simp
  qed
qed

lemma resource_routes:
  assumes "IsValidKubernetesName name"
  shows "mux_handler (ui_patterns hasApi) (''/ui/server/'' @ name) = Serve
      (if name = ''new'' then ServerCreateRoute else if name = ''resolve'' then ServerResolveRoute
       else if name = ''status'' then ServerStatusRoute else ServerRoutes)" (is ?s)
    and "mux_handler (ui_patterns hasApi) (''/ui/plugin/'' @ name) = Serve
      (if name = ''new'' then PluginCreateRoute else if name = ''resolve'' then PluginResolveRoute else PluginRoutes)" (is ?p)
proof -
  note name = k8s_name_chars(1,2) [OF assms] cleanPath_resource [OF assms]
  have long: "map_of (ui_patterns hasApi) (pre @ name @ ''/'') = None" if "pre \<in> {''/ui/server/'', ''/ui/plugin/''}" for pre
    using that exact_patterns [of hasApi "name @ ''/''"] name(1,2) by auto
  have "mux_match (ui_patterns hasApi) (''/ui/server/'' @ name) = Some (case map_of (ui_patterns hasApi) (''/ui/server/'' @ name) of
      None \<Rightarrow> (''/ui/server/'', ServerRoutes) | Some r \<Rightarrow> (''/ui/server/'' @ name, r))"
    by (rule mux_below [OF tree_patterns(1) ui_patterns_distinct name(1,2)])
  with name long [of "''/ui/server/''"] exact_patterns(1) [of hasApi name] show ?s
    unfolding mux_handler_def Let_def name append_assoc by simp
  have "mux_match (ui_patterns hasApi) (''/ui/plugin/'' @ name) = Some (case map_of (ui_patterns hasApi) (''/ui/plugin/'' @ name) of
      None \<Rightarrow> (''/ui/plugin/'', PluginRoutes) | Some r \<Rightarrow> (''/ui/plugin/'' @ name, r))"
    by (rule mux_below [OF tree_patterns(2) ui_patterns_distinct name(1,2)])
  with name long [of "''/ui/plugin/''"] exact_patterns(2) [of hasApi name] show ?p
    unfolding mux_handler_def Let_def name append_assoc by simp
qed

text \<open>The address of a resource's page. A GET of \<^verbatim>\<open>/ui/server/\<close> with a server's name shows the details of that
  server, unless it is called \<^verbatim>\<open>new\<close>, \<^verbatim>\<open>resolve\<close> or \<^verbatim>\<open>status\<close>: these valid names are answered by the form for a new
  server and by the action and status handlers, and such a server has no page. The same holds for plugins
  called \<^verbatim>\<open>new\<close> or \<^verbatim>\<open>resolve\<close>.\<close>

theorem resource_pages:
  assumes "IsValidKubernetesName name"
  shows "uq_Path q = ''/ui/server/'' @ name \<Longrightarrow> ui_serve u q =
      (if name = ''new'' then State_Monad.return (handleServerCreate u q)
       else if name = ''resolve'' then handleServerResolve u q
       else if name = ''status'' then handleServerStatus u q
       else handleServerDetailPage u q name)"
    and "uq_Path q = ''/ui/plugin/'' @ name \<Longrightarrow> ui_serve u q =
      (if name = ''new'' then State_Monad.return (handlePluginCreate u q)
       else if name = ''resolve'' then handlePluginResolve u q
       else handlePluginDetailPage u q name)"
proof -
  assume path: "uq_Path q = ''/ui/server/'' @ name"
  then have "handleServerRoutes u q = handleServerDetailPage u q name"
    using k8s_name_chars(1,2) [OF assms]
    by (simp add: handleServerRoutes_def TrimPrefix_def HasPrefix_def split_on_notin Let_def)
  then show "ui_serve u q =
      (if name = ''new'' then State_Monad.return (handleServerCreate u q) else if name = ''resolve'' then handleServerResolve u q
       else if name = ''status'' then handleServerStatus u q else handleServerDetailPage u q name)"
    unfolding ui_serve_def path resource_routes [OF assms] by simp
next
  assume path: "uq_Path q = ''/ui/plugin/'' @ name"
  then have "handlePluginRoutes u q = handlePluginDetailPage u q name"
    using k8s_name_chars(1,2) [OF assms]
    by (simp add: handlePluginRoutes_def TrimPrefix_def HasPrefix_def split_on_notin Let_def)
  then show "ui_serve u q =
      (if name = ''new'' then State_Monad.return (handlePluginCreate u q) else if name = ''resolve'' then handlePluginResolve u q
       else handlePluginDetailPage u q name)"
    unfolding ui_serve_def path resource_routes [OF assms] by simp
qed

subsection \<open>Polling\<close>

lemma query_hex_upper: "n < 16 \<Longrightarrow> query_hex (upper_hex n) = Some n"
proof -
  have "\<forall>n \<in> set (upt 0 16). query_hex (upper_hex n) = Some n"
    by (simp add: upt_rec upper_hex_def query_hex_def)
  then show "n < 16 \<Longrightarrow> query_hex (upper_hex n) = Some n" by simp
qed

lemma QueryUnescape_char: "QueryUnescape (query_escape_char c @ s) = map_option (Cons c) (QueryUnescape s)"
proof -
  let ?n = "of_char c :: nat"
  have "?n < 256" by simp
  then have "query_hex (upper_hex (?n div 16)) = Some (?n div 16)" "query_hex (upper_hex (?n mod 16)) = Some (?n mod 16)"
    by (intro query_hex_upper; linarith)+
  moreover have "char_of (?n div 16 * 16 + ?n mod 16) = c" by (simp only: div_mult_mod_eq char_of_char)
  ultimately have "QueryUnescape (CHR ''%'' # upper_hex (?n div 16) # upper_hex (?n mod 16) # s) = map_option (Cons c) (QueryUnescape s)"
    by (simp del: char_of_eq_iff)
  moreover have "c \<noteq> CHR ''%''" "c \<noteq> CHR ''+''" if "unreserved c" using that by (auto simp: unreserved_def)
  ultimately show ?thesis unfolding query_escape_char_def by simp
qed

lemma QueryUnescape_QueryEscape: "QueryUnescape (QueryEscape s) = Some s"
  by (induction s) (simp_all add: QueryEscape_def QueryUnescape_char)

lemma query_escape_chars:
  assumes "d \<in> {CHR ''&'', CHR ''='', CHR '';'', CHR ''?'', CHR 0x22}"
  shows "d \<notin> set (QueryEscape s)"
proof -
  have u: "upper_hex n \<in> set ''0123456789ABCDEF''" if "n < 16" for n
    unfolding upper_hex_def by (rule nth_mem) (use that in simp)
  have h: "d \<noteq> upper_hex n" if "n < 16" for n
    using u [OF that] assms by auto
  have "d \<notin> set (query_escape_char c)" for c
  proof -
    let ?n = "of_char c :: nat"
    have "?n < 256" by simp
    then have "?n div 16 < 16" "?n mod 16 < 16" by linarith+
    then have "d \<noteq> upper_hex (?n div 16)" "d \<noteq> upper_hex (?n mod 16)" using h by blast+
    moreover have "\<not> unreserved d" "d \<noteq> CHR ''+''" "d \<noteq> CHR ''%''" using assms by (auto simp: unreserved_def)
    ultimately show ?thesis unfolding query_escape_char_def by auto
  qed
  then show ?thesis by (simp add: QueryEscape_def)
qed

lemma digits_unescaped: "list_all is_digit s \<Longrightarrow> QueryUnescape s = Some s"
  by (induction s) (auto simp: is_digit_def)

lemma query_pair_plain:
  assumes "CHR '';'' \<notin> set (k @ v)" and "CHR ''='' \<notin> set k" and "QueryUnescape k = Some k" and "QueryUnescape v = Some w"
  shows "query_pair (k @ CHR ''='' # v) = Some (k, w)"
proof -
  have "cut_at (CHR ''='') (k @ CHR ''='' # v) = (k, v)"
    using assms(2) by (auto simp: cut_at_def takeWhile_append dropWhile_append)
  with assms show ?thesis by (simp add: query_pair_def)
qed

text \<open>The address of a status poll names the server whatever its name is made of: read as a query, it gives back the
  name, the namespace and the number of the attempt.\<close>

lemma poll_query_fields:
  assumes "0 \<le> n" and "n < 2 ^ 63"
  shows "query_get (poll_query serverName namespace n) ''name'' = serverName"
    and "query_get (poll_query serverName namespace n) ''namespace'' = namespace"
    and "poll_attempt (query_get (poll_query serverName namespace n) ''attempt'') = max 1 n"
proof -
  have "itoa n \<noteq> []" using nat_dec_not_Nil assms(1) by (simp add: itoa_ascii)
  have dig: "list_all is_digit (itoa n)" using nat_dec_digits assms(1) by (simp add: itoa_ascii)
  then have d: "CHR ''&'' \<notin> set (itoa n)" "CHR '';'' \<notin> set (itoa n)" by (auto simp: list_all_iff is_digit_def)
  have "split_on (CHR ''&'') (poll_query serverName namespace n) =
      [''name'' @ CHR ''='' # QueryEscape serverName, ''namespace'' @ CHR ''='' # QueryEscape namespace, ''attempt'' @ CHR ''='' # itoa n]"
    using split_on_append [of "CHR ''&''" "''name='' @ QueryEscape serverName" "''namespace='' @ QueryEscape namespace @ ''&attempt='' @ itoa n"]
      split_on_append [of "CHR ''&''" "''namespace='' @ QueryEscape namespace" "''attempt='' @ itoa n"]
      split_on_notin [of "CHR ''&''" "''attempt='' @ itoa n"] query_escape_chars [of "CHR ''&''"] d
    by (simp add: poll_query_def del: split_on.simps)
  moreover have "query_pair (''name'' @ CHR ''='' # QueryEscape serverName) = Some (''name'', serverName)"
    "query_pair (''namespace'' @ CHR ''='' # QueryEscape namespace) = Some (''namespace'', namespace)"
    "query_pair (''attempt'' @ CHR ''='' # itoa n) = Some (''attempt'', itoa n)"
    by (rule query_pair_plain; simp add: QueryUnescape_QueryEscape digits_unescaped [OF dig] query_escape_chars d)+
  ultimately have q: "ParseQuery (poll_query serverName namespace n) =
      [(''name'', serverName), (''namespace'', namespace), (''attempt'', itoa n)]"
    by (simp only: ParseQuery_def map_filter_simps option.case)
  show "query_get (poll_query serverName namespace n) ''name'' = serverName"
    "query_get (poll_query serverName namespace n) ''namespace'' = namespace"
    "poll_attempt (query_get (poll_query serverName namespace n) ''attempt'') = max 1 n"
    using assms \<open>itoa n \<noteq> []\<close> by (simp_all add: query_get_def q poll_attempt_def Sscanf_itoa Let_def)
qed

definition status_request :: "string \<Rightarrow> string \<Rightarrow> int \<Rightarrow> ui_request" where
  "status_request serverName namespace n =
     \<lparr>uq_Method = ''GET'', uq_Path = ''/ui/server/status'', uq_RawQuery = poll_query serverName namespace n, uq_Body = None\<rparr>"

definition polls_on :: "string \<Rightarrow> string \<Rightarrow> int \<Rightarrow> reply \<Rightarrow> bool" where
  "polls_on serverName namespace n rep \<longleftrightarrow>
     rep = Html (poll_again serverName namespace n '' Running solver...'') \<or>
     rep = Html (poll_again serverName namespace n '' Working...'')"

text \<open>What a browser does with a reply: the first \<^verbatim>\<open>hx-get\<close> attribute of the text is the address it asks for next.\<close>

fun hx_get :: "string \<Rightarrow> string option" where
  "hx_get [] = None"
| "hx_get (c # cs) =
     (if HasPrefix (c # cs) ''hx-get=\"'' then Some (takeWhile (\<lambda>d. d \<noteq> CHR 0x22) (drop 7 cs)) else hx_get cs)"

definition followed :: "reply \<Rightarrow> ui_request option" where
  "followed rep =
     (case rep of
        Html text \<Rightarrow> map_option (\<lambda>url.
          \<lparr>uq_Method = ''GET'', uq_Path = takeWhile (\<lambda>c. c \<noteq> CHR ''?'') url,
           uq_RawQuery = drop 1 (dropWhile (\<lambda>c. c \<noteq> CHR ''?'') url), uq_Body = None\<rparr>) (hx_get text)
      | _ \<Rightarrow> None)"

text \<open>The requests that a browser sends from a first one, each because the reply before asked for it, with their
  replies; \<open>ss\<close> are the states in which they are served.\<close>

fun poll_run :: "('w, 'sched) ui \<Rightarrow> ui_request \<Rightarrow> 'w sys list \<Rightarrow> (ui_request \<times> reply) list" where
  "poll_run u q [] = []"
| "poll_run u q (s # ss) =
     (let rep = fst (run_state (ui_serve u q) s)
      in (q, rep) # (case followed rep of None \<Rightarrow> [] | Some q' \<Rightarrow> poll_run u q' ss))"

text \<open>A request for the status of a server that is the \<open>n\<close>th attempt.\<close>

definition polls_for :: "string \<Rightarrow> string \<Rightarrow> int \<Rightarrow> ui_request \<Rightarrow> bool" where
  "polls_for serverName namespace n q \<longleftrightarrow> uq_Method q = ''GET'' \<and> uq_Path q = ''/ui/server/status'' \<and>
     query_get (uq_RawQuery q) ''name'' = serverName \<and> query_get (uq_RawQuery q) ''namespace'' = namespace \<and>
     poll_attempt (query_get (uq_RawQuery q) ''attempt'') = n"

lemma status_poll:
  assumes "1 \<le> n" and "n \<le> 31" and "serverName \<noteq> []" and "namespace \<noteq> []"
  shows "ui_serve u (status_request serverName namespace n) =
    (if n = 31 then State_Monad.return (Html (''<span style=\"color: orange;\">'' @ stopwatch @ '' Timeout - check logs</span>''))
     else do {
       g \<leftarrow> get_server (world_ext (ui_client u)) namespace serverName;
       State_Monad.return
         (case g of
            Inl err \<Rightarrow> Html (''<span style=\"color: red;\">'' @ cross_mark @ '' Error</span>'')
          | Inr server \<Rightarrow> Html (renderSolverStatus (parseSolverStatus server) serverName namespace n))
     })"
proof -
  have "IsValidKubernetesName ''status''" by (simp add: IsValidKubernetesName_def isAlphanumeric_def)
  from resource_routes(1) [OF this, of "ui_hasApi u"]
  have "mux_handler (ui_patterns (ui_hasApi u)) ''/ui/server/status'' = Serve ServerStatusRoute" by simp
  then have "ui_serve u (status_request serverName namespace n) = handleServerStatus u (status_request serverName namespace n)"
    by (simp add: ui_serve_def status_request_def)
  moreover have "n < 2 ^ 63" using assms(2) by simp
  ultimately show ?thesis
    using assms poll_query_fields [of n serverName namespace]
    by (simp add: handleServerStatus_def ui_query_def status_request_def max_def)
qed

lemma hx_get_here: "hx_get (''hx-get=\"'' @ s) = Some (takeWhile (\<lambda>d. d \<noteq> CHR 0x22) s)"
  by (simp add: HasPrefix_def)

lemma poll_address_chars: "CHR 0x22 \<notin> set (poll_query serverName namespace n)"
  using query_escape_chars [of "CHR 0x22"] itoa_no_quote by (simp add: poll_query_def)

lemma followed_address:
  assumes "hx_get text = hx_get (''hx-get=\"/ui/server/status?'' @ poll_query serverName namespace n @ CHR 0x22 # rest)"
  shows "followed (Html text) = Some (status_request serverName namespace n)"
proof -
  have "takeWhile (\<lambda>d. d \<noteq> CHR 0x22) (poll_query serverName namespace n @ CHR 0x22 # rest) = poll_query serverName namespace n"
    using poll_address_chars [of serverName namespace n] by (auto simp: takeWhile_append)
  then have "hx_get text = Some (''/ui/server/status?'' @ poll_query serverName namespace n)"
    unfolding assms by (simp add: HasPrefix_def)
  then show ?thesis by (simp add: followed_def status_request_def)
qed

lemma followed_poll_again: "followed (Html (poll_again serverName namespace n shown)) = Some (status_request serverName namespace n)"
  by (rule followed_address) (simp add: poll_again_def HasPrefix_def)

lemma followed_end:
  "followed (Html solver_failed_html) = None" "followed (Html resolved_html) = None" "followed (Html failed_html) = None"
  "followed (Html (''<span style=\"color: orange;\">'' @ stopwatch @ '' Timeout - check logs</span>'')) = None"
  "followed (Html (''<span style=\"color: red;\">'' @ cross_mark @ '' Error</span>'')) = None"
  by (simp_all add: followed_def solver_failed_html_def resolved_html_def failed_html_def cross_mark_def check_mark_def
      stopwatch_def HasPrefix_def)

lemma followed_status:
  assumes "1 \<le> n" and "n \<le> 31" and "serverName \<noteq> []" and "namespace \<noteq> []"
  shows "followed (fst (run_state (ui_serve u (status_request serverName namespace n)) s)) \<in>
    {None} \<union> (if n = 31 then {} else {Some (status_request serverName namespace (n + 1))})"
  unfolding status_poll [OF assms]
  by (auto simp: run_defs followed_end followed_poll_again renderSolverStatus_def Let_def simp del: append_Cons split: sum.split prod.split)

lemma polls_for_request: "1 \<le> n \<Longrightarrow> n \<le> 31 \<Longrightarrow> polls_for serverName namespace n (status_request serverName namespace n)"
  using poll_query_fields [of n serverName namespace] by (simp add: polls_for_def status_request_def)

lemma poll_run_bounded:
  assumes "1 \<le> n" and "n \<le> 31" and "serverName \<noteq> []" and "namespace \<noteq> []"
  shows "length (poll_run u (status_request serverName namespace n) ss) \<le> nat (32 - n) \<and>
    (nat (32 - n) \<le> length ss \<longrightarrow> followed (snd (last (poll_run u (status_request serverName namespace n) ss))) = None) \<and>
    (\<forall>i < length (poll_run u (status_request serverName namespace n) ss).
       polls_for serverName namespace (n + int i) (fst (poll_run u (status_request serverName namespace n) ss ! i)))"
  using assms(1,2)
proof (induction ss arbitrary: n)
  case (Cons s ss)
  let ?q = "status_request serverName namespace n"
  let ?rep = "fst (run_state (ui_serve u ?q) s)"
  note first = polls_for_request [OF Cons.prems, of serverName namespace]
  show ?case
  proof (cases "followed ?rep")
    case None
    then have "poll_run u ?q (s # ss) = [(?q, ?rep)]" by (simp add: Let_def)
    with None first Cons.prems show ?thesis by simp
  next
    case (Some q')
    with followed_status [OF Cons.prems assms(3,4), of u s] have n: "n \<noteq> 31" "q' = status_request serverName namespace (n + 1)"
      by (auto split: if_splits)
    let ?rest = "poll_run u (status_request serverName namespace (n + 1)) ss"
    have run: "poll_run u ?q (s # ss) = (?q, ?rep) # ?rest" using Some n(2) by (simp add: Let_def)
    from Cons.IH [of "n + 1"] Cons.prems n(1)
    have IH: "length ?rest \<le> nat (31 - n)" "nat (31 - n) \<le> length ss \<longrightarrow> followed (snd (last ?rest)) = None"
      "\<forall>i < length ?rest. polls_for serverName namespace (n + 1 + int i) (fst (?rest ! i))"
      by (simp_all add: algebra_simps)
    have "?rest \<noteq> []" if "nat (32 - n) \<le> length (s # ss)"
      using that n(1) Cons.prems(2) by (cases ss) (simp_all add: Let_def)
    moreover have "polls_for serverName namespace (n + int i) (fst (((?q, ?rep) # ?rest) ! i))" if "i < length ((?q, ?rep) # ?rest)" for i
      using that first IH(3) by (cases i) (auto simp: algebra_simps)
    ultimately show ?thesis unfolding run using IH(1,2) Cons.prems n(1) by (auto simp: nat_le_iff)
  qed
qed simp

lemma resolve_page:
  "followed (Html (''<button disabled style=\"background-color: #ccc; color: #666; border: none; '' @
    ''padding: 6px 12px; border-radius: 4px; font-size: 13px; cursor: not-allowed; '' @
    ''white-space: nowrap;\">'' @ hourglass @ '' Resolving...</button>'' @
    ''<div hx-get=\"/ui/server/status?'' @ poll_query serverName namespace 1 @ ''\" '' @ rest)) =
    Some (status_request serverName namespace 1)"
  by (rule followed_address [of _ _ _ _ "'' '' @ rest"]) (simp add: hourglass_def HasPrefix_def)

lemma followed_resolve:
  assumes "followed (fst (run_state (handleServerResolve u q) s)) = Some p"
  shows "ui_query q ''name'' \<noteq> [] \<and> ui_query q ''namespace'' \<noteq> [] \<and>
    p = status_request (ui_query q ''name'') (ui_query q ''namespace'') 1"
proof -
  have other: "followed method_not_allowed = None" "followed (HttpError k m) = None" "followed (EscapedError k m) = None" for k m
    by (simp_all add: followed_def method_not_allowed_def)
  from assms show ?thesis
    unfolding handleServerResolve_def Let_def
    by (auto simp: run_defs other resolve_page simp del: append_Cons split: if_splits sum.splits prod.splits)
qed

text \<open>C40. Polling ends. From the page that answers a request to resolve a server, a browser that keeps asking for
  the address the last page gave sends at most 31 requests, whatever the states they meet: the \<open>n\<close>th of them is the
  \<open>n\<close>th attempt to read the status of the server that was to be resolved, and the last reply asks for nothing.\<close>

theorem status_polling_bounded:
  assumes "followed (fst (run_state (handleServerResolve u q) s)) = Some p"
  shows "length (poll_run u p ss) \<le> 31 \<and>
    (31 \<le> length ss \<longrightarrow> followed (snd (last (poll_run u p ss))) = None) \<and>
    (\<forall>i < length (poll_run u p ss).
       polls_for (ui_query q ''name'') (ui_query q ''namespace'') (1 + int i) (fst (poll_run u p ss ! i)))"
  using poll_run_bounded [of 1 "ui_query q ''name''" "ui_query q ''namespace''" u ss] followed_resolve [OF assms] by simp

text \<open>A failed reconciliation is not shown. Where the condition \<^verbatim>\<open>Ready\<close> of a server has one of the reasons that the
  server controller gives it, the status never shows that the reconciliation failed: unless the solver
  failed, the reply to a poll is to poll again, and the page ends with a timeout.\<close>

theorem failed_reconciliation_not_shown:
  assumes "\<forall>c \<in> set (st_Conditions (sv_Status server)). c_Type c = conditionTypeServerReady \<longrightarrow>
      c_Reason c \<in> {reasonServerReconcileSuccess, reasonServerReconcileError}"
  shows "renderSolverStatus (parseSolverStatus server) serverName namespace n \<noteq> failed_html \<and>
    (\<not> si_solverFailed (parseSolverStatus server) \<and> \<not> si_readySuccess (parseSolverStatus server) \<longrightarrow>
      polls_on serverName namespace (n + 1) (Html (renderSolverStatus (parseSolverStatus server) serverName namespace n)))"
proof -
  have "\<not> si_readyFailed (fold note_condition cs info)"
    if "\<forall>c \<in> set cs. c_Type c = ''Ready'' \<longrightarrow> c_Reason c \<in> {''ReconcileSuccess'', ''ReconcileError''}" "\<not> si_readyFailed info" for cs info
    using that by (induction cs arbitrary: info) (auto simp: note_condition_def Let_def)
  then have "\<not> si_readyFailed (parseSolverStatus server)"
    using assms unfolding parseSolverStatus_def
    by (simp add: conditionTypeServerReady_def reasonServerReconcileSuccess_def reasonServerReconcileError_def)
  then show ?thesis
    by (simp add: renderSolverStatus_def polls_on_def poll_again_def failed_html_def solver_failed_html_def resolved_html_def
        cross_mark_def check_mark_def Let_def)
qed

subsection \<open>Examples\<close>

definition demo_ui :: "PaperMCServer \<Rightarrow> (unit, unit) ui" where
  "demo_ui server =
     \<lparr>ui_client = demo_vext server, ui_schemaParser = None, ui_hasApi = True, ui_render = (\<lambda>_. None), ui_entries = (\<lambda>_. []),
      ui_iteration = (\<lambda>_ m. m), ui_values = (\<lambda>m. m), ui_ftoa = (\<lambda>_ _. []), ui_rfc3339 = (\<lambda>_. []), ui_fuel = 0\<rparr>"

definition demo_ui_request :: "string \<Rightarrow> ui_request" where
  "demo_ui_request path = \<lparr>uq_Method = ''GET'', uq_Path = path, uq_RawQuery = [], uq_Body = None\<rparr>"

theorem resource_pages_witness:
  "fst (run_state (ui_serve (demo_ui zero_server) (demo_ui_request ''/ui/server/new'')) demo_sys) =
     HttpError 500 (plain ''Schema parser not initialized'')"
proof -
  have "IsValidKubernetesName ''new''" by (simp add: IsValidKubernetesName_def isAlphanumeric_def)
  from resource_pages(1) [OF this, of "demo_ui_request ''/ui/server/new''" "demo_ui zero_server"]
  show ?thesis
    by (simp add: demo_ui_request_def handleServerCreate_def renderSchemaForm_def demo_ui_def)
qed

definition demo_resolve :: ui_request where
  "demo_resolve = \<lparr>uq_Method = ''POST'', uq_Path = ''/ui/server/resolve'', uq_RawQuery = poll_query ''mc'' ''games'' 1,
     uq_Body = None\<rparr>"

lemma demo_resolved:
  "fst (run_state (ServerService_TriggerReconciliation (demo_vext zero_server) ''games'' ''mc'') demo_sys) = Inr ()"
  by (simp add: ServerService_TriggerReconciliation_def annotate_server_def call_ops call_def run_state_bind
      still_ext_def wrap_result_def demo_sys_def)

lemma demo_resolve_followed:
  "followed (fst (run_state (handleServerResolve (demo_ui zero_server) demo_resolve) demo_sys)) = Some (status_request ''mc'' ''games'' 1)"
proof -
  have "ui_query demo_resolve ''name'' = ''mc''" "ui_query demo_resolve ''namespace'' = ''games''" "uq_Method demo_resolve = ''POST''"
    using poll_query_fields [of 1 "''mc''" "''games''"] by (simp_all add: demo_resolve_def ui_query_def)
  moreover obtain s' where
    "run_state (ServerService_TriggerReconciliation (demo_vext zero_server) ''games'' ''mc'') demo_sys = (Inr (), s')"
    using demo_resolved by (metis prod.collapse)
  ultimately show ?thesis
    by (simp add: handleServerResolve_def demo_ui_def run_defs resolve_page Let_def del: append_Cons)
qed

theorem status_polling_bounded_witness:
  "followed (fst (run_state (handleServerResolve (demo_ui zero_server) demo_resolve) demo_sys)) = Some (status_request ''mc'' ''games'' 1) \<and>
   length (poll_run (demo_ui zero_server) (status_request ''mc'' ''games'' 1) (replicate 40 demo_sys)) \<le> 31 \<and>
   followed (snd (last (poll_run (demo_ui zero_server) (status_request ''mc'' ''games'' 1) (replicate 40 demo_sys)))) = None"
  using demo_resolve_followed status_polling_bounded [OF demo_resolve_followed, of "replicate 40 demo_sys"] by simp

definition demo_failed :: PaperMCServer where
  "demo_failed = zero_server\<lparr>sv_Status := (sv_Status zero_server)\<lparr>st_Conditions :=
     [\<lparr>c_Type = ''SolverRunning'', c_Status = ConditionFalse, c_ObservedGeneration = 1, c_LastTransitionTime = demo_time,
       c_Reason = ''SolverCompleted'', c_Message = []\<rparr>,
      \<lparr>c_Type = ''Ready'', c_Status = ConditionFalse, c_ObservedGeneration = 1, c_LastTransitionTime = demo_time,
       c_Reason = ''ReconcileError'', c_Message = ''no pod''\<rparr>]\<rparr>\<rparr>"

theorem failed_reconciliation_not_shown_witness:
  "polls_on ''mc'' ''games'' 2 (Html (renderSolverStatus (parseSolverStatus demo_failed) ''mc'' ''games'' 1))"
proof -
  have "\<forall>c \<in> set (st_Conditions (sv_Status demo_failed)). c_Type c = conditionTypeServerReady \<longrightarrow>
      c_Reason c \<in> {reasonServerReconcileSuccess, reasonServerReconcileError}"
    by (simp add: demo_failed_def reasonServerReconcileError_def conditionTypeServerReady_def)
  from failed_reconciliation_not_shown [OF this, of "''mc''" "''games''" 1]
  show ?thesis
    by (simp add: parseSolverStatus_def note_condition_def demo_failed_def)
qed

end
