(* ===== verification/RestRouter.thy ===== *)
theory RestRouter
  imports WebServer
begin

section \<open>Routing of the REST API (api/openapi/generated/api.gen.go)\<close>

text \<open>
  From an HTTP request below \<^verbatim>\<open>/api/v1\<close> to a handler of \<^verbatim>\<open>pkg/api\<close>: the patterns of \<^verbatim>\<open>HandlerWithOptions\<close>, the
  binding of path and query parameters and the decoding of the body. The JSON decoder is a record of
  functions, one for each type of body. Paths are taken to be clean (as the outer multiplexer leaves
  them) and free of percent escapes.

  The lemmas: every operation of the API is reached under its URL, and what a request may write is
  determined by its method and URL, with one exception.
\<close>

subsection \<open>Patterns\<close>

datatype operation =
    OpListConfigMaps | OpCreateConfigMap | OpGetHealth | OpListNamespaces | OpListPlugins | OpCreatePlugin | OpDeletePlugin
  | OpGetPlugin | OpUpdatePlugin | OpResolvePlugin | OpListServers | OpCreateServer | OpDeleteServer | OpGetServer
  | OpUpdateServer | OpApplyNowServer | OpResolveServer | OpGetVersion

datatype seg = Lit string | Wild string

abbreviation object_segs :: "string \<Rightarrow> seg list" where
  "object_segs kind \<equiv> [Lit kind, Wild ''namespace'', Wild ''name'']"

definition rest_patterns :: "((string \<times> seg list) \<times> operation) list" where
  "rest_patterns =
     [((''GET'', [Lit ''configmaps'', Wild ''namespace'']), OpListConfigMaps),
      ((''POST'', [Lit ''configmaps'', Wild ''namespace'']), OpCreateConfigMap),
      ((''GET'', [Lit ''health'']), OpGetHealth),
      ((''GET'', [Lit ''namespaces'']), OpListNamespaces),
      ((''GET'', [Lit ''plugins'']), OpListPlugins),
      ((''POST'', [Lit ''plugins'']), OpCreatePlugin),
      ((''DELETE'', object_segs ''plugins''), OpDeletePlugin),
      ((''GET'', object_segs ''plugins''), OpGetPlugin),
      ((''PUT'', object_segs ''plugins''), OpUpdatePlugin),
      ((''POST'', object_segs ''plugins'' @ [Lit ''actions'', Lit ''resolve'']), OpResolvePlugin),
      ((''GET'', [Lit ''servers'']), OpListServers),
      ((''POST'', [Lit ''servers'']), OpCreateServer),
      ((''DELETE'', object_segs ''servers''), OpDeleteServer),
      ((''GET'', object_segs ''servers''), OpGetServer),
      ((''PUT'', object_segs ''servers''), OpUpdateServer),
      ((''POST'', object_segs ''servers'' @ [Lit ''actions'', Lit ''apply-now'']), OpApplyNowServer),
      ((''POST'', object_segs ''servers'' @ [Lit ''actions'', Lit ''resolve'']), OpResolveServer),
      ((''GET'', [Lit ''version'']), OpGetVersion)]"

fun match_segs :: "seg list \<Rightarrow> string list \<Rightarrow> (string \<times> string) list option" where
  "match_segs [] [] = Some []"
| "match_segs (Lit l # ps) (s # ss) = (if s = l then match_segs ps ss else None)"
| "match_segs (Wild v # ps) (s # ss) = map_option (Cons (v, s)) (match_segs ps ss)"
| "match_segs _ _ = None"

definition path_segs :: "string \<Rightarrow> string list" where
  "path_segs path = tl (split_on (CHR ''/'') path)"

definition method_matches :: "string \<Rightarrow> string \<Rightarrow> bool" where
  "method_matches m pm \<longleftrightarrow> m = pm \<or> m = ''HEAD'' \<and> pm = ''GET''"

text \<open>The status 404 or 405, or the operation with the values of its wildcards.\<close>

definition rest_lookup :: "string \<Rightarrow> string \<Rightarrow> nat + operation \<times> (string \<times> string) list" where
  "rest_lookup m path =
     (case find (\<lambda>((pm, ps), _). method_matches m pm \<and> match_segs ps (path_segs path) \<noteq> None) rest_patterns of
        Some ((_, ps), opn) \<Rightarrow> Inr (opn, the (match_segs ps (path_segs path)))
      | None \<Rightarrow> Inl (if list_ex (\<lambda>((_, ps), _). match_segs ps (path_segs path) \<noteq> None) rest_patterns then 405 else 404))"

subsection \<open>Parameters and bodies\<close>

record rest_request =
  rq_Method :: string
  rq_Path :: string
  rq_RawQuery :: string
  rq_Body :: string

record decoders =
  dec_ServerCreate :: "string \<Rightarrow> ApiServerCreateRequest result"
  dec_ServerUpdate :: "string \<Rightarrow> ApiServerUpdateRequest result"
  dec_PluginCreate :: "string \<Rightarrow> ApiPluginCreateRequest result"
  dec_PluginUpdate :: "string \<Rightarrow> ApiPluginUpdateRequest result"
  dec_ConfigMapCreate :: "string \<Rightarrow> ApiConfigMapCreateRequest result"

datatype bound = Api request | VersionRequest

definition bind_path :: "(string \<times> string) list \<Rightarrow> string \<Rightarrow> (string \<Rightarrow> bound result) \<Rightarrow> bound result" where
  "bind_path vals v k =
     (case map_of vals v of
        None \<Rightarrow> Inl (Newf ''parameter %s is empty'' [AStr v])
      | Some s \<Rightarrow> if s = [] then Inl (Newf ''parameter %s is empty'' [AStr v]) else k s)"

abbreviation bind_object :: "(string \<times> string) list \<Rightarrow> (string \<Rightarrow> string \<Rightarrow> bound result) \<Rightarrow> bound result" where
  "bind_object vals k \<equiv> bind_path vals ''namespace'' (\<lambda>ns. bind_path vals ''name'' (k ns))"

definition bind_query :: "rest_request \<Rightarrow> string \<Rightarrow> (string option \<Rightarrow> bound result) \<Rightarrow> bound result" where
  "bind_query q v k =
     (case map snd (filter (\<lambda>(key, _). key = v) (ParseQuery (rq_RawQuery q))) of
        [] \<Rightarrow> k None
      | [s] \<Rightarrow> k (Some s)
      | _ \<Rightarrow> Inl (Newf ''multiple values for parameter %s'' [AStr v]))"

definition decoded :: "'a result \<Rightarrow> ('a \<Rightarrow> bound result) \<Rightarrow> bound result" where
  "decoded r k = (case r of Inl err \<Rightarrow> Inl (Wrap err ''cannot decode JSON body'') | Inr b \<Rightarrow> k b)"

definition siw_ListConfigMaps :: "(string \<times> string) list \<Rightarrow> bound result" where
  "siw_ListConfigMaps vals = bind_path vals ''namespace'' (\<lambda>ns. Inr (Api (R_ListConfigMaps ns)))"

definition siw_CreateConfigMap :: "decoders \<Rightarrow> rest_request \<Rightarrow> (string \<times> string) list \<Rightarrow> bound result" where
  "siw_CreateConfigMap dec q vals =
     bind_path vals ''namespace'' (\<lambda>ns. decoded (dec_ConfigMapCreate dec (rq_Body q)) (\<lambda>b. Inr (Api (R_CreateConfigMap ns (Some b)))))"

definition siw_ListPlugins :: "rest_request \<Rightarrow> bound result" where
  "siw_ListPlugins q = bind_query q ''namespace'' (\<lambda>ns. Inr (Api (R_ListPlugins ns)))"

definition siw_CreatePlugin :: "decoders \<Rightarrow> rest_request \<Rightarrow> bound result" where
  "siw_CreatePlugin dec q = decoded (dec_PluginCreate dec (rq_Body q)) (\<lambda>b. Inr (Api (R_CreatePlugin (Some b))))"

definition siw_DeletePlugin :: "(string \<times> string) list \<Rightarrow> bound result" where
  "siw_DeletePlugin vals = bind_object vals (\<lambda>ns n. Inr (Api (R_DeletePlugin ns n)))"

definition siw_GetPlugin :: "(string \<times> string) list \<Rightarrow> bound result" where
  "siw_GetPlugin vals = bind_object vals (\<lambda>ns n. Inr (Api (R_GetPlugin ns n)))"

definition siw_UpdatePlugin :: "decoders \<Rightarrow> rest_request \<Rightarrow> (string \<times> string) list \<Rightarrow> bound result" where
  "siw_UpdatePlugin dec q vals =
     bind_object vals (\<lambda>ns n. decoded (dec_PluginUpdate dec (rq_Body q)) (\<lambda>b. Inr (Api (R_UpdatePlugin ns n (Some b)))))"

definition siw_ResolvePlugin :: "(string \<times> string) list \<Rightarrow> bound result" where
  "siw_ResolvePlugin vals = bind_object vals (\<lambda>ns n. Inr (Api (R_ResolvePlugin ns n)))"

definition siw_ListServers :: "rest_request \<Rightarrow> bound result" where
  "siw_ListServers q = bind_query q ''namespace'' (\<lambda>ns. Inr (Api (R_ListServers ns)))"

definition siw_CreateServer :: "decoders \<Rightarrow> rest_request \<Rightarrow> bound result" where
  "siw_CreateServer dec q = decoded (dec_ServerCreate dec (rq_Body q)) (\<lambda>b. Inr (Api (R_CreateServer (Some b))))"

definition siw_DeleteServer :: "(string \<times> string) list \<Rightarrow> bound result" where
  "siw_DeleteServer vals = bind_object vals (\<lambda>ns n. Inr (Api (R_DeleteServer ns n)))"

definition siw_GetServer :: "(string \<times> string) list \<Rightarrow> bound result" where
  "siw_GetServer vals = bind_object vals (\<lambda>ns n. Inr (Api (R_GetServer ns n)))"

definition siw_UpdateServer :: "decoders \<Rightarrow> rest_request \<Rightarrow> (string \<times> string) list \<Rightarrow> bound result" where
  "siw_UpdateServer dec q vals =
     bind_object vals (\<lambda>ns n. decoded (dec_ServerUpdate dec (rq_Body q)) (\<lambda>b. Inr (Api (R_UpdateServer ns n (Some b)))))"

definition siw_ApplyNowServer :: "(string \<times> string) list \<Rightarrow> bound result" where
  "siw_ApplyNowServer vals = bind_object vals (\<lambda>ns n. Inr (Api (R_ApplyNowServer ns n)))"

definition siw_ResolveServer :: "(string \<times> string) list \<Rightarrow> bound result" where
  "siw_ResolveServer vals = bind_object vals (\<lambda>ns n. Inr (Api (R_ResolveServer ns n)))"

primrec bind_operation :: "decoders \<Rightarrow> rest_request \<Rightarrow> (string \<times> string) list \<Rightarrow> operation \<Rightarrow> bound result" where
  "bind_operation dec q vals OpListConfigMaps = siw_ListConfigMaps vals"
| "bind_operation dec q vals OpCreateConfigMap = siw_CreateConfigMap dec q vals"
| "bind_operation dec q vals OpGetHealth = Inr (Api R_GetHealth)"
| "bind_operation dec q vals OpListNamespaces = Inr (Api R_ListNamespaces)"
| "bind_operation dec q vals OpListPlugins = siw_ListPlugins q"
| "bind_operation dec q vals OpCreatePlugin = siw_CreatePlugin dec q"
| "bind_operation dec q vals OpDeletePlugin = siw_DeletePlugin vals"
| "bind_operation dec q vals OpGetPlugin = siw_GetPlugin vals"
| "bind_operation dec q vals OpUpdatePlugin = siw_UpdatePlugin dec q vals"
| "bind_operation dec q vals OpResolvePlugin = siw_ResolvePlugin vals"
| "bind_operation dec q vals OpListServers = siw_ListServers q"
| "bind_operation dec q vals OpCreateServer = siw_CreateServer dec q"
| "bind_operation dec q vals OpDeleteServer = siw_DeleteServer vals"
| "bind_operation dec q vals OpGetServer = siw_GetServer vals"
| "bind_operation dec q vals OpUpdateServer = siw_UpdateServer dec q vals"
| "bind_operation dec q vals OpApplyNowServer = siw_ApplyNowServer vals"
| "bind_operation dec q vals OpResolveServer = siw_ResolveServer vals"
| "bind_operation dec q vals OpGetVersion = Inr VersionRequest"

lemmas siw_defs = siw_ListConfigMaps_def siw_CreateConfigMap_def siw_ListPlugins_def siw_CreatePlugin_def siw_DeletePlugin_def
  siw_GetPlugin_def siw_UpdatePlugin_def siw_ResolvePlugin_def siw_ListServers_def siw_CreateServer_def siw_DeleteServer_def
  siw_GetServer_def siw_UpdateServer_def siw_ApplyNowServer_def siw_ResolveServer_def bind_path_def bind_query_def decoded_def

subsection \<open>The version endpoint\<close>

record OperatorVersionInfo =
  vi_Version :: string
  vi_GitCommit :: string
  vi_BuildDate :: string
  vi_GoVersion :: string

record ApiVersionResponse =
  avr_ApiVersion :: string
  avr_BuildDate :: "time option"
  avr_GitCommit :: "string option"
  avr_GoVersion :: "string option"
  avr_Version :: string

definition api_GetVersion :: "(string \<Rightarrow> time option) \<Rightarrow> string \<Rightarrow> OperatorVersionInfo \<Rightarrow> ApiVersionResponse" where
  "api_GetVersion parse_RFC3339 runtime_Version v =
     \<lparr>avr_ApiVersion = ''v1'', avr_BuildDate = (if vi_BuildDate v \<noteq> [] then parse_RFC3339 (vi_BuildDate v) else None),
      avr_GitCommit = (if vi_GitCommit v \<noteq> [] then Some (vi_GitCommit v) else None),
      avr_GoVersion = Some runtime_Version, avr_Version = vi_Version v\<rparr>"

subsection \<open>Serving a request\<close>

datatype outcome = Rejected nat | Answered nat

primrec outcome_code :: "outcome \<Rightarrow> nat" where
  "outcome_code (Rejected c) = c"
| "outcome_code (Answered c) = c"

definition rest_bind :: "decoders \<Rightarrow> rest_request \<Rightarrow> nat + bound" where
  "rest_bind dec q =
     (case rest_lookup (rq_Method q) (rq_Path q) of
        Inl sc \<Rightarrow> Inl sc
      | Inr (opn, vals) \<Rightarrow> (case bind_operation dec q vals opn of Inl err \<Rightarrow> Inl 400 | Inr b \<Rightarrow> Inr b))"

definition rest_serve :: "('w, 'sched) vext \<Rightarrow> decoders \<Rightarrow> rest_request \<Rightarrow> ('w, outcome) op" where
  "rest_serve y dec q =
     (case rest_bind dec q of
        Inl sc \<Rightarrow> State_Monad.return (Rejected sc)
      | Inr VersionRequest \<Rightarrow> State_Monad.return (Answered 200)
      | Inr (Api req) \<Rightarrow> do { c \<leftarrow> serve y req; State_Monad.return (Answered c) })"

subsection \<open>URLs of the operations\<close>

text \<open>Method and path of a request, as the OpenAPI document gives them.\<close>

fun rest_url :: "request \<Rightarrow> string \<Rightarrow> string list \<Rightarrow> bool" where
  "rest_url R_GetHealth m p \<longleftrightarrow> m = ''GET'' \<and> p = [''health'']"
| "rest_url R_ListNamespaces m p \<longleftrightarrow> m = ''GET'' \<and> p = [''namespaces'']"
| "rest_url (R_ListServers ns) m p \<longleftrightarrow> m = ''GET'' \<and> p = [''servers'']"
| "rest_url (R_CreateServer b) m p \<longleftrightarrow> m = ''POST'' \<and> p = [''servers'']"
| "rest_url (R_GetServer ns n) m p \<longleftrightarrow> m = ''GET'' \<and> p = [''servers'', ns, n]"
| "rest_url (R_UpdateServer ns n b) m p \<longleftrightarrow> m = ''PUT'' \<and> p = [''servers'', ns, n]"
| "rest_url (R_DeleteServer ns n) m p \<longleftrightarrow> m = ''DELETE'' \<and> p = [''servers'', ns, n]"
| "rest_url (R_ResolveServer ns n) m p \<longleftrightarrow> m = ''POST'' \<and> p = [''servers'', ns, n, ''actions'', ''resolve'']"
| "rest_url (R_ApplyNowServer ns n) m p \<longleftrightarrow> m = ''POST'' \<and> p = [''servers'', ns, n, ''actions'', ''apply-now'']"
| "rest_url (R_ListPlugins ns) m p \<longleftrightarrow> m = ''GET'' \<and> p = [''plugins'']"
| "rest_url (R_CreatePlugin b) m p \<longleftrightarrow> m = ''POST'' \<and> p = [''plugins'']"
| "rest_url (R_GetPlugin ns n) m p \<longleftrightarrow> m = ''GET'' \<and> p = [''plugins'', ns, n]"
| "rest_url (R_UpdatePlugin ns n b) m p \<longleftrightarrow> m = ''PUT'' \<and> p = [''plugins'', ns, n]"
| "rest_url (R_DeletePlugin ns n) m p \<longleftrightarrow> m = ''DELETE'' \<and> p = [''plugins'', ns, n]"
| "rest_url (R_ResolvePlugin ns n) m p \<longleftrightarrow> m = ''POST'' \<and> p = [''plugins'', ns, n, ''actions'', ''resolve'']"
| "rest_url (R_ListConfigMaps ns) m p \<longleftrightarrow> m = ''GET'' \<and> p = [''configmaps'', ns]"
| "rest_url (R_CreateConfigMap ns b) m p \<longleftrightarrow> m = ''POST'' \<and> p = [''configmaps'', ns]"

lemma match_segs_Cons:
  "match_segs (p # ps) ss = (case ss of [] \<Rightarrow> None
     | s # ss' \<Rightarrow> (case p of Lit l \<Rightarrow> if s = l then match_segs ps ss' else None | Wild v \<Rightarrow> map_option (Cons (v, s)) (match_segs ps ss')))"
  by (cases ss; cases p) simp_all

lemma match_segs_Nil: "match_segs [] ss = (if ss = [] then Some [] else None)"
  by (cases ss) simp_all

lemma rest_lookup_pattern:
  assumes "rest_lookup m path = Inr (opn, vals)"
  shows "\<exists>pm ps. ((pm, ps), opn) \<in> set rest_patterns \<and> method_matches m pm \<and> match_segs ps (path_segs path) = Some vals"
proof -
  obtain pm ps where f: "find (\<lambda>((pm, ps), _). method_matches m pm \<and> match_segs ps (path_segs path) \<noteq> None) rest_patterns = Some ((pm, ps), opn)"
    and v: "vals = the (match_segs ps (path_segs path))"
    using assms by (auto simp: rest_lookup_def split: option.splits)
  from f have "((pm, ps), opn) \<in> set rest_patterns \<and> method_matches m pm \<and> match_segs ps (path_segs path) \<noteq> None"
    by (auto simp: find_Some_iff simp del: not_None_eq) (metis nth_mem)
  with v show ?thesis by auto
qed

lemma bound_url:
  assumes "rest_bind dec q = Inr (Api req)"
  shows "\<exists>pm. method_matches (rq_Method q) pm \<and> rest_url req pm (path_segs (rq_Path q))"
proof -
  obtain opn vals where opn: "rest_lookup (rq_Method q) (rq_Path q) = Inr (opn, vals)" "bind_operation dec q vals opn = Inr (Api req)"
    using assms by (auto simp: rest_bind_def split: sum.splits)
  obtain pm ps where ps: "((pm, ps), opn) \<in> set rest_patterns" "method_matches (rq_Method q) pm"
    "match_segs ps (path_segs (rq_Path q)) = Some vals"
    using rest_lookup_pattern [OF opn(1)] by blast
  have "rest_url req pm (path_segs (rq_Path q))"
    using ps(1,3) opn(2) unfolding rest_patterns_def list.set
    by (elim insertE emptyE)
      (auto simp: match_segs_Cons match_segs_Nil siw_defs split: list.splits sum.splits option.splits if_splits)
  with ps(2) show ?thesis by blast
qed

subsection \<open>Properties\<close>

text \<open>The one write of a request is the one that the decoded request may make. \<open>may_write\<close> ties it to the namespace
  and the name in the path (\<open>rest_url\<close>), or to the object in the body of a request to create one.\<close>

definition rest_confined :: "decoders \<Rightarrow> rest_request \<Rightarrow> outcome \<Rightarrow> event list \<Rightarrow> bool" where
  "rest_confined dec q out u \<longleftrightarrow>
     length (writes u) \<le> 1 \<and>
     (writes u \<noteq> [] \<longrightarrow> (\<exists>req. rest_bind dec q = Inr (Api req) \<and> rest_url req (rq_Method q) (path_segs (rq_Path q)) \<and> list_all (may_write req u) (writes u))) \<and>
     (rq_Method q \<in> {''GET'', ''HEAD''} \<longrightarrow> writes u = []) \<and>
     (rq_Method q \<notin> {''GET'', ''HEAD''} \<and> outcome_code out < 300 \<longrightarrow> map write_ok (writes u) = [Some True]) \<and>
     (400 \<le> outcome_code out \<and> outcome_code out < 500 \<longrightarrow> Some True \<notin> set (map write_ok (writes u)))"

lemma rest_url_method: "rest_url req pm p \<Longrightarrow> mutating req \<longleftrightarrow> pm \<noteq> ''GET''"
  by (cases req) auto

lemma may_write_mutating: "may_write req u e \<Longrightarrow> mutating req"
  by (cases req) auto

lemma served_confined:
  assumes "served req sc u" and "rest_url req pm (path_segs (rq_Path q))" and "method_matches (rq_Method q) pm"
    and "rest_bind dec q = Inr (Api req)"
  shows "rest_confined dec q (Answered sc) u"
proof -
  have m: "mutating req \<longleftrightarrow> rq_Method q \<notin> {''GET'', ''HEAD''}" "mutating req \<Longrightarrow> rq_Method q = pm"
    using rest_url_method [OF assms(2)] assms(2,3) by (cases req; auto simp: method_matches_def)+
  have no: "writes u = []" if "\<not> mutating req"
    using assms(1) that may_write_mutating [of req u] by (cases "writes u") (auto simp: served_def)
  show ?thesis
    unfolding rest_confined_def outcome_code.simps
    using assms(1,2,4) m no by (cases "mutating req") (auto simp: served_def)
qed

lemma lookup_codes: "rest_lookup m path = Inl sc \<Longrightarrow> sc \<in> {404, 405}"
  by (auto simp: rest_lookup_def split: option.splits if_splits)

lemma rest_bind_codes: "rest_bind dec q = Inl sc \<Longrightarrow> 400 \<le> sc"
  using lookup_codes by (fastforce simp: rest_bind_def split: sum.splits)

lemma version_is_get: "rest_bind dec q = Inr VersionRequest \<Longrightarrow> rq_Method q \<in> {''GET'', ''HEAD''}"
proof -
  assume "rest_bind dec q = Inr VersionRequest"
  then obtain opn vals where opn: "rest_lookup (rq_Method q) (rq_Path q) = Inr (opn, vals)" "bind_operation dec q vals opn = Inr VersionRequest"
    by (auto simp: rest_bind_def split: sum.splits)
  have "opn = OpGetVersion"
    using opn(2) by (cases opn) (auto simp: siw_defs split: option.splits if_splits list.splits sum.splits)
  with rest_lookup_pattern [OF opn(1)] show ?thesis by (auto simp: rest_patterns_def method_matches_def)
qed

text \<open>
  C13. Every request to the REST API makes at most one write. A DELETE or PUT writes the object that its URL
  names, as it was read (a PUT with name, annotations and status untouched), an action the annotation of
  that object with the current time. A POST to a collection creates the object of its decoded body,
  in the namespace of the body; for a ConfigMap that namespace need not be the one in its
  URL, which the handler ignores. A GET
  writes nothing; a success (2xx) of any other method means that its write succeeded, and a client
  error (4xx), also an unknown URL or a malformed body, that nothing was written.
\<close>

theorem rest_urls_confined: "emits (rest_serve y dec q) (rest_confined dec q)"
proof (cases "rest_bind dec q")
  case (Inl sc)
  with rest_bind_codes [OF Inl] show ?thesis
    by (auto simp: rest_serve_def rest_confined_def intro!: tr_return)
next
  case (Inr b)
  show ?thesis
  proof (cases b)
    case VersionRequest
    with Inr version_is_get [of dec q] show ?thesis
      by (auto simp: rest_serve_def rest_confined_def intro!: tr_return)
  next
    case (Api req)
    with Inr bound_url obtain pm where "method_matches (rq_Method q) pm" "rest_url req pm (path_segs (rq_Path q))" by blast
    then show ?thesis
      using Inr Api served_confined
      by (auto simp: rest_serve_def intro!: tr_bind_emits [OF rest_writes_confined] tr_return)
  qed
qed

text \<open>The body and the query of a request say what it asks for.\<close>

fun asks_for :: "decoders \<Rightarrow> string \<Rightarrow> string \<Rightarrow> request \<Rightarrow> bool" where
  "asks_for dec raw body (R_ListServers ns) \<longleftrightarrow>
     map snd (filter (\<lambda>(key, _). key = ''namespace'') (ParseQuery raw)) = (case ns of None \<Rightarrow> [] | Some s \<Rightarrow> [s])"
| "asks_for dec raw body (R_ListPlugins ns) \<longleftrightarrow>
     map snd (filter (\<lambda>(key, _). key = ''namespace'') (ParseQuery raw)) = (case ns of None \<Rightarrow> [] | Some s \<Rightarrow> [s])"
| "asks_for dec raw body (R_CreateServer b) \<longleftrightarrow> (case dec_ServerCreate dec body of Inl _ \<Rightarrow> False | Inr r \<Rightarrow> b = Some r)"
| "asks_for dec raw body (R_UpdateServer ns n b) \<longleftrightarrow> (case dec_ServerUpdate dec body of Inl _ \<Rightarrow> False | Inr r \<Rightarrow> b = Some r)"
| "asks_for dec raw body (R_CreatePlugin b) \<longleftrightarrow> (case dec_PluginCreate dec body of Inl _ \<Rightarrow> False | Inr r \<Rightarrow> b = Some r)"
| "asks_for dec raw body (R_UpdatePlugin ns n b) \<longleftrightarrow> (case dec_PluginUpdate dec body of Inl _ \<Rightarrow> False | Inr r \<Rightarrow> b = Some r)"
| "asks_for dec raw body (R_CreateConfigMap ns b) \<longleftrightarrow> (case dec_ConfigMapCreate dec body of Inl _ \<Rightarrow> False | Inr r \<Rightarrow> b = Some r)"
| "asks_for dec raw body _ \<longleftrightarrow> True"

definition path_of :: "string list \<Rightarrow> string" where
  "path_of segs = concat (map (Cons (CHR ''/'')) segs)"

lemma path_segs_path_of:
  assumes "segs \<noteq> []" and "\<forall>s \<in> set segs. CHR ''/'' \<notin> set s"
  shows "path_segs (path_of segs) = segs"
proof -
  have "split_on (CHR ''/'') (s @ path_of ss) = s # ss" if "\<forall>x \<in> set (s # ss). CHR ''/'' \<notin> set x" for s ss
    using that
  proof (induction ss arbitrary: s)
    case Nil
    then show ?case by (simp add: path_of_def split_on_notin)
  next
    case (Cons a ss)
    then show ?case using split_on_append [of "CHR ''/''" s "a @ path_of ss"] by (simp add: path_of_def)
  qed
  with assms show ?thesis by (cases segs) (auto simp: path_segs_def path_of_def)
qed

lemmas routing_eval = rest_bind_def rest_lookup_def rest_patterns_def match_segs_Cons match_segs_Nil method_matches_def siw_defs

text \<open>C34. The URLs of the API round-trip: every request is reached under the method and the path that the OpenAPI
  document gives it, with the parameters of the path, the query and the body that it was made of.\<close>

theorem rest_route_complete:
  assumes "rest_url req m segs" and "\<forall>s \<in> set segs. s \<noteq> [] \<and> CHR ''/'' \<notin> set s" and "asks_for dec raw body req"
  shows "rest_bind dec \<lparr>rq_Method = m, rq_Path = path_of segs, rq_RawQuery = raw, rq_Body = body\<rparr> = Inr (Api req)"
proof -
  have "segs \<noteq> []" using assms(1) by (cases req) auto
  with assms(2) have "path_segs (path_of segs) = segs" by (intro path_segs_path_of) auto
  with assms show ?thesis
    by (cases req; clarsimp; simp add: routing_eval split: sum.split_asm option.split_asm)
qed

text \<open>The path of a new ConfigMap has no effect: all paths of this form are served alike, and the ConfigMap is
  created in the namespace of the body.\<close>

lemma config_map_path_ignored:
  assumes "dec_ConfigMapCreate dec body = Inr b" and "ns \<noteq> []" and "CHR ''/'' \<notin> set ns"
  shows "rest_serve y dec \<lparr>rq_Method = ''POST'', rq_Path = path_of [''configmaps'', ns], rq_RawQuery = raw, rq_Body = body\<rparr> =
    do { c \<leftarrow> serve y (R_CreateConfigMap (acm_Namespace b) (Some b)); State_Monad.return (Answered c) }"
proof -
  have "path_segs (path_of [''configmaps'', ns]) = [''configmaps'', ns]" using assms by (intro path_segs_path_of) auto
  then have "rest_bind dec \<lparr>rq_Method = ''POST'', rq_Path = path_of [''configmaps'', ns], rq_RawQuery = raw, rq_Body = body\<rparr> =
    Inr (Api (R_CreateConfigMap ns (Some b)))"
    using assms by (simp add: routing_eval)
  moreover have "serve y (R_CreateConfigMap ns (Some b)) = serve y (R_CreateConfigMap (acm_Namespace b) (Some b))"
    by (simp add: api_CreateConfigMap_def)
  ultimately show ?thesis by (simp add: rest_serve_def)
qed

definition demo_decoders :: decoders where
  "demo_decoders = \<lparr>dec_ServerCreate = (\<lambda>_. Inl (New ''no'')), dec_ServerUpdate = (\<lambda>_. Inl (New ''no'')),
     dec_PluginCreate = (\<lambda>_. Inl (New ''no'')), dec_PluginUpdate = (\<lambda>_. Inl (New ''no'')),
     dec_ConfigMapCreate = (\<lambda>_. Inl (New ''no''))\<rparr>"

theorem rest_route_complete_witness:
  "rest_bind demo_decoders \<lparr>rq_Method = ''POST'', rq_Path = ''/servers/games/mc/actions/apply-now'', rq_RawQuery = [], rq_Body = []\<rparr> =
     Inr (Api (R_ApplyNowServer ''games'' ''mc''))"
  using rest_route_complete [of "R_ApplyNowServer ''games'' ''mc''" "''POST''" "[''servers'', ''games'', ''mc'', ''actions'', ''apply-now'']"
      demo_decoders "[]" "[]"]
  by (simp add: path_of_def)

end
