(* ===== verification/CrdManager.thy ===== *)
theory CrdManager
  imports Prelude "HOL-Library.Monad_Syntax"
begin

section \<open>Installing the resource definitions (internal/crdmanager/manager.go)\<close>

text \<open>
  At startup the operator applies the definitions embedded in its binary and polls until the API server
  reports each of them as established. The outside is a record of functions on a state \<open>'w\<close>: the embedded
  directory, the YAML decoder (the documents of a file up to its end, each decoded or an error), the
  API server and the wait of a polling round, which gives the error of the context when that is done
  first. The calls made are recorded in a trace.
  \<^item> \<open>WaitEstablished\<close> need not end; \<open>None\<close> is a run that polls forever.

  The lemmas: what a successful run has applied and seen, and that the polling ends when the context
  has a deadline.
\<close>

record Unstructured =
  un_Kind :: string
  un_Name :: string

record DirEntry =
  de_Name :: string
  de_IsDir :: bool

record CRDCondition =
  cc_Type :: string
  cc_Status :: string

record 'w crd_ext =
  y_ReadDir :: "DirEntry list result"
  y_ReadFile :: "string \<Rightarrow> string result"
  y_Decode :: "string \<Rightarrow> Unstructured result list"
  y_Apply :: "Unstructured \<Rightarrow> 'w \<Rightarrow> unit result \<times> 'w"
  y_Get :: "string \<Rightarrow> 'w \<Rightarrow> CRDCondition list result \<times> 'w"
  y_Wait :: "'w \<Rightarrow> goerror option \<times> 'w"

datatype crd_event = Applied Unstructured bool | Checked string bool | Waited

type_synonym 'w crd_sys = "'w \<times> crd_event list"

definition yaml_entries :: "DirEntry list \<Rightarrow> DirEntry list" where
  "yaml_entries entries = filter (\<lambda>entry. \<not> (de_IsDir entry \<or> \<not> HasSuffix (de_Name entry) ''.yaml'')) entries"

fun apply_docs :: "'w crd_ext \<Rightarrow> Unstructured result list \<Rightarrow> 'w crd_sys \<Rightarrow> unit result \<times> 'w crd_sys" where
  "apply_docs y [] s = (Inr (), s)"
| "apply_docs y (Inl err # docs) s = (Inl (Wrap err ''failed to decode YAML''), s)"
| "apply_docs y (Inr u # docs) (w, t) =
     (if un_Name u = [] then apply_docs y docs (w, t)
      else case y_Apply y u w of
             (Inl err, w') \<Rightarrow>
               (Inl (Wrapf err ''failed to apply %s/%s'' [AStr (un_Kind u), AStr (un_Name u)]), (w', t @ [Applied u False]))
           | (Inr _, w') \<Rightarrow> apply_docs y docs (w', t @ [Applied u True]))"

definition applyFile :: "'w crd_ext \<Rightarrow> string \<Rightarrow> 'w crd_sys \<Rightarrow> unit result \<times> 'w crd_sys" where
  "applyFile y filename s =
     (case y_ReadFile y (''crds/'' @ filename) of
        Inl err \<Rightarrow> (Inl (Wrap err ''failed to read file''), s)
      | Inr d \<Rightarrow> apply_docs y (y_Decode y d) s)"

fun apply_entries :: "'w crd_ext \<Rightarrow> DirEntry list \<Rightarrow> 'w crd_sys \<Rightarrow> unit result \<times> 'w crd_sys" where
  "apply_entries y [] s = (Inr (), s)"
| "apply_entries y (entry # entries) s =
     (case applyFile y (de_Name entry) s of
        (Inl err, s') \<Rightarrow> (Inl (Wrapf err ''failed to apply CRD file %s'' [AStr (de_Name entry)]), s')
      | (Inr _, s') \<Rightarrow> apply_entries y entries s')"

definition Apply :: "'w crd_ext \<Rightarrow> 'w crd_sys \<Rightarrow> unit result \<times> 'w crd_sys" where
  "Apply y s =
     (case y_ReadDir y of
        Inl err \<Rightarrow> (Inl (Wrap err ''failed to read embedded CRDs directory''), s)
      | Inr entries \<Rightarrow> apply_entries y (yaml_entries entries) s)"

fun doc_names :: "string \<Rightarrow> Unstructured result list \<Rightarrow> string list result" where
  "doc_names file [] = Inr []"
| "doc_names file (Inl err # docs) = Inl (Wrapf err ''failed to decode %s'' [AStr file])"
| "doc_names file (Inr u # docs) =
     (case doc_names file docs of
        Inl err \<Rightarrow> Inl err
      | Inr names \<Rightarrow> Inr (if un_Name u \<noteq> [] then un_Name u # names else names))"

fun entry_names :: "'w crd_ext \<Rightarrow> DirEntry list \<Rightarrow> string list result" where
  "entry_names y [] = Inr []"
| "entry_names y (entry # entries) =
     (case y_ReadFile y (''crds/'' @ de_Name entry) of
        Inl err \<Rightarrow> Inl (Wrapf err ''failed to read %s'' [AStr (de_Name entry)])
      | Inr d \<Rightarrow>
          (case doc_names (de_Name entry) (y_Decode y d) of
             Inl err \<Rightarrow> Inl err
           | Inr names \<Rightarrow> map_sum id ((@) names) (entry_names y entries)))"

definition embeddedCRDNames :: "'w crd_ext \<Rightarrow> string list result" where
  "embeddedCRDNames y =
     (case y_ReadDir y of
        Inl err \<Rightarrow> Inl (Wrap err ''failed to read embedded CRDs directory'')
      | Inr entries \<Rightarrow> entry_names y (yaml_entries entries))"

definition isCRDEstablished :: "'w crd_ext \<Rightarrow> string \<Rightarrow> 'w \<Rightarrow> bool result \<times> 'w" where
  "isCRDEstablished y name w =
     (case y_Get y name w of
        (Inl err, w') \<Rightarrow> (Inl (Wrap err ''failed to get CRD''), w')
      | (Inr conds, w') \<Rightarrow> (Inr (list_ex (\<lambda>cond. cc_Type cond = ''Established'' \<and> cc_Status cond = ''True'') conds), w'))"

text \<open>The inner loop of a round: it ends at the first definition that is not established.\<close>

fun check_round :: "'w crd_ext \<Rightarrow> string list \<Rightarrow> 'w crd_sys \<Rightarrow> bool result \<times> 'w crd_sys" where
  "check_round y [] s = (Inr True, s)"
| "check_round y (name # names) (w, t) =
     (case isCRDEstablished y name w of
        (Inl err, w') \<Rightarrow> (Inl (Wrapf err ''failed to check CRD %s'' [AStr name]), (w', t))
      | (Inr established, w') \<Rightarrow>
          if \<not> established then (Inr False, (w', t @ [Checked name False]))
          else check_round y names (w', t @ [Checked name True]))"

partial_function (option) poll :: "'w crd_ext \<Rightarrow> string list \<Rightarrow> 'w crd_sys \<Rightarrow> (unit result \<times> 'w crd_sys) option" where
  "poll y crds s =
     (case check_round y crds s of
        (Inl err, s') \<Rightarrow> Some (Inl err, s')
      | (Inr allEstablished, (w, t)) \<Rightarrow>
          if allEstablished then Some (Inr (), (w, t))
          else case y_Wait y w of
                 (Some err, w') \<Rightarrow> Some (Inl (Wrap err ''timed out waiting for CRDs to become established''), (w', t))
               | (None, w') \<Rightarrow> poll y crds (w', t @ [Waited]))"

definition WaitEstablished :: "'w crd_ext \<Rightarrow> 'w crd_sys \<Rightarrow> (unit result \<times> 'w crd_sys) option" where
  "WaitEstablished y s =
     (case embeddedCRDNames y of
        Inl err \<Rightarrow> Some (Inl err, s)
      | Inr crds \<Rightarrow> poll y crds s)"

definition EnsureCRDs :: "'w crd_ext \<Rightarrow> 'w crd_sys \<Rightarrow> (unit result \<times> 'w crd_sys) option" where
  "EnsureCRDs y s =
     (case Apply y s of
        (Inl err, s') \<Rightarrow> Some (Inl (Wrap err ''failed to apply CRDs''), s')
      | (Inr _, s') \<Rightarrow>
          (case WaitEstablished y s' of
             None \<Rightarrow> None
           | Some (Inl err, s'') \<Rightarrow> Some (Inl (Wrap err ''failed waiting for CRDs to become established''), s'')
           | Some (Inr _, s'') \<Rightarrow> Some (Inr (), s'')))"

subsection \<open>What a run has applied\<close>

text \<open>The named documents of the embedded files, in order.\<close>

definition named_docs :: "Unstructured result list \<Rightarrow> Unstructured list" where
  "named_docs docs = concat (map (\<lambda>d. case d of Inl _ \<Rightarrow> [] | Inr u \<Rightarrow> if un_Name u = [] then [] else [u]) docs)"

definition file_docs :: "'w crd_ext \<Rightarrow> DirEntry \<Rightarrow> Unstructured list" where
  "file_docs y entry = (case y_ReadFile y (''crds/'' @ de_Name entry) of Inl _ \<Rightarrow> [] | Inr d \<Rightarrow> named_docs (y_Decode y d))"

definition embedded_docs :: "'w crd_ext \<Rightarrow> Unstructured list" where
  "embedded_docs y =
     (case y_ReadDir y of Inl _ \<Rightarrow> [] | Inr entries \<Rightarrow> concat (map (file_docs y) (yaml_entries entries)))"

definition all_applied :: "Unstructured list \<Rightarrow> crd_event list" where
  "all_applied us = map (\<lambda>u. Applied u True) us"

lemma apply_docs_ok:
  "apply_docs y docs s = (Inr (), s') \<Longrightarrow> snd s' = snd s @ all_applied (named_docs docs)"
  by (induction y docs s arbitrary: s' rule: apply_docs.induct)
    (auto simp: named_docs_def all_applied_def split: if_splits sum.splits prod.splits)

lemma applyFile_ok:
  "applyFile y f s = (Inr (), s') \<Longrightarrow> de_Name entry = f \<Longrightarrow> snd s' = snd s @ all_applied (file_docs y entry)"
  by (auto simp: applyFile_def file_docs_def dest!: apply_docs_ok split: sum.splits)

lemma apply_entries_ok:
  "apply_entries y entries s = (Inr (), s') \<Longrightarrow> snd s' = snd s @ all_applied (concat (map (file_docs y) entries))"
proof (induction y entries s arbitrary: s' rule: apply_entries.induct)
  case (2 y entry entries s)
  obtain s1 where s1: "applyFile y (de_Name entry) s = (Inr (), s1)" "apply_entries y entries s1 = (Inr (), s')"
    using 2(2) by (auto split: prod.splits sum.splits)
  from 2(1) [OF s1(1) [symmetric] refl s1(2)] applyFile_ok [OF s1(1) refl]
  show ?case by (simp add: all_applied_def)
qed (simp add: all_applied_def)

lemma Apply_ok: "Apply y s = (Inr (), s') \<Longrightarrow> snd s' = snd s @ all_applied (embedded_docs y)"
  by (auto simp: Apply_def embedded_docs_def dest!: apply_entries_ok split: sum.splits)

lemma doc_names_ok: "doc_names f docs = Inr names \<Longrightarrow> names = map un_Name (named_docs docs)"
  by (induction f docs arbitrary: names rule: doc_names.induct) (auto simp: named_docs_def split: sum.splits if_splits)

lemma entry_names_ok: "entry_names y entries = Inr names \<Longrightarrow> names = map un_Name (concat (map (file_docs y) entries))"
proof (induction y entries arbitrary: names rule: entry_names.induct)
  case (2 y entry entries)
  then obtain d ns ms where d: "y_ReadFile y (''crds/'' @ de_Name entry) = Inr d" "doc_names (de_Name entry) (y_Decode y d) = Inr ns"
    "entry_names y entries = Inr ms" "names = ns @ ms"
    by (auto split: sum.splits simp: map_sum_def)
  with 2 doc_names_ok [OF d(2)] show ?case by (simp add: file_docs_def)
qed simp

lemma embeddedCRDNames_ok: "embeddedCRDNames y = Inr names \<Longrightarrow> names = map un_Name (embedded_docs y)"
  by (auto simp: embeddedCRDNames_def embedded_docs_def dest!: entry_names_ok split: sum.splits)

subsection \<open>Polling\<close>

lemma check_round_ok:
  "check_round y names s = (Inr True, s') \<Longrightarrow> snd s' = snd s @ map (\<lambda>n. Checked n True) names"
  by (induction y names s arbitrary: s' rule: check_round.induct) (auto split: prod.splits sum.splits if_splits)

text \<open>A round adds checks to the trace; a run of rounds adds checks and waits.\<close>

definition polling :: "crd_event list \<Rightarrow> bool" where
  "polling u = list_all (\<lambda>e. case e of Applied _ _ \<Rightarrow> False | _ \<Rightarrow> True) u"

lemma check_round_polls: "check_round y names s = (r, s') \<Longrightarrow> \<exists>u. snd s' = snd s @ u \<and> polling u"
proof (induction y names s arbitrary: s' rule: check_round.induct)
  case (2 y name names w t)
  show ?case
  proof (cases "isCRDEstablished y name w")
    case (Pair e w')
    show ?thesis
    proof (cases e)
      case (Inr b)
      show ?thesis
      proof (cases b)
        case True
        with 2(2) Pair Inr have "check_round y names (w', t @ [Checked name True]) = (r, s')" by simp
        with 2(1) [OF Pair [symmetric] Inr] True
        obtain u where "snd s' = t @ Checked name True # u" "polling u" by auto
        then show ?thesis by (intro exI [of _ "Checked name True # u"]) (simp add: polling_def)
      qed (use 2(2) Pair Inr in \<open>auto simp: polling_def\<close>)
    qed (use 2(2) Pair in \<open>auto simp: polling_def\<close>)
  qed
qed (simp add: polling_def)

definition established_after :: "'w crd_ext \<Rightarrow> string list \<Rightarrow> 'w crd_sys \<Rightarrow> unit result \<times> 'w crd_sys \<Rightarrow> bool" where
  "established_after y crds s r =
     (case fst r of
        Inl _ \<Rightarrow> True
      | Inr _ \<Rightarrow> \<exists>u. polling u \<and> snd (snd r) = snd s @ u @ map (\<lambda>n. Checked n True) crds)"

lemma established_later:
  assumes "established_after y crds (w, snd s @ u) r" "polling u"
  shows "established_after y crds s r"
proof (cases "fst r")
  case (Inr x)
  with assms(1) obtain v where "polling v" "snd (snd r) = snd s @ (u @ v) @ map (\<lambda>n. Checked n True) crds"
    by (auto simp: established_after_def)
  with assms(2) Inr show ?thesis
    by (auto simp: established_after_def polling_def intro!: exI [of _ "u @ v"])
qed (simp add: established_after_def)

lemma poll_established: "poll y crds s = Some r \<Longrightarrow> established_after y crds s r"
proof (rule poll.raw_induct [of established_after])
  fix loop and y :: "'b crd_ext" and crds s r
  assume IH: "\<And>y crds s r. loop y crds s = Some r \<Longrightarrow> established_after y crds s r"
    and eq: "(case check_round y crds s of (Inl err, s') \<Rightarrow> Some (Inl err, s')
      | (Inr allEstablished, (w, t)) \<Rightarrow> if allEstablished then Some (Inr (), (w, t))
          else case y_Wait y w of
            (Some err, w') \<Rightarrow> Some (Inl (Wrap err ''timed out waiting for CRDs to become established''), (w', t))
          | (None, w') \<Rightarrow> loop y crds (w', t @ [Waited])) = Some r"
  obtain c w t where c: "check_round y crds s = (c, (w, t))" by (metis surj_pair)
  show "established_after y crds s r"
  proof (cases c)
    case (Inl err)
    with eq c show ?thesis by (auto simp: established_after_def)
  next
    case (Inr b)
    show ?thesis
    proof (cases b)
      case True
      with eq c Inr check_round_ok [of y crds s "(w, t)"] show ?thesis
        by (auto simp: established_after_def polling_def)
    next
      case False
      obtain u where u: "t = snd s @ u" "polling u" using check_round_polls [OF c] by auto
      obtain e w' where e: "y_Wait y w = (e, w')" by fastforce
      show ?thesis
      proof (cases e)
        case None
        with eq c Inr False e have "established_after y crds (w', snd s @ (u @ [Waited])) r" by (intro IH) (simp add: u(1))
        moreover have "polling (u @ [Waited])" using u(2) by (simp add: polling_def)
        ultimately show ?thesis by (rule established_later)
      qed (use eq c Inr False e in \<open>auto simp: established_after_def\<close>)
    qed
  qed
qed

lemma check_round_budget:
  assumes "\<And>n w. f (snd (y_Get y n w)) \<le> (f w :: nat)"
  shows "f (fst (snd (check_round y names s))) \<le> f (fst s)"
proof (induction names arbitrary: s)
  case (Cons name names)
  obtain w t where s: "s = (w, t)" by fastforce
  obtain e w' where e: "isCRDEstablished y name w = (e, w')" by fastforce
  have "f w' \<le> f w"
    using e assms [of name w] by (auto simp: isCRDEstablished_def split: prod.splits sum.splits)
  moreover have "f (fst (snd (check_round y names (w', t')))) \<le> f w'" for t'
    using Cons.IH [of "(w', t')"] by simp
  ultimately show ?case using s e by (auto split: sum.split intro: le_trans)
qed simp

lemma poll_ends:
  fixes y :: "'w crd_ext" and f :: "'w \<Rightarrow> nat"
  assumes "\<And>n w. f (snd (y_Get y n w)) \<le> f w" "\<And>w w'. y_Wait y w = (None, w') \<Longrightarrow> f w' < f w"
  shows "\<exists>r. poll y crds s = Some r"
proof (induction "f (fst s)" arbitrary: s rule: less_induct)
  case less
  obtain c w t where c: "check_round y crds s = (c, (w, t))" by (metis surj_pair)
  have le: "f w \<le> f (fst s)" using check_round_budget [of f, OF assms(1), of crds s] c by simp
  obtain e w' where e: "y_Wait y w = (e, w')" by fastforce
  show ?case
  proof (cases "c = Inr False \<and> e = None")
    case True
    with assms(2) e le have "f (fst (w', t @ [Waited])) < f (fst s)" by fastforce
    from less [OF this] True c e show ?thesis by (subst poll.simps) simp
  next
    case False
    with c e show ?thesis by (subst poll.simps) (auto split: sum.split option.split)
  qed
qed

subsection \<open>Properties\<close>

text \<open>When the installation of the definitions succeeds, every named document of the embedded YAML files was
  applied, in the order of the files and without an error, no document was applied twice or after the
  polling began, and the last round found every one of them established.\<close>

theorem EnsureCRDs_established:
  assumes "EnsureCRDs y s = Some (Inr (), s')"
  shows "\<exists>u. polling u \<and> snd s' = snd s @ all_applied (embedded_docs y) @ u @
    map (\<lambda>d. Checked (un_Name d) True) (embedded_docs y)"
proof -
  obtain s1 where s1: "Apply y s = (Inr (), s1)" "WaitEstablished y s1 = Some (Inr (), s')"
    using assms by (auto simp: EnsureCRDs_def split: prod.splits sum.splits option.splits)
  then obtain names where names: "embeddedCRDNames y = Inr names" "poll y names s1 = Some (Inr (), s')"
    by (auto simp: WaitEstablished_def split: sum.splits)
  obtain u where "polling u" "snd s' = snd s1 @ u @ map (\<lambda>n. Checked n True) names"
    using poll_established [OF names(2)] by (auto simp: established_after_def)
  with Apply_ok [OF s1(1)] embeddedCRDNames_ok [OF names(1)] show ?thesis by (auto simp: comp_def)
qed

text \<open>The installation always returns when the context has a deadline: if every wait that does not report
  the end of the context uses up some of a budget, which no request to the API server increases.\<close>

theorem EnsureCRDs_returns:
  fixes y :: "'w crd_ext" and f :: "'w \<Rightarrow> nat"
  assumes "\<And>n w. f (snd (y_Get y n w)) \<le> f w" "\<And>w w'. y_Wait y w = (None, w') \<Longrightarrow> f w' < f w"
  shows "\<exists>r. EnsureCRDs y s = Some r"
proof -
  obtain r s1 where Pair: "Apply y s = (r, s1)" by (rule prod.exhaust)
  show ?thesis
  proof (cases "\<exists>names. r = Inr () \<and> embeddedCRDNames y = Inr names")
    case True
    then obtain names where names: "r = Inr ()" "embeddedCRDNames y = Inr names" by blast
    obtain q s2 where "poll y names s1 = Some (q, s2)" using poll_ends [of f, OF assms] by (metis surj_pair)
    with names Pair show ?thesis by (cases q) (simp_all add: EnsureCRDs_def WaitEstablished_def)
  next
    case False
    with Pair show ?thesis
      by (cases r; cases "embeddedCRDNames y") (simp_all add: EnsureCRDs_def WaitEstablished_def)
  qed
qed

text \<open>A server that reports the definition as established from the second round on; its state counts the waits left.\<close>

definition demo_crd :: "nat crd_ext" where
  "demo_crd = \<lparr>y_ReadDir = Inr [\<lparr>de_Name = ''a.yaml'', de_IsDir = False\<rparr>, \<lparr>de_Name = ''README'', de_IsDir = False\<rparr>],
     y_ReadFile = (\<lambda>f. Inr f), y_Decode = (\<lambda>_. [Inr \<lparr>un_Kind = [], un_Name = []\<rparr>, Inr \<lparr>un_Kind = ''CRD'', un_Name = ''a''\<rparr>]),
     y_Apply = (\<lambda>_ w. (Inr (), w)), y_Get = (\<lambda>_ w. (Inr (if w < 3 then [\<lparr>cc_Type = ''Established'', cc_Status = ''True''\<rparr>] else []), w)),
     y_Wait = (\<lambda>w. if w = 0 then (Some (CtxErr ''deadline''), 0) else (None, w - 1))\<rparr>"

lemma demo_crd_run:
  "EnsureCRDs demo_crd (3, []) = Some (Inr (), (2, [Applied \<lparr>un_Kind = ''CRD'', un_Name = ''a''\<rparr> True,
     Checked ''a'' False, Waited, Checked ''a'' True]))"
  by (simp add: EnsureCRDs_def Apply_def WaitEstablished_def demo_crd_def yaml_entries_def HasSuffix_def applyFile_def
      embeddedCRDNames_def isCRDEstablished_def poll.simps)

theorem EnsureCRDs_established_witness:
  "\<exists>u. polling u \<and> [Applied \<lparr>un_Kind = ''CRD'', un_Name = ''a''\<rparr> True, Checked ''a'' False, Waited, Checked ''a'' True] =
     all_applied (embedded_docs demo_crd) @ u @ map (\<lambda>d. Checked (un_Name d) True) (embedded_docs demo_crd)"
  using EnsureCRDs_established [OF demo_crd_run] by simp

theorem EnsureCRDs_returns_witness: "\<exists>r. EnsureCRDs demo_crd (7, []) = Some r"
  by (rule EnsureCRDs_returns [where f = "\<lambda>w. w"]) (auto simp: demo_crd_def split: if_splits)

end
