(* ===== verification/Startup.thy ===== *)
theory Startup
  imports CrdManager
begin

section \<open>The entry point (cmd/main.go)\<close>

text \<open>
  \<^verbatim>\<open>main\<close> turns the flags into the options of the manager and performs a sequence of setup steps; the first
  one that fails ends the process with exit code 1. The steps are calls of controller-runtime, given by a
  record of functions on a state \<open>'w\<close>, except for the installation of the resource definitions, which is
  \<open>EnsureCRDs\<close>. \<open>main\<close> does not return (\<open>None\<close>) when that does not. The registration of types in the scheme,
  the logger's output and the construction of the clients have no effect here and are left out.

  The lemmas: what has happened when the manager starts, and that the exit code tells it.
\<close>

subsection \<open>Flags and options\<close>

record flags =
  fl_metricsAddr :: string
  fl_probeAddr :: string
  fl_enableLeaderElection :: bool
  fl_secureMetrics :: bool
  fl_webhookCertPath :: string
  fl_webhookCertName :: string
  fl_webhookCertKey :: string
  fl_metricsCertPath :: string
  fl_metricsCertName :: string
  fl_metricsCertKey :: string
  fl_enableHTTP2 :: bool
  fl_webuiAddr :: string
  fl_webuiNamespace :: string
  fl_webuiEnabled :: bool
  fl_manageCRDs :: bool
  fl_enableWebhooks :: bool
  fl_logLevel :: string
  fl_logFormat :: string

definition default_flags :: flags where
  "default_flags =
     \<lparr>fl_metricsAddr = ''0'', fl_probeAddr = '':8081'', fl_enableLeaderElection = False, fl_secureMetrics = True,
      fl_webhookCertPath = [], fl_webhookCertName = ''tls.crt'', fl_webhookCertKey = ''tls.key'', fl_metricsCertPath = [],
      fl_metricsCertName = ''tls.crt'', fl_metricsCertKey = ''tls.key'', fl_enableHTTP2 = False, fl_webuiAddr = '':8082'',
      fl_webuiNamespace = [], fl_webuiEnabled = True, fl_manageCRDs = True, fl_enableWebhooks = False,
      fl_logLevel = ''info'', fl_logFormat = ''json''\<rparr>"

datatype log_level = LevelDebug | LevelInfo | LevelWarn | LevelError

datatype log_handler = TextHandler log_level | JSONHandler log_level

definition slog_level :: "string \<Rightarrow> log_level" where
  "slog_level logLevel =
     (if logLevel = ''debug'' then LevelDebug else if logLevel = ''info'' then LevelInfo
      else if logLevel = ''warn'' then LevelWarn else if logLevel = ''error'' then LevelError else LevelInfo)"

definition slog_handler :: "flags \<Rightarrow> log_handler" where
  "slog_handler f =
     (if fl_logFormat f = ''text'' then TextHandler (slog_level (fl_logLevel f)) else JSONHandler (slog_level (fl_logLevel f)))"

text \<open>The TLS options are functions that change a configuration; the only one restricts the protocols.\<close>

record tls_config =
  tls_NextProtos :: "string list"

definition disableHTTP2 :: "tls_config \<Rightarrow> tls_config" where
  "disableHTTP2 c = c\<lparr>tls_NextProtos := [''http/1.1'']\<rparr>"

definition tls_opts :: "flags \<Rightarrow> (tls_config \<Rightarrow> tls_config) list" where
  "tls_opts f = (if \<not> fl_enableHTTP2 f then [disableHTTP2] else [])"

record webhook_options =
  wo_TLSOpts :: "(tls_config \<Rightarrow> tls_config) list"
  wo_CertDir :: string
  wo_CertName :: string
  wo_KeyName :: string

definition webhook_server_options :: "flags \<Rightarrow> webhook_options" where
  "webhook_server_options f =
     (if length (fl_webhookCertPath f) > 0 then
        \<lparr>wo_TLSOpts = tls_opts f, wo_CertDir = fl_webhookCertPath f, wo_CertName = fl_webhookCertName f,
         wo_KeyName = fl_webhookCertKey f\<rparr>
      else \<lparr>wo_TLSOpts = tls_opts f, wo_CertDir = [], wo_CertName = [], wo_KeyName = []\<rparr>)"

record metrics_options =
  mo_BindAddress :: string
  mo_SecureServing :: bool
  mo_TLSOpts :: "(tls_config \<Rightarrow> tls_config) list"
  mo_Authenticated :: bool
  mo_CertDir :: string
  mo_CertName :: string
  mo_KeyName :: string

definition metrics_server_options :: "flags \<Rightarrow> metrics_options" where
  "metrics_server_options f =
     (let cert = length (fl_metricsCertPath f) > 0
      in \<lparr>mo_BindAddress = fl_metricsAddr f, mo_SecureServing = fl_secureMetrics f, mo_TLSOpts = tls_opts f,
          mo_Authenticated = fl_secureMetrics f, mo_CertDir = (if cert then fl_metricsCertPath f else []),
          mo_CertName = (if cert then fl_metricsCertName f else []), mo_KeyName = (if cert then fl_metricsCertKey f else [])\<rparr>)"

record manager_options =
  mg_Metrics :: metrics_options
  mg_WebhookServer :: webhook_options
  mg_HealthProbeBindAddress :: string
  mg_LeaderElection :: bool
  mg_LeaderElectionID :: string

definition manager_opts :: "flags \<Rightarrow> manager_options" where
  "manager_opts f =
     \<lparr>mg_Metrics = metrics_server_options f, mg_WebhookServer = webhook_server_options f,
      mg_HealthProbeBindAddress = fl_probeAddr f, mg_LeaderElection = fl_enableLeaderElection f,
      mg_LeaderElectionID = ''5fdad980.mc.k8s.lex.la''\<rparr>"

definition ui_namespace :: "flags \<Rightarrow> string \<Rightarrow> string" where
  "ui_namespace f podNamespace =
     (if fl_webuiNamespace f = [] then (if podNamespace = [] then ''default'' else podNamespace) else fl_webuiNamespace f)"

subsection \<open>Steps\<close>

datatype runnable = BackupCronRunnable | UpdateCronRunnable | WebUIServer string string

datatype startup_step =
    NewManager manager_options
  | NewDirectClient
  | EnsureDefinitions
  | SetupController string
  | NewPodExecutor
  | AddRunnable runnable
  | SetupWebhook string
  | AddHealthzCheck
  | AddReadyzCheck
  | StartManager

definition startup_steps :: "flags \<Rightarrow> string \<Rightarrow> startup_step list" where
  "startup_steps f podNamespace =
     [NewManager (manager_opts f)] @
     (if fl_manageCRDs f then [NewDirectClient, EnsureDefinitions] else []) @
     [SetupController ''Plugin'', SetupController ''PaperMCServer'', NewPodExecutor, SetupController ''Backup'',
      AddRunnable BackupCronRunnable, SetupController ''Update'', AddRunnable UpdateCronRunnable] @
     (if fl_enableWebhooks f then [SetupWebhook ''Plugin'', SetupWebhook ''PaperMCServer''] else []) @
     [AddHealthzCheck, AddReadyzCheck] @
     (if fl_webuiEnabled f then [AddRunnable (WebUIServer (ui_namespace f podNamespace) (fl_webuiAddr f))] else []) @
     [StartManager]"

record 'w start_ext =
  z_step :: "startup_step \<Rightarrow> 'w \<Rightarrow> unit result \<times> 'w"
  z_crds :: "'w crd_ext"

datatype startup_event = Did startup_step bool | CrdCall crd_event

type_synonym 'w start_sys = "'w \<times> startup_event list"

definition succeeded :: "'a result \<Rightarrow> bool" where
  "succeeded r = (case r of Inl _ \<Rightarrow> False | Inr _ \<Rightarrow> True)"

definition do_step :: "'w start_ext \<Rightarrow> startup_step \<Rightarrow> 'w start_sys \<Rightarrow> (unit result \<times> 'w start_sys) option" where
  "do_step z st s =
     (if st = EnsureDefinitions then
        (case EnsureCRDs (z_crds z) (fst s, []) of
           None \<Rightarrow> None
         | Some (r, (w, u)) \<Rightarrow> Some (r, (w, snd s @ map CrdCall u @ [Did st (succeeded r)])))
      else (case z_step z st (fst s) of (r, w) \<Rightarrow> Some (r, (w, snd s @ [Did st (succeeded r)]))))"

fun run_steps :: "'w start_ext \<Rightarrow> startup_step list \<Rightarrow> 'w start_sys \<Rightarrow> (nat \<times> 'w start_sys) option" where
  "run_steps z [] s = Some (0, s)"
| "run_steps z (st # sts) s =
     (case do_step z st s of
        None \<Rightarrow> None
      | Some (Inl _, s') \<Rightarrow> Some (1, s')
      | Some (Inr _, s') \<Rightarrow> run_steps z sts s')"

definition main :: "'w start_ext \<Rightarrow> flags \<Rightarrow> string \<Rightarrow> 'w \<Rightarrow> (nat \<times> 'w start_sys) option" where
  "main z f podNamespace w = run_steps z (startup_steps f podNamespace) (w, [])"

subsection \<open>What has happened when the manager starts\<close>

definition done_steps :: "startup_event list \<Rightarrow> (startup_step \<times> bool) list" where
  "done_steps t = List.map_filter (\<lambda>e. case e of Did st ok \<Rightarrow> Some (st, ok) | CrdCall _ \<Rightarrow> None) t"

definition crd_calls :: "startup_event list \<Rightarrow> crd_event list" where
  "crd_calls t = List.map_filter (\<lambda>e. case e of Did _ _ \<Rightarrow> None | CrdCall c \<Rightarrow> Some c) t"

lemma startup_trace_append [simp]:
  "done_steps (t @ u) = done_steps t @ done_steps u" "crd_calls (t @ u) = crd_calls t @ crd_calls u"
  by (simp_all add: done_steps_def crd_calls_def map_filter_def)

lemma startup_trace_simps [simp]:
  "done_steps [] = []" "crd_calls [] = []" "done_steps [Did st ok] = [(st, ok)]" "crd_calls [Did st ok] = []"
  "done_steps (map CrdCall u) = []" "crd_calls (map CrdCall u) = u"
  by (induction u) (simp_all add: done_steps_def crd_calls_def map_filter_def)

text \<open>The installation of the definitions was complete: all applied, then all seen as established.\<close>

definition installed :: "'w crd_ext \<Rightarrow> crd_event list \<Rightarrow> bool" where
  "installed y t \<longleftrightarrow> (\<exists>u. polling u \<and> t = all_applied (embedded_docs y) @ u @ map (\<lambda>d. Checked (un_Name d) True) (embedded_docs y))"

lemma do_step_trace:
  assumes "do_step z st s = Some (r, s')"
  shows "done_steps (snd s') = done_steps (snd s) @ [(st, succeeded r)]"
    and "st \<noteq> EnsureDefinitions \<Longrightarrow> crd_calls (snd s') = crd_calls (snd s)"
    and "st = EnsureDefinitions \<Longrightarrow> succeeded r \<Longrightarrow> crd_calls (snd s) = [] \<Longrightarrow> installed (z_crds z) (crd_calls (snd s'))"
proof -
  show "done_steps (snd s') = done_steps (snd s) @ [(st, succeeded r)]"
    "st \<noteq> EnsureDefinitions \<Longrightarrow> crd_calls (snd s') = crd_calls (snd s)"
    using assms by (auto simp: do_step_def split: if_splits option.splits prod.splits)
  assume st: "st = EnsureDefinitions" "succeeded r" "crd_calls (snd s) = []"
  then have "r = Inr ()" by (auto simp: succeeded_def split: sum.splits)
  with assms st obtain w u where u: "EnsureCRDs (z_crds z) (fst s, []) = Some (Inr (), (w, u))" "crd_calls (snd s') = u"
    by (auto simp: do_step_def split: option.splits prod.splits)
  with EnsureCRDs_established [OF u(1)] show "installed (z_crds z) (crd_calls (snd s'))"
    by (auto simp: installed_def)
qed

lemma run_steps_trace:
  "run_steps z sts s = Some (code, s') \<Longrightarrow>
   \<exists>n \<le> length sts. code = (if n = length sts then 0 else 1) \<and>
     done_steps (snd s') = done_steps (snd s) @ map (\<lambda>st. (st, True)) (take n sts) @ (if n = length sts then [] else [(sts ! n, False)])"
proof (induction sts arbitrary: s)
  case (Cons st sts)
  then obtain r s1 where s1: "do_step z st s = Some (r, s1)" by (auto split: option.splits)
  show ?case
  proof (cases r)
    case (Inl err)
    with Cons.prems s1 do_step_trace(1) [OF s1] show ?thesis by (intro exI [of _ 0]) (auto simp: succeeded_def)
  next
    case (Inr v)
    with Cons.prems s1 have "run_steps z sts s1 = Some (code, s')" by simp
    from Cons.IH [OF this] obtain n where "n \<le> length sts" "code = (if n = length sts then 0 else 1)"
      "done_steps (snd s') = done_steps (snd s1) @ map (\<lambda>st. (st, True)) (take n sts) @ (if n = length sts then [] else [(sts ! n, False)])"
      by blast
    with do_step_trace(1) [OF s1] Inr show ?thesis by (intro exI [of _ "Suc n"]) (auto simp: succeeded_def)
  qed
qed simp

lemma run_steps_other:
  "run_steps z sts s = Some (code, s') \<Longrightarrow> EnsureDefinitions \<notin> set sts \<Longrightarrow> crd_calls (snd s') = crd_calls (snd s)"
proof (induction sts arbitrary: s)
  case (Cons st sts)
  then obtain r s1 where s1: "do_step z st s = Some (r, s1)" by (auto split: option.splits)
  with Cons do_step_trace(2) [OF s1] show ?case by (cases r) auto
qed simp

text \<open>A step that succeeds leads to the rest of the steps.\<close>

lemma run_steps_Cons:
  assumes "run_steps z (st # sts) s = Some (code, s')" and "StartManager \<in> fst ` set (done_steps (snd s'))"
    and "st \<noteq> StartManager" and "StartManager \<notin> fst ` set (done_steps (snd s))"
  obtains s1 where "do_step z st s = Some (Inr (), s1)" "run_steps z sts s1 = Some (code, s')"
    "StartManager \<notin> fst ` set (done_steps (snd s1))"
proof -
  obtain r s1 where s1: "do_step z st s = Some (r, s1)" using assms(1) by (auto split: option.splits)
  have no: "StartManager \<notin> fst ` set (done_steps (snd s1))" using do_step_trace(1) [OF s1] assms(3,4) by simp
  show thesis
  proof (cases r)
    case (Inl err)
    with assms(1,2) s1 no show thesis by simp
  next
    case (Inr v)
    with assms(1) s1 no show thesis by (intro that [of s1]) simp_all
  qed
qed

lemma run_installed:
  assumes "main z f podNamespace w = Some (code, s')"
    and crds: "fl_manageCRDs f \<and> StartManager \<in> fst ` set (done_steps (snd s'))"
  shows "installed (z_crds z) (crd_calls (snd s'))"
proof -
  from crds obtain rest where steps: "startup_steps f podNamespace = NewManager (manager_opts f) # NewDirectClient # EnsureDefinitions # rest"
    and rest: "EnsureDefinitions \<notin> set rest"
    by (auto simp: startup_steps_def)
  from assms(1) have run: "run_steps z (NewManager (manager_opts f) # NewDirectClient # EnsureDefinitions # rest) (w, []) = Some (code, s')"
    by (simp only: main_def steps)
  note start = conjunct2 [OF crds]
  obtain s1 where s1: "do_step z (NewManager (manager_opts f)) (w, []) = Some (Inr (), s1)"
    "run_steps z (NewDirectClient # EnsureDefinitions # rest) s1 = Some (code, s')" "StartManager \<notin> fst ` set (done_steps (snd s1))"
    by (rule run_steps_Cons [OF run start]) simp_all
  obtain s2 where s2: "do_step z NewDirectClient s1 = Some (Inr (), s2)"
    "run_steps z (EnsureDefinitions # rest) s2 = Some (code, s')" "StartManager \<notin> fst ` set (done_steps (snd s2))"
    by (rule run_steps_Cons [OF s1(2) start]) (simp_all add: s1(3))
  obtain s3 where s3: "do_step z EnsureDefinitions s2 = Some (Inr (), s3)" "run_steps z rest s3 = Some (code, s')"
    by (rule run_steps_Cons [OF s2(2) start]) (simp_all add: s2(3))
  have "crd_calls (snd s2) = []" using do_step_trace(2) [OF s1(1)] do_step_trace(2) [OF s2(1)] by simp
  with do_step_trace(3) [OF s3(1)] have "installed (z_crds z) (crd_calls (snd s3))" by (simp add: succeeded_def)
  with run_steps_other [OF s3(2) rest] show ?thesis by simp
qed

text \<open>Every step of a run came after the steps before it in the list, all of which succeeded.\<close>

definition performed :: "startup_step list \<Rightarrow> nat \<Rightarrow> (startup_step \<times> bool) list" where
  "performed sts n = map (\<lambda>st. (st, True)) (take n sts) @ (if n = length sts then [] else [(sts ! n, False)])"

lemma performed_before:
  assumes "n \<le> length sts" and "performed sts n = a @ (st, ok) # b"
  shows "length a < length sts \<and> sts ! length a = st \<and> a = map (\<lambda>st. (st, True)) (take (length a) sts) \<and> (\<not> ok \<longrightarrow> b = [])"
proof (cases "length a < n")
  case True
  let ?k = "length a"
  from True assms(1) have split: "take n sts = take ?k sts @ sts ! ?k # drop (Suc ?k) (take n sts)"
    using id_take_nth_drop [of ?k "take n sts"] by simp
  have "performed sts n = map (\<lambda>st. (st, True)) (take ?k sts) @ (sts ! ?k, True) #
      (map (\<lambda>st. (st, True)) (drop (Suc ?k) (take n sts)) @ (if n = length sts then [] else [(sts ! n, False)]))"
    unfolding performed_def by (subst split) simp
  with assms True show ?thesis by (simp add: append_eq_append_conv)
next
  case False
  have "length (performed sts n) = (if n = length sts then n else Suc n)" using assms(1) by (simp add: performed_def)
  with assms(2) False have k: "length a = n" "b = []" "n \<noteq> length sts" by (auto split: if_splits)
  with assms show ?thesis by (auto simp: performed_def)
qed

text \<open>What must have succeeded when the manager starts.\<close>

definition required_steps :: "flags \<Rightarrow> string \<Rightarrow> startup_step set" where
  "required_steps f podNamespace =
     SetupController ` {''Plugin'', ''PaperMCServer'', ''Backup'', ''Update''} \<union>
     {AddRunnable BackupCronRunnable, AddRunnable UpdateCronRunnable, AddHealthzCheck, AddReadyzCheck} \<union>
     (if fl_manageCRDs f then {EnsureDefinitions} else {}) \<union>
     (if fl_enableWebhooks f then SetupWebhook ` {''Plugin'', ''PaperMCServer''} else {}) \<union>
     (if fl_webuiEnabled f then {AddRunnable (WebUIServer (ui_namespace f podNamespace) (fl_webuiAddr f))} else {})"

lemma manager_start_last:
  assumes "k < length (startup_steps f podNamespace)" and "startup_steps f podNamespace ! k = StartManager"
  shows "k = length (startup_steps f podNamespace) - 1 \<and> required_steps f podNamespace \<subseteq> set (take k (startup_steps f podNamespace))"
proof -
  obtain pre where pre: "startup_steps f podNamespace = pre @ [StartManager]" "StartManager \<notin> set pre"
    and req: "required_steps f podNamespace \<subseteq> set pre"
    by (rule that [of "butlast (startup_steps f podNamespace)"])
      (auto simp: startup_steps_def required_steps_def butlast_append)
  have "k = length pre"
  proof (rule ccontr)
    assume "k \<noteq> length pre"
    with assms pre(1) have "k < length pre" "pre ! k = StartManager" by (simp_all add: nth_append)
    with pre(2) show False by (metis nth_mem)
  qed
  with pre(1) req show ?thesis by simp
qed

lemma definitions_before_controllers:
  assumes "k < length (startup_steps f podNamespace)" and "startup_steps f podNamespace ! k = SetupController c"
    and "fl_manageCRDs f"
  shows "EnsureDefinitions \<in> set (take k (startup_steps f podNamespace))"
proof -
  from assms(3) obtain rest where "startup_steps f podNamespace = NewManager (manager_opts f) # NewDirectClient # EnsureDefinitions # rest"
    by (auto simp: startup_steps_def)
  with assms(2) show ?thesis by (auto simp: nth_Cons' take_Cons' split: if_splits)
qed

lemma performed_step:
  assumes "n \<le> length (startup_steps f podNamespace)" and "performed (startup_steps f podNamespace) n = a @ (st, ok) # b"
  shows "(\<not> ok \<longrightarrow> b = []) \<and>
    (st = StartManager \<longrightarrow> b = [] \<and> (\<forall>r \<in> required_steps f podNamespace. (r, True) \<in> set a)) \<and>
    (st \<in> range SetupController \<and> fl_manageCRDs f \<longrightarrow> (EnsureDefinitions, True) \<in> set a)"
proof -
  let ?sts = "startup_steps f podNamespace" and ?k = "length a"
  note before = performed_before [OF assms]
  then have a: "(r, True) \<in> set a" if "r \<in> set (take ?k ?sts)" for r
    using that by (metis (no_types, lifting) image_eqI set_map)
  have len: "length (performed ?sts n) \<le> length ?sts" using assms(1) by (auto simp: performed_def)
  have "Suc (?k + length b) \<le> length ?sts" using len assms(2) by simp
  then have last: "b = []" if "?k = length ?sts - 1" using that before by (cases b) simp_all
  show ?thesis
    using before a last manager_start_last [of ?k f podNamespace] definitions_before_controllers [of ?k f podNamespace]
    by blast
qed

lemma started_iff:
  assumes "n \<le> length (startup_steps f podNamespace)"
  shows "(StartManager, True) \<in> set (performed (startup_steps f podNamespace) n) \<longleftrightarrow> n = length (startup_steps f podNamespace)"
proof -
  obtain pre where pre: "startup_steps f podNamespace = pre @ [StartManager]" "StartManager \<notin> set pre"
    by (rule that [of "butlast (startup_steps f podNamespace)"]) (auto simp: startup_steps_def butlast_append)
  with assms show ?thesis
    by (auto simp: performed_def dest: in_set_takeD)
qed

text \<open>
  C29. Start-up. Nothing is done after a step that failed. The manager is started last, and only after every
  controller, both cron runnables, the health checks and, as the flags ask for them, the resource
  definitions, the webhooks and the web interface are set up; the process returns 0 exactly when it was
  started without an error, and 1 otherwise. Where the operator manages its resource definitions, no
  controller is set up before their installation succeeded, and when the manager starts every one of
  them was applied and then seen as established.
\<close>

theorem manager_starts_last:
  assumes "main z f podNamespace w = Some (code, s')"
  shows "code = (if (StartManager, True) \<in> set (done_steps (snd s')) then 0 else 1) \<and>
    (\<forall>a st ok b. done_steps (snd s') = a @ (st, ok) # b \<longrightarrow>
       (\<not> ok \<longrightarrow> b = []) \<and>
       (st = StartManager \<longrightarrow> b = [] \<and> (\<forall>r \<in> required_steps f podNamespace. (r, True) \<in> set a)) \<and>
       (st \<in> range SetupController \<and> fl_manageCRDs f \<longrightarrow> (EnsureDefinitions, True) \<in> set a)) \<and>
    (fl_manageCRDs f \<and> StartManager \<in> fst ` set (done_steps (snd s')) \<longrightarrow> installed (z_crds z) (crd_calls (snd s')))"
proof -
  let ?sts = "startup_steps f podNamespace"
  obtain n where n: "n \<le> length ?sts" "code = (if n = length ?sts then 0 else 1)"
    and t: "done_steps (snd s') = performed ?sts n"
    using run_steps_trace [OF assms [unfolded main_def]] by (auto simp: performed_def)
  have code: "code = (if (StartManager, True) \<in> set (done_steps (snd s')) then 0 else 1)"
    unfolding t n(2) using started_iff [OF n(1)] by simp
  have steps: "(\<not> ok \<longrightarrow> b = []) \<and>
       (st = StartManager \<longrightarrow> b = [] \<and> (\<forall>r \<in> required_steps f podNamespace. (r, True) \<in> set a)) \<and>
       (st \<in> range SetupController \<and> fl_manageCRDs f \<longrightarrow> (EnsureDefinitions, True) \<in> set a)"
    if "done_steps (snd s') = a @ (st, ok) # b" for a st ok b
    using performed_step [OF n(1) that [unfolded t]] .
  from code steps run_installed [OF assms] show ?thesis by blast
qed

text \<open>A start with the default flags, and one whose second controller cannot be set up.\<close>

definition demo_start :: "(startup_step \<Rightarrow> bool) \<Rightarrow> nat start_ext" where
  "demo_start ok = \<lparr>z_step = (\<lambda>st w. (if ok st then Inr () else Inl (New ''failed''), w)), z_crds = demo_crd\<rparr>"

lemma demo_start_run:
  "\<exists>t. main (demo_start (\<lambda>_. True)) default_flags [] 3 = Some (0, (2, t)) \<and> (StartManager, True) \<in> set (done_steps t)"
  by (simp add: main_def startup_steps_def default_flags_def demo_start_def do_step_def demo_crd_run succeeded_def
      done_steps_def map_filter_simps)

theorem manager_starts_last_witness:
  "\<exists>t. (StartManager, True) \<in> set (done_steps t) \<and> installed demo_crd (crd_calls t)"
proof -
  obtain t where t: "main (demo_start (\<lambda>_. True)) default_flags [] 3 = Some (0, (2, t))" "(StartManager, True) \<in> set (done_steps t)"
    using demo_start_run by blast
  have "StartManager \<in> fst ` set (done_steps t)" using t(2) by force
  with t(2) manager_starts_last [OF t(1)] show ?thesis
    by (auto simp: default_flags_def demo_start_def)
qed

text \<open>Without the flag for HTTP/2, every server of the process offers HTTP/1.1 only.\<close>

lemma http1_only:
  "fl_enableHTTP2 f = False \<Longrightarrow>
     tls_NextProtos (fold (\<lambda>opt c. opt c) (wo_TLSOpts (webhook_server_options f)) c) = [''http/1.1''] \<and>
     tls_NextProtos (fold (\<lambda>opt c. opt c) (mo_TLSOpts (metrics_server_options f)) c) = [''http/1.1'']"
  by (simp add: webhook_server_options_def metrics_server_options_def tls_opts_def disableHTTP2_def Let_def)

end
