(* ===== verification/Metrics.thy ===== *)
theory Metrics
  imports Prelude
begin

section \<open>Metrics (pkg/metrics/metrics.go)\<close>

text \<open>
  The recorder behind the metric calls of the controllers. A vector of counters is a function from its
  label value to a number, a vector of histograms one to the durations observed, latest first; their
  buckets and the export are the Prometheus library's. Its counters count without a bound.

  The lemmas: the counters agree with the calls made, and failures never exceed totals.
\<close>

record PrometheusRecorder =
  reconcileTotal :: "string \<Rightarrow> nat"
  reconcileErrorsTotal :: "string \<Rightarrow> nat"
  reconcileDuration :: "string \<Rightarrow> duration list"
  pluginAPIRequestsTotal :: "string \<Rightarrow> nat"
  pluginAPIErrorsTotal :: "string \<Rightarrow> nat"
  pluginAPIDuration :: "string \<Rightarrow> duration list"
  solverRunsTotal :: "string \<Rightarrow> nat"
  solverErrorsTotal :: "string \<Rightarrow> nat"
  solverDuration :: "string \<Rightarrow> duration list"
  updatesTotal :: "string \<Rightarrow> nat"

definition NewPrometheusRecorder :: PrometheusRecorder where
  "NewPrometheusRecorder =
     \<lparr>reconcileTotal = (\<lambda>_. 0), reconcileErrorsTotal = (\<lambda>_. 0), reconcileDuration = (\<lambda>_. []),
      pluginAPIRequestsTotal = (\<lambda>_. 0), pluginAPIErrorsTotal = (\<lambda>_. 0), pluginAPIDuration = (\<lambda>_. []),
      solverRunsTotal = (\<lambda>_. 0), solverErrorsTotal = (\<lambda>_. 0), solverDuration = (\<lambda>_. []), updatesTotal = (\<lambda>_. 0)\<rparr>"

definition inc :: "string \<Rightarrow> (string \<Rightarrow> nat) \<Rightarrow> string \<Rightarrow> nat" where
  "inc label c = c(label := c label + 1)"

definition observe :: "string \<Rightarrow> duration \<Rightarrow> (string \<Rightarrow> duration list) \<Rightarrow> string \<Rightarrow> duration list" where
  "observe label d h = h(label := d # h label)"

definition RecordReconcile :: "string \<Rightarrow> goerror option \<Rightarrow> duration \<Rightarrow> PrometheusRecorder \<Rightarrow> PrometheusRecorder" where
  "RecordReconcile controller err duration r =
     (let r1 = r\<lparr>reconcileTotal := inc controller (reconcileTotal r),
                 reconcileDuration := observe controller duration (reconcileDuration r)\<rparr>
      in if err \<noteq> None then r1\<lparr>reconcileErrorsTotal := inc controller (reconcileErrorsTotal r1)\<rparr> else r1)"

definition RecordPluginAPICall :: "string \<Rightarrow> goerror option \<Rightarrow> duration \<Rightarrow> PrometheusRecorder \<Rightarrow> PrometheusRecorder" where
  "RecordPluginAPICall source err duration r =
     (let r1 = r\<lparr>pluginAPIRequestsTotal := inc source (pluginAPIRequestsTotal r),
                 pluginAPIDuration := observe source duration (pluginAPIDuration r)\<rparr>
      in if err \<noteq> None then r1\<lparr>pluginAPIErrorsTotal := inc source (pluginAPIErrorsTotal r1)\<rparr> else r1)"

definition RecordSolverRun :: "string \<Rightarrow> goerror option \<Rightarrow> duration \<Rightarrow> PrometheusRecorder \<Rightarrow> PrometheusRecorder" where
  "RecordSolverRun solverType err duration r =
     (let r1 = r\<lparr>solverRunsTotal := inc solverType (solverRunsTotal r),
                 solverDuration := observe solverType duration (solverDuration r)\<rparr>
      in if err \<noteq> None then r1\<lparr>solverErrorsTotal := inc solverType (solverErrorsTotal r1)\<rparr> else r1)"

definition RecordUpdate :: "bool \<Rightarrow> PrometheusRecorder \<Rightarrow> PrometheusRecorder" where
  "RecordUpdate success r =
     r\<lparr>updatesTotal := inc (if \<not> success then ''failure'' else ''success'') (updatesTotal r)\<rparr>"

text \<open>The calls of the interface \<^verbatim>\<open>Recorder\<close>.\<close>

datatype metric_call =
    ReconcileCall string "goerror option" duration
  | PluginAPICall string "goerror option" duration
  | SolverRunCall string "goerror option" duration
  | UpdateCall bool

fun record_call :: "metric_call \<Rightarrow> PrometheusRecorder \<Rightarrow> PrometheusRecorder" where
  "record_call (ReconcileCall c err d) = RecordReconcile c err d"
| "record_call (PluginAPICall c err d) = RecordPluginAPICall c err d"
| "record_call (SolverRunCall c err d) = RecordSolverRun c err d"
| "record_call (UpdateCall ok) = RecordUpdate ok"

definition recorded :: "metric_call list \<Rightarrow> PrometheusRecorder" where
  "recorded calls = fold record_call calls NewPrometheusRecorder"

lemma recorded_simps [simp]: "recorded [] = NewPrometheusRecorder" "recorded (cs @ [c]) = record_call c (recorded cs)"
  by (simp_all add: recorded_def)

lemmas record_defs = RecordReconcile_def RecordPluginAPICall_def RecordSolverRun_def RecordUpdate_def inc_def observe_def Let_def
  NewPrometheusRecorder_def

text \<open>The counters of a label count the calls with that label, a histogram holds the duration of each, and the
  failures are the calls with an error; so failures never exceed totals.\<close>

lemma recorded_reconciles:
  "reconcileTotal (recorded cs) l = length (filter (\<lambda>c. \<exists>err d. c = ReconcileCall l err d) cs)"
  "reconcileErrorsTotal (recorded cs) l = length (filter (\<lambda>c. \<exists>err d. c = ReconcileCall l (Some err) d) cs)"
  "length (reconcileDuration (recorded cs) l) = reconcileTotal (recorded cs) l"
  "reconcileErrorsTotal (recorded cs) l \<le> reconcileTotal (recorded cs) l"
  by (induction cs rule: rev_induct; (simp add: record_defs; fail)?;
      (case_tac x; auto simp: record_defs))+

lemma recorded_updates:
  "updatesTotal (recorded cs) ''success'' = length (filter (\<lambda>c. c = UpdateCall True) cs)"
  "updatesTotal (recorded cs) ''failure'' = length (filter (\<lambda>c. c = UpdateCall False) cs)"
  by (induction cs rule: rev_induct; (simp add: record_defs; fail)?; (case_tac x; auto simp: record_defs))+

end
