(* ===== verification/SseBroker.thy ===== *)
theory SseBroker
  imports Prelude "HOL-Library.AList"
begin

section \<open>The event broker of the web interface (pkg/webui/sse.go)\<close>

text \<open>
  One goroutine runs \<^verbatim>\<open>SSEBroker.Start\<close>, one \<^verbatim>\<open>Server.startWatching\<close>, and every open events page is
  a goroutine in \<^verbatim>\<open>SSEBroker.ServeHTTP\<close>. They meet on channels, so the component is a step
  relation, \<open>sse_step\<close>: a step is one arm of a \<^verbatim>\<open>select\<close>, or one communication on an unbuffered channel,
  which needs both sides.
  \<^item> A client is an address into the store \<open>client\<close>, because the broker and the handler share the
    pointer; two clients may carry the same \<open>ID\<close>.
  \<^item> A channel is its buffer and a closed flag. Closing a closed channel and sending on one panics
    (\<open>panicked\<close>).
  \<^item> The response of a handler is the list of what it wrote; a failing write is an argument of the step.

  The lemmas: no run panics and the queues stay within their capacities, and what happens to the
  handlers once the broker has stopped.
\<close>

record 'm chan =
  ch_buffer :: "'m list"
  ch_closed :: bool

record SSEClient =
  cl_ID :: string
  cl_Messages :: "string chan"

datatype handler_at = Registering | Greeting | Streaming | Unregistering | Finished

record sse =
  clients :: "(string \<times> nat) list"
  broadcast :: "string list"
  running :: bool
  cancelled :: bool
  client :: "nat \<Rightarrow> SSEClient"
  handler :: "nat \<Rightarrow> handler_at option"
  response :: "nat \<Rightarrow> string list"
  panicked :: bool

definition make_chan :: "'m chan" where
  "make_chan = \<lparr>ch_buffer = [], ch_closed = False\<rparr>"

definition NewSSEBroker :: sse where
  "NewSSEBroker = \<lparr>clients = [], broadcast = [], running = True, cancelled = False,
     client = (\<lambda>_. \<lparr>cl_ID = [], cl_Messages = make_chan\<rparr>), handler = (\<lambda>_. None), response = (\<lambda>_. []),
     panicked = False\<rparr>"

subsection \<open>Channels of a client\<close>

definition with_messages :: "(string chan \<Rightarrow> string chan) \<Rightarrow> nat \<Rightarrow> sse \<Rightarrow> sse" where
  "with_messages f c s = s\<lparr>client := (client s)(c := (client s c)\<lparr>cl_Messages := f (cl_Messages (client s c))\<rparr>)\<rparr>"

definition close_messages :: "nat \<Rightarrow> sse \<Rightarrow> sse" where
  "close_messages c s =
     (if ch_closed (cl_Messages (client s c)) then s\<lparr>panicked := True\<rparr>
      else with_messages (\<lambda>m. m\<lparr>ch_closed := True\<rparr>) c s)"

definition send_or_skip :: "string \<Rightarrow> nat \<Rightarrow> sse \<Rightarrow> sse" where
  "send_or_skip message c s =
     (let m = cl_Messages (client s c) in
      if ch_closed m then s\<lparr>panicked := True\<rparr>
      else if length (ch_buffer m) < 10
      then with_messages (\<lambda>m. m\<lparr>ch_buffer := ch_buffer m @ [message]\<rparr>) c s
      else s)"

definition at :: "nat \<Rightarrow> handler_at \<Rightarrow> sse \<Rightarrow> sse" where
  "at c h s = s\<lparr>handler := (handler s)(c \<mapsto> h)\<rparr>"

definition respond :: "nat \<Rightarrow> string \<Rightarrow> sse \<Rightarrow> sse" where
  "respond c w s = s\<lparr>response := (response s)(c := response s c @ [w])\<rparr>"

subsection \<open>The loop of the broker: one definition per arm of its select\<close>

definition start_done :: "sse \<Rightarrow> sse" where
  "start_done s = (fold close_messages (map snd (clients s)) s)\<lparr>clients := [], running := False\<rparr>"

definition start_register :: "nat \<Rightarrow> sse \<Rightarrow> sse" where
  "start_register c s = s\<lparr>clients := AList.update (cl_ID (client s c)) c (clients s)\<rparr>"

definition start_unregister :: "nat \<Rightarrow> sse \<Rightarrow> sse" where
  "start_unregister c s =
     (case map_of (clients s) (cl_ID (client s c)) of
        None \<Rightarrow> s
      | Some _ \<Rightarrow> (close_messages c s)\<lparr>clients := AList.delete (cl_ID (client s c)) (clients s)\<rparr>)"

definition start_broadcast :: "sse \<Rightarrow> sse" where
  "start_broadcast s =
     (case broadcast s of
        [] \<Rightarrow> s
      | message # rest \<Rightarrow> fold (send_or_skip message) (map snd (clients s)) (s\<lparr>broadcast := rest\<rparr>))"

subsection \<open>Clients of the broker\<close>

definition generateClientID :: "int \<Rightarrow> string" where
  "generateClientID nanos = ''client-'' @ itoa nanos"

definition serve_open :: "nat \<Rightarrow> bool \<Rightarrow> int \<Rightarrow> sse \<Rightarrow> sse" where
  "serve_open c flushable nanos s =
     (if \<not> flushable then at c Finished (respond c ''Streaming unsupported'' s)
      else at c Registering
        (s\<lparr>client := (client s)(c := \<lparr>cl_ID = generateClientID nanos, cl_Messages = make_chan\<rparr>)\<rparr>))"

definition next_after :: "bool \<Rightarrow> handler_at" where
  "next_after write_ok = (if write_ok then Streaming else Unregistering)"

definition serve_greet :: "nat \<Rightarrow> bool \<Rightarrow> sse \<Rightarrow> sse" where
  "serve_greet c write_ok s =
     at c (next_after write_ok) (respond c (''data: connected'' @ [CHR 0x0A, CHR 0x0A]) s)"

datatype stream_event = RequestDone | MessageReady bool | KeepAlive bool

definition serve_stream :: "nat \<Rightarrow> stream_event \<Rightarrow> sse \<Rightarrow> sse" where
  "serve_stream c e s =
     (case e of
        RequestDone \<Rightarrow> at c Unregistering s
      | MessageReady write_ok \<Rightarrow>
          (case ch_buffer (cl_Messages (client s c)) of
             [] \<Rightarrow> (if ch_closed (cl_Messages (client s c)) then at c Unregistering s else s)
           | message # rest \<Rightarrow>
               at c (next_after write_ok)
                 (respond c message (with_messages (\<lambda>m. m\<lparr>ch_buffer := rest\<rparr>) c s)))
      | KeepAlive write_ok \<Rightarrow>
          at c (next_after write_ok) (respond c ('': ping'' @ [CHR 0x0A, CHR 0x0A]) s))"

definition Broadcast :: "string \<Rightarrow> sse \<Rightarrow> sse" where
  "Broadcast message s =
     (if length (broadcast s) < 100 then s\<lparr>broadcast := broadcast s @ [message]\<rparr> else s)"

definition watch_tick :: "sse \<Rightarrow> sse" where
  "watch_tick s = Broadcast (''data: update'' @ [CHR 0x0A, CHR 0x0A]) s"

definition ClientCount :: "sse \<Rightarrow> nat" where
  "ClientCount s = length (clients s)"

subsection \<open>Steps\<close>

inductive sse_step :: "sse \<Rightarrow> sse \<Rightarrow> bool" where
  connect: "handler s c = None \<Longrightarrow> sse_step s (serve_open c flushable nanos s)"
| register: "handler s c = Some Registering \<Longrightarrow> running s \<Longrightarrow>
    sse_step s (at c Greeting (start_register c s))"
| greet: "handler s c = Some Greeting \<Longrightarrow> sse_step s (serve_greet c write_ok s)"
| stream: "handler s c = Some Streaming \<Longrightarrow> sse_step s (serve_stream c e s)"
| unregister: "handler s c = Some Unregistering \<Longrightarrow> running s \<Longrightarrow>
    sse_step s (at c Finished (start_unregister c s))"
| deliver: "running s \<Longrightarrow> sse_step s (start_broadcast s)"
| tick: "sse_step s (watch_tick s)"
| cancel: "sse_step s (s\<lparr>cancelled := True\<rparr>)"
| stop: "cancelled s \<Longrightarrow> running s \<Longrightarrow> sse_step s (start_done s)"

inductive_cases sse_stepE: "sse_step s t"

abbreviation sse_reachable :: "sse \<Rightarrow> bool" where
  "sse_reachable \<equiv> sse_step\<^sup>*\<^sup>* NewSSEBroker"

subsection \<open>Invariant\<close>

definition live :: "sse \<Rightarrow> nat \<Rightarrow> bool" where
  "live s c = (handler s c \<noteq> None \<and> handler s c \<noteq> Some Finished)"

definition messages :: "sse \<Rightarrow> nat \<Rightarrow> string chan" where
  "messages s c = cl_Messages (client s c)"

definition sse_ok :: "sse \<Rightarrow> bool" where
  "sse_ok s \<longleftrightarrow>
     \<not> panicked s \<and> length (broadcast s) \<le> 100 \<and> (\<forall>c. length (ch_buffer (messages s c)) \<le> 10) \<and>
     distinct (map fst (clients s)) \<and>
     (\<forall>(i, c) \<in> set (clients s). cl_ID (client s c) = i \<and> live s c \<and> handler s c \<noteq> Some Registering) \<and>
     (running s \<longrightarrow> (\<forall>c. live s c \<longrightarrow> \<not> ch_closed (messages s c))) \<and>
     (\<not> running s \<longrightarrow> clients s = [])"

lemma set_AList_update:
  "p \<in> set (AList.update k v al) \<Longrightarrow> p = (k, v) \<or> p \<in> set al"
  by (induction al) (auto split: if_splits)

lemma set_AList_delete: "set (AList.delete k al) = {p \<in> set al. fst p \<noteq> k}"
  by (auto simp: AList.delete_eq)

lemma with_messages_frame [simp]:
  "clients (with_messages f c s) = clients s" "broadcast (with_messages f c s) = broadcast s"
  "running (with_messages f c s) = running s" "handler (with_messages f c s) = handler s"
  "panicked (with_messages f c s) = panicked s" "cancelled (with_messages f c s) = cancelled s"
  "cl_ID (client (with_messages f c s) d) = cl_ID (client s d)"
  "messages (with_messages f c s) d = (if d = c then f (messages s d) else messages s d)"
  by (simp_all add: with_messages_def messages_def)

lemma at_frame [simp]:
  "clients (at c h s) = clients s" "broadcast (at c h s) = broadcast s" "running (at c h s) = running s"
  "client (at c h s) = client s" "panicked (at c h s) = panicked s" "cancelled (at c h s) = cancelled s"
  "handler (at c h s) = (handler s)(c \<mapsto> h)" "messages (at c h s) = messages s"
  by (simp_all add: at_def messages_def fun_eq_iff)

lemma respond_frame [simp]:
  "clients (respond c w s) = clients s" "broadcast (respond c w s) = broadcast s"
  "running (respond c w s) = running s" "client (respond c w s) = client s"
  "panicked (respond c w s) = panicked s" "cancelled (respond c w s) = cancelled s"
  "handler (respond c w s) = handler s" "messages (respond c w s) = messages s"
  by (simp_all add: respond_def messages_def fun_eq_iff)

lemma close_frame [simp]:
  "clients (close_messages c s) = clients s" "broadcast (close_messages c s) = broadcast s"
  "running (close_messages c s) = running s" "handler (close_messages c s) = handler s"
  "cl_ID (client (close_messages c s) d) = cl_ID (client s d)"
  "ch_buffer (messages (close_messages c s) d) = ch_buffer (messages s d)"
  by (simp_all add: close_messages_def) (simp_all add: messages_def)

lemma send_frame [simp]:
  "clients (send_or_skip m c s) = clients s" "broadcast (send_or_skip m c s) = broadcast s"
  "running (send_or_skip m c s) = running s" "handler (send_or_skip m c s) = handler s"
  "cl_ID (client (send_or_skip m c s) d) = cl_ID (client s d)"
  "ch_closed (messages (send_or_skip m c s) d) = ch_closed (messages s d)"
  by (simp_all add: send_or_skip_def Let_def) (simp_all add: messages_def)

lemma close_open:
  "\<not> ch_closed (messages s c) \<Longrightarrow> panicked (close_messages c s) = panicked s"
  "\<not> ch_closed (messages s c) \<Longrightarrow> ch_closed (messages (close_messages c s) d) = (d = c \<or> ch_closed (messages s d))"
  by (simp_all add: close_messages_def messages_def [symmetric])

lemma send_open:
  "\<not> ch_closed (messages s c) \<Longrightarrow> panicked (send_or_skip m c s) = panicked s"
  "length (ch_buffer (messages s d)) \<le> 10 \<Longrightarrow> length (ch_buffer (messages (send_or_skip m c s) d)) \<le> 10"
  by (auto simp: send_or_skip_def Let_def messages_def with_messages_def)

lemma fold_close_frame [simp]:
  "broadcast (fold close_messages cs s) = broadcast s" "handler (fold close_messages cs s) = handler s"
  "cl_ID (client (fold close_messages cs s) d) = cl_ID (client s d)"
  "ch_buffer (messages (fold close_messages cs s) d) = ch_buffer (messages s d)"
  by (induction cs arbitrary: s) simp_all

lemma fold_close_open:
  "distinct cs \<Longrightarrow> \<forall>c \<in> set cs. \<not> ch_closed (messages s c) \<Longrightarrow>
     panicked (fold close_messages cs s) = panicked s"
proof (induction cs arbitrary: s)
  case (Cons c cs)
  then have "\<forall>d \<in> set cs. \<not> ch_closed (messages (close_messages c s) d)"
    by (auto simp: close_open)
  with Cons show ?case by (simp add: close_open)
qed simp

lemma fold_send_frame [simp]:
  "clients (fold (send_or_skip m) cs s) = clients s" "broadcast (fold (send_or_skip m) cs s) = broadcast s"
  "running (fold (send_or_skip m) cs s) = running s" "handler (fold (send_or_skip m) cs s) = handler s"
  "cl_ID (client (fold (send_or_skip m) cs s) d) = cl_ID (client s d)"
  "ch_closed (messages (fold (send_or_skip m) cs s) d) = ch_closed (messages s d)"
  by (induction cs arbitrary: s) simp_all

lemma fold_send_open:
  "\<forall>c \<in> set cs. \<not> ch_closed (messages s c) \<Longrightarrow> panicked (fold (send_or_skip m) cs s) = panicked s"
  "length (ch_buffer (messages s d)) \<le> 10 \<Longrightarrow>
     length (ch_buffer (messages (fold (send_or_skip m) cs s) d)) \<le> 10"
  by (induction cs arbitrary: s) (simp_all add: send_open)

lemma updated_frame [simp]:
  "messages (s\<lparr>clients := x\<rparr>) = messages s" "messages (s\<lparr>broadcast := b\<rparr>) = messages s"
  "messages (s\<lparr>cancelled := k\<rparr>) = messages s" "messages (s\<lparr>running := r\<rparr>) = messages s"
  "live (s\<lparr>clients := x\<rparr>) = live s" "live (s\<lparr>broadcast := b\<rparr>) = live s"
  "live (s\<lparr>cancelled := k\<rparr>) = live s" "live (s\<lparr>running := r\<rparr>) = live s"
  by (simp_all add: messages_def live_def fun_eq_iff)

lemma sse_okD:
  assumes "sse_ok s"
  shows "\<not> panicked s" "length (broadcast s) \<le> 100" "length (ch_buffer (messages s c)) \<le> 10"
    "distinct (map fst (clients s))" "(i, c) \<in> set (clients s) \<Longrightarrow> cl_ID (client s c) = i"
    "(i, c) \<in> set (clients s) \<Longrightarrow> live s c" "(i, c) \<in> set (clients s) \<Longrightarrow> handler s c \<noteq> Some Registering"
    "running s \<Longrightarrow> live s c \<Longrightarrow> \<not> ch_closed (messages s c)" "\<not> running s \<Longrightarrow> clients s = []"
  using assms unfolding sse_ok_def by blast+

lemma clients_distinct: "sse_ok s \<Longrightarrow> distinct (map snd (clients s))"
proof -
  assume ok: "sse_ok s"
  have "inj_on snd (set (clients s))"
    by (rule inj_onI) (metis sse_okD(5) [OF ok] prod.collapse)
  moreover have "distinct (clients s)"
    using sse_okD(4) [OF ok] by (simp add: distinct_map)
  ultimately show ?thesis by (simp add: distinct_map)
qed

lemma live_frame [simp]:
  "live (at c h s) d = (if d = c then h \<noteq> Finished else live s d)" "live (respond c w s) = live s"
  "live (with_messages f c s) = live s" "live (close_messages c s) = live s"
  "live (fold close_messages cs s) = live s" "live (fold (send_or_skip m) cs s) = live s"
  by (simp_all add: live_def fun_eq_iff)

lemma ok_respond: "sse_ok s \<Longrightarrow> sse_ok (respond c w s)"
  by (simp add: sse_ok_def)

lemma ok_move: "sse_ok s \<Longrightarrow> live s c \<Longrightarrow> h \<notin> {Registering, Finished} \<Longrightarrow> sse_ok (at c h s)"
  by (auto simp: sse_ok_def)

lemma ok_received: "sse_ok s \<Longrightarrow> ch_buffer (messages s c) = m # rest \<Longrightarrow>
    sse_ok (with_messages (\<lambda>m. m\<lparr>ch_buffer := rest\<rparr>) c s)"
  using sse_okD(3) [of s c] by (auto simp: sse_ok_def)

lemma ok_connect:
  assumes "sse_ok s" "handler s c = None"
  shows "sse_ok (serve_open c flushable nanos s)"
proof -
  have "(i, c) \<notin> set (clients s)" for i
    using sse_okD(6) [OF assms(1), of i c] assms(2) by (auto simp: live_def)
  with assms(1) show ?thesis
    by (auto simp: serve_open_def sse_ok_def messages_def make_chan_def live_def)
qed

lemma ok_register:
  assumes "sse_ok s" "handler s c = Some Registering" "running s"
  shows "sse_ok (at c Greeting (start_register c s))"
proof -
  have open_c: "\<not> ch_closed (messages s c)"
    using sse_okD(8) [OF assms(1)] assms(2,3) by (simp add: live_def)
  let ?s = "at c Greeting (start_register c s)"
  have "cl_ID (client ?s d) = i \<and> live ?s d \<and> handler ?s d \<noteq> Some Registering"
    if "(i, d) \<in> set (clients ?s)" for i d
    using set_AList_update [of "(i, d)"] that sse_okD(5-7) [OF assms(1), of i d]
    by (auto simp: start_register_def)
  then have "\<forall>(i, d) \<in> set (clients ?s).
      cl_ID (client ?s d) = i \<and> live ?s d \<and> handler ?s d \<noteq> Some Registering" by blast
  then show ?thesis
    unfolding sse_ok_def using assms open_c by (simp add: start_register_def sse_ok_def distinct_update)
qed

lemma ok_unregister:
  assumes "sse_ok s" "handler s c = Some Unregistering" "running s"
  shows "sse_ok (at c Finished (start_unregister c s))"
proof -
  have open_c: "\<not> ch_closed (messages s c)"
    using sse_okD(8) [OF assms(1)] assms(2,3) by (simp add: live_def)
  show ?thesis
    using assms open_c
    by (auto simp: start_unregister_def sse_ok_def close_open set_AList_delete distinct_delete
        split: option.split)
qed

lemma ok_deliver: "sse_ok s \<Longrightarrow> running s \<Longrightarrow> sse_ok (start_broadcast s)"
proof (cases "broadcast s")
  case (Cons message rest)
  assume ok: "sse_ok s" and run: "running s"
  have "\<forall>c \<in> set (map snd (clients s)). \<not> ch_closed (messages (s\<lparr>broadcast := rest\<rparr>) c)"
    using sse_okD(6,8) [OF ok] run by fastforce
  then show ?thesis
    using ok Cons by (auto simp: start_broadcast_def sse_ok_def fold_send_open)
qed (simp add: start_broadcast_def)

lemma ok_stop: "sse_ok s \<Longrightarrow> running s \<Longrightarrow> sse_ok (start_done s)"
proof -
  assume ok: "sse_ok s" and run: "running s"
  have "\<forall>c \<in> set (map snd (clients s)). \<not> ch_closed (messages s c)"
    using sse_okD(6,8) [OF ok] run by fastforce
  then have "\<not> panicked (fold close_messages (map snd (clients s)) s)"
    using fold_close_open [OF clients_distinct [OF ok]] sse_okD(1) [OF ok] by blast
  then show ?thesis
    using ok by (auto simp: start_done_def sse_ok_def)
qed

lemma ok_stream:
  assumes "sse_ok s" "handler s c = Some Streaming"
  shows "sse_ok (serve_stream c e s)"
proof -
  have "live s c" using assms(2) by (simp add: live_def)
  then show ?thesis using assms(1)
    by (auto simp: serve_stream_def next_after_def messages_def
        intro!: ok_move ok_respond ok_received split: stream_event.split list.split)
qed

lemma sse_step_ok: "sse_step s t \<Longrightarrow> sse_ok s \<Longrightarrow> sse_ok t"
proof (induction rule: sse_step.induct)
  case (greet s c write_ok)
  then show ?case
    by (auto simp: serve_greet_def next_after_def live_def intro!: ok_move ok_respond)
next
  case (tick s)
  then show ?case by (auto simp: watch_tick_def Broadcast_def sse_ok_def)
qed (auto intro: ok_connect ok_register ok_unregister ok_deliver ok_stop ok_stream, simp add: sse_ok_def)

lemma NewSSEBroker_ok: "sse_ok NewSSEBroker"
  by (simp add: sse_ok_def NewSSEBroker_def messages_def make_chan_def)

lemma sse_reachable_ok: "sse_reachable s \<Longrightarrow> sse_ok s"
  by (induction rule: rtranclp_induct) (auto intro: NewSSEBroker_ok sse_step_ok)

lemma stopped_step:
  assumes "sse_step s t" "\<not> running s"
  shows "\<not> running t \<and> (\<forall>c. live s c \<longrightarrow> live t c)"
  using assms
  by (cases rule: sse_step.cases)
    (auto simp: serve_open_def serve_greet_def serve_stream_def next_after_def watch_tick_def Broadcast_def
      live_def split: stream_event.split list.split)

lemma stopped_steps:
  "sse_step\<^sup>*\<^sup>* s t \<Longrightarrow> \<not> running s \<Longrightarrow> live s c \<Longrightarrow> \<not> running t \<and> live t c"
  by (induction rule: rtranclp_induct) (auto dest: stopped_step)

subsection \<open>Delivery\<close>

lemma send_other: "d \<noteq> c \<Longrightarrow> messages (send_or_skip m c s) d = messages s d"
  by (auto simp: send_or_skip_def Let_def messages_def with_messages_def)

lemma send_self:
  "\<not> ch_closed (messages s c) \<Longrightarrow>
     ch_buffer (messages (send_or_skip m c s) c) =
       (if length (ch_buffer (messages s c)) < 10 then ch_buffer (messages s c) @ [m]
        else ch_buffer (messages s c))"
  by (simp add: send_or_skip_def Let_def messages_def with_messages_def)

lemma fold_send_other: "d \<notin> set cs \<Longrightarrow> messages (fold (send_or_skip m) cs s) d = messages s d"
  by (induction cs arbitrary: s) (auto simp: send_other)

lemma fold_send_self:
  "distinct cs \<Longrightarrow> c \<in> set cs \<Longrightarrow> \<not> ch_closed (messages s c) \<Longrightarrow>
     ch_buffer (messages (fold (send_or_skip m) cs s) c) =
       (if length (ch_buffer (messages s c)) < 10 then ch_buffer (messages s c) @ [m]
        else ch_buffer (messages s c))"
proof (induction cs arbitrary: s)
  case (Cons d cs)
  then show ?case
    by (cases "d = c") (auto simp: fold_send_other send_self send_other)
qed simp

lemma registered_client:
  assumes "sse_ok s" and "(i, c) \<in> set (clients s)"
  shows "cl_ID (client s c) = i \<and> \<not> ch_closed (messages s c) \<and>
    handler s c \<in> {Some Greeting, Some Streaming, Some Unregistering}"
proof -
  note ok = sse_okD [OF assms(1)]
  have "running s" using assms(2) ok(9) by (cases "running s") auto
  then have "\<not> ch_closed (messages s c)" using ok(6) [OF assms(2)] ok(8) by blast
  moreover obtain h where "handler s c = Some h" "h \<noteq> Finished" "h \<noteq> Registering"
    using ok(6,7) [OF assms(2)] by (auto simp: live_def)
  ultimately show ?thesis using ok(5) [OF assms(2)] by (cases h) simp_all
qed

lemma broadcast_reaches_clients:
  assumes ok: "sse_ok s" and run: "running s" and q: "broadcast s = m # rest"
  shows "messages (start_broadcast s) c = (messages s c)\<lparr>ch_buffer :=
        (if c \<in> snd ` set (clients s) \<and> length (ch_buffer (messages s c)) < 10
         then ch_buffer (messages s c) @ [m] else ch_buffer (messages s c))\<rparr>"
proof -
  let ?t = "fold (send_or_skip m) (map snd (clients s)) (s\<lparr>broadcast := rest\<rparr>)"
  have "ch_closed (messages ?t c) = ch_closed (messages s c)" by simp
  moreover have "ch_buffer (messages ?t c) =
      (if c \<in> snd ` set (clients s) \<and> length (ch_buffer (messages s c)) < 10
       then ch_buffer (messages s c) @ [m] else ch_buffer (messages s c))"
  proof (cases "c \<in> snd ` set (clients s)")
    case True
    then have "\<not> ch_closed (messages s c)" using sse_okD(6,8) [OF ok] run by fastforce
    with True show ?thesis
      using fold_send_self [OF clients_distinct [OF ok], of c "s\<lparr>broadcast := rest\<rparr>"] by simp
  qed (simp add: fold_send_other)
  ultimately show ?thesis using q by (simp add: start_broadcast_def)
qed

subsection \<open>Properties\<close>

text \<open>C27. In every run of the broker, whatever the interleaving of connections, disconnects, failing
  writes, broadcasts and the shutdown, and also when two connections get the same identifier, no
  channel is closed twice and none is sent on after it was closed. The broadcast queue stays within
  its 100 messages and every client's queue within its 10, an identifier is registered at most once,
  every registered client is one whose handler is still serving its page, under its own identifier and with
  an open channel, and a broadcast reaches exactly the registered clients: it is appended to the queue of each one
  that has room, dropped for one that has not, and no other queue changes.\<close>

theorem sse_broker_safe:
  assumes "sse_reachable s"
  shows "\<not> panicked s \<and> length (broadcast s) \<le> 100 \<and> (\<forall>c. length (ch_buffer (messages s c)) \<le> 10) \<and>
    distinct (map fst (clients s)) \<and>
    (\<forall>(i, c) \<in> set (clients s). cl_ID (client s c) = i \<and> \<not> ch_closed (messages s c) \<and>
       handler s c \<in> {Some Greeting, Some Streaming, Some Unregistering}) \<and>
    (\<forall>m rest c. running s \<longrightarrow> broadcast s = m # rest \<longrightarrow>
      messages (start_broadcast s) c = (messages s c)\<lparr>ch_buffer :=
        (if c \<in> snd ` set (clients s) \<and> length (ch_buffer (messages s c)) < 10
         then ch_buffer (messages s c) @ [m] else ch_buffer (messages s c))\<rparr>)"
proof -
  have ok: "sse_ok s" using assms by (rule sse_reachable_ok)
  then have "\<not> panicked s \<and> length (broadcast s) \<le> 100 \<and> (\<forall>c. length (ch_buffer (messages s c)) \<le> 10)"
    and "distinct (map fst (clients s))" by (simp_all add: sse_ok_def)
  moreover have "\<forall>(i, c) \<in> set (clients s). cl_ID (client s c) = i \<and> \<not> ch_closed (messages s c) \<and>
      handler s c \<in> {Some Greeting, Some Streaming, Some Unregistering}"
    using registered_client [OF ok] by blast
  ultimately show ?thesis using broadcast_reaches_clients [OF ok] by blast
qed

definition demo_connected :: sse where
  "demo_connected = serve_greet 0 True (at 0 Greeting (start_register 0 (serve_open 0 True 7 NewSSEBroker)))"

lemma demo_connected_reachable: "sse_reachable demo_connected"
proof -
  let ?a = "serve_open 0 True 7 NewSSEBroker"
  let ?b = "at 0 Greeting (start_register 0 ?a)"
  have "sse_step NewSSEBroker ?a" by (rule connect) (simp add: NewSSEBroker_def)
  moreover have "sse_step ?a ?b"
    by (rule register) (simp_all add: serve_open_def NewSSEBroker_def at_def)
  moreover have "sse_step ?b demo_connected"
    unfolding demo_connected_def by (rule greet) simp
  ultimately show ?thesis by (meson rtranclp.rtrancl_refl rtranclp.rtrancl_into_rtrancl)
qed

lemma demo_connected_state:
  "running demo_connected" "clients demo_connected = [(generateClientID 7, 0)]"
  "broadcast demo_connected = []" "handler demo_connected 0 = Some Streaming"
  by (simp_all add: demo_connected_def serve_greet_def serve_open_def start_register_def NewSSEBroker_def at_def
      next_after_def)

lemma demo_connected_messages: "messages demo_connected 0 = make_chan"
  by (simp add: demo_connected_def serve_greet_def start_register_def)
    (simp add: serve_open_def messages_def at_def)

theorem sse_broker_safe_witness:
  "ch_buffer (messages (start_broadcast (watch_tick demo_connected)) 0) = [''data: update'' @ [CHR 0x0A, CHR 0x0A]]"
proof -
  have reach: "sse_reachable (watch_tick demo_connected)"
    using demo_connected_reachable tick by (rule rtranclp.rtrancl_into_rtrancl)
  have "running (watch_tick demo_connected)"
    and "broadcast (watch_tick demo_connected) = [''data: update'' @ [CHR 0x0A, CHR 0x0A]]"
    and "clients (watch_tick demo_connected) = [(generateClientID 7, 0)]"
    and "messages (watch_tick demo_connected) 0 = make_chan"
    by (simp_all add: watch_tick_def Broadcast_def demo_connected_state demo_connected_messages)
  with sse_broker_safe [OF reach] show ?thesis by (simp add: make_chan_def)
qed

text \<open>Once the broker's loop has ended no client is registered and no handler of an open events page
  ever returns: a handler that is live in any state after the loop has ended stays live in every
  continuation, because its registration and its deferred unregistration both wait for a receiver
  that is gone. The graceful
  shutdown of the HTTP server, which waits for its handlers, can then only end by its timeout.\<close>

theorem stopped_broker_keeps_handlers:
  assumes "sse_reachable s" "\<not> running s" "sse_step\<^sup>*\<^sup>* s t"
  shows "live s c \<Longrightarrow> live t c" and "clients t = []"
proof -
  show "live s c \<Longrightarrow> live t c" using stopped_steps assms(2,3) by blast
  have "\<not> running t" using assms(3,2) by (induction rule: rtranclp_induct) (auto dest: stopped_step)
  moreover have "sse_ok t" using assms(1,3) by (auto intro: sse_reachable_ok rtranclp_trans)
  ultimately show "clients t = []" by (rule sse_okD(9) [rotated])
qed

theorem stopped_broker_keeps_handlers_witness:
  "live (start_done (demo_connected\<lparr>cancelled := True\<rparr>)) 0 \<and>
   live (serve_stream 0 (MessageReady True) (start_done (demo_connected\<lparr>cancelled := True\<rparr>))) 0"
proof -
  let ?c = "demo_connected\<lparr>cancelled := True\<rparr>"
  let ?s = "start_done ?c"
  have "sse_reachable ?c"
    using demo_connected_reachable sse_step.cancel by (rule rtranclp.rtrancl_into_rtrancl)
  moreover have "sse_step ?c ?s" by (rule sse_step.stop) (simp_all add: demo_connected_state)
  ultimately have reach: "sse_reachable ?s" by (rule rtranclp.rtrancl_into_rtrancl)
  have h: "handler ?s 0 = Some Streaming" by (simp add: start_done_def demo_connected_state)
  then have live: "live ?s 0" by (simp add: live_def)
  have "sse_step\<^sup>*\<^sup>* ?s (serve_stream 0 (MessageReady True) ?s)"
    using sse_step.stream [OF h] by (rule r_into_rtranclp)
  with stopped_broker_keeps_handlers(1) [OF reach _ _ live] live show ?thesis
    by (simp add: start_done_def)
qed

text \<open>Two connections opened in the same nanosecond share an identifier: the second registration
  replaces the first, and the client it replaced gets no broadcast any more.\<close>

lemma same_id_replaced:
  assumes "sse_ok s" "handler s c = Some Registering" "running s"
    "(cl_ID (client s c), d) \<in> set (clients s)"
  shows "d \<notin> snd ` set (clients (start_register c s))"
proof
  assume "d \<in> snd ` set (clients (start_register c s))"
  then obtain i where "(i, d) \<in> set (AList.update (cl_ID (client s c)) c (clients s))"
    by (auto simp: start_register_def)
  moreover have "distinct (map fst (AList.update (cl_ID (client s c)) c (clients s)))"
    using sse_okD(4) [OF assms(1)] by (rule distinct_update)
  ultimately have m: "map_of (AList.update (cl_ID (client s c)) c (clients s)) i = Some d" by simp
  have "d \<noteq> c" using sse_okD(7) [OF assms(1)] assms(2,4) by blast
  with m have "i \<noteq> cl_ID (client s c) \<and> map_of (clients s) i = Some d"
    by (auto simp: update_conv' split: if_splits)
  then show False using sse_okD(5) [OF assms(1)] assms(4) by (metis map_of_SomeD)
qed

end
