(* ===== verification/RepoClients.thy ===== *)
theory RepoClients
  imports ServerEffects PluginURL PluginClient "HOL-Library.Monad_Syntax"
begin

section \<open>Clients of the registries (pkg/registry, pkg/paper, pkg/plugins/hangar.go)\<close>

text \<open>
  The clients behind the calls \<^verbatim>\<open>ListTags\<close>, \<^verbatim>\<open>ImageExists\<close>, \<^verbatim>\<open>GetPaperVersions\<close>, \<^verbatim>\<open>GetBuilds\<close>, \<^verbatim>\<open>GetPaperBuild\<close> and
  \<^verbatim>\<open>GetVersions\<close> of the controllers. The outside (an HTTP client, the JSON decoder at the type of the response, the
  file system, the libraries goPaperMC and go-hangar) is a record of functions on a state \<open>'w\<close>; the values of the
  libraries are records with the fields and accessors the code reads.
  \<^item> The loop over the pages of tags follows the link of each answer, so it need not end: it is a
    partial function, and \<open>None\<close> is a loop that never returns.

  The lemmas: which tags are listed and when the loop does not return; the build chosen; the download
  address of a plugin version.
\<close>

record TagResult =
  tg_Name :: string

record TagsResponse =
  tr_Count :: int
  tr_Next :: string
  tr_Previous :: string
  tr_Results :: "TagResult list"

record 'w web =
  w_Do :: "string \<Rightarrow> 'w \<Rightarrow> HTTPResponse result \<times> 'w"
  w_Create :: "string \<Rightarrow> 'w \<Rightarrow> unit result \<times> 'w"
  w_Write :: "string \<Rightarrow> string \<Rightarrow> 'w \<Rightarrow> unit result \<times> 'w"
  w_json_TagsResponse :: "string \<Rightarrow> TagsResponse result"

subsection \<open>Docker Hub (pkg/registry/client.go)\<close>

definition defaultBaseURL :: string where
  "defaultBaseURL = ''https://hub.docker.com/v2''"

definition tags_url :: "string \<Rightarrow> string \<Rightarrow> int \<Rightarrow> string" where
  "tags_url baseURL repository pageSize =
     baseURL @ ''/repositories/'' @ repository @ ''/tags?page_size='' @ itoa (if pageSize \<le> 0 then 100 else pageSize)"

text \<open>One round of the loop: request, response, body, decoded page.\<close>

definition fetch_page :: "'w web \<Rightarrow> string \<Rightarrow> 'w \<Rightarrow> TagsResponse result \<times> 'w" where
  "fetch_page h url w =
     (case url_Parse url of
        Inl err \<Rightarrow> (Inl (Wrap err ''failed to create request''), w)
      | Inr _ \<Rightarrow>
          (case w_Do h url w of
             (Inl err, w') \<Rightarrow> (Inl (Wrap err ''failed to fetch tags''), w')
           | (Inr resp, w') \<Rightarrow>
               (if resp_StatusCode resp \<noteq> 200
                then Inl (Newf ''unexpected status code: %d'' [AInt (resp_StatusCode resp)])
                else case snd (resp_Body resp) of
                  Some err \<Rightarrow> Inl (Wrap err ''failed to read response body'')
                | None \<Rightarrow>
                    (case w_json_TagsResponse h (fst (resp_Body resp)) of
                       Inl err \<Rightarrow> Inl (Wrap err ''failed to parse JSON response'')
                     | Inr tagsResp \<Rightarrow> Inr tagsResp), w')))"

partial_function (option) tag_pages :: "'w web \<Rightarrow> string \<Rightarrow> string list \<Rightarrow> 'w \<Rightarrow> (string list result \<times> 'w) option" where
  "tag_pages h url tags w =
     (if url = [] then Some (Inr tags, w)
      else case fetch_page h url w of
             (Inl err, w') \<Rightarrow> Some (Inl err, w')
           | (Inr tagsResp, w') \<Rightarrow> tag_pages h (tr_Next tagsResp) (tags @ map tg_Name (tr_Results tagsResp)) w')"

definition ListTags :: "'w web \<Rightarrow> string \<Rightarrow> string \<Rightarrow> int \<Rightarrow> 'w \<Rightarrow> (string list result \<times> 'w) option" where
  "ListTags h baseURL repository pageSize w = tag_pages h (tags_url baseURL repository pageSize) [] w"

definition ImageExists :: "'w web \<Rightarrow> string \<Rightarrow> string \<Rightarrow> string \<Rightarrow> 'w \<Rightarrow> bool result \<times> 'w" where
  "ImageExists h baseURL repository tg w =
     (let url = baseURL @ ''/repositories/'' @ repository @ ''/tags/'' @ tg
      in case url_Parse url of
           Inl err \<Rightarrow> (Inl (Wrap err ''failed to create request''), w)
         | Inr _ \<Rightarrow>
             (case w_Do h url w of
                (Inl err, w') \<Rightarrow> (Inl (Wrap err ''failed to check tag existence''), w')
              | (Inr resp, w') \<Rightarrow>
                  (if resp_StatusCode resp = 200 then Inr True
                   else if resp_StatusCode resp = 404 then Inr False
                   else Inl (Newf ''unexpected status code: %d'' [AInt (resp_StatusCode resp)]), w')))"

subsection \<open>PaperMC (pkg/paper/client.go)\<close>

text \<open>A build of the library, with the results of its two accessors.\<close>

record BuildV3Response =
  b3_ID :: int
  b3_GetDownloadURL :: string
  b3_GetDownloadSHA256 :: string

record ('w, 'p) paper_api =
  pa_GetProject :: "string \<Rightarrow> 'w \<Rightarrow> 'p result \<times> 'w"
  pa_FlattenVersions :: "'p \<Rightarrow> string list"
  pa_GetBuilds :: "string \<Rightarrow> string \<Rightarrow> 'w \<Rightarrow> BuildV3Response list result \<times> 'w"

definition GetPaperVersions :: "('w, 'p) paper_api \<Rightarrow> 'w \<Rightarrow> string list result \<times> 'w" where
  "GetPaperVersions api w =
     (case pa_GetProject api ''paper'' w of
        (Inl err, w') \<Rightarrow> (Inl (Wrap err ''failed to get Paper project''), w')
      | (Inr project, w') \<Rightarrow> (Inr (pa_FlattenVersions api project), w'))"

definition extractBuildInfo :: "string \<Rightarrow> BuildV3Response list \<Rightarrow> BuildInfo result" where
  "extractBuildInfo version builds =
     (if builds = [] then Inl (Newf ''no builds available for version %s'' [AStr version])
      else let latestBuild = builds ! (length builds - 1)
        in Inr \<lparr>bi_Version = version, bi_Build = b3_ID latestBuild, bi_DownloadURL = b3_GetDownloadURL latestBuild,
                bi_SHA256 = b3_GetDownloadSHA256 latestBuild\<rparr>)"

definition GetPaperBuild :: "('w, 'p) paper_api \<Rightarrow> string \<Rightarrow> 'w \<Rightarrow> BuildInfo result \<times> 'w" where
  "GetPaperBuild api version w =
     (case pa_GetBuilds api ''paper'' version w of
        (Inl err, w') \<Rightarrow> (Inl (Wrap err ''failed to get builds''), w')
      | (Inr builds, w') \<Rightarrow> (extractBuildInfo version builds, w'))"

definition GetBuilds :: "('w, 'p) paper_api \<Rightarrow> string \<Rightarrow> 'w \<Rightarrow> int list result \<times> 'w" where
  "GetBuilds api version w =
     (case pa_GetBuilds api ''paper'' version w of
        (Inl err, w') \<Rightarrow> (Inl (Wrap err ''failed to get builds''), w')
      | (Inr builds, w') \<Rightarrow>
          (if builds = [] then Inl (Newf ''no builds available for version %s'' [AStr version])
           else Inr (map b3_ID builds), w'))"

text \<open>\<^verbatim>\<open>io.Copy\<close> writes the bytes it could read before it reports the error of the read.\<close>

definition saveToFile :: "'w web \<Rightarrow> reader \<Rightarrow> string \<Rightarrow> 'w \<Rightarrow> unit result \<times> 'w" where
  "saveToFile h body targetPath w =
     (case w_Create h targetPath w of
        (Inl err, w') \<Rightarrow> (Inl (Wrap err ''failed to create file''), w')
      | (Inr _, w') \<Rightarrow>
          (case w_Write h targetPath (fst body) w' of
             (Inl err, w'') \<Rightarrow> (Inl (Wrap err ''failed to write file''), w'')
           | (Inr _, w'') \<Rightarrow>
               (case snd body of
                  Some err \<Rightarrow> (Inl (Wrap err ''failed to write file''), w'')
                | None \<Rightarrow> (Inr (), w''))))"

definition downloadFile :: "'w web \<Rightarrow> string \<Rightarrow> string \<Rightarrow> 'w \<Rightarrow> unit result \<times> 'w" where
  "downloadFile h url targetPath w =
     (case url_Parse url of
        Inl err \<Rightarrow> (Inl (Wrap err ''failed to create request''), w)
      | Inr _ \<Rightarrow>
          (case w_Do h url w of
             (Inl err, w') \<Rightarrow> (Inl (Wrap err ''failed to execute request''), w')
           | (Inr resp, w') \<Rightarrow>
               if resp_StatusCode resp \<noteq> 200
               then (Inl (Newf ''unexpected status code: %d'' [AInt (resp_StatusCode resp)]), w')
               else saveToFile h (resp_Body resp) targetPath w'))"

definition DownloadPaperJAR :: "('w, 'p) paper_api \<Rightarrow> 'w web \<Rightarrow> string \<Rightarrow> string \<Rightarrow> 'w \<Rightarrow> unit result \<times> 'w" where
  "DownloadPaperJAR api h version targetPath w =
     (case GetPaperBuild api version w of
        (Inl err, w') \<Rightarrow> (Inl (Wrap err ''failed to get build info''), w')
      | (Inr buildInfo, w') \<Rightarrow> downloadFile h (bi_DownloadURL buildInfo) targetPath w')"

subsection \<open>Hangar (pkg/plugins/hangar.go)\<close>

record DownloadInfo =
  di_DownloadURL :: string
  di_ExternalURL :: string
  di_FileInfo_SHA256Hash :: "string option"

record HangarVersion =
  hv_Name :: string
  hv_CreatedAt :: time
  hv_GameVersions :: "string list"
  hv_PlatformDependencies :: "string \<rightharpoonup> string list"
  hv_Downloads :: "string \<rightharpoonup> DownloadInfo"

record HangarNamespace =
  hn_Owner :: string
  hn_Slug :: string

record 'w hangar_api =
  ha_GetProject :: "string \<Rightarrow> 'w \<Rightarrow> HangarNamespace result \<times> 'w"
  ha_ListVersions :: "string \<Rightarrow> string \<Rightarrow> nat \<Rightarrow> 'w \<Rightarrow> HangarVersion list result \<times> 'w"
  ha_GetVersion :: "string \<Rightarrow> string \<Rightarrow> 'w \<Rightarrow> HangarVersion result \<times> 'w"

definition platformPaper :: string where
  "platformPaper = ''PAPER''"

definition isDirectDownloadURL :: "string \<Rightarrow> bool" where
  "isDirectDownloadURL rawURL =
     (case url_Parse rawURL of
        Inl _ \<Rightarrow> False
      | Inr parsed \<Rightarrow>
          let path = ToLower (u_Path parsed)
          in list_ex (HasSuffix path) [''.jar'', ''.zip'', ''.tar.gz'', ''.tgz''] \<or>
             HasSuffix path ''/download'' \<or> Contains path ''/download/'')"

definition extractPaperDownload :: "string \<Rightarrow> HangarVersion \<Rightarrow> string \<Rightarrow> string \<Rightarrow> string \<times> string" where
  "extractPaperDownload baseURL v owner slug =
     (case hv_Downloads v platformPaper of
        None \<Rightarrow> ([], [])
      | Some downloadInfo \<Rightarrow>
          let downloadURL =
                (if di_DownloadURL downloadInfo \<noteq> [] then di_DownloadURL downloadInfo
                 else if di_ExternalURL downloadInfo \<noteq> [] \<and> isDirectDownloadURL (di_ExternalURL downloadInfo)
                 then di_ExternalURL downloadInfo else []);
              hash = (case di_FileInfo_SHA256Hash downloadInfo of None \<Rightarrow> [] | Some s \<Rightarrow> s)
          in (if downloadURL = []
              then baseURL @ ''/projects/'' @ owner @ ''/'' @ slug @ ''/versions/'' @ hv_Name v @ ''/PAPER/download''
              else downloadURL, hash))"

definition hangar_paperVersions :: "HangarVersion \<Rightarrow> string list" where
  "hangar_paperVersions v = (case hv_PlatformDependencies v platformPaper of None \<Rightarrow> [] | Some deps \<Rightarrow> deps)"

definition hangar_minecraftVersions :: "HangarVersion \<Rightarrow> string list" where
  "hangar_minecraftVersions v = (if hv_GameVersions v = [] then hangar_paperVersions v else hv_GameVersions v)"

definition hangar_version :: "string \<Rightarrow> HangarNamespace \<Rightarrow> HangarVersion \<Rightarrow> PluginVersion" where
  "hangar_version baseURL ns v =
     (let (downloadURL, hash) = extractPaperDownload baseURL v (hn_Owner ns) (hn_Slug ns)
      in \<lparr>pv_Version = hv_Name v, pv_ReleaseDate = hv_CreatedAt v, pv_PaperVersions = hangar_paperVersions v,
          pv_MinecraftVersions = hangar_minecraftVersions v, pv_DownloadURL = downloadURL, pv_Hash = hash\<rparr>)"

definition HangarClient_GetVersions :: "'w hangar_api \<Rightarrow> string \<Rightarrow> string \<Rightarrow> 'w \<Rightarrow> PluginVersion list result \<times> 'w" where
  "HangarClient_GetVersions api baseURL project w =
     (case ha_GetProject api project w of
        (Inl err, w') \<Rightarrow> (Inl (Wrap err ''failed to get project''), w')
      | (Inr ns, w') \<Rightarrow>
          (case ha_ListVersions api (hn_Owner ns) (hn_Slug ns) 500 w' of
             (Inl err, w'') \<Rightarrow> (Inl (Wrap err ''failed to list versions''), w'')
           | (Inr versionsList, w'') \<Rightarrow> (Inr (map (hangar_version baseURL ns) versionsList), w'')))"

definition HangarClient_GetCompatibility ::
  "'w hangar_api \<Rightarrow> string \<Rightarrow> string \<Rightarrow> 'w \<Rightarrow> CompatibilityInfo result \<times> 'w" where
  "HangarClient_GetCompatibility api project version w =
     (case ha_GetVersion api project version w of
        (Inl err, w') \<Rightarrow> (Inl (Wrap err ''failed to get version''), w')
      | (Inr v, w') \<Rightarrow>
          (Inr \<lparr>ci_MinecraftVersions = hangar_minecraftVersions v, ci_PaperVersions = hangar_paperVersions v\<rparr>, w'))"

definition NewHangarClient :: "'w hangar_api \<Rightarrow> string \<Rightarrow> 'w pluginClient" where
  "NewHangarClient api baseURL =
     \<lparr>pc_GetVersions = HangarClient_GetVersions api baseURL, pc_GetCompatibility = HangarClient_GetCompatibility api\<rparr>"

subsection \<open>The pages of tags\<close>

text \<open>A page is served when its URL is well-formed, the registry answers with status 200, and the body is read
  completely and decodes. The listed names are those on the chain of pages.\<close>

definition served_page :: "'w web \<Rightarrow> string \<Rightarrow> 'w \<Rightarrow> TagsResponse \<Rightarrow> 'w \<Rightarrow> bool" where
  "served_page h url w page w' \<longleftrightarrow> (\<exists>u resp body. url_Parse url = Inr u \<and> w_Do h url w = (Inr resp, w') \<and>
     resp_StatusCode resp = 200 \<and> resp_Body resp = (body, None) \<and> w_json_TagsResponse h body = Inr page)"

lemma fetch_page_served: "fetch_page h url w = (Inr page, w') \<longleftrightarrow> served_page h url w page w'"
  by (auto simp: fetch_page_def served_page_def prod_eq_iff split: sum.splits prod.splits option.splits if_splits)

inductive page_chain :: "'w web \<Rightarrow> string \<Rightarrow> 'w \<Rightarrow> string list \<Rightarrow> 'w \<Rightarrow> bool" for h where
  last_page: "page_chain h [] w [] w"
| next_page: "url \<noteq> [] \<Longrightarrow> served_page h url w page w1 \<Longrightarrow> page_chain h (tr_Next page) w1 tags w2 \<Longrightarrow>
    page_chain h url w (map tg_Name (tr_Results page) @ tags) w2"

lemma page_chain_listed: "page_chain h url w tags w' \<Longrightarrow> tag_pages h url acc w = Some (Inr (acc @ tags), w')"
  by (induction arbitrary: acc rule: page_chain.induct) (subst tag_pages.simps, simp add: fetch_page_served [symmetric])+

definition listed_by_chain :: "'w web \<Rightarrow> string \<Rightarrow> string list \<Rightarrow> 'w \<Rightarrow> string list result \<times> 'w \<Rightarrow> bool" where
  "listed_by_chain h url acc w r =
     (case fst r of Inl _ \<Rightarrow> True | Inr ts \<Rightarrow> \<exists>tags. ts = acc @ tags \<and> page_chain h url w tags (snd r))"

lemma listed_step:
  assumes "url \<noteq> []" "fetch_page h url w = (Inr page, w1)"
    "listed_by_chain h (tr_Next page) (acc @ map tg_Name (tr_Results page)) w1 r"
  shows "listed_by_chain h url acc w r"
  using assms(3) next_page [OF assms(1) assms(2) [unfolded fetch_page_served]] by (auto simp: listed_by_chain_def split: sum.splits)

lemma tag_pages_chain: "tag_pages h url acc w = Some r \<Longrightarrow> listed_by_chain h url acc w r"
proof (rule tag_pages.raw_induct [of listed_by_chain])
  fix loop and h :: "'b web" and url tags w r
  assume IH: "\<And>h url tags w r. loop h url tags w = Some r \<Longrightarrow> listed_by_chain h url tags w r"
    and eq: "(if url = [] then Some (Inr tags, w)
      else case fetch_page h url w of (Inl err, w') \<Rightarrow> Some (Inl err, w')
           | (Inr tagsResp, w') \<Rightarrow> loop h (tr_Next tagsResp) (tags @ map tg_Name (tr_Results tagsResp)) w') = Some r"
  show "listed_by_chain h url tags w r"
  proof (cases "url = []")
    case True
    with eq show ?thesis by (auto simp: listed_by_chain_def intro: last_page)
  next
    case False
    obtain q w1 where q: "fetch_page h url w = (q, w1)" by (cases "fetch_page h url w")
    show ?thesis
    proof (cases q)
      case (Inl err)
      with False q eq show ?thesis by (auto simp: listed_by_chain_def)
    next
      case (Inr page)
      with False q eq show ?thesis by (intro listed_step [OF False q [unfolded Inr]] IH) simp
    qed
  qed
qed

lemma tag_pages_cycle:
  assumes "url \<in> U" "\<And>v w. v \<in> U \<Longrightarrow> v \<noteq> [] \<and> (\<exists>page w'. served_page h v w page w' \<and> tr_Next page \<in> U)"
  shows "tag_pages h url acc w = None"
proof -
  have "\<not> (u \<in> U \<and> h = g)" if "tag_pages g u acc w = Some r" for g u acc w r
  proof (rule tag_pages.raw_induct [of "\<lambda>g u acc w r. \<not> (u \<in> U \<and> h = g)", OF _ that])
    fix loop g u tags w r
    assume IH: "\<And>g u tags w r. loop g u tags w = Some r \<Longrightarrow> \<not> (u \<in> U \<and> h = g)"
      and eq: "(if u = [] then Some (Inr tags, w)
        else case fetch_page g u w of (Inl err, w') \<Rightarrow> Some (Inl err, w')
             | (Inr tagsResp, w') \<Rightarrow> loop g (tr_Next tagsResp) (tags @ map tg_Name (tr_Results tagsResp)) w') = Some r"
    show "\<not> (u \<in> U \<and> h = g)"
    proof
      assume u: "u \<in> U \<and> h = g"
      then obtain page w' where "u \<noteq> []" "fetch_page h u w = (Inr page, w')" "tr_Next page \<in> U"
        using assms(2) [of u w] by (auto simp: fetch_page_served)
      with eq u have "loop g (tr_Next page) (tags @ map tg_Name (tr_Results page)) w' = Some r" by auto
      with IH u \<open>tr_Next page \<in> U\<close> show False by blast
    qed
  qed
  with assms(1) show ?thesis by (metis option.exhaust)
qed

subsection \<open>Properties\<close>

text \<open>C30. The tags listed for a repository are exactly the names on the pages that are linked from the first one,
  in order: the listing succeeds with them if and only if every page up to one without a link is
  answered with status 200, is read completely and decodes. If the links never leave a set of pages
  that are always served, as when they form a cycle, the listing never returns.\<close>

theorem ListTags_pages:
  "(ListTags h baseURL repository n w = Some (Inr tags, w') \<longleftrightarrow> page_chain h (tags_url baseURL repository n) w tags w') \<and>
   (\<forall>U. tags_url baseURL repository n \<in> U \<and>
      (\<forall>v \<in> U. \<forall>w. v \<noteq> [] \<and> (\<exists>page w'. served_page h v w page w' \<and> tr_Next page \<in> U)) \<longrightarrow>
      ListTags h baseURL repository n w = None)"
proof (intro conjI allI impI)
  have "page_chain h (tags_url baseURL repository n) w tags w'" if "ListTags h baseURL repository n w = Some (Inr tags, w')"
    using tag_pages_chain [OF that [unfolded ListTags_def]] by (simp add: listed_by_chain_def)
  then show "ListTags h baseURL repository n w = Some (Inr tags, w') \<longleftrightarrow> page_chain h (tags_url baseURL repository n) w tags w'"
    using page_chain_listed [of h "tags_url baseURL repository n" w tags w' "[]"] by (auto simp: ListTags_def)
next
  fix U assume U: "tags_url baseURL repository n \<in> U \<and>
    (\<forall>v \<in> U. \<forall>w. v \<noteq> [] \<and> (\<exists>page w'. served_page h v w page w' \<and> tr_Next page \<in> U))"
  show "ListTags h baseURL repository n w = None"
    unfolding ListTags_def by (rule tag_pages_cycle [of _ U]) (use U in blast)+
qed

text \<open>A registry with two pages, and one whose two pages link to each other.\<close>

definition demo_page :: "string \<Rightarrow> string \<Rightarrow> TagsResponse" where
  "demo_page tg link = \<lparr>tr_Count = 2, tr_Next = link, tr_Previous = [], tr_Results = [\<lparr>tg_Name = tg\<rparr>]\<rparr>"

definition demo_web :: "(string \<Rightarrow> TagsResponse result) \<Rightarrow> unit web" where
  "demo_web json = \<lparr>w_Do = (\<lambda>url w. (Inr \<lparr>resp_StatusCode = 200, resp_ContentLength = 0, resp_Body = (url, None)\<rparr>, w)),
     w_Create = (\<lambda>_ w. (Inr (), w)), w_Write = (\<lambda>_ _ w. (Inr (), w)), w_json_TagsResponse = json\<rparr>"

definition two_pages :: "string \<Rightarrow> TagsResponse result" where
  "two_pages body = Inr (if body = ''https://r/2'' then demo_page ''1.21.4-91'' [] else demo_page ''latest'' ''https://r/2'')"

lemma demo_page_link: "tr_Next (demo_page tg link) \<in> insert link A" "tr_Next (demo_page tg link) \<in> {v, link}"
  by (simp_all add: demo_page_def)

definition cycle_pages :: "string \<Rightarrow> TagsResponse result" where
  "cycle_pages body = Inr (demo_page ''latest''
     (if body = ''https://r/2'' then ''https://r/repositories/a/b/tags?page_size=5'' else ''https://r/2''))"

lemma demo_fetch:
  "\<exists>u. url_Parse url = Inr u \<Longrightarrow> json url = Inr page \<Longrightarrow> served_page (demo_web json) url w page ()"
  by (auto simp: served_page_def demo_web_def)

lemma demo_url: "tags_url ''https://r'' ''a/b'' 5 = ''https://r/repositories/a/b/tags?page_size=5''"
  by (simp add: tags_url_def itoa_def nat_dec.simps char_of_def bit_Suc_0_iff)

lemma demo_urls_parse:
  "\<exists>u. url_Parse ''https://r/2'' = Inr u" "\<exists>u. url_Parse ''https://r/repositories/a/b/tags?page_size=5'' = Inr u"
  by (simp_all add: net_eval)

theorem ListTags_pages_witness:
  "ListTags (demo_web two_pages) ''https://r'' ''a/b'' 5 () = Some (Inr [''latest'', ''1.21.4-91''], ()) \<and>
   ListTags (demo_web cycle_pages) ''https://r'' ''a/b'' 5 () = None"
proof
  let ?first = "tags_url ''https://r'' ''a/b'' 5"
  have first: "served_page (demo_web two_pages) ?first () (demo_page ''latest'' ''https://r/2'') ()"
    and second: "served_page (demo_web two_pages) ''https://r/2'' () (demo_page ''1.21.4-91'' []) ()"
    by (rule demo_fetch, simp add: demo_url demo_urls_parse, simp add: demo_url two_pages_def)
      (rule demo_fetch, rule demo_urls_parse, simp add: two_pages_def)
  show "ListTags (demo_web two_pages) ''https://r'' ''a/b'' 5 () = Some (Inr [''latest'', ''1.21.4-91''], ())"
    unfolding ListTags_pages [THEN conjunct1]
    using next_page [OF _ first, of "[''1.21.4-91'']" "()"] next_page [OF _ second, of "[]" "()"] last_page [of "demo_web two_pages" "()"]
    by (simp add: demo_page_def demo_url)
  have one: "served_page (demo_web cycle_pages) ?first w (demo_page ''latest'' ''https://r/2'') ()"
    and two: "served_page (demo_web cycle_pages) ''https://r/2'' w (demo_page ''latest'' ?first) ()" for w
    by (rule demo_fetch, simp add: demo_url demo_urls_parse, simp add: demo_url cycle_pages_def)
      (rule demo_fetch, rule demo_urls_parse, simp add: demo_url cycle_pages_def)
  have served: "\<exists>page w'. served_page (demo_web cycle_pages) v w page w' \<and> tr_Next page \<in> {?first, ''https://r/2''}"
    if "v = ?first \<or> v = ''https://r/2''" for v w
    using that
  proof
    assume v: "v = ?first"
    show ?thesis unfolding v by (intro exI conjI, rule one, rule demo_page_link(2))
  next
    assume v: "v = ''https://r/2''"
    show ?thesis unfolding v by (intro exI conjI, rule two, rule demo_page_link(1))
  qed
  have "\<forall>v \<in> {?first, ''https://r/2''}. \<forall>w. v \<noteq> [] \<and>
      (\<exists>page w'. served_page (demo_web cycle_pages) v w page w' \<and> tr_Next page \<in> {?first, ''https://r/2''})"
  proof (intro ballI allI)
    fix v w assume "v \<in> {?first, ''https://r/2''}"
    then have v: "v = ?first \<or> v = ''https://r/2''" by (simp only: insert_iff empty_iff simp_thms)
    then have "v \<noteq> []" by (elim disjE) (simp_all add: demo_url)
    then show "v \<noteq> [] \<and> (\<exists>page w'. served_page (demo_web cycle_pages) v w page w' \<and> tr_Next page \<in> {?first, ''https://r/2''})"
      using served [OF v] by (rule conjI)
  qed
  then show "ListTags (demo_web cycle_pages) ''https://r'' ''a/b'' 5 () = None"
    by (intro ListTags_pages [THEN conjunct2, THEN spec, THEN mp] conjI) (rule insertI1)
qed

lemma extractBuildInfo_last:
  "GetPaperBuild api version w = (Inr b, w') \<longleftrightarrow>
     (\<exists>builds. pa_GetBuilds api ''paper'' version w = (Inr builds, w') \<and> builds \<noteq> [] \<and>
        b = \<lparr>bi_Version = version, bi_Build = b3_ID (last builds), bi_DownloadURL = b3_GetDownloadURL (last builds),
            bi_SHA256 = b3_GetDownloadSHA256 (last builds)\<rparr>)"
  by (auto simp: GetPaperBuild_def extractBuildInfo_def last_conv_nth Let_def split: sum.splits prod.splits)

text \<open>A failed read leaves the bytes received so far in the file, and what is written is not compared with the checksum of
  the build.\<close>

lemma saveToFile_partial:
  assumes "w_Create h p w = (Inr (), w1)" "w_Write h p bytes w1 = (Inr (), w2)"
  shows "saveToFile h (bytes, Some err) p w = (Inl (Wrap err ''failed to write file''), w2)"
  using assms by (simp add: saveToFile_def)

text \<open>Every version Hangar lists becomes a version for the solver, in the same order. It has a download address if
  and only if Hangar lists a download for Paper: the one on Hangar, else an external address that
  points to a file, else the endpoint of the API; a web page is never taken for a download. A version
  without game versions takes the Paper versions, so it is without metadata only if both are missing.\<close>

theorem Hangar_versions:
  assumes "pc_GetVersions (NewHangarClient api baseURL) project w = (Inr vs, w')"
  shows "\<exists>ns listed w1. ha_GetProject api project w = (Inr ns, w1) \<and>
    ha_ListVersions api (hn_Owner ns) (hn_Slug ns) 500 w1 = (Inr listed, w') \<and>
    list_all2 (\<lambda>v p. pv_Version p = hv_Name v \<and>
      (pv_DownloadURL p = [] \<longleftrightarrow> hv_Downloads v platformPaper = None) \<and>
      (\<forall>d. hv_Downloads v platformPaper = Some d \<longrightarrow>
         pv_DownloadURL p = di_DownloadURL d \<or>
         pv_DownloadURL p = di_ExternalURL d \<and> isDirectDownloadURL (di_ExternalURL d) \<or>
         HasSuffix (pv_DownloadURL p) ''/PAPER/download'') \<and>
      (pv_MinecraftVersions p = [] \<longleftrightarrow> hv_GameVersions v = [] \<and> pv_PaperVersions p = [])) listed vs"
proof -
  have one: "pv_Version p = hv_Name v \<and> (pv_DownloadURL p = [] \<longleftrightarrow> hv_Downloads v platformPaper = None) \<and>
      (\<forall>d. hv_Downloads v platformPaper = Some d \<longrightarrow>
         pv_DownloadURL p = di_DownloadURL d \<or>
         pv_DownloadURL p = di_ExternalURL d \<and> isDirectDownloadURL (di_ExternalURL d) \<or>
         HasSuffix (pv_DownloadURL p) ''/PAPER/download'') \<and>
      (pv_MinecraftVersions p = [] \<longleftrightarrow> hv_GameVersions v = [] \<and> pv_PaperVersions p = [])"
    if "p = hangar_version baseURL ns v" for ns v p
    using that
    by (auto simp: hangar_version_def extractPaperDownload_def hangar_minecraftVersions_def hangar_paperVersions_def Let_def
        HasSuffix_iff split: option.splits)
  show ?thesis
    using assms one
    by (fastforce simp: NewHangarClient_def HangarClient_GetVersions_def list_all2_conv_all_nth split: prod.splits sum.splits)
qed

definition demo_hangar :: "unit hangar_api" where
  "demo_hangar = \<lparr>ha_GetProject = (\<lambda>_ w. (Inr \<lparr>hn_Owner = ''o'', hn_Slug = ''s''\<rparr>, w)),
     ha_ListVersions = (\<lambda>_ _ _ w. (Inr [\<lparr>hv_Name = ''1.0'', hv_CreatedAt = 0, hv_GameVersions = [], hv_PlatformDependencies = Map.empty,
       hv_Downloads = [platformPaper \<mapsto> \<lparr>di_DownloadURL = [], di_ExternalURL = ''https://g/releases'', di_FileInfo_SHA256Hash = None\<rparr>]\<rparr>], w)),
     ha_GetVersion = (\<lambda>_ _ w. (Inl (New ''unused''), w))\<rparr>"

theorem Hangar_versions_witness:
  "\<exists>vs. fst (pc_GetVersions (NewHangarClient demo_hangar ''https://h'') ''p'' ()) = Inr vs \<and>
     length vs = 1 \<and> (\<forall>p \<in> set vs. pv_DownloadURL p \<noteq> [])"
proof -
  obtain vs where vs: "pc_GetVersions (NewHangarClient demo_hangar ''https://h'') ''p'' () = (Inr vs, ())"
    by (auto simp: NewHangarClient_def HangarClient_GetVersions_def demo_hangar_def)
  from Hangar_versions [OF vs] show ?thesis
    using vs by (auto simp: demo_hangar_def list_all2_Cons1)
qed

end
