(* ===== verification/Spec2Isabelle.thy ===== *)
theory Spec2Isabelle imports PluginController RestRouter Startup Metrics SseBroker FormRenderer RepoClients begin

text \<open>
  \<^bold>\<open>A verification of the Minecraft operator.\<close>

  The repository is a Kubernetes operator for PaperMC servers and their plugins. Two custom
  resources, PaperMCServer and Plugin, are admitted by webhooks and acted on by four reconcilers:

    \<^item> the \<^emph>\<open>server\<close> reconciler decides which Paper version and which plugin versions a server shall
      run and keeps the StatefulSet, Service, ConfigMap, network policy and gateway routes;
    \<^item> the \<^emph>\<open>plugin\<close> reconciler fetches and caches the metadata of a plugin, lists the servers it
      matches and conducts its deletion;
    \<^item> the \<^emph>\<open>update\<close> reconciler applies pending versions in the maintenance window: backup, plugin
      downloads, graceful shutdown, new image, restart;
    \<^item> the \<^emph>\<open>backup\<close> reconciler takes and prunes volume snapshots by schedule and on demand.

  They interact through the status and the annotations of the resources only: the server reconciler
  writes the desired version that the update reconciler applies, the plugin reconciler marks entries
  of a server's status that the update reconciler deletes and the plugin reconciler then reads back.
  The service layer is the back end of the REST API and of the web pages and acts through the
  same annotations.

  \<^bold>\<open>Conventions.\<close> A Go struct is a record, its fields in the order of the source behind a short
  prefix; a pointer is an option; an error is a value of the type \<open>err\<close> (theory \<open>Prelude\<close>) and a
  function that may fail returns \<open>err + 'a\<close>. Functions keep their names; a name that two packages
  or a HOL constant share is qualified by its receiver. Part of a long function that is its own
  definition is named after what it does. Numbers are unbounded where the code cannot overflow and
  wrap explicitly where it can (\<open>wrap32\<close>, \<open>wrap64\<close>, \<open>time_Sub\<close>); SHA-256 is on 32-bit words.
  Stateful code is in the state monad. Every call that leaves the process is made through a record of
  operations on an unknown world (\<open>ext\<close> in \<open>Effects\<close>, \<open>sext\<close> in \<open>ServerEffects\<close>) and leaves an event
  in the trace of the run; properties of whole reconciliations are statements on traces, proved by
  the rules of the trace logic (\<open>tr\<close>, \<open>emits\<close>, \<open>only\<close>, \<open>keeps\<close>) of \<open>Effects\<close>.

  \<^bold>\<open>Theories and what they show\<close> (sources relative to \<^verbatim>\<open>src/\<close>).

    \<^item> \<open>Prelude\<close>: errors, Go strings, times and durations, generic lemmas.
    \<^item> \<open>ApiTypes\<close>, \<open>K8sTypes\<close>: the structs of \<^verbatim>\<open>api/v1beta1/*_types.go\<close> and the managed objects.
    \<^item> \<open>Version\<close>, \<open>Solver\<close> (\<^verbatim>\<open>pkg/version\<close>, \<^verbatim>\<open>pkg/solver\<close>): the plugin search returns a newest
      version that is old enough and compatible with every server, the Paper search a newest that every
      plugin supports, and both fail exactly when there is none; a pin is returned unchecked. Where the
      Paper search differs from the documentation is stated with its theorem.
    \<^item> \<open>PluginClient\<close> (\<^verbatim>\<open>pkg/plugins/cache.go\<close>): what the cache may return, and for how long.
    \<^item> \<open>Regexp\<close>, \<open>Submatch\<close>, \<open>GoNet\<close>, \<open>Sha256\<close>: the parts of the Go library the code relies on, with a
      derivative matcher proved equal to the language of the pattern.
    \<^item> \<open>Webhooks\<close> (\<^verbatim>\<open>api/v1beta1/*_webhook.go\<close>): the admitted resources are exactly those that satisfy
      a declarative predicate.
    \<^item> \<open>PluginURL\<close> (\<^verbatim>\<open>pkg/plugins/url.go\<close>): which hosts are blocked; an accepted URL is https and its
      host, in the notations the theorem lists, is in none of the non-public CIDR blocks and no internal
      name; the spellings that slip through; a download is complete and bounded.
    \<^item> \<open>Effects\<close>: world, traces, trace logic; the memory API server of the witnesses.
    \<^item> \<open>Rcon\<close> (\<^verbatim>\<open>pkg/rcon/client.go\<close>, \<^verbatim>\<open>pkg/backup/hooks.go\<close>): the shutdown script; the hooks over the
      locale \<open>commander\<close>, which the client interprets.
    \<^item> \<open>CronTable\<close>: the table of cron entries as a step relation; the locale \<open>cron_table\<close> is the contract
      both reconcilers interpret.
    \<^item> \<open>BackupController\<close> (\<^verbatim>\<open>backup_controller.go\<close>, \<^verbatim>\<open>pkg/backup/snapshotter.go\<close>): saving is switched off
      before and on after a snapshot on every path; retention keeps the newest; a scheduled trigger is
      consumed only by success.
    \<^item> \<open>UpdateController\<close> (\<^verbatim>\<open>update_controller.go\<close>): an update needs permission and a backup, its phases
      come in order from the backup to the restart, the maintenance window is exact, every pending
      plugin is downloaded and checked against its hash when one is known.
    \<^item> \<open>ServerEffects\<close>, \<open>ManagedObjects\<close>: the typed client; the get, create, adopt, update or delete
      pattern with the locale \<open>managed_object\<close>, interpreted for each kind, and its convergence.
    \<^item> \<open>VersionResolution\<close>, \<open>ServerController\<close> (\<^verbatim>\<open>papermcserver_controller.go\<close>): a desired version is never
      a downgrade nor incompatible; written pod images follow; Service ports are well formed unless RCON
      uses the game port; which deployed versions are read back.
    \<^item> \<open>NetworkPolicies\<close>, \<open>GatewayRoutes\<close>, \<open>ConfigInjector\<close>: what is reachable, what is exposed, which
      files are written, and that generated names fit.
    \<^item> \<open>Selector\<close>, \<open>PluginController\<close> (\<^verbatim>\<open>pkg/selector\<close>, \<^verbatim>\<open>plugin_controller.go\<close>): the finalizer is removed
      only after every matched server has deleted the JAR or timed out, and is removed in the end.
    \<^item> \<open>GoDuration\<close>: \<^verbatim>\<open>time.ParseDuration\<close> with its 64-bit counters and the rounding of \<^verbatim>\<open>float64\<close>; printed
      sums of units are read back, every result is in range.
    \<^item> \<open>Services\<close> (\<^verbatim>\<open>pkg/service\<close>): the data, list, create, update and action methods; a request to update at
      once is accepted by the update reconciler, an update delay reaches the object.
    \<^item> \<open>ApiTransport\<close>, \<open>RestApi\<close> (\<^verbatim>\<open>api/openapi/generated\<close>, \<^verbatim>\<open>pkg/api/handlers.go\<close>): what each request may write,
      what an update changes, how the checks of the API relate to those of the webhooks (after the defaults of
      the CRD, \<open>with_defaults\<close>).
    \<^item> \<open>RestRouter\<close> (\<^verbatim>\<open>api/openapi/generated/api.gen.go\<close>): routing and binding of REST requests; every operation is
      reached under its URL, and method and URL bound what a request writes.
    \<^item> \<open>RepoClients\<close> (\<^verbatim>\<open>pkg/registry\<close>, \<^verbatim>\<open>pkg/paper\<close>, \<^verbatim>\<open>pkg/plugins/hangar.go\<close>): which image tags are listed, which
      build is chosen, which versions a plugin has.
    \<^item> \<open>SchemaParser\<close>, \<open>FormRenderer\<close> (\<^verbatim>\<open>pkg/webui/schema\<close>): forms do not depend on the order of a map, the parser
      returns on well-founded references, no value escapes its place in the HTML.
    \<^item> \<open>WebPages\<close>, \<open>WebServer\<close> (\<^verbatim>\<open>pkg/webui\<close>): what the pages show, what each request of the web pages may
      write, and that a browser that follows the rendered addresses polls the solver's status at most 31 times.
    \<^item> \<open>SseBroker\<close> (\<^verbatim>\<open>pkg/webui/sse.go\<close>): the goroutines of the event stream as a step relation; no run sends on
      or closes a closed channel, and no queue exceeds its capacity.
    \<^item> \<open>CrdManager\<close>, \<open>Startup\<close> (\<^verbatim>\<open>internal/crdmanager/manager.go\<close>, \<^verbatim>\<open>cmd/main.go\<close>): the manager starts last, after the
      definitions are established and every controller is set up.
    \<^item> \<open>Metrics\<close> (\<^verbatim>\<open>pkg/metrics/metrics.go\<close>): the counters agree with the calls made.
    \<^item> this theory: runs in which the reconcilers interleave, and the invariant of the cron tables.

  \<^bold>\<open>Loops.\<close> Loops over data are structural recursion. The wait for a pod polls every five seconds for
  at most ten minutes: \<open>wait_loop\<close> gets 121 units of fuel for at most 120 ticks, so it never ends for
  want of fuel. The status retry has its three attempts, the IPv6 parser the eight groups of an
  address as fuel. The search for the last firing of a schedule may run forever; it is a
  \<open>partial_function\<close> whose value \<open>None\<close> is that it does not return, and both that it returns for
  a schedule that advances and that it hangs for one that never fires are proved. The loop over the
  pages of image tags, the poll for established definitions and the start of the manager are
  options in the same sense. The form parser has the depth of references as fuel (\<open>ui_fuel\<close> at the web
  server); \<open>ParseSchema_terminates\<close> says that well-founded references have a fuel that is enough.

  \<^bold>\<open>Parameters.\<close> Code outside the repository is an argument: the Kubernetes client and the pure
  functions of its libraries, the RCON connection, the cron library, HTTP, ZIP, YAML and JSON
  readers, the semantic-version library (\<open>semver_order\<close> says that its comparison is a total
  preorder), \<^verbatim>\<open>sort.Slice\<close> where its instability matters, and the iteration order of Go maps
  (\<open>k_range\<close>). Hypotheses on them are named predicates with a concrete instance in the witnesses.

  \<^bold>\<open>Not modelled.\<close> Logging; panics, except those of channels in \<open>SseBroker\<close>; the streaming of a command
  into a pod (\<^verbatim>\<open>pod_executor.go\<close>, I/O of the Kubernetes client: a parameter); the wrapper \<^verbatim>\<open>pkg/cron\<close>, which
  only forwards to the cron library; HTML templates, the deep copies and the JSON encoding, which are
  generated; the printing of calendar dates; test doubles. Of the metrics, the durations are arguments.
  Concurrency inside one reconciliation does not occur; between reconciliations each run is atomic
  except that every read of the API may return anything.
\<close>

subsection \<open>Runs of the operator\<close>

text \<open>
  The states that reconciliations of the two reconcilers and the callbacks of the backup schedule
  reach, in any order and for any requests.
\<close>

inductive reachable :: "('w, 'sched) ext \<Rightarrow> 'w sys \<Rightarrow> 'w sys \<Rightarrow> bool" for x and s0 where
  start: "reachable x s0 s0"
| update: "reachable x s0 s \<Longrightarrow> run_state (UpdateReconciler_Reconcile x ns n) s = (res, s') \<Longrightarrow> reachable x s0 s'"
| backup: "reachable x s0 s \<Longrightarrow> run_state (BackupReconciler_Reconcile x ns n) s = (res', s') \<Longrightarrow> reachable x s0 s'"
| cron: "reachable x s0 s \<Longrightarrow> b_cronEntries s key = Some e \<Longrightarrow>
    run_state (backup_cron_callback x key) s = (u, s') \<Longrightarrow> reachable x s0 s'"

inductive_cases reachable_lastE: "reachable x s0 s"

lemma reachable_in_step:
  assumes "reachable x s0 s" and "table_field tbl"
    and "\<And>ns n. in_step c tbl (UpdateReconciler_Reconcile x ns n)"
    and "\<And>ns n. in_step c tbl (BackupReconciler_Reconcile x ns n)"
  shows "\<exists>u. trace s = trace s0 @ u \<and> table_run c (tbl s0) (calls_of c u) (tbl s)"
  using assms(1)
proof (induction rule: reachable.induct)
  case start
  show ?case by (auto intro: table_run.stay)
next
  case (update s ns n res s')
  then show ?case using in_step_extend [OF _ _ assms(3)] by metis
next
  case (backup s ns n res s')
  then show ?case using in_step_extend [OF _ _ assms(4)] by metis
next
  case (cron s key e u s')
  have "in_step c tbl (backup_cron_callback x key)"
    unfolding backup_cron_callback_def now_op_def by (intro in_step_rules; simp add: assms)
  with cron show ?case using in_step_extend by metis
qed

definition started :: "'w sys \<Rightarrow> bool" where
  "started s \<longleftrightarrow> trace s = [] \<and> u_cronEntries s = Map.empty \<and> b_cronEntries s = Map.empty"

definition windowed_server :: PaperMCServer where
  "windowed_server = zero_server\<lparr>
     sv_Meta := zero_meta\<lparr>m_Name := ''mc'', m_Namespace := ''games''\<rparr>,
     sv_Spec := zero_server_spec\<lparr>ss_UpdateSchedule := \<lparr>us_CheckCron = [],
        us_MaintenanceWindow = \<lparr>mw_Cron = ''0 3 * * *'', mw_Enabled = True\<rparr>\<rparr>\<rparr>\<rparr>"

definition demo_window_run :: "unit sys" where
  "demo_window_run =
     snd (run_state (UpdateReconciler_Reconcile (demo_ext windowed_server) ''games'' ''mc'') demo_sys)"

lemma demo_window_run_trace:
  "calls_of UpdateCron (trace demo_window_run) = [E_CronAdd UpdateCron ''0 3 * * *'' (Inr 1)]"
  "calls_of BackupCron (trace demo_window_run) = []"
  "u_cronEntries demo_window_run ''games/mc'' = Some \<lparr>ce_ID = 1, ce_Spec = ''0 3 * * *''\<rparr>"
  unfolding demo_window_run_def by (simp_all add: demo_eval windowed_server_def)

subsection \<open>Properties\<close>

text \<open>
  C10. Cron jobs. However the reconciliations of the update and the backup reconciler interleave, the
  jobs registered at each reconciler's scheduler are the entries of its table, and no two servers
  share a job: no job of a removed or changed schedule is left behind, and none is lost. The
  schedulers are assumed to number their jobs without repetition.
\<close>

theorem cron_jobs_match_tables:
  assumes "started s0" and "k_backupHasCron x" and "reachable x s0 s"
    and "distinct (issued (calls_of UpdateCron (trace s)))" and "distinct (issued (calls_of BackupCron (trace s)))"
  shows "table_ok (u_cronEntries s) (calls_of UpdateCron (trace s)) \<and>
    table_ok (b_cronEntries s) (calls_of BackupCron (trace s))"
proof -
  have ok: "table_ok (tbl s) (calls_of c (trace s))"
    if "\<exists>u. trace s = trace s0 @ u \<and> table_run c (tbl s0) (calls_of c u) (tbl s)"
      "tbl s0 = Map.empty" "distinct (issued (calls_of c (trace s)))" for c tbl
    using that table_run_ok [OF _ table_ok_start] assms(1) by (auto simp: started_def)
  have "table_ok (u_cronEntries s) (calls_of UpdateCron (trace s))"
    by (intro ok reachable_in_step [OF assms(3)] in_step_UpdateReconciler in_step_BackupReconciler backup_leaves_update_table update_leaves_backup_table
        update_cron.remove_in_step update_cron.manage_in_step) (use assms in \<open>auto simp: started_def\<close>)
  moreover have "table_ok (b_cronEntries s) (calls_of BackupCron (trace s))"
    by (intro ok reachable_in_step [OF assms(3)] in_step_UpdateReconciler in_step_BackupReconciler backup_leaves_update_table update_leaves_backup_table
        backup_cron.remove_in_step backup_cron.manage_in_step) (use assms in \<open>auto simp: started_def\<close>)
  ultimately show ?thesis by blast
qed

theorem cron_jobs_match_tables_witness:
  "u_cronEntries demo_window_run ''games/mc'' = Some \<lparr>ce_ID = 1, ce_Spec = ''0 3 * * *''\<rparr> \<and>
   table_ok (u_cronEntries demo_window_run) [E_CronAdd UpdateCron ''0 3 * * *'' (Inr 1)]"
proof -
  have "started demo_sys" by (simp add: started_def demo_sys_def)
  moreover have "reachable (demo_ext windowed_server) demo_sys demo_window_run"
    unfolding demo_window_run_def by (rule reachable.update [OF reachable.start surjective_pairing])
  ultimately show ?thesis
    using cron_jobs_match_tables [of demo_sys "demo_ext windowed_server" demo_window_run]
    by (simp add: demo_window_run_trace)
qed

end
